(* ===== verification/Go_Base.thy ===== *)
theory Go_Base
  imports Main "HOL-Library.Sublist" "HOL-Library.Monad_Syntax"
begin

text \<open>
  Prelude of the development: the part of Go's standard library that the modelled code uses
  (\<open>strings\<close>, \<open>strconv\<close>) and the lemmas on lists and strings that the component
  theories share.

  A Go string is a list of bytes, and so is an Isabelle string (a char is eight bits), so
  \<open>len\<close> is \<^const>\<open>length\<close> and slicing is \<^const>\<open>take\<close> and
  \<^const>\<open>drop\<close>. Case mapping and white space are modelled on ASCII: a byte above 127 is
  left unchanged by \<open>to_lower\<close>, \<open>to_upper\<close> and \<open>trim_space\<close>, where Go
  would decode UTF-8 first.
\<close>

named_theorems go_str \<open>rewrite rules for the string operations\<close>
named_theorems step_simps \<open>rewrite rules for the state-changing operations\<close>

subsection \<open>Bytes\<close>

abbreviation byte :: "char \<Rightarrow> nat" where
  "byte c \<equiv> of_char c"

definition is_digit :: "char \<Rightarrow> bool" where
  "is_digit c \<longleftrightarrow> 48 \<le> byte c \<and> byte c \<le> 57"

definition is_upper :: "char \<Rightarrow> bool" where
  "is_upper c \<longleftrightarrow> 65 \<le> byte c \<and> byte c \<le> 90"

definition is_lower :: "char \<Rightarrow> bool" where
  "is_lower c \<longleftrightarrow> 97 \<le> byte c \<and> byte c \<le> 122"

definition is_letter :: "char \<Rightarrow> bool" where
  "is_letter c \<longleftrightarrow> is_upper c \<or> is_lower c"

definition is_space :: "char \<Rightarrow> bool" where
  "is_space c \<longleftrightarrow> byte c = 32 \<or> 9 \<le> byte c \<and> byte c \<le> 13"

definition lower_char :: "char \<Rightarrow> char" where
  "lower_char c = (if is_upper c then char_of (byte c + 32) else c)"

definition upper_char :: "char \<Rightarrow> char" where
  "upper_char c = (if is_lower c then char_of (byte c - 32) else c)"

definition digit_val :: "char \<Rightarrow> nat" where
  "digit_val c = byte c - 48"

definition digit_char :: "nat \<Rightarrow> char" where
  "digit_char d = char_of (48 + d)"

lemma byte_less [simp]: "byte c < 256"
  using of_char_mod_256 [of c, where 'a = nat] by (metis mod_less_divisor zero_less_numeral)

lemma byte_char_of [simp]: "n < 256 \<Longrightarrow> byte (char_of n) = n"
  by simp

lemma lower_char_idem [simp]: "lower_char (lower_char c) = lower_char c"
  by (auto simp: lower_char_def is_upper_def)

lemma upper_char_idem [simp]: "upper_char (upper_char c) = upper_char c"
  by (auto simp: upper_char_def is_lower_def)

lemma lower_upper_char [simp]: "lower_char (upper_char c) = lower_char c"
  by (auto simp: upper_char_def lower_char_def is_lower_def is_upper_def)

lemma upper_lower_char [simp]: "upper_char (lower_char c) = upper_char c"
  by (auto simp: upper_char_def lower_char_def is_lower_def is_upper_def)

lemma is_space_lower_char [simp]: "is_space (lower_char c) = is_space c"
  by (auto simp: lower_char_def is_upper_def is_space_def)

lemma is_space_upper_char [simp]: "is_space (upper_char c) = is_space c"
  by (auto simp: upper_char_def is_lower_def is_space_def)

lemma is_digit_digit_char [simp]: "d < 10 \<Longrightarrow> is_digit (digit_char d)"
  by (auto simp: is_digit_def digit_char_def)

lemma digit_val_digit_char [simp]: "d < 10 \<Longrightarrow> digit_val (digit_char d) = d"
  by (auto simp: digit_val_def digit_char_def)

lemma digit_val_less [simp]: "is_digit c \<Longrightarrow> digit_val c < 10"
  by (auto simp: digit_val_def is_digit_def)

lemma digit_char_digit_val [simp]: "is_digit c \<Longrightarrow> digit_char (digit_val c) = c"
  by (auto simp: digit_val_def digit_char_def is_digit_def)

lemma digit_val_inj: "is_digit c \<Longrightarrow> is_digit d \<Longrightarrow> digit_val c = digit_val d \<longleftrightarrow> c = d"
  by (metis digit_char_digit_val)

subsection \<open>Package strings\<close>

definition trim_left :: "string \<Rightarrow> string" where
  "trim_left s = dropWhile is_space s"

definition trim_right :: "string \<Rightarrow> string" where
  "trim_right s = rev (dropWhile is_space (rev s))"

definition trim_space :: "string \<Rightarrow> string" where
  "trim_space s = trim_right (trim_left s)"

definition trim_set :: "string \<Rightarrow> string \<Rightarrow> string" where
  "trim_set cutset s =
     rev (dropWhile (\<lambda>c. c \<in> set cutset) (rev (dropWhile (\<lambda>c. c \<in> set cutset) s)))"

definition trim_right_set :: "string \<Rightarrow> string \<Rightarrow> string" where
  "trim_right_set cutset s = rev (dropWhile (\<lambda>c. c \<in> set cutset) (rev s))"

definition to_lower :: "string \<Rightarrow> string" where
  "to_lower s = map lower_char s"

definition to_upper :: "string \<Rightarrow> string" where
  "to_upper s = map upper_char s"

definition equal_fold :: "string \<Rightarrow> string \<Rightarrow> bool" where
  "equal_fold a b \<longleftrightarrow> to_lower a = to_lower b"

abbreviation has_prefix :: "string \<Rightarrow> string \<Rightarrow> bool" where
  "has_prefix s p \<equiv> prefix p s"

abbreviation has_suffix :: "string \<Rightarrow> string \<Rightarrow> bool" where
  "has_suffix s p \<equiv> suffix p s"

abbreviation contains_str :: "string \<Rightarrow> string \<Rightarrow> bool" where
  "contains_str s sub \<equiv> sublist sub s"

definition trim_suffix :: "string \<Rightarrow> string \<Rightarrow> string" where
  "trim_suffix s suf = (if suffix suf s then take (length s - length suf) s else s)"

definition trim_prefix :: "string \<Rightarrow> string \<Rightarrow> string" where
  "trim_prefix s pre = (if prefix pre s then drop (length pre) s else s)"

definition replace_char :: "char \<Rightarrow> char \<Rightarrow> string \<Rightarrow> string" where
  "replace_char a b s = map (\<lambda>c. if c = a then b else c) s"

text \<open>\<open>strings.Split(s, sep)\<close> with a one-byte separator: never empty.\<close>

fun split_on :: "char \<Rightarrow> string \<Rightarrow> string list" where
  "split_on c [] = [[]]"
| "split_on c (x # xs) =
     (if x = c then [] # split_on c xs
      else (case split_on c xs of [] \<Rightarrow> [[x]] | w # ws \<Rightarrow> (x # w) # ws))"

fun join_with :: "string \<Rightarrow> string list \<Rightarrow> string" where
  "join_with sep [] = []"
| "join_with sep [w] = w"
| "join_with sep (w # ws) = w @ sep @ join_with sep ws"

definition str_fields :: "string \<Rightarrow> string list" where
  "str_fields s = filter (\<lambda>w. w \<noteq> []) (split_on (CHR '' '') (map (\<lambda>c. if is_space c then CHR '' '' else c) s))"

text \<open>\<open>strings.Cut(s, sep)\<close> with a one-byte separator.\<close>

definition cut_at :: "char \<Rightarrow> string \<Rightarrow> (string \<times> string) option" where
  "cut_at c s = (let a = takeWhile (\<lambda>x. x \<noteq> c) s; b = dropWhile (\<lambda>x. x \<noteq> c) s in
     (case b of [] \<Rightarrow> None | _ # r \<Rightarrow> Some (a, r)))"

text \<open>\<open>strings.Replace(s, old, new, 1)\<close> with a non-empty \<open>old\<close>.\<close>

fun replace_first :: "string \<Rightarrow> string \<Rightarrow> string \<Rightarrow> string" where
  "replace_first old new [] = []"
| "replace_first old new (c # cs) =
     (if prefix old (c # cs) then new @ drop (length old) (c # cs)
      else c # replace_first old new cs)"

lemma length_to_lower [simp]: "length (to_lower s) = length s"
  by (simp add: to_lower_def)

lemma length_to_upper [simp]: "length (to_upper s) = length s"
  by (simp add: to_upper_def)

lemma to_lower_Nil [simp]: "to_lower [] = []"
  by (simp add: to_lower_def)

lemma to_upper_Nil [simp]: "to_upper [] = []"
  by (simp add: to_upper_def)

lemma to_lower_eq_Nil [simp]: "to_lower s = [] \<longleftrightarrow> s = []"
  by (simp add: to_lower_def)

lemma to_upper_eq_Nil [simp]: "to_upper s = [] \<longleftrightarrow> s = []"
  by (simp add: to_upper_def)

lemma to_lower_idem [simp]: "to_lower (to_lower s) = to_lower s"
  by (simp add: to_lower_def)

lemma to_upper_idem [simp]: "to_upper (to_upper s) = to_upper s"
  by (simp add: to_upper_def)

lemma to_lower_to_upper [simp]: "to_lower (to_upper s) = to_lower s"
  by (simp add: to_lower_def to_upper_def)

lemma to_upper_to_lower [simp]: "to_upper (to_lower s) = to_upper s"
  by (simp add: to_lower_def to_upper_def)

lemma trim_space_Nil [simp]: "trim_space [] = []"
  by (simp add: trim_space_def trim_left_def trim_right_def)

lemma dropWhile_hd_eq: "(s = [] \<or> \<not> P (hd s)) \<Longrightarrow> dropWhile P s = s"
  by (cases s) auto

lemma hd_dropWhile_rev_dropWhile:
  "dropWhile P (rev (dropWhile P s)) = rev t \<Longrightarrow> t = [] \<or> \<not> P (hd t)"
proof -
  assume eq: "dropWhile P (rev (dropWhile P s)) = rev t"
  let ?u = "dropWhile P s"
  from eq have "suffix (rev t) (rev ?u)"
    by (metis suffix_dropWhile)
  then have "prefix t ?u" by (simp add: suffix_to_prefix)
  then obtain r where r: "?u = t @ r" by (auto simp: prefix_def)
  show ?thesis
  proof (cases t)
    case Nil
    then show ?thesis by simp
  next
    case (Cons a t')
    with r have "?u \<noteq> []" and "hd ?u = a" by auto
    then have "\<not> P a" by (metis hd_dropWhile)
    with Cons show ?thesis by simp
  qed
qed

lemma trim_idem_gen:
  "dropWhile P (rev (dropWhile P (rev (dropWhile P s)))) = rev (dropWhile P (rev (dropWhile P s)))"
proof (rule dropWhile_hd_eq)
  show "rev (dropWhile P (rev (dropWhile P s))) = []
      \<or> \<not> P (hd (rev (dropWhile P (rev (dropWhile P s)))))"
    using hd_dropWhile_rev_dropWhile [of P s "rev (dropWhile P (rev (dropWhile P s)))"] by auto
qed

lemma trim_space_idem [simp]: "trim_space (trim_space s) = trim_space s"
  using trim_idem_gen [of is_space s]
  by (simp add: trim_space_def trim_left_def trim_right_def)

lemma trim_space_to_lower [go_str]: "trim_space (to_lower s) = to_lower (trim_space s)"
  by (simp add: trim_space_def trim_left_def trim_right_def to_lower_def dropWhile_map comp_def rev_map)

lemma trim_space_to_upper [go_str]: "trim_space (to_upper s) = to_upper (trim_space s)"
  by (simp add: trim_space_def trim_left_def trim_right_def to_upper_def dropWhile_map comp_def rev_map)

lemma split_on_not_Nil [simp]: "split_on c s \<noteq> []"
  by (induction s) (auto split: list.splits)

lemma join_split_on [simp]: "join_with [c] (split_on c s) = s"
proof (induction s)
  case (Cons x xs)
  moreover obtain w ws where "split_on c xs = w # ws"
    by (cases "split_on c xs") auto
  ultimately show ?case by (cases ws) auto
qed simp

lemma sep_not_in_split_on: "w \<in> set (split_on c s) \<Longrightarrow> c \<notin> set w"
  by (induction s arbitrary: w) (fastforce split: list.splits if_splits)+

lemma split_on_no_sep: "c \<notin> set w \<Longrightarrow> split_on c w = [w]"
  by (induction w) auto

lemma split_on_append: "c \<notin> set w \<Longrightarrow> split_on c (w @ c # s) = w # split_on c s"
  by (induction w) auto

lemma split_join: "ws \<noteq> [] \<Longrightarrow> (\<And>w. w \<in> set ws \<Longrightarrow> c \<notin> set w) \<Longrightarrow> split_on c (join_with [c] ws) = ws"
proof (induction ws rule: induct_list012)
  case (3 x y zs)
  then show ?case by (simp add: split_on_append)
qed (simp_all add: split_on_no_sep)

lemma join_with_Cons: "ws \<noteq> [] \<Longrightarrow> join_with sep (w # ws) = w @ sep @ join_with sep ws"
  by (cases ws) auto

subsection \<open>Package strconv\<close>

fun itoa :: "nat \<Rightarrow> string" where
  "itoa n = (if n < 10 then [digit_char n] else itoa (n div 10) @ [digit_char (n mod 10)])"

declare itoa.simps [simp del]

definition digits_val :: "string \<Rightarrow> nat" where
  "digits_val s = foldl (\<lambda>a c. 10 * a + digit_val c) 0 s"

lemma digits_val_Nil [simp]: "digits_val [] = 0"
  by (simp add: digits_val_def)

lemma digits_val_snoc [simp]: "digits_val (s @ [c]) = 10 * digits_val s + digit_val c"
  by (simp add: digits_val_def)

lemma digits_val_itoa [simp]: "digits_val (itoa n) = n"
proof (induction n rule: itoa.induct)
  case (1 n)
  show ?case
  proof (cases "n < 10")
    case True
    then show ?thesis by (subst itoa.simps) (simp add: digits_val_def)
  next
    case False
    with 1 show ?thesis by (subst itoa.simps) simp
  qed
qed

lemma itoa_inject [simp]: "itoa m = itoa n \<longleftrightarrow> m = n"
  by (metis digits_val_itoa)

lemma itoa_not_Nil [simp]: "itoa n \<noteq> []"
  by (subst itoa.simps) simp

lemma itoa_digits: "\<forall>c \<in> set (itoa n). is_digit c"
proof (induction n rule: itoa.induct)
  case (1 n)
  then show ?case by (subst itoa.simps) auto
qed

text \<open>
  \<open>strconv.ParseInt(s, 10, bits)\<close>: an optional sign, then at least one digit, and the value
  in the two's complement range of the width. \<open>strconv.Atoi\<close> is the 64-bit case.
\<close>

definition in_int_range :: "nat \<Rightarrow> int \<Rightarrow> bool" where
  "in_int_range bits v \<longleftrightarrow> - (2 ^ (bits - 1)) \<le> v \<and> v < 2 ^ (bits - 1)"

definition parse_int :: "nat \<Rightarrow> string \<Rightarrow> int option" where
  "parse_int bits s =
     (let (neg, ds) = (case s of [] \<Rightarrow> (False, [])
        | c # r \<Rightarrow> if c = CHR ''-'' then (True, r) else if c = CHR ''+'' then (False, r) else (False, s))
      in if ds = [] \<or> \<not> list_all is_digit ds then None
         else (let v = (if neg then - int (digits_val ds) else int (digits_val ds))
               in if in_int_range bits v then Some v else None))"

abbreviation atoi :: "string \<Rightarrow> int option" where
  "atoi \<equiv> parse_int 64"

text \<open>Arithmetic on \<open>int64\<close> wraps around.\<close>

definition wrap64 :: "int \<Rightarrow> int" where
  "wrap64 v = (v + 2 ^ 63) mod 2 ^ 64 - 2 ^ 63"

lemma parse_int_range: "parse_int bits s = Some v \<Longrightarrow> in_int_range bits v"
  by (auto simp: parse_int_def Let_def split: list.splits if_splits)

definition parse_bool :: "string \<Rightarrow> bool option" where
  "parse_bool s =
     (if s \<in> set [''1'', ''t'', ''T'', ''TRUE'', ''true'', ''True''] then Some True
      else if s \<in> set [''0'', ''f'', ''F'', ''FALSE'', ''false'', ''False''] then Some False
      else None)"

subsection \<open>Lists\<close>

text \<open>The idiom of the code that keeps the first occurrence of every trimmed, non-empty value.\<close>

fun uniq_from :: "string list \<Rightarrow> string list \<Rightarrow> string list" where
  "uniq_from seen [] = []"
| "uniq_from seen (v # vs) =
     (let w = trim_space v in
      if w = [] \<or> w \<in> set seen then uniq_from seen vs else w # uniq_from (w # seen) vs)"

lemma set_uniq_from: "set (uniq_from seen vs) = (trim_space ` set vs - {[]}) - set seen"
  by (induction seen vs rule: uniq_from.induct) (auto simp: Let_def)

lemma distinct_uniq_from: "distinct (uniq_from seen vs)"
  by (induction seen vs rule: uniq_from.induct) (auto simp: Let_def set_uniq_from)

lemma uniq_from_id:
  "distinct vs \<Longrightarrow> (\<forall>v \<in> set vs. trim_space v = v \<and> v \<noteq> [] \<and> v \<notin> set seen) \<Longrightarrow> uniq_from seen vs = vs"
  by (induction seen vs rule: uniq_from.induct) (auto simp: Let_def)

lemma uniq_from_idem: "uniq_from [] (uniq_from [] vs) = uniq_from [] vs"
  by (rule uniq_from_id) (auto simp: distinct_uniq_from set_uniq_from)

lemma list_all_iff_set: "list_all P xs \<longleftrightarrow> (\<forall>x \<in> set xs. P x)"
  by (rule list_all_iff)

end
