(* ===== verification/Core_Models.thy ===== *)
theory Core_Models
  imports Complex_Main Go_Base
begin

text \<open>
  The documents of \<open>internal/core/models.go\<close>: one record per struct, its fields under the
  struct's own names with a short prefix. A Go map is an association list with distinct keys
  (\<open>gomap\<close>): its order stands for the order in which the runtime happens to iterate, so a
  statement for every list is a statement for every iteration order. A \<open>time.Time\<close> is
  \<^const>\<open>None\<close> for the zero time, otherwise the nanoseconds since the epoch; a field that is
  left out of a stored document (\<open>omitempty\<close>) reads back as the zero value of its type. An
  ObjectID is a number, 0 for \<open>NilObjectID\<close>.
\<close>

type_synonym 'v gomap = "(string \<times> 'v) list"
type_synonym gotime = "int option"
type_synonym object_id = nat

definition second :: int where
  "second = 1000000000"

text \<open>\<open>m[key]\<close> on a map: the zero value when the key is absent.\<close>

definition str_at :: "string gomap \<Rightarrow> string \<Rightarrow> string" where
  "str_at m k = (case map_of m k of None \<Rightarrow> [] | Some v \<Rightarrow> v)"

definition strs_at :: "string list gomap \<Rightarrow> string \<Rightarrow> string list" where
  "strs_at m k = (case map_of m k of None \<Rightarrow> [] | Some v \<Rightarrow> v)"

definition is_zero :: "gotime \<Rightarrow> bool" where
  "is_zero t \<longleftrightarrow> t = None"

text \<open>Instants are compared by their time; the zero time is the first instant of year 1.\<close>

definition time_key :: "gotime \<Rightarrow> int" where
  "time_key t = (case t of None \<Rightarrow> - 62135596800 * second | Some n \<Rightarrow> n)"

subsection \<open>Documents\<close>

record traffic_log =
  log_ID :: "object_id"
  log_SchemaVersion :: "string"
  log_TenantID :: "string"
  log_ProjectID :: "string"
  log_CaptureSource :: "string"
  log_CaptureMode :: "string"
  log_AgentID :: "string"
  log_ConversationID :: "string"
  log_ConversationHash :: "string"
  log_CreatedAt :: "gotime"
  log_Method :: "string"
  log_URL :: "string"
  log_Host :: "string"
  log_Path :: "string"
  log_ReqHeaders :: "string list gomap"
  log_ReqBody :: "string"
  log_RespStatus :: "string"
  log_RespStatusCode :: "int"
  log_RespHeaders :: "string list gomap"
  log_RespBody :: "string"
  log_Analyzed :: "bool"
  log_IsScanned :: "bool"
  log_Tags :: "string list"

record traffic_conversation =
  conv_ID :: "object_id"
  conv_ConversationID :: "string"
  conv_ConversationHash :: "string"
  conv_SchemaVersion :: "string"
  conv_TenantID :: "string"
  conv_ProjectID :: "string"
  conv_AgentID :: "string"
  conv_CaptureSource :: "string"
  conv_CaptureMode :: "string"
  conv_CapturedAt :: "gotime"
  conv_Method :: "string"
  conv_URL :: "string"
  conv_Host :: "string"
  conv_Path :: "string"
  conv_ReqHeaders :: "string list gomap"
  conv_ReqBody :: "string"
  conv_RespStatus :: "string"
  conv_RespStatusCode :: "int"
  conv_RespHeaders :: "string list gomap"
  conv_RespBody :: "string"
  conv_CreatedAt :: "gotime"

record ingestion_log =
  ilog_ID :: "object_id"
  ilog_CreatedAt :: "gotime"
  ilog_Status :: "string"
  ilog_SchemaVersion :: "string"
  ilog_CaptureSource :: "string"
  ilog_AgentID :: "string"
  ilog_ConversationID :: "string"
  ilog_Method :: "string"
  ilog_Host :: "string"
  ilog_Path :: "string"
  ilog_Message :: "string"

record ingest_dead_letter =
  idl_ID :: "object_id"
  idl_CreatedAt :: "gotime"
  idl_Reason :: "string"
  idl_SchemaVersion :: "string"
  idl_SourceTopic :: "string"
  idl_EventID :: "string"
  idl_Error :: "string"
  idl_AgentID :: "string"
  idl_RemoteAddr :: "string"
  idl_PayloadExcerpt :: "string"

record api_inventory =
  inv_ID :: "object_id"
  inv_SchemaVersion :: "string"
  inv_EndpointFingerprint :: "string"
  inv_TenantID :: "string"
  inv_ProjectID :: "string"
  inv_AgentID :: "string"
  inv_CaptureSource :: "string"
  inv_CaptureMode :: "string"
  inv_Host :: "string"
  inv_Method :: "string"
  inv_BaseURL :: "string"
  inv_PathPattern :: "string"
  inv_OriginalPath :: "string"
  inv_PathExamples :: "string list"
  inv_SensitiveData :: "string list"
  inv_RiskLevel :: "string"
  inv_RiskReasons :: "string list"
  inv_Tags :: "string list"
  inv_SchemaReq :: "string gomap"
  inv_SchemaResp :: "string gomap"
  inv_HeaderSchema :: "string gomap"
  inv_SampleHeaders :: "string list gomap"
  inv_ParamValues :: "string list gomap"
  inv_SampleReqBody :: "string"
  inv_SampleRespBody :: "string"
  inv_StatusCodes :: "int list"
  inv_ContentTypes :: "string list"
  inv_AuthObserved :: "bool"
  inv_RequestCount :: "int"
  inv_FirstSeenAt :: "gotime"
  inv_LastSeenAt :: "gotime"
  inv_CreatedAt :: "gotime"
  inv_UpdatedAt :: "gotime"

record traffic_sample =
  ts_ID :: "object_id"
  ts_SchemaVersion :: "string"
  ts_TenantID :: "string"
  ts_ProjectID :: "string"
  ts_EndpointFingerprint :: "string"
  ts_Method :: "string"
  ts_BaseURL :: "string"
  ts_Host :: "string"
  ts_PathPattern :: "string"
  ts_OriginalPath :: "string"
  ts_URL :: "string"
  ts_AgentID :: "string"
  ts_CaptureSource :: "string"
  ts_CaptureMode :: "string"
  ts_ReqHeaders :: "string list gomap"
  ts_ReqBody :: "string"
  ts_ReqBodySHA256 :: "string"
  ts_ReqBodyTruncated :: "bool"
  ts_RespStatus :: "string"
  ts_RespStatusCode :: "int"
  ts_RespHeaders :: "string list gomap"
  ts_RespBody :: "string"
  ts_RespBodySHA256 :: "string"
  ts_RespBodyTruncated :: "bool"
  ts_SensitiveData :: "string list"
  ts_Tags :: "string list"
  ts_CapturedAt :: "gotime"
  ts_CreatedAt :: "gotime"

record sensitive_occurrence =
  so_Location :: "string"
  so_Name :: "string"
  so_Tags :: "string list"
  so_Sample :: "string"

record sensitive_sample =
  ss_ID :: "object_id"
  ss_SchemaVersion :: "string"
  ss_TenantID :: "string"
  ss_ProjectID :: "string"
  ss_EndpointFingerprint :: "string"
  ss_Method :: "string"
  ss_BaseURL :: "string"
  ss_PathPattern :: "string"
  ss_OriginalPath :: "string"
  ss_AgentID :: "string"
  ss_CaptureSource :: "string"
  ss_SensitiveData :: "string list"
  ss_Occurrences :: "sensitive_occurrence list"
  ss_CapturedAt :: "gotime"
  ss_CreatedAt :: "gotime"

record scan_result =
  sr_ID :: "object_id"
  sr_TenantID :: "string"
  sr_ProjectID :: "string"
  sr_JobID :: "object_id"
  sr_SuiteID :: "object_id"
  sr_SchemaVersion :: "string"
  sr_InventoryID :: "object_id"
  sr_TestType :: "string"
  sr_Vulnerable :: "bool"
  sr_Severity :: "string"
  sr_Description :: "string"
  sr_Proof :: "string"
  sr_ResponseStatus :: "int"
  sr_ResponseHeader :: "string"
  sr_ResponseBody :: "string"
  sr_CreatedAt :: "gotime"

record scan_config =
  cfg_TargetURL :: "string"
  cfg_Method :: "string"
  cfg_Path :: "string"
  cfg_Body :: "string"
  cfg_Headers :: "string gomap"
  cfg_TestType :: "string"
  cfg_AuthSecretRef :: "string"
  cfg_ManualAuth :: "string"
  cfg_AttackMethod :: "string"
  cfg_PollutedBody :: "string"
  cfg_RateLimitPerSecond :: "int"
  cfg_TemplateConcurrency :: "int"
  cfg_HostConcurrency :: "int"
  cfg_PayloadConcurrency :: "int"
  cfg_ProbeConcurrency :: "int"
  cfg_OriginalResponseBody :: "string"
  cfg_OriginalStatusCode :: "int"

record scan_execution_result =
  ser_SchemaVersion :: "string"
  ser_TestType :: "string"
  ser_Vulnerable :: "bool"
  ser_Severity :: "string"
  ser_Description :: "string"
  ser_ResponseStatus :: "int"
  ser_ResponseBody :: "string"
  ser_ResponseHeader :: "string"
  ser_Proof :: "string"
  ser_Timestamp :: "gotime"
  ser_SimilarityScore :: rat
  ser_OutOfBand :: "bool"

record scan_job =
  job_ID :: "object_id"
  job_TenantID :: "string"
  job_ProjectID :: "string"
  job_InventoryID :: "object_id"
  job_SuiteID :: "object_id"
  job_RerunOfJobID :: "object_id"
  job_Status :: "string"
  job_TestType :: "string"
  job_AttackMethod :: "string"
  job_Config :: "scan_config"
  job_Error :: "string"
  job_WorkerID :: "string"
  job_Attempts :: "int"
  job_ResultsCount :: "int"
  job_TimeoutSeconds :: "int"
  job_CreatedAt :: "gotime"
  job_UpdatedAt :: "gotime"
  job_StartedAt :: "gotime"
  job_DeadlineAt :: "gotime"
  job_NotBeforeAt :: "gotime"
  job_CompletedAt :: "gotime"
  job_CancelRequestedAt :: "gotime"
  job_CancelledAt :: "gotime"

record scan_progress_event =
  spe_ID :: "object_id"
  spe_TenantID :: "string"
  spe_ProjectID :: "string"
  spe_JobID :: "object_id"
  spe_InventoryID :: "object_id"
  spe_Status :: "string"
  spe_WorkerID :: "string"
  spe_Message :: "string"
  spe_ResultsCount :: "int"
  spe_CreatedAt :: "gotime"

record issue =
  iss_ID :: "object_id"
  iss_TenantID :: "string"
  iss_ProjectID :: "string"
  iss_InventoryID :: "object_id"
  iss_EndpointFingerprint :: "string"
  iss_ScanJobID :: "object_id"
  iss_ScanResultID :: "object_id"
  iss_IssueFingerprint :: "string"
  iss_TestType :: "string"
  iss_Severity :: "string"
  iss_Status :: "string"
  iss_Title :: "string"
  iss_Description :: "string"
  iss_EvidenceSummary :: "string"
  iss_FirstSeenAt :: "gotime"
  iss_LastSeenAt :: "gotime"
  iss_CreatedAt :: "gotime"
  iss_UpdatedAt :: "gotime"

subsection \<open>Constants\<close>

definition ScanJobStatusQueued :: string where "ScanJobStatusQueued = ''queued''"
definition ScanJobStatusRunning :: string where "ScanJobStatusRunning = ''running''"
definition ScanJobStatusCompleted :: string where "ScanJobStatusCompleted = ''completed''"
definition ScanJobStatusFailed :: string where "ScanJobStatusFailed = ''failed''"
definition ScanJobStatusCancelled :: string where "ScanJobStatusCancelled = ''cancelled''"
definition ScanJobStatusTimedOut :: string where "ScanJobStatusTimedOut = ''timed_out''"

lemmas status_defs = ScanJobStatusQueued_def ScanJobStatusRunning_def ScanJobStatusCompleted_def
  ScanJobStatusFailed_def ScanJobStatusCancelled_def ScanJobStatusTimedOut_def

lemma status_distinct:
  "distinct [ScanJobStatusQueued, ScanJobStatusRunning, ScanJobStatusCompleted,
     ScanJobStatusFailed, ScanJobStatusCancelled, ScanJobStatusTimedOut]"
  by (simp add: status_defs)

lemma status_neq [simp]:
  "ScanJobStatusRunning \<noteq> ScanJobStatusQueued" "ScanJobStatusCompleted \<noteq> ScanJobStatusQueued"
  "ScanJobStatusFailed \<noteq> ScanJobStatusQueued" "ScanJobStatusCancelled \<noteq> ScanJobStatusQueued"
  "ScanJobStatusTimedOut \<noteq> ScanJobStatusQueued" "ScanJobStatusCompleted \<noteq> ScanJobStatusRunning"
  "ScanJobStatusFailed \<noteq> ScanJobStatusRunning" "ScanJobStatusCancelled \<noteq> ScanJobStatusRunning"
  "ScanJobStatusTimedOut \<noteq> ScanJobStatusRunning" "ScanJobStatusFailed \<noteq> ScanJobStatusCompleted"
  "ScanJobStatusCancelled \<noteq> ScanJobStatusCompleted" "ScanJobStatusTimedOut \<noteq> ScanJobStatusCompleted"
  "ScanJobStatusCancelled \<noteq> ScanJobStatusFailed" "ScanJobStatusTimedOut \<noteq> ScanJobStatusFailed"
  "ScanJobStatusTimedOut \<noteq> ScanJobStatusCancelled"
  by (simp_all add: status_defs)

lemmas status_neq_sym [simp] = status_neq [symmetric]

definition DefaultScanTimeoutSeconds :: int where "DefaultScanTimeoutSeconds = 120"
definition MaxScanTimeoutSeconds :: int where "MaxScanTimeoutSeconds = 3600"

definition IssueStatusOpen :: string where "IssueStatusOpen = ''open''"

text \<open>\<open>redact.Marker\<close>, which the planner and the analyzer compare against.\<close>

definition Marker :: string where "Marker = ''[REDACTED]''"

subsection \<open>Zero values\<close>

definition zero_traffic_log :: traffic_log where
  "zero_traffic_log = \<lparr>
     log_ID = 0, log_SchemaVersion = [], log_TenantID = [], log_ProjectID = [], log_CaptureSource =
     [], log_CaptureMode = [], log_AgentID = [], log_ConversationID = [], log_ConversationHash = [],
     log_CreatedAt = None, log_Method = [], log_URL = [], log_Host = [], log_Path = [],
     log_ReqHeaders = [], log_ReqBody = [], log_RespStatus = [], log_RespStatusCode = 0,
     log_RespHeaders = [], log_RespBody = [], log_Analyzed = False, log_IsScanned = False, log_Tags
     = []\<rparr>"

definition zero_traffic_conversation :: traffic_conversation where
  "zero_traffic_conversation = \<lparr>
     conv_ID = 0, conv_ConversationID = [], conv_ConversationHash = [], conv_SchemaVersion = [],
     conv_TenantID = [], conv_ProjectID = [], conv_AgentID = [], conv_CaptureSource = [],
     conv_CaptureMode = [], conv_CapturedAt = None, conv_Method = [], conv_URL = [], conv_Host = [],
     conv_Path = [], conv_ReqHeaders = [], conv_ReqBody = [], conv_RespStatus = [],
     conv_RespStatusCode = 0, conv_RespHeaders = [], conv_RespBody = [], conv_CreatedAt = None\<rparr>"

definition zero_ingestion_log :: ingestion_log where
  "zero_ingestion_log = \<lparr>
     ilog_ID = 0, ilog_CreatedAt = None, ilog_Status = [], ilog_SchemaVersion = [],
     ilog_CaptureSource = [], ilog_AgentID = [], ilog_ConversationID = [], ilog_Method = [],
     ilog_Host = [], ilog_Path = [], ilog_Message = []\<rparr>"

definition zero_ingest_dead_letter :: ingest_dead_letter where
  "zero_ingest_dead_letter = \<lparr>
     idl_ID = 0, idl_CreatedAt = None, idl_Reason = [], idl_SchemaVersion = [], idl_SourceTopic =
     [], idl_EventID = [], idl_Error = [], idl_AgentID = [], idl_RemoteAddr = [], idl_PayloadExcerpt
     = []\<rparr>"

definition zero_api_inventory :: api_inventory where
  "zero_api_inventory = \<lparr>
     inv_ID = 0, inv_SchemaVersion = [], inv_EndpointFingerprint = [], inv_TenantID = [],
     inv_ProjectID = [], inv_AgentID = [], inv_CaptureSource = [], inv_CaptureMode = [], inv_Host =
     [], inv_Method = [], inv_BaseURL = [], inv_PathPattern = [], inv_OriginalPath = [],
     inv_PathExamples = [], inv_SensitiveData = [], inv_RiskLevel = [], inv_RiskReasons = [],
     inv_Tags = [], inv_SchemaReq = [], inv_SchemaResp = [], inv_HeaderSchema = [],
     inv_SampleHeaders = [], inv_ParamValues = [], inv_SampleReqBody = [], inv_SampleRespBody = [],
     inv_StatusCodes = [], inv_ContentTypes = [], inv_AuthObserved = False, inv_RequestCount = 0,
     inv_FirstSeenAt = None, inv_LastSeenAt = None, inv_CreatedAt = None, inv_UpdatedAt = None\<rparr>"

definition zero_traffic_sample :: traffic_sample where
  "zero_traffic_sample = \<lparr>
     ts_ID = 0, ts_SchemaVersion = [], ts_TenantID = [], ts_ProjectID = [], ts_EndpointFingerprint =
     [], ts_Method = [], ts_BaseURL = [], ts_Host = [], ts_PathPattern = [], ts_OriginalPath = [],
     ts_URL = [], ts_AgentID = [], ts_CaptureSource = [], ts_CaptureMode = [], ts_ReqHeaders = [],
     ts_ReqBody = [], ts_ReqBodySHA256 = [], ts_ReqBodyTruncated = False, ts_RespStatus = [],
     ts_RespStatusCode = 0, ts_RespHeaders = [], ts_RespBody = [], ts_RespBodySHA256 = [],
     ts_RespBodyTruncated = False, ts_SensitiveData = [], ts_Tags = [], ts_CapturedAt = None,
     ts_CreatedAt = None\<rparr>"

definition zero_sensitive_occurrence :: sensitive_occurrence where
  "zero_sensitive_occurrence = \<lparr>
     so_Location = [], so_Name = [], so_Tags = [], so_Sample = []\<rparr>"

definition zero_sensitive_sample :: sensitive_sample where
  "zero_sensitive_sample = \<lparr>
     ss_ID = 0, ss_SchemaVersion = [], ss_TenantID = [], ss_ProjectID = [], ss_EndpointFingerprint =
     [], ss_Method = [], ss_BaseURL = [], ss_PathPattern = [], ss_OriginalPath = [], ss_AgentID =
     [], ss_CaptureSource = [], ss_SensitiveData = [], ss_Occurrences = [], ss_CapturedAt = None,
     ss_CreatedAt = None\<rparr>"

definition zero_scan_result :: scan_result where
  "zero_scan_result = \<lparr>
     sr_ID = 0, sr_TenantID = [], sr_ProjectID = [], sr_JobID = 0, sr_SuiteID = 0, sr_SchemaVersion
     = [], sr_InventoryID = 0, sr_TestType = [], sr_Vulnerable = False, sr_Severity = [],
     sr_Description = [], sr_Proof = [], sr_ResponseStatus = 0, sr_ResponseHeader = [],
     sr_ResponseBody = [], sr_CreatedAt = None\<rparr>"

definition zero_scan_config :: scan_config where
  "zero_scan_config = \<lparr>
     cfg_TargetURL = [], cfg_Method = [], cfg_Path = [], cfg_Body = [], cfg_Headers = [],
     cfg_TestType = [], cfg_AuthSecretRef = [], cfg_ManualAuth = [], cfg_AttackMethod = [],
     cfg_PollutedBody = [], cfg_RateLimitPerSecond = 0, cfg_TemplateConcurrency = 0,
     cfg_HostConcurrency = 0, cfg_PayloadConcurrency = 0, cfg_ProbeConcurrency = 0,
     cfg_OriginalResponseBody = [], cfg_OriginalStatusCode = 0\<rparr>"

definition zero_scan_execution_result :: scan_execution_result where
  "zero_scan_execution_result = \<lparr>
     ser_SchemaVersion = [], ser_TestType = [], ser_Vulnerable = False, ser_Severity = [],
     ser_Description = [], ser_ResponseStatus = 0, ser_ResponseBody = [], ser_ResponseHeader = [],
     ser_Proof = [], ser_Timestamp = None, ser_SimilarityScore = 0, ser_OutOfBand = False\<rparr>"

definition zero_scan_job :: scan_job where
  "zero_scan_job = \<lparr>
     job_ID = 0, job_TenantID = [], job_ProjectID = [], job_InventoryID = 0, job_SuiteID = 0,
     job_RerunOfJobID = 0, job_Status = [], job_TestType = [], job_AttackMethod = [], job_Config =
     zero_scan_config, job_Error = [], job_WorkerID = [], job_Attempts = 0, job_ResultsCount = 0,
     job_TimeoutSeconds = 0, job_CreatedAt = None, job_UpdatedAt = None, job_StartedAt = None,
     job_DeadlineAt = None, job_NotBeforeAt = None, job_CompletedAt = None, job_CancelRequestedAt =
     None, job_CancelledAt = None\<rparr>"

definition zero_scan_progress_event :: scan_progress_event where
  "zero_scan_progress_event = \<lparr>
     spe_ID = 0, spe_TenantID = [], spe_ProjectID = [], spe_JobID = 0, spe_InventoryID = 0,
     spe_Status = [], spe_WorkerID = [], spe_Message = [], spe_ResultsCount = 0, spe_CreatedAt =
     None\<rparr>"

definition zero_issue :: issue where
  "zero_issue = \<lparr>
     iss_ID = 0, iss_TenantID = [], iss_ProjectID = [], iss_InventoryID = 0, iss_EndpointFingerprint
     = [], iss_ScanJobID = 0, iss_ScanResultID = 0, iss_IssueFingerprint = [], iss_TestType = [],
     iss_Severity = [], iss_Status = [], iss_Title = [], iss_Description = [], iss_EvidenceSummary =
     [], iss_FirstSeenAt = None, iss_LastSeenAt = None, iss_CreatedAt = None, iss_UpdatedAt = None\<rparr>"

end
