(* ===== verification/Doc_Store.thy ===== *)
theory Doc_Store
  imports Go_Base
begin

text \<open>
  The document database as the code uses it. MongoDB is not part of the repository, so a collection
  is a parameter of the model: a record of the four operations the repositories call
  (\<open>InsertOne\<close>, \<open>FindOne\<close>, \<open>UpdateOne\<close>, \<open>FindOneAndUpdate\<close>), over an
  unknown state of type \<open>'c\<close>. The locale \<open>doc_store\<close> holds the documented behaviour
  that the code relies on: \<open>_id\<close> is unique, a single-document operation is atomic, it touches
  only a document that its filter selects, and after an error the operation has either happened or
  not. Filters and updates (the BSON literals of the code) are functions on documents.

  The in-memory collection at the end shows that the laws can hold together.
\<close>

type_synonym db_error = string

record ('c, 'k, 'd) coll =
  coll_ok :: "'c \<Rightarrow> bool"
  coll_docs :: "'c \<Rightarrow> 'k \<Rightarrow> 'd option"
  coll_key :: "'d \<Rightarrow> 'k"
  coll_insert :: "'c \<Rightarrow> 'd \<Rightarrow> 'c \<times> db_error option"
  coll_find :: "'c \<Rightarrow> ('d \<Rightarrow> bool) \<Rightarrow> db_error + 'd option"
  coll_update :: "'c \<Rightarrow> ('d \<Rightarrow> bool) \<Rightarrow> ('d \<Rightarrow> 'd) \<Rightarrow> 'c \<times> (db_error + nat)"
  coll_find_modify :: "'c \<Rightarrow> ('d \<Rightarrow> bool) \<Rightarrow> ('d \<Rightarrow> int) \<Rightarrow> ('d \<Rightarrow> 'd) \<Rightarrow> 'c \<times> (db_error + 'd option)"

text \<open>One document selected by \<open>f\<close> is replaced by its update, and nothing else changes.\<close>

definition updated_at :: "('k \<Rightarrow> 'd option) \<Rightarrow> ('d \<Rightarrow> bool) \<Rightarrow> ('d \<Rightarrow> 'd) \<Rightarrow> 'k \<Rightarrow> 'd \<Rightarrow> ('k \<Rightarrow> 'd option) \<Rightarrow> bool" where
  "updated_at m f u k d m' \<longleftrightarrow> m k = Some d \<and> f d \<and> m' = m(k \<mapsto> u d)"

locale doc_store =
  fixes M :: "('c, 'k, 'd) coll"
  assumes key: "coll_ok M c \<Longrightarrow> coll_docs M c k = Some d \<Longrightarrow> coll_key M d = k"
    and insert_ok: "coll_ok M c \<Longrightarrow> coll_insert M c d = (c', ri) \<Longrightarrow> coll_ok M c'"
    and insert_done: "coll_ok M c \<Longrightarrow> coll_insert M c d = (c', None) \<Longrightarrow>
      coll_docs M c (coll_key M d) = None \<and> coll_docs M c' = (coll_docs M c)(coll_key M d \<mapsto> d)"
    and insert_err: "coll_ok M c \<Longrightarrow> coll_insert M c d = (c', Some e) \<Longrightarrow>
      coll_docs M c' = coll_docs M c \<or>
      coll_docs M c (coll_key M d) = None \<and> coll_docs M c' = (coll_docs M c)(coll_key M d \<mapsto> d)"
    and find_some: "coll_ok M c \<Longrightarrow> coll_find M c f = Inr (Some d) \<Longrightarrow>
      f d \<and> (\<exists>k. coll_docs M c k = Some d)"
    and find_none: "coll_ok M c \<Longrightarrow> coll_find M c f = Inr None \<Longrightarrow>
      coll_docs M c k = Some d \<Longrightarrow> \<not> f d"
    and update_ok: "coll_ok M c \<Longrightarrow> (\<And>d. coll_key M (u d) = coll_key M d) \<Longrightarrow>
      coll_update M c f u = (c', ru) \<Longrightarrow> coll_ok M c'"
    and update_done: "coll_ok M c \<Longrightarrow> (\<And>d. coll_key M (u d) = coll_key M d) \<Longrightarrow>
      coll_update M c f u = (c', Inr n) \<Longrightarrow>
      n = 0 \<and> coll_docs M c' = coll_docs M c \<and> (\<forall>k d. coll_docs M c k = Some d \<longrightarrow> \<not> f d) \<or>
      n = 1 \<and> (\<exists>k d. updated_at (coll_docs M c) f u k d (coll_docs M c'))"
    and update_err: "coll_ok M c \<Longrightarrow> (\<And>d. coll_key M (u d) = coll_key M d) \<Longrightarrow>
      coll_update M c f u = (c', Inl e) \<Longrightarrow>
      coll_docs M c' = coll_docs M c \<or> (\<exists>k d. updated_at (coll_docs M c) f u k d (coll_docs M c'))"
    and find_update_ok: "coll_ok M c \<Longrightarrow> (\<And>d. coll_key M (u d) = coll_key M d) \<Longrightarrow>
      coll_find_modify M c f srt u = (c', rf) \<Longrightarrow> coll_ok M c'"
    and find_update_none: "coll_ok M c \<Longrightarrow> (\<And>d. coll_key M (u d) = coll_key M d) \<Longrightarrow>
      coll_find_modify M c f srt u = (c', Inr None) \<Longrightarrow>
      coll_docs M c' = coll_docs M c \<and> (\<forall>k d. coll_docs M c k = Some d \<longrightarrow> \<not> f d)"
    and find_update_some: "coll_ok M c \<Longrightarrow> (\<And>d. coll_key M (u d) = coll_key M d) \<Longrightarrow>
      coll_find_modify M c f srt u = (c', Inr (Some d')) \<Longrightarrow>
      \<exists>k d. updated_at (coll_docs M c) f u k d (coll_docs M c') \<and> d' = u d \<and>
        (\<forall>k2 d2. coll_docs M c k2 = Some d2 \<longrightarrow> f d2 \<longrightarrow> srt d \<le> srt d2)"
    and find_update_err: "coll_ok M c \<Longrightarrow> (\<And>d. coll_key M (u d) = coll_key M d) \<Longrightarrow>
      coll_find_modify M c f srt u = (c', Inl e) \<Longrightarrow>
      coll_docs M c' = coll_docs M c \<or> (\<exists>k d. updated_at (coll_docs M c) f u k d (coll_docs M c'))"
begin

text \<open>Whatever a single-document update reports, at most one selected document has changed.\<close>

lemma update_cases:
  assumes "coll_ok M c" "\<And>d. coll_key M (u d) = coll_key M d" "coll_update M c f u = (c', r)"
  shows "coll_docs M c' = coll_docs M c \<or> (\<exists>k d. updated_at (coll_docs M c) f u k d (coll_docs M c'))"
  using assms update_err [OF assms(1,2)] update_done [OF assms(1,2)] by (cases r) blast+

lemma find_update_cases:
  assumes "coll_ok M c" "\<And>d. coll_key M (u d) = coll_key M d" "coll_find_modify M c f srt u = (c', r)"
  shows "coll_docs M c' = coll_docs M c \<or> (\<exists>k d. updated_at (coll_docs M c) f u k d (coll_docs M c'))"
proof (cases r)
  case (Inl e)
  then show ?thesis using find_update_err [OF assms(1,2)] assms(3) by blast
next
  case (Inr x)
  then show ?thesis
    using find_update_none [OF assms(1,2)] find_update_some [OF assms(1,2)] assms(3) by (cases x) blast+
qed

lemma insert_cases:
  assumes "coll_ok M c" "coll_insert M c d = (c', r)"
  shows "coll_docs M c' = coll_docs M c \<or>
    coll_docs M c (coll_key M d) = None \<and> coll_docs M c' = (coll_docs M c)(coll_key M d \<mapsto> d)"
  using assms insert_err [OF assms(1)] insert_done [OF assms(1)] by (cases r) blast+

text \<open>A filter on the key alone selects at most that key's document.\<close>

lemma updated_at_key:
  assumes "coll_ok M c" "updated_at (coll_docs M c) (\<lambda>d. coll_key M d = i \<and> g d) u k d m'"
  shows "k = i"
  using assms key by (auto simp: updated_at_def)

end

subsection \<open>An in-memory collection\<close>

fun mem_update_first :: "('d \<Rightarrow> bool) \<Rightarrow> ('d \<Rightarrow> 'd) \<Rightarrow> 'd list \<Rightarrow> 'd list" where
  "mem_update_first f u [] = []"
| "mem_update_first f u (d # ds) = (if f d then u d # ds else d # mem_update_first f u ds)"

definition mem_docs :: "('d \<Rightarrow> 'k) \<Rightarrow> 'd list \<Rightarrow> 'k \<Rightarrow> 'd option" where
  "mem_docs key ds k = find (\<lambda>d. key d = k) ds"

text \<open>The first document with the least sort key among those the filter selects.\<close>

fun mem_least :: "('d \<Rightarrow> int) \<Rightarrow> 'd list \<Rightarrow> 'd option" where
  "mem_least srt [] = None"
| "mem_least srt (d # ds) =
     (case mem_least srt ds of None \<Rightarrow> Some d | Some e \<Rightarrow> if srt d \<le> srt e then Some d else Some e)"

definition mem_coll :: "('d \<Rightarrow> 'k) \<Rightarrow> ('d list, 'k, 'd) coll" where
  "mem_coll key =
     \<lparr>coll_ok = (\<lambda>ds. distinct (map key ds)),
      coll_docs = mem_docs key,
      coll_key = key,
      coll_insert = (\<lambda>ds d. if key d \<in> set (map key ds) then (ds, Some ''duplicate key'') else (ds @ [d], None)),
      coll_find = (\<lambda>ds f. Inr (find f ds)),
      coll_update = (\<lambda>ds f u. (mem_update_first f u ds, Inr (if list_ex f ds then 1 else 0))),
      coll_find_modify = (\<lambda>ds f srt u. case mem_least srt (filter f ds) of
          None \<Rightarrow> (ds, Inr None)
        | Some d \<Rightarrow> (mem_update_first (\<lambda>e. key e = key d) u ds, Inr (Some (u d))))\<rparr>"

lemma mem_docs_None: "mem_docs key ds k = None \<longleftrightarrow> k \<notin> set (map key ds)"
  by (auto simp: mem_docs_def find_None_iff)

lemma mem_docs_Some: "distinct (map key ds) \<Longrightarrow> mem_docs key ds k = Some d \<longleftrightarrow> d \<in> set ds \<and> key d = k"
proof (induction ds)
  case (Cons a ds)
  then show ?case by (auto simp: mem_docs_def image_iff)
qed (simp add: mem_docs_def)

lemma mem_docs_append: "mem_docs key (ds @ [d]) k =
   (if k \<in> set (map key ds) then mem_docs key ds k else if key d = k then Some d else None)"
  by (induction ds) (auto simp: mem_docs_def)

lemma map_key_update_first:
  "(\<And>d. key (u d) = key d) \<Longrightarrow> map key (mem_update_first f u ds) = map key ds"
  by (induction ds) auto

lemma mem_update_first_none: "\<not> list_ex f ds \<Longrightarrow> mem_update_first f u ds = ds"
  by (induction ds) auto

lemma mem_update_first_docs:
  assumes "distinct (map key ds)" "\<And>d. key (u d) = key d" "list_ex f ds"
  shows "\<exists>d \<in> set ds. f d \<and> mem_docs key (mem_update_first f u ds) = (mem_docs key ds)(key d \<mapsto> u d)"
  using assms(1,3)
proof (induction ds)
  case (Cons a ds)
  show ?case
  proof (cases "f a")
    case True
    then show ?thesis using assms(2) by (auto simp: mem_docs_def fun_eq_iff)
  next
    case False
    with Cons obtain d where d: "d \<in> set ds" "f d"
      "mem_docs key (mem_update_first f u ds) = (mem_docs key ds)(key d \<mapsto> u d)"
      by (auto simp del: fun_upd_apply)
    with False Cons.prems show ?thesis
      by (intro bexI [of _ d]) (auto simp: mem_docs_def fun_eq_iff image_iff)
  qed
qed simp

lemma mem_least_None: "mem_least srt ds = None \<longleftrightarrow> ds = []"
  by (cases ds) (auto split: option.splits)

lemma mem_least_Some: "mem_least srt ds = Some d \<Longrightarrow> d \<in> set ds \<and> (\<forall>e \<in> set ds. srt d \<le> srt e)"
  by (induction ds arbitrary: d) (fastforce split: option.splits if_splits simp: mem_least_None)+

lemma mem_coll_key_update:
  assumes "distinct (map key ds)" "\<And>d. key (u d) = key d" "d \<in> set ds"
  shows "mem_docs key (mem_update_first (\<lambda>e. key e = key d) u ds) = (mem_docs key ds)(key d \<mapsto> u d)"
proof -
  have "list_ex (\<lambda>e. key e = key d) ds" using assms(3) by (auto simp: list_ex_iff)
  from mem_update_first_docs [OF assms(1,2) this] obtain e where
    "e \<in> set ds" "key e = key d" and eq: "mem_docs key (mem_update_first (\<lambda>e. key e = key d) u ds)
      = (mem_docs key ds)(key e \<mapsto> u e)" by blast
  moreover from this assms(1,3) have "e = d" by (metis mem_docs_Some option.inject)
  ultimately show ?thesis by simp
qed

lemma mem_coll_store: "doc_store (mem_coll key)"
proof (unfold_locales, goal_cases)
  case (1 c k d) then show ?case by (simp add: mem_coll_def mem_docs_Some)
next
  case (2 c d c' r) then show ?case by (auto simp: mem_coll_def split: if_splits)
next
  case (3 c d c')
  then show ?case
    by (auto simp: mem_coll_def mem_docs_None mem_docs_append fun_eq_iff mem_docs_None [THEN iffD2]
        split: if_splits)
next
  case (4 c d c' e) then show ?case by (auto simp: mem_coll_def split: if_splits)
next
  case (5 c f d) then show ?case by (auto simp: mem_coll_def mem_docs_Some find_Some_iff)
next
  case (6 c f k d) then show ?case by (auto simp: mem_coll_def mem_docs_Some find_None_iff)
next
  case (7 c u f c' r) then show ?case by (auto simp: mem_coll_def map_key_update_first)
next
  case (8 c u f c' n)
  show ?case
  proof (cases "list_ex f c")
    case True
    with 8 mem_update_first_docs [of key c u f] show ?thesis
      by (auto simp: mem_coll_def updated_at_def mem_docs_Some)
  next
    case False
    with 8 show ?thesis by (auto simp: mem_coll_def mem_update_first_none mem_docs_Some list_ex_iff)
  qed
next
  case (9 c u f c' e) then show ?case by (simp add: mem_coll_def)
next
  case (10 c u f srt c' r)
  then show ?case by (auto simp: mem_coll_def map_key_update_first split: option.splits)
next
  case (11 c u f srt c')
  then show ?case
    by (auto simp: mem_coll_def mem_least_None mem_docs_Some filter_empty_conv split: option.splits)
next
  case (12 c u f srt c' d')
  then obtain d where d: "mem_least srt (filter f c) = Some d" "d' = u d"
      "c' = mem_update_first (\<lambda>e. key e = key d) u c"
    by (auto simp: mem_coll_def split: option.splits)
  from mem_least_Some [OF d(1)] have "d \<in> set c" "f d" "\<forall>e \<in> set c. f e \<longrightarrow> srt d \<le> srt e" by auto
  with 12 d show ?case
    by (intro exI [of _ "key d"] exI [of _ d])
      (auto simp: mem_coll_def updated_at_def mem_docs_Some mem_coll_key_update)
next
  case (13 c u f srt c' e) then show ?case by (auto simp: mem_coll_def split: option.splits)
qed

end
