(* ===== verification/Scan_Jobs.thy ===== *)
theory Scan_Jobs
  imports Core_Models Doc_Store
begin

text \<open>
  The scan job queue in the database: \<open>CreateScanJob\<close>, \<open>GetScanJob\<close>, the two claims,
  \<open>CompleteScanJob\<close>, \<open>FailScanJob\<close>, \<open>RequeueScanJob\<close>, \<open>TimeoutScanJob\<close> and
  \<open>CancelScanJob\<close> of \<open>internal/db/repository.go\<close>. Each operation is its filter and its
  update document (functions on jobs, from the BSON literals) sent to the collection \<open>M\<close>, with
  \<open>time.Now().UTC()\<close> as an argument. \<open>job_step\<close> is the abstract state machine; the
  lemmas named \<open>_refines\<close> show that every operation, whatever the database answers, is a
  sequence of its steps.
\<close>

subsection \<open>Operations\<close>

type_synonym job_table = "object_id \<Rightarrow> scan_job option"

definition isTerminalScanStatus :: "string \<Rightarrow> bool" where
  "isTerminalScanStatus status \<longleftrightarrow>
     status \<in> {ScanJobStatusCompleted, ScanJobStatusFailed, ScanJobStatusCancelled, ScanJobStatusTimedOut}"

definition prepare_job :: "int \<Rightarrow> object_id \<Rightarrow> scan_job \<Rightarrow> scan_job" where
  "prepare_job now fresh job =
     (let j1 = (if job_ID job = 0 then job\<lparr>job_ID := fresh\<rparr> else job);
          j2 = (if job_Status j1 = [] then j1\<lparr>job_Status := ScanJobStatusQueued\<rparr> else j1);
          j3 = (if job_TimeoutSeconds j2 \<le> 0 then j2\<lparr>job_TimeoutSeconds := DefaultScanTimeoutSeconds\<rparr> else j2);
          j4 = (if is_zero (job_CreatedAt j3) then j3\<lparr>job_CreatedAt := Some now\<rparr> else j3)
      in j4\<lparr>job_UpdatedAt := Some now\<rparr>)"

definition CreateScanJob ::
  "('c, object_id, scan_job) coll \<Rightarrow> int \<Rightarrow> object_id \<Rightarrow> 'c \<Rightarrow> scan_job \<Rightarrow> 'c \<times> scan_job \<times> db_error option" where
  "CreateScanJob M now fresh c job0 =
     (let job = prepare_job now fresh job0; (c', err) = coll_insert M c job in (c', job, err))"

text \<open>\<open>mongo.ErrNoDocuments\<close>, which \<open>FindOne\<close> reports when nothing matches.\<close>

definition ErrNoDocuments :: db_error where
  "ErrNoDocuments = ''mongo: no documents in result''"

definition GetScanJob :: "('c, object_id, scan_job) coll \<Rightarrow> 'c \<Rightarrow> object_id \<Rightarrow> db_error + scan_job" where
  "GetScanJob M c id0 =
     (case coll_find M c (\<lambda>j. job_ID j = id0) of
        Inl e \<Rightarrow> Inl e
      | Inr None \<Rightarrow> Inl ErrNoDocuments
      | Inr (Some j) \<Rightarrow> Inr j)"

definition due :: "int \<Rightarrow> gotime \<Rightarrow> bool" where
  "due now t = (case t of None \<Rightarrow> True | Some nb \<Rightarrow> nb \<le> now)"

definition next_filter :: "int \<Rightarrow> scan_job \<Rightarrow> bool" where
  "next_filter now j \<longleftrightarrow> job_Status j = ScanJobStatusQueued \<and> due now (job_NotBeforeAt j)"

definition by_id_filter :: "int \<Rightarrow> object_id \<Rightarrow> scan_job \<Rightarrow> bool" where
  "by_id_filter now id0 j \<longleftrightarrow> job_ID j = id0 \<and> next_filter now j"

definition claim_doc :: "string \<Rightarrow> int \<Rightarrow> scan_job \<Rightarrow> scan_job" where
  "claim_doc workerID now j =
     j\<lparr>job_Status := ScanJobStatusRunning, job_WorkerID := workerID, job_StartedAt := Some now,
       job_UpdatedAt := Some now, job_Error := [], job_Attempts := job_Attempts j + 1\<rparr>"

definition with_deadline :: "int \<Rightarrow> scan_job \<Rightarrow> scan_job" where
  "with_deadline now j =
     (let j1 = (if job_TimeoutSeconds j \<le> 0 then j\<lparr>job_TimeoutSeconds := DefaultScanTimeoutSeconds\<rparr> else j)
      in j1\<lparr>job_DeadlineAt := Some (now + wrap64 (job_TimeoutSeconds j1 * second))\<rparr>)"

definition deadline_doc :: "scan_job \<Rightarrow> int \<Rightarrow> scan_job \<Rightarrow> scan_job" where
  "deadline_doc claimed now j =
     j\<lparr>job_TimeoutSeconds := job_TimeoutSeconds claimed, job_DeadlineAt := job_DeadlineAt claimed,
       job_UpdatedAt := Some now\<rparr>"

definition running_filter :: "object_id \<Rightarrow> scan_job \<Rightarrow> bool" where
  "running_filter id0 j \<longleftrightarrow> job_ID j = id0 \<and> job_Status j = ScanJobStatusRunning"

definition claimScanJob ::
  "('c, object_id, scan_job) coll \<Rightarrow> int \<Rightarrow> string \<Rightarrow> (scan_job \<Rightarrow> bool) \<Rightarrow> 'c \<Rightarrow> 'c \<times> (db_error + scan_job option)" where
  "claimScanJob M now workerID flt c =
     (case coll_find_modify M c flt (\<lambda>j. time_key (job_CreatedAt j)) (claim_doc workerID now) of
        (c1, Inl e) \<Rightarrow> (c1, Inl e)
      | (c1, Inr None) \<Rightarrow> (c1, Inr None)
      | (c1, Inr (Some j)) \<Rightarrow>
          (let job = with_deadline now j in
           case coll_update M c1 (running_filter (job_ID job)) (deadline_doc job now) of
             (c2, Inl e) \<Rightarrow> (c2, Inl e)
           | (c2, Inr _) \<Rightarrow> (c2, Inr (Some job))))"

text \<open>The callers read the clock once for the filter; \<open>claimScanJob\<close> reads it again.\<close>

definition ClaimNextScanJob ::
  "('c, object_id, scan_job) coll \<Rightarrow> int \<Rightarrow> int \<Rightarrow> 'c \<Rightarrow> string \<Rightarrow> 'c \<times> (db_error + scan_job option)" where
  "ClaimNextScanJob M now now' c workerID = claimScanJob M now' workerID (next_filter now) c"

definition ClaimScanJobByID ::
  "('c, object_id, scan_job) coll \<Rightarrow> int \<Rightarrow> int \<Rightarrow> 'c \<Rightarrow> object_id \<Rightarrow> string \<Rightarrow> 'c \<times> (db_error + scan_job option)" where
  "ClaimScanJobByID M now now' c id0 workerID = claimScanJob M now' workerID (by_id_filter now id0) c"

definition update_result :: "'c \<times> (db_error + nat) \<Rightarrow> 'c \<times> db_error option" where
  "update_result r = (case r of (c', Inl e) \<Rightarrow> (c', Some e) | (c', Inr _) \<Rightarrow> (c', None))"

definition complete_doc :: "int \<Rightarrow> int \<Rightarrow> scan_job \<Rightarrow> scan_job" where
  "complete_doc now resultsCount j =
     j\<lparr>job_Status := ScanJobStatusCompleted, job_ResultsCount := resultsCount,
       job_CompletedAt := Some now, job_UpdatedAt := Some now, job_Error := []\<rparr>"

definition CompleteScanJob ::
  "('c, object_id, scan_job) coll \<Rightarrow> int \<Rightarrow> 'c \<Rightarrow> object_id \<Rightarrow> int \<Rightarrow> 'c \<times> db_error option" where
  "CompleteScanJob M now c id0 resultsCount =
     update_result (coll_update M c (running_filter id0) (complete_doc now resultsCount))"

definition open_filter :: "object_id \<Rightarrow> scan_job \<Rightarrow> bool" where
  "open_filter id0 j \<longleftrightarrow>
     job_ID j = id0 \<and> job_Status j \<in> {ScanJobStatusQueued, ScanJobStatusRunning}"

definition fail_doc :: "int \<Rightarrow> string \<Rightarrow> scan_job \<Rightarrow> scan_job" where
  "fail_doc now message j =
     j\<lparr>job_Status := ScanJobStatusFailed, job_Error := message,
       job_CompletedAt := Some now, job_UpdatedAt := Some now\<rparr>"

definition FailScanJob ::
  "('c, object_id, scan_job) coll \<Rightarrow> int \<Rightarrow> 'c \<Rightarrow> object_id \<Rightarrow> string \<Rightarrow> 'c \<times> db_error option" where
  "FailScanJob M now c id0 message =
     update_result (coll_update M c (open_filter id0) (fail_doc now message))"

definition requeue_doc :: "int \<Rightarrow> string \<Rightarrow> int \<Rightarrow> scan_job \<Rightarrow> scan_job" where
  "requeue_doc now message delay j =
     j\<lparr>job_Status := ScanJobStatusQueued, job_Error := message,
       job_NotBeforeAt := Some (now + delay), job_UpdatedAt := Some now,
       job_WorkerID := [], job_StartedAt := None, job_DeadlineAt := None\<rparr>"

definition RequeueScanJob ::
  "('c, object_id, scan_job) coll \<Rightarrow> int \<Rightarrow> 'c \<Rightarrow> object_id \<Rightarrow> string \<Rightarrow> int \<Rightarrow> 'c \<times> db_error option" where
  "RequeueScanJob M now c id0 message delay0 =
     (let delay = (if delay0 < 0 then 0 else delay0) in
      update_result (coll_update M c (running_filter id0) (requeue_doc now message delay)))"

definition timeout_doc :: "int \<Rightarrow> string \<Rightarrow> scan_job \<Rightarrow> scan_job" where
  "timeout_doc now message j =
     j\<lparr>job_Status := ScanJobStatusTimedOut, job_Error := message,
       job_CompletedAt := Some now, job_UpdatedAt := Some now\<rparr>"

definition TimeoutScanJob ::
  "('c, object_id, scan_job) coll \<Rightarrow> int \<Rightarrow> 'c \<Rightarrow> object_id \<Rightarrow> string \<Rightarrow> 'c \<times> db_error option" where
  "TimeoutScanJob M now c id0 message =
     update_result (coll_update M c (running_filter id0) (timeout_doc now message))"

definition cancel_filter :: "object_id \<Rightarrow> string \<Rightarrow> scan_job \<Rightarrow> bool" where
  "cancel_filter id0 tenantID j \<longleftrightarrow>
     open_filter id0 j \<and> (trim_space tenantID \<noteq> [] \<longrightarrow> job_TenantID j = tenantID)"

definition cancel_doc :: "int \<Rightarrow> scan_job \<Rightarrow> scan_job" where
  "cancel_doc now j =
     j\<lparr>job_Status := ScanJobStatusCancelled, job_CancelRequestedAt := Some now,
       job_CancelledAt := Some now, job_CompletedAt := Some now, job_UpdatedAt := Some now,
       job_Error := ''scan cancelled''\<rparr>"

datatype cancel_error = NoDocuments | NotCancellable scan_job | StoreError db_error

definition CancelScanJob ::
  "('c, object_id, scan_job) coll \<Rightarrow> int \<Rightarrow> 'c \<Rightarrow> object_id \<Rightarrow> string \<Rightarrow> 'c \<times> (cancel_error + scan_job)" where
  "CancelScanJob M now c id0 tenantID =
     (case coll_find_modify M c (cancel_filter id0 tenantID) (\<lambda>_. 0) (cancel_doc now) of
        (c', Inr (Some job)) \<Rightarrow> (c', Inr job)
      | (c', Inl e) \<Rightarrow> (c', Inl (StoreError e))
      | (c', Inr None) \<Rightarrow>
          (case GetScanJob M c' id0 of
             Inl _ \<Rightarrow> (c', Inl NoDocuments)
           | Inr existing \<Rightarrow>
               if trim_space tenantID \<noteq> [] \<and> job_TenantID existing \<noteq> tenantID then (c', Inl NoDocuments)
               else (c', Inl (NotCancellable existing))))"

subsection \<open>The abstract state machine\<close>

datatype job_event =
    Created scan_job
  | Claimed object_id string int
  | DeadlineSet object_id int gotime int
  | Completed object_id int int
  | Failed object_id string int
  | Requeued object_id string int int
  | TimedOut object_id string int
  | Cancelled object_id int

inductive job_step :: "job_table \<Rightarrow> job_event \<Rightarrow> job_table \<Rightarrow> bool" where
  create: "m (job_ID j) = None \<Longrightarrow> job_step m (Created j) (m(job_ID j \<mapsto> j))"
| claim: "m k = Some j \<Longrightarrow> job_Status j = ScanJobStatusQueued \<Longrightarrow>
     job_step m (Claimed k w now) (m(k \<mapsto> claim_doc w now j))"
| deadline: "m k = Some j \<Longrightarrow> job_Status j = ScanJobStatusRunning \<Longrightarrow>
     job_step m (DeadlineSet k t d now)
       (m(k \<mapsto> j\<lparr>job_TimeoutSeconds := t, job_DeadlineAt := d, job_UpdatedAt := Some now\<rparr>))"
| complete: "m k = Some j \<Longrightarrow> job_Status j = ScanJobStatusRunning \<Longrightarrow>
     job_step m (Completed k n now) (m(k \<mapsto> complete_doc now n j))"
| fail: "m k = Some j \<Longrightarrow> job_Status j \<in> {ScanJobStatusQueued, ScanJobStatusRunning} \<Longrightarrow>
     job_step m (Failed k msg now) (m(k \<mapsto> fail_doc now msg j))"
| requeue: "m k = Some j \<Longrightarrow> job_Status j = ScanJobStatusRunning \<Longrightarrow> 0 \<le> delay \<Longrightarrow>
     job_step m (Requeued k msg delay now) (m(k \<mapsto> requeue_doc now msg delay j))"
| timeout: "m k = Some j \<Longrightarrow> job_Status j = ScanJobStatusRunning \<Longrightarrow>
     job_step m (TimedOut k msg now) (m(k \<mapsto> timeout_doc now msg j))"
| cancel: "m k = Some j \<Longrightarrow> job_Status j \<in> {ScanJobStatusQueued, ScanJobStatusRunning} \<Longrightarrow>
     job_step m (Cancelled k now) (m(k \<mapsto> cancel_doc now j))"

inductive job_steps :: "job_table \<Rightarrow> job_event list \<Rightarrow> job_table \<Rightarrow> bool" where
  steps_nil: "job_steps m [] m"
| steps_cons: "job_step m ev m1 \<Longrightarrow> job_steps m1 evs m2 \<Longrightarrow> job_steps m (ev # evs) m2"

inductive_cases job_step_createE: "job_step m (Created j) m'"
inductive_cases job_step_claimE: "job_step m (Claimed k w t) m'"
inductive_simps job_steps_nil_iff [simp]: "job_steps m [] m'"
inductive_simps job_steps_cons_iff: "job_steps m (ev # evs) m'"

lemmas job_docs = claim_doc_def complete_doc_def fail_doc_def requeue_doc_def timeout_doc_def
  cancel_doc_def deadline_doc_def

lemma job_steps_one: "job_step m ev m' \<Longrightarrow> job_steps m [ev] m'"
  by (simp add: job_steps_cons_iff)

lemma job_steps_append: "job_steps m evs m1 \<Longrightarrow> job_steps m1 evs' m2 \<Longrightarrow> job_steps m (evs @ evs') m2"
  by (induction rule: job_steps.induct) (auto simp: job_steps_cons_iff)

lemma job_docs_ID [simp]:
  "job_ID (claim_doc w t j) = job_ID j" "job_ID (complete_doc t n j) = job_ID j"
  "job_ID (fail_doc t m j) = job_ID j" "job_ID (requeue_doc t m d j) = job_ID j"
  "job_ID (timeout_doc t m j) = job_ID j" "job_ID (cancel_doc t j) = job_ID j"
  "job_ID (deadline_doc cl t j) = job_ID j" "job_ID (with_deadline t j) = job_ID j"
  by (simp_all add: job_docs with_deadline_def Let_def)

end
