(* ===== verification/Coordination.thy ===== *)
theory Coordination
  imports Go_Base
begin

text \<open>
  The coordination of \<open>internal/coordination/coordination.go\<close>: the rate limiter, the lock and
  the semaphore that the workers share through Redis. Redis is an interface. The record
  \<open>redis\<close> has the commands the code sends (\<open>SETNX\<close> with an expiry) and those its two
  Lua scripts call (\<open>GET\<close>, \<open>DEL\<close>, \<open>INCR\<close>, \<open>PEXPIRE\<close>);
  the scripts themselves are modelled here and run atomically by \<open>rd_eval\<close>. The locale
  \<open>redis_laws\<close> holds the documented behaviour over the view \<open>rd_get s t k\<close>, the value
  of a key at time \<open>t\<close> if nobody writes to it until then. Times are nanoseconds, and every
  operation gets the time at which the server executes it. The store in memory interprets the locale.
  A nil client is \<^const>\<open>None\<close>.
\<close>

subsection \<open>Keys\<close>

definition defaultRedisKeyPrefix :: string where "defaultRedisKeyPrefix = ''karaxys''"

definition normalizedPrefix :: "string \<Rightarrow> string" where
  "normalizedPrefix prefix0 = (let p = trim_space prefix0 in
     if p = [] then defaultRedisKeyPrefix else replace_char (CHR '':'') (CHR ''_'') p)"

definition key_parts :: "string list \<Rightarrow> string list" where
  "key_parts parts = map (replace_char (CHR '':'') (CHR ''_'')) (filter (\<lambda>p. p \<noteq> []) (map trim_space parts))"

definition plainKey :: "string \<Rightarrow> string list \<Rightarrow> string" where
  "plainKey prefix0 parts = join_with '':'' (normalizedPrefix prefix0 # key_parts parts)"

definition hashedKey :: "(string \<Rightarrow> string) \<Rightarrow> string \<Rightarrow> string \<Rightarrow> string \<Rightarrow> string" where
  "hashedKey sha256_hex prefix0 namespace key = plainKey prefix0 [namespace, sha256_hex (trim_space key)]"

definition ScanJobLockKey :: "string \<Rightarrow> string" where
  "ScanJobLockKey jobID = ''scan_job:'' @ trim_space jobID"

definition ScannerGlobalSemaphoreKey :: string where
  "ScannerGlobalSemaphoreKey = ''scanner:global''"

definition ScanProgressKey :: "string \<Rightarrow> string \<Rightarrow> string" where
  "ScanProgressKey prefix0 jobID = plainKey prefix0 [''scan_progress'', trim_space jobID]"

subsection \<open>The commands\<close>

record 's redis =
  rd_get :: "'s \<Rightarrow> int \<Rightarrow> string \<Rightarrow> string option"
  rd_setnx :: "'s \<Rightarrow> int \<Rightarrow> string \<Rightarrow> string \<Rightarrow> int \<Rightarrow> 's \<times> (string + bool)"
  rd_set :: "'s \<Rightarrow> int \<Rightarrow> string \<Rightarrow> string \<Rightarrow> int \<Rightarrow> 's \<times> string option"
  rd_del :: "'s \<Rightarrow> int \<Rightarrow> string \<Rightarrow> 's \<times> int"
  rd_incr :: "'s \<Rightarrow> int \<Rightarrow> string \<Rightarrow> 's \<times> int"
  rd_pexpire :: "'s \<Rightarrow> int \<Rightarrow> string \<Rightarrow> int \<Rightarrow> 's"
  rd_eval :: "'s \<Rightarrow> ('s \<Rightarrow> 's \<times> int) \<Rightarrow> 's \<times> (string + int)"

definition millisecond :: int where "millisecond = 1000000"

text \<open>The two Lua scripts.\<close>

definition redisRateLimitScript :: "'s redis \<Rightarrow> int \<Rightarrow> string \<Rightarrow> int \<Rightarrow> 's \<Rightarrow> 's \<times> int" where
  "redisRateLimitScript R now key windowMs s =
     (let (s1, current) = rd_incr R s now key in
      if current = 1 then (rd_pexpire R s1 now key windowMs, current) else (s1, current))"

definition redisReleaseLockScript :: "'s redis \<Rightarrow> int \<Rightarrow> string \<Rightarrow> string \<Rightarrow> 's \<Rightarrow> 's \<times> int" where
  "redisReleaseLockScript R now key value0 s =
     (if rd_get R s now key = Some value0 then rd_del R s now key else (s, 0))"

subsection \<open>The runtime\<close>

text \<open>
  A runtime holds the client and which of its four services are present; \<open>dial\<close> is the
  constructor of the Redis client.
\<close>

record redis_config =
  rc_Addr :: string
  rc_Username :: string
  rc_Password :: string
  rc_DB :: int
  rc_UseTLS :: bool
  rc_KeyPrefix :: string

record 's redis_runtime =
  rr_Client :: "'s redis option"
  rr_RateLimiter :: bool
  rr_Locker :: bool
  rr_Semaphore :: bool
  rr_Progress :: bool
  rr_KeyPrefix :: string
  rr_ProgressTTL :: int
  rr_ScanLockTTL :: int

definition coord_intEnvDefault :: "(string \<Rightarrow> string) \<Rightarrow> string \<Rightarrow> int \<Rightarrow> int" where
  "coord_intEnvDefault env key fallback = (let raw = trim_space (env key) in
     if raw = [] then fallback
     else (case atoi raw of None \<Rightarrow> fallback | Some v \<Rightarrow> if v < 0 then fallback else v))"

definition coord_boolEnvDefault :: "(string \<Rightarrow> string) \<Rightarrow> string \<Rightarrow> bool \<Rightarrow> bool" where
  "coord_boolEnvDefault env key fallback = (let raw = trim_space (env key) in
     if raw = [] then fallback else (case parse_bool raw of None \<Rightarrow> fallback | Some v \<Rightarrow> v))"

definition coord_durationEnvDefault :: "(string \<Rightarrow> string) \<Rightarrow> string \<Rightarrow> int \<Rightarrow> int" where
  "coord_durationEnvDefault env key fallback = (let raw = trim_space (env key) in
     if raw = [] then fallback
     else (case parse_int 64 raw of
         None \<Rightarrow> fallback
       | Some v \<Rightarrow> if v \<le> 0 then fallback else wrap64 (v * 1000000000)))"

definition defaultScanProgressTTL :: int where "defaultScanProgressTTL = 7200 * 1000000000"

definition NewRedisClient :: "(redis_config \<Rightarrow> 's redis) \<Rightarrow> redis_config \<Rightarrow> ('s redis \<times> string) option" where
  "NewRedisClient dial cfg0 =
     (let cfg = cfg0\<lparr>rc_Addr := trim_space (rc_Addr cfg0)\<rparr> in
      if rc_Addr cfg = [] then None
      else (let pfx = trim_space (rc_KeyPrefix cfg) in
            Some (dial cfg, if pfx = [] then defaultRedisKeyPrefix else pfx)))"

definition NewRedisRuntimeFromEnv :: "(redis_config \<Rightarrow> 's redis) \<Rightarrow> (string \<Rightarrow> string) \<Rightarrow> 's redis_runtime option" where
  "NewRedisRuntimeFromEnv dial env =
     (let cfg = \<lparr>rc_Addr = trim_space (env ''KARAXYS_REDIS_ADDR''),
                 rc_Username = trim_space (env ''KARAXYS_REDIS_USERNAME''),
                 rc_Password = env ''KARAXYS_REDIS_PASSWORD'',
                 rc_DB = coord_intEnvDefault env ''KARAXYS_REDIS_DB'' 0,
                 rc_UseTLS = coord_boolEnvDefault env ''KARAXYS_REDIS_TLS'' False,
                 rc_KeyPrefix = trim_space (env ''KARAXYS_REDIS_KEY_PREFIX'')\<rparr>
      in if rc_Addr cfg = [] then None
         else (case NewRedisClient dial cfg of
             None \<Rightarrow> None
           | Some (client, pfx) \<Rightarrow> Some
               \<lparr>rr_Client = Some client, rr_RateLimiter = True, rr_Locker = True, rr_Semaphore = True,
                rr_Progress = True, rr_KeyPrefix = pfx,
                rr_ProgressTTL = coord_durationEnvDefault env ''KARAXYS_SCAN_PROGRESS_TTL_SECONDS'' defaultScanProgressTTL,
                rr_ScanLockTTL = coord_durationEnvDefault env ''KARAXYS_SCAN_LOCK_TTL_SECONDS'' (1800 * 1000000000)\<rparr>))"

subsection \<open>Operations\<close>

datatype coord_error = KeyValueRequired | TTLRequired | LimitRequired | RedisError string

text \<open>A distributed lock: the no-op lock of a nil client, or a key and the value that owns it.\<close>

datatype dlock = NoopLock | RedisLock string string

definition Allow ::
  "'s redis option \<Rightarrow> (string \<Rightarrow> string) \<Rightarrow> string \<Rightarrow> int \<Rightarrow> 's \<Rightarrow> string \<Rightarrow> int \<Rightarrow> int \<Rightarrow> 's \<times> (coord_error + bool)" where
  "Allow client sha256_hex prefix0 now s key limit window0 =
     (case client of
        None \<Rightarrow> (s, Inr True)
      | Some R \<Rightarrow>
          if limit \<le> 0 then (s, Inr False)
          else (let window = (if window0 \<le> 0 then 1000000000 else window0) in
            case rd_eval R s (redisRateLimitScript R now (hashedKey sha256_hex prefix0 ''rate_limit'' key) (window div millisecond)) of
              (s', Inl e) \<Rightarrow> (s', Inl (RedisError e))
            | (s', Inr count) \<Rightarrow> (s', Inr (count \<le> limit))))"

definition TryLock ::
  "'s redis option \<Rightarrow> string \<Rightarrow> int \<Rightarrow> 's \<Rightarrow> string \<Rightarrow> string \<Rightarrow> int \<Rightarrow> 's \<times> (coord_error + dlock option)" where
  "TryLock client prefix0 now s key value0 ttl =
     (case client of
        None \<Rightarrow> (s, Inr (Some NoopLock))
      | Some R \<Rightarrow>
          if trim_space key = [] \<or> trim_space value0 = [] then (s, Inl KeyValueRequired)
          else if ttl \<le> 0 then (s, Inl TTLRequired)
          else (let redisKey = plainKey prefix0 [''lock'', key] in
            case rd_setnx R s now redisKey value0 ttl of
              (s', Inl e) \<Rightarrow> (s', Inl (RedisError e))
            | (s', Inr ok) \<Rightarrow> (s', Inr (if ok then Some (RedisLock redisKey value0) else None))))"

definition Release :: "'s redis option \<Rightarrow> int \<Rightarrow> 's \<Rightarrow> dlock \<Rightarrow> 's \<times> coord_error option" where
  "Release client now s lock =
     (case (client, lock) of
        (Some R, RedisLock key value0) \<Rightarrow>
          (case rd_eval R s (redisReleaseLockScript R now key value0) of
             (s', Inl e) \<Rightarrow> (s', Some (RedisError e))
           | (s', Inr _) \<Rightarrow> (s', None))
      | _ \<Rightarrow> (s, None))"

definition slotKey :: "string \<Rightarrow> string \<Rightarrow> nat \<Rightarrow> string" where
  "slotKey prefix0 key slot = plainKey prefix0 [''semaphore'', key, itoa slot]"

fun acquire_slots ::
  "'s redis \<Rightarrow> string \<Rightarrow> int \<Rightarrow> string \<Rightarrow> string \<Rightarrow> int \<Rightarrow> 's \<Rightarrow> nat list \<Rightarrow> 's \<times> (coord_error + dlock option)" where
  "acquire_slots R prefix0 now key value0 ttl s [] = (s, Inr None)"
| "acquire_slots R prefix0 now key value0 ttl s (slot # slots) =
     (case rd_setnx R s now (slotKey prefix0 key slot) value0 ttl of
        (s', Inl e) \<Rightarrow> (s', Inl (RedisError e))
      | (s', Inr ok) \<Rightarrow>
          if ok then (s', Inr (Some (RedisLock (slotKey prefix0 key slot) value0)))
          else acquire_slots R prefix0 now key value0 ttl s' slots)"

definition TryAcquire ::
  "'s redis option \<Rightarrow> string \<Rightarrow> int \<Rightarrow> 's \<Rightarrow> string \<Rightarrow> string \<Rightarrow> int \<Rightarrow> int \<Rightarrow> 's \<times> (coord_error + dlock option)" where
  "TryAcquire client prefix0 now s key0 value0 limit ttl =
     (case client of
        None \<Rightarrow> (s, Inr (Some NoopLock))
      | Some R \<Rightarrow>
          (let key = trim_space key0; v = trim_space value0 in
           if key = [] \<or> v = [] then (s, Inl KeyValueRequired)
           else if limit \<le> 0 then (s, Inl LimitRequired)
           else if ttl \<le> 0 then (s, Inl TTLRequired)
           else acquire_slots R prefix0 now key v ttl s [0..<nat limit]))"

text \<open>The cache of scan progress, \<open>RedisScanProgressCache\<close>; \<open>marshal\<close> is \<open>json.Marshal\<close>.\<close>

record scan_progress =
  sp_JobID :: string
  sp_Status :: string
  sp_WorkerID :: string
  sp_Message :: string
  sp_ResultsCount :: int
  sp_UpdatedAt :: "int option"

datatype progress_error = JobIDRequired | ProgressMarshal string | ProgressRedis string

definition progress_Set ::
  "(scan_progress \<Rightarrow> string + string) \<Rightarrow> 's redis option \<Rightarrow> string \<Rightarrow> int \<Rightarrow> 's \<Rightarrow> scan_progress \<Rightarrow> int \<Rightarrow> 's \<times> progress_error option" where
  "progress_Set marshal client prefix0 now s progress0 ttl0 =
     (case client of
        None \<Rightarrow> (s, None)
      | Some R \<Rightarrow>
          (let progress1 = progress0\<lparr>sp_JobID := trim_space (sp_JobID progress0)\<rparr> in
           if sp_JobID progress1 = [] then (s, Some JobIDRequired)
           else (let ttl = (if ttl0 \<le> 0 then defaultScanProgressTTL else ttl0);
                     progress = (if sp_UpdatedAt progress1 = None then progress1\<lparr>sp_UpdatedAt := Some now\<rparr> else progress1)
                 in case marshal progress of
                      Inl e \<Rightarrow> (s, Some (ProgressMarshal e))
                    | Inr raw \<Rightarrow>
                        (case rd_set R s now (ScanProgressKey prefix0 (sp_JobID progress)) raw ttl of
                           (s', e) \<Rightarrow> (s', map_option ProgressRedis e)))))"

definition progress_Delete :: "'s redis option \<Rightarrow> string \<Rightarrow> int \<Rightarrow> 's \<Rightarrow> string \<Rightarrow> 's" where
  "progress_Delete client prefix0 now s jobID0 =
     (case client of
        None \<Rightarrow> s
      | Some R \<Rightarrow> (let jobID = trim_space jobID0 in
          if jobID = [] then s else fst (rd_del R s now (ScanProgressKey prefix0 jobID))))"

subsection \<open>Lemmas on keys\<close>

lemma replace_char_no: "a \<noteq> b \<Longrightarrow> a \<notin> set (replace_char a b s)"
  by (auto simp: replace_char_def)

lemma normalizedPrefix_no_colon: "CHR '':'' \<notin> set (normalizedPrefix p)"
  by (simp add: normalizedPrefix_def Let_def replace_char_no defaultRedisKeyPrefix_def)

lemma key_parts_no_colon: "w \<in> set (key_parts ps) \<Longrightarrow> CHR '':'' \<notin> set w"
  by (auto simp: key_parts_def replace_char_no)

lemma split_plainKey: "split_on (CHR '':'') (plainKey p ps) = normalizedPrefix p # key_parts ps"
  unfolding plainKey_def
  by (rule split_join) (auto simp: normalizedPrefix_no_colon dest: key_parts_no_colon)

lemma plainKey_inject: "plainKey p ps = plainKey q qs \<longleftrightarrow> normalizedPrefix p = normalizedPrefix q \<and> key_parts ps = key_parts qs"
  by (metis split_plainKey list.inject plainKey_def)

lemma trim_space_no_space: "\<forall>c \<in> set s. \<not> is_space c \<Longrightarrow> trim_space s = s"
  unfolding trim_space_def trim_left_def trim_right_def
  by (metis dropWhile_eq_self_iff hd_in_set rev_is_Nil_conv rev_rev_ident set_rev)

lemma trim_itoa: "trim_space (itoa n) = itoa n"
  using itoa_digits [of n] by (intro trim_space_no_space) (auto simp: is_space_def is_digit_def)

lemma replace_itoa: "replace_char (CHR '':'') (CHR ''_'') (itoa n) = itoa n"
  unfolding replace_char_def
proof (rule map_idI)
  fix c assume "c \<in> set (itoa n)"
  then have "is_digit c" using itoa_digits by blast
  then show "(if c = CHR '':'' then CHR ''_'' else c) = c" by (auto simp: is_digit_def)
qed

lemma slotKey_inject: "slotKey p k m = slotKey p k n \<longleftrightarrow> m = n"
  by (auto simp: slotKey_def plainKey_inject key_parts_def trim_itoa replace_itoa)

text \<open>Calls of one limiter key at increasing times.\<close>

fun allow_calls ::
  "'s redis \<Rightarrow> (string \<Rightarrow> string) \<Rightarrow> string \<Rightarrow> string \<Rightarrow> int \<Rightarrow> int \<Rightarrow> 's \<Rightarrow> int list \<Rightarrow> (coord_error + bool) list" where
  "allow_calls R sha p key limit window s [] = []"
| "allow_calls R sha p key limit window s (t # ts) =
     (case Allow (Some R) sha p t s key limit window of
        (s', r) \<Rightarrow> r # allow_calls R sha p key limit window s' ts)"

text \<open>What a client of the server may do, and a run of such calls with their times.\<close>

datatype coord_op =
    DoAllow string int int
  | DoTryLock string string int
  | DoRelease dlock
  | DoTryAcquire string string int int

fun run_coord :: "'s redis \<Rightarrow> (string \<Rightarrow> string) \<Rightarrow> string \<Rightarrow> 's \<Rightarrow> (int \<times> coord_op) list \<Rightarrow> 's" where
  "run_coord R sha p s [] = s"
| "run_coord R sha p s ((t, oper) # ops) =
     run_coord R sha p
       (case oper of
          DoAllow key limit window \<Rightarrow> fst (Allow (Some R) sha p t s key limit window)
        | DoTryLock key v ttl \<Rightarrow> fst (TryLock (Some R) p t s key v ttl)
        | DoRelease lock \<Rightarrow> fst (Release (Some R) t s lock)
        | DoTryAcquire key v limit ttl \<Rightarrow> fst (TryAcquire (Some R) p t s key v limit ttl)) ops"

text \<open>
  The semaphore grants outstanding after a run: the trimmed key, the end of the time to live and the
  lock of every successful \<open>TryAcquire\<close>, without those released since.
\<close>

type_synonym grants = "(string \<times> int \<times> dlock) list"

fun grants_after ::
  "'s redis \<Rightarrow> string \<Rightarrow> 's \<Rightarrow> int \<Rightarrow> coord_op \<Rightarrow> grants \<Rightarrow> grants" where
  "grants_after R p s t (DoTryAcquire key v limit ttl) gs =
     (case snd (TryAcquire (Some R) p t s key v limit ttl) of
        Inr (Some lock) \<Rightarrow> (trim_space key, t + ttl, lock) # gs
      | _ \<Rightarrow> gs)"
| "grants_after R p s t (DoRelease lock) gs = filter (\<lambda>(_, _, l). l \<noteq> lock) gs"
| "grants_after R p s t _ gs = gs"

fun run_grants ::
  "'s redis \<Rightarrow> (string \<Rightarrow> string) \<Rightarrow> string \<Rightarrow> 's \<Rightarrow> grants \<Rightarrow> (int \<times> coord_op) list \<Rightarrow> grants" where
  "run_grants R sha p s gs [] = gs"
| "run_grants R sha p s gs ((t, oper) # ops) =
     run_grants R sha p (run_coord R sha p s [(t, oper)]) (grants_after R p s t oper gs) ops"

fun lock_key :: "dlock \<Rightarrow> string" where
  "lock_key (RedisLock k v) = k"
| "lock_key NoopLock = []"

definition live_grants :: "string \<Rightarrow> int \<Rightarrow> grants \<Rightarrow> grants" where
  "live_grants key now gs = filter (\<lambda>(k, e, _). k = key \<and> now < e) gs"

fun grant_limit :: "string \<Rightarrow> nat \<Rightarrow> coord_op \<Rightarrow> bool" where
  "grant_limit key n (DoTryAcquire k v limit ttl) = (trim_space k = key \<longrightarrow> limit \<le> int n)"
| "grant_limit key n _ = True"

lemma namespace_neq: "a \<noteq> b \<Longrightarrow> key_parts [a] = [a] \<Longrightarrow> key_parts [b] = [b] \<Longrightarrow> plainKey p (a # ps) \<noteq> plainKey q (b # qs)"
  by (auto simp: plainKey_inject key_parts_def split: if_splits)

lemma namespaces: "key_parts [''lock''] = [''lock'']" "key_parts [''rate_limit''] = [''rate_limit'']"
  "key_parts [''semaphore''] = [''semaphore'']"
  by (simp_all add: key_parts_def replace_char_def trim_space_def trim_left_def trim_right_def is_space_def)

subsection \<open>The contract of the server\<close>

locale redis_laws =
  fixes R :: "'s redis"
  assumes setnx_ok: "rd_setnx R s now k v ttl = (s', Inr True) \<Longrightarrow> 0 < ttl \<Longrightarrow>
      rd_get R s now k = None \<and>
      (\<forall>t \<ge> now. \<forall>k'. rd_get R s' t k' = (if k' = k then (if t < now + ttl then Some v else None) else rd_get R s t k'))"
    and setnx_no: "rd_setnx R s now k v ttl = (s', Inr False) \<Longrightarrow>
      rd_get R s now k \<noteq> None \<and> (\<forall>t \<ge> now. rd_get R s' t = rd_get R s t)"
    and setnx_err: "rd_setnx R s now k v ttl = (s', Inl e) \<Longrightarrow> 0 < ttl \<Longrightarrow>
      (\<forall>t \<ge> now. rd_get R s' t = rd_get R s t) \<or>
      (rd_get R s now k = None \<and>
       (\<forall>t \<ge> now. \<forall>k'. rd_get R s' t k' = (if k' = k then (if t < now + ttl then Some v else None) else rd_get R s t k')))"
    and set_key: "rd_set R s now k v ttl = (s', None) \<Longrightarrow> 0 < ttl \<Longrightarrow> t \<ge> now \<Longrightarrow>
      rd_get R s' t k = (if t < now + ttl then Some v else None)"
    and set_other: "t \<ge> now \<Longrightarrow> k' \<noteq> k \<Longrightarrow> rd_get R (fst (rd_set R s now k v ttl)) t k' = rd_get R s t k'"
    and del_key: "t \<ge> now \<Longrightarrow> rd_get R (fst (rd_del R s now k)) t k' = (if k' = k then None else rd_get R s t k')"
    and incr_new: "rd_get R s now k = None \<Longrightarrow> snd (rd_incr R s now k) = 1 \<and>
      (\<forall>t \<ge> now. \<forall>k'. rd_get R (fst (rd_incr R s now k)) t k' = (if k' = k then Some (itoa 1) else rd_get R s t k'))"
    and incr_old: "rd_get R s now k = Some (itoa n) \<Longrightarrow> snd (rd_incr R s now k) = int n + 1 \<and>
      (\<forall>t \<ge> now. \<forall>k'. rd_get R (fst (rd_incr R s now k)) t k' =
        (if k' = k then map_option (\<lambda>_. itoa (n + 1)) (rd_get R s t k) else rd_get R s t k'))"
    and incr_other: "t \<ge> now \<Longrightarrow> k' \<noteq> k \<Longrightarrow> rd_get R (fst (rd_incr R s now k)) t k' = rd_get R s t k'"
    and pexpire_key: "t \<ge> now \<Longrightarrow> rd_get R (rd_pexpire R s now k ms) t k' =
      (if k' = k then (if t < now + ms * millisecond then rd_get R s now k else None) else rd_get R s t k')"
    and eval_ok: "rd_eval R s script = (s', Inr m) \<Longrightarrow> (s', m) = script s"
    and eval_err: "rd_eval R s script = (s', Inl e) \<Longrightarrow> s' = s \<or> s' = fst (script s)"
    and value_stays: "now \<le> t \<Longrightarrow> rd_get R s t k = Some v \<Longrightarrow> rd_get R s now k = Some v"
begin

lemma value_expires: "now \<le> t \<Longrightarrow> rd_get R s now k = None \<Longrightarrow> rd_get R s t k = None"
  using value_stays [of now t s k] by (cases "rd_get R s t k") auto

lemma release_view:
  assumes "t \<ge> now"
  shows "rd_get R (fst (redisReleaseLockScript R now k v s)) t k' =
    (if k' = k \<and> rd_get R s now k = Some v then None else rd_get R s t k')"
  using assms del_key by (simp add: redisReleaseLockScript_def)

text \<open>Only its owner's value removes a lock; every other key keeps its value.\<close>

lemma Release_keeps:
  assumes "t \<ge> now" "lock \<noteq> RedisLock k v" "rd_get R s now k = Some v"
  shows "rd_get R (fst (Release (Some R) now s lock)) t k = rd_get R s t k"
proof (cases lock)
  case (RedisLock k2 v2)
  obtain s' r where e: "rd_eval R s (redisReleaseLockScript R now k2 v2) = (s', r)" by fastforce
  then have "s' = s \<or> s' = fst (redisReleaseLockScript R now k2 v2 s)"
    using eval_ok eval_err by (cases r) (metis fst_conv)+
  moreover have "rd_get R (fst (redisReleaseLockScript R now k2 v2 s)) t k = rd_get R s t k"
    using assms RedisLock by (auto simp: release_view)
  ultimately show ?thesis using e RedisLock by (cases r) (auto simp: Release_def)
qed (simp add: Release_def)

lemma setnx_keeps:
  assumes "rd_setnx R s now k' w ttl = (s', r)" "0 < ttl" "rd_get R s now k = Some v" "t \<ge> now"
  shows "rd_get R s' t k = rd_get R s t k"
proof (cases r)
  case (Inl e)
  with setnx_err [of s now k' w ttl s' e] assms show ?thesis by auto
next
  case (Inr b)
  with setnx_ok [of s now k' w ttl s'] setnx_no [of s now k' w ttl s'] assms show ?thesis by (cases b) auto
qed

lemma acquire_keeps:
  assumes "0 < ttl" "rd_get R s now k = Some v" "t \<ge> now"
  shows "rd_get R (fst (acquire_slots R p now key w ttl s slots)) t k = rd_get R s t k"
  using assms(2)
proof (induction slots arbitrary: s)
  case (Cons slot slots)
  obtain s' r where n: "rd_setnx R s now (slotKey p key slot) w ttl = (s', r)" by fastforce
  have k: "rd_get R s' u k = rd_get R s u k" if "u \<ge> now" for u
    by (rule setnx_keeps [OF n assms(1) Cons.prems that])
  then have "rd_get R s' now k = Some v" using Cons.prems by simp
  from Cons.IH [OF this] k [OF assms(3)] n show ?case by (cases r) auto
qed simp

subsubsection \<open>The rate limiter\<close>

lemma limit_script_next:
  assumes "rd_get R s now k = Some (itoa i)" "0 < i"
  shows "snd (redisRateLimitScript R now k w s) = int i + 1"
    "t \<ge> now \<Longrightarrow> rd_get R (fst (redisRateLimitScript R now k w s)) t k = map_option (\<lambda>_. itoa (i + 1)) (rd_get R s t k)"
  using incr_old [OF assms(1)] assms(2) by (auto simp: redisRateLimitScript_def case_prod_beta)

lemma limit_script_first:
  assumes "rd_get R s now k = None"
  shows "snd (redisRateLimitScript R now k w s) = 1"
    "t \<ge> now \<Longrightarrow> rd_get R (fst (redisRateLimitScript R now k w s)) t k =
      (if t < now + w * millisecond then Some (itoa 1) else None)"
  using incr_new [OF assms] by (auto simp: redisRateLimitScript_def case_prod_beta pexpire_key)

lemma Allow_result:
  assumes "0 < limit" "0 < window" "Allow (Some R) sha p now s key limit window = (s', Inr b)"
  shows "(s', snd (redisRateLimitScript R now (hashedKey sha p ''rate_limit'' key) (window div millisecond) s))
      = redisRateLimitScript R now (hashedKey sha p ''rate_limit'' key) (window div millisecond) s \<and>
    b = (snd (redisRateLimitScript R now (hashedKey sha p ''rate_limit'' key) (window div millisecond) s) \<le> limit)"
proof -
  let ?sc = "redisRateLimitScript R now (hashedKey sha p ''rate_limit'' key) (window div millisecond)"
  obtain s1 m where e: "rd_eval R s ?sc = (s1, Inr m)" and r: "s' = s1" "b = (m \<le> limit)"
    using assms by (auto simp: Allow_def Let_def split: prod.splits sum.splits)
  from eval_ok [OF e] r show ?thesis by (metis prod.collapse snd_conv)
qed

lemma allow_calls_counted:
  assumes "0 < limit" "0 < window" "0 < i"
    and "\<And>t. now \<le> t \<Longrightarrow> t < E \<Longrightarrow> rd_get R s t (hashedKey sha p ''rate_limit'' key) = Some (itoa i)"
    and "sorted (now # ts)" "\<forall>t \<in> set ts. t < E"
    and "\<forall>r \<in> set (allow_calls R sha p key limit window s ts). \<exists>b. r = Inr b"
  shows "allow_calls R sha p key limit window s ts = map (\<lambda>j. Inr (int (i + j) < limit)) [0..<length ts]"
  using assms(3-7)
proof (induction ts arbitrary: s now i)
  case (Cons t ts)
  let ?k = "hashedKey sha p ''rate_limit'' key"
  let ?sc = "redisRateLimitScript R t ?k (window div millisecond) s"
  obtain s' r where a: "Allow (Some R) sha p t s key limit window = (s', r)" by fastforce
  with Cons.prems(5) obtain b where r: "r = Inr b" by auto
  from Allow_result [OF assms(1,2) a [unfolded r]] have s': "s' = fst ?sc" and b: "b = (snd ?sc \<le> limit)"
    by (metis fst_conv, blast)
  have t: "now \<le> t" "t < E" using Cons.prems by auto
  have g: "rd_get R s t ?k = Some (itoa i)" using Cons.prems(2) t by simp
  have v: "rd_get R s' u ?k = Some (itoa (Suc i))" if "t \<le> u" "u < E" for u
    using limit_script_next(2) [OF g Cons.prems(1) that(1)] Cons.prems(2) [of u] t that s' by simp
  have "allow_calls R sha p key limit window s' ts = map (\<lambda>j. Inr (int (Suc i + j) < limit)) [0..<length ts]"
    by (rule Cons.IH [of "Suc i" t s']) (use Cons.prems v a in \<open>auto\<close>)
  moreover have "b = (int i < limit)" using b limit_script_next(1) [OF g Cons.prems(1)] by auto
  moreover have "[0..<length (t # ts)] = 0 # map Suc [0..<length ts]"
    by (simp add: map_Suc_upt upt_conv_Cons del: upt_Suc)
  ultimately show ?case using a r by (simp add: add.left_commute)
qed simp

lemma allow_calls_window:
  assumes "0 < limit" "0 < window" "rd_get R s t0 (hashedKey sha p ''rate_limit'' key) = None"
    and "sorted (t0 # ts)" "\<forall>t \<in> set ts. t < t0 + window div millisecond * millisecond"
    and "\<forall>r \<in> set (allow_calls R sha p key limit window s (t0 # ts)). \<exists>b. r = Inr b"
  shows "allow_calls R sha p key limit window s (t0 # ts) = map (\<lambda>j. Inr (int j < limit)) [0..<length (t0 # ts)]"
proof -
  let ?k = "hashedKey sha p ''rate_limit'' key"
  let ?sc = "redisRateLimitScript R t0 ?k (window div millisecond) s"
  obtain s' r where a: "Allow (Some R) sha p t0 s key limit window = (s', r)" by fastforce
  with assms(6) obtain b where r: "r = Inr b" by auto
  from Allow_result [OF assms(1,2) a [unfolded r]] have s': "s' = fst ?sc" and b: "b = (snd ?sc \<le> limit)"
    by (metis fst_conv, blast)
  have v: "rd_get R s' u ?k = Some (itoa 1)" if "t0 \<le> u" "u < t0 + window div millisecond * millisecond" for u
    using limit_script_first(2) [OF assms(3) that(1)] that s' by simp
  have "allow_calls R sha p key limit window s' ts = map (\<lambda>j. Inr (int (1 + j) < limit)) [0..<length ts]"
    by (rule allow_calls_counted [of limit window 1 t0]) (use assms v a in \<open>auto\<close>)
  moreover have "b = (0 < limit)" using b limit_script_first(1) [OF assms(3)] by auto
  moreover have "[0..<length (t0 # ts)] = 0 # map Suc [0..<length ts]"
    by (simp add: map_Suc_upt upt_conv_Cons del: upt_Suc)
  ultimately show ?thesis using a r by simp
qed

subsubsection \<open>The semaphore\<close>

lemma acquire_slots_none:
  "acquire_slots R p now key v ttl s slots = (s', Inr None) \<Longrightarrow>
     (\<forall>slot \<in> set slots. rd_get R s now (slotKey p key slot) \<noteq> None) \<and> (\<forall>t \<ge> now. rd_get R s' t = rd_get R s t)"
proof (induction slots arbitrary: s)
  case (Cons slot slots)
  obtain s1 r where n: "rd_setnx R s now (slotKey p key slot) v ttl = (s1, r)" by fastforce
  with Cons.prems have r: "r = Inr False" by (auto split: sum.splits if_splits)
  from setnx_no [OF n [unfolded r]] have
    1: "rd_get R s now (slotKey p key slot) \<noteq> None" "\<forall>t \<ge> now. rd_get R s1 t = rd_get R s t" by auto
  from Cons.prems n r have "acquire_slots R p now key v ttl s1 slots = (s', Inr None)" by simp
  from Cons.IH [OF this] 1 show ?case by auto
qed simp

lemma acquire_slots_some:
  "acquire_slots R p now key v ttl s slots = (s', Inr (Some lock)) \<Longrightarrow> 0 < ttl \<Longrightarrow>
     \<exists>slot \<in> set slots. lock = RedisLock (slotKey p key slot) v \<and> rd_get R s now (slotKey p key slot) = None \<and>
       (\<forall>t \<ge> now. \<forall>k. rd_get R s' t k =
          (if k = slotKey p key slot then (if t < now + ttl then Some v else None) else rd_get R s t k))"
proof (induction slots arbitrary: s)
  case (Cons slot slots)
  obtain s1 r where n: "rd_setnx R s now (slotKey p key slot) v ttl = (s1, r)" by fastforce
  with Cons.prems obtain b where r: "r = Inr b" by (auto split: sum.splits)
  show ?case
  proof (cases b)
    case True
    with n r have n': "rd_setnx R s now (slotKey p key slot) v ttl = (s1, Inr True)" by simp
    from setnx_ok [OF n' Cons.prems(2)] Cons.prems(1) n' show ?thesis by auto
  next
    case False
    with n r have n': "rd_setnx R s now (slotKey p key slot) v ttl = (s1, Inr False)" by simp
    from setnx_no [OF n'] have eq: "\<forall>t \<ge> now. rd_get R s1 t = rd_get R s t" by simp
    from Cons.prems(1) n r False have "acquire_slots R p now key v ttl s1 slots = (s', Inr (Some lock))" by simp
    from Cons.IH [OF this Cons.prems(2)] eq show ?thesis by fastforce
  qed
qed simp

lemma TryAcquire_none:
  assumes "TryAcquire (Some R) p now s key v limit ttl = (s', Inr None)"
  shows "(\<forall>slot < nat limit. rd_get R s now (slotKey p (trim_space key) slot) \<noteq> None) \<and>
    (\<forall>t \<ge> now. rd_get R s' t = rd_get R s t)"
proof -
  from assms have "acquire_slots R p now (trim_space key) (trim_space v) ttl s [0..<nat limit] = (s', Inr None)"
    by (auto simp: TryAcquire_def Let_def split: if_splits)
  from acquire_slots_none [OF this] show ?thesis by simp
qed

lemma TryAcquire_some:
  assumes "TryAcquire (Some R) p now s key v limit ttl = (s', Inr (Some lock))"
  shows "0 < ttl \<and> (\<exists>slot < nat limit. lock = RedisLock (slotKey p (trim_space key) slot) (trim_space v) \<and>
      rd_get R s now (slotKey p (trim_space key) slot) = None \<and>
      (\<forall>t \<ge> now. \<forall>k. rd_get R s' t k =
         (if k = slotKey p (trim_space key) slot then (if t < now + ttl then Some (trim_space v) else None)
          else rd_get R s t k)))"
proof -
  from assms have a: "acquire_slots R p now (trim_space key) (trim_space v) ttl s [0..<nat limit] = (s', Inr (Some lock))"
    and ttl: "0 < ttl" by (auto simp: TryAcquire_def Let_def split: if_splits)
  from acquire_slots_some [OF a ttl] ttl show ?thesis by (fastforce simp: atLeast0LessThan)
qed

subsubsection \<open>The lock\<close>

lemma limit_script_other:
  assumes "k' \<noteq> k" "t \<ge> now"
  shows "rd_get R (fst (redisRateLimitScript R now k w s)) t k' = rd_get R s t k'"
  using assms by (simp add: redisRateLimitScript_def case_prod_beta pexpire_key incr_other)

lemma Allow_keeps:
  assumes "k \<noteq> hashedKey sha p ''rate_limit'' key" "t \<ge> now"
  shows "rd_get R (fst (Allow (Some R) sha p now s key limit window)) t k = rd_get R s t k"
proof -
  let ?w = "(if window \<le> 0 then 1000000000 else window) div millisecond"
  let ?sc = "redisRateLimitScript R now (hashedKey sha p ''rate_limit'' key) ?w"
  obtain s' r where e: "rd_eval R s ?sc = (s', r)" by fastforce
  have "s' = s \<or> s' = fst (?sc s)"
    using eval_ok [of s ?sc s'] eval_err [of s ?sc s'] e by (cases r) (metis fst_conv)+
  then have "rd_get R s' t k = rd_get R s t k" using limit_script_other assms by auto
  with e show ?thesis by (cases r) (auto simp: Allow_def Let_def)
qed

lemma TryLock_keeps:
  assumes "rd_get R s now k = Some v" "t \<ge> now"
  shows "rd_get R (fst (TryLock (Some R) p now s key w ttl)) t k = rd_get R s t k"
proof -
  obtain s' r where n: "rd_setnx R s now (plainKey p [''lock'', key]) w ttl = (s', r)" by fastforce
  then show ?thesis
    using setnx_keeps [OF n _ assms] by (cases r) (auto simp: TryLock_def Let_def)
qed

lemma TryAcquire_keeps:
  assumes "rd_get R s now k = Some v" "t \<ge> now"
  shows "rd_get R (fst (TryAcquire (Some R) p now s key w limit ttl)) t k = rd_get R s t k"
  using acquire_keeps [OF _ assms] by (simp add: TryAcquire_def Let_def)

lemma run_coord_keeps:
  assumes "k = plainKey p [''lock'', key]"
    and "\<And>t. now \<le> t \<Longrightarrow> t < E \<Longrightarrow> rd_get R s t k = Some v"
    and "sorted (now # map fst ops)" "\<forall>(t, oper) \<in> set ops. t < E \<and> oper \<noteq> DoRelease (RedisLock k v)"
    and "last (now # map fst ops) \<le> u" "u < E"
  shows "rd_get R (run_coord R sha p s ops) u k = Some v"
  using assms(2-)
proof (induction ops arbitrary: s now)
  case (Cons top ops)
  obtain t oper where [simp]: "top = (t, oper)" by fastforce
  have t: "now \<le> t" "t < E" "oper \<noteq> DoRelease (RedisLock k v)" using Cons.prems by auto
  have g: "rd_get R s t k = Some v" using Cons.prems(1) t by blast
  let ?s = "(case oper of
          DoAllow key limit window \<Rightarrow> fst (Allow (Some R) sha p t s key limit window)
        | DoTryLock key v ttl \<Rightarrow> fst (TryLock (Some R) p t s key v ttl)
        | DoRelease lock \<Rightarrow> fst (Release (Some R) t s lock)
        | DoTryAcquire key v limit ttl \<Rightarrow> fst (TryAcquire (Some R) p t s key v limit ttl))"
  have hk: "k \<noteq> hashedKey sha p ''rate_limit'' key'" for key'
    unfolding assms(1) hashedKey_def by (rule namespace_neq) (simp_all add: namespaces)
  have keep: "rd_get R ?s x k = rd_get R s x k" if "x \<ge> t" for x
    using that t(3) hk g
    by (cases oper) (auto simp: Allow_keeps TryLock_keeps [OF g] TryAcquire_keeps [OF g] Release_keeps [OF _ _ g])
  have "rd_get R (run_coord R sha p ?s ops) u k = Some v"
    by (rule Cons.IH [of t]) (use Cons.prems keep t(1) in \<open>auto split: if_splits\<close>)
  then show ?case by simp
qed simp

lemma TryLock_got:
  assumes "TryLock (Some R) p now s key v ttl = (s', Inr (Some lock))"
  shows "lock = RedisLock (plainKey p [''lock'', key]) v \<and> 0 < ttl \<and>
    (\<forall>t. now \<le> t \<longrightarrow> t < now + ttl \<longrightarrow> rd_get R s' t (plainKey p [''lock'', key]) = Some v)"
proof -
  from assms have ttl: "0 < ttl" and lock: "lock = RedisLock (plainKey p [''lock'', key]) v"
    and n: "rd_setnx R s now (plainKey p [''lock'', key]) v ttl = (s', Inr True)"
    by (auto simp: TryLock_def Let_def split: if_splits prod.splits sum.splits)
  from setnx_ok [OF n ttl] ttl lock show ?thesis by simp
qed

lemma TryLock_refused:
  assumes "rd_get R s now (plainKey p [''lock'', key]) = Some v"
  shows "snd (TryLock (Some R) p now s key w ttl) \<noteq> Inr (Some lock)"
proof
  assume "snd (TryLock (Some R) p now s key w ttl) = Inr (Some lock)"
  then have ttl: "0 < ttl" and n: "rd_setnx R s now (plainKey p [''lock'', key]) w ttl
      = (fst (TryLock (Some R) p now s key w ttl), Inr True)"
    by (auto simp: TryLock_def Let_def split: if_splits prod.splits sum.splits)
  from setnx_ok [OF n ttl] assms show False by simp
qed

subsubsection \<open>The grants of the semaphore\<close>

text \<open>
  Every grant that is neither released nor expired is backed by the value of its slot until it expires,
  and two live grants have different slots.
\<close>

definition backed_grant :: "string \<Rightarrow> string \<Rightarrow> nat \<Rightarrow> int \<Rightarrow> 's \<Rightarrow> int \<Rightarrow> dlock \<Rightarrow> bool" where
  "backed_grant p key n now s e l \<longleftrightarrow> (\<exists>slot < n. \<exists>v. l = RedisLock (slotKey p key slot) v \<and>
     (\<forall>t. now \<le> t \<longrightarrow> t < e \<longrightarrow> rd_get R s t (slotKey p key slot) = Some v))"

definition grants_backed :: "string \<Rightarrow> string \<Rightarrow> nat \<Rightarrow> int \<Rightarrow> 's \<Rightarrow> grants \<Rightarrow> bool" where
  "grants_backed p key n now s gs \<longleftrightarrow>
     (\<forall>(k, e, l) \<in> set (live_grants key now gs). backed_grant p key n now s e l) \<and>
     distinct (map (\<lambda>(_, _, l). lock_key l) (live_grants key now gs))"

lemma semaphore_key_free: "slotKey p key slot \<noteq> hashedKey sha q ''rate_limit'' k"
  unfolding slotKey_def hashedKey_def by (rule namespace_neq) (simp_all add: namespaces)

lemma op_keeps:
  assumes "rd_get R s t k = Some v" "oper \<noteq> DoRelease (RedisLock k v)" "t \<le> x"
    and "\<And>key. k \<noteq> hashedKey sha p ''rate_limit'' key"
  shows "rd_get R (run_coord R sha p s [(t, oper)]) x k = rd_get R s x k"
  using assms(2-4)
  by (cases oper)
    (auto simp: Allow_keeps TryLock_keeps [OF assms(1)] TryAcquire_keeps [OF assms(1)] Release_keeps [OF _ _ assms(1)])

lemma backed_kept:
  assumes "backed_grant p key n t s e l" "t < e" "oper \<noteq> DoRelease l"
  shows "backed_grant p key n t (run_coord R sha p s [(t, oper)]) e l"
proof -
  from assms(1) obtain slot v where slot: "slot < n" "l = RedisLock (slotKey p key slot) v"
    and v: "\<And>x. t \<le> x \<Longrightarrow> x < e \<Longrightarrow> rd_get R s x (slotKey p key slot) = Some v"
    unfolding backed_grant_def by blast
  have "rd_get R (run_coord R sha p s [(t, oper)]) x (slotKey p key slot) = Some v" if "t \<le> x" "x < e" for x
    using op_keeps [OF v [OF order_refl assms(2)] _ that(1) semaphore_key_free] v [OF that] slot(2) assms(3) by simp
  with slot show ?thesis unfolding backed_grant_def by blast
qed

lemma backed_later:
  assumes "grants_backed p key n now s gs" "now \<le> t"
  shows "grants_backed p key n t s gs"
proof -
  have sub: "live_grants key t gs = filter (\<lambda>(_, e, _). t < e) (live_grants key now gs)"
    using assms(2) by (auto simp: live_grants_def intro!: filter_cong)
  from assms have "\<forall>(k, e, l) \<in> set (live_grants key now gs). backed_grant p key n t s e l"
    by (fastforce simp: grants_backed_def backed_grant_def)
  with assms(1) show ?thesis
    by (auto simp: grants_backed_def sub distinct_map_filter)
qed

lemma grants_step:
  assumes b: "grants_backed p key n t s gs" and lim: "grant_limit key n oper"
  shows "grants_backed p key n t (run_coord R sha p s [(t, oper)]) (grants_after R p s t oper gs)"
proof -
  let ?s = "run_coord R sha p s [(t, oper)]"
  let ?key = "\<lambda>(_, _, l). lock_key l"
  have kept: "backed_grant p key n t ?s e l" if "(k, e, l) \<in> set (live_grants key t gs)" "oper \<noteq> DoRelease l" for k e l
    using b that by (intro backed_kept) (auto simp: grants_backed_def live_grants_def)
  have old: "grants_backed p key n t ?s gs" if "\<And>l. oper \<noteq> DoRelease l"
    using b kept that by (auto simp: grants_backed_def)
  show ?thesis
  proof (cases oper)
    case (DoRelease lock)
    have "live_grants key t (filter (\<lambda>(_, _, l). l \<noteq> lock) gs) =
        filter (\<lambda>(_, _, l). l \<noteq> lock) (live_grants key t gs)"
      by (auto simp: live_grants_def filter_filter intro!: filter_cong)
    with b kept DoRelease show ?thesis by (auto simp: grants_backed_def distinct_map_filter)
  next
    case (DoTryAcquire key2 v limit ttl)
    obtain s' r where a: "TryAcquire (Some R) p t s key2 v limit ttl = (s', r)" by fastforce
    show ?thesis
    proof (cases "\<exists>lock. r = Inr (Some lock) \<and> trim_space key2 = key")
      case False
      then have "live_grants key t (grants_after R p s t oper gs) = live_grants key t gs"
        using a DoTryAcquire by (auto simp: live_grants_def split: sum.splits option.splits)
      with old DoTryAcquire show ?thesis by (auto simp: grants_backed_def)
    next
      case True
      then obtain lock where r: "r = Inr (Some lock)" and k: "trim_space key2 = key" by blast
      from TryAcquire_some [OF a [unfolded r]] k obtain slot where ttl: "0 < ttl" and slot: "slot < nat limit"
        and l: "lock = RedisLock (slotKey p key slot) (trim_space v)"
        and free: "rd_get R s t (slotKey p key slot) = None"
        and view: "\<forall>x \<ge> t. \<forall>k. rd_get R s' x k =
          (if k = slotKey p key slot then (if x < t + ttl then Some (trim_space v) else None) else rd_get R s x k)"
        by blast
      have live: "live_grants key t (grants_after R p s t oper gs) = (key, t + ttl, lock) # live_grants key t gs"
        using a r k ttl DoTryAcquire by (simp add: live_grants_def)
      have s': "?s = s'" using a DoTryAcquire by simp
      have "slot < n" using slot lim k DoTryAcquire by simp
      then have new: "backed_grant p key n t ?s (t + ttl) lock"
        unfolding backed_grant_def s' using l view by auto
      have "lock_key lock \<notin> ?key ` set (live_grants key t gs)"
      proof
        assume "lock_key lock \<in> ?key ` set (live_grants key t gs)"
        then obtain k e l2 where g: "(k, e, l2) \<in> set (live_grants key t gs)" "lock_key l2 = slotKey p key slot"
          using l by auto
        then have "t < e" "backed_grant p key n t s e l2" using b by (auto simp: grants_backed_def live_grants_def)
        with g(2) free show False by (auto simp: backed_grant_def slotKey_inject)
      qed
      with live new old DoTryAcquire show ?thesis by (simp add: grants_backed_def)
    qed
  qed (use old in \<open>auto\<close>)
qed

lemma grants_run:
  assumes "grants_backed p key n now s gs" "sorted (now # map fst ops)" "\<forall>(t, oper) \<in> set ops. grant_limit key n oper"
  shows "grants_backed p key n (last (now # map fst ops)) (run_coord R sha p s ops) (run_grants R sha p s gs ops)"
  using assms
proof (induction ops arbitrary: s gs now)
  case (Cons top ops)
  obtain t oper where [simp]: "top = (t, oper)" by fastforce
  have "grants_backed p key n t (run_coord R sha p s [(t, oper)]) (grants_after R p s t oper gs)"
    using Cons.prems by (intro grants_step backed_later [OF Cons.prems(1)]) auto
  from Cons.IH [OF this] Cons.prems show ?case by (simp split: coord_op.splits)
qed simp

lemma backed_bound:
  assumes "grants_backed p key n now s gs"
  shows "length (live_grants key now gs) \<le> n"
proof -
  let ?ks = "map (\<lambda>(_, _, l). lock_key l) (live_grants key now gs)"
  have "set ?ks \<subseteq> slotKey p key ` {..<n}"
    using assms by (auto simp: grants_backed_def backed_grant_def)
  then have "card (set ?ks) \<le> n" using surj_card_le [of "{..<n}" "set ?ks"] by simp
  moreover have "distinct ?ks" using assms by (simp add: grants_backed_def)
  ultimately have "length ?ks \<le> n" by (simp only: distinct_card)
  then show ?thesis by simp
qed

end

subsection \<open>A server in memory\<close>

type_synonym mem_redis_state = "string \<Rightarrow> (string \<times> int option) option"

definition mr_get :: "mem_redis_state \<Rightarrow> int \<Rightarrow> string \<Rightarrow> string option" where
  "mr_get s t k = (case s k of None \<Rightarrow> None
     | Some (v, None) \<Rightarrow> Some v
     | Some (v, Some e) \<Rightarrow> if t < e then Some v else None)"

definition mem_redis :: "mem_redis_state redis" where
  "mem_redis =
     \<lparr>rd_get = mr_get,
      rd_setnx = (\<lambda>s now k v ttl. if mr_get s now k = None then (s(k \<mapsto> (v, Some (now + ttl))), Inr True) else (s, Inr False)),
      rd_set = (\<lambda>s now k v ttl. (s(k \<mapsto> (v, Some (now + ttl))), None)),
      rd_del = (\<lambda>s now k. (s(k := None), if mr_get s now k = None then 0 else 1)),
      rd_incr = (\<lambda>s now k. case mr_get s now k of
          None \<Rightarrow> (s(k \<mapsto> (itoa 1, None)), 1)
        | Some v \<Rightarrow> (s(k \<mapsto> (itoa (digits_val v + 1), snd (the (s k)))), int (digits_val v) + 1)),
      rd_pexpire = (\<lambda>s now k ms. case mr_get s now k of
          None \<Rightarrow> s(k := None)
        | Some v \<Rightarrow> s(k \<mapsto> (v, Some (now + ms * millisecond)))),
      rd_eval = (\<lambda>s script. case script s of (s', n) \<Rightarrow> (s', Inr n))\<rparr>"

lemma mr_get_upd: "mr_get (s(k := x)) t k' =
   (if k' = k then (case x of None \<Rightarrow> None | Some (v, None) \<Rightarrow> Some v | Some (v, Some e) \<Rightarrow> if t < e then Some v else None)
    else mr_get s t k')"
  by (simp add: mr_get_def)

lemma mr_get_later: "now \<le> t \<Longrightarrow> mr_get s now k = None \<Longrightarrow> mr_get s t k = None"
  by (auto simp: mr_get_def split: option.splits prod.splits if_splits)

lemma mr_get_same: "mr_get s now k = Some v \<Longrightarrow> s k = Some (v, snd (the (s k)))"
  by (auto simp: mr_get_def split: option.splits prod.splits if_splits)

lemma mr_get_keep: "mr_get s now k = Some v \<Longrightarrow>
   mr_get (s(k \<mapsto> (w, snd (the (s k))))) t k = map_option (\<lambda>_. w) (mr_get s t k)"
  by (auto simp: mr_get_def split: option.splits prod.splits if_splits)

lemma mem_redis_laws: "redis_laws mem_redis"
proof (unfold_locales, goal_cases)
  case (8 s now k n)
  then show ?case by (auto simp: mem_redis_def mr_get_keep) (auto simp: mr_get_upd)
next
  case (13 now t s k v)
  then show ?case by (auto simp: mem_redis_def mr_get_def split: option.splits prod.splits if_splits)
qed (auto simp: mem_redis_def mr_get_upd mr_get_later split: if_splits option.splits prod.splits)

interpretation mem_redis: redis_laws mem_redis
  by (rule mem_redis_laws)

subsection \<open>Properties\<close>

text \<open>
  Property C17. The scan lock is exclusive: after a worker has taken the lock of a key, no later
  \<open>TryLock\<close> for that key, with whatever value, succeeds before the lock's time to live is over
  or the very lock is released, whatever other calls of the limiter, the locks and the semaphore
  (releases of other locks included, failing calls included) happen in between.
\<close>

theorem TryLock_exclusive:
  assumes "redis_laws R" "TryLock (Some R) p now s key v ttl = (s1, Inr (Some lock))"
    and "sorted (now # map fst ops)"
    and "\<forall>(t, oper) \<in> set ops. t < now + ttl \<and> oper \<noteq> DoRelease lock"
    and "last (now # map fst ops) \<le> t" "t < now + ttl"
  shows "snd (TryLock (Some R) p t (run_coord R sha p s1 ops) key w ttl2) \<noteq> Inr (Some lock2)"
proof -
  note got = redis_laws.TryLock_got [OF assms(1,2)]
  have "rd_get R (run_coord R sha p s1 ops) t (plainKey p [''lock'', key]) = Some v"
    by (rule redis_laws.run_coord_keeps [OF assms(1) refl _ assms(3) _ assms(5,6)])
      (use got assms(4) in auto)
  then show ?thesis by (rule redis_laws.TryLock_refused [OF assms(1)])
qed

lemmas mem_eval = mem_redis_def mr_get_def Let_def

theorem TryLock_exclusive_witness:
  "\<nexists>lock2. (let s1 = fst (TryLock (Some mem_redis) ''k'' 0 (\<lambda>_. None) ''scan_job:1'' ''w1'' 100) in
    snd (TryLock (Some mem_redis) ''k'' 60 (run_coord mem_redis id ''k'' s1
        [(20, DoRelease (RedisLock (plainKey ''k'' [''lock'', ''scan_job:1'']) ''w2''))]) ''scan_job:1'' ''w2'' 100)
      = Inr (Some lock2))"
proof -
  let ?t = "TryLock (Some mem_redis) ''k'' 0 (\<lambda>_. None) ''scan_job:1'' ''w1'' 100"
  let ?l = "RedisLock (plainKey ''k'' [''lock'', ''scan_job:1'']) ''w1''"
  have "trim_space ''scan_job:1'' \<noteq> []" "trim_space ''w1'' \<noteq> []"
    by (simp_all add: trim_space_def trim_left_def trim_right_def is_space_def)
  then have 1: "?t = (fst ?t, Inr (Some ?l))" by (simp add: TryLock_def mem_eval)
  have "snd (TryLock (Some mem_redis) ''k'' 60 (run_coord mem_redis id ''k'' (fst ?t)
      [(20, DoRelease (RedisLock (plainKey ''k'' [''lock'', ''scan_job:1'']) ''w2''))]) ''scan_job:1'' ''w2'' 100)
    \<noteq> Inr (Some lock2)" for lock2
    by (rule TryLock_exclusive [OF mem_redis_laws 1]) simp_all
  then show ?thesis unfolding Let_def by blast
qed

text \<open>
  Property C22. The semaphore bounds its holders: after any calls of the limiter, the locks and
  the semaphore of any processes, one after another, in which no \<open>TryAcquire\<close> of a key asks
  for more than \<open>n\<close> slots, at most \<open>n\<close> grants of that key are neither released nor
  expired, and they have different slots. A further \<open>TryAcquire\<close> with the limit \<open>n\<close> that
  succeeds returns the lock of a slot that was free, which now holds the caller's value until the
  time to live is over, while every other key keeps its value; it is refused only when all
  \<open>n\<close> slots are taken, and changes nothing then.
\<close>

theorem TryAcquire_bounded:
  assumes "redis_laws R" "sorted (start # map fst ops)" "last (start # map fst ops) \<le> now"
    and "\<forall>(t, oper) \<in> set ops. grant_limit (trim_space key) n oper"
  shows "length (live_grants (trim_space key) now (run_grants R sha p s [] ops)) \<le> n \<and>
    distinct (map (\<lambda>(_, _, l). lock_key l) (live_grants (trim_space key) now (run_grants R sha p s [] ops))) \<and>
    (case TryAcquire (Some R) p now (run_coord R sha p s ops) key v (int n) ttl of
       (s', Inl e) \<Rightarrow> True
     | (s', Inr None) \<Rightarrow>
         (\<forall>slot < n. rd_get R (run_coord R sha p s ops) now (slotKey p (trim_space key) slot) \<noteq> None) \<and>
         (\<forall>t \<ge> now. rd_get R s' t = rd_get R (run_coord R sha p s ops) t)
     | (s', Inr (Some lock)) \<Rightarrow>
         (\<exists>slot < n. lock = RedisLock (slotKey p (trim_space key) slot) (trim_space v) \<and>
            rd_get R (run_coord R sha p s ops) now (slotKey p (trim_space key) slot) = None \<and>
            (\<forall>t \<ge> now. \<forall>k. rd_get R s' t k =
               (if k = slotKey p (trim_space key) slot then (if t < now + ttl then Some (trim_space v) else None)
                else rd_get R (run_coord R sha p s ops) t k))))"
proof -
  have "redis_laws.grants_backed R p (trim_space key) n start s []"
    by (simp add: redis_laws.grants_backed_def [OF assms(1)] live_grants_def)
  note b = redis_laws.backed_later [OF assms(1) redis_laws.grants_run [OF assms(1) this assms(2,4)] assms(3)]
  from b have "distinct (map (\<lambda>(_, _, l). lock_key l) (live_grants (trim_space key) now (run_grants R sha p s [] ops)))"
    by (simp add: redis_laws.grants_backed_def [OF assms(1)])
  moreover obtain s' r where a: "TryAcquire (Some R) p now (run_coord R sha p s ops) key v (int n) ttl = (s', r)"
    by fastforce
  consider (err) e where "r = Inl e" | (no) "r = Inr None" | (lock) lock where "r = Inr (Some lock)"
    by (cases r) (auto intro: option.exhaust)
  then have "case r of Inl e \<Rightarrow> True
     | Inr None \<Rightarrow>
         (\<forall>slot < n. rd_get R (run_coord R sha p s ops) now (slotKey p (trim_space key) slot) \<noteq> None) \<and>
         (\<forall>t \<ge> now. rd_get R s' t = rd_get R (run_coord R sha p s ops) t)
     | Inr (Some lock) \<Rightarrow>
         (\<exists>slot < n. lock = RedisLock (slotKey p (trim_space key) slot) (trim_space v) \<and>
            rd_get R (run_coord R sha p s ops) now (slotKey p (trim_space key) slot) = None \<and>
            (\<forall>t \<ge> now. \<forall>k. rd_get R s' t k =
               (if k = slotKey p (trim_space key) slot then (if t < now + ttl then Some (trim_space v) else None)
                else rd_get R (run_coord R sha p s ops) t k)))"
  proof cases
    case no
    from redis_laws.TryAcquire_none [OF assms(1) a [unfolded no]] no show ?thesis by simp
  next
    case (lock l)
    from redis_laws.TryAcquire_some [OF assms(1) a [unfolded lock], THEN conjunct2]
    show ?thesis unfolding lock by (simp only: nat_int sum.case option.case)
  qed simp
  ultimately show ?thesis
    using redis_laws.backed_bound [OF assms(1) b] unfolding a by (simp only: prod.case sum.case)
qed

theorem TryAcquire_bounded_witness:
  "length (live_grants ''g'' 5 (run_grants mem_redis id ''k'' (\<lambda>_. None) []
      [(0, DoTryAcquire ''g'' ''w1'' 1 9), (1, DoTryAcquire ''g'' ''w2'' 1 9)])) \<le> 1 \<and>
   live_grants ''g'' 5 (run_grants mem_redis id ''k'' (\<lambda>_. None) []
      [(0, DoTryAcquire ''g'' ''w1'' 1 9), (1, DoTryAcquire ''g'' ''w2'' 1 9)])
    = [(''g'', 9, RedisLock (slotKey ''k'' ''g'' 0) ''w1'')]"
proof -
  let ?ops = "[(0, DoTryAcquire ''g'' ''w1'' 1 9), (1, DoTryAcquire ''g'' ''w2'' 1 9)]"
  have t: "trim_space ''g'' = ''g''" "trim_space ''w1'' = ''w1''" "trim_space ''w2'' = ''w2''"
    by (simp_all add: trim_space_def trim_left_def trim_right_def is_space_def)
  have "length (live_grants (trim_space ''g'') 5 (run_grants mem_redis id ''k'' (\<lambda>_. None) [] ?ops)) \<le> 1"
    by (rule TryAcquire_bounded [OF mem_redis_laws, of 0, THEN conjunct1]) simp_all
  moreover have "run_grants mem_redis id ''k'' (\<lambda>_. None) [] ?ops = [(''g'', 9, RedisLock (slotKey ''k'' ''g'' 0) ''w1'')]"
    by (simp add: TryAcquire_def t mem_eval)
  ultimately show ?thesis by (simp add: t live_grants_def)
qed

text \<open>
  The rate limiter admits exactly the first \<open>limit\<close> calls of a window: when the
  key is free at \<open>t0\<close> and no call fails, the calls at \<open>t0\<close> and at any later times
  before the window ends are answered with true for the first \<open>limit\<close> of them and with false
  for all the others.
\<close>

theorem Allow_window:
  assumes "redis_laws R" "0 < limit" "0 < window"
    and "rd_get R s t0 (hashedKey sha p ''rate_limit'' key) = None"
    and "sorted (t0 # ts)" "\<forall>t \<in> set ts. t < t0 + window div millisecond * millisecond"
    and "\<forall>r \<in> set (allow_calls R sha p key limit window s (t0 # ts)). \<exists>b. r = Inr b"
  shows "allow_calls R sha p key limit window s (t0 # ts) = map (\<lambda>j. Inr (int j < limit)) [0..<length (t0 # ts)]"
  by (rule redis_laws.allow_calls_window [OF assms])

lemma allow_calls_mem: "\<forall>r \<in> set (allow_calls mem_redis sha p key limit window s ts). \<exists>b. r = Inr b"
proof (induction ts arbitrary: s)
  case (Cons t ts)
  have "\<exists>s' b. Allow (Some mem_redis) sha p t s key limit window = (s', Inr b)"
    by (auto simp: Allow_def mem_redis_def Let_def split: prod.split)
  with Cons.IH show ?case by auto
qed simp

theorem Allow_window_witness:
  "allow_calls mem_redis id ''k'' ''target'' 2 1000000000 (\<lambda>_. None) [5, 6, 7]
     = map (\<lambda>j. Inr (int j < 2)) [0..<length [5::int, 6, 7]]"
  by (rule Allow_window [OF mem_redis_laws _ _ _ _ _ allow_calls_mem])
    (simp_all add: mem_redis_def mr_get_def millisecond_def)

text \<open>
  Distinct keys of the store do not collide: \<open>plainKey\<close> is injective in its
  prefix and parts up to trimming, dropping empty parts and reading a colon as an underscore, so the
  namespaces of locks, semaphore slots, limits and progress stay apart; the slots of one semaphore have
  distinct keys.
\<close>

theorem plainKey_injective:
  "(plainKey p ps = plainKey q qs \<longleftrightarrow> normalizedPrefix p = normalizedPrefix q \<and> key_parts ps = key_parts qs) \<and>
   (slotKey p key m = slotKey p key n \<longleftrightarrow> m = n) \<and>
   plainKey p (''lock'' # ps) \<noteq> hashedKey sha q ''rate_limit'' key"
  using namespace_neq [of "''lock''" "''rate_limit''" p ps q] plainKey_inject slotKey_inject
  by (simp add: hashedKey_def namespaces)

end
