(* ===== verification/Go_Net.thy ===== *)
theory Go_Net
  imports Go_Base "HOL-Library.Word"
begin

text \<open>
  The part of Go's \<open>net\<close> and \<open>net/netip\<close> that the scan policy calls:
  \<open>netip.ParseAddr\<close>, \<open>net.ParseIP\<close>, \<open>net.ParseCIDR\<close>,
  \<open>IPNet.Contains\<close> and the address classes, written after the library's source. An address is
  its 16-byte form, a 128-bit word; an IPv4 address is the mapped word \<open>::ffff:a.b.c.d\<close>, which
  the library's \<open>Equal\<close> and \<open>To4\<close> do not tell from the 4-byte form.
\<close>

type_synonym ip = "128 word"

definition ip_of_bytes :: "nat list \<Rightarrow> ip" where
  "ip_of_bytes bs = foldl (\<lambda>a b. a * 256 + of_nat b) 0 bs"

definition v4_bytes :: "nat list \<Rightarrow> ip" where
  "v4_bytes bs = ip_of_bytes ([0,0,0,0,0,0,0,0,0,0,255,255] @ bs)"

definition ip_byte :: "ip \<Rightarrow> nat \<Rightarrow> nat" where
  "ip_byte a i = unat (take_bit 8 (drop_bit (8 * (15 - i)) a))"

text \<open>\<open>To4() != nil\<close>.\<close>

definition is4 :: "ip \<Rightarrow> bool" where
  "is4 a \<longleftrightarrow> drop_bit 32 a = 0xFFFF"

subsection \<open>Parsing\<close>

definition parse_octet :: "string \<Rightarrow> nat option" where
  "parse_octet f =
     (if f = [] \<or> \<not> list_all is_digit f then None
      else if length f > 1 \<and> hd f = CHR ''0'' then None
      else if digits_val f > 255 then None else Some (digits_val f))"

fun parse_octets :: "string list \<Rightarrow> nat list option" where
  "parse_octets [] = Some []"
| "parse_octets (f # fs) =
     (case parse_octet f of None \<Rightarrow> None | Some n \<Rightarrow> map_option (\<lambda>ns. n # ns) (parse_octets fs))"

definition parseIPv4 :: "string \<Rightarrow> nat list option" where
  "parseIPv4 s = (let fs = split_on (CHR ''.'') s in if length fs = 4 then parse_octets fs else None)"

definition hex_digit :: "char \<Rightarrow> nat option" where
  "hex_digit c = (if is_digit c then Some (byte c - 48)
     else if 97 \<le> byte c \<and> byte c \<le> 102 then Some (byte c - 87)
     else if 65 \<le> byte c \<and> byte c \<le> 70 then Some (byte c - 55) else None)"

definition hex_val :: "string \<Rightarrow> nat" where
  "hex_val s = foldl (\<lambda>a c. 16 * a + (case hex_digit c of None \<Rightarrow> 0 | Some d \<Rightarrow> d)) 0 s"

text \<open>
  The loop of \<open>parseIPv6\<close>: the bytes so far and the position of the ellipsis. The fuel is the
  number of groups left, eight at the start, so it is the loop's own bound \<open>i < 16\<close>.
\<close>

fun parse6_loop :: "nat \<Rightarrow> nat list \<Rightarrow> nat option \<Rightarrow> string \<Rightarrow> (nat list \<times> nat option \<times> string) option" where
  "parse6_loop 0 out ell s = Some (out, ell, s)"
| "parse6_loop (Suc n) out ell s =
     (let ds = takeWhile (\<lambda>c. hex_digit c \<noteq> None) s; rest = dropWhile (\<lambda>c. hex_digit c \<noteq> None) s in
      if length ds > 4 \<or> ds = [] then None
      else if rest \<noteq> [] \<and> hd rest = CHR ''.'' then
        (if ell = None \<and> length out \<noteq> 12 then None
         else if length out + 4 > 16 then None
         else map_option (\<lambda>bs. (out @ bs, ell, [])) (parseIPv4 s))
      else (let out' = out @ [hex_val ds div 256, hex_val ds mod 256] in
        (case rest of
           [] \<Rightarrow> Some (out', ell, [])
         | c # r \<Rightarrow>
             if c \<noteq> CHR '':'' \<or> r = [] then None
             else if hd r = CHR '':'' then
               (if ell \<noteq> None then None
                else if tl r = [] then Some (out', Some (length out'), [])
                else parse6_loop n out' (Some (length out')) (tl r))
             else parse6_loop n out' ell r)))"

definition expand6 :: "nat list \<times> nat option \<times> string \<Rightarrow> nat list option" where
  "expand6 r = (case r of (out, ell, s) \<Rightarrow>
     if s \<noteq> [] then None
     else if length out < 16 then
       (case ell of None \<Rightarrow> None
        | Some e \<Rightarrow> Some (take e out @ replicate (16 - length out) 0 @ drop e out))
     else if ell \<noteq> None then None else Some out)"

definition parseIPv6_addr :: "string \<Rightarrow> nat list option" where
  "parseIPv6_addr s =
     (if has_prefix s ''::'' then
        (if length s = 2 then Some (replicate 16 0)
         else (case parse6_loop 8 [] (Some 0) (drop 2 s) of None \<Rightarrow> None | Some r \<Rightarrow> expand6 r))
      else (case parse6_loop 8 [] None s of None \<Rightarrow> None | Some r \<Rightarrow> expand6 r))"

datatype parsed_addr = Addr4 ip | Addr6 ip string

text \<open>\<open>netip.ParseAddr\<close>: the first of dot, colon and percent decides; a zone may be empty only if absent.\<close>

definition ParseAddr :: "string \<Rightarrow> parsed_addr option" where
  "ParseAddr s =
     (case dropWhile (\<lambda>c. c \<notin> set ''.:%'') s of
        [] \<Rightarrow> None
      | c # _ \<Rightarrow>
          if c = CHR ''.'' then map_option (\<lambda>bs. Addr4 (v4_bytes bs)) (parseIPv4 s)
          else if c = CHR '':'' then
            (case cut_at (CHR ''%'') s of
               None \<Rightarrow> map_option (\<lambda>bs. Addr6 (ip_of_bytes bs) []) (parseIPv6_addr s)
             | Some (a, zone) \<Rightarrow>
                 if zone = [] then None
                 else map_option (\<lambda>bs. Addr6 (ip_of_bytes bs) zone) (parseIPv6_addr a))
          else None)"

definition ParseIP :: "string \<Rightarrow> ip option" where
  "ParseIP s = (case ParseAddr s of
      Some (Addr4 a) \<Rightarrow> Some a
    | Some (Addr6 a zone) \<Rightarrow> if zone = [] then Some a else None
    | None \<Rightarrow> None)"

subsection \<open>Networks\<close>

text \<open>A network: its masked address and its prefix length on the 128-bit scale.\<close>

record ipnet =
  net_IP :: ip
  net_Bits :: nat

definition ip_mask :: "nat \<Rightarrow> ip \<Rightarrow> ip" where
  "ip_mask n a = push_bit (128 - n) (drop_bit (128 - n) a)"

definition dtoi_all :: "string \<Rightarrow> nat option" where
  "dtoi_all s = (if s = [] \<or> \<not> list_all is_digit s \<or> digits_val s \<ge> 16777215 then None else Some (digits_val s))"

definition ParseCIDR :: "string \<Rightarrow> ipnet option" where
  "ParseCIDR s =
     (case cut_at (CHR ''/'') s of
        None \<Rightarrow> None
      | Some (addr, bits) \<Rightarrow>
          (case (ParseAddr addr, dtoi_all bits) of
             (Some (Addr4 a), Some n) \<Rightarrow>
               if n \<le> 32 then Some \<lparr>net_IP = ip_mask (96 + n) a, net_Bits = 96 + n\<rparr> else None
           | (Some (Addr6 a zone), Some n) \<Rightarrow>
               if zone = [] \<and> n \<le> 128 then Some \<lparr>net_IP = ip_mask n a, net_Bits = n\<rparr> else None
           | _ \<Rightarrow> None))"

definition net_Contains :: "ipnet \<Rightarrow> ip option \<Rightarrow> bool" where
  "net_Contains n a = (case a of None \<Rightarrow> False
     | Some x \<Rightarrow> is4 (net_IP n) = is4 x \<and> ip_mask (net_Bits n) (net_IP n) = ip_mask (net_Bits n) x)"

subsection \<open>Address classes\<close>

definition IsUnspecified :: "ip \<Rightarrow> bool" where
  "IsUnspecified a \<longleftrightarrow> a = v4_bytes [0,0,0,0] \<or> a = 0"

definition IsLoopback :: "ip \<Rightarrow> bool" where
  "IsLoopback a \<longleftrightarrow> (if is4 a then ip_byte a 12 = 127 else a = 1)"

definition IsPrivate :: "ip \<Rightarrow> bool" where
  "IsPrivate a \<longleftrightarrow>
     (if is4 a then ip_byte a 12 = 10 \<or> ip_byte a 12 = 172 \<and> ip_byte a 13 div 16 = 1 \<or>
                    ip_byte a 12 = 192 \<and> ip_byte a 13 = 168
      else ip_byte a 0 div 2 = 126)"

definition IsMulticast :: "ip \<Rightarrow> bool" where
  "IsMulticast a \<longleftrightarrow> (if is4 a then ip_byte a 12 div 16 = 14 else ip_byte a 0 = 255)"

definition IsLinkLocalMulticast :: "ip \<Rightarrow> bool" where
  "IsLinkLocalMulticast a \<longleftrightarrow>
     (if is4 a then ip_byte a 12 = 224 \<and> ip_byte a 13 = 0 \<and> ip_byte a 14 = 0
      else ip_byte a 0 = 255 \<and> ip_byte a 1 mod 16 = 2)"

definition IsLinkLocalUnicast :: "ip \<Rightarrow> bool" where
  "IsLinkLocalUnicast a \<longleftrightarrow>
     (if is4 a then ip_byte a 12 = 169 \<and> ip_byte a 13 = 254 else ip_byte a 0 = 254 \<and> ip_byte a 1 div 64 = 2)"

subsection \<open>Evaluating the parsers\<close>

lemmas parse6_loop_numeral = parse6_loop.simps(2) [of "pred_numeral k" for k, folded numeral_eq_Suc]

lemma replicate_num: "replicate (numeral k) x = x # replicate (pred_numeral k) x"
  by (simp add: numeral_eq_Suc)

lemmas ip_eval = ParseAddr_def parseIPv4_def parse_octet_def is_digit_def digits_val_def digit_val_def
  v4_bytes_def ip_of_bytes_def Let_def parseIPv6_addr_def parse6_loop_numeral expand6_def hex_digit_def
  hex_val_def replicate_num cut_at_def ip_mask_def dtoi_all_def ParseCIDR_def

subsection \<open>IPv4 addresses by their bytes\<close>

definition v4_nat :: "nat \<Rightarrow> nat \<Rightarrow> nat \<Rightarrow> nat \<Rightarrow> nat" where
  "v4_nat a b c d = (((65535 * 256 + a) * 256 + b) * 256 + c) * 256 + d"

definition octets :: "nat \<Rightarrow> nat \<Rightarrow> nat \<Rightarrow> nat \<Rightarrow> bool" where
  "octets a b c d \<longleftrightarrow> a < 256 \<and> b < 256 \<and> c < 256 \<and> d < 256"

lemma v4_bytes_nat: "v4_bytes [a, b, c, d] = of_nat (v4_nat a b c d)"
  by (simp add: v4_bytes_def ip_of_bytes_def v4_nat_def algebra_simps)

lemma v4_nat_less: "octets a b c d \<Longrightarrow> v4_nat a b c d < 2 ^ 128"
  by (simp add: v4_nat_def octets_def)

lemma unat_v4: "octets a b c d \<Longrightarrow> unat (v4_bytes [a, b, c, d]) = v4_nat a b c d"
  unfolding v4_bytes_nat using v4_nat_less [of a b c d] by (simp add: unat_of_nat)

lemma unat_drop_v4: "octets a b c d \<Longrightarrow> unat (drop_bit n (v4_bytes [a, b, c, d])) = v4_nat a b c d div 2 ^ n"
  by (simp only: unat_drop_bit_eq unat_v4) (simp add: drop_bit_eq_div)

lemma v4_div:
  assumes "octets a b c d"
  shows "v4_nat a b c d div 2 ^ 8 = ((65535 * 256 + a) * 256 + b) * 256 + c"
    "v4_nat a b c d div 2 ^ 16 = (65535 * 256 + a) * 256 + b"
    "v4_nat a b c d div 2 ^ 24 = 65535 * 256 + a" "v4_nat a b c d div 2 ^ 32 = 65535"
proof -
  have e: "(2::nat) ^ 8 = 256" by simp
  have q: "y < 256 \<Longrightarrow> (x * 256 + y) div 2 ^ 8 = x" for x y :: nat unfolding e by simp
  have s: "n div 2 ^ (k + 8) = n div 2 ^ k div 2 ^ 8" for n k :: nat
    by (simp only: power_add div_mult2_eq)
  show 1: "v4_nat a b c d div 2 ^ 8 = ((65535 * 256 + a) * 256 + b) * 256 + c"
    unfolding v4_nat_def by (rule q) (use assms in \<open>simp add: octets_def\<close>)
  have "v4_nat a b c d div 2 ^ 16 = v4_nat a b c d div 2 ^ 8 div 2 ^ 8" using s [of _ 8] by simp
  also have "\<dots> = (65535 * 256 + a) * 256 + b"
    unfolding 1 by (rule q) (use assms in \<open>simp add: octets_def\<close>)
  finally show 2: "v4_nat a b c d div 2 ^ 16 = (65535 * 256 + a) * 256 + b" .
  have "v4_nat a b c d div 2 ^ 24 = v4_nat a b c d div 2 ^ 16 div 2 ^ 8" using s [of _ 16] by simp
  also have "\<dots> = 65535 * 256 + a" unfolding 2 by (rule q) (use assms in \<open>simp add: octets_def\<close>)
  finally show 3: "v4_nat a b c d div 2 ^ 24 = 65535 * 256 + a" .
  have "v4_nat a b c d div 2 ^ 32 = v4_nat a b c d div 2 ^ 24 div 2 ^ 8" using s [of _ 24] by simp
  also have "\<dots> = 65535" unfolding 3 by (rule q) (use assms in \<open>simp add: octets_def\<close>)
  finally show "v4_nat a b c d div 2 ^ 32 = 65535" .
qed

lemma is4_v4: "octets a b c d \<Longrightarrow> is4 (v4_bytes [a, b, c, d])"
  unfolding is4_def word_unat_eq_iff unat_drop_v4 v4_div(4) by simp

lemma ip_byte_v4:
  assumes "octets a b c d"
  shows "ip_byte (v4_bytes [a, b, c, d]) 12 = a" "ip_byte (v4_bytes [a, b, c, d]) 13 = b"
    "ip_byte (v4_bytes [a, b, c, d]) 14 = c"
proof -
  have e: "(2::nat) ^ 8 = 256" by simp
  have q: "y < 256 \<Longrightarrow> (x * 256 + y) mod 2 ^ 8 = y" for x y :: nat unfolding e by simp
  have u: "ip_byte (v4_bytes [a, b, c, d]) i = v4_nat a b c d div 2 ^ (8 * (15 - i)) mod 2 ^ 8" for i
    by (simp only: ip_byte_def unsigned_take_bit_eq unat_drop_v4 [OF assms]) (simp only: take_bit_eq_mod)
  have k: "8 * (15 - 12) = (24::nat)" "8 * (15 - 13) = (16::nat)" "8 * (15 - 14) = (8::nat)" by simp_all
  show "ip_byte (v4_bytes [a, b, c, d]) 12 = a" "ip_byte (v4_bytes [a, b, c, d]) 13 = b"
    "ip_byte (v4_bytes [a, b, c, d]) 14 = c"
    unfolding u k v4_div [OF assms] using assms by (simp_all only: octets_def q)
qed

lemma ip_mask_eq_iff:
  "n \<le> 128 \<Longrightarrow> ip_mask n a = ip_mask n b \<longleftrightarrow> drop_bit (128 - n) a = drop_bit (128 - n) b"
proof -
  assume n: "n \<le> 128"
  have "drop_bit k (push_bit k (drop_bit k x)) = drop_bit k x" if "k \<le> 128" for k and x :: ip
    by (rule bit_eqI) (auto simp: bit_simps dest: bit_imp_le_length)
  then show ?thesis unfolding ip_mask_def by (metis diff_le_self)
qed

lemma net_Contains_v4:
  assumes "octets a b c d" "net_Bits n \<le> 128"
  shows "net_Contains n (Some (v4_bytes [a, b, c, d])) \<longleftrightarrow> is4 (net_IP n) \<and>
    unat (drop_bit (128 - net_Bits n) (net_IP n)) = v4_nat a b c d div 2 ^ (128 - net_Bits n)"
  using assms is4_v4 [OF assms(1)] ip_mask_eq_iff [OF assms(2)]
  by (simp add: net_Contains_def unat_drop_v4 [OF assms(1), symmetric] word_unat_eq_iff)

end
