(* ===== verification/Go_Url.thy ===== *)
theory Go_Url
  imports Go_Net
begin

text \<open>
  The part of Go's \<open>net/url\<close> and \<open>path\<close> that the program calls: \<open>Parse\<close> with
  its components, \<open>Hostname\<close>, \<open>Port\<close>, \<open>EscapedPath\<close>,
  \<open>PathUnescape\<close>, \<open>ParseQuery\<close> and \<open>path.Clean\<close> on rooted paths, written
  after the library's source. Every parse error is the same here: the callers only test for an error.
\<close>

subsection \<open>Percent encoding\<close>

definition is_hex :: "char \<Rightarrow> bool" where
  "is_hex c \<longleftrightarrow> is_digit c \<or> 97 \<le> byte c \<and> byte c \<le> 102 \<or> 65 \<le> byte c \<and> byte c \<le> 70"

definition unhex :: "char \<Rightarrow> nat" where
  "unhex c = (if is_digit c then byte c - 48 else if 97 \<le> byte c \<and> byte c \<le> 102 then byte c - 87
     else if 65 \<le> byte c \<and> byte c \<le> 70 then byte c - 55 else 0)"

definition upper_hex :: "nat \<Rightarrow> char" where
  "upper_hex n = (if n < 10 then char_of (48 + n) else char_of (55 + n))"

datatype encoding = encodePath | encodePathSegment | encodeHost | encodeZone | encodeUserPassword
  | encodeQueryComponent | encodeFragment

definition shouldEscape :: "char \<Rightarrow> encoding \<Rightarrow> bool" where
  "shouldEscape c mode =
     (if is_letter c \<or> is_digit c then False
      else if mode \<in> {encodeHost, encodeZone} \<and> c \<in> set ''!$&()*+,;=:[]<>'' \<union> {CHR 0x27, CHR 0x22} then False
      else if c \<in> set ''-_.~'' then False
      else if c \<in> set ''$&+,/:;=?@'' then
        (case mode of
           encodePath \<Rightarrow> c = CHR ''?''
         | encodePathSegment \<Rightarrow> c \<in> set ''/;,?''
         | encodeUserPassword \<Rightarrow> c \<in> set ''@/?:''
         | encodeQueryComponent \<Rightarrow> True
         | encodeFragment \<Rightarrow> False
         | _ \<Rightarrow> True)
      else if mode = encodeFragment \<and> c \<in> set ''!()*'' then False
      else True)"

fun unescape :: "encoding \<Rightarrow> string \<Rightarrow> string option" where
  "unescape mode [] = Some []"
| "unescape mode (c # cs) =
     (if c = CHR ''%'' then
        (case cs of
           a # b # r \<Rightarrow>
             if \<not> is_hex a \<or> \<not> is_hex b then None
             else if mode = encodeHost \<and> unhex a < 8 \<and> \<not> (a = CHR ''2'' \<and> b = CHR ''5'') then None
             else if mode = encodeZone \<and> \<not> (a = CHR ''2'' \<and> b = CHR ''5'') \<and>
                     16 * unhex a + unhex b \<noteq> 32 \<and> shouldEscape (char_of (16 * unhex a + unhex b)) encodeHost then None
             else map_option (\<lambda>t. char_of (16 * unhex a + unhex b) # t) (unescape mode r)
         | _ \<Rightarrow> None)
      else if mode \<in> {encodeHost, encodeZone} \<and> byte c < 128 \<and> shouldEscape c mode then None
      else map_option (\<lambda>t. (if c = CHR ''+'' \<and> mode = encodeQueryComponent then CHR '' '' else c) # t)
             (unescape mode cs))"

fun escape :: "encoding \<Rightarrow> string \<Rightarrow> string" where
  "escape mode [] = []"
| "escape mode (c # cs) =
     (if shouldEscape c mode then
        (if c = CHR '' '' \<and> mode = encodeQueryComponent then CHR ''+'' # escape mode cs
         else CHR ''%'' # upper_hex (byte c div 16) # upper_hex (byte c mod 16) # escape mode cs)
      else c # escape mode cs)"

definition PathUnescape :: "string \<Rightarrow> string option" where
  "PathUnescape s = unescape encodePathSegment s"

subsection \<open>Searching\<close>

text \<open>The part before the last \<open>c\<close> and the part after it.\<close>

definition cut_last :: "char \<Rightarrow> string \<Rightarrow> (string \<times> string) option" where
  "cut_last c s = (case cut_at c (rev s) of None \<Rightarrow> None | Some (b, a) \<Rightarrow> Some (rev a, rev b))"

text \<open>The index of the first occurrence of a substring.\<close>

fun index_of :: "string \<Rightarrow> string \<Rightarrow> nat option" where
  "index_of sub [] = (if sub = [] then Some 0 else None)"
| "index_of sub (c # cs) = (if prefix sub (c # cs) then Some 0 else map_option Suc (index_of sub cs))"

subsection \<open>Parse\<close>

record url =
  u_Scheme :: string
  u_Opaque :: string
  u_User :: "string option"
  u_Host :: string
  u_Path :: string
  u_RawPath :: string
  u_RawQuery :: string

definition zero_url :: url where
  "zero_url = \<lparr>u_Scheme = [], u_Opaque = [], u_User = None, u_Host = [], u_Path = [], u_RawPath = [], u_RawQuery = []\<rparr>"

text \<open>\<open>getScheme\<close>: the scheme and the rest, or no scheme, or an error for a leading colon.\<close>

fun get_scheme_from :: "nat \<Rightarrow> string \<Rightarrow> string \<Rightarrow> (string \<times> string) option" where
  "get_scheme_from i raw [] = Some ([], raw)"
| "get_scheme_from i raw (c # cs) =
     (if is_letter c then get_scheme_from (i + 1) raw cs
      else if is_digit c \<or> c \<in> set ''+-.'' then
        (if i = 0 then Some ([], raw) else get_scheme_from (i + 1) raw cs)
      else if c = CHR '':'' then (if i = 0 then None else Some (take i raw, cs))
      else Some ([], raw))"

definition get_scheme :: "string \<Rightarrow> (string \<times> string) option" where
  "get_scheme raw = get_scheme_from 0 raw raw"

definition validOptionalPort :: "string \<Rightarrow> bool" where
  "validOptionalPort port = (case port of [] \<Rightarrow> True | c # ds \<Rightarrow> c = CHR '':'' \<and> list_all is_digit ds)"

text \<open>
  \<open>parseHost\<close> of Go 1.26: a bracket may only open the host and must hold an IPv6 literal,
  and outside brackets everything from the first colon must be a port (from the last colon for the
  PostgreSQL schemes).
\<close>

definition port_part :: "string \<Rightarrow> string \<Rightarrow> string" where
  "port_part scheme host =
     (if scheme \<in> set [''postgresql'', ''postgres''] then
        (case cut_last (CHR '':'') host of None \<Rightarrow> [] | Some (_, p) \<Rightarrow> CHR '':'' # p)
      else dropWhile (\<lambda>c. c \<noteq> CHR '':'') host)"

definition parseHost :: "string \<Rightarrow> string \<Rightarrow> string option" where
  "parseHost scheme host =
     (if CHR ''['' \<in> set (drop 1 host) then None
      else if has_prefix host ''['' then
        (case cut_last (CHR '']'') host of
           None \<Rightarrow> None
         | Some (front, colonPort) \<Rightarrow>
             (let hostname = drop 1 front;
                  unescaped = (case index_of ''%25'' hostname of
                      None \<Rightarrow> unescape encodeHost hostname
                    | Some zone \<Rightarrow>
                        (case (unescape encodeHost (take zone hostname), unescape encodeZone (drop zone hostname)) of
                           (Some h1, Some h2) \<Rightarrow> Some (h1 @ h2)
                         | _ \<Rightarrow> None))
              in if \<not> validOptionalPort colonPort then None
                 else (case (unescaped, unescape encodeHost colonPort) of
                     (Some h, Some p) \<Rightarrow>
                       (case ParseAddr h of
                          Some (Addr6 _ _) \<Rightarrow> Some (CHR ''['' # h @ CHR '']'' # p)
                        | _ \<Rightarrow> None)
                   | _ \<Rightarrow> None)))
      else if \<not> validOptionalPort (port_part scheme host) then None
      else unescape encodeHost host)"

definition validUserinfo :: "string \<Rightarrow> bool" where
  "validUserinfo s = list_all (\<lambda>c. is_letter c \<or> is_digit c \<or> c \<in> set ''-._:~!$&()*+,;=%@'' \<or> c = CHR 0x27) s"

definition parseAuthority :: "string \<Rightarrow> string \<Rightarrow> (string option \<times> string) option" where
  "parseAuthority scheme authority =
     (case cut_last (CHR ''@'') authority of
        None \<Rightarrow> map_option (\<lambda>h. (None, h)) (parseHost scheme authority)
      | Some (userinfo, h0) \<Rightarrow>
          (case parseHost scheme h0 of
             None \<Rightarrow> None
           | Some h \<Rightarrow>
               if \<not> validUserinfo userinfo then None
               else (case cut_at (CHR '':'') userinfo of
                   None \<Rightarrow> map_option (\<lambda>u. (Some u, h)) (unescape encodeUserPassword userinfo)
                 | Some (name, pw) \<Rightarrow>
                     (case (unescape encodeUserPassword name, unescape encodeUserPassword pw) of
                        (Some n, Some _) \<Rightarrow> Some (Some n, h) | _ \<Rightarrow> None))))"

definition set_path :: "string \<Rightarrow> url \<Rightarrow> url option" where
  "set_path p u =
     (case unescape encodePath p of
        None \<Rightarrow> None
      | Some path \<Rightarrow> Some (u\<lparr>u_Path := path, u_RawPath := (if escape encodePath path = p then [] else p)\<rparr>))"

definition count_char :: "char \<Rightarrow> string \<Rightarrow> nat" where
  "count_char c s = length (filter (\<lambda>x. x = c) s)"

text \<open>\<open>parse\<close> without the fragment; \<open>viaRequest\<close> is set by \<open>ParseRequestURI\<close>.\<close>

definition parse_url :: "bool \<Rightarrow> string \<Rightarrow> url option" where
  "parse_url viaRequest rawURL =
     (if list_ex (\<lambda>c. byte c < 32 \<or> byte c = 127) rawURL then None
      else if rawURL = [] \<and> viaRequest then None
      else if rawURL = ''*'' then Some (zero_url\<lparr>u_Path := ''*''\<rparr>)
      else (case get_scheme rawURL of
        None \<Rightarrow> None
      | Some (scheme0, rest0) \<Rightarrow>
          (let scheme = to_lower scheme0;
               (rest1, query) =
                 (if has_suffix rest0 ''?'' \<and> count_char (CHR ''?'') rest0 = 1 then (butlast rest0, [])
                  else (case cut_at (CHR ''?'') rest0 of None \<Rightarrow> (rest0, []) | Some (a, b) \<Rightarrow> (a, b)));
               u0 = zero_url\<lparr>u_Scheme := scheme, u_RawQuery := query\<rparr>
           in if \<not> has_prefix rest1 ''/'' \<and> scheme \<noteq> [] then Some (u0\<lparr>u_Opaque := rest1\<rparr>)
              else if \<not> has_prefix rest1 ''/'' \<and> viaRequest then None
              else if \<not> has_prefix rest1 ''/'' \<and> CHR '':'' \<in> set (takeWhile (\<lambda>c. c \<noteq> CHR ''/'') rest1) then None
              else if (scheme \<noteq> [] \<or> \<not> viaRequest \<and> \<not> has_prefix rest1 ''///'') \<and> has_prefix rest1 ''//'' then
                (let authority = takeWhile (\<lambda>c. c \<noteq> CHR ''/'') (drop 2 rest1);
                     rest2 = dropWhile (\<lambda>c. c \<noteq> CHR ''/'') (drop 2 rest1)
                 in (case parseAuthority scheme authority of
                       None \<Rightarrow> None
                     | Some (user, host) \<Rightarrow> set_path rest2 (u0\<lparr>u_User := user, u_Host := host\<rparr>)))
              else set_path rest1 u0)))"

definition url_Parse :: "string \<Rightarrow> url option" where
  "url_Parse rawURL =
     (case cut_at (CHR ''#'') rawURL of
        None \<Rightarrow> parse_url False rawURL
      | Some (u, frag) \<Rightarrow>
          (case parse_url False u of
             None \<Rightarrow> None
           | Some v \<Rightarrow> if unescape encodeFragment frag = None then None else Some v))"

definition ParseRequestURI :: "string \<Rightarrow> url option" where
  "ParseRequestURI rawURL = parse_url True rawURL"

definition validEncoded :: "string \<Rightarrow> bool" where
  "validEncoded s = list_all (\<lambda>c. c \<in> set ''!$&()*+,;=:@[]%'' \<or> c = CHR 0x27 \<or> \<not> shouldEscape c encodePath) s"

definition EscapedPath :: "url \<Rightarrow> string" where
  "EscapedPath u =
     (if u_RawPath u \<noteq> [] \<and> validEncoded (u_RawPath u) \<and> unescape encodePath (u_RawPath u) = Some (u_Path u)
      then u_RawPath u
      else if u_Path u = ''*'' then ''*''
      else escape encodePath (u_Path u))"

definition split_host_port :: "string \<Rightarrow> string \<times> string" where
  "split_host_port hostPort =
     (let (host, port) = (case cut_last (CHR '':'') hostPort of
            Some (h, p) \<Rightarrow> if validOptionalPort (CHR '':'' # p) then (h, p) else (hostPort, [])
          | None \<Rightarrow> (hostPort, []))
      in if has_prefix host ''['' \<and> has_suffix host '']'' then (butlast (tl host), port) else (host, port))"

definition Hostname :: "url \<Rightarrow> string" where
  "Hostname u = fst (split_host_port (u_Host u))"

definition Port :: "url \<Rightarrow> string" where
  "Port u = snd (split_host_port (u_Host u))"

subsection \<open>ParseQuery\<close>

text \<open>
  The pairs in the order of the query, or an error; the callers that use the map \<open>Values\<close>
  group them by key. The number of keys is not limited here (Go limits it to 10000).
\<close>

fun parse_query_parts :: "string list \<Rightarrow> (string \<times> string) list option" where
  "parse_query_parts [] = Some []"
| "parse_query_parts (p # ps) =
     (if CHR '';'' \<in> set p then None
      else if p = [] then parse_query_parts ps
      else (let (k, v) = (case cut_at (CHR ''='') p of None \<Rightarrow> (p, []) | Some kv \<Rightarrow> kv) in
        (case (unescape encodeQueryComponent k, unescape encodeQueryComponent v) of
           (Some k', Some v') \<Rightarrow> map_option (\<lambda>r. (k', v') # r) (parse_query_parts ps)
         | _ \<Rightarrow> None)))"

definition ParseQuery :: "string \<Rightarrow> (string \<times> string) list option" where
  "ParseQuery query = parse_query_parts (split_on (CHR ''&'') query)"

subsection \<open>path.Clean\<close>

text \<open>On a path that starts with a slash: dot-dot at the root is dropped.\<close>

fun clean_segments :: "string list \<Rightarrow> string list \<Rightarrow> string list" where
  "clean_segments out [] = rev out"
| "clean_segments out (s # ss) =
     (if s = [] \<or> s = ''.'' then clean_segments out ss
      else if s = ''..'' then clean_segments (drop 1 out) ss
      else clean_segments (s # out) ss)"

definition path_Clean :: "string \<Rightarrow> string" where
  "path_Clean p = CHR ''/'' # join_with ''/'' (clean_segments [] (split_on (CHR ''/'') p))"

text \<open>\<open>path.Ext\<close>: from the last dot of the last element of the path, or nothing.\<close>

fun path_ext_rev :: "string \<Rightarrow> string \<Rightarrow> string" where
  "path_ext_rev [] acc = []"
| "path_ext_rev (c # s) acc = (if c = CHR ''/'' then [] else if c = CHR ''.'' then c # acc else path_ext_rev s (c # acc))"

definition path_Ext :: "string \<Rightarrow> string" where
  "path_Ext p = path_ext_rev (rev p) []"

subsection \<open>Round trip\<close>

lemma is_hex_upper_hex: "n < 16 \<Longrightarrow> is_hex (upper_hex n)"
  by (auto simp: is_hex_def upper_hex_def is_digit_def)

lemma unhex_upper_hex: "n < 16 \<Longrightarrow> unhex (upper_hex n) = n"
  by (auto simp: unhex_def upper_hex_def is_digit_def)

lemma char_of_div_mod: "char_of (16 * (byte c div 16) + byte c mod 16) = c"
  by simp

lemma escape_percent: "mode \<notin> {encodeHost, encodeZone} \<Longrightarrow> shouldEscape (CHR ''%'') mode"
  by (cases mode) (simp_all add: shouldEscape_def is_letter_def is_upper_def is_lower_def is_digit_def)

lemma unescape_escape:
  assumes "mode \<in> {encodePath, encodePathSegment, encodeUserPassword, encodeFragment}"
  shows "unescape mode (escape mode s) = Some s"
proof (induction s)
  case (Cons c s)
  let ?a = "upper_hex (byte c div 16)" and ?b = "upper_hex (byte c mod 16)"
  have "byte c < 16 * 16" using byte_less [of c] by simp
  then have hb: "byte c div 16 < 16" "byte c mod 16 < 16" by (simp_all only: less_mult_imp_div_less mod_less_divisor zero_less_numeral)
  note hx = is_hex_upper_hex [OF hb(1)] is_hex_upper_hex [OF hb(2)]
    unhex_upper_hex [OF hb(1)] unhex_upper_hex [OF hb(2)]
  have m: "mode \<noteq> encodeHost" "mode \<noteq> encodeZone" "mode \<noteq> encodeQueryComponent" using assms by auto
  show ?case
  proof (cases "shouldEscape c mode")
    case True
    then have "escape mode (c # s) = CHR ''%'' # ?a # ?b # escape mode s" using m by simp
    then show ?thesis using Cons hx m char_of_div_mod [of c] by simp
  next
    case False
    then have "c \<noteq> CHR ''%''" using m escape_percent [of mode] by blast
    with False Cons m show ?thesis by simp
  qed
qed simp

lemma query_special: "c \<in> set ''%+&;=?# '' \<Longrightarrow> shouldEscape c encodeQueryComponent"
proof -
  have "list_all (\<lambda>c. shouldEscape c encodeQueryComponent) ''%+&;=?# ''" by code_simp
  then show "c \<in> set ''%+&;=?# '' \<Longrightarrow> shouldEscape c encodeQueryComponent" unfolding list_all_iff by blast
qed

lemma byte_hex_parts: "byte c div 16 < 16" "byte c mod 16 < 16"
proof -
  have "byte c < 16 * 16" using byte_less [of c] by simp
  then show "byte c div 16 < 16" "byte c mod 16 < 16"
    by (simp_all only: less_mult_imp_div_less mod_less_divisor zero_less_numeral)
qed

lemma unescape_escape_query: "unescape encodeQueryComponent (escape encodeQueryComponent s) = Some s"
proof (induction s)
  case (Cons c s)
  note hx = is_hex_upper_hex [OF byte_hex_parts(1)] is_hex_upper_hex [OF byte_hex_parts(2)]
    unhex_upper_hex [OF byte_hex_parts(1)] unhex_upper_hex [OF byte_hex_parts(2)]
  show ?case
  proof (cases "shouldEscape c encodeQueryComponent")
    case True
    show ?thesis
    proof (cases "c = CHR '' ''")
      case space: True
      with True have "escape encodeQueryComponent (c # s) = CHR ''+'' # escape encodeQueryComponent s" by simp
      then show ?thesis using Cons space by simp
    next
      case False
      with True have "escape encodeQueryComponent (c # s) =
          CHR ''%'' # upper_hex (byte c div 16) # upper_hex (byte c mod 16) # escape encodeQueryComponent s" by simp
      then show ?thesis using Cons hx char_of_div_mod [of c] by simp
    qed
  next
    case False
    then have "c \<noteq> CHR ''%''" "c \<noteq> CHR ''+''" using query_special [of c] by auto
    with False Cons show ?thesis by simp
  qed
qed simp

lemma upper_hex_alnum: "n < 16 \<Longrightarrow> is_digit (upper_hex n) \<or> is_upper (upper_hex n)"
  by (auto simp: upper_hex_def is_digit_def is_upper_def)

lemma escape_query_chars:
  "d \<in> set (escape encodeQueryComponent s) \<Longrightarrow> d \<notin> set ''&;=?# ''"
proof (induction s)
  case (Cons c s)
  have h: "upper_hex n \<notin> set ''&;=?# ''" if "n < 16" for n
  proof -
    have "list_all (\<lambda>c. \<not> (is_digit c \<or> is_upper c)) ''&;=?# ''" by code_simp
    with upper_hex_alnum [OF that] show ?thesis unfolding list_all_iff by blast
  qed
  show ?case
  proof (cases "shouldEscape c encodeQueryComponent")
    case True
    with Cons show ?thesis
      using h [OF byte_hex_parts(1) [of c]] h [OF byte_hex_parts(2) [of c]] by (cases "c = CHR '' ''") auto
  next
    case False
    with query_special [of c] have "c \<notin> set ''&;=?# ''" by auto
    with False Cons show ?thesis by auto
  qed
qed simp

text \<open>A query written from pairs is read back as these pairs.\<close>

definition query_pair :: "string \<times> string \<Rightarrow> string" where
  "query_pair = (\<lambda>(k, v). escape encodeQueryComponent k @ CHR ''='' # escape encodeQueryComponent v)"

lemma parse_query_pairs: "parse_query_parts (map query_pair kvs) = Some kvs"
proof (induction kvs)
  case (Cons kv kvs)
  obtain k v where kv: "kv = (k, v)" by fastforce
  have k: "CHR ''='' \<notin> set (escape encodeQueryComponent k)" "CHR '';'' \<notin> set (escape encodeQueryComponent k)"
    "CHR '';'' \<notin> set (escape encodeQueryComponent v)"
    using escape_query_chars [of _ k] escape_query_chars [of _ v] by auto
  then have tw: "\<forall>x \<in> set (escape encodeQueryComponent k). x \<noteq> CHR ''=''" by blast
  have "cut_at (CHR ''='') (query_pair kv) = Some (escape encodeQueryComponent k, escape encodeQueryComponent v)"
    using tw by (simp add: query_pair_def kv cut_at_def takeWhile_append2 dropWhile_append2)
  moreover have "CHR '';'' \<notin> set (query_pair kv)" "query_pair kv \<noteq> []" using k by (auto simp: query_pair_def kv)
  ultimately show ?case using Cons by (simp add: unescape_escape_query kv)
qed simp

lemma ParseQuery_pairs:
  assumes "kvs \<noteq> []"
  shows "ParseQuery (join_with ''&'' (map query_pair kvs)) = Some kvs"
proof -
  have "CHR ''&'' \<notin> set w" if "w \<in> set (map query_pair kvs)" for w
    using that escape_query_chars by (fastforce simp: query_pair_def)
  then have "split_on (CHR ''&'') (join_with ''&'' (map query_pair kvs)) = map query_pair kvs"
    by (intro split_join) (use assms in auto)
  then show ?thesis by (simp add: ParseQuery_def parse_query_pairs)
qed

lemma clean_segments_no_dots:
  "s \<in> set (clean_segments out ss) \<Longrightarrow> s \<in> set out \<or> s \<in> set ss \<and> s \<noteq> [] \<and> s \<noteq> ''.'' \<and> s \<noteq> ''..''"
proof (induction out ss rule: clean_segments.induct)
  case (2 out t ss)
  then show ?case using set_drop_subset [of 1 out] by (auto split: if_splits dest: in_set_dropD)
qed simp

end
