(* ===== verification/Scan_Control.thy ===== *)
theory Scan_Control
  imports Core_Models Go_Url
begin

text \<open>
  The scanner's limits, \<open>internal/scancontrol/config.go\<close>: reading them from the environment,
  \<open>Normalize\<close>, \<open>ApplyExecutionLimits\<close> and the key of the target rate limiter. Durations are
  nanoseconds in 64 bits: the product of a number of seconds and \<open>time.Second\<close> wraps around.
\<close>

type_synonym environment = "string \<Rightarrow> string"

definition defaultGlobalConcurrency :: int where "defaultGlobalConcurrency = 2"
definition defaultTargetJobsPerWindow :: int where "defaultTargetJobsPerWindow = 1"
definition defaultTargetRateWindowSeconds :: int where "defaultTargetRateWindowSeconds = 30"
definition defaultCapacityRetrySeconds :: int where "defaultCapacityRetrySeconds = 5"
definition defaultAdmissionLeaseSeconds :: int where "defaultAdmissionLeaseSeconds = 1800"
definition defaultNucleiRateLimitPerSecond :: int where "defaultNucleiRateLimitPerSecond = 5"
definition defaultNucleiTemplateConcurrency :: int where "defaultNucleiTemplateConcurrency = 1"
definition defaultNucleiHostConcurrency :: int where "defaultNucleiHostConcurrency = 1"
definition defaultNucleiPayloadConcurrency :: int where "defaultNucleiPayloadConcurrency = 2"
definition defaultNucleiProbeConcurrency :: int where "defaultNucleiProbeConcurrency = 5"

lemmas control_defaults = defaultGlobalConcurrency_def defaultTargetJobsPerWindow_def
  defaultTargetRateWindowSeconds_def defaultCapacityRetrySeconds_def defaultAdmissionLeaseSeconds_def
  defaultNucleiRateLimitPerSecond_def defaultNucleiTemplateConcurrency_def defaultNucleiHostConcurrency_def
  defaultNucleiPayloadConcurrency_def defaultNucleiProbeConcurrency_def

record control_config =
  GlobalConcurrency :: int
  TargetJobsPerWindow :: int
  TargetRateWindow :: int
  CapacityRetryDelay :: int
  AdmissionLease :: int
  NucleiRateLimitPerSecond :: int
  NucleiTemplateConcurrency :: int
  NucleiHostConcurrency :: int
  NucleiPayloadConcurrency :: int
  NucleiProbeConcurrency :: int

definition intEnvDefault :: "environment \<Rightarrow> string \<Rightarrow> int \<Rightarrow> int" where
  "intEnvDefault env key fallback = (let raw = trim_space (env key) in
     if raw = [] then fallback else (case atoi raw of None \<Rightarrow> fallback | Some v \<Rightarrow> v))"

definition durationEnvDefault :: "environment \<Rightarrow> string \<Rightarrow> int \<Rightarrow> int" where
  "durationEnvDefault env key fallbackSeconds = (let raw = trim_space (env key) in
     if raw = [] then fallbackSeconds * second
     else (case parse_int 64 raw of
         None \<Rightarrow> fallbackSeconds * second
       | Some v \<Rightarrow> if v \<le> 0 then fallbackSeconds * second else wrap64 (v * second)))"

definition control_isProduction :: "environment \<Rightarrow> bool" where
  "control_isProduction env = equal_fold (trim_space (env ''KARAXYS_ENV'')) ''production''"

definition LoadConfigFromEnv :: "environment \<Rightarrow> control_config" where
  "LoadConfigFromEnv env =
     (let targetJobsDefault =
        (if \<not> control_isProduction env \<and> trim_space (env ''KARAXYS_SCANNER_TARGET_JOBS_PER_WINDOW'') = [] then 0
         else defaultTargetJobsPerWindow)
      in \<lparr>GlobalConcurrency = intEnvDefault env ''KARAXYS_SCANNER_GLOBAL_CONCURRENCY'' defaultGlobalConcurrency,
          TargetJobsPerWindow = intEnvDefault env ''KARAXYS_SCANNER_TARGET_JOBS_PER_WINDOW'' targetJobsDefault,
          TargetRateWindow = durationEnvDefault env ''KARAXYS_SCANNER_TARGET_RATE_WINDOW_SECONDS'' defaultTargetRateWindowSeconds,
          CapacityRetryDelay = durationEnvDefault env ''KARAXYS_SCANNER_CAPACITY_RETRY_SECONDS'' defaultCapacityRetrySeconds,
          AdmissionLease = durationEnvDefault env ''KARAXYS_SCANNER_ADMISSION_LEASE_SECONDS'' defaultAdmissionLeaseSeconds,
          NucleiRateLimitPerSecond = intEnvDefault env ''KARAXYS_NUCLEI_RATE_LIMIT_PER_SECOND'' defaultNucleiRateLimitPerSecond,
          NucleiTemplateConcurrency = intEnvDefault env ''KARAXYS_NUCLEI_TEMPLATE_CONCURRENCY'' defaultNucleiTemplateConcurrency,
          NucleiHostConcurrency = intEnvDefault env ''KARAXYS_NUCLEI_HOST_CONCURRENCY'' defaultNucleiHostConcurrency,
          NucleiPayloadConcurrency = intEnvDefault env ''KARAXYS_NUCLEI_PAYLOAD_CONCURRENCY'' defaultNucleiPayloadConcurrency,
          NucleiProbeConcurrency = intEnvDefault env ''KARAXYS_NUCLEI_PROBE_CONCURRENCY'' defaultNucleiProbeConcurrency\<rparr>)"

definition control_Normalize :: "control_config \<Rightarrow> control_config" where
  "control_Normalize c =
     \<lparr>GlobalConcurrency = (if GlobalConcurrency c \<le> 0 then defaultGlobalConcurrency else GlobalConcurrency c),
      TargetJobsPerWindow = (if TargetJobsPerWindow c < 0 then defaultTargetJobsPerWindow else TargetJobsPerWindow c),
      TargetRateWindow = (if TargetRateWindow c \<le> 0 then defaultTargetRateWindowSeconds * second else TargetRateWindow c),
      CapacityRetryDelay = (if CapacityRetryDelay c \<le> 0 then defaultCapacityRetrySeconds * second else CapacityRetryDelay c),
      AdmissionLease = (if AdmissionLease c \<le> 0 then defaultAdmissionLeaseSeconds * second else AdmissionLease c),
      NucleiRateLimitPerSecond = (if NucleiRateLimitPerSecond c < 0 then defaultNucleiRateLimitPerSecond else NucleiRateLimitPerSecond c),
      NucleiTemplateConcurrency = (if NucleiTemplateConcurrency c \<le> 0 then defaultNucleiTemplateConcurrency else NucleiTemplateConcurrency c),
      NucleiHostConcurrency = (if NucleiHostConcurrency c \<le> 0 then defaultNucleiHostConcurrency else NucleiHostConcurrency c),
      NucleiPayloadConcurrency = (if NucleiPayloadConcurrency c \<le> 0 then defaultNucleiPayloadConcurrency else NucleiPayloadConcurrency c),
      NucleiProbeConcurrency = (if NucleiProbeConcurrency c \<le> 0 then defaultNucleiProbeConcurrency else NucleiProbeConcurrency c)\<rparr>"

definition ApplyExecutionLimits :: "scan_config \<Rightarrow> control_config \<Rightarrow> scan_config" where
  "ApplyExecutionLimits scanConfig limits0 =
     (let limits = control_Normalize limits0 in
      scanConfig\<lparr>cfg_RateLimitPerSecond := NucleiRateLimitPerSecond limits,
        cfg_TemplateConcurrency := NucleiTemplateConcurrency limits,
        cfg_HostConcurrency := NucleiHostConcurrency limits,
        cfg_PayloadConcurrency := NucleiPayloadConcurrency limits,
        cfg_ProbeConcurrency := NucleiProbeConcurrency limits\<rparr>)"

definition JoinHostPort :: "string \<Rightarrow> string \<Rightarrow> string" where
  "JoinHostPort host port =
     (if CHR '':'' \<in> set host \<or> CHR ''%'' \<in> set host then ''['' @ host @ '']:'' @ port else host @ '':'' @ port)"

datatype target_key_error = TargetRequired | TargetInvalid

definition TargetRateKey :: "scan_job \<Rightarrow> target_key_error + string" where
  "TargetRateKey job =
     (let target = trim_space (cfg_TargetURL (job_Config job)) in
      if target = [] then Inl TargetRequired
      else (case url_Parse target of
          None \<Rightarrow> Inl TargetInvalid
        | Some parsed \<Rightarrow>
            if u_Scheme parsed = [] \<or> u_Host parsed = [] then Inl TargetInvalid
            else (let host = to_lower (Hostname parsed);
                      scheme = to_lower (u_Scheme parsed);
                      port = (if Port parsed = [] then
                                (if scheme = ''http'' then ''80'' else if scheme = ''https'' then ''443'' else [])
                              else Port parsed);
                      hostPort = (if port \<noteq> [] then JoinHostPort host port else host);
                      tenant0 = trim_space (job_TenantID job);
                      tenant = (if tenant0 = [] then ''unscoped'' else tenant0)
                  in Inr (''tenant:'' @ tenant @ ''|target:'' @ scheme @ ''://'' @ hostPort))))"

subsection \<open>Properties\<close>

definition limits_ok :: "control_config \<Rightarrow> bool" where
  "limits_ok c \<longleftrightarrow> 0 < GlobalConcurrency c \<and> 0 \<le> TargetJobsPerWindow c \<and> 0 < TargetRateWindow c \<and>
     0 < CapacityRetryDelay c \<and> 0 < AdmissionLease c \<and> 0 \<le> NucleiRateLimitPerSecond c \<and>
     0 < NucleiTemplateConcurrency c \<and> 0 < NucleiHostConcurrency c \<and> 0 < NucleiPayloadConcurrency c \<and>
     0 < NucleiProbeConcurrency c"

lemma Normalize_ok: "limits_ok (control_Normalize c)"
  by (simp add: limits_ok_def control_Normalize_def control_defaults second_def)

lemma Normalize_id: "limits_ok c \<Longrightarrow> control_Normalize c = c"
  by (simp add: limits_ok_def control_Normalize_def)

text \<open>
  Whatever the environment holds (missing, malformed, negative or overflowing values),
  the limits the scanner runs with are valid: every concurrency and every delay is positive and the
  two rates are not negative; \<open>Normalize\<close> is idempotent and leaves valid limits alone.
\<close>

theorem limits_always_valid:
  "limits_ok (control_Normalize c) \<and> control_Normalize (control_Normalize c) = control_Normalize c \<and>
   limits_ok (control_Normalize (LoadConfigFromEnv env)) \<and>
   cfg_TemplateConcurrency (ApplyExecutionLimits sc c) > 0 \<and> cfg_PayloadConcurrency (ApplyExecutionLimits sc c) > 0 \<and>
   ApplyExecutionLimits (ApplyExecutionLimits sc c) c = ApplyExecutionLimits sc c"
  using Normalize_ok [of c] Normalize_ok [of "LoadConfigFromEnv env"] Normalize_id [OF Normalize_ok [of c]]
  by (simp add: ApplyExecutionLimits_def Let_def limits_ok_def)

text \<open>
  The default lease of an admission slot is shorter than the longest scan a job may ask for, so a slot
  can expire under a running scan.
\<close>

lemma lease_shorter_than_scan: "defaultAdmissionLeaseSeconds < MaxScanTimeoutSeconds"
  by (simp add: defaultAdmissionLeaseSeconds_def MaxScanTimeoutSeconds_def)

end
