(* ===== verification/Queue.thy ===== *)
theory Queue
  imports Core_Models "HOL-Library.AList"
begin

text \<open>
  The message queue of \<open>internal/queue\<close>: messages and envelopes (\<open>queue.go\<close>), the
  settings of the Kafka client (\<open>config.go\<close>) and the broker in memory (\<open>memory.go\<close>).
  JSON encoding is an argument. A channel is the list of its messages; where a Go \<open>select\<close> has
  several ready cases the choice is an argument, and an operation with no ready case answers
  \<open>Blocks\<close>. The locale \<open>topic_queue\<close> is the contract of a producer and a consumer, the
  broker interprets it.
\<close>

subsection \<open>Messages and envelopes\<close>

definition TopicHTTPConversations :: string where "TopicHTTPConversations = ''karaxys.http.conversations''"
definition TopicAnalyzerJobs :: string where "TopicAnalyzerJobs = ''karaxys.analyzer.jobs''"
definition TopicIngestDeadLetter :: string where "TopicIngestDeadLetter = ''karaxys.ingest.dead_letter''"
definition TopicScanJobs :: string where "TopicScanJobs = ''karaxys.scan.jobs''"

definition EventHTTPConversationV1 :: string where "EventHTTPConversationV1 = ''queue.http_conversation.v1''"
definition EventDeadLetterV1 :: string where "EventDeadLetterV1 = ''queue.dead_letter.v1''"
definition EventScanJobV1 :: string where "EventScanJobV1 = ''queue.scan_job.v1''"
definition PayloadHTTPConversationPersistedV1 :: string where
  "PayloadHTTPConversationPersistedV1 = ''http.conversation.persisted.v1''"
definition PayloadScanJobQueuedV1 :: string where "PayloadScanJobQueuedV1 = ''scan.job.queued.v1''"

record message =
  msg_Topic :: string
  msg_Key :: string
  msg_Value :: string
  msg_Headers :: "string gomap"
  msg_Timestamp :: gotime
  msg_Attempts :: int
  msg_AckToken :: "nat option"

record envelope =
  env_SchemaVersion :: string
  env_EventID :: string
  env_IdempotencyKey :: string
  env_TenantID :: string
  env_ProjectID :: string
  env_AgentID :: string
  env_CaptureSource :: string
  env_PayloadType :: string
  env_Payload :: string
  env_Metadata :: "string gomap"
  env_CreatedAt :: gotime

record dead_letter =
  dl_SchemaVersion :: string
  dl_SourceTopic :: string
  dl_EventID :: string
  dl_Reason :: string
  dl_Error :: string
  dl_Payload :: string
  dl_CreatedAt :: gotime

record http_conversation_event =
  hce_SchemaVersion :: string
  hce_ConversationID :: string
  hce_ConversationHash :: string
  hce_TenantID :: string
  hce_ProjectID :: string
  hce_AgentID :: string
  hce_CaptureSource :: string
  hce_CaptureMode :: string
  hce_CapturedAt :: gotime
  hce_Method :: string
  hce_Host :: string
  hce_Path :: string
  hce_ResponseStatus :: int

record scan_job_event =
  sje_SchemaVersion :: string
  sje_JobID :: string
  sje_InventoryID :: string
  sje_TenantID :: string
  sje_ProjectID :: string
  sje_TestType :: string
  sje_Status :: string
  sje_CreatedAt :: gotime

definition NormalizeTopic :: "string \<Rightarrow> string" where "NormalizeTopic topic = trim_space topic"

definition HTTPConversationIdempotencyKey :: "string \<Rightarrow> string" where
  "HTTPConversationIdempotencyKey conversationID0 = (let conversationID = trim_space conversationID0 in
     if conversationID = [] then [] else ''http_conversation:'' @ conversationID)"

definition ScanJobIdempotencyKey :: "string \<Rightarrow> string" where
  "ScanJobIdempotencyKey jobID0 = (let jobID = trim_space jobID0 in
     if jobID = [] then [] else ''scan_job:'' @ jobID)"

datatype envelope_option =
    WithIdentity string string string string
  | WithIdempotencyKey string
  | WithEventID string
  | WithMetadata "string gomap"

fun add_metadata :: "string gomap \<Rightarrow> string gomap \<Rightarrow> string gomap" where
  "add_metadata out [] = out"
| "add_metadata out ((key, value0) # rest) =
     (let k = trim_space key in
      if k = [] then add_metadata out rest else add_metadata (AList.update k (trim_space value0) out) rest)"

fun apply_option :: "envelope_option \<Rightarrow> envelope \<Rightarrow> envelope" where
  "apply_option (WithIdentity tenantID projectID agentID captureSource) e =
     e\<lparr>env_TenantID := trim_space tenantID, env_ProjectID := trim_space projectID,
       env_AgentID := trim_space agentID, env_CaptureSource := trim_space captureSource\<rparr>"
| "apply_option (WithIdempotencyKey key) e = e\<lparr>env_IdempotencyKey := trim_space key\<rparr>"
| "apply_option (WithEventID eventID) e = e\<lparr>env_EventID := trim_space eventID\<rparr>"
| "apply_option (WithMetadata metadata) e =
     (if metadata = [] then e else e\<lparr>env_Metadata := add_metadata [] metadata\<rparr>)"

text \<open>The payload is given as \<open>json.Marshal\<close> returns it.\<close>

definition NewEnvelope ::
  "int \<Rightarrow> string \<Rightarrow> string \<Rightarrow> string + string \<Rightarrow> envelope_option list \<Rightarrow> string + envelope" where
  "NewEnvelope now schemaVersion payloadType payload opts =
     (if trim_space schemaVersion = [] then Inl ''schema version is required''
      else if trim_space payloadType = [] then Inl ''payload type is required''
      else (case payload of
          Inl err \<Rightarrow> Inl err
        | Inr raw \<Rightarrow>
            (let e = foldl (\<lambda>e oper. apply_option oper e)
                \<lparr>env_SchemaVersion = schemaVersion, env_EventID = [], env_IdempotencyKey = [], env_TenantID = [],
                 env_ProjectID = [], env_AgentID = [], env_CaptureSource = [], env_PayloadType = payloadType,
                 env_Payload = raw, env_Metadata = [], env_CreatedAt = Some now\<rparr> opts
             in Inr (if trim_space (env_EventID e) = [] then e\<lparr>env_EventID := env_IdempotencyKey e\<rparr> else e))))"

definition EncodeEnvelope ::
  "(envelope \<Rightarrow> string + string) \<Rightarrow> string \<Rightarrow> string \<Rightarrow> envelope \<Rightarrow> string + message" where
  "EncodeEnvelope marshal topic key e =
     (if trim_space topic = [] then Inl ''topic is required''
      else (case marshal e of
          Inl err \<Rightarrow> Inl err
        | Inr raw \<Rightarrow> Inr \<lparr>msg_Topic = trim_space topic, msg_Key = trim_space key, msg_Value = raw,
            msg_Headers = [(''schema_version'', env_SchemaVersion e), (''tenant_id'', env_TenantID e),
              (''project_id'', env_ProjectID e), (''agent_id'', env_AgentID e),
              (''capture_source'', env_CaptureSource e), (''idempotency_key'', env_IdempotencyKey e)],
            msg_Timestamp = env_CreatedAt e, msg_Attempts = 0, msg_AckToken = None\<rparr>))"

definition DecodeEnvelope :: "(string \<Rightarrow> string + envelope) \<Rightarrow> message \<Rightarrow> string + envelope" where
  "DecodeEnvelope unmarshal m = unmarshal (msg_Value m)"

subsection \<open>Settings\<close>

definition queue_splitCSVEnv :: "(string \<Rightarrow> string) \<Rightarrow> string \<Rightarrow> string list \<Rightarrow> string list" where
  "queue_splitCSVEnv env key fallback = (let raw = trim_space (env key) in
     if raw = [] then fallback
     else (let out = filter (\<lambda>p. p \<noteq> []) (map trim_space (split_on (CHR '','') raw)) in
       if out = [] then fallback else out))"

definition envDefault :: "(string \<Rightarrow> string) \<Rightarrow> string \<Rightarrow> string \<Rightarrow> string" where
  "envDefault env key fallback = (let v = trim_space (env key) in if v = [] then fallback else v)"

definition int32EnvDefault :: "(string \<Rightarrow> string) \<Rightarrow> string \<Rightarrow> int \<Rightarrow> int" where
  "int32EnvDefault env key fallback = (let raw = trim_space (env key) in
     if raw = [] then fallback
     else (case parse_int 32 raw of None \<Rightarrow> fallback | Some v \<Rightarrow> if v \<le> 0 then fallback else v))"

definition int16EnvDefault :: "(string \<Rightarrow> string) \<Rightarrow> string \<Rightarrow> int \<Rightarrow> int" where
  "int16EnvDefault env key fallback = (let raw = trim_space (env key) in
     if raw = [] then fallback
     else (case parse_int 16 raw of None \<Rightarrow> fallback | Some v \<Rightarrow> if v \<le> 0 then fallback else v))"

subsection \<open>The broker in memory\<close>

record broker =
  br_topics :: "(string \<times> message list) list"
  br_size :: nat

definition NewMemoryBroker :: "int \<Rightarrow> broker" where
  "NewMemoryBroker size0 = \<lparr>br_topics = [], br_size = (if size0 \<le> 0 then 1000 else nat size0)\<rparr>"

text \<open>The channel of a topic is made on first use.\<close>

definition topic_channel :: "broker \<Rightarrow> string \<Rightarrow> broker \<times> message list" where
  "topic_channel b name0 = (let name = NormalizeTopic name0 in
     case map_of (br_topics b) name of
       Some ch \<Rightarrow> (b, ch)
     | None \<Rightarrow> (b\<lparr>br_topics := (name, []) # br_topics b\<rparr>, []))"

definition set_channel :: "broker \<Rightarrow> string \<Rightarrow> message list \<Rightarrow> broker" where
  "set_channel b name ch = b\<lparr>br_topics := AList.update (NormalizeTopic name) ch (br_topics b)\<rparr>"

datatype 'a outcome = Blocks | Returns 'a
datatype queue_error = CtxDone | ErrNoMessage

text \<open>\<open>prefer\<close> is the choice of the \<open>select\<close> when both of its cases are ready.\<close>

definition mem_Produce :: "bool \<Rightarrow> bool \<Rightarrow> broker \<Rightarrow> message \<Rightarrow> broker \<times> queue_error option outcome" where
  "mem_Produce ctxDone preferSend b m =
     (let (b1, ch) = topic_channel b (msg_Topic m); room = (length ch < br_size b) in
      if room \<and> (\<not> ctxDone \<or> preferSend) then (set_channel b1 (msg_Topic m) (ch @ [m]), Returns None)
      else if ctxDone then (b1, Returns (Some CtxDone))
      else (b1, Blocks))"

fun open_topics :: "broker \<Rightarrow> string list \<Rightarrow> broker" where
  "open_topics b [] = b"
| "open_topics b (t # ts) = open_topics (fst (topic_channel b t)) ts"

text \<open>\<open>pick\<close> is the choice of \<open>reflect.Select\<close> among the ready cases.\<close>

definition mem_Consume ::
  "bool \<Rightarrow> nat \<Rightarrow> string list \<Rightarrow> broker \<Rightarrow> broker \<times> (queue_error + message) outcome" where
  "mem_Consume ctxDone pick topics b =
     (if topics = [] then (b, Returns (Inl ErrNoMessage))
      else (let b1 = open_topics b topics;
                ready = filter (\<lambda>t. snd (topic_channel b1 t) \<noteq> []) topics;
                cases = map Some ready @ (if ctxDone then [None] else [])
            in if cases = [] then (b1, Blocks)
               else (case cases ! (pick mod length cases) of
                   None \<Rightarrow> (b1, Returns (Inl CtxDone))
                 | Some t \<Rightarrow> (let ch = snd (topic_channel b1 t) in
                     (set_channel b1 t (tl ch), Returns (Inr (hd ch)))))))"

subsection \<open>The contract of a producer and a consumer\<close>

datatype queue_op = Produced message "bool \<times> bool" | Consumed "string list" "bool \<times> nat"

text \<open>A run of calls, with the messages that were accepted and those that were handed out.\<close>

fun q_run ::
  "(bool \<Rightarrow> bool \<Rightarrow> 'b \<Rightarrow> message \<Rightarrow> 'b \<times> queue_error option outcome) \<Rightarrow>
   (bool \<Rightarrow> nat \<Rightarrow> string list \<Rightarrow> 'b \<Rightarrow> 'b \<times> (queue_error + message) outcome) \<Rightarrow>
   'b \<Rightarrow> queue_op list \<Rightarrow> 'b \<times> message list \<times> message list" where
  "q_run produce consume b [] = (b, [], [])"
| "q_run produce consume b (Produced m (d, p) # ops) =
     (case q_run produce consume (fst (produce d p b m)) ops of (b', sent, got) \<Rightarrow>
        (b', if snd (produce d p b m) = Returns None then m # sent else sent, got))"
| "q_run produce consume b (Consumed ts (d, n) # ops) =
     (case q_run produce consume (fst (consume d n ts b)) ops of (b', sent, got) \<Rightarrow>
        (b', sent, case snd (consume d n ts b) of Returns (Inr m) \<Rightarrow> m # got | _ \<Rightarrow> got))"

locale topic_queue =
  fixes q_ok :: "'b \<Rightarrow> bool"
    and q_pending :: "'b \<Rightarrow> string \<Rightarrow> message list"
    and q_produce :: "bool \<Rightarrow> bool \<Rightarrow> 'b \<Rightarrow> message \<Rightarrow> 'b \<times> queue_error option outcome"
    and q_consume :: "bool \<Rightarrow> nat \<Rightarrow> string list \<Rightarrow> 'b \<Rightarrow> 'b \<times> (queue_error + message) outcome"
  assumes topics_ok: "q_ok b \<Longrightarrow> m \<in> set (q_pending b t) \<Longrightarrow> NormalizeTopic (msg_Topic m) = t"
    and produce_ok: "q_ok b \<Longrightarrow> q_ok (fst (q_produce d p b m))"
    and consume_ok: "q_ok b \<Longrightarrow> q_ok (fst (q_consume d n ts b))"
    and produce_sent: "q_ok b \<Longrightarrow> snd (q_produce d p b m) = Returns None \<Longrightarrow>
      q_pending (fst (q_produce d p b m)) =
        (q_pending b)(NormalizeTopic (msg_Topic m) := q_pending b (NormalizeTopic (msg_Topic m)) @ [m])"
    and produce_not: "q_ok b \<Longrightarrow> snd (q_produce d p b m) \<noteq> Returns None \<Longrightarrow>
      q_pending (fst (q_produce d p b m)) = q_pending b"
    and consume_got: "q_ok b \<Longrightarrow> snd (q_consume d n ts b) = Returns (Inr m) \<Longrightarrow>
      q_pending b (NormalizeTopic (msg_Topic m)) = m # q_pending (fst (q_consume d n ts b)) (NormalizeTopic (msg_Topic m)) \<and>
      (\<forall>t. t \<noteq> NormalizeTopic (msg_Topic m) \<longrightarrow> q_pending (fst (q_consume d n ts b)) t = q_pending b t)"
    and consume_not: "q_ok b \<Longrightarrow> (\<And>m. snd (q_consume d n ts b) \<noteq> Returns (Inr m)) \<Longrightarrow>
      q_pending (fst (q_consume d n ts b)) = q_pending b"
begin

lemma q_run_fifo:
  "q_ok b \<Longrightarrow> q_run q_produce q_consume b ops = (b', sent, got) \<Longrightarrow>
     q_ok b' \<and> q_pending b t @ filter (\<lambda>m. NormalizeTopic (msg_Topic m) = t) sent
       = filter (\<lambda>m. NormalizeTopic (msg_Topic m) = t) got @ q_pending b' t"
proof (induction ops arbitrary: b b' sent got)
  case (Cons oper ops)
  show ?case
  proof (cases oper)
    case (Produced m dp)
    then obtain d p where [simp]: "oper = Produced m (d, p)" by (cases dp) simp
    obtain b1 s1 g1 where r: "q_run q_produce q_consume (fst (q_produce d p b m)) ops = (b1, s1, g1)"
      by (metis prod_cases3)
    from Cons.IH [OF produce_ok [OF Cons.prems(1)] r] Cons.prems r
      produce_sent [OF Cons.prems(1), of d p m] produce_not [OF Cons.prems(1), of d p m]
    show ?thesis by (cases "snd (q_produce d p b m) = Returns None") auto
  next
    case (Consumed ts dn)
    then obtain d n where [simp]: "oper = Consumed ts (d, n)" by (cases dn) simp
    obtain b1 s1 g1 where r: "q_run q_produce q_consume (fst (q_consume d n ts b)) ops = (b1, s1, g1)"
      by (metis prod_cases3)
    note ih = Cons.IH [OF consume_ok [OF Cons.prems(1)] r]
    show ?thesis
    proof (cases "\<exists>m. snd (q_consume d n ts b) = Returns (Inr m)")
      case True
      then obtain m where m: "snd (q_consume d n ts b) = Returns (Inr m)" by blast
      from consume_got [OF Cons.prems(1) m] ih Cons.prems(2) r m show ?thesis by auto
    next
      case False
      from consume_not [OF Cons.prems(1), of d n ts] False ih Cons.prems(2) r show ?thesis
        by (auto split: outcome.splits sum.splits)
    qed
  qed
qed auto

end

subsection \<open>The broker fulfils the contract\<close>

definition br_pending :: "broker \<Rightarrow> string \<Rightarrow> message list" where
  "br_pending b t = (case map_of (br_topics b) t of None \<Rightarrow> [] | Some ch \<Rightarrow> ch)"

definition br_ok :: "broker \<Rightarrow> bool" where
  "br_ok b \<longleftrightarrow> (\<forall>t. length (br_pending b t) \<le> br_size b \<and>
     (\<forall>m \<in> set (br_pending b t). NormalizeTopic (msg_Topic m) = t))"

lemma topic_channel_pending [simp]:
  "br_pending (fst (topic_channel b n)) = br_pending b" "br_size (fst (topic_channel b n)) = br_size b"
  "snd (topic_channel b n) = br_pending b (NormalizeTopic n)"
  by (auto simp: topic_channel_def Let_def br_pending_def fun_eq_iff split: option.splits)

lemma set_channel_pending [simp]:
  "br_pending (set_channel b n ch) = (br_pending b)(NormalizeTopic n := ch)" "br_size (set_channel b n ch) = br_size b"
  by (auto simp: set_channel_def br_pending_def fun_eq_iff update_conv')

lemma open_topics_pending [simp]:
  "br_pending (open_topics b ts) = br_pending b" "br_size (open_topics b ts) = br_size b"
  by (induction ts arbitrary: b) simp_all

lemma mem_Produce_cases:
  "(snd (mem_Produce d p b m) = Returns None \<and> length (br_pending b (NormalizeTopic (msg_Topic m))) < br_size b \<and>
     br_pending (fst (mem_Produce d p b m)) = (br_pending b)(NormalizeTopic (msg_Topic m)
       := br_pending b (NormalizeTopic (msg_Topic m)) @ [m]) \<or>
    snd (mem_Produce d p b m) \<noteq> Returns None \<and> br_pending (fst (mem_Produce d p b m)) = br_pending b) \<and>
   br_size (fst (mem_Produce d p b m)) = br_size b"
  by (simp add: mem_Produce_def Let_def case_prod_beta)

lemma mem_Consume_cases:
  "((\<exists>t \<in> set ts. \<exists>m ms. snd (mem_Consume d n ts b) = Returns (Inr m) \<and> br_pending b (NormalizeTopic t) = m # ms \<and>
      br_pending (fst (mem_Consume d n ts b)) = (br_pending b)(NormalizeTopic t := ms)) \<or>
    (\<forall>m. snd (mem_Consume d n ts b) \<noteq> Returns (Inr m)) \<and> br_pending (fst (mem_Consume d n ts b)) = br_pending b) \<and>
   br_size (fst (mem_Consume d n ts b)) = br_size b"
proof -
  let ?ready = "filter (\<lambda>t. br_pending b (NormalizeTopic t) \<noteq> []) ts"
  let ?cases = "map Some ?ready @ (if d then [None] else [])"
  have "?cases = [] \<or> ?cases ! (n mod length ?cases) \<in> set ?cases"
    by (metis length_greater_0_conv mod_less_divisor nth_mem)
  then consider "?cases = []" | "?cases \<noteq> []" "?cases ! (n mod length ?cases) = None"
    | t where "?cases \<noteq> []" "?cases ! (n mod length ?cases) = Some t" "t \<in> set ts" "br_pending b (NormalizeTopic t) \<noteq> []"
    by (cases "?cases ! (n mod length ?cases)") (auto split: if_splits)
  then show ?thesis
  proof cases
    case (3 t)
    then obtain m ms where m: "br_pending b (NormalizeTopic t) = m # ms" by (meson neq_Nil_conv)
    have "mem_Consume d n ts b = (set_channel (open_topics b ts) t ms, Returns (Inr m))"
      using 3 m by (auto simp: mem_Consume_def Let_def)
    with 3(3) m show ?thesis by auto
  qed (auto simp: mem_Consume_def Let_def)
qed

lemma br_ok_tl:
  assumes "br_ok b" "br_pending b t = m # ms" "br_pending b' = (br_pending b)(t := ms)" "br_size b' = br_size b"
  shows "br_ok b'"
  unfolding br_ok_def
proof
  fix u
  from assms(1) have "length (br_pending b u) \<le> br_size b" "\<forall>m \<in> set (br_pending b u). NormalizeTopic (msg_Topic m) = u"
    by (auto simp: br_ok_def)
  with assms(2-) show "length (br_pending b' u) \<le> br_size b' \<and> (\<forall>m \<in> set (br_pending b' u). NormalizeTopic (msg_Topic m) = u)"
    by (cases "u = t") auto
qed

lemma mem_broker_queue: "topic_queue br_ok br_pending mem_Produce mem_Consume"
proof (unfold_locales, goal_cases)
  case (1 b m t) then show ?case by (auto simp: br_ok_def)
next
  case (2 b d p m)
  with mem_Produce_cases [of d p b m] show ?case unfolding br_ok_def by (elim conjE disjE) auto
next
  case (3 b d n ts)
  with mem_Consume_cases [of ts d n b] show ?case
    by (elim conjE disjE bexE exE) (auto simp: br_ok_tl, simp add: br_ok_def)
next
  case (4 b d p m) with mem_Produce_cases [of d p b m] show ?case by auto
next
  case (5 b d p m) with mem_Produce_cases [of d p b m] show ?case by auto
next
  case (6 b d n ts m)
  with mem_Consume_cases [of ts d n b] obtain t ms where
    t: "br_pending b (NormalizeTopic t) = m # ms" "br_pending (fst (mem_Consume d n ts b)) = (br_pending b)(NormalizeTopic t := ms)"
    by auto
  moreover from t(1) 6(1) have "NormalizeTopic (msg_Topic m) = NormalizeTopic t"
    unfolding br_ok_def by (metis list.set_intros(1))
  ultimately show ?case by simp
next
  case (7 b d n ts) with mem_Consume_cases [of ts d n b] show ?case by auto
qed

interpretation mem_broker: topic_queue br_ok br_pending mem_Produce mem_Consume
  by (rule mem_broker_queue)

subsection \<open>Properties\<close>

lemma new_broker_ok: "br_ok (NewMemoryBroker size0)" "br_pending (NewMemoryBroker size0) t = []"
  by (simp_all add: br_ok_def br_pending_def NewMemoryBroker_def)

text \<open>
  The broker in memory is a bounded first-in first-out queue per topic: over any
  sequence of calls, with any choices of the selects and any cancelled contexts, the accepted messages of a
  topic are those handed out followed by those still pending, in order, so none is lost, repeated or
  reordered, and a topic never holds more than the broker's size.
\<close>

theorem broker_fifo:
  "case q_run mem_Produce mem_Consume (NewMemoryBroker size0) ops of (b', sent, got) \<Rightarrow>
     filter (\<lambda>m. NormalizeTopic (msg_Topic m) = t) sent
       = filter (\<lambda>m. NormalizeTopic (msg_Topic m) = t) got @ br_pending b' t \<and>
     length (br_pending b' t) \<le> br_size b'"
proof -
  obtain b' sent got where r: "q_run mem_Produce mem_Consume (NewMemoryBroker size0) ops = (b', sent, got)"
    by (metis prod_cases3)
  from mem_broker.q_run_fifo [OF new_broker_ok(1) r, of t] r show ?thesis
    by (simp add: new_broker_ok br_ok_def)
qed

text \<open>
  The broker never blocks without cause: a producer waits exactly when its topic is
  full, a consumer exactly when it has topics and all of them are empty, and neither waits once its
  context is done; a consumer without topics gets \<open>ErrNoMessage\<close>.
\<close>

theorem broker_blocks_iff:
  "(snd (mem_Produce d p b m) = Blocks \<longleftrightarrow>
      \<not> d \<and> br_size b \<le> length (br_pending b (NormalizeTopic (msg_Topic m)))) \<and>
   (snd (mem_Consume d n ts b) = Blocks \<longleftrightarrow>
      ts \<noteq> [] \<and> \<not> d \<and> list_all (\<lambda>t. br_pending b (NormalizeTopic t) = []) ts) \<and>
   snd (mem_Consume d n [] b) = Returns (Inl ErrNoMessage)"
  by (auto simp: mem_Produce_def mem_Consume_def Let_def case_prod_beta filter_empty_conv list_all_iff split: option.splits)

end
