(* ===== verification/Scan_Worker.thy ===== *)
theory Scan_Worker
  imports Scan_Jobs Coordination Scan_Control Queue "HOL-Library.State_Monad"
begin

text \<open>
  The scanner worker, \<open>cmd/scanner-worker/main.go\<close>: the admission of a scan (lock, semaphore
  slot, target rate limit), the processing of a claimed job on every path, and the two ways in which
  a job reaches it, polling and the queue. A handler is an action of the state monad over the world:
  the job collection, the Redis server and the rest of the database. The worker is not alone: each time it
  reads the clock the other processes may have changed the world (\<open>we_other_jobs\<close>,
  \<open>we_other_redis\<close>, \<open>we_other_rest\<close>, one function per reading, so every interleaving is some choice of them). A
  deferred call is the action that runs after the rest of the function, on every return.
\<close>

subsection \<open>The world\<close>

record ('c, 'r, 'x) world =
  w_jobs :: 'c
  w_redis :: 'r
  w_rest :: 'x
  w_tick :: nat

datatype exec_error = ExecError bool string
datatype consume_error = NoMessage | ContextDone | ConsumeError string

text \<open>
  What the worker is given: the collection of jobs, the Redis runtime, the operations on the other
  collections, the engine (with its error and whether the deadline is exceeded), the queue's
  consumer and JSON decoding, ObjectID's text form, and the rest of the world.
\<close>

record ('c, 'r, 'x) worker_env =
  we_jobs :: "('c, object_id, scan_job) coll"
  we_runtime :: "'r redis_runtime option"
  we_sha256 :: "string \<Rightarrow> string"
  we_marshal :: "scan_progress \<Rightarrow> string + string"
  we_clock :: "nat \<Rightarrow> int"
  we_new_id :: "nat \<Rightarrow> object_id"
  we_other_jobs :: "nat \<Rightarrow> 'c \<Rightarrow> 'c"
  we_other_redis :: "nat \<Rightarrow> 'r \<Rightarrow> 'r"
  we_other_rest :: "nat \<Rightarrow> 'x \<Rightarrow> 'x"
  we_Hex :: "object_id \<Rightarrow> string"
  we_FromHex :: "string \<Rightarrow> string + object_id"
  we_SaveScanProgressEvent :: "'x \<Rightarrow> scan_progress_event \<Rightarrow> 'x \<times> string option"
  we_load_secret :: "'x \<Rightarrow> int \<Rightarrow> object_id \<Rightarrow> string + string \<times> string"
  we_Decrypt :: "string + (string \<Rightarrow> string \<Rightarrow> string + string)"
  we_DeleteScanSecret :: "'x \<Rightarrow> object_id \<Rightarrow> 'x \<times> string option"
  we_Execute :: "'x \<Rightarrow> int \<Rightarrow> scan_config \<Rightarrow> 'x \<times> (exec_error + scan_execution_result list)"
  we_SaveScanResult :: "'x \<Rightarrow> scan_result \<Rightarrow> 'x \<times> (string + scan_result)"
  we_UpsertIssue :: "'x \<Rightarrow> scan_result \<Rightarrow> 'x \<times> string option"
  we_Consume :: "'x \<Rightarrow> 'x \<times> (consume_error + message)"
  we_Commit :: "'x \<Rightarrow> message \<Rightarrow> 'x \<times> string option"
  we_Envelope :: "string \<Rightarrow> string + envelope"
  we_Event :: "string \<Rightarrow> string + scan_job_event"

type_synonym ('c, 'r, 'x, 'a) act = "(('c, 'r, 'x) world, 'a) state"

definition clock_now :: "('c, 'r, 'x) worker_env \<Rightarrow> ('c, 'r, 'x, int) act" where
  "clock_now E = State (\<lambda>w. (we_clock E (w_tick w),
     \<lparr>w_jobs = we_other_jobs E (w_tick w) (w_jobs w), w_redis = we_other_redis E (w_tick w) (w_redis w),
      w_rest = we_other_rest E (w_tick w) (w_rest w), w_tick = Suc (w_tick w)\<rparr>))"

definition new_id :: "('c, 'r, 'x) worker_env \<Rightarrow> ('c, 'r, 'x, object_id) act" where
  "new_id E = State (\<lambda>w. (we_new_id E (w_tick w), w))"

definition on_jobs :: "('c \<Rightarrow> 'c \<times> 'a) \<Rightarrow> ('c, 'r, 'x, 'a) act" where
  "on_jobs f = State (\<lambda>w. case f (w_jobs w) of (c, a) \<Rightarrow> (a, w\<lparr>w_jobs := c\<rparr>))"

definition on_redis :: "('r \<Rightarrow> 'r \<times> 'a) \<Rightarrow> ('c, 'r, 'x, 'a) act" where
  "on_redis f = State (\<lambda>w. case f (w_redis w) of (r, a) \<Rightarrow> (a, w\<lparr>w_redis := r\<rparr>))"

definition on_rest :: "('x \<Rightarrow> 'x \<times> 'a) \<Rightarrow> ('c, 'r, 'x, 'a) act" where
  "on_rest f = State (\<lambda>w. case f (w_rest w) of (x, a) \<Rightarrow> (a, w\<lparr>w_rest := x\<rparr>))"

subsection \<open>Repository calls\<close>

definition get_job :: "('c, 'r, 'x) worker_env \<Rightarrow> object_id \<Rightarrow> ('c, 'r, 'x, string + scan_job) act" where
  "get_job E i = do { _ \<leftarrow> clock_now E; on_jobs (\<lambda>c. (c, GetScanJob (we_jobs E) c i)) }"

definition fail_job :: "('c, 'r, 'x) worker_env \<Rightarrow> object_id \<Rightarrow> string \<Rightarrow> ('c, 'r, 'x, string option) act" where
  "fail_job E i msg = do { now \<leftarrow> clock_now E; on_jobs (\<lambda>c. FailScanJob (we_jobs E) now c i msg) }"

definition requeue_job :: "('c, 'r, 'x) worker_env \<Rightarrow> object_id \<Rightarrow> string \<Rightarrow> int \<Rightarrow> ('c, 'r, 'x, string option) act" where
  "requeue_job E i msg delay = do { now \<leftarrow> clock_now E; on_jobs (\<lambda>c. RequeueScanJob (we_jobs E) now c i msg delay) }"

definition timeout_job :: "('c, 'r, 'x) worker_env \<Rightarrow> object_id \<Rightarrow> string \<Rightarrow> ('c, 'r, 'x, string option) act" where
  "timeout_job E i msg = do { now \<leftarrow> clock_now E; on_jobs (\<lambda>c. TimeoutScanJob (we_jobs E) now c i msg) }"

definition complete_job :: "('c, 'r, 'x) worker_env \<Rightarrow> object_id \<Rightarrow> int \<Rightarrow> ('c, 'r, 'x, string option) act" where
  "complete_job E i n = do { now \<leftarrow> clock_now E; on_jobs (\<lambda>c. CompleteScanJob (we_jobs E) now c i n) }"

definition scanJobCancelled :: "('c, 'r, 'x) worker_env \<Rightarrow> object_id \<Rightarrow> ('c, 'r, 'x, string + bool) act" where
  "scanJobCancelled E i = do {
     r \<leftarrow> get_job E i;
     State_Monad.return (case r of Inl e \<Rightarrow> Inl e | Inr job \<Rightarrow> Inr (job_Status job = ScanJobStatusCancelled)) }"

definition setScanProgress ::
  "('c, 'r, 'x) worker_env \<Rightarrow> scan_job \<Rightarrow> string \<Rightarrow> string \<Rightarrow> string \<Rightarrow> int \<Rightarrow> ('c, 'r, 'x, unit) act" where
  "setScanProgress E job status workerID message resultsCount = do {
     now \<leftarrow> clock_now E;
     _ \<leftarrow> on_rest (\<lambda>x. we_SaveScanProgressEvent E x
       \<lparr>spe_ID = 0, spe_TenantID = job_TenantID job, spe_ProjectID = job_ProjectID job, spe_JobID = job_ID job,
        spe_InventoryID = job_InventoryID job, spe_Status = status, spe_WorkerID = workerID, spe_Message = message,
        spe_ResultsCount = resultsCount, spe_CreatedAt = Some now\<rparr>);
     (case we_runtime E of
        None \<Rightarrow> State_Monad.return ()
      | Some rt \<Rightarrow>
          if \<not> rr_Progress rt then State_Monad.return ()
          else do {
            now' \<leftarrow> clock_now E;
            _ \<leftarrow> on_redis (\<lambda>r. progress_Set (we_marshal E) (rr_Client rt) (rr_KeyPrefix rt) now' r
              \<lparr>sp_JobID = we_Hex E (job_ID job), sp_Status = status, sp_WorkerID = workerID, sp_Message = message,
               sp_ResultsCount = resultsCount, sp_UpdatedAt = Some now'\<rparr> (rr_ProgressTTL rt));
            State_Monad.return () }) }"

definition hydrateScanAuthSecret ::
  "('c, 'r, 'x) worker_env \<Rightarrow> scan_config \<Rightarrow> ('c, 'r, 'x, string + scan_config) act" where
  "hydrateScanAuthSecret E config =
     (if cfg_AuthSecretRef config = [] then State_Monad.return (Inr config)
      else (case we_FromHex E (cfg_AuthSecretRef config) of
          Inl err \<Rightarrow> State_Monad.return (Inl err)
        | Inr secretID \<Rightarrow> do {
            now \<leftarrow> clock_now E;
            secret \<leftarrow> on_rest (\<lambda>x. (x, we_load_secret E x now secretID));
            State_Monad.return (case secret of
                Inl err \<Rightarrow> Inl err
              | Inr (nonce, ciphertext) \<Rightarrow>
                  (case we_Decrypt E of
                     Inl err \<Rightarrow> Inl err
                   | Inr decrypt \<Rightarrow>
                       (case decrypt nonce ciphertext of
                          Inl err \<Rightarrow> Inl err
                        | Inr plaintext \<Rightarrow> Inr (config\<lparr>cfg_ManualAuth := plaintext\<rparr>)))) }))"

definition cleanupScanSecret :: "('c, 'r, 'x) worker_env \<Rightarrow> string \<Rightarrow> ('c, 'r, 'x, unit) act" where
  "cleanupScanSecret E ref =
     (if ref = [] then State_Monad.return ()
      else (case we_FromHex E ref of
          Inl _ \<Rightarrow> State_Monad.return ()
        | Inr secretID \<Rightarrow> do {
            _ \<leftarrow> clock_now E;
            _ \<leftarrow> on_rest (\<lambda>x. we_DeleteScanSecret E x secretID);
            State_Monad.return () }))"

subsection \<open>Admission\<close>

definition lock_error_text :: "coord_error \<Rightarrow> string" where
  "lock_error_text e = (case e of
      KeyValueRequired \<Rightarrow> ''lock key and value are required''
    | TTLRequired \<Rightarrow> ''lock ttl must be positive''
    | LimitRequired \<Rightarrow> ''semaphore limit must be positive''
    | RedisError msg \<Rightarrow> msg)"

definition semaphore_error_text :: "coord_error \<Rightarrow> string" where
  "semaphore_error_text e = (case e of
      KeyValueRequired \<Rightarrow> ''semaphore key and value are required''
    | TTLRequired \<Rightarrow> ''semaphore ttl must be positive''
    | LimitRequired \<Rightarrow> ''semaphore limit must be positive''
    | RedisError msg \<Rightarrow> msg)"

definition target_error_text :: "target_key_error \<Rightarrow> string" where
  "target_error_text e = (case e of
      TargetRequired \<Rightarrow> ''scan target URL is required''
    | TargetInvalid \<Rightarrow> ''invalid scan target URL'')"

definition try_lock ::
  "('c, 'r, 'x) worker_env \<Rightarrow> 'r redis_runtime \<Rightarrow> string \<Rightarrow> string \<Rightarrow> ('c, 'r, 'x, coord_error + dlock option) act" where
  "try_lock E rt key v = do {
     now \<leftarrow> clock_now E;
     on_redis (\<lambda>r. TryLock (rr_Client rt) (rr_KeyPrefix rt) now r key v (rr_ScanLockTTL rt)) }"

definition try_acquire ::
  "('c, 'r, 'x) worker_env \<Rightarrow> 'r redis_runtime \<Rightarrow> string \<Rightarrow> int \<Rightarrow> int \<Rightarrow> ('c, 'r, 'x, coord_error + dlock option) act" where
  "try_acquire E rt v limit lease = do {
     now \<leftarrow> clock_now E;
     on_redis (\<lambda>r. TryAcquire (rr_Client rt) (rr_KeyPrefix rt) now r ScannerGlobalSemaphoreKey v limit lease) }"

definition allow_target ::
  "('c, 'r, 'x) worker_env \<Rightarrow> 'r redis_runtime \<Rightarrow> string \<Rightarrow> int \<Rightarrow> int \<Rightarrow> ('c, 'r, 'x, coord_error + bool) act" where
  "allow_target E rt key limit window = do {
     now \<leftarrow> clock_now E;
     on_redis (\<lambda>r. Allow (rr_Client rt) (we_sha256 E) (rr_KeyPrefix rt) now r key limit window) }"

definition release_lock :: "('c, 'r, 'x) worker_env \<Rightarrow> 'r redis_runtime \<Rightarrow> dlock \<Rightarrow> ('c, 'r, 'x, unit) act" where
  "release_lock E rt lock = do {
     now \<leftarrow> clock_now E;
     _ \<leftarrow> on_redis (\<lambda>r. Release (rr_Client rt) now r lock);
     State_Monad.return () }"

text \<open>\<open>scanAdmission.Release\<close> gives the slots back in the reverse order.\<close>

fun release_all :: "('c, 'r, 'x) worker_env \<Rightarrow> 'r redis_runtime \<Rightarrow> dlock list \<Rightarrow> ('c, 'r, 'x, unit) act" where
  "release_all E rt [] = State_Monad.return ()"
| "release_all E rt (lock # locks) = do { _ \<leftarrow> release_lock E rt lock; release_all E rt locks }"

definition admission_Release :: "('c, 'r, 'x) worker_env \<Rightarrow> dlock list \<Rightarrow> ('c, 'r, 'x, unit) act" where
  "admission_Release E locks =
     (case we_runtime E of
        None \<Rightarrow> State_Monad.return ()
      | Some rt \<Rightarrow> release_all E rt (rev locks))"

text \<open>What \<open>acquireScanAdmission\<close> returns: the locks, admitted, the message, the delay and the error.\<close>

record admission =
  ad_locks :: "dlock list"
  ad_admitted :: bool
  ad_message :: string
  ad_delay :: int
  ad_error :: "string option"

definition admit_target ::
  "('c, 'r, 'x) worker_env \<Rightarrow> 'r redis_runtime \<Rightarrow> scan_job \<Rightarrow> control_config \<Rightarrow> dlock list \<Rightarrow> ('c, 'r, 'x, admission) act" where
  "admit_target E rt job limits locks =
     (if TargetJobsPerWindow limits > 0 \<and> rr_RateLimiter rt then
        (case TargetRateKey job of
           Inl err \<Rightarrow> do {
             _ \<leftarrow> admission_Release E locks;
             State_Monad.return \<lparr>ad_locks = locks, ad_admitted = False, ad_message = ''invalid scan target'', ad_delay = 0,
               ad_error = Some (target_error_text err)\<rparr> }
         | Inr targetKey \<Rightarrow> do {
             r \<leftarrow> allow_target E rt targetKey (TargetJobsPerWindow limits) (TargetRateWindow limits);
             (case r of
                Inl err \<Rightarrow> do {
                  _ \<leftarrow> admission_Release E locks;
                  State_Monad.return \<lparr>ad_locks = locks, ad_admitted = False,
                    ad_message = ''scanner target rate limiter unavailable'', ad_delay = CapacityRetryDelay limits,
                    ad_error = Some (lock_error_text err)\<rparr> }
              | Inr False \<Rightarrow> do {
                  _ \<leftarrow> admission_Release E locks;
                  State_Monad.return \<lparr>ad_locks = locks, ad_admitted = False,
                    ad_message = ''scanner target rate limit reached'', ad_delay = TargetRateWindow limits, ad_error = None\<rparr> }
              | Inr True \<Rightarrow>
                  State_Monad.return \<lparr>ad_locks = locks, ad_admitted = True, ad_message = [], ad_delay = 0, ad_error = None\<rparr>) })
      else State_Monad.return \<lparr>ad_locks = locks, ad_admitted = True, ad_message = [], ad_delay = 0, ad_error = None\<rparr>)"

definition acquireScanAdmission ::
  "('c, 'r, 'x) worker_env \<Rightarrow> scan_job \<Rightarrow> string \<Rightarrow> control_config \<Rightarrow> ('c, 'r, 'x, admission) act" where
  "acquireScanAdmission E job workerID limits0 =
     (let limits = control_Normalize limits0 in
      case we_runtime E of
        None \<Rightarrow> State_Monad.return \<lparr>ad_locks = [], ad_admitted = True, ad_message = [], ad_delay = 0, ad_error = None\<rparr>
      | Some rt \<Rightarrow> do {
          fresh \<leftarrow> new_id E;
          let v = workerID @ '':'' @ we_Hex E (job_ID job) @ '':'' @ we_Hex E fresh;
          (if rr_Semaphore rt then do {
             r \<leftarrow> try_acquire E rt v (GlobalConcurrency limits) (AdmissionLease limits);
             (case r of
                Inl err \<Rightarrow> State_Monad.return \<lparr>ad_locks = [], ad_admitted = False,
                  ad_message = ''scanner global concurrency unavailable'', ad_delay = CapacityRetryDelay limits,
                  ad_error = Some (semaphore_error_text err)\<rparr>
              | Inr None \<Rightarrow> State_Monad.return \<lparr>ad_locks = [], ad_admitted = False,
                  ad_message = ''scanner global concurrency limit reached'', ad_delay = CapacityRetryDelay limits,
                  ad_error = None\<rparr>
              | Inr (Some lock) \<Rightarrow> admit_target E rt job limits [lock]) }
           else admit_target E rt job limits []) })"

subsection \<open>Processing a claimed job\<close>

text \<open>The result of a handler: whether something was processed, and the error.\<close>

type_synonym handled = "bool \<times> string option"

text \<open>The loop that saves the results; a return inside it ends the handler.\<close>

definition result_of :: "scan_job \<Rightarrow> int \<Rightarrow> scan_execution_result \<Rightarrow> scan_result" where
  "result_of job now res =
     \<lparr>sr_ID = 0, sr_TenantID = job_TenantID job, sr_ProjectID = job_ProjectID job, sr_JobID = job_ID job,
      sr_SuiteID = job_SuiteID job, sr_SchemaVersion = ser_SchemaVersion res, sr_InventoryID = job_InventoryID job,
      sr_TestType = ser_TestType res, sr_Vulnerable = ser_Vulnerable res, sr_Severity = ser_Severity res,
      sr_Description = ser_Description res, sr_Proof = ser_Proof res, sr_ResponseStatus = ser_ResponseStatus res,
      sr_ResponseHeader = ser_ResponseHeader res, sr_ResponseBody = ser_ResponseBody res, sr_CreatedAt = Some now\<rparr>"

definition fail_with ::
  "('c, 'r, 'x) worker_env \<Rightarrow> string \<Rightarrow> scan_job \<Rightarrow> string \<Rightarrow> int \<Rightarrow> ('c, 'r, 'x, handled) act" where
  "fail_with E workerID job msg count = do {
     _ \<leftarrow> fail_job E (job_ID job) msg;
     _ \<leftarrow> setScanProgress E job ScanJobStatusFailed workerID msg count;
     State_Monad.return (True, Some msg) }"

definition report_cancelled ::
  "('c, 'r, 'x) worker_env \<Rightarrow> string \<Rightarrow> scan_job \<Rightarrow> ('c, 'r, 'x, handled) act" where
  "report_cancelled E workerID job = do {
     _ \<leftarrow> setScanProgress E job ScanJobStatusCancelled workerID ''scan cancelled'' 0;
     State_Monad.return (True, None) }"

fun save_results ::
  "('c, 'r, 'x) worker_env \<Rightarrow> string \<Rightarrow> scan_job \<Rightarrow> int \<Rightarrow> scan_execution_result list \<Rightarrow> ('c, 'r, 'x, handled option) act" where
  "save_results E workerID job count [] = State_Monad.return None"
| "save_results E workerID job count (res # rest) = do {
     cancelled \<leftarrow> scanJobCancelled E (job_ID job);
     (case cancelled of
        Inl err \<Rightarrow> State_Monad.return (Some (True, Some err))
      | Inr True \<Rightarrow> do { h \<leftarrow> report_cancelled E workerID job; State_Monad.return (Some h) }
      | Inr False \<Rightarrow> do {
          now \<leftarrow> clock_now E;
          saved \<leftarrow> on_rest (\<lambda>x. we_SaveScanResult E x (result_of job now res));
          (case saved of
             Inl err \<Rightarrow> do { h \<leftarrow> fail_with E workerID job err count; State_Monad.return (Some h) }
           | Inr savedResult \<Rightarrow>
               if sr_Vulnerable savedResult then do {
                 _ \<leftarrow> clock_now E;
                 upserted \<leftarrow> on_rest (\<lambda>x. we_UpsertIssue E x savedResult);
                 (case upserted of
                    Some err \<Rightarrow> do { h \<leftarrow> fail_with E workerID job err count; State_Monad.return (Some h) }
                  | None \<Rightarrow> save_results E workerID job count rest) }
               else save_results E workerID job count rest) }) }"

definition finish_scan ::
  "('c, 'r, 'x) worker_env \<Rightarrow> string \<Rightarrow> scan_job \<Rightarrow> scan_execution_result list \<Rightarrow> ('c, 'r, 'x, handled) act" where
  "finish_scan E workerID job results = do {
     stopped \<leftarrow> save_results E workerID job (int (length results)) results;
     (case stopped of
        Some h \<Rightarrow> State_Monad.return h
      | None \<Rightarrow> do {
          completed \<leftarrow> complete_job E (job_ID job) (int (length results));
          (case completed of
             Some err \<Rightarrow> do {
               _ \<leftarrow> setScanProgress E job ScanJobStatusFailed workerID err (int (length results));
               State_Monad.return (True, Some err) }
           | None \<Rightarrow> do {
               _ \<leftarrow> setScanProgress E job ScanJobStatusCompleted workerID [] (int (length results));
               State_Monad.return (True, None) }) }) }"

text \<open>The scan itself, after the admission and the secret.\<close>

definition scan_timeout :: "scan_job \<Rightarrow> int" where
  "scan_timeout job = (let t = wrap64 (job_TimeoutSeconds job * second) in
     if t \<le> 0 then DefaultScanTimeoutSeconds * second else t)"

definition run_scan ::
  "('c, 'r, 'x) worker_env \<Rightarrow> string \<Rightarrow> scan_job \<Rightarrow> scan_config \<Rightarrow> ('c, 'r, 'x, handled) act" where
  "run_scan E workerID job config = do {
     _ \<leftarrow> clock_now E;
     executed \<leftarrow> on_rest (\<lambda>x. we_Execute E x (scan_timeout job) config);
     (case executed of
        Inl (ExecError exceeded msg) \<Rightarrow>
          if exceeded then do {
            _ \<leftarrow> timeout_job E (job_ID job) ''scan timed out'';
            _ \<leftarrow> setScanProgress E job ScanJobStatusTimedOut workerID ''scan timed out'' 0;
            State_Monad.return (True, Some msg) }
          else fail_with E workerID job msg 0
      | Inr results \<Rightarrow> do {
          cancelled \<leftarrow> scanJobCancelled E (job_ID job);
          (case cancelled of
             Inl err \<Rightarrow> State_Monad.return (True, Some err)
           | Inr True \<Rightarrow> report_cancelled E workerID job
           | Inr False \<Rightarrow> finish_scan E workerID job results) }) }"

definition admitted_scan ::
  "('c, 'r, 'x) worker_env \<Rightarrow> string \<Rightarrow> scan_job \<Rightarrow> ('c, 'r, 'x, handled) act" where
  "admitted_scan E workerID job = do {
     _ \<leftarrow> setScanProgress E job ScanJobStatusRunning workerID [] 0;
     hydrated \<leftarrow> hydrateScanAuthSecret E (job_Config job);
     (case hydrated of
        Inl err \<Rightarrow> do {
          _ \<leftarrow> fail_job E (job_ID job) err;
          _ \<leftarrow> cleanupScanSecret E (cfg_AuthSecretRef (job_Config job));
          _ \<leftarrow> setScanProgress E job ScanJobStatusFailed workerID err 0;
          State_Monad.return (True, Some err) }
      | Inr config \<Rightarrow> do {
          h \<leftarrow> run_scan E workerID job config;
          _ \<leftarrow> cleanupScanSecret E (cfg_AuthSecretRef (job_Config job));
          State_Monad.return h }) }"

definition requeue_with ::
  "('c, 'r, 'x) worker_env \<Rightarrow> string \<Rightarrow> scan_job \<Rightarrow> string \<Rightarrow> string option \<Rightarrow> int \<Rightarrow> ('c, 'r, 'x, handled) act" where
  "requeue_with E workerID job message err delay = do {
     _ \<leftarrow> requeue_job E (job_ID job) (case err of None \<Rightarrow> message | Some e \<Rightarrow> message @ '': '' @ e) delay;
     _ \<leftarrow> setScanProgress E job ScanJobStatusQueued workerID message 0;
     State_Monad.return (True, err) }"

definition locked_job ::
  "('c, 'r, 'x) worker_env \<Rightarrow> string \<Rightarrow> control_config \<Rightarrow> scan_job \<Rightarrow> ('c, 'r, 'x, handled) act" where
  "locked_job E workerID limits job = do {
     cancelled \<leftarrow> scanJobCancelled E (job_ID job);
     (case cancelled of
        Inl err \<Rightarrow> State_Monad.return (True, Some err)
      | Inr True \<Rightarrow> do {
          _ \<leftarrow> cleanupScanSecret E (cfg_AuthSecretRef (job_Config job));
          report_cancelled E workerID job }
      | Inr False \<Rightarrow> do {
          ad \<leftarrow> acquireScanAdmission E job workerID limits;
          (case ad_error ad of
             Some err \<Rightarrow>
               if ad_message ad = ''invalid scan target'' then do {
                 _ \<leftarrow> fail_job E (job_ID job) (ad_message ad @ '': '' @ err);
                 _ \<leftarrow> cleanupScanSecret E (cfg_AuthSecretRef (job_Config job));
                 _ \<leftarrow> setScanProgress E job ScanJobStatusFailed workerID (ad_message ad) 0;
                 State_Monad.return (True, Some err) }
               else requeue_with E workerID job (ad_message ad) (Some err) (ad_delay ad)
           | None \<Rightarrow>
               if \<not> ad_admitted ad then requeue_with E workerID job (ad_message ad) None (ad_delay ad)
               else do {
                 h \<leftarrow> admitted_scan E workerID job;
                 _ \<leftarrow> admission_Release E (ad_locks ad);
                 State_Monad.return h }) }) }"

definition processClaimedJob ::
  "('c, 'r, 'x) worker_env \<Rightarrow> string \<Rightarrow> control_config \<Rightarrow> scan_job \<Rightarrow> ('c, 'r, 'x, handled) act" where
  "processClaimedJob E workerID limits job =
     (case we_runtime E of
        None \<Rightarrow> locked_job E workerID limits job
      | Some rt \<Rightarrow>
          if \<not> rr_Locker rt then locked_job E workerID limits job
          else do {
            fresh \<leftarrow> new_id E;
            r \<leftarrow> try_lock E rt (ScanJobLockKey (we_Hex E (job_ID job))) (workerID @ '':'' @ we_Hex E fresh);
            (case r of
               Inl err \<Rightarrow> requeue_with E workerID job ''scan coordination lock unavailable''
                 (Some (lock_error_text err)) (CapacityRetryDelay limits)
             | Inr None \<Rightarrow> requeue_with E workerID job ''scan coordination lock already held'' None
                 (CapacityRetryDelay limits)
             | Inr (Some lock) \<Rightarrow> do {
                 h \<leftarrow> locked_job E workerID limits job;
                 _ \<leftarrow> release_lock E rt lock;
                 State_Monad.return h }) })"

subsection \<open>Where jobs come from\<close>

definition processOne ::
  "('c, 'r, 'x) worker_env \<Rightarrow> string \<Rightarrow> control_config \<Rightarrow> ('c, 'r, 'x, handled) act" where
  "processOne E workerID limits = do {
     now \<leftarrow> clock_now E;
     now' \<leftarrow> clock_now E;
     claimed \<leftarrow> on_jobs (\<lambda>c. ClaimNextScanJob (we_jobs E) now now' c workerID);
     (case claimed of
        Inl err \<Rightarrow> State_Monad.return (False, Some err)
      | Inr None \<Rightarrow> State_Monad.return (False, None)
      | Inr (Some job) \<Rightarrow> processClaimedJob E workerID limits job) }"

definition commit :: "('c, 'r, 'x) worker_env \<Rightarrow> message \<Rightarrow> ('c, 'r, 'x, string option) act" where
  "commit E m = do { _ \<leftarrow> clock_now E; on_rest (\<lambda>x. we_Commit E x m) }"

definition drop_message :: "('c, 'r, 'x) worker_env \<Rightarrow> message \<Rightarrow> ('c, 'r, 'x, handled) act" where
  "drop_message E m = do { err \<leftarrow> commit E m; State_Monad.return (True, err) }"

text \<open>The job a message names, if it is a well-formed event of a queued scan.\<close>

definition event_job :: "('c, 'r, 'x) worker_env \<Rightarrow> message \<Rightarrow> object_id option" where
  "event_job E m =
     (case DecodeEnvelope (we_Envelope E) m of
        Inl _ \<Rightarrow> None
      | Inr e \<Rightarrow>
          if env_PayloadType e \<noteq> PayloadScanJobQueuedV1 then None
          else (case we_Event E (env_Payload e) of
              Inl _ \<Rightarrow> None
            | Inr ev \<Rightarrow> (case we_FromHex E (sje_JobID ev) of Inl _ \<Rightarrow> None | Inr i \<Rightarrow> Some i)))"

definition processQueuedScanJob ::
  "('c, 'r, 'x) worker_env \<Rightarrow> string \<Rightarrow> control_config \<Rightarrow> ('c, 'r, 'x, handled) act" where
  "processQueuedScanJob E workerID limits = do {
     _ \<leftarrow> clock_now E;
     consumed \<leftarrow> on_rest (we_Consume E);
     (case consumed of
        Inl (ConsumeError err) \<Rightarrow> State_Monad.return (False, Some err)
      | Inl _ \<Rightarrow> State_Monad.return (False, None)
      | Inr m \<Rightarrow>
          (case event_job E m of
             None \<Rightarrow> drop_message E m
           | Some jobID \<Rightarrow> do {
               now \<leftarrow> clock_now E;
               now' \<leftarrow> clock_now E;
               claimed \<leftarrow> on_jobs (\<lambda>c. ClaimScanJobByID (we_jobs E) now now' c jobID workerID);
               (case claimed of
                  Inl err \<Rightarrow> State_Monad.return (False, Some err)
                | Inr None \<Rightarrow> drop_message E m
                | Inr (Some job) \<Rightarrow> do {
                    h \<leftarrow> processClaimedJob E workerID limits job;
                    commitErr \<leftarrow> commit E m;
                    State_Monad.return (case snd h of Some err \<Rightarrow> (fst h, Some err) | None \<Rightarrow> (fst h, commitErr)) }) })) }"

definition scannerQueueEnabled :: "environment \<Rightarrow> bool" where
  "scannerQueueEnabled env =
     (if control_isProduction env then True
      else (let raw = trim_space (env ''KARAXYS_QUEUE_ENABLED'') in
        if raw = [] then False else (case parse_bool raw of None \<Rightarrow> False | Some enabled \<Rightarrow> enabled)))"

text \<open>One turn of the worker's loop: the queue first, then polling.\<close>

definition worker_turn ::
  "('c, 'r, 'x) worker_env \<Rightarrow> bool \<Rightarrow> string \<Rightarrow> control_config \<Rightarrow> ('c, 'r, 'x, handled) act" where
  "worker_turn E queued workerID limits =
     (if queued then do {
        h \<leftarrow> processQueuedScanJob E workerID limits;
        (if fst h then State_Monad.return h else processOne E workerID limits) }
      else processOne E workerID limits)"

end
