(* ===== verification/Scan_Job_Store.thy ===== *)
theory Scan_Job_Store
  imports Scan_Jobs
begin

text \<open>
  What the scan job queue promises, whatever the database answers. \<open>job_op\<close> lists the calls
  the API server and the workers make on the repository and \<open>run_ops\<close> runs a sequence of
  them. The locale \<open>job_store\<close> is the collection of jobs keyed by \<open>_id\<close>: inside it
  every operation is shown to refine the state machine \<open>job_step\<close>, and the invariants of the
  machine (a terminal job is frozen, a claim is exclusive, the fields agree with the status) carry
  over to the operations.
\<close>

datatype job_op =
    OpCreate int object_id scan_job
  | OpClaimNext int int string
  | OpClaimByID int int object_id string
  | OpComplete int object_id int
  | OpFail int object_id string
  | OpRequeue int object_id string int
  | OpTimeout int object_id string
  | OpCancel int object_id string

fun run_op :: "('c, object_id, scan_job) coll \<Rightarrow> 'c \<Rightarrow> job_op \<Rightarrow> 'c" where
  "run_op M c (OpCreate now fresh job) = fst (CreateScanJob M now fresh c job)"
| "run_op M c (OpClaimNext now now' w) = fst (ClaimNextScanJob M now now' c w)"
| "run_op M c (OpClaimByID now now' i w) = fst (ClaimScanJobByID M now now' c i w)"
| "run_op M c (OpComplete now i n) = fst (CompleteScanJob M now c i n)"
| "run_op M c (OpFail now i msg) = fst (FailScanJob M now c i msg)"
| "run_op M c (OpRequeue now i msg delay) = fst (RequeueScanJob M now c i msg delay)"
| "run_op M c (OpTimeout now i msg) = fst (TimeoutScanJob M now c i msg)"
| "run_op M c (OpCancel now i tenant) = fst (CancelScanJob M now c i tenant)"

definition run_ops :: "('c, object_id, scan_job) coll \<Rightarrow> 'c \<Rightarrow> job_op list \<Rightarrow> 'c" where
  "run_ops M c ops = foldl (run_op M) c ops"

text \<open>The events an operation may cause: only a requeue of a job returns it to the queue.\<close>

definition event_of :: "job_op \<Rightarrow> job_event \<Rightarrow> bool" where
  "event_of oper ev \<longleftrightarrow>
     (case ev of
        Requeued k msg delay now \<Rightarrow> (\<exists>d. oper = OpRequeue now k msg d)
      | Created j \<Rightarrow> (\<exists>now fresh job. oper = OpCreate now fresh job \<and> j = prepare_job now fresh job)
      | _ \<Rightarrow> True)"

subsection \<open>Invariants of the state machine\<close>

lemma job_step_terminal:
  "job_step m ev m' \<Longrightarrow> m k = Some j \<Longrightarrow> isTerminalScanStatus (job_Status j) \<Longrightarrow> m' k = Some j"
  by (induction rule: job_step.induct) (auto simp: isTerminalScanStatus_def status_neq)

lemma job_steps_terminal:
  "job_steps m evs m' \<Longrightarrow> m k = Some j \<Longrightarrow> isTerminalScanStatus (job_Status j) \<Longrightarrow> m' k = Some j"
  by (induction rule: job_steps.induct) (auto dest: job_step_terminal)

definition not_queued :: "job_table \<Rightarrow> object_id \<Rightarrow> bool" where
  "not_queued m k \<longleftrightarrow> (\<exists>j. m k = Some j \<and> job_Status j \<noteq> ScanJobStatusQueued)"

lemma job_step_not_queued:
  "job_step m ev m' \<Longrightarrow> not_queued m k \<Longrightarrow> (\<forall>msg delay now. ev \<noteq> Requeued k msg delay now) \<Longrightarrow> not_queued m' k"
  by (induction rule: job_step.induct) (auto simp: not_queued_def job_docs status_neq)

lemma job_steps_not_queued:
  "job_steps m evs m' \<Longrightarrow> not_queued m k \<Longrightarrow> (\<forall>msg delay now. Requeued k msg delay now \<notin> set evs) \<Longrightarrow>
    not_queued m' k"
  by (induction rule: job_steps.induct) (auto dest: job_step_not_queued)

text \<open>The fields of a job that its status determines.\<close>

definition job_wf :: "scan_job \<Rightarrow> bool" where
  "job_wf j \<longleftrightarrow>
     job_Status j \<in> {ScanJobStatusQueued, ScanJobStatusRunning, ScanJobStatusCompleted,
                     ScanJobStatusFailed, ScanJobStatusCancelled, ScanJobStatusTimedOut} \<and>
     job_UpdatedAt j \<noteq> None \<and> 0 \<le> job_Attempts j \<and>
     (job_Status j = ScanJobStatusQueued \<longrightarrow> job_CompletedAt j = None \<and> job_StartedAt j = None) \<and>
     (job_Status j = ScanJobStatusRunning \<longrightarrow>
        job_StartedAt j \<noteq> None \<and> job_CompletedAt j = None \<and> 0 < job_Attempts j) \<and>
     (isTerminalScanStatus (job_Status j) \<longrightarrow> job_CompletedAt j \<noteq> None) \<and>
     (job_Status j = ScanJobStatusCancelled \<longrightarrow> job_CancelledAt j = job_CompletedAt j)"

definition table_wf :: "job_table \<Rightarrow> bool" where
  "table_wf m \<longleftrightarrow> (\<forall>k j. m k = Some j \<longrightarrow> job_ID j = k \<and> job_wf j)"

lemma job_wf_docs:
  assumes "job_wf j"
  shows "job_Status j = ScanJobStatusQueued \<Longrightarrow> job_wf (claim_doc w now j)"
    and "job_Status j = ScanJobStatusRunning \<Longrightarrow>
      job_wf (j\<lparr>job_TimeoutSeconds := t, job_DeadlineAt := d, job_UpdatedAt := Some now\<rparr>)"
    and "job_wf (complete_doc now n j)" "job_wf (fail_doc now msg j)"
    and "job_Status j = ScanJobStatusRunning \<Longrightarrow> job_wf (requeue_doc now msg delay j)"
    and "job_wf (timeout_doc now msg j)" "job_wf (cancel_doc now j)"
  using assms by (auto simp: job_wf_def job_docs status_neq isTerminalScanStatus_def)

lemma job_step_wf:
  assumes "job_step m ev m'" "table_wf m" "\<And>j. ev = Created j \<Longrightarrow> job_wf j"
  shows "table_wf m'"
  using assms by (cases rule: job_step.cases) (auto simp: table_wf_def job_wf_docs)

lemma job_steps_wf:
  "job_steps m evs m' \<Longrightarrow> table_wf m \<Longrightarrow> (\<And>j. Created j \<in> set evs \<Longrightarrow> job_wf j) \<Longrightarrow> table_wf m'"
  by (induction rule: job_steps.induct) (auto intro: job_step_wf)

subsection \<open>The operations refine the state machine\<close>

definition refined :: "job_table \<Rightarrow> job_op \<Rightarrow> job_table \<Rightarrow> bool" where
  "refined m oper m' \<longleftrightarrow> (\<exists>evs. job_steps m evs m' \<and> (\<forall>ev \<in> set evs. event_of oper ev))"

lemma refined_same: "m' = m \<Longrightarrow> refined m oper m'"
  unfolding refined_def by (rule exI [of _ "[]"]) simp

lemma refined_one: "job_step m ev m' \<Longrightarrow> event_of oper ev \<Longrightarrow> refined m oper m'"
  unfolding refined_def by (rule exI [of _ "[ev]"]) (simp add: job_steps_one)

lemma refined_trans: "refined m oper m1 \<Longrightarrow> refined m1 oper m2 \<Longrightarrow> refined m oper m2"
  unfolding refined_def by (metis job_steps_append Un_iff set_append)

text \<open>An update that is a machine step on every job its filter selects.\<close>

definition update_steps :: "job_op \<Rightarrow> (scan_job \<Rightarrow> bool) \<Rightarrow> (scan_job \<Rightarrow> scan_job) \<Rightarrow> bool" where
  "update_steps oper f u \<longleftrightarrow> (\<forall>j. job_ID (u j) = job_ID j) \<and>
     (\<forall>m k j. m k = Some j \<longrightarrow> job_ID j = k \<longrightarrow> f j \<longrightarrow>
        (\<exists>ev. job_step m ev (m(k \<mapsto> u j)) \<and> event_of oper ev))"

lemma update_stepsI:
  assumes "\<And>j. job_ID (u j) = job_ID j"
    and "\<And>m k j. m k = Some j \<Longrightarrow> job_ID j = k \<Longrightarrow> f j \<Longrightarrow>
      job_step m (ev k j) (m(k \<mapsto> u j)) \<and> event_of oper (ev k j)"
  shows "update_steps oper f u"
  using assms unfolding update_steps_def by blast

lemma claim_steps:
  assumes "\<And>j. flt j \<Longrightarrow> job_Status j = ScanJobStatusQueued"
  shows "update_steps oper flt (claim_doc w now)"
  by (rule update_stepsI [where ev = "\<lambda>k _. Claimed k w now"])
    (use assms in \<open>auto simp: event_of_def intro: job_step.claim\<close>)

lemma deadline_steps: "update_steps oper (running_filter i) (deadline_doc d now)"
  by (rule update_stepsI [where ev = "\<lambda>k _. DeadlineSet k (job_TimeoutSeconds d) (job_DeadlineAt d) now"])
    (auto simp: event_of_def running_filter_def deadline_doc_def intro: job_step.deadline)

lemma complete_steps: "update_steps oper (running_filter i) (complete_doc now n)"
  by (rule update_stepsI [where ev = "\<lambda>k _. Completed k n now"])
    (auto simp: event_of_def running_filter_def intro: job_step.complete)

lemma fail_steps: "update_steps oper (open_filter i) (fail_doc now msg)"
  by (rule update_stepsI [where ev = "\<lambda>k _. Failed k msg now"])
    (auto simp: event_of_def open_filter_def intro: job_step.fail)

lemma requeue_steps:
  "0 \<le> delay \<Longrightarrow> update_steps (OpRequeue now i msg d) (running_filter i) (requeue_doc now msg delay)"
  by (rule update_stepsI [where ev = "\<lambda>k _. Requeued k msg delay now"])
    (auto simp: event_of_def running_filter_def intro: job_step.requeue)

lemma timeout_steps: "update_steps oper (running_filter i) (timeout_doc now msg)"
  by (rule update_stepsI [where ev = "\<lambda>k _. TimedOut k msg now"])
    (auto simp: event_of_def running_filter_def intro: job_step.timeout)

lemma cancel_steps: "update_steps oper (cancel_filter i tenant) (cancel_doc now)"
  by (rule update_stepsI [where ev = "\<lambda>k _. Cancelled k now"])
    (auto simp: event_of_def cancel_filter_def open_filter_def intro: job_step.cancel)

lemma claimScanJob_fst:
  "fst (claimScanJob M now w flt c) =
     (case coll_find_modify M c flt (\<lambda>j. time_key (job_CreatedAt j)) (claim_doc w now) of
        (c1, Inr (Some j)) \<Rightarrow> fst (coll_update M c1 (running_filter (job_ID j)) (deadline_doc (with_deadline now j) now))
      | (c1, _) \<Rightarrow> c1)"
  by (simp add: claimScanJob_def Let_def split: prod.split sum.split option.split)

lemma seconds_fit: "0 < t \<Longrightarrow> t \<le> 9223372036 \<Longrightarrow> wrap64 (t * second) = t * second"
  by (simp add: wrap64_def second_def)

locale job_store = doc_store M for M :: "('c, object_id, scan_job) coll" +
  assumes key_ID: "coll_key M = job_ID"
begin

lemma updated_refined:
  assumes "coll_ok M c" "update_steps oper f u"
    and "m' = coll_docs M c \<or> (\<exists>k d. updated_at (coll_docs M c) f u k d m')"
  shows "refined (coll_docs M c) oper m'"
  using assms(3)
proof (elim disjE exE)
  fix k d
  assume u: "updated_at (coll_docs M c) f u k d m'"
  moreover from u have "job_ID d = k" using key [OF assms(1)] by (simp add: updated_at_def key_ID)
  ultimately obtain ev where "job_step (coll_docs M c) ev m'" "event_of oper ev"
    using assms(2) unfolding update_steps_def updated_at_def by blast
  then show ?thesis by (rule refined_one)
qed (rule refined_same)

lemma keeps_key: "update_steps oper f u \<Longrightarrow> coll_key M (u d) = coll_key M d"
  by (simp add: update_steps_def key_ID)

lemma update_refined:
  assumes "coll_ok M c" "update_steps oper f u" "coll_update M c f u = (c', r)"
  shows "coll_ok M c' \<and> refined (coll_docs M c) oper (coll_docs M c')"
  using updated_refined [OF assms(1,2) update_cases [OF assms(1) keeps_key [OF assms(2)] assms(3)]]
    update_ok [OF assms(1) keeps_key [OF assms(2)] assms(3)] by simp

lemma find_update_refined:
  assumes "coll_ok M c" "update_steps oper f u" "coll_find_modify M c f srt u = (c', r)"
  shows "coll_ok M c' \<and> refined (coll_docs M c) oper (coll_docs M c')"
  using updated_refined [OF assms(1,2) find_update_cases [OF assms(1) keeps_key [OF assms(2)] assms(3)]]
    find_update_ok [OF assms(1) keeps_key [OF assms(2)] assms(3)] by simp

lemma update_result_refined:
  assumes "coll_ok M c" "update_steps oper f u"
  shows "coll_ok M (fst (update_result (coll_update M c f u))) \<and>
    refined (coll_docs M c) oper (coll_docs M (fst (update_result (coll_update M c f u))))"
  using update_refined [OF assms prod.collapse [symmetric]]
  by (auto simp: update_result_def split: prod.splits sum.splits)

lemma CreateScanJob_refines:
  assumes "coll_ok M c"
  shows "coll_ok M (fst (CreateScanJob M now fresh c job)) \<and>
    refined (coll_docs M c) (OpCreate now fresh job) (coll_docs M (fst (CreateScanJob M now fresh c job)))"
proof -
  let ?j = "prepare_job now fresh job"
  obtain c' err where i: "coll_insert M c ?j = (c', err)" by fastforce
  have "refined (coll_docs M c) (OpCreate now fresh job) (coll_docs M c')"
    using insert_cases [OF assms i]
  proof (elim disjE conjE)
    assume "coll_docs M c (coll_key M ?j) = None" and eq: "coll_docs M c' = (coll_docs M c)(coll_key M ?j \<mapsto> ?j)"
    then have "job_step (coll_docs M c) (Created ?j) (coll_docs M c')"
      by (simp add: key_ID job_step.create)
    then show ?thesis by (rule refined_one) (auto simp: event_of_def)
  qed (rule refined_same)
  with insert_ok [OF assms i] i show ?thesis by (simp add: CreateScanJob_def)
qed

text \<open>The two claims share \<open>claimScanJob\<close>: the claim and a second update for the deadline.\<close>

lemma claimScanJob_refines:
  assumes "coll_ok M c" "\<And>j. flt j \<Longrightarrow> job_Status j = ScanJobStatusQueued"
  shows "coll_ok M (fst (claimScanJob M now w flt c)) \<and>
    refined (coll_docs M c) oper (coll_docs M (fst (claimScanJob M now w flt c)))"
proof -
  obtain c1 r where fm: "coll_find_modify M c flt (\<lambda>j. time_key (job_CreatedAt j)) (claim_doc w now) = (c1, r)"
    by fastforce
  from find_update_refined [OF assms(1) claim_steps [OF assms(2)] fm]
  have 1: "coll_ok M c1" "refined (coll_docs M c) oper (coll_docs M c1)" by auto
  have 2: "fst (claimScanJob M now w flt c) = c1 \<or>
    (\<exists>i d. fst (claimScanJob M now w flt c) = fst (coll_update M c1 (running_filter i) (deadline_doc d now)))"
    unfolding claimScanJob_fst fm by (auto split: sum.split option.split)
  then show ?thesis
    using 1 update_refined [OF 1(1) deadline_steps prod.collapse [symmetric]] refined_trans [OF 1(2)]
    by auto
qed

lemma CancelScanJob_fst:
  "fst (CancelScanJob M now c i tenant) =
     fst (coll_find_modify M c (cancel_filter i tenant) (\<lambda>_. 0) (cancel_doc now))"
  by (auto simp: CancelScanJob_def split: prod.splits sum.splits option.splits)

lemma run_op_refines:
  assumes "coll_ok M c"
  shows "coll_ok M (run_op M c oper) \<and> refined (coll_docs M c) oper (coll_docs M (run_op M c oper))"
proof (cases oper)
  case (OpCreate now fresh job)
  then show ?thesis using CreateScanJob_refines [OF assms] by simp
next
  case (OpClaimNext now now' w)
  then show ?thesis
    using claimScanJob_refines [OF assms, of "next_filter now"] by (simp add: ClaimNextScanJob_def next_filter_def)
next
  case (OpClaimByID now now' i w)
  then show ?thesis using claimScanJob_refines [OF assms, of "by_id_filter now i"]
    by (simp add: ClaimScanJobByID_def by_id_filter_def next_filter_def)
next
  case (OpCancel now i tenant)
  then show ?thesis
    using find_update_refined [OF assms cancel_steps prod.collapse [symmetric]] by (simp add: CancelScanJob_fst)
next
  case (OpRequeue now i msg delay)
  then show ?thesis
    using update_result_refined [OF assms requeue_steps [of "if delay < 0 then 0 else delay"]]
    by (simp add: RequeueScanJob_def Let_def)
qed (simp_all add: CompleteScanJob_def FailScanJob_def TimeoutScanJob_def
       update_result_refined [OF assms] complete_steps fail_steps timeout_steps)

lemma run_ops_refines:
  assumes "coll_ok M c"
  shows "coll_ok M (run_ops M c ops) \<and>
    (\<exists>evs. job_steps (coll_docs M c) evs (coll_docs M (run_ops M c ops)) \<and>
       (\<forall>ev \<in> set evs. \<exists>oper \<in> set ops. event_of oper ev))"
proof (induction ops rule: rev_induct)
  case Nil
  then show ?case using assms by (auto simp: run_ops_def intro: exI [of _ "[]"])
next
  case (snoc oper ops)
  let ?c1 = "run_ops M c ops"
  obtain evs where 1: "coll_ok M ?c1" "job_steps (coll_docs M c) evs (coll_docs M ?c1)"
    "\<forall>ev \<in> set evs. \<exists>oper \<in> set ops. event_of oper ev" using snoc by blast
  moreover obtain evs' where "job_steps (coll_docs M ?c1) evs' (coll_docs M (run_op M ?c1 oper))"
    "\<forall>ev \<in> set evs'. event_of oper ev" "coll_ok M (run_op M ?c1 oper)"
    using run_op_refines [OF 1(1)] unfolding refined_def by blast
  ultimately show ?case
    by (auto simp: run_ops_def intro!: exI [of _ "evs @ evs'"] intro: job_steps_append)
qed

lemma run_ops_terminal:
  assumes "coll_ok M c" "coll_docs M c k = Some j" "isTerminalScanStatus (job_Status j)"
  shows "coll_docs M (run_ops M c ops) k = Some j"
  using run_ops_refines [OF assms(1), of ops] job_steps_terminal assms(2,3) by blast

lemma run_ops_not_queued:
  assumes "coll_ok M c" "not_queued (coll_docs M c) k"
    and "\<And>now msg delay. OpRequeue now k msg delay \<notin> set ops"
  shows "not_queued (coll_docs M (run_ops M c ops)) k"
proof -
  obtain evs where evs: "job_steps (coll_docs M c) evs (coll_docs M (run_ops M c ops))"
    "\<forall>ev \<in> set evs. \<exists>oper \<in> set ops. event_of oper ev"
    using run_ops_refines [OF assms(1), of ops] by blast
  have "Requeued k msg delay now \<notin> set evs" for msg delay now
    using evs(2) assms(3) by (fastforce simp: event_of_def)
  with job_steps_not_queued [OF evs(1) assms(2)] show ?thesis by blast
qed

lemma run_ops_wf:
  assumes "coll_ok M c" "table_wf (coll_docs M c)"
    and "\<And>now fresh job. OpCreate now fresh job \<in> set ops \<Longrightarrow> job_wf (prepare_job now fresh job)"
  shows "table_wf (coll_docs M (run_ops M c ops))"
proof -
  obtain evs where evs: "job_steps (coll_docs M c) evs (coll_docs M (run_ops M c ops))"
    "\<forall>ev \<in> set evs. \<exists>oper \<in> set ops. event_of oper ev"
    using run_ops_refines [OF assms(1), of ops] by blast
  have "job_wf j" if "Created j \<in> set evs" for j
    using evs(2) assms(3) that by (fastforce simp: event_of_def)
  with job_steps_wf [OF evs(1) assms(2)] show ?thesis by blast
qed

subsection \<open>What a claim returns\<close>

lemma claimScanJob_some:
  assumes ok: "coll_ok M c" and res: "claimScanJob M now w flt c = (c', Inr (Some job))"
  shows "\<exists>j. coll_docs M c (job_ID job) = Some j \<and> flt j \<and> job = with_deadline now (claim_doc w now j) \<and>
    (\<forall>k2 j2. coll_docs M c k2 = Some j2 \<longrightarrow> flt j2 \<longrightarrow>
       time_key (job_CreatedAt j) \<le> time_key (job_CreatedAt j2)) \<and>
    coll_docs M c' = (coll_docs M c)(job_ID job \<mapsto> job)"
proof -
  obtain c1 d n where fm: "coll_find_modify M c flt (\<lambda>j. time_key (job_CreatedAt j)) (claim_doc w now) = (c1, Inr (Some d))"
    and up: "coll_update M c1 (running_filter (job_ID d)) (deadline_doc (with_deadline now d) now) = (c', Inr n)"
    and job: "job = with_deadline now d"
    using res by (auto simp: claimScanJob_def Let_def split: prod.splits sum.splits option.splits)
  have k1: "\<And>d. coll_key M (claim_doc w now d) = coll_key M d"
    and k2: "\<And>e. coll_key M (deadline_doc (with_deadline now d) now e) = coll_key M e"
    by (simp_all add: key_ID)
  from find_update_some [OF ok k1 fm] obtain k j where
    j: "coll_docs M c k = Some j" "flt j" "coll_docs M c1 = (coll_docs M c)(k \<mapsto> d)" "d = claim_doc w now j"
    and least: "\<forall>k2 j2. coll_docs M c k2 = Some j2 \<longrightarrow> flt j2 \<longrightarrow>
      time_key (job_CreatedAt j) \<le> time_key (job_CreatedAt j2)"
    by (auto simp: updated_at_def)
  from key [OF ok j(1)] have kj: "job_ID j = k" by (simp add: key_ID)
  note ok1 = find_update_ok [OF ok k1 fm]
  have run: "running_filter (job_ID d) d" by (simp add: running_filter_def j(4) claim_doc_def)
  from update_done [OF ok1 k2 up] run j(3) obtain k' e where
    e: "coll_docs M c1 k' = Some e" "running_filter (job_ID d) e"
      "coll_docs M c' = (coll_docs M c1)(k' \<mapsto> deadline_doc (with_deadline now d) now e)"
    by (auto simp: updated_at_def dest: spec [of _ k])
  from key [OF ok1 e(1)] e(2) have "k' = k" by (simp add: key_ID running_filter_def j(4) kj)
  with e j(3) have "e = d" by simp
  moreover have "deadline_doc (with_deadline now d) now d = with_deadline now d"
    by (simp add: deadline_doc_def with_deadline_def Let_def j(4) claim_doc_def)
  ultimately have "coll_docs M c' = (coll_docs M c)(k \<mapsto> job)"
    using e(3) j(3) \<open>k' = k\<close> job by simp
  with j least kj job show ?thesis by simp
qed

lemma claimScanJob_none:
  assumes "coll_ok M c" "claimScanJob M now w flt c = (c', Inr None)"
  shows "coll_docs M c' = coll_docs M c \<and> (\<forall>k j. coll_docs M c k = Some j \<longrightarrow> \<not> flt j)"
proof -
  have "coll_find_modify M c flt (\<lambda>j. time_key (job_CreatedAt j)) (claim_doc w now) = (c', Inr None)"
    using assms(2) by (auto simp: claimScanJob_def Let_def split: prod.splits sum.splits option.splits)
  from find_update_none [OF assms(1) _ this] show ?thesis by (simp add: key_ID)
qed

lemma claimed_not_queued:
  assumes "coll_ok M c" "claimScanJob M now w flt c = (c', Inr (Some job))"
  shows "not_queued (coll_docs M c') (job_ID job)"
  using claimScanJob_some [OF assms]
  by (auto simp: not_queued_def with_deadline_def claim_doc_def Let_def status_neq)

lemma claimed_was_queued:
  assumes "coll_ok M c" "claimScanJob M now w flt c = (c', Inr (Some job))"
    and "\<And>j. flt j \<Longrightarrow> job_Status j = ScanJobStatusQueued"
  shows "\<not> not_queued (coll_docs M c) (job_ID job)"
  using claimScanJob_some [OF assms(1,2)] assms(3) by (auto simp: not_queued_def)

subsection \<open>Cancellation\<close>

lemma CancelScanJob_foreign:
  assumes "coll_ok M c" "coll_docs M c k = Some j" "trim_space tenant \<noteq> []" "job_TenantID j \<noteq> tenant"
    and "CancelScanJob M now c k tenant = (c', r)"
  shows "coll_docs M c' = coll_docs M c \<and> (\<exists>e. r = Inl NoDocuments \<or> r = Inl (StoreError e))"
proof -
  obtain c1 x where fm: "coll_find_modify M c (cancel_filter k tenant) (\<lambda>_. 0) (cancel_doc now) = (c1, x)"
    by fastforce
  have no: "\<not> cancel_filter k tenant d" if "coll_docs M c k' = Some d" for k' d
    using key [OF assms(1) that] assms(2-4) that by (auto simp: cancel_filter_def open_filter_def key_ID)
  have kk: "\<And>d. coll_key M (cancel_doc now d) = coll_key M d" by (simp add: key_ID)
  from find_update_cases [OF assms(1) kk fm] no have same: "coll_docs M c1 = coll_docs M c"
    by (auto simp: updated_at_def)
  have ok1: "coll_ok M c1" by (rule find_update_ok [OF assms(1) kk fm])
  have "x \<noteq> Inr (Some d)" for d
    using find_update_some [OF assms(1) kk] fm no by (fastforce simp: updated_at_def)
  then consider e where "x = Inl e" | "x = Inr None" by (metis sum.exhaust not_None_eq)
  then show ?thesis
  proof cases
    case 1
    with fm same assms(5) show ?thesis by (auto simp: CancelScanJob_def)
  next
    case 2
    have got: "d = j" if "GetScanJob M c1 k = Inr d" for d
    proof -
      have "coll_find M c1 (\<lambda>j. job_ID j = k) = Inr (Some d)"
        using that by (simp add: GetScanJob_def split: sum.splits option.splits)
      from find_some [OF ok1 this] obtain k' where "job_ID d = k" "coll_docs M c1 k' = Some d" by blast
      with key [OF ok1 this(2)] same assms(2) show ?thesis by (simp add: key_ID)
    qed
    show ?thesis
      using 2 fm same assms(3-5) got
      by (cases "GetScanJob M c1 k") (auto simp: CancelScanJob_def)
  qed
qed

lemma CancelScanJob_own:
  assumes "coll_ok M c" "CancelScanJob M now c k tenant = (c', Inr job)"
  shows "\<exists>j. coll_docs M c k = Some j \<and> cancel_filter k tenant j \<and> job = cancel_doc now j \<and>
    coll_docs M c' = (coll_docs M c)(k \<mapsto> job)"
proof -
  have kk: "\<And>d. coll_key M (cancel_doc now d) = coll_key M d" by (simp add: key_ID)
  have "coll_find_modify M c (cancel_filter k tenant) (\<lambda>_. 0) (cancel_doc now) = (c', Inr (Some job))"
    using assms(2) by (auto simp: CancelScanJob_def split: prod.splits sum.splits option.splits if_splits)
  from find_update_some [OF assms(1) kk this] key [OF assms(1)] show ?thesis
    by (fastforce simp: updated_at_def cancel_filter_def open_filter_def key_ID)
qed

end

lemma mem_job_store: "job_store (mem_coll job_ID)"
  by (rule job_store.intro [OF mem_coll_store]) (simp add: job_store_axioms_def mem_coll_def)

interpretation mem_jobs: job_store "mem_coll job_ID"
  by (rule mem_job_store)

subsection \<open>Properties\<close>

definition claims_job :: "('c, object_id, scan_job) coll \<Rightarrow> 'c \<Rightarrow> scan_job \<Rightarrow> 'c \<Rightarrow> bool" where
  "claims_job M c job c' \<longleftrightarrow>
     (\<exists>now now' w. ClaimNextScanJob M now now' c w = (c', Inr (Some job))) \<or>
     (\<exists>now now' i w. ClaimScanJobByID M now now' c i w = (c', Inr (Some job)))"

lemma claims_jobE:
  assumes "claims_job M c job c'"
  obtains now w flt where "claimScanJob M now w flt c = (c', Inr (Some job))"
    "\<And>j. flt j \<Longrightarrow> job_Status j = ScanJobStatusQueued"
  using assms unfolding claims_job_def ClaimNextScanJob_def ClaimScanJobByID_def
  by (metis by_id_filter_def next_filter_def)

lemma claims_exclusive_aux:
  assumes "job_store M" "coll_ok M c" "claims_job M c job c1"
    and "\<And>now msg delay. OpRequeue now (job_ID job) msg delay \<notin> set ops"
    and "claims_job M (run_ops M c1 ops) job2 c2"
  shows "job_ID job2 \<noteq> job_ID job"
proof -
  obtain now w flt where cl: "claimScanJob M now w flt c = (c1, Inr (Some job))"
    using assms(3) by (rule claims_jobE)
  have ok1: "coll_ok M c1"
    using job_store.run_op_refines [OF assms(1,2)] assms(3) unfolding claims_job_def
    by (metis fst_conv run_op.simps(2,3))
  have ok2: "coll_ok M (run_ops M c1 ops)"
    using job_store.run_ops_refines [OF assms(1) ok1] by blast
  have "not_queued (coll_docs M (run_ops M c1 ops)) (job_ID job)"
    using job_store.run_ops_not_queued [OF assms(1) ok1 job_store.claimed_not_queued [OF assms(1,2) cl]]
      assms(4) by blast
  moreover obtain now2 w2 flt2 where "claimScanJob M now2 w2 flt2 (run_ops M c1 ops) = (c2, Inr (Some job2))"
    "\<And>j. flt2 j \<Longrightarrow> job_Status j = ScanJobStatusQueued"
    using assms(5) by (rule claims_jobE) blast
  ultimately show ?thesis
    using job_store.claimed_was_queued [OF assms(1) ok2] by metis
qed

definition sample_job :: "object_id \<Rightarrow> string \<Rightarrow> string \<Rightarrow> scan_job" where
  "sample_job i tenant status =
     zero_scan_job\<lparr>job_ID := i, job_TenantID := tenant, job_Status := status, job_UpdatedAt := Some 0\<rparr>"

text \<open>
  Property C15. Once a job is completed, failed, cancelled or timed out it is never changed again: no
  sequence of calls on the repository, with any arguments and any answers of the database, alters a
  field of it.
\<close>

theorem terminal_job_is_frozen:
  assumes "job_store M" "coll_ok M c" "coll_docs M c k = Some j" "isTerminalScanStatus (job_Status j)"
  shows "coll_docs M (run_ops M c ops) k = Some j"
  by (rule job_store.run_ops_terminal [OF assms])

theorem terminal_job_is_frozen_witness:
  "coll_docs (mem_coll job_ID)
     (run_ops (mem_coll job_ID) [sample_job 7 ''t'' ScanJobStatusCompleted] [OpFail 5 7 ''late'', OpCancel 6 7 ''t'']) 7
   = Some (sample_job 7 ''t'' ScanJobStatusCompleted)"
  by (rule terminal_job_is_frozen [OF mem_job_store])
    (simp_all add: mem_coll_def mem_docs_def sample_job_def zero_scan_job_def isTerminalScanStatus_def)

text \<open>
  Property C16. A claim is exclusive: after a worker has claimed a job, no call of either claim
  returns the same job again, until that very job is put back by \<open>RequeueScanJob\<close>; whatever
  other calls come in between.
\<close>

theorem claim_is_exclusive:
  assumes "job_store M" "coll_ok M c" "claims_job M c job c1"
    and "\<And>now msg delay. OpRequeue now (job_ID job) msg delay \<notin> set ops"
    and "claims_job M (run_ops M c1 ops) job2 c2"
  shows "job_ID job2 \<noteq> job_ID job"
  by (rule claims_exclusive_aux [OF assms])

theorem claim_is_exclusive_witness:
  "\<exists>c1 a c2 b. ClaimNextScanJob (mem_coll job_ID) 10 11
       [sample_job 1 ''t'' ScanJobStatusQueued, sample_job 2 ''t'' ScanJobStatusQueued] ''w1'' = (c1, Inr (Some a)) \<and>
     ClaimNextScanJob (mem_coll job_ID) 12 13 c1 ''w2'' = (c2, Inr (Some b)) \<and> job_ID b \<noteq> job_ID a"
proof -
  let ?M = "mem_coll job_ID"
  let ?c = "[sample_job 1 ''t'' ScanJobStatusQueued, sample_job 2 ''t'' ScanJobStatusQueued]"
  let ?r1 = "ClaimNextScanJob ?M 10 11 ?c ''w1''"
  let ?r2 = "ClaimNextScanJob ?M 12 13 (fst ?r1) ''w2''"
  note defs = ClaimNextScanJob_def claimScanJob_def mem_coll_def sample_job_def zero_scan_job_def
    next_filter_def due_def status_neq time_key_def claim_doc_def with_deadline_def running_filter_def
    deadline_doc_def Let_def
  obtain a where a: "?r1 = (fst ?r1, Inr (Some a))" by (simp add: defs)
  obtain b where b: "?r2 = (fst ?r2, Inr (Some b))" by (simp add: defs)
  have 1: "claims_job ?M ?c a (fst ?r1)" using a unfolding claims_job_def by blast
  have 2: "claims_job ?M (run_ops ?M (fst ?r1) []) b (fst ?r2)"
    using b unfolding claims_job_def run_ops_def by auto
  have 3: "coll_ok ?M ?c" by (simp add: defs)
  have "job_ID b \<noteq> job_ID a" by (rule claim_is_exclusive [OF mem_job_store 3 1 _ 2]) simp
  with a b show ?thesis by blast
qed

text \<open>
  Property C21. A worker is given the oldest eligible job: when \<open>ClaimNextScanJob\<close> returns a
  job, that job was queued and due, no due queued job is older, the stored and the returned job are
  equal, running for this worker with one attempt more and a deadline of its (defaulted) timeout
  after the claim, the product of seconds and nanoseconds wrapped to 64 bits as the code computes it
  (so exact for every timeout up to 9223372036 seconds, and in particular for the hour the API
  allows), and no other job has changed; when it returns none, nothing was eligible.
\<close>

theorem ClaimNextScanJob_oldest:
  assumes "job_store M" "coll_ok M c" "ClaimNextScanJob M now now' c w = (c', Inr r)"
  shows "case r of
      None \<Rightarrow> coll_docs M c' = coll_docs M c \<and>
        (\<forall>k j. coll_docs M c k = Some j \<longrightarrow> \<not> (job_Status j = ScanJobStatusQueued \<and> due now (job_NotBeforeAt j)))
    | Some job \<Rightarrow> (\<exists>j. coll_docs M c (job_ID job) = Some j \<and>
        job_Status j = ScanJobStatusQueued \<and> due now (job_NotBeforeAt j) \<and>
        (\<forall>k2 j2. coll_docs M c k2 = Some j2 \<longrightarrow> job_Status j2 = ScanJobStatusQueued \<longrightarrow>
           due now (job_NotBeforeAt j2) \<longrightarrow> time_key (job_CreatedAt j) \<le> time_key (job_CreatedAt j2)) \<and>
        job_Status job = ScanJobStatusRunning \<and> job_WorkerID job = w \<and>
        job_Attempts job = job_Attempts j + 1 \<and> 0 < job_TimeoutSeconds job \<and>
        job_DeadlineAt job = Some (now' + wrap64 (job_TimeoutSeconds job * second)) \<and>
        (job_TimeoutSeconds job \<le> 9223372036 \<longrightarrow>
           job_DeadlineAt job = Some (now' + job_TimeoutSeconds job * second))) \<and>
        coll_docs M c' = (coll_docs M c)(job_ID job \<mapsto> job)"
proof (cases r)
  case None
  then show ?thesis
    using job_store.claimScanJob_none [OF assms(1,2)] assms(3)
    by (fastforce simp: ClaimNextScanJob_def next_filter_def)
next
  case (Some job)
  from job_store.claimScanJob_some [OF assms(1,2)] assms(3) Some
  obtain j where j: "coll_docs M c (job_ID job) = Some j" "next_filter now j"
    "job = with_deadline now' (claim_doc w now' j)" "coll_docs M c' = (coll_docs M c)(job_ID job \<mapsto> job)"
    "\<forall>k2 j2. coll_docs M c k2 = Some j2 \<longrightarrow> next_filter now j2 \<longrightarrow>
       time_key (job_CreatedAt j) \<le> time_key (job_CreatedAt j2)"
    unfolding ClaimNextScanJob_def by blast
  have "job_Status job = ScanJobStatusRunning \<and> job_WorkerID job = w \<and>
      job_Attempts job = job_Attempts j + 1 \<and> 0 < job_TimeoutSeconds job \<and>
      job_DeadlineAt job = Some (now' + wrap64 (job_TimeoutSeconds job * second))"
    by (subst (1 2 3 4 5 6) j(3)) (simp add: with_deadline_def claim_doc_def Let_def DefaultScanTimeoutSeconds_def)
  moreover from this have "job_TimeoutSeconds job \<le> 9223372036 \<Longrightarrow>
      wrap64 (job_TimeoutSeconds job * second) = job_TimeoutSeconds job * second"
    by (intro seconds_fit) simp_all
  ultimately show ?thesis using j Some by (simp add: next_filter_def)
qed

theorem ClaimNextScanJob_oldest_witness:
  "case snd (ClaimNextScanJob (mem_coll job_ID) 10 11
        [(sample_job 1 ''t'' ScanJobStatusQueued)\<lparr>job_CreatedAt := Some 5\<rparr>,
         (sample_job 2 ''t'' ScanJobStatusQueued)\<lparr>job_CreatedAt := Some 3\<rparr>] ''w'') of
     Inr (Some job) \<Rightarrow> job_ID job = 2 \<and> job_Status job = ScanJobStatusRunning \<and>
       job_DeadlineAt job = Some (11 + DefaultScanTimeoutSeconds * second)
   | _ \<Rightarrow> False"
proof -
  let ?c = "[(sample_job 1 ''t'' ScanJobStatusQueued)\<lparr>job_CreatedAt := Some 5\<rparr>,
    (sample_job 2 ''t'' ScanJobStatusQueued)\<lparr>job_CreatedAt := Some 3\<rparr>]"
  note defs = ClaimNextScanJob_def claimScanJob_def mem_coll_def sample_job_def zero_scan_job_def
    next_filter_def due_def status_neq time_key_def claim_doc_def with_deadline_def running_filter_def
    deadline_doc_def Let_def
  obtain c' a where a: "ClaimNextScanJob (mem_coll job_ID) 10 11 ?c ''w'' = (c', Inr (Some a))"
    and t: "job_TimeoutSeconds a = DefaultScanTimeoutSeconds" "job_ID a = 2"
    by (simp add: defs)
  have "coll_ok (mem_coll job_ID) ?c" by (simp add: defs)
  from ClaimNextScanJob_oldest [OF mem_job_store this a] a t show ?thesis
    by (auto simp: DefaultScanTimeoutSeconds_def)
qed

definition fresh_job :: "scan_job \<Rightarrow> bool" where
  "fresh_job j \<longleftrightarrow> job_Status j \<in> {[], ScanJobStatusQueued} \<and> job_StartedAt j = None \<and>
     job_CompletedAt j = None \<and> 0 \<le> job_Attempts j"

lemma prepare_job_wf: "fresh_job j \<Longrightarrow> job_wf (prepare_job now fresh j)"
  by (auto simp: fresh_job_def job_wf_def prepare_job_def Let_def isTerminalScanStatus_def status_neq)

text \<open>
  The status of every stored job and its timestamps agree, and stay so: starting from a
  table where they do, any sequence of calls that creates jobs with a blank or queued status and no
  start, completion or attempts keeps \<open>job_wf\<close> (a queued job has not started, a running one
  has a start time and an attempt and no completion time, a terminal one has a completion time).
\<close>

theorem jobs_stay_well_formed:
  assumes "job_store M" "coll_ok M c" "table_wf (coll_docs M c)"
    and "\<And>now fresh job. OpCreate now fresh job \<in> set ops \<Longrightarrow> fresh_job job"
  shows "table_wf (coll_docs M (run_ops M c ops))"
  using job_store.run_ops_wf [OF assms(1-3)] assms(4) prepare_job_wf by blast

theorem jobs_stay_well_formed_witness:
  "table_wf (coll_docs (mem_coll job_ID)
     (run_ops (mem_coll job_ID) [] [OpCreate 1 7 zero_scan_job, OpClaimNext 2 3 ''w'', OpTimeout 4 7 ''slow'']))"
  by (rule jobs_stay_well_formed [OF mem_job_store])
    (auto simp: table_wf_def mem_coll_def mem_docs_def fresh_job_def zero_scan_job_def)

text \<open>
  Cancellation respects tenants: a call with a non-blank tenant other than the job's
  leaves every job as it was and reports the job as missing (or a database error); and a call that
  succeeds has moved exactly that job from queued or running to cancelled.
\<close>

theorem CancelScanJob_tenants:
  assumes "job_store M" "coll_ok M c" "coll_docs M c k = Some j"
    and "CancelScanJob M now c k tenant = (c', r)"
  shows "if trim_space tenant \<noteq> [] \<and> job_TenantID j \<noteq> tenant
     then coll_docs M c' = coll_docs M c \<and> (r = Inl NoDocuments \<or> (\<exists>e. r = Inl (StoreError e)))
     else (\<forall>job. r = Inr job \<longrightarrow> job_Status j \<in> {ScanJobStatusQueued, ScanJobStatusRunning} \<and>
            job_Status job = ScanJobStatusCancelled \<and> coll_docs M c' = (coll_docs M c)(k \<mapsto> job))"
proof (cases "trim_space tenant \<noteq> [] \<and> job_TenantID j \<noteq> tenant")
  case True
  with job_store.CancelScanJob_foreign [OF assms(1-3) _ _ assms(4)] show ?thesis by auto
next
  case False
  have "job_Status j \<in> {ScanJobStatusQueued, ScanJobStatusRunning} \<and>
      job_Status job = ScanJobStatusCancelled \<and> coll_docs M c' = (coll_docs M c)(k \<mapsto> job)"
    if "r = Inr job" for job
    using job_store.CancelScanJob_own [OF assms(1,2)] assms(3,4) that
    by (fastforce simp: cancel_filter_def open_filter_def cancel_doc_def)
  then show ?thesis unfolding if_not_P [OF False] by blast
qed

theorem CancelScanJob_tenants_witness:
  "fst (CancelScanJob (mem_coll job_ID) 5 [sample_job 7 ''a'' ScanJobStatusQueued] 7 ''b'')
     = [sample_job 7 ''a'' ScanJobStatusQueued] \<and>
   coll_docs (mem_coll job_ID) (fst (CancelScanJob (mem_coll job_ID) 5 [sample_job 7 ''a'' ScanJobStatusQueued] 7 ''b''))
     = coll_docs (mem_coll job_ID) [sample_job 7 ''a'' ScanJobStatusQueued]"
proof -
  let ?c = "[sample_job 7 ''a'' ScanJobStatusQueued]"
  note defs = mem_coll_def mem_docs_def sample_job_def zero_scan_job_def
  have t: "trim_space ''b'' \<noteq> []"
    by (simp add: trim_space_def trim_left_def trim_right_def is_space_def)
  have 1: "coll_ok (mem_coll job_ID) ?c" by (simp add: defs)
  have 2: "coll_docs (mem_coll job_ID) ?c 7 = Some (sample_job 7 ''a'' ScanJobStatusQueued)" by (simp add: defs)
  from CancelScanJob_tenants [OF mem_job_store 1 2 prod.collapse [symmetric], of "''b''" 5] t
  have "coll_docs (mem_coll job_ID) (fst (CancelScanJob (mem_coll job_ID) 5 ?c 7 ''b'')) = coll_docs (mem_coll job_ID) ?c"
    by (simp add: sample_job_def)
  moreover have "fst (CancelScanJob (mem_coll job_ID) 5 ?c 7 ''b'') = ?c"
    using t by (simp add: CancelScanJob_def defs cancel_filter_def open_filter_def GetScanJob_def)
  ultimately show ?thesis by simp
qed


text \<open>
  Property C39. The repository refines the state machine of scan jobs: whatever sequence of calls is
  made and whatever the database answers, the table moves by steps of the machine (create, claim, set
  the deadline, complete, fail, requeue, time out, cancel, each with its guard), and a job is created or
  requeued only by the call that does so.
\<close>

theorem scan_jobs_refine_machine:
  assumes "job_store M" "coll_ok M c"
  shows "\<exists>evs. job_steps (coll_docs M c) evs (coll_docs M (run_ops M c ops)) \<and>
    list_all (\<lambda>ev. list_ex (\<lambda>oper. event_of oper ev) ops) evs"
  using conjunct2 [OF job_store.run_ops_refines [OF assms, of ops]] by (simp add: list_all_iff list_ex_iff)

theorem scan_jobs_refine_machine_witness:
  "\<exists>evs. job_steps (coll_docs (mem_coll job_ID) [sample_job 7 ''a'' ScanJobStatusQueued]) evs
     (coll_docs (mem_coll job_ID) (run_ops (mem_coll job_ID) [sample_job 7 ''a'' ScanJobStatusQueued]
        [OpClaimNext 2 3 ''w'', OpRequeue 4 7 ''later'' 5, OpCancel 6 7 ''a''])) \<and>
     list_all (\<lambda>ev. list_ex (\<lambda>oper. event_of oper ev) [OpClaimNext 2 3 ''w'', OpRequeue 4 7 ''later'' 5, OpCancel 6 7 ''a'']) evs"
  by (rule scan_jobs_refine_machine [OF mem_job_store]) (simp add: mem_coll_def)

end
