(* ===== verification/Worker_Logic.thy ===== *)
theory Worker_Logic
  imports Scan_Worker Scan_Job_Store
begin

text \<open>
  Reasoning about the scanner worker: triples over the state monad with one rule per combinator,
  the two assertions the properties need (no lock or slot left behind, the run of the claimed job
  over), their stability under the other processes, and the proof of both for \<open>processClaimedJob\<close>.
\<close>

subsection \<open>Triples\<close>

definition triple :: "('s \<Rightarrow> bool) \<Rightarrow> ('s, 'a) state \<Rightarrow> ('a \<Rightarrow> 's \<Rightarrow> bool) \<Rightarrow> bool" where
  "triple P m Q \<longleftrightarrow> (\<forall>w. P w \<longrightarrow> Q (fst (run_state m w)) (snd (run_state m w)))"

abbreviation keeps :: "('s \<Rightarrow> bool) \<Rightarrow> ('s, 'a) state \<Rightarrow> bool" where
  "keeps J m \<equiv> triple J m (\<lambda>_. J)"

named_theorems triple_rules

lemma triple_return: "(\<And>w. P w \<Longrightarrow> Q a w) \<Longrightarrow> triple P (State_Monad.return a) Q"
  by (simp add: triple_def)

lemma triple_bind:
  "triple P m R \<Longrightarrow> (\<And>a. triple (R a) (f a) Q) \<Longrightarrow> triple P (State_Monad.bind m f) Q"
  by (fastforce simp: triple_def split: prod.splits)

lemma triple_weaken: "triple P m Q \<Longrightarrow> (\<And>w. P' w \<Longrightarrow> P w) \<Longrightarrow> (\<And>a w. Q a w \<Longrightarrow> Q' a w) \<Longrightarrow> triple P' m Q'"
  by (auto simp: triple_def)

lemma triple_False: "triple (\<lambda>_. False) m Q"
  by (simp add: triple_def)

lemma keeps_return [triple_rules]: "keeps J (State_Monad.return a)"
  by (simp add: triple_return)

lemma keeps_bind [triple_rules]: "keeps J m \<Longrightarrow> (\<And>a. keeps J (f a)) \<Longrightarrow> keeps J (State_Monad.bind m f)"
  by (rule triple_bind)

lemma keeps_if [triple_rules]: "(b \<Longrightarrow> keeps J m) \<Longrightarrow> (\<not> b \<Longrightarrow> keeps J n) \<Longrightarrow> keeps J (if b then m else n)"
  by simp

lemma keeps_option [triple_rules]:
  "keeps J m \<Longrightarrow> (\<And>a. keeps J (f a)) \<Longrightarrow> keeps J (case r of None \<Rightarrow> m | Some a \<Rightarrow> f a)"
  by (cases r) auto

lemma keeps_sum [triple_rules]:
  "(\<And>a. keeps J (f a)) \<Longrightarrow> (\<And>a. keeps J (g a)) \<Longrightarrow> keeps J (case r of Inl a \<Rightarrow> f a | Inr a \<Rightarrow> g a)"
  by (cases r) auto

lemma keeps_bool [triple_rules]: "keeps J m \<Longrightarrow> keeps J n \<Longrightarrow> keeps J (case b of True \<Rightarrow> m | False \<Rightarrow> n)"
  by (cases b) auto

lemma keeps_exec_error [triple_rules]:
  "(\<And>b msg. keeps J (f b msg)) \<Longrightarrow> keeps J (case e of ExecError b msg \<Rightarrow> f b msg)"
  by (cases e) auto

lemma keeps_new_id [triple_rules]: "keeps J (new_id E)"
  by (simp add: triple_def new_id_def)

subsection \<open>The two kinds of assertion\<close>

text \<open>An assertion on the job collection survives every call on Redis or on the other collections.\<close>

definition job_inv :: "('c \<Rightarrow> bool) \<Rightarrow> ('c, 'r, 'x) world \<Rightarrow> bool" where
  "job_inv J w \<longleftrightarrow> J (w_jobs w)"

lemma job_inv_clock: "(\<And>n c. J c \<Longrightarrow> J (we_other_jobs E n c)) \<Longrightarrow> keeps (job_inv J) (clock_now E)"
  by (simp add: triple_def clock_now_def job_inv_def)

lemma job_inv_redis [triple_rules]: "keeps (job_inv J) (on_redis f)"
  by (simp add: triple_def on_redis_def job_inv_def split: prod.split)

lemma job_inv_rest [triple_rules]: "keeps (job_inv J) (on_rest f)"
  by (simp add: triple_def on_rest_def job_inv_def split: prod.split)

lemma job_inv_jobs: "(\<And>c. J c \<Longrightarrow> Q (snd (f c)) (fst (f c))) \<Longrightarrow> triple (job_inv J) (on_jobs f) (\<lambda>a. job_inv (Q a))"
  by (simp add: triple_def on_jobs_def job_inv_def case_prod_beta)

subsection \<open>The run of a claimed job\<close>

text \<open>
  A run of a job is named by the value \<open>a\<close> that its claim gave to \<open>attempts\<close>. The run is
  over when the job is not running, or is running under a later claim. The other processes make any
  steps of the job machine.
\<close>

definition coll_up :: "('c, 'k, 'd) coll \<Rightarrow> bool" where
  "coll_up M \<longleftrightarrow> (\<forall>c f e. coll_find M c f \<noteq> Inl e) \<and> (\<forall>c f u e. snd (coll_update M c f u) \<noteq> Inl e)"

definition lawful_jobs :: "('c, 'r, 'x) worker_env \<Rightarrow> bool" where
  "lawful_jobs E \<longleftrightarrow> job_store (we_jobs E) \<and> coll_up (we_jobs E) \<and>
     (\<forall>n c. coll_ok (we_jobs E) c \<longrightarrow> coll_ok (we_jobs E) (we_other_jobs E n c) \<and>
        (\<exists>evs. job_steps (coll_docs (we_jobs E) c) evs (coll_docs (we_jobs E) (we_other_jobs E n c))))"

definition claimed_in :: "job_table \<Rightarrow> object_id \<Rightarrow> int \<Rightarrow> bool" where
  "claimed_in m k a \<longleftrightarrow> (\<exists>j. m k = Some j \<and> a \<le> job_Attempts j)"

definition over_in :: "job_table \<Rightarrow> object_id \<Rightarrow> int \<Rightarrow> bool" where
  "over_in m k a \<longleftrightarrow> (\<exists>j. m k = Some j \<and> a \<le> job_Attempts j \<and> (job_Status j = ScanJobStatusRunning \<longrightarrow> a < job_Attempts j))"

definition claimed :: "('c, 'r, 'x) worker_env \<Rightarrow> object_id \<Rightarrow> int \<Rightarrow> 'c \<Rightarrow> bool" where
  "claimed E k a c \<longleftrightarrow> coll_ok (we_jobs E) c \<and> claimed_in (coll_docs (we_jobs E) c) k a"

definition over :: "('c, 'r, 'x) worker_env \<Rightarrow> object_id \<Rightarrow> int \<Rightarrow> 'c \<Rightarrow> bool" where
  "over E k a c \<longleftrightarrow> coll_ok (we_jobs E) c \<and> over_in (coll_docs (we_jobs E) c) k a"

lemma over_claimed: "over E k a c \<Longrightarrow> claimed E k a c"
  by (auto simp: over_def claimed_def over_in_def claimed_in_def)

lemma job_step_claimed: "job_step m ev m' \<Longrightarrow> claimed_in m k a \<Longrightarrow> claimed_in m' k a"
  by (induction rule: job_step.induct) (auto simp: claimed_in_def job_docs)

lemma job_step_over: "job_step m ev m' \<Longrightarrow> over_in m k a \<Longrightarrow> over_in m' k a"
  by (induction rule: job_step.induct) (auto simp: over_in_def job_docs)

lemma job_steps_keep:
  "job_steps m evs m' \<Longrightarrow> claimed_in m k a \<Longrightarrow> claimed_in m' k a"
  "job_steps m evs m' \<Longrightarrow> over_in m k a \<Longrightarrow> over_in m' k a"
  by (induction rule: job_steps.induct) (auto dest: job_step_claimed job_step_over)

lemma others_lawful:
  assumes "lawful_jobs E" "coll_ok (we_jobs E) c"
  obtains evs where "coll_ok (we_jobs E) (we_other_jobs E n c)"
    "job_steps (coll_docs (we_jobs E) c) evs (coll_docs (we_jobs E) (we_other_jobs E n c))"
  using assms unfolding lawful_jobs_def by blast

lemma clock_claimed: "lawful_jobs E \<Longrightarrow> keeps (job_inv (claimed E k a)) (clock_now E)"
proof (rule job_inv_clock)
  fix n c assume "lawful_jobs E" "claimed E k a c"
  then obtain evs where "coll_ok (we_jobs E) (we_other_jobs E n c)"
    "job_steps (coll_docs (we_jobs E) c) evs (coll_docs (we_jobs E) (we_other_jobs E n c))"
    using others_lawful [of E c n] by (auto simp: claimed_def)
  with \<open>claimed E k a c\<close> show "claimed E k a (we_other_jobs E n c)"
    using job_steps_keep(1) by (auto simp: claimed_def)
qed

lemma clock_over: "lawful_jobs E \<Longrightarrow> keeps (job_inv (over E k a)) (clock_now E)"
proof (rule job_inv_clock)
  fix n c assume "lawful_jobs E" "over E k a c"
  then obtain evs where "coll_ok (we_jobs E) (we_other_jobs E n c)"
    "job_steps (coll_docs (we_jobs E) c) evs (coll_docs (we_jobs E) (we_other_jobs E n c))"
    using others_lawful [of E c n] by (auto simp: over_def)
  with \<open>over E k a c\<close> show "over E k a (we_other_jobs E n c)"
    using job_steps_keep(2) by (auto simp: over_def)
qed

text \<open>An update that takes every running job \<open>k\<close> out of the running state ends the run.\<close>

lemma update_ends_run:
  assumes E: "lawful_jobs E" and c: "claimed E k a c"
    and f: "\<And>j. job_ID j = k \<Longrightarrow> job_Status j = ScanJobStatusRunning \<Longrightarrow> f j" "\<And>j. f j \<Longrightarrow> job_ID j = k"
    and u: "\<And>j. job_ID (u j) = job_ID j \<and> job_Attempts (u j) = job_Attempts j \<and> job_Status (u j) \<noteq> ScanJobStatusRunning"
  shows "over E k a (fst (update_result (coll_update (we_jobs E) c f u)))"
proof -
  let ?M = "we_jobs E"
  have js: "job_store ?M" and up: "\<And>c f u e. snd (coll_update ?M c f u) \<noteq> Inl e"
    using E by (auto simp: lawful_jobs_def coll_up_def)
  have ds: "doc_store ?M" and key: "coll_key ?M = job_ID"
    using js by (auto simp: job_store_def job_store_axioms_def)
  obtain c' n where r: "coll_update ?M c f u = (c', Inr n)"
    using up [of c f u] by (metis prod.collapse sum.collapse(2) sum.exhaust_disc sum.collapse(1))
  have ok: "coll_ok ?M c" and uk: "\<And>d. coll_key ?M (u d) = coll_key ?M d"
    using c u key by (auto simp: claimed_def)
  from c obtain j where j: "coll_docs ?M c k = Some j" "a \<le> job_Attempts j"
    by (auto simp: claimed_def claimed_in_def)
  have jk: "job_ID j = k" using doc_store.key [OF ds ok j(1)] key by simp
  have "over_in (coll_docs ?M c') k a"
    using doc_store.update_done [OF ds ok uk r]
  proof (elim disjE conjE exE)
    assume "coll_docs ?M c' = coll_docs ?M c" "\<forall>k d. coll_docs ?M c k = Some d \<longrightarrow> \<not> f d"
    with j jk f(1) show ?thesis unfolding over_in_def by metis
  next
    fix k2 d assume "updated_at (coll_docs ?M c) f u k2 d (coll_docs ?M c')"
    then have d: "coll_docs ?M c k2 = Some d" "f d" "coll_docs ?M c' = (coll_docs ?M c)(k2 \<mapsto> u d)"
      by (auto simp: updated_at_def)
    have "k2 = k" using doc_store.key [OF ds ok d(1)] key f(2) [OF d(2)] by simp
    with d j u show ?thesis by (auto simp: over_in_def)
  qed
  with doc_store.update_ok [OF ds ok uk r] r show ?thesis by (simp add: over_def update_result_def)
qed

text \<open>
  \<open>ends E k a m\<close>: started during the run, \<open>m\<close> returns with the run over. It composes with
  actions that keep the two assertions, before and after.
\<close>

abbreviation "running_claim E k a \<equiv> job_inv (claimed E k a)"
abbreviation "run_over E k a \<equiv> job_inv (over E k a)"

definition ends :: "('c, 'r, 'x) worker_env \<Rightarrow> object_id \<Rightarrow> int \<Rightarrow> ('c, 'r, 'x, 'a) act \<Rightarrow> bool" where
  "ends E k a m \<longleftrightarrow> triple (running_claim E k a) m (\<lambda>_. run_over E k a)"

lemma ends_after: "keeps (running_claim E k a) m \<Longrightarrow> (\<And>x. ends E k a (f x)) \<Longrightarrow> ends E k a (State_Monad.bind m f)"
  unfolding ends_def by (rule triple_bind)

lemma ends_before: "ends E k a m \<Longrightarrow> (\<And>x. keeps (run_over E k a) (f x)) \<Longrightarrow> ends E k a (State_Monad.bind m f)"
  unfolding ends_def by (rule triple_bind)

lemma ends_option: "ends E k a m \<Longrightarrow> (\<And>x. ends E k a (f x)) \<Longrightarrow> ends E k a (case r of None \<Rightarrow> m | Some x \<Rightarrow> f x)"
  by (cases r) auto

lemma ends_sum: "(\<And>x. ends E k a (f x)) \<Longrightarrow> (\<And>x. ends E k a (g x)) \<Longrightarrow> ends E k a (case r of Inl x \<Rightarrow> f x | Inr x \<Rightarrow> g x)"
  by (cases r) auto

lemma ends_if: "ends E k a m \<Longrightarrow> ends E k a n \<Longrightarrow> ends E k a (if b then m else n)"
  by simp

lemma ends_jobs:
  assumes "lawful_jobs E" "\<And>now c. claimed E k a c \<Longrightarrow> over E k a (fst (f now c))"
  shows "ends E k a (do { now \<leftarrow> clock_now E; on_jobs (f now) })"
  unfolding ends_def by (rule triple_bind [OF clock_claimed [OF assms(1)]], rule job_inv_jobs) (rule assms(2))

lemma ends_updates:
  assumes "lawful_jobs E"
  shows "ends E k a (fail_job E k msg)" "ends E k a (requeue_job E k msg d)"
    "ends E k a (timeout_job E k msg)" "ends E k a (complete_job E k n)"
  unfolding fail_job_def requeue_job_def timeout_job_def complete_job_def
    FailScanJob_def RequeueScanJob_def TimeoutScanJob_def CompleteScanJob_def Let_def
  by (rule ends_jobs [OF assms], rule update_ends_run [OF assms],
      auto simp: running_filter_def open_filter_def job_docs)+

text \<open>The other calls touch no job.\<close>

lemma calls_keep:
  assumes "keeps (job_inv J) (clock_now E)"
  shows "keeps (job_inv J) (setScanProgress E job status w msg n)"
    and "keeps (job_inv J) (cleanupScanSecret E ref)"
    and "keeps (job_inv J) (hydrateScanAuthSecret E config)"
    and "keeps (job_inv J) (try_lock E rt key v)" "keeps (job_inv J) (try_acquire E rt v limit lease)"
    and "keeps (job_inv J) (allow_target E rt key limit window)" "keeps (job_inv J) (release_lock E rt lock)"
    and "keeps (job_inv J) (commit E m)"
  unfolding setScanProgress_def cleanupScanSecret_def hydrateScanAuthSecret_def try_lock_def try_acquire_def
    allow_target_def release_lock_def commit_def
  by (intro triple_rules assms)+

lemma release_all_keeps:
  "keeps (job_inv J) (clock_now E) \<Longrightarrow> keeps (job_inv J) (release_all E rt locks)"
  by (induction locks) (auto intro!: triple_rules calls_keep)

lemma admission_keeps:
  assumes "keeps (job_inv J) (clock_now E)"
  shows "keeps (job_inv J) (admission_Release E locks)" "keeps (job_inv J) (acquireScanAdmission E job w limits)"
  unfolding admission_Release_def acquireScanAdmission_def admit_target_def Let_def
  by (intro triple_rules calls_keep release_all_keeps assms)+

lemma save_keeps:
  assumes "keeps (job_inv J) (clock_now E)" "\<And>i. keeps (job_inv J) (get_job E i)" "\<And>i msg. keeps (job_inv J) (fail_job E i msg)"
  shows "keeps (job_inv J) (fail_with E w job msg n)" "keeps (job_inv J) (report_cancelled E w job)"
    "keeps (job_inv J) (scanJobCancelled E i)"
  unfolding fail_with_def report_cancelled_def scanJobCancelled_def
  by (intro triple_rules calls_keep assms)+

text \<open>Reading the job tells whether the run is over.\<close>

lemma cancelled_triple:
  assumes "lawful_jobs E"
  shows "triple (running_claim E k a) (scanJobCancelled E k)
    (\<lambda>r. case r of Inl _ \<Rightarrow> (\<lambda>_. False) | Inr b \<Rightarrow> if b then run_over E k a else running_claim E k a)"
proof -
  let ?M = "we_jobs E"
  have ds: "doc_store ?M" and key: "coll_key ?M = job_ID" and up: "\<And>c f e. coll_find ?M c f \<noteq> Inl e"
    using assms by (auto simp: lawful_jobs_def job_store_def job_store_axioms_def coll_up_def)
  have "case GetScanJob ?M c k of Inl _ \<Rightarrow> False
     | Inr j \<Rightarrow> job_Status j = ScanJobStatusCancelled \<longrightarrow> over E k a c" if "claimed E k a c" for c
  proof -
    from that obtain j where ok: "coll_ok ?M c" and j: "coll_docs ?M c k = Some j" "a \<le> job_Attempts j"
      by (auto simp: claimed_def claimed_in_def)
    have jk: "job_ID j = k" using doc_store.key [OF ds ok j(1)] key by simp
    show ?thesis
    proof (cases "coll_find ?M c (\<lambda>j. job_ID j = k)")
      case (Inl e) with up show ?thesis by blast
    next
      case (Inr r)
      with doc_store.find_none [OF ds ok _ j(1), of "\<lambda>j. job_ID j = k"] jk obtain d where
        r: "coll_find ?M c (\<lambda>j. job_ID j = k) = Inr (Some d)" by (cases r) auto
      from doc_store.find_some [OF ds ok r] obtain k2 where "job_ID d = k" "coll_docs ?M c k2 = Some d" by blast
      with doc_store.key [OF ds ok] key j have "d = j" by fastforce
      with r j ok show ?thesis by (auto simp: GetScanJob_def over_def over_in_def)
    qed
  qed
  then have "triple (running_claim E k a) (on_jobs (\<lambda>c. (c, GetScanJob ?M c k)))
    (\<lambda>r w. case r of Inl _ \<Rightarrow> False | Inr j \<Rightarrow> running_claim E k a w \<and> (job_Status j = ScanJobStatusCancelled \<longrightarrow> run_over E k a w))"
    by (fastforce simp: triple_def on_jobs_def job_inv_def split: sum.splits)
  then show ?thesis unfolding scanJobCancelled_def get_job_def State_Monad.bind_assoc
    by (intro triple_bind [OF clock_claimed [OF assms]] triple_bind, assumption)
      (rule triple_return, auto split: sum.splits)
qed

lemma ends_cancelled:
  assumes "lawful_jobs E" "ends E k a (g False)" "keeps (run_over E k a) (g True)"
  shows "ends E k a (do { r \<leftarrow> scanJobCancelled E k; (case r of Inl e \<Rightarrow> f e | Inr b \<Rightarrow> g b) })"
  unfolding ends_def
proof (rule triple_bind [OF cancelled_triple [OF assms(1)]])
  fix r show "triple (case r of Inl _ \<Rightarrow> (\<lambda>_. False) | Inr b \<Rightarrow> if b then run_over E k a else running_claim E k a)
      (case r of Inl e \<Rightarrow> f e | Inr b \<Rightarrow> g b) (\<lambda>_. run_over E k a)"
    using assms(2,3) by (cases r) (auto simp: triple_False ends_def)
qed

lemma keeps_over_calls:
  assumes "lawful_jobs E"
  shows "keeps (run_over E k a) (report_cancelled E w job)" "keeps (run_over E k a) (setScanProgress E job st w msg n)"
    "keeps (run_over E k a) (cleanupScanSecret E ref)" "keeps (run_over E k a) (release_lock E rt lock)"
    "keeps (run_over E k a) (admission_Release E locks)" "keeps (run_over E k a) (commit E m)"
  unfolding report_cancelled_def
  by (intro triple_rules calls_keep admission_keeps clock_over assms)+

lemma keeps_claim_calls:
  assumes "lawful_jobs E"
  shows "keeps (running_claim E k a) (setScanProgress E job st w msg n)"
    "keeps (running_claim E k a) (hydrateScanAuthSecret E config)" "keeps (running_claim E k a) (try_lock E rt key v)"
    "keeps (running_claim E k a) (acquireScanAdmission E job w limits)"
  by (intro triple_rules calls_keep admission_keeps clock_claimed assms)+

lemma ends_fail_with: "lawful_jobs E \<Longrightarrow> job_ID job = k \<Longrightarrow> ends E k a (fail_with E w job msg n)"
  unfolding fail_with_def by (auto intro!: ends_before ends_updates triple_rules keeps_over_calls)

lemma ends_requeue_with: "lawful_jobs E \<Longrightarrow> job_ID job = k \<Longrightarrow> ends E k a (requeue_with E w job msg err d)"
  unfolding requeue_with_def by (auto intro!: ends_before ends_updates triple_rules keeps_over_calls)

lemma ends_map: "ends E k a m \<Longrightarrow> ends E k a (do { h \<leftarrow> m; State_Monad.return (f h) })"
  by (erule ends_before) (rule keeps_return)

text \<open>A loop that either ends the run or leaves it open.\<close>

definition ends_or_open :: "('c, 'r, 'x) worker_env \<Rightarrow> object_id \<Rightarrow> int \<Rightarrow> ('c, 'r, 'x, 'a option) act \<Rightarrow> bool" where
  "ends_or_open E k a m \<longleftrightarrow>
     triple (running_claim E k a) m (\<lambda>r. case r of Some _ \<Rightarrow> run_over E k a | None \<Rightarrow> running_claim E k a)"

lemma open_done: "ends E k a m \<Longrightarrow> ends_or_open E k a (do { h \<leftarrow> m; State_Monad.return (Some h) })"
  unfolding ends_def ends_or_open_def by (erule triple_bind) (simp add: triple_return)

lemma open_none: "ends_or_open E k a (State_Monad.return None)"
  by (simp add: ends_or_open_def triple_return)

lemma open_after: "keeps (running_claim E k a) m \<Longrightarrow> (\<And>x. ends_or_open E k a (f x)) \<Longrightarrow> ends_or_open E k a (State_Monad.bind m f)"
  unfolding ends_or_open_def by (rule triple_bind)

lemma open_option: "ends_or_open E k a m \<Longrightarrow> (\<And>x. ends_or_open E k a (f x)) \<Longrightarrow> ends_or_open E k a (case r of None \<Rightarrow> m | Some x \<Rightarrow> f x)"
  by (cases r) auto

lemma open_sum: "(\<And>x. ends_or_open E k a (f x)) \<Longrightarrow> (\<And>x. ends_or_open E k a (g x)) \<Longrightarrow> ends_or_open E k a (case r of Inl x \<Rightarrow> f x | Inr x \<Rightarrow> g x)"
  by (cases r) auto

lemma open_if: "ends_or_open E k a m \<Longrightarrow> ends_or_open E k a n \<Longrightarrow> ends_or_open E k a (if b then m else n)"
  by simp

lemma open_cancelled:
  assumes "lawful_jobs E" "ends_or_open E k a (g False)" "keeps (run_over E k a) m"
    "g True = do { h \<leftarrow> m; State_Monad.return (Some h) }"
  shows "ends_or_open E k a (do { r \<leftarrow> scanJobCancelled E k; (case r of Inl e \<Rightarrow> f e | Inr b \<Rightarrow> g b) })"
  unfolding ends_or_open_def
proof (rule triple_bind [OF cancelled_triple [OF assms(1)]])
  have "triple (run_over E k a) (g True) (\<lambda>r. case r of Some _ \<Rightarrow> run_over E k a | None \<Rightarrow> running_claim E k a)"
    unfolding assms(4) by (rule triple_bind [OF assms(3)]) (simp add: triple_return)
  then show "triple (case r of Inl _ \<Rightarrow> (\<lambda>_. False) | Inr b \<Rightarrow> if b then run_over E k a else running_claim E k a)
      (case r of Inl e \<Rightarrow> f e | Inr b \<Rightarrow> g b) (\<lambda>r. case r of Some _ \<Rightarrow> run_over E k a | None \<Rightarrow> running_claim E k a)" for r
    using assms(2) by (cases r) (auto simp: triple_False ends_or_open_def)
qed

lemma save_results_ends:
  assumes "lawful_jobs E" "job_ID job = k"
  shows "ends_or_open E k a (save_results E w job n results)"
proof (induction results)
  case Nil show ?case by (simp add: open_none)
next
  case (Cons res results)
  note claim = clock_claimed [OF assms(1)] job_inv_rest
  show ?case unfolding save_results.simps assms(2)
  proof (rule open_cancelled [OF assms(1) _ keeps_over_calls(1) [OF assms(1)]])
    show "ends_or_open E k a (case False of True \<Rightarrow> do { h \<leftarrow> report_cancelled E w job; State_Monad.return (Some h) }
      | False \<Rightarrow> do {
          now \<leftarrow> clock_now E;
          saved \<leftarrow> on_rest (\<lambda>x. we_SaveScanResult E x (result_of job now res));
          (case saved of
             Inl err \<Rightarrow> do { h \<leftarrow> fail_with E w job err n; State_Monad.return (Some h) }
           | Inr savedResult \<Rightarrow>
               if sr_Vulnerable savedResult then do {
                 _ \<leftarrow> clock_now E;
                 upserted \<leftarrow> on_rest (\<lambda>x. we_UpsertIssue E x savedResult);
                 (case upserted of
                    Some err \<Rightarrow> do { h \<leftarrow> fail_with E w job err n; State_Monad.return (Some h) }
                  | None \<Rightarrow> save_results E w job n results) }
               else save_results E w job n results) })"
      unfolding bool.case
      by (intro open_after claim open_sum open_if open_option open_done ends_fail_with assms Cons.IH)
  qed simp
qed

lemma finish_scan_ends:
  assumes "lawful_jobs E" "job_ID job = k"
  shows "ends E k a (finish_scan E w job results)"
proof -
  let ?rest = "\<lambda>stopped. case stopped of
        Some h \<Rightarrow> State_Monad.return h
      | None \<Rightarrow> do {
          completed \<leftarrow> complete_job E (job_ID job) (int (length results));
          (case completed of
             Some err \<Rightarrow> do {
               _ \<leftarrow> setScanProgress E job ScanJobStatusFailed w err (int (length results));
               State_Monad.return (True, Some err) }
           | None \<Rightarrow> do {
               _ \<leftarrow> setScanProgress E job ScanJobStatusCompleted w [] (int (length results));
               State_Monad.return (True, None) }) }"
  have "ends E k a (?rest None)" unfolding option.case assms(2)
    by (rule ends_before [OF ends_updates(4) [OF assms(1)]]) (intro triple_rules keeps_over_calls assms(1))
  then have "triple (case r of Some _ \<Rightarrow> run_over E k a | None \<Rightarrow> running_claim E k a) (?rest r) (\<lambda>_. run_over E k a)" for r
    by (cases r) (auto simp: ends_def intro: triple_return)
  with save_results_ends [OF assms] show ?thesis unfolding finish_scan_def ends_def ends_or_open_def
    by (rule triple_bind)
qed

lemma run_scan_ends:
  assumes "lawful_jobs E" "job_ID job = k"
  shows "ends E k a (run_scan E w job config)"
proof -
  have timeout: "ends E k a (do { _ \<leftarrow> timeout_job E k ''scan timed out'';
      _ \<leftarrow> setScanProgress E job ScanJobStatusTimedOut w ''scan timed out'' 0;
      State_Monad.return (True, Some msg) })" for msg
    by (rule ends_before [OF ends_updates(3) [OF assms(1)]]) (intro triple_rules keeps_over_calls assms(1))
  have ok: "ends E k a (do { r \<leftarrow> scanJobCancelled E k; (case r of Inl err \<Rightarrow> State_Monad.return (True, Some err)
      | Inr b \<Rightarrow> (case b of True \<Rightarrow> report_cancelled E w job | False \<Rightarrow> finish_scan E w job results)) })" for results
    by (rule ends_cancelled [OF assms(1)])
      (simp_all add: finish_scan_ends [OF assms] keeps_over_calls [OF assms(1)])
  have err: "ends E k a (case e of ExecError exceeded msg \<Rightarrow> if exceeded then do {
            _ \<leftarrow> timeout_job E k ''scan timed out'';
            _ \<leftarrow> setScanProgress E job ScanJobStatusTimedOut w ''scan timed out'' 0;
            State_Monad.return (True, Some msg) }
          else fail_with E w job msg 0)" for e
    by (cases e) (simp only: exec_error.case, intro ends_if timeout ends_fail_with assms)
  show ?thesis unfolding run_scan_def assms(2)
    by (intro ends_after clock_claimed job_inv_rest assms(1) ends_sum ok err)
qed

lemma admitted_scan_ends:
  assumes "lawful_jobs E" "job_ID job = k"
  shows "ends E k a (admitted_scan E w job)"
proof -
  note rules = keeps_over_calls [OF assms(1)]
  have err: "ends E k a (do {
          _ \<leftarrow> fail_job E k err;
          _ \<leftarrow> cleanupScanSecret E (cfg_AuthSecretRef (job_Config job));
          _ \<leftarrow> setScanProgress E job ScanJobStatusFailed w err 0;
          State_Monad.return (True, Some err) })" for err
    by (rule ends_before [OF ends_updates(1) [OF assms(1)]]) (intro triple_rules rules)
  have run: "ends E k a (do {
          h \<leftarrow> run_scan E w job config;
          _ \<leftarrow> cleanupScanSecret E (cfg_AuthSecretRef (job_Config job));
          State_Monad.return h })" for config
    by (rule ends_before [OF run_scan_ends [OF assms]]) (intro triple_rules rules)
  show ?thesis unfolding admitted_scan_def assms(2)
    by (intro ends_after ends_sum keeps_claim_calls assms(1) err run)
qed

lemma locked_job_ends:
  assumes "lawful_jobs E" "job_ID job = k"
  shows "ends E k a (locked_job E w limits job)"
proof -
  note rules = keeps_over_calls [OF assms(1)]
  have fail: "ends E k a (do {
       _ \<leftarrow> fail_job E k msg;
       _ \<leftarrow> cleanupScanSecret E (cfg_AuthSecretRef (job_Config job));
       _ \<leftarrow> setScanProgress E job ScanJobStatusFailed w msg2 0;
       State_Monad.return (True, Some err) })" for msg msg2 err
    by (rule ends_before [OF ends_updates(1) [OF assms(1)]]) (intro triple_rules rules)
  have scan: "ends E k a (do { h \<leftarrow> admitted_scan E w job; _ \<leftarrow> admission_Release E locks; State_Monad.return h })" for locks
    by (rule ends_before [OF admitted_scan_ends [OF assms]]) (intro triple_rules rules)
  show ?thesis unfolding locked_job_def assms(2)
  proof (rule ends_cancelled [OF assms(1)], unfold bool.case)
    show "keeps (run_over E k a) (do { _ \<leftarrow> cleanupScanSecret E (cfg_AuthSecretRef (job_Config job)); report_cancelled E w job })"
      by (intro triple_rules rules)
  qed (intro ends_after keeps_claim_calls assms ends_option ends_if fail scan ends_requeue_with)
qed

lemma processClaimedJob_ends:
  assumes "lawful_jobs E" "job_ID job = k"
  shows "ends E k a (processClaimedJob E w limits job)"
proof -
  have locked: "ends E k a (do { h \<leftarrow> locked_job E w limits job; _ \<leftarrow> release_lock E rt lock; State_Monad.return h })" for rt lock
    by (rule ends_before [OF locked_job_ends [OF assms]]) (intro triple_rules keeps_over_calls assms(1))
  show ?thesis unfolding processClaimedJob_def
    by (intro ends_option ends_if ends_after ends_sum triple_rules keeps_claim_calls assms locked
        locked_job_ends ends_requeue_with)
qed

subsection \<open>Locks and slots\<close>

text \<open>
  \<open>held_at R E p v S now r\<close>: from \<open>now\<close> on, a lock or slot key holds the value \<open>v\<close> only
  if it is one of the locks in \<open>S\<close>.
\<close>

definition coord_key :: "string \<Rightarrow> string \<Rightarrow> bool" where
  "coord_key p k \<longleftrightarrow> (\<exists>ps. k = plainKey p (''lock'' # ps) \<or> k = plainKey p (''semaphore'' # ps))"

definition held_at :: "'r redis \<Rightarrow> string \<Rightarrow> string \<Rightarrow> dlock set \<Rightarrow> int \<Rightarrow> 'r \<Rightarrow> bool" where
  "held_at R p v S now r \<longleftrightarrow>
     (\<forall>t \<ge> now. \<forall>k. coord_key p k \<longrightarrow> rd_get R r t k = Some v \<longrightarrow> RedisLock k v \<in> S)"

definition held :: "('c, 'r, 'x) worker_env \<Rightarrow> 'r redis \<Rightarrow> string \<Rightarrow> string \<Rightarrow> dlock set \<Rightarrow> ('c, 'r, 'x) world \<Rightarrow> bool" where
  "held E R p v S w \<longleftrightarrow> held_at R p v S (we_clock E (w_tick w)) (w_redis w)"

definition redis_up :: "'r redis \<Rightarrow> bool" where
  "redis_up R \<longleftrightarrow> (\<forall>s now k v ttl e. snd (rd_setnx R s now k v ttl) \<noteq> Inl e) \<and> (\<forall>s f e. snd (rd_eval R s f) \<noteq> Inl e)"

text \<open>The server answers, the clock does not run backwards, and no other process writes \<open>v\<close>.\<close>

definition lawful_redis :: "('c, 'r, 'x) worker_env \<Rightarrow> 'r redis_runtime \<Rightarrow> 'r redis \<Rightarrow> string \<Rightarrow> bool" where
  "lawful_redis E rt R v \<longleftrightarrow> we_runtime E = Some rt \<and> rr_Client rt = Some R \<and> redis_laws R \<and> redis_up R \<and>
     (\<forall>n. we_clock E n \<le> we_clock E (Suc n)) \<and>
     (\<forall>n r t k. we_clock E n \<le> t \<longrightarrow> rd_get R (we_other_redis E n r) t k = Some v \<longrightarrow> rd_get R r t k = Some v)"

lemma held_mono: "held E R p v S w \<Longrightarrow> S \<subseteq> T \<Longrightarrow> held E R p v T w"
  by (auto simp: held_def held_at_def)

lemma held_at_later: "held_at R p v S now r \<Longrightarrow> now \<le> now' \<Longrightarrow> held_at R p v S now' r"
  unfolding held_at_def by (meson order_trans)

text \<open>A call reads the clock and sends one command.\<close>

lemma held_call:
  assumes "lawful_redis E rt R v"
    and "\<And>now r. held_at R p v S now r \<Longrightarrow> held_at R p v (T (snd (f now r))) now (fst (f now r))"
  shows "triple (held E R p v S) (do { now \<leftarrow> clock_now E; on_redis (f now) }) (\<lambda>a. held E R p v (T a))"
  unfolding triple_def
proof (intro allI impI)
  fix w assume h: "held E R p v S w"
  let ?now = "we_clock E (w_tick w)" and ?r = "we_other_redis E (w_tick w) (w_redis w)"
  have "held_at R p v S ?now ?r"
    using h assms(1) unfolding held_def held_at_def lawful_redis_def by blast
  from held_at_later [OF assms(2) [OF this], of "we_clock E (Suc (w_tick w))"] assms(1)
  show "held E R p v (T (fst (run_state (do { now \<leftarrow> clock_now E; on_redis (f now) }) w)))
     (snd (run_state (do { now \<leftarrow> clock_now E; on_redis (f now) }) w))"
    by (simp add: clock_now_def on_redis_def case_prod_beta held_def lawful_redis_def)
qed

lemma held_clock: "lawful_redis E rt R v \<Longrightarrow> keeps (held E R p v S) (clock_now E)"
proof -
  assume "lawful_redis E rt R v"
  from held_call [OF this, of p S "\<lambda>_. S" "\<lambda>_ r. (r, ())"] show ?thesis
    by (simp add: triple_def on_redis_def held_def case_prod_beta)
qed

lemma held_jobs [triple_rules]: "keeps (held E R p v S) (on_jobs f)"
  by (simp add: triple_def on_jobs_def held_def case_prod_beta)

lemma held_rest [triple_rules]: "keeps (held E R p v S) (on_rest f)"
  by (simp add: triple_def on_rest_def held_def case_prod_beta)

text \<open>The commands: only a granted lock adds to \<open>S\<close>, and its release takes it out.\<close>

lemma coord_key_other:
  assumes "coord_key p k"
  shows "k \<noteq> hashedKey sha q ''rate_limit'' key" "k \<noteq> ScanProgressKey q jobID"
proof -
  have parts: "key_parts [n] = [n]" if "n \<in> {''lock'', ''semaphore'', ''rate_limit'', ''scan_progress''}" for n
    using that by (auto simp: key_parts_def replace_char_def trim_space_def trim_left_def trim_right_def is_space_def)
  have "plainKey p (n # ps) \<noteq> plainKey q (m # qs)"
    if "n \<in> {''lock'', ''semaphore''}" "m \<in> {''rate_limit'', ''scan_progress''}" for n m ps qs
    using that by (intro namespace_neq parts) auto
  with assms show "k \<noteq> hashedKey sha q ''rate_limit'' key" "k \<noteq> ScanProgressKey q jobID"
    unfolding coord_key_def hashedKey_def ScanProgressKey_def by (elim exE disjE; simp)+
qed

lemma held_at_frame:
  assumes "held_at R p v S now r" "\<And>t k. t \<ge> now \<Longrightarrow> coord_key p k \<Longrightarrow> rd_get R r' t k = rd_get R r t k"
  shows "held_at R p v S now r'"
  using assms by (simp add: held_at_def)

lemma held_at_insert:
  assumes "held_at R p v S now r"
    and "\<And>t k. t \<ge> now \<Longrightarrow> rd_get R r' t k = (if k = k0 then (if t < now + ttl then Some u else None) else rd_get R r t k)"
  shows "held_at R p v (insert (RedisLock k0 u) S) now r'"
  using assms by (auto simp: held_at_def split: if_splits)

lemma held_TryLock:
  assumes R: "redis_laws R" "redis_up R" and h: "held_at R p v S now r"
  shows "held_at R p v (case snd (TryLock (Some R) q now r key u ttl) of Inr (Some l) \<Rightarrow> insert l S | _ \<Rightarrow> S) now
    (fst (TryLock (Some R) q now r key u ttl))"
proof -
  let ?k = "plainKey q [''lock'', key]"
  obtain r' b where n: "rd_setnx R r now ?k u ttl = (r', Inr b)"
    using R(2) unfolding redis_up_def by (metis prod.collapse sum.exhaust)
  show ?thesis
  proof (cases "0 < ttl")
    case True
    show ?thesis
    proof (cases b)
      case b: True
      with n have n': "rd_setnx R r now ?k u ttl = (r', Inr True)" by simp
      from redis_laws.setnx_ok [OF R(1) n' \<open>0 < ttl\<close>] h
      have "held_at R p v (insert (RedisLock ?k u) S) now r'" by (intro held_at_insert [of R p v S now r]) auto
      with n' h show ?thesis by (auto simp: TryLock_def Let_def)
    next
      case False
      with n have n': "rd_setnx R r now ?k u ttl = (r', Inr False)" by simp
      from redis_laws.setnx_no [OF R(1) n'] have "held_at R p v S now r'"
        by (intro held_at_frame [OF h]) metis
      with n' h show ?thesis by (auto simp: TryLock_def Let_def)
    qed
  qed (use h in \<open>simp add: TryLock_def\<close>)
qed

lemma acquire_slots_up: "redis_up R \<Longrightarrow> snd (acquire_slots R q now key u ttl r slots) \<noteq> Inl e"
proof (induction slots arbitrary: r)
  case (Cons slot slots)
  obtain r' x where n: "rd_setnx R r now (slotKey q key slot) u ttl = (r', x)" by fastforce
  with Cons.prems have "x \<noteq> Inl e" for e unfolding redis_up_def by (metis snd_conv)
  with n Cons show ?case by (cases x) auto
qed simp

lemma held_TryAcquire:
  assumes R: "redis_laws R" "redis_up R" and h: "held_at R p v S now r"
  shows "held_at R p v (case snd (TryAcquire (Some R) q now r key u limit ttl) of Inr (Some l) \<Rightarrow> insert l S | _ \<Rightarrow> S) now
    (fst (TryAcquire (Some R) q now r key u limit ttl))"
proof -
  let ?a = "acquire_slots R q now (trim_space key) (trim_space u) ttl r [0..<nat limit]"
  have "held_at R p v (case snd ?a of Inr (Some l) \<Rightarrow> insert l S | _ \<Rightarrow> S) now (fst ?a)" if "0 < ttl"
  proof -
    from acquire_slots_up [OF R(2)] have "\<forall>e. snd ?a \<noteq> Inl e" by blast
    then obtain r' l where a: "?a = (r', Inr l)" by (metis prod.collapse sum.exhaust)
    show ?thesis
    proof (cases l)
      case None
      from redis_laws.acquire_slots_none [OF R(1) a [unfolded None]] have "held_at R p v S now r'"
        by (intro held_at_frame [OF h]) metis
      with a None show ?thesis by simp
    next
      case (Some lock)
      from redis_laws.acquire_slots_some [OF R(1) a [unfolded Some] that] obtain k0 where
        "lock = RedisLock k0 (trim_space u)" "\<forall>t \<ge> now. \<forall>k. rd_get R r' t k =
          (if k = k0 then (if t < now + ttl then Some (trim_space u) else None) else rd_get R r t k)" by blast
      with a Some h show ?thesis by (simp add: held_at_insert)
    qed
  qed
  then show ?thesis using h by (simp add: TryAcquire_def Let_def)
qed

lemma held_Allow:
  assumes "redis_laws R" "held_at R p v S now r"
  shows "held_at R p v S now (fst (Allow (Some R) sha q now r key limit window))"
  by (rule held_at_frame [OF assms(2)])
    (simp add: redis_laws.Allow_keeps [OF assms(1)] coord_key_other)

lemma held_progress:
  assumes "redis_laws R" "held_at R p v S now r"
  shows "held_at R p v S now (fst (progress_Set marshal (Some R) q now r pr ttl))"
proof (rule held_at_frame [OF assms(2)])
  fix t k assume "now \<le> t" "coord_key p k"
  then show "rd_get R (fst (progress_Set marshal (Some R) q now r pr ttl)) t k = rd_get R r t k"
    using redis_laws.set_other [OF assms(1)] coord_key_other(2)
    by (auto simp: progress_Set_def Let_def case_prod_beta split: sum.split)
qed

lemma held_Release:
  assumes R: "redis_laws R" "redis_up R" and h: "held_at R p v (insert lock S) now r"
  shows "held_at R p v S now (fst (Release (Some R) now r lock))"
proof (cases lock)
  case NoopLock
  with h show ?thesis by (auto simp: Release_def held_at_def)
next
  case (RedisLock k u)
  obtain r' m where e: "rd_eval R r (redisReleaseLockScript R now k u) = (r', Inr m)"
    using R(2) unfolding redis_up_def by (metis prod.collapse sum.exhaust)
  from redis_laws.eval_ok [OF R(1) e] have "r' = fst (redisReleaseLockScript R now k u r)" by (metis fst_conv)
  then have view: "rd_get R r' t k' = (if k' = k \<and> rd_get R r now k = Some u then None else rd_get R r t k')"
    if "now \<le> t" for t k' using redis_laws.release_view [OF R(1) that] by simp
  have "held_at R p v S now r'"
    unfolding held_at_def
  proof (intro allI impI)
    fix t k' assume t: "now \<le> t" and k': "coord_key p k'" "rd_get R r' t k' = Some v"
    with view have v: "rd_get R r t k' = Some v" and n: "\<not> (k' = k \<and> rd_get R r now k = Some u)"
      by (auto split: if_splits)
    from h t k'(1) v have "RedisLock k' v \<in> insert lock S" unfolding held_at_def by blast
    moreover from redis_laws.value_stays [OF R(1) t v] n RedisLock have "RedisLock k' v \<noteq> lock" by auto
    ultimately show "RedisLock k' v \<in> S" by simp
  qed
  with e RedisLock show ?thesis by (simp add: Release_def)
qed

subsection \<open>Every lock is given back\<close>

lemma held_command:
  assumes "lawful_redis E rt R v" "\<And>now r. held_at R p v S now r \<Longrightarrow> held_at R p v S now (fst (f now r))"
  shows "keeps (held E R p v S) (do { now \<leftarrow> clock_now E; on_redis (f now) })"
  using held_call [OF assms(1), of p S "\<lambda>_. S" f] assms(2) by blast

lemma held_progress_call:
  assumes "lawful_redis E rt R v"
  shows "keeps (held E R p v S) (setScanProgress E job status w msg n)"
proof -
  have rt: "we_runtime E = Some rt" "rr_Client rt = Some R" "redis_laws R" using assms by (auto simp: lawful_redis_def)
  let ?f = "\<lambda>now r. progress_Set (we_marshal E) (Some R) (rr_KeyPrefix rt) now r
    \<lparr>sp_JobID = we_Hex E (job_ID job), sp_Status = status, sp_WorkerID = w, sp_Message = msg,
     sp_ResultsCount = n, sp_UpdatedAt = Some now\<rparr> (rr_ProgressTTL rt)"
  have "keeps (held E R p v S) (do { _ \<leftarrow> (do { now \<leftarrow> clock_now E; on_redis (?f now) }); State_Monad.return () })"
    by (rule triple_bind [OF held_command [OF assms]]) (rule held_progress [OF rt(3)], assumption, rule keeps_return)
  note progress = this [unfolded State_Monad.bind_assoc]
  show ?thesis unfolding setScanProgress_def rt option.case
    by (rule keeps_bind [OF held_clock [OF assms]], rule keeps_bind [OF held_rest], rule keeps_if,
        rule keeps_return, rule progress)
qed

lemma held_calls:
  assumes "lawful_redis E rt R v"
  shows "keeps (held E R p v S) (fail_job E i msg)" "keeps (held E R p v S) (requeue_job E i msg d)"
    "keeps (held E R p v S) (timeout_job E i msg)" "keeps (held E R p v S) (complete_job E i n)"
    "keeps (held E R p v S) (scanJobCancelled E i)" "keeps (held E R p v S) (cleanupScanSecret E ref)"
    "keeps (held E R p v S) (hydrateScanAuthSecret E config)"
  unfolding fail_job_def requeue_job_def timeout_job_def complete_job_def scanJobCancelled_def get_job_def
    cleanupScanSecret_def hydrateScanAuthSecret_def
  by (intro triple_rules held_clock [OF assms])+

lemma held_replies:
  assumes "lawful_redis E rt R v"
  shows "keeps (held E R p v S) (fail_with E w job msg n)" "keeps (held E R p v S) (report_cancelled E w job)"
    "keeps (held E R p v S) (requeue_with E w job msg err d)"
  unfolding fail_with_def report_cancelled_def requeue_with_def
  by (intro triple_rules held_calls [OF assms] held_progress_call [OF assms])+

lemma held_save_results:
  assumes "lawful_redis E rt R v"
  shows "keeps (held E R p v S) (save_results E w job n results)"
proof (induction results)
  case (Cons res results)
  show ?case unfolding save_results.simps
    by (intro triple_rules held_calls [OF assms] held_replies [OF assms] held_clock [OF assms] Cons.IH)
qed (simp add: keeps_return)

lemma held_admitted_scan:
  assumes "lawful_redis E rt R v"
  shows "keeps (held E R p v S) (admitted_scan E w job)"
  unfolding admitted_scan_def run_scan_def finish_scan_def
  by (intro triple_rules held_calls [OF assms] held_replies [OF assms] held_clock [OF assms]
      held_save_results [OF assms] held_progress_call [OF assms])

lemma held_release:
  assumes "lawful_redis E rt R v"
  shows "triple (held E R p v (insert lock S)) (release_lock E rt lock) (\<lambda>_. held E R p v S)"
proof -
  have rt: "rr_Client rt = Some R" "redis_laws R" "redis_up R" using assms by (auto simp: lawful_redis_def)
  have "triple (held E R p v (insert lock S)) (do { now \<leftarrow> clock_now E; on_redis (\<lambda>r. Release (Some R) now r lock) })
      (\<lambda>_. held E R p v S)"
    by (rule held_call [OF assms]) (rule held_Release [OF rt(2,3)])
  then have "triple (held E R p v (insert lock S))
      (do { _ \<leftarrow> (do { now \<leftarrow> clock_now E; on_redis (\<lambda>r. Release (Some R) now r lock) }); State_Monad.return () })
      (\<lambda>_. held E R p v S)"
    by (rule triple_bind) (rule keeps_return)
  then show ?thesis unfolding release_lock_def rt(1) State_Monad.bind_assoc .
qed

lemma held_release_all:
  assumes "lawful_redis E rt R v"
  shows "triple (held E R p v (set locks \<union> S)) (release_all E rt locks) (\<lambda>_. held E R p v S)"
proof (induction locks)
  case (Cons lock locks)
  have "triple (held E R p v (insert lock (set locks \<union> S))) (release_lock E rt lock) (\<lambda>_. held E R p v (set locks \<union> S))"
    by (rule held_release [OF assms])
  then show ?case using Cons.IH by (auto intro: triple_bind)
qed (simp add: keeps_return)

lemma held_admission_release:
  assumes "lawful_redis E rt R v"
  shows "triple (held E R p v (set locks \<union> S)) (admission_Release E locks) (\<lambda>_. held E R p v S)"
  using held_release_all [OF assms, of p "rev locks" S] assms by (simp add: admission_Release_def lawful_redis_def)

definition admission_held :: "('c, 'r, 'x) worker_env \<Rightarrow> 'r redis \<Rightarrow> string \<Rightarrow> string \<Rightarrow> dlock set \<Rightarrow> admission \<Rightarrow> ('c, 'r, 'x) world \<Rightarrow> bool" where
  "admission_held E R p v S ad w \<longleftrightarrow>
     (ad_error ad \<noteq> None \<longrightarrow> \<not> ad_admitted ad) \<and> held E R p v (if ad_admitted ad then set (ad_locks ad) \<union> S else S) w"

lemma held_refuse:
  assumes "lawful_redis E rt R v" "\<not> ad_admitted ad"
  shows "triple (held E R p v (set locks \<union> S)) (do { _ \<leftarrow> admission_Release E locks; State_Monad.return ad })
    (admission_held E R p v S)"
  by (rule triple_bind [OF held_admission_release [OF assms(1)]])
    (simp add: triple_return admission_held_def assms(2))

lemma held_admit_target:
  assumes "lawful_redis E rt R v"
  shows "triple (held E R p v (set locks \<union> S)) (admit_target E rt job limits locks) (admission_held E R p v S)"
proof -
  have rt: "rr_Client rt = Some R" "redis_laws R" using assms by (auto simp: lawful_redis_def)
  have allow: "keeps (held E R p v T) (allow_target E rt key limit window)" for T key limit window
    unfolding allow_target_def rt(1) by (rule held_command [OF assms]) (rule held_Allow [OF rt(2)])
  have ok: "triple (held E R p v (set locks \<union> S))
      (State_Monad.return \<lparr>ad_locks = locks, ad_admitted = True, ad_message = [], ad_delay = 0, ad_error = None\<rparr>)
      (admission_held E R p v S)"
    by (rule triple_return) (simp add: admission_held_def)
  show ?thesis
    unfolding admit_target_def
    by (auto split: sum.split bool.split intro!: ok held_refuse [OF assms] triple_bind [OF allow])
qed

lemma held_acquire:
  assumes "lawful_redis E rt R v"
  shows "triple (held E R p v S) (acquireScanAdmission E job w limits) (admission_held E R p v S)"
proof -
  have rt: "we_runtime E = Some rt" "rr_Client rt = Some R" "redis_laws R" "redis_up R"
    using assms by (auto simp: lawful_redis_def)
  have slot: "triple (held E R p v S) (try_acquire E rt u limit lease)
      (\<lambda>a. held E R p v (case a of Inr (Some l) \<Rightarrow> insert l S | _ \<Rightarrow> S))" for u limit lease
    unfolding try_acquire_def rt(2) by (rule held_call [OF assms]) (rule held_TryAcquire [OF rt(3,4)])
  have refused: "triple (held E R p v S) (State_Monad.return ad) (admission_held E R p v S)" if "\<not> ad_admitted ad" for ad
    by (rule triple_return) (simp add: admission_held_def that)
  have granted: "triple (held E R p v (insert l S)) (admit_target E rt job c [l]) (admission_held E R p v S)" for l c
    using held_admit_target [OF assms, of p "[l]" S job c] by simp
  have unlimited: "triple (held E R p v S) (admit_target E rt job c []) (admission_held E R p v S)" for c
    using held_admit_target [OF assms, of p "[]" S job c] by simp
  show ?thesis
    unfolding acquireScanAdmission_def Let_def rt(1) option.case
  proof (rule triple_bind [OF keeps_new_id], split if_split, intro conjI impI)
    show "triple (held E R p v S) (do { r \<leftarrow> try_acquire E rt u limit lease; (case r of
        Inl err \<Rightarrow> State_Monad.return (\<lparr>ad_locks = [], ad_admitted = False, ad_message = m1, ad_delay = d, ad_error = f err\<rparr>)
      | Inr None \<Rightarrow> State_Monad.return \<lparr>ad_locks = [], ad_admitted = False, ad_message = m2, ad_delay = d, ad_error = None\<rparr>
      | Inr (Some lock) \<Rightarrow> admit_target E rt job c [lock]) }) (admission_held E R p v S)" for u limit lease m1 m2 d f c
      by (rule triple_bind [OF slot]) (auto split: sum.split option.split intro: refused granted)
  qed (rule unlimited)
qed

lemma held_locked_job:
  assumes "lawful_redis E rt R v"
  shows "keeps (held E R p v S) (locked_job E w limits job)"
proof -
  note rules = held_calls [OF assms] held_replies [OF assms] held_progress_call [OF assms]
  have admitted: "triple (held E R p v (set locks \<union> S))
      (do { h \<leftarrow> admitted_scan E w job; _ \<leftarrow> admission_Release E locks; State_Monad.return h }) (\<lambda>_. held E R p v S)" for locks
    by (intro triple_bind [OF held_admitted_scan [OF assms]] triple_bind [OF held_admission_release [OF assms]] keeps_return)
  have after: "triple (admission_held E R p v S ad)
      (case ad_error ad of
         Some err \<Rightarrow>
           if ad_message ad = ''invalid scan target'' then do {
             _ \<leftarrow> fail_job E (job_ID job) (ad_message ad @ '': '' @ err);
             _ \<leftarrow> cleanupScanSecret E (cfg_AuthSecretRef (job_Config job));
             _ \<leftarrow> setScanProgress E job ScanJobStatusFailed w (ad_message ad) 0;
             State_Monad.return (True, Some err) }
           else requeue_with E w job (ad_message ad) (Some err) (ad_delay ad)
       | None \<Rightarrow>
           if \<not> ad_admitted ad then requeue_with E w job (ad_message ad) None (ad_delay ad)
           else do {
             h \<leftarrow> admitted_scan E w job;
             _ \<leftarrow> admission_Release E (ad_locks ad);
             State_Monad.return h }) (\<lambda>_. held E R p v S)" for ad
  proof (cases "ad_admitted ad")
    case True
    then have P: "admission_held E R p v S ad wd \<Longrightarrow> ad_error ad = None \<and> held E R p v (set (ad_locks ad) \<union> S) wd" for wd
      by (simp add: admission_held_def)
    show ?thesis
    proof (cases "ad_error ad")
      case None
      with True admitted [of "ad_locks ad"] P show ?thesis by (auto intro: triple_weaken)
    next
      case (Some e)
      with P show ?thesis by (auto simp: triple_def)
    qed
  next
    case False
    have "keeps (held E R p v S)
      (case ad_error ad of
         Some err \<Rightarrow>
           if ad_message ad = ''invalid scan target'' then do {
             _ \<leftarrow> fail_job E (job_ID job) (ad_message ad @ '': '' @ err);
             _ \<leftarrow> cleanupScanSecret E (cfg_AuthSecretRef (job_Config job));
             _ \<leftarrow> setScanProgress E job ScanJobStatusFailed w (ad_message ad) 0;
             State_Monad.return (True, Some err) }
           else requeue_with E w job (ad_message ad) (Some err) (ad_delay ad)
       | None \<Rightarrow> requeue_with E w job (ad_message ad) None (ad_delay ad))"
      by (intro triple_rules rules)
    with False show ?thesis
      by (auto simp: admission_held_def split: option.split elim!: triple_weaken)
  qed
  show ?thesis unfolding locked_job_def
    by (intro keeps_bind keeps_sum keeps_bool triple_rules rules triple_bind [OF held_acquire [OF assms] after])
qed

lemma held_processClaimedJob:
  assumes "lawful_redis E rt R v"
  shows "keeps (held E R p v S) (processClaimedJob E w limits job)"
proof -
  have rt: "we_runtime E = Some rt" "rr_Client rt = Some R" "redis_laws R" "redis_up R"
    using assms by (auto simp: lawful_redis_def)
  have lock: "triple (held E R p v S) (try_lock E rt key u)
      (\<lambda>a. held E R p v (case a of Inr (Some l) \<Rightarrow> insert l S | _ \<Rightarrow> S))" for key u
    unfolding try_lock_def rt(2) by (rule held_call [OF assms]) (rule held_TryLock [OF rt(3,4)])
  have locked: "triple (held E R p v (insert l S))
      (do { h \<leftarrow> locked_job E w limits job; _ \<leftarrow> release_lock E rt l; State_Monad.return h }) (\<lambda>_. held E R p v S)" for l
    by (intro triple_bind [OF held_locked_job [OF assms]] triple_bind [OF held_release [OF assms]] keeps_return)
  show ?thesis unfolding processClaimedJob_def rt(1) option.case
    by (intro keeps_if held_locked_job [OF assms] keeps_bind [OF keeps_new_id] triple_bind [OF lock])
      (auto split: sum.split option.split intro: locked held_replies [OF assms])
qed

subsection \<open>A worker to evaluate\<close>

definition sample_runtime :: "mem_redis_state redis_runtime" where
  "sample_runtime = \<lparr>rr_Client = Some mem_redis, rr_RateLimiter = True, rr_Locker = True, rr_Semaphore = True,
     rr_Progress = True, rr_KeyPrefix = ''k'', rr_ProgressTTL = 100, rr_ScanLockTTL = 100\<rparr>"

definition sample_worker :: "(scan_job list, mem_redis_state, nat) worker_env" where
  "sample_worker =
     \<lparr>we_jobs = mem_coll job_ID, we_runtime = Some sample_runtime, we_sha256 = id, we_marshal = (\<lambda>_. Inr ''{}''),
      we_clock = int, we_new_id = id, we_other_jobs = (\<lambda>_. id), we_other_redis = (\<lambda>_. id), we_other_rest = (\<lambda>_. id),
      we_Hex = itoa, we_FromHex = (\<lambda>s. Inr (digits_val s)),
      we_SaveScanProgressEvent = (\<lambda>x _. (Suc x, None)), we_load_secret = (\<lambda>_ _ _. Inl ErrNoDocuments),
      we_Decrypt = Inl ''scan secret encryption key is not configured'', we_DeleteScanSecret = (\<lambda>x _. (x, None)),
      we_Execute = (\<lambda>x _ _. (x, Inl (ExecError True ''context deadline exceeded''))),
      we_SaveScanResult = (\<lambda>x r. (x, Inr r)), we_UpsertIssue = (\<lambda>x _. (x, None)),
      we_Consume = (\<lambda>x. (x, Inl NoMessage)), we_Commit = (\<lambda>x _. (x, None)),
      we_Envelope = (\<lambda>_. Inl ''no envelope''), we_Event = (\<lambda>_. Inl ''no event'')\<rparr>"

lemma sample_lawful_jobs: "lawful_jobs sample_worker"
  unfolding lawful_jobs_def
proof (intro conjI allI impI)
  show "job_store (we_jobs sample_worker)" by (simp add: sample_worker_def mem_job_store)
  show "coll_up (we_jobs sample_worker)" by (simp add: coll_up_def sample_worker_def mem_coll_def)
  show "\<exists>evs. job_steps (coll_docs (we_jobs sample_worker) c) evs
      (coll_docs (we_jobs sample_worker) (we_other_jobs sample_worker n c))" for n c
    by (rule exI [of _ "[]"]) (simp add: sample_worker_def)
qed (simp add: sample_worker_def)

lemma sample_lawful_redis: "lawful_redis sample_worker sample_runtime mem_redis v"
  by (simp add: lawful_redis_def sample_worker_def sample_runtime_def mem_redis_laws redis_up_def)
    (simp add: mem_redis_def split: prod.split)

subsection \<open>Properties\<close>

text \<open>
  Property C18. While the job collection answers, a claimed job never gets stuck: if every find and
  every update of the collection of jobs is executed without an error (\<open>coll_up\<close>, a part of
  \<open>lawful_jobs\<close>), then on every path through \<open>processClaimedJob\<close> (lock refused, cancelled,
  not admitted, secret missing, scan failed or timed out, a result not saved, completed) the run it
  was given is over when the handler returns: the job is no longer running, or a later claim has
  started it again. Redis, the engine and the other collections may fail anywhere, and the other
  processes may do any steps of the job machine at any time. The hypothesis is needed: when the
  lookup of \<open>scanJobCancelled\<close> fails, or the update that ends the run does, the handler returns
  and leaves the job running.
\<close>

theorem claimed_job_run_ends:
  assumes "lawful_jobs E" "coll_ok (we_jobs E) (w_jobs w)"
    and "coll_docs (we_jobs E) (w_jobs w) (job_ID job) = Some j" "run_state (processClaimedJob E workerID limits job) w = (h, w')"
  shows "\<exists>j'. coll_docs (we_jobs E) (w_jobs w') (job_ID job) = Some j' \<and>
    (job_Status j' = ScanJobStatusRunning \<longrightarrow> job_Attempts j < job_Attempts j')"
proof -
  have "running_claim E (job_ID job) (job_Attempts j) w"
    using assms(2,3) by (auto simp: job_inv_def claimed_def claimed_in_def)
  with processClaimedJob_ends [OF assms(1) refl, where a = "job_Attempts j" and w = workerID and limits = limits and job = job] assms(4)
  have "run_over E (job_ID job) (job_Attempts j) w'" unfolding ends_def triple_def by (metis snd_conv)
  then show ?thesis by (auto simp: job_inv_def over_def over_in_def)
qed

theorem claimed_job_run_ends_witness:
  "(let j = sample_job 7 ''t'' ScanJobStatusRunning;
        w' = snd (run_state (processClaimedJob sample_worker ''w'' (LoadConfigFromEnv (\<lambda>_. [])) j)
               \<lparr>w_jobs = [j], w_redis = (\<lambda>_. None), w_rest = 0, w_tick = 0\<rparr>)
    in \<exists>j'. coll_docs (mem_coll job_ID) (w_jobs w') 7 = Some j' \<and>
         (job_Status j' = ScanJobStatusRunning \<longrightarrow> job_Attempts j < job_Attempts j'))"
proof -
  let ?j = "sample_job 7 ''t'' ScanJobStatusRunning"
  let ?w = "\<lparr>w_jobs = [?j], w_redis = (\<lambda>_. None), w_rest = 0, w_tick = 0\<rparr> :: (scan_job list, mem_redis_state, nat) world"
  have M: "we_jobs sample_worker = mem_coll job_ID" and i: "job_ID ?j = 7"
    by (simp_all add: sample_worker_def sample_job_def)
  have ok: "coll_ok (mem_coll job_ID) [?j]" "coll_docs (mem_coll job_ID) [?j] 7 = Some ?j"
    by (simp_all add: mem_coll_def mem_docs_def i)
  show ?thesis
    using claimed_job_run_ends [OF sample_lawful_jobs, unfolded M, of ?w ?j ?j _ _ "fst _" "snd _", OF _ _ prod.collapse [symmetric]] ok i
    by (simp add: Let_def)
qed

text \<open>
  Property C19. A worker leaves no lock behind: when Redis answers, for every value \<open>v\<close> that no
  other process writes, if no lock or semaphore key holds \<open>v\<close> before \<open>processClaimedJob\<close>, none
  does at any time after it returned; so on every path the scan lock and the admission slot it took are
  given back (or have expired), whatever the others do and however long the scan runs.
\<close>

theorem worker_gives_back_locks:
  assumes "lawful_redis E rt R v"
    and "\<And>t key. we_clock E (w_tick w) \<le> t \<Longrightarrow> coord_key (rr_KeyPrefix rt) key \<Longrightarrow> rd_get R (w_redis w) t key \<noteq> Some v"
    and "run_state (processClaimedJob E workerID limits job) w = (h, w')"
    and "we_clock E (w_tick w') \<le> t" "coord_key (rr_KeyPrefix rt) key"
  shows "rd_get R (w_redis w') t key \<noteq> Some v"
proof -
  have "held E R (rr_KeyPrefix rt) v {} w" using assms(2) by (auto simp: held_def held_at_def)
  with held_processClaimedJob [OF assms(1)] assms(3) have "held E R (rr_KeyPrefix rt) v {} w'"
    unfolding triple_def by (metis snd_conv)
  with assms(4,5) show ?thesis by (auto simp: held_def held_at_def)
qed

theorem worker_gives_back_locks_witness:
  "rd_get mem_redis (w_redis (snd (run_state (processClaimedJob sample_worker ''w'' (LoadConfigFromEnv (\<lambda>_. []))
      (sample_job 7 ''t'' ScanJobStatusRunning)) \<lparr>w_jobs = [sample_job 7 ''t'' ScanJobStatusRunning], w_redis = (\<lambda>_. None), w_rest = 0, w_tick = 0\<rparr>)))
    (int (w_tick (snd (run_state (processClaimedJob sample_worker ''w'' (LoadConfigFromEnv (\<lambda>_. []))
      (sample_job 7 ''t'' ScanJobStatusRunning)) \<lparr>w_jobs = [sample_job 7 ''t'' ScanJobStatusRunning], w_redis = (\<lambda>_. None), w_rest = 0, w_tick = 0\<rparr>))))
    (plainKey ''k'' [''lock'', ScanJobLockKey ''7'']) \<noteq> Some ''w:0''"
proof (rule worker_gives_back_locks [OF sample_lawful_redis _ prod.collapse [symmetric]])
  show "coord_key (rr_KeyPrefix sample_runtime) (plainKey ''k'' [''lock'', ScanJobLockKey ''7''])"
    by (auto simp: coord_key_def sample_runtime_def)
qed (simp_all add: mem_redis_def mr_get_def sample_worker_def)

text \<open>The handlers outside the scan do not depend on the engine.\<close>

lemma engine_unused:
  "clock_now (E\<lparr>we_Execute := ex\<rparr>) = clock_now E" "new_id (E\<lparr>we_Execute := ex\<rparr>) = new_id E"
  "try_lock (E\<lparr>we_Execute := ex\<rparr>) = try_lock E" "requeue_with (E\<lparr>we_Execute := ex\<rparr>) = requeue_with E"
proof -
  show c: "clock_now (E\<lparr>we_Execute := ex\<rparr>) = clock_now E" by (simp add: clock_now_def)
  then have "setScanProgress (E\<lparr>we_Execute := ex\<rparr>) = setScanProgress E"
    by (cases "we_runtime E") (simp_all add: setScanProgress_def fun_eq_iff)
  with c show "requeue_with (E\<lparr>we_Execute := ex\<rparr>) = requeue_with E"
    by (simp add: requeue_with_def requeue_job_def fun_eq_iff)
  from c show "try_lock (E\<lparr>we_Execute := ex\<rparr>) = try_lock E" by (simp add: try_lock_def fun_eq_iff)
qed (simp add: new_id_def)

text \<open>
  Two workers never scan one job at a time: when a lock of the job is held as the worker
  asks for it, its handler behaves the same with every engine, that is, it never starts a scan; it reports
  the job as processed and goes back to the queue.
\<close>

theorem held_lock_prevents_scan:
  assumes "redis_laws R" "we_runtime E = Some rt" "rr_Client rt = Some R" "rr_Locker rt"
    and "rd_get R (we_other_redis E (w_tick w) (w_redis w)) (we_clock E (w_tick w))
      (plainKey (rr_KeyPrefix rt) [''lock'', ScanJobLockKey (we_Hex E (job_ID job))]) = Some u"
  shows "run_state (processClaimedJob (E\<lparr>we_Execute := ex\<rparr>) workerID limits job) w
      = run_state (processClaimedJob E workerID limits job) w \<and>
    fst (fst (run_state (processClaimedJob E workerID limits job) w))"
proof -
  let ?key = "ScanJobLockKey (we_Hex E (job_ID job))"
  let ?v = "workerID @ '':'' @ we_Hex E (we_new_id E (w_tick w))"
  obtain r l where l: "TryLock (Some R) (rr_KeyPrefix rt) (we_clock E (w_tick w))
      (we_other_redis E (w_tick w) (w_redis w)) ?key ?v (rr_ScanLockTTL rt) = (r, l)" by fastforce
  with redis_laws.TryLock_refused [OF assms(1,5)] have no: "l \<noteq> Inr (Some lock)" for lock by (metis snd_conv)
  obtain w1 where w1: "run_state (try_lock E rt ?key ?v) w = (l, w1)"
    using l assms(3) by (simp add: try_lock_def clock_now_def on_redis_def)
  have id: "run_state (new_id E) w = (we_new_id E (w_tick w), w)" by (simp add: new_id_def)
  have req: "fst (fst (run_state (requeue_with E workerID job msg err d) w1))" for msg err d
    by (simp add: requeue_with_def split: prod.split)
  show ?thesis
  proof (cases l)
    case (Inl e)
    then show ?thesis using w1 req
      by (simp add: processClaimedJob_def assms(2,4) engine_unused id)
  next
    case (Inr x)
    with no have "x = None" by (cases x) auto
    with Inr show ?thesis using w1 req
      by (simp add: processClaimedJob_def assms(2,4) engine_unused id)
  qed
qed

theorem held_lock_prevents_scan_witness:
  "fst (fst (run_state (processClaimedJob sample_worker ''w'' (LoadConfigFromEnv (\<lambda>_. [])) (sample_job 7 ''t'' ScanJobStatusRunning))
     \<lparr>w_jobs = [], w_redis = [plainKey ''k'' [''lock'', ScanJobLockKey (itoa 7)] \<mapsto> (''other'', None)], w_rest = 0, w_tick = 0\<rparr>))"
proof (rule held_lock_prevents_scan [OF mem_redis_laws, THEN conjunct2])
  show "we_runtime sample_worker = Some sample_runtime" "rr_Client sample_runtime = Some mem_redis" "rr_Locker sample_runtime"
    by (simp_all add: sample_worker_def sample_runtime_def)
qed (simp add: sample_worker_def sample_runtime_def sample_job_def mem_redis_def mr_get_def)

end
