(* ===== verification/Scan_Policy.thy ===== *)
theory Scan_Policy
  imports Go_Url
begin

text \<open>
  The scan target policy of \<open>internal/scanpolicy/target.go\<close>: which URLs the scanner may be
  pointed at. The name resolver (\<open>p.Resolver\<close>, or the system's when it is nil) is a parameter
  that maps a host to an error or to addresses, an address being \<^const>\<open>None\<close> for a nil
  \<open>net.IP\<close>; its context and time limit are not modelled. The environment is a function from
  variables to values, the empty string when unset.
\<close>

datatype target_error = ErrTargetURLInvalid | ErrTargetDenied | ErrTargetNotAllowed
  | ErrTargetPrivateNetwork | ErrTargetMetadata

record target_policy =
  AllowPrivateTargets :: bool
  Allowlist :: "string list"
  Denylist :: "string list"

type_synonym resolver = "string \<Rightarrow> string + ip option list"
type_synonym env = "string \<Rightarrow> string"

definition splitCSVEnv :: "env \<Rightarrow> string \<Rightarrow> string list" where
  "splitCSVEnv env key = (let raw = trim_space (env key) in
     if raw = [] then [] else filter (\<lambda>p. p \<noteq> []) (map trim_space (split_on (CHR '','') raw)))"

definition boolEnvDefault :: "env \<Rightarrow> string \<Rightarrow> bool \<Rightarrow> bool" where
  "boolEnvDefault env key fallback = (let raw = trim_space (env key) in
     if raw = [] then fallback
     else if to_lower raw \<in> set [''1'', ''true'', ''yes'', ''y'', ''on''] then True
     else if to_lower raw \<in> set [''0'', ''false'', ''no'', ''n'', ''off''] then False
     else fallback)"

definition isProduction :: "env \<Rightarrow> bool" where
  "isProduction env = equal_fold (trim_space (env ''KARAXYS_ENV'')) ''production''"

definition LoadTargetPolicyFromEnv :: "env \<Rightarrow> target_policy" where
  "LoadTargetPolicyFromEnv env =
     \<lparr>AllowPrivateTargets = boolEnvDefault env ''KARAXYS_SCAN_ALLOW_PRIVATE_TARGETS'' (\<not> isProduction env),
      Allowlist = splitCSVEnv env ''KARAXYS_SCAN_TARGET_ALLOWLIST'',
      Denylist = splitCSVEnv env ''KARAXYS_SCAN_TARGET_DENYLIST''\<rparr>"

definition mustCIDRs :: "string list \<Rightarrow> ipnet list option" where
  "mustCIDRs values0 = (let ns = map ParseCIDR values0 in if None \<in> set ns then None else Some (map the ns))"

definition reservedCIDRs :: "string list" where
  "reservedCIDRs = [''0.0.0.0/8'', ''100.64.0.0/10'', ''127.0.0.0/8'', ''169.254.0.0/16'', ''192.0.0.0/24'',
     ''192.0.2.0/24'', ''198.18.0.0/15'', ''198.51.100.0/24'', ''203.0.113.0/24'', ''224.0.0.0/4'',
     ''240.0.0.0/4'', ''::/128'', ''::1/128'', ''fc00::/7'', ''fe80::/10'', ''ff00::/8'', ''2001:db8::/32'']"

definition metadataCIDRs :: "string list" where
  "metadataCIDRs = [''169.254.169.254/32'', ''100.100.100.200/32'', ''fd00:ec2::254/128'']"

definition reservedNetworks :: "ipnet list" where
  "reservedNetworks = (case mustCIDRs reservedCIDRs of None \<Rightarrow> [] | Some ns \<Rightarrow> ns)"

definition metadataNetworks :: "ipnet list" where
  "metadataNetworks = (case mustCIDRs metadataCIDRs of None \<Rightarrow> [] | Some ns \<Rightarrow> ns)"

definition isPrivateOrReserved :: "ip option \<Rightarrow> bool" where
  "isPrivateOrReserved ip0 =
     (case ip0 of
        None \<Rightarrow> True
      | Some a \<Rightarrow>
          if IsLoopback a \<or> IsPrivate a \<or> IsLinkLocalUnicast a \<or> IsLinkLocalMulticast a \<or> IsMulticast a \<or> IsUnspecified a
          then True
          else list_ex (\<lambda>cidr. net_Contains cidr (Some a)) reservedNetworks)"

definition host_key :: "string \<Rightarrow> string" where
  "host_key host = to_lower (trim_suffix (trim_space host) ''.'')"

definition isMetadataEndpoint :: "string \<Rightarrow> ip option \<Rightarrow> bool" where
  "isMetadataEndpoint host ip0 =
     (if host_key host \<in> set [''metadata'', ''metadata.google.internal''] then True
      else list_ex (\<lambda>cidr. net_Contains cidr ip0) metadataNetworks)"

definition matchTargetPattern :: "string \<Rightarrow> ip option list \<Rightarrow> string \<Rightarrow> bool" where
  "matchTargetPattern host0 ips pattern0 =
     (let pattern = to_lower (trim_space pattern0); host = host_key host0 in
      if pattern = [] then False
      else (case ParseCIDR pattern of
          Some network \<Rightarrow> list_ex (net_Contains network) ips
        | None \<Rightarrow>
            (case ParseIP pattern of
               Some a \<Rightarrow> list_ex (\<lambda>c. c = Some a) ips
             | None \<Rightarrow>
                 (let p = trim_suffix pattern ''.'' in
                  if has_prefix p ''*.'' then has_suffix host (trim_prefix p ''*'') else host = p))))"

definition matchesAny :: "string \<Rightarrow> ip option list \<Rightarrow> string list \<Rightarrow> bool" where
  "matchesAny host ips patterns = list_ex (matchTargetPattern host ips) patterns"

definition resolve_target :: "resolver \<Rightarrow> string \<Rightarrow> string + ip option list" where
  "resolve_target resolver host = (case ParseIP host of Some a \<Rightarrow> Inr [Some a] | None \<Rightarrow> resolver host)"

text \<open>\<open>net.LookupPort\<close> on a port that \<open>Parse\<close> has accepted: a decimal number.\<close>

definition valid_port :: "string \<Rightarrow> bool" where
  "valid_port port \<longleftrightarrow> digits_val port \<le> 65535"

fun check_addresses :: "target_policy \<Rightarrow> string \<Rightarrow> ip option list \<Rightarrow> target_error option" where
  "check_addresses p host [] = None"
| "check_addresses p host (a # as) =
     (if isMetadataEndpoint host a then Some ErrTargetMetadata
      else if \<not> AllowPrivateTargets p \<and> isPrivateOrReserved a then Some ErrTargetPrivateNetwork
      else check_addresses p host as)"

text \<open>\<^const>\<open>None\<close> is the accepting \<open>nil\<close> error.\<close>

definition ValidateTargetURL :: "target_policy \<Rightarrow> resolver \<Rightarrow> string \<Rightarrow> target_error option" where
  "ValidateTargetURL p resolver raw0 =
     (let raw = trim_space raw0 in
      case url_Parse raw of
        None \<Rightarrow> Some ErrTargetURLInvalid
      | Some parsed \<Rightarrow>
          if u_Host parsed = [] then Some ErrTargetURLInvalid
          else if u_User parsed \<noteq> None then Some ErrTargetURLInvalid
          else if to_lower (u_Scheme parsed) \<notin> set [''http'', ''https''] then Some ErrTargetURLInvalid
          else (let host = trim_space (Hostname parsed) in
            if host = [] then Some ErrTargetURLInvalid
            else if Port parsed \<noteq> [] \<and> \<not> valid_port (Port parsed) then Some ErrTargetURLInvalid
            else (case resolve_target resolver host of
                Inl _ \<Rightarrow> Some ErrTargetURLInvalid
              | Inr ips \<Rightarrow>
                  if ips = [] then Some ErrTargetURLInvalid
                  else if matchesAny host ips (Denylist p) then Some ErrTargetDenied
                  else if Allowlist p \<noteq> [] \<and> \<not> matchesAny host ips (Allowlist p) then Some ErrTargetNotAllowed
                  else check_addresses p host ips)))"

subsection \<open>The network tables\<close>

lemma reservedCIDRs_parse:
  "map ParseCIDR reservedCIDRs = map Some
    [\<lparr>net_IP = v4_bytes [0, 0, 0, 0], net_Bits = 104\<rparr>, \<lparr>net_IP = v4_bytes [100, 64, 0, 0], net_Bits = 106\<rparr>,
     \<lparr>net_IP = v4_bytes [127, 0, 0, 0], net_Bits = 104\<rparr>, \<lparr>net_IP = v4_bytes [169, 254, 0, 0], net_Bits = 112\<rparr>,
     \<lparr>net_IP = v4_bytes [192, 0, 0, 0], net_Bits = 120\<rparr>, \<lparr>net_IP = v4_bytes [192, 0, 2, 0], net_Bits = 120\<rparr>,
     \<lparr>net_IP = v4_bytes [198, 18, 0, 0], net_Bits = 111\<rparr>, \<lparr>net_IP = v4_bytes [198, 51, 100, 0], net_Bits = 120\<rparr>,
     \<lparr>net_IP = v4_bytes [203, 0, 113, 0], net_Bits = 120\<rparr>, \<lparr>net_IP = v4_bytes [224, 0, 0, 0], net_Bits = 100\<rparr>,
     \<lparr>net_IP = v4_bytes [240, 0, 0, 0], net_Bits = 100\<rparr>, \<lparr>net_IP = 0, net_Bits = 128\<rparr>,
     \<lparr>net_IP = 1, net_Bits = 128\<rparr>, \<lparr>net_IP = 0xFC000000000000000000000000000000, net_Bits = 7\<rparr>,
     \<lparr>net_IP = 0xFE800000000000000000000000000000, net_Bits = 10\<rparr>,
     \<lparr>net_IP = 0xFF000000000000000000000000000000, net_Bits = 8\<rparr>,
     \<lparr>net_IP = 0x20010DB8000000000000000000000000, net_Bits = 32\<rparr>]"
  by (simp add: reservedCIDRs_def ip_eval)

lemma metadataCIDRs_parse:
  "map ParseCIDR metadataCIDRs = map Some
    [\<lparr>net_IP = v4_bytes [169, 254, 169, 254], net_Bits = 128\<rparr>, \<lparr>net_IP = v4_bytes [100, 100, 100, 200], net_Bits = 128\<rparr>,
     \<lparr>net_IP = 0xFD000EC2000000000000000000000254, net_Bits = 128\<rparr>]"
  by (simp add: metadataCIDRs_def ip_eval)

lemma mustCIDRs_Some: "map ParseCIDR vs = map Some ns \<Longrightarrow> mustCIDRs vs = Some ns"
  by (simp add: mustCIDRs_def Let_def comp_def image_iff)

lemmas reservedNetworks_table = mustCIDRs_Some [OF reservedCIDRs_parse]
lemmas metadataNetworks_table = mustCIDRs_Some [OF metadataCIDRs_parse]

subsection \<open>IPv4 addresses\<close>

lemma digit_eq: "q < k \<Longrightarrow> q' < k \<Longrightarrow> x * k + q = x' * k + q' \<longleftrightarrow> x = x' \<and> q = q'"
  for x x' q q' k :: nat
proof
  assume k: "q < k" "q' < k" and eq: "x * k + q = x' * k + q'"
  have "(x * k + q) div k = x" "(x' * k + q') div k = x'" "(x * k + q) mod k = q" "(x' * k + q') mod k = q'"
    using k by simp_all
  with eq show "x = x' \<and> q = q'" by metis
qed simp

lemma digit_div: "(x * 256 + y) div 64 = x * 4 + y div 64" "(x * 256 + y) div 2 = x * 128 + y div 2"
  "(x * 256 + y) div 16 = x * 16 + y div 16" for x y :: nat
  using div_mult_self3 [of 64 "x * 4" y] div_mult_self3 [of 2 "x * 128" y] div_mult_self3 [of 16 "x * 16" y]
  by (simp_all add: mult.commute mult.left_commute)

lemma horner:
  fixes x x' y y' :: nat
  assumes "y < 256" "y' < 256"
  shows "x * 256 + y = x' * 256 + y' \<longleftrightarrow> x = x' \<and> y = y'"
    "(x * 256 + y) div 64 = (x' * 256 + y') div 64 \<longleftrightarrow> x = x' \<and> y div 64 = y' div 64"
    "(x * 256 + y) div 2 = (x' * 256 + y') div 2 \<longleftrightarrow> x = x' \<and> y div 2 = y' div 2"
    "(x * 256 + y) div 16 = (x' * 256 + y') div 16 \<longleftrightarrow> x = x' \<and> y div 16 = y' div 16"
  unfolding digit_div
  using digit_eq [of y 256 y' x x'] digit_eq [of "y div 64" 4 "y' div 64" x x']
    digit_eq [of "y div 2" 128 "y' div 2" x x'] digit_eq [of "y div 16" 16 "y' div 16" x x'] assms
  by simp_all

lemma v4_div_more:
  assumes "octets a b c d"
  shows "v4_nat a b c d div 2 ^ 17 = ((65535 * 256 + a) * 256 + b) div 2"
    "v4_nat a b c d div 2 ^ 22 = ((65535 * 256 + a) * 256 + b) div 64"
    "v4_nat a b c d div 2 ^ 28 = (65535 * 256 + a) div 16"
proof -
  have s: "n div 2 ^ (k + j) = n div 2 ^ k div 2 ^ j" for n k j :: nat
    by (simp only: power_add div_mult2_eq)
  show "v4_nat a b c d div 2 ^ 17 = ((65535 * 256 + a) * 256 + b) div 2"
    using s [of _ 16 1] by (simp add: v4_div(2) [OF assms, simplified])
  show "v4_nat a b c d div 2 ^ 22 = ((65535 * 256 + a) * 256 + b) div 64"
    using s [of _ 16 6] by (simp add: v4_div(2) [OF assms, simplified])
  show "v4_nat a b c d div 2 ^ 28 = (65535 * 256 + a) div 16"
    using s [of _ 24 4] by (simp add: v4_div(3) [OF assms, simplified])
qed

text \<open>Membership of an IPv4 address in an IPv4 network, for the prefix lengths of the tables.\<close>

lemma net_v4_iff:
  assumes o: "octets a b c d" and o': "octets a' b' c' d'" and n: "n \<le> 128"
  shows "net_Contains \<lparr>net_IP = v4_bytes [a', b', c', d'], net_Bits = n\<rparr> (Some (v4_bytes [a, b, c, d])) \<longleftrightarrow>
    v4_nat a' b' c' d' div 2 ^ (128 - n) = v4_nat a b c d div 2 ^ (128 - n)"
  using net_Contains_v4 [OF o, of "\<lparr>net_IP = v4_bytes [a', b', c', d'], net_Bits = n\<rparr>"] n is4_v4 [OF o']
  by (simp add: unat_drop_v4 [OF o'])

lemma nets_by_prefix:
  assumes o: "octets a b c d" and o': "octets a' b' c' d'"
  shows "net_Contains \<lparr>net_IP = v4_bytes [a', b', c', d'], net_Bits = 100\<rparr> (Some (v4_bytes [a, b, c, d])) \<longleftrightarrow>
      a' div 16 = a div 16"
    "net_Contains \<lparr>net_IP = v4_bytes [a', b', c', d'], net_Bits = 104\<rparr> (Some (v4_bytes [a, b, c, d])) \<longleftrightarrow> a' = a"
    "net_Contains \<lparr>net_IP = v4_bytes [a', b', c', d'], net_Bits = 106\<rparr> (Some (v4_bytes [a, b, c, d])) \<longleftrightarrow>
      a' = a \<and> b' div 64 = b div 64"
    "net_Contains \<lparr>net_IP = v4_bytes [a', b', c', d'], net_Bits = 111\<rparr> (Some (v4_bytes [a, b, c, d])) \<longleftrightarrow>
      a' = a \<and> b' div 2 = b div 2"
    "net_Contains \<lparr>net_IP = v4_bytes [a', b', c', d'], net_Bits = 112\<rparr> (Some (v4_bytes [a, b, c, d])) \<longleftrightarrow>
      a' = a \<and> b' = b"
    "net_Contains \<lparr>net_IP = v4_bytes [a', b', c', d'], net_Bits = 120\<rparr> (Some (v4_bytes [a, b, c, d])) \<longleftrightarrow>
      a' = a \<and> b' = b \<and> c' = c"
    "net_Contains \<lparr>net_IP = v4_bytes [a', b', c', d'], net_Bits = 128\<rparr> (Some (v4_bytes [a, b, c, d])) \<longleftrightarrow>
      a' = a \<and> b' = b \<and> c' = c \<and> d' = d"
proof -
  have l: "a < 256" "b < 256" "c < 256" "d < 256" "a' < 256" "b' < 256" "c' < 256" "d' < 256"
    using o o' by (simp_all add: octets_def)
  have e: "128 - 100 = (28::nat)" "128 - 104 = (24::nat)" "128 - 106 = (22::nat)" "128 - 111 = (17::nat)"
    "128 - 112 = (16::nat)" "128 - 120 = (8::nat)" "128 - 128 = (0::nat)" by simp_all
  note iff = net_v4_iff [OF o o']
  note dv = v4_div [OF o] v4_div [OF o'] v4_div_more [OF o] v4_div_more [OF o']
  show "net_Contains \<lparr>net_IP = v4_bytes [a', b', c', d'], net_Bits = 100\<rparr> (Some (v4_bytes [a, b, c, d])) \<longleftrightarrow>
      a' div 16 = a div 16"
    by (subst iff) (simp_all only: e dv horner(4) [OF l(5) l(1)], simp_all)
  show "net_Contains \<lparr>net_IP = v4_bytes [a', b', c', d'], net_Bits = 104\<rparr> (Some (v4_bytes [a, b, c, d])) \<longleftrightarrow> a' = a"
    by (subst iff) (simp_all only: e dv horner(1) [OF l(5) l(1)], simp_all)
  show "net_Contains \<lparr>net_IP = v4_bytes [a', b', c', d'], net_Bits = 106\<rparr> (Some (v4_bytes [a, b, c, d])) \<longleftrightarrow>
      a' = a \<and> b' div 64 = b div 64"
    by (subst iff) (simp_all only: e dv horner(2) [OF l(6) l(2)] horner(1) [OF l(5) l(1)], simp_all)
  show "net_Contains \<lparr>net_IP = v4_bytes [a', b', c', d'], net_Bits = 111\<rparr> (Some (v4_bytes [a, b, c, d])) \<longleftrightarrow>
      a' = a \<and> b' div 2 = b div 2"
    by (subst iff) (simp_all only: e dv horner(3) [OF l(6) l(2)] horner(1) [OF l(5) l(1)], simp_all)
  note h = horner(1) [OF l(8) l(4)] horner(1) [OF l(7) l(3)] horner(1) [OF l(6) l(2)] horner(1) [OF l(5) l(1)]
  show "net_Contains \<lparr>net_IP = v4_bytes [a', b', c', d'], net_Bits = 112\<rparr> (Some (v4_bytes [a, b, c, d])) \<longleftrightarrow>
      a' = a \<and> b' = b"
    by (subst iff) (simp_all only: e dv h, simp_all)
  show "net_Contains \<lparr>net_IP = v4_bytes [a', b', c', d'], net_Bits = 120\<rparr> (Some (v4_bytes [a, b, c, d])) \<longleftrightarrow>
      a' = a \<and> b' = b \<and> c' = c"
    by (subst iff) (simp_all only: e dv h, simp_all)
  show "net_Contains \<lparr>net_IP = v4_bytes [a', b', c', d'], net_Bits = 128\<rparr> (Some (v4_bytes [a, b, c, d])) \<longleftrightarrow>
      a' = a \<and> b' = b \<and> c' = c \<and> d' = d"
    by (subst iff) (simp_all only: e power_0 div_by_1 v4_nat_def h, simp_all)
qed

lemma net_v6_iff:
  "octets a b c d \<Longrightarrow> drop_bit 32 x \<noteq> 0xFFFF \<Longrightarrow>
    \<not> net_Contains \<lparr>net_IP = x, net_Bits = n\<rparr> (Some (v4_bytes [a, b, c, d]))"
  using is4_v4 [of a b c d] by (simp add: net_Contains_def is4_def)

lemma div_eq_iff: "0 < k \<Longrightarrow> n div k = q \<longleftrightarrow> k * q \<le> n \<and> n < k * Suc q" for n k q :: nat
  using times_div_less_eq_dividend [of k n] dividend_less_times_div [of k n]
  by (auto intro: div_nat_eqI)

lemma reserved_v4:
  assumes o: "octets a b c d"
  shows "isPrivateOrReserved (Some (v4_bytes [a, b, c, d])) \<longleftrightarrow>
    a \<in> {0, 10, 127} \<or> 224 \<le> a \<or> a = 100 \<and> 64 \<le> b \<and> b < 128 \<or> a = 169 \<and> b = 254 \<or>
    a = 172 \<and> 16 \<le> b \<and> b < 32 \<or> a = 192 \<and> (b = 168 \<or> b = 0 \<and> c \<in> {0, 2}) \<or>
    a = 198 \<and> (18 \<le> b \<and> b < 20 \<or> b = 51 \<and> c = 100) \<or> a = 203 \<and> b = 0 \<and> c = 113"
proof -
  let ?v = "v4_bytes [a, b, c, d]"
  have l: "a < 256" "b < 256" using o by (simp_all add: octets_def)
  have dv: "Suc 0 = b div 64 \<longleftrightarrow> 64 \<le> b \<and> b < 128" "b div 2 = 9 \<longleftrightarrow> 18 \<le> b \<and> b < 20"
    "a div 16 = 14 \<longleftrightarrow> 224 \<le> a \<and> a < 240" "a div 16 = 15 \<longleftrightarrow> 240 \<le> a"
    "b div 16 = 1 \<longleftrightarrow> 16 \<le> b \<and> b < 32"
    using l by (simp_all add: div_eq_iff eq_commute [of "Suc 0"])
  have nets: "list_ex (\<lambda>cidr. net_Contains cidr (Some ?v)) reservedNetworks \<longleftrightarrow>
     a = 0 \<or> a = 100 \<and> 64 \<le> b \<and> b < 128 \<or> a = 127 \<or> a = 169 \<and> b = 254 \<or> a = 192 \<and> b = 0 \<and> c = 0 \<or>
     a = 192 \<and> b = 0 \<and> c = 2 \<or> a = 198 \<and> 18 \<le> b \<and> b < 20 \<or> a = 198 \<and> b = 51 \<and> c = 100 \<or>
     a = 203 \<and> b = 0 \<and> c = 113 \<or> 224 \<le> a \<and> a < 240 \<or> 240 \<le> a"
    by (simp add: reservedNetworks_def reservedNetworks_table nets_by_prefix [OF o] net_v6_iff [OF o] octets_def
        dv)
  have classes: "IsLoopback ?v \<longleftrightarrow> a = 127" "IsLinkLocalUnicast ?v \<longleftrightarrow> a = 169 \<and> b = 254"
    "IsPrivate ?v \<longleftrightarrow> a = 10 \<or> a = 172 \<and> b div 16 = 1 \<or> a = 192 \<and> b = 168"
    "IsLinkLocalMulticast ?v \<longleftrightarrow> a = 224 \<and> b = 0 \<and> c = 0" "IsMulticast ?v \<longleftrightarrow> a div 16 = 14"
    by (simp_all add: IsLoopback_def IsPrivate_def IsLinkLocalUnicast_def IsLinkLocalMulticast_def IsMulticast_def
        is4_v4 [OF o] ip_byte_v4 [OF o])
  have uns: "IsUnspecified ?v \<Longrightarrow> a = 0"
    using is4_v4 [OF o] ip_byte_v4(1) [OF o] ip_byte_v4(1) [of 0 0 0 0]
    by (auto simp: IsUnspecified_def is4_def octets_def)
  have iff: "isPrivateOrReserved (Some ?v) \<longleftrightarrow> IsLoopback ?v \<or> IsPrivate ?v \<or> IsLinkLocalUnicast ?v \<or>
      IsLinkLocalMulticast ?v \<or> IsMulticast ?v \<or> IsUnspecified ?v \<or>
      list_ex (\<lambda>cidr. net_Contains cidr (Some ?v)) reservedNetworks"
    by (simp add: isPrivateOrReserved_def)
  have sp: "a < 240 \<or> 240 \<le> a" by auto
  show ?thesis
    unfolding iff nets classes dv insert_iff empty_iff
    using uns sp by (intro iffI; elim disjE conjE) (simp | blast)+
qed

lemma metadata_v4:
  assumes "octets a b c d" "(a, b, c, d) \<in> {(169, 254, 169, 254), (100, 100, 100, 200)}"
  shows "isMetadataEndpoint host (Some (v4_bytes [a, b, c, d]))"
  using assms nets_by_prefix(7) [OF assms(1)]
  by (auto simp: isMetadataEndpoint_def metadataNetworks_def metadataNetworks_table octets_def)

subsection \<open>What an accepted target satisfies\<close>

lemma check_addresses_None:
  "check_addresses p host ips = None \<longleftrightarrow>
     (\<forall>a \<in> set ips. \<not> isMetadataEndpoint host a \<and> (AllowPrivateTargets p \<or> \<not> isPrivateOrReserved a))"
  by (induction ips) auto

definition target_ok :: "target_policy \<Rightarrow> resolver \<Rightarrow> string \<Rightarrow> ip option list \<Rightarrow> bool" where
  "target_ok p resolver raw ips \<longleftrightarrow>
     (\<exists>u. url_Parse (trim_space raw) = Some u \<and> u_User u = None \<and> to_lower (u_Scheme u) \<in> {''http'', ''https''} \<and>
       resolve_target resolver (trim_space (Hostname u)) = Inr ips \<and> ips \<noteq> [] \<and>
       \<not> matchesAny (trim_space (Hostname u)) ips (Denylist p) \<and>
       (Allowlist p = [] \<or> matchesAny (trim_space (Hostname u)) ips (Allowlist p)) \<and>
       (\<forall>a \<in> set ips. \<not> isMetadataEndpoint (trim_space (Hostname u)) a \<and>
          (AllowPrivateTargets p \<or> \<not> isPrivateOrReserved a)))"

lemma ValidateTargetURL_target_ok:
  "ValidateTargetURL p resolver raw = None \<Longrightarrow> \<exists>ips. target_ok p resolver raw ips"
  by (auto simp: ValidateTargetURL_def target_ok_def Let_def check_addresses_None
      split: option.splits if_splits sum.splits)

lemma target_ok_address:
  assumes "target_ok p resolver raw ips" "a \<in> set ips"
  shows "\<exists>host. \<not> isMetadataEndpoint host a" "AllowPrivateTargets p \<or> \<not> isPrivateOrReserved a"
  using assms by (auto simp: target_ok_def)

lemmas url_eval = url_Parse_def parse_url_def get_scheme_def count_char_def set_path_def parseAuthority_def
  parseHost_def port_part_def validOptionalPort_def cut_last_def cut_at_def Let_def zero_url_def
  is_letter_def is_upper_def is_lower_def is_digit_def shouldEscape_def split_host_port_def Hostname_def
  Port_def to_lower_def lower_char_def trim_space_def trim_left_def trim_right_def is_space_def

definition sample_policy :: target_policy where
  "sample_policy = \<lparr>AllowPrivateTargets = False, Allowlist = [], Denylist = []\<rparr>"

definition sample_url :: url where
  "sample_url = zero_url\<lparr>u_Scheme := ''https'', u_Host := ''8.8.8.8'', u_Path := ''/x''\<rparr>"

lemma sample_facts:
  "url_Parse ''https://8.8.8.8/x'' = Some sample_url" "Hostname sample_url = ''8.8.8.8''" "Port sample_url = []"
  "trim_space ''https://8.8.8.8/x'' = ''https://8.8.8.8/x''" "trim_space ''8.8.8.8'' = ''8.8.8.8''"
  "u_User sample_url = None" "to_lower (u_Scheme sample_url) = ''https''" "u_Host sample_url = ''8.8.8.8''"
  "ParseIP ''8.8.8.8'' = Some (v4_bytes [8, 8, 8, 8])"
  "\<not> isMetadataEndpoint ''8.8.8.8'' (Some (v4_bytes [8, 8, 8, 8]))"
  "\<not> isPrivateOrReserved (Some (v4_bytes [8, 8, 8, 8]))"
proof -
  have o: "octets 8 8 8 8" by (simp add: octets_def)
  show "url_Parse ''https://8.8.8.8/x'' = Some sample_url" "Hostname sample_url = ''8.8.8.8''"
    "Port sample_url = []" "trim_space ''https://8.8.8.8/x'' = ''https://8.8.8.8/x''"
    "trim_space ''8.8.8.8'' = ''8.8.8.8''" "u_User sample_url = None"
    "to_lower (u_Scheme sample_url) = ''https''" "u_Host sample_url = ''8.8.8.8''"
    by (simp_all add: url_eval sample_url_def)
  show "ParseIP ''8.8.8.8'' = Some (v4_bytes [8, 8, 8, 8])" by (simp add: ParseIP_def ip_eval)
  show "\<not> isMetadataEndpoint ''8.8.8.8'' (Some (v4_bytes [8, 8, 8, 8]))"
    by (simp add: isMetadataEndpoint_def metadataNetworks_def metadataNetworks_table nets_by_prefix [OF o]
        net_v6_iff [OF o] octets_def host_key_def trim_suffix_def url_eval)
  show "\<not> isPrivateOrReserved (Some (v4_bytes [8, 8, 8, 8]))" by (simp add: reserved_v4 [OF o])
qed

lemma sample_validate: "ValidateTargetURL sample_policy (\<lambda>_. Inr []) ''https://8.8.8.8/x'' = None"
  by (simp add: ValidateTargetURL_def Let_def sample_facts resolve_target_def matchesAny_def)
    (simp add: sample_policy_def)

lemma sample_target_ok: "target_ok sample_policy (\<lambda>_. Inr []) ''https://8.8.8.8/x'' [Some (v4_bytes [8, 8, 8, 8])]"
  by (simp add: target_ok_def sample_facts resolve_target_def matchesAny_def)
    (simp add: sample_policy_def)

text \<open>
  Property C20. A URL that \<open>ValidateTargetURL\<close> accepts is an http or https URL without
  userinfo whose host resolves to at least one address, the denylist matches none of them, the
  allowlist (when there is one) matches, and no address is a metadata endpoint, nor private or
  reserved unless private targets are allowed; in particular the cloud metadata addresses
  169.254.169.254 and 100.100.100.200 are refused under every policy.
\<close>

theorem ValidateTargetURL_safe:
  assumes "ValidateTargetURL p resolver raw = None"
  shows "\<exists>ips. target_ok p resolver raw ips \<and>
    Some (v4_bytes [169, 254, 169, 254]) \<notin> set ips \<and> Some (v4_bytes [100, 100, 100, 200]) \<notin> set ips"
proof -
  obtain ips where ips: "target_ok p resolver raw ips" using ValidateTargetURL_target_ok [OF assms] by blast
  have "isMetadataEndpoint host (Some (v4_bytes [169, 254, 169, 254]))"
    "isMetadataEndpoint host (Some (v4_bytes [100, 100, 100, 200]))" for host
    by (rule metadata_v4; simp add: octets_def)+
  with ips target_ok_address(1) [OF ips] show ?thesis by blast
qed

theorem ValidateTargetURL_safe_witness:
  "\<exists>ips. target_ok sample_policy (\<lambda>_. Inr []) ''https://8.8.8.8/x'' ips \<and>
    Some (v4_bytes [169, 254, 169, 254]) \<notin> set ips \<and> Some (v4_bytes [100, 100, 100, 200]) \<notin> set ips"
  by (rule ValidateTargetURL_safe [OF sample_validate])

text \<open>
  The default policy of a production deployment keeps the scanner off internal IPv4
  addresses: with \<open>KARAXYS_ENV\<close> set to production and the override unset, no address of an
  accepted target is in 0/8, 10/8, 100.64/10, 127/8, 169.254/16, 172.16/12, 192.168/16, 192.0.0/24,
  the documentation and benchmark ranges, or 224/3.
\<close>

theorem production_targets_public:
  assumes "trim_space (env ''KARAXYS_ENV'') = ''production''"
    and "env ''KARAXYS_SCAN_ALLOW_PRIVATE_TARGETS'' = []"
    and "target_ok (LoadTargetPolicyFromEnv env) resolver raw ips"
    and "octets a b c d" "Some (v4_bytes [a, b, c, d]) \<in> set ips"
  shows "a \<notin> {0, 10, 127} \<and> a < 224 \<and> \<not> (a = 100 \<and> 64 \<le> b \<and> b < 128) \<and> \<not> (a = 169 \<and> b = 254) \<and>
    \<not> (a = 172 \<and> 16 \<le> b \<and> b < 32) \<and> \<not> (a = 192 \<and> (b = 168 \<or> b = 0 \<and> c \<in> {0, 2})) \<and>
    \<not> (a = 198 \<and> (18 \<le> b \<and> b < 20 \<or> b = 51 \<and> c = 100)) \<and> \<not> (a = 203 \<and> b = 0 \<and> c = 113)"
proof -
  have "\<not> AllowPrivateTargets (LoadTargetPolicyFromEnv env)"
    using assms(1,2) by (simp add: LoadTargetPolicyFromEnv_def boolEnvDefault_def isProduction_def equal_fold_def)
  with target_ok_address(2) [OF assms(3,5)] have "\<not> isPrivateOrReserved (Some (v4_bytes [a, b, c, d]))" by blast
  then show ?thesis unfolding reserved_v4 [OF assms(4)] by (simp add: not_le)
qed

theorem production_targets_public_witness:
  "(8::nat) \<notin> {0, 10, 127} \<and> (8::nat) < 224 \<and>
   target_ok (LoadTargetPolicyFromEnv (\<lambda>k. if k = ''KARAXYS_ENV'' then ''production'' else []))
     (\<lambda>_. Inr []) ''https://8.8.8.8/x'' [Some (v4_bytes [8, 8, 8, 8])]"
proof -
  let ?env = "\<lambda>k. if k = ''KARAXYS_ENV'' then ''production'' else []"
  have p: "trim_space ''production'' = ''production''" by (simp add: url_eval)
  have "LoadTargetPolicyFromEnv ?env = sample_policy"
    by (simp add: LoadTargetPolicyFromEnv_def sample_policy_def boolEnvDefault_def isProduction_def p
        equal_fold_def splitCSVEnv_def)
  then have ok: "target_ok (LoadTargetPolicyFromEnv ?env) (\<lambda>_. Inr []) ''https://8.8.8.8/x'' [Some (v4_bytes [8, 8, 8, 8])]"
    by (simp add: sample_target_ok)
  have "octets 8 8 8 8" by (simp add: octets_def)
  from production_targets_public [OF _ _ ok this] p ok show ?thesis by simp
qed

text \<open>
  What the tables leave out: an IPv6 address that embeds an IPv4 one (the NAT64 prefix 64:ff9b::/96 and
  6to4) is neither private nor reserved, whatever the embedded address is.
\<close>

lemma nat64_loopback_public: "map_option (\<lambda>a. isPrivateOrReserved (Some a)) (ParseIP ''64:ff9b::7f00:1'') = Some False"
  by (simp add: ParseIP_def ip_eval isPrivateOrReserved_def reservedNetworks_def reservedNetworks_table
      IsLoopback_def IsPrivate_def IsLinkLocalUnicast_def IsLinkLocalMulticast_def IsMulticast_def
      IsUnspecified_def is4_def ip_byte_def net_Contains_def)

end
