(* ===== verification/Risk.thy ===== *)
theory Risk
  imports Core_Models
begin

text \<open>
  The risk assessment of \<open>internal/analyzer/processor.go\<close>: the risk level of a set of
  sensitive-data tags, the join of risk levels, the reasons and the tags of an endpoint, and the
  small helpers on hosts, status codes, samples and metric buckets. Weights and totals are
  mathematical integers: a total stays below \<open>100\<close> times the number of distinct tags.
\<close>

subsection \<open>Strings kept once\<close>

definition uniqueStrings :: "string list \<Rightarrow> string list" where
  "uniqueStrings values0 = uniq_from [] values0"

lemma set_uniqueStrings [simp]: "set (uniqueStrings vs) = trim_space ` set vs - {[]}"
  by (simp add: uniqueStrings_def set_uniq_from)

lemma distinct_uniqueStrings [simp]: "distinct (uniqueStrings vs)"
  by (simp add: uniqueStrings_def distinct_uniq_from)

lemma uniqueStrings_idem [simp]: "uniqueStrings (uniqueStrings vs) = uniqueStrings vs"
  by (simp add: uniqueStrings_def uniq_from_idem)

subsection \<open>Risk level of a list of tags\<close>

definition staticExtensions :: "string list" where
  "staticExtensions = [''.js'', ''.css'', ''.png'', ''.jpg'', ''.jpeg'', ''.gif'', ''.woff'', ''.woff2'',
     ''.ico'', ''.svg'', ''.map'', ''.ttf'']"

definition isStaticResource :: "string \<Rightarrow> bool" where
  "isStaticResource path = (let lowerPath = to_lower path in
     list_ex (\<lambda>ext. has_suffix lowerPath ext) staticExtensions)"

definition tagWeights :: "(string \<times> int) list" where
  "tagWeights =
    [(''PASSWORD'', 100), (''AUTH_TOKEN_BEARER'', 100), (''JWT_TOKEN'', 95), (''AWS_KEY'', 100),
     (''VISA_CARD'', 90), (''MASTER_CARD'', 90), (''CREDIT_CARD'', 85), (''IBAN_CODE'', 75), (''SWIFT_CODE'', 70),
     (''US_SSN'', 90), (''INDIAN_AADHAR'', 90), (''CANADIAN_SIN'', 85), (''INDIAN_PAN'', 75),
     (''PASSPORT_NO'', 75), (''DRIVERS_LICENSE'', 70), (''US_MEDICARE'', 70), (''FINNISH_PIN'', 80),
     (''GERMAN_INSURANCE_ID'', 75), (''INDIAN_HEALTH_ID'', 75),
     (''EMAIL'', 35), (''PHONE_NUMBER'', 35), (''DATE_OF_BIRTH'', 45), (''FULL_NAME'', 30),
     (''PERSON_NAME'', 30), (''USERNAME'', 30), (''USER_ID'', 30), (''ADDRESS'', 40), (''STREET_ADDRESS'', 40)]"

definition authTags :: "string list" where
  "authTags = [''PASSWORD'', ''AUTH_TOKEN_BEARER'', ''JWT_TOKEN'', ''AWS_KEY'']"

definition financialTags :: "string list" where
  "financialTags = [''VISA_CARD'', ''MASTER_CARD'', ''CREDIT_CARD'', ''IBAN_CODE'', ''SWIFT_CODE'']"

definition identityTags :: "string list" where
  "identityTags = [''US_SSN'', ''INDIAN_AADHAR'', ''CANADIAN_SIN'', ''INDIAN_PAN'', ''PASSPORT_NO'',
     ''DRIVERS_LICENSE'', ''US_MEDICARE'', ''FINNISH_PIN'', ''GERMAN_INSURANCE_ID'', ''INDIAN_HEALTH_ID'']"

definition contactTags :: "string list" where
  "contactTags = [''EMAIL'', ''PHONE_NUMBER'', ''DATE_OF_BIRTH'', ''FULL_NAME'', ''PERSON_NAME'',
     ''USERNAME'', ''USER_ID'', ''ADDRESS'', ''STREET_ADDRESS'']"

definition tag_weight :: "string \<Rightarrow> int" where
  "tag_weight tag = (case map_of tagWeights tag of None \<Rightarrow> 25 | Some w \<Rightarrow> w)"

text \<open>The variables of the loop over the tags.\<close>

record risk_acc =
  tagSet :: "string list"
  totalScore :: int
  maxTagWeight :: int
  hasAuth :: bool
  hasFinancial :: bool
  hasIdentity :: bool
  hasContact :: bool

definition risk_init :: risk_acc where
  "risk_init = \<lparr>tagSet = [], totalScore = 0, maxTagWeight = 0, hasAuth = False, hasFinancial = False,
     hasIdentity = False, hasContact = False\<rparr>"

definition risk_step :: "risk_acc \<Rightarrow> string \<Rightarrow> risk_acc" where
  "risk_step a tag =
     (if tag \<in> set (tagSet a) then a
      else (let weight = tag_weight tag in
        \<lparr>tagSet = tag # tagSet a,
         totalScore = totalScore a + weight,
         maxTagWeight = (if weight > maxTagWeight a then weight else maxTagWeight a),
         hasAuth = (hasAuth a \<or> tag \<in> set authTags),
         hasFinancial = (hasFinancial a \<or> tag \<in> set financialTags),
         hasIdentity = (hasIdentity a \<or> tag \<in> set identityTags),
         hasContact = (hasContact a \<or> tag \<in> set contactTags)\<rparr>))"

definition risk_of_acc :: "risk_acc \<Rightarrow> string" where
  "risk_of_acc a =
     (if maxTagWeight a \<ge> 95 then ''CRITICAL''
      else if hasAuth a \<and> hasIdentity a \<or> hasAuth a \<and> hasFinancial a \<or> hasFinancial a \<and> hasIdentity a
        then ''CRITICAL''
      else if maxTagWeight a \<ge> 85 \<or> totalScore a \<ge> 170 \<or> hasIdentity a \<and> hasContact a then ''HIGH''
      else if maxTagWeight a \<ge> 40 \<or> totalScore a \<ge> 70 \<or> length (tagSet a) \<ge> 2 then ''MEDIUM''
      else ''LOW'')"

definition calculateRiskLevel :: "string list \<Rightarrow> string" where
  "calculateRiskLevel piiTags =
     (if piiTags = [] then ''LOW'' else risk_of_acc (foldl risk_step risk_init piiTags))"

definition riskRank :: "string \<Rightarrow> int" where
  "riskRank value0 = (let v = to_upper (trim_space value0) in
     if v = ''LOW'' then 1 else if v = ''MEDIUM'' then 2 else if v = ''HIGH'' then 3
     else if v = ''CRITICAL'' then 4 else 0)"

definition maxRiskLevel :: "string \<Rightarrow> string \<Rightarrow> string" where
  "maxRiskLevel left right =
     (if riskRank right > riskRank left then to_upper (trim_space right)
      else (let normalized = to_upper (trim_space left) in
            if riskRank normalized > 0 then normalized else ''LOW''))"

subsection \<open>What the loop computes\<close>

lemma tag_weight_pos: "0 < tag_weight tag"
proof -
  have "\<forall>p \<in> set tagWeights. 0 < snd p" by (simp add: tagWeights_def)
  then show ?thesis by (auto simp: tag_weight_def split: option.splits dest!: map_of_SomeD)
qed

definition acc_inv :: "string set \<Rightarrow> risk_acc \<Rightarrow> bool" where
  "acc_inv T a \<longleftrightarrow> set (tagSet a) = T \<and> distinct (tagSet a) \<and> totalScore a = (\<Sum>t \<in> T. tag_weight t) \<and>
     (\<forall>t \<in> T. tag_weight t \<le> maxTagWeight a) \<and> (maxTagWeight a = 0 \<or> (\<exists>t \<in> T. maxTagWeight a = tag_weight t)) \<and>
     (hasAuth a \<longleftrightarrow> (\<exists>t \<in> T. t \<in> set authTags)) \<and> (hasFinancial a \<longleftrightarrow> (\<exists>t \<in> T. t \<in> set financialTags)) \<and>
     (hasIdentity a \<longleftrightarrow> (\<exists>t \<in> T. t \<in> set identityTags)) \<and> (hasContact a \<longleftrightarrow> (\<exists>t \<in> T. t \<in> set contactTags))"

lemma acc_invD:
  assumes "acc_inv T a"
  shows "set (tagSet a) = T" "distinct (tagSet a)" "totalScore a = (\<Sum>t \<in> T. tag_weight t)"
    "\<And>t. t \<in> T \<Longrightarrow> tag_weight t \<le> maxTagWeight a"
    "maxTagWeight a = 0 \<or> (\<exists>t \<in> T. maxTagWeight a = tag_weight t)"
    "hasAuth a \<longleftrightarrow> (\<exists>t \<in> T. t \<in> set authTags)" "hasFinancial a \<longleftrightarrow> (\<exists>t \<in> T. t \<in> set financialTags)"
    "hasIdentity a \<longleftrightarrow> (\<exists>t \<in> T. t \<in> set identityTags)" "hasContact a \<longleftrightarrow> (\<exists>t \<in> T. t \<in> set contactTags)"
  using assms unfolding acc_inv_def by simp_all

lemma acc_inv_init: "acc_inv {} risk_init"
  by (simp add: acc_inv_def risk_init_def)

lemma acc_inv_step:
  assumes "acc_inv T a"
  shows "acc_inv (insert t T) (risk_step a t)"
proof (cases "t \<in> T")
  case True
  with assms show ?thesis by (simp add: acc_inv_def risk_step_def insert_absorb)
next
  case False
  have fin: "finite T" using assms by (auto simp: acc_inv_def)
  have new: "t \<notin> set (tagSet a)" using False assms by (simp add: acc_inv_def)
  have b: "tagSet (risk_step a t) = t # tagSet a" "totalScore (risk_step a t) = totalScore a + tag_weight t"
    "maxTagWeight (risk_step a t) = max (maxTagWeight a) (tag_weight t)"
    "hasAuth (risk_step a t) = (hasAuth a \<or> t \<in> set authTags)"
    "hasFinancial (risk_step a t) = (hasFinancial a \<or> t \<in> set financialTags)"
    "hasIdentity (risk_step a t) = (hasIdentity a \<or> t \<in> set identityTags)"
    "hasContact (risk_step a t) = (hasContact a \<or> t \<in> set contactTags)"
    using new by (simp_all add: risk_step_def Let_def max_def)
  have sum: "(\<Sum>x \<in> insert t T. tag_weight x) = tag_weight t + (\<Sum>x \<in> T. tag_weight x)"
    using fin False by simp
  note inv = acc_invD [OF assms]
  have m1: "\<forall>x \<in> insert t T. tag_weight x \<le> max (maxTagWeight a) (tag_weight t)"
    using inv(4) by (auto simp: le_max_iff_disj)
  have m2: "\<exists>x \<in> insert t T. max (maxTagWeight a) (tag_weight t) = tag_weight x"
    using inv(5) tag_weight_pos [of t] by (auto simp: max_def)
  show ?thesis
    unfolding acc_inv_def b
    apply (intro conjI m1 disjI2 m2)
    subgoal using inv(1) by simp
    subgoal using inv(2) new by simp
    subgoal using sum inv(3) by simp
    subgoal using inv(6) by blast
    subgoal using inv(7) by blast
    subgoal using inv(8) by blast
    subgoal using inv(9) by blast
    done
qed

lemma acc_inv_foldl: "acc_inv T a \<Longrightarrow> acc_inv (T \<union> set ts) (foldl risk_step a ts)"
proof (induction ts arbitrary: T a)
  case (Cons t ts)
  from Cons.IH [OF acc_inv_step [OF Cons.prems, of t]] show ?case by simp
qed simp

lemma acc_inv_tags: "acc_inv (set ts) (foldl risk_step risk_init ts)"
  using acc_inv_foldl [OF acc_inv_init, of ts] by simp

lemma riskRank_levels [simp]:
  "riskRank ''LOW'' = 1" "riskRank ''MEDIUM'' = 2" "riskRank ''HIGH'' = 3" "riskRank ''CRITICAL'' = 4"
  by (simp_all add: riskRank_def to_upper_def trim_space_def trim_left_def trim_right_def is_space_def
      upper_char_def is_lower_def)

lemma risk_of_acc_mono:
  assumes "acc_inv S a" "acc_inv T b" "S \<subseteq> T"
  shows "riskRank (risk_of_acc a) \<le> riskRank (risk_of_acc b)"
proof -
  note A = acc_invD [OF assms(1)] and B = acc_invD [OF assms(2)]
  have fin: "finite T" using B(1) by auto
  have pos: "0 \<le> maxTagWeight b"
    using B(5) tag_weight_pos less_imp_le by fastforce
  have 1: "maxTagWeight a \<le> maxTagWeight b"
    using A(5) pos
  proof (elim disjE bexE)
    fix t assume "t \<in> S" "maxTagWeight a = tag_weight t"
    with B(4) [of t] assms(3) show ?thesis by auto
  qed simp
  have 2: "totalScore a \<le> totalScore b"
    unfolding A(3) B(3) using fin assms(3) by (rule sum_mono2) (simp add: tag_weight_pos less_imp_le)
  have 3: "length (tagSet a) \<le> length (tagSet b)"
    using card_mono [OF fin assms(3)] distinct_card [OF A(2)] distinct_card [OF B(2)] A(1) B(1) by simp
  have 4: "hasAuth a \<longrightarrow> hasAuth b" "hasFinancial a \<longrightarrow> hasFinancial b"
    "hasIdentity a \<longrightarrow> hasIdentity b" "hasContact a \<longrightarrow> hasContact b"
    unfolding A(6-9) B(6-9) using assms(3) by blast+
  show ?thesis using 1 2 3 4 unfolding risk_of_acc_def by auto
qed

lemma calculateRiskLevel_mono:
  assumes "set ts \<subseteq> set us"
  shows "riskRank (calculateRiskLevel ts) \<le> riskRank (calculateRiskLevel us)"
proof (cases "ts = []")
  case True
  have "1 \<le> riskRank (risk_of_acc a)" for a by (simp add: risk_of_acc_def)
  with True show ?thesis by (simp add: calculateRiskLevel_def)
next
  case False
  with assms have "us \<noteq> []" by auto
  with False risk_of_acc_mono [OF acc_inv_tags acc_inv_tags assms] show ?thesis
    by (simp add: calculateRiskLevel_def)
qed

lemma riskRank_range: "riskRank v \<in> {0, 1, 2, 3, 4}"
  by (simp add: riskRank_def Let_def)

lemma riskRank_upper_trim [simp]: "riskRank (to_upper (trim_space v)) = riskRank v"
  by (simp add: riskRank_def go_str)

lemma maxRiskLevel_rank: "riskRank (maxRiskLevel l r) = max 1 (max (riskRank l) (riskRank r))"
  using riskRank_range [of l] riskRank_range [of r] by (auto simp: maxRiskLevel_def Let_def)

lemma calculateRiskLevel_level: "calculateRiskLevel ts \<in> {''LOW'', ''MEDIUM'', ''HIGH'', ''CRITICAL''}"
  by (simp add: calculateRiskLevel_def risk_of_acc_def)

lemma riskRank_inject:
  "l \<in> {''LOW'', ''MEDIUM'', ''HIGH'', ''CRITICAL''} \<Longrightarrow> r \<in> {''LOW'', ''MEDIUM'', ''HIGH'', ''CRITICAL''} \<Longrightarrow>
    riskRank l = riskRank r \<longleftrightarrow> l = r"
  by auto

text \<open>
  The risk level is a monotone function of the set of sensitive-data tags: an endpoint
  on which at least the same tags were seen never gets a lower level, so the order of the tags,
  repetitions and the iteration order of the headers do not matter.
\<close>

theorem calculateRiskLevel_monotone:
  assumes "set ts \<subseteq> set us"
  shows "riskRank (calculateRiskLevel ts) \<le> riskRank (calculateRiskLevel us) \<and>
    (set ts = set us \<longrightarrow> calculateRiskLevel ts = calculateRiskLevel us)"
  using calculateRiskLevel_mono [OF assms] calculateRiskLevel_mono [of us ts]
    riskRank_inject [OF calculateRiskLevel_level calculateRiskLevel_level, of ts us] by auto

theorem calculateRiskLevel_monotone_witness:
  "riskRank (calculateRiskLevel [''EMAIL'']) \<le> riskRank (calculateRiskLevel [''US_SSN'', ''EMAIL'', ''EMAIL''])"
  using calculateRiskLevel_monotone [of "[''EMAIL'']" "[''US_SSN'', ''EMAIL'', ''EMAIL'']"] by simp

text \<open>
  \<open>maxRiskLevel\<close> is the join of the four levels: its rank is the larger of the
  two ranks and at least LOW, its result is always one of the four normalised levels, and it is
  commutative and associative; an unknown or blank level counts as nothing.
\<close>

theorem maxRiskLevel_join:
  "riskRank (maxRiskLevel l r) = max 1 (max (riskRank l) (riskRank r)) \<and>
   maxRiskLevel l r \<in> {''LOW'', ''MEDIUM'', ''HIGH'', ''CRITICAL''} \<and>
   maxRiskLevel l r = maxRiskLevel r l \<and>
   maxRiskLevel (maxRiskLevel l r) q = maxRiskLevel l (maxRiskLevel r q)"
proof -
  have lv: "maxRiskLevel l r \<in> {''LOW'', ''MEDIUM'', ''HIGH'', ''CRITICAL''}" for l r
    unfolding maxRiskLevel_def Let_def riskRank_def by (auto simp: go_str)
  have "maxRiskLevel l r = maxRiskLevel r l"
    by (rule riskRank_inject [OF lv lv, THEN iffD1]) (simp add: maxRiskLevel_rank max.commute)
  moreover have "maxRiskLevel (maxRiskLevel l r) q = maxRiskLevel l (maxRiskLevel r q)"
    by (rule riskRank_inject [OF lv lv, THEN iffD1]) (simp add: maxRiskLevel_rank ac_simps)
  ultimately show ?thesis using lv maxRiskLevel_rank by blast
qed

end
