(* ===== verification/Endpoint_Rules.thy ===== *)
theory Endpoint_Rules
  imports Risk
begin

text \<open>
  The lifecycle rules of \<open>internal/analyzer/rules/rules.go\<close>: normalising and compiling a set
  of deprecation rules and evaluating it on a request path. The regular expressions come from the
  configuration and the matcher is \<open>regexp\<close>: \<open>re_compile\<close> is a parameter that maps a
  pattern to its match predicate, or to none when the pattern does not compile. A rule set that the
  code leaves \<open>nil\<close> is \<^const>\<open>None\<close>.
\<close>

definition DefaultDeprecatedReason :: string where "DefaultDeprecatedReason = ''deprecated_endpoint''"
definition DefaultDeprecatedTag :: string where "DefaultDeprecatedTag = ''lifecycle:deprecated''"
definition DefaultDeprecatedRisk :: string where "DefaultDeprecatedRisk = ''MEDIUM''"

record endpoint_rule =
  er_Name :: string
  er_PathRegex :: string
  er_Reason :: string
  er_Tags :: "string list"
  er_RiskLevel :: string

record finding =
  fd_Name :: string
  fd_Reason :: string
  fd_Tags :: "string list"
  fd_RiskLevel :: string

record compiled_rule =
  cr_rule :: endpoint_rule
  cr_re :: "string \<Rightarrow> bool"

datatype rule_error = MissingRegex string | BadRegex string

definition DefaultEndpointRuleSet :: "endpoint_rule list" where
  "DefaultEndpointRuleSet =
    [\<lparr>er_Name = ''explicit-deprecated-path'', er_PathRegex = ''(?i)(^|/)deprecated(/|$)'',
      er_Reason = DefaultDeprecatedReason, er_Tags = [DefaultDeprecatedTag], er_RiskLevel = DefaultDeprecatedRisk\<rparr>,
     \<lparr>er_Name = ''explicit-legacy-path'', er_PathRegex = ''(?i)(^|/)legacy(/|$)'',
      er_Reason = DefaultDeprecatedReason, er_Tags = [DefaultDeprecatedTag], er_RiskLevel = DefaultDeprecatedRisk\<rparr>]"

definition normalizeRiskLevel :: "string \<Rightarrow> string" where
  "normalizeRiskLevel value0 = (let v = to_upper (trim_space value0) in
     if v \<in> set [''LOW'', ''MEDIUM'', ''HIGH'', ''CRITICAL''] then v else [])"

definition normalizeRule :: "endpoint_rule \<Rightarrow> nat \<Rightarrow> rule_error + endpoint_rule" where
  "normalizeRule rule idx =
     (let name0 = trim_space (er_Name rule);
          name = (if name0 = [] then ''deprecated-'' @ itoa (idx + 1) else name0);
          regex = trim_space (er_PathRegex rule) in
      if regex = [] then Inl (MissingRegex name)
      else (let reason0 = trim_space (er_Reason rule);
                tags0 = uniqueStrings (er_Tags rule);
                risk0 = normalizeRiskLevel (er_RiskLevel rule) in
        Inr \<lparr>er_Name = name, er_PathRegex = regex,
             er_Reason = (if reason0 = [] then DefaultDeprecatedReason else reason0),
             er_Tags = (if tags0 = [] then [DefaultDeprecatedTag] else tags0),
             er_RiskLevel = (if risk0 = [] then DefaultDeprecatedRisk else risk0)\<rparr>))"

fun compile_from :: "(string \<Rightarrow> (string \<Rightarrow> bool) option) \<Rightarrow> nat \<Rightarrow> endpoint_rule list \<Rightarrow> rule_error + compiled_rule list" where
  "compile_from re_compile idx [] = Inr []"
| "compile_from re_compile idx (rule # rules) =
     (case normalizeRule rule idx of
        Inl e \<Rightarrow> Inl e
      | Inr normalized \<Rightarrow>
          (case re_compile (er_PathRegex normalized) of
             None \<Rightarrow> Inl (BadRegex (er_Name normalized))
           | Some re \<Rightarrow>
               (case compile_from re_compile (idx + 1) rules of
                  Inl e \<Rightarrow> Inl e
                | Inr rest \<Rightarrow> Inr (\<lparr>cr_rule = normalized, cr_re = re\<rparr> # rest))))"

definition CompileEndpointRuleSet ::
  "(string \<Rightarrow> (string \<Rightarrow> bool) option) \<Rightarrow> endpoint_rule list \<Rightarrow> rule_error + compiled_rule list" where
  "CompileEndpointRuleSet re_compile ruleSet = compile_from re_compile 0 ruleSet"

text \<open>
  \<open>Evaluate\<close>: for each rule, the first target it matches gives a finding, unless a rule of
  the same name has given one already; the loop over the targets stops in both cases.
\<close>

definition finding_of :: "endpoint_rule \<Rightarrow> finding" where
  "finding_of r = \<lparr>fd_Name = er_Name r, fd_Reason = er_Reason r, fd_Tags = er_Tags r, fd_RiskLevel = er_RiskLevel r\<rparr>"

definition rule_key :: "string \<Rightarrow> string" where
  "rule_key name = ''deprecated:'' @ name"

lemma rule_key_inject [simp]: "rule_key a = rule_key b \<longleftrightarrow> a = b"
  by (simp add: rule_key_def)

fun evaluate_rules :: "string list \<Rightarrow> string list \<Rightarrow> compiled_rule list \<Rightarrow> finding list" where
  "evaluate_rules targets seen [] = []"
| "evaluate_rules targets seen (r # rs) =
     (if list_ex (cr_re r) targets then
        (let key = rule_key (er_Name (cr_rule r)) in
         if key \<in> set seen then evaluate_rules targets seen rs
         else finding_of (cr_rule r) # evaluate_rules targets (key # seen) rs)
      else evaluate_rules targets seen rs)"

definition Evaluate :: "compiled_rule list option \<Rightarrow> string \<Rightarrow> string \<Rightarrow> finding list" where
  "Evaluate r path pathPattern =
     (case r of None \<Rightarrow> [] | Some [] \<Rightarrow> []
      | Some rs \<Rightarrow> evaluate_rules (uniq_from [] [path, pathPattern]) [] rs)"

definition endpointRuleFindings :: "compiled_rule list option \<Rightarrow> string \<Rightarrow> string \<Rightarrow> finding list" where
  "endpointRuleFindings ruleSet path pathPattern =
     (case ruleSet of None \<Rightarrow> [] | Some rs \<Rightarrow> Evaluate (Some rs) path pathPattern)"

definition reasonsFromRuleFindings :: "finding list \<Rightarrow> string list" where
  "reasonsFromRuleFindings findings =
     uniqueStrings (map fd_Reason (filter (\<lambda>f. trim_space (fd_Reason f) \<noteq> []) findings))"

definition tagsFromRuleFindings :: "finding list \<Rightarrow> string list" where
  "tagsFromRuleFindings findings = uniqueStrings (concat (map fd_Tags findings))"

definition riskLevelFromRuleFindings :: "finding list \<Rightarrow> string" where
  "riskLevelFromRuleFindings findings = foldl (\<lambda>riskLevel f. maxRiskLevel riskLevel (fd_RiskLevel f)) [] findings"

subsection \<open>Lemmas\<close>

definition rule_ok :: "endpoint_rule \<Rightarrow> bool" where
  "rule_ok r \<longleftrightarrow> er_Name r \<noteq> [] \<and> er_PathRegex r \<noteq> [] \<and> er_Reason r \<noteq> [] \<and> er_Tags r \<noteq> [] \<and>
     distinct (er_Tags r) \<and> er_RiskLevel r \<in> {''LOW'', ''MEDIUM'', ''HIGH'', ''CRITICAL''}"

lemma normalizeRiskLevel_range: "normalizeRiskLevel v \<in> {[], ''LOW'', ''MEDIUM'', ''HIGH'', ''CRITICAL''}"
  by (simp add: normalizeRiskLevel_def Let_def)

lemma normalizeRule_ok: "normalizeRule r idx = Inr r' \<Longrightarrow> rule_ok r'"
  using normalizeRiskLevel_range [of "er_RiskLevel r"]
  by (auto simp: normalizeRule_def Let_def rule_ok_def DefaultDeprecatedReason_def DefaultDeprecatedTag_def
      DefaultDeprecatedRisk_def split: if_splits)

lemma compile_from_ok:
  "compile_from rc idx rules = Inr crs \<Longrightarrow>
     length crs = length rules \<and> (\<forall>c \<in> set crs. rule_ok (cr_rule c) \<and> rc (er_PathRegex (cr_rule c)) = Some (cr_re c))"
  by (induction rules arbitrary: idx crs)
    (auto split: sum.splits option.splits dest!: normalizeRule_ok)

lemma evaluate_rules_sound:
  "f \<in> set (evaluate_rules ts seen rs) \<Longrightarrow>
     \<exists>r \<in> set rs. f = finding_of (cr_rule r) \<and> (\<exists>t \<in> set ts. cr_re r t) \<and> rule_key (fd_Name f) \<notin> set seen"
  by (induction ts seen rs rule: evaluate_rules.induct)
    (auto simp: Let_def list_ex_iff finding_of_def split: if_splits)

lemma evaluate_rules_complete:
  "r \<in> set rs \<Longrightarrow> t \<in> set ts \<Longrightarrow> cr_re r t \<Longrightarrow> rule_key (er_Name (cr_rule r)) \<notin> set seen \<Longrightarrow>
     \<exists>f \<in> set (evaluate_rules ts seen rs). fd_Name f = er_Name (cr_rule r)"
proof (induction ts seen rs rule: evaluate_rules.induct)
  case (2 ts seen q rs)
  show ?case
  proof (cases "r = q \<or> \<not> list_ex (cr_re q) ts \<or> er_Name (cr_rule q) = er_Name (cr_rule r)")
    case True
    with 2 show ?thesis by (auto simp: Let_def list_ex_iff finding_of_def)
  next
    case False
    with 2 show ?thesis by (auto simp: Let_def finding_of_def)
  qed
qed simp

lemma evaluate_rules_distinct: "distinct (map fd_Name (evaluate_rules ts seen rs))"
proof (induction ts seen rs rule: evaluate_rules.induct)
  case (2 ts seen r rs)
  have "er_Name (cr_rule r) \<notin> fd_Name ` set (evaluate_rules ts (rule_key (er_Name (cr_rule r)) # seen) rs)"
    using evaluate_rules_sound [of _ ts "rule_key (er_Name (cr_rule r)) # seen" rs] by (fastforce simp: image_iff)
  with 2 show ?case by (simp add: Let_def finding_of_def)
qed simp

lemma foldl_maxRiskLevel_ge:
  "riskRank l0 \<le> riskRank (foldl (\<lambda>l f. maxRiskLevel l (fd_RiskLevel f)) l0 fs) \<and>
   (\<forall>f \<in> set fs. riskRank (fd_RiskLevel f) \<le> riskRank (foldl (\<lambda>l f. maxRiskLevel l (fd_RiskLevel f)) l0 fs))"
proof (induction fs arbitrary: l0)
  case (Cons f fs)
  from Cons.IH [of "maxRiskLevel l0 (fd_RiskLevel f)"] show ?case
    by (auto simp: maxRiskLevel_rank)
qed simp

end
