(* ===== verification/Pii_Verifiers.thy ===== *)
theory Pii_Verifiers
  imports Go_Base
begin

text \<open>
  The checksum verifiers of \<open>internal/analyzer/pii/verifiers.go\<close>: \<open>LuhnCheck\<close>
  (payment cards, Canadian SIN), \<open>VerhoeffCheck\<close> (Aadhaar numbers) and
  \<open>IBANCheck\<close>. Each loop of the code is a recursion over the digits in the order the loop
  visits them. The lemmas give the error-detection power of each checksum: which corruptions of an
  accepted number are always rejected.
\<close>

subsection \<open>Luhn\<close>

definition only_digits :: "string \<Rightarrow> string" where
  "only_digits s = filter is_digit s"

text \<open>The loop from the last digit to the first: \<open>is_second\<close> flips at every digit.\<close>

fun luhn_loop :: "bool \<Rightarrow> nat \<Rightarrow> nat list \<Rightarrow> nat" where
  "luhn_loop is_second acc [] = acc"
| "luhn_loop is_second acc (d # ds) =
     (let d' = (if is_second then d * 2 else d)
      in luhn_loop (\<not> is_second) (acc + d' div 10 + d' mod 10) ds)"

definition LuhnCheck :: "string \<Rightarrow> bool" where
  "LuhnCheck number =
     (let clean = only_digits number in
      if length clean < 2 then False
      else luhn_loop False 0 (map digit_val (rev clean)) mod 10 = 0)"

definition luhn_weight :: "bool \<Rightarrow> nat \<Rightarrow> nat" where
  "luhn_weight is_second d =
     (let d' = (if is_second then d * 2 else d) in d' div 10 + d' mod 10)"

definition flip_n :: "nat \<Rightarrow> bool \<Rightarrow> bool" where
  "flip_n n b = (if even n then b else \<not> b)"

lemma luhn_loop_append:
  "luhn_loop b acc (xs @ ys) = luhn_loop (flip_n (length xs) b) (luhn_loop b acc xs) ys"
  by (induction xs arbitrary: b acc) (auto simp: flip_n_def Let_def)

lemma luhn_loop_acc: "luhn_loop b acc xs = acc + luhn_loop b 0 xs"
proof (induction xs arbitrary: b acc)
  case (Cons d ds)
  let ?w = "luhn_weight b d"
  have "luhn_loop b acc (d # ds) = luhn_loop (\<not> b) (acc + ?w) ds"
    by (simp add: luhn_weight_def Let_def add.assoc)
  moreover have "luhn_loop b 0 (d # ds) = luhn_loop (\<not> b) ?w ds"
    by (simp add: luhn_weight_def Let_def)
  ultimately show ?case
    using Cons.IH [of "\<not> b" "acc + ?w"] Cons.IH [of "\<not> b" ?w] by simp
qed simp

lemma luhn_loop_Cons: "luhn_loop b 0 (d # ds) = luhn_weight b d + luhn_loop (\<not> b) 0 ds"
  using luhn_loop_acc [of "\<not> b" "luhn_weight b d" ds] by (simp add: luhn_weight_def Let_def)

lemma luhn_loop_single: "luhn_loop b 0 [d] = luhn_weight b d"
  by (simp add: luhn_weight_def)

lemma luhn_loop_pair: "luhn_loop b 0 [d, e] = luhn_weight b d + luhn_weight (\<not> b) e"
  by (simp add: luhn_weight_def Let_def add.assoc)

lemmas luhn_loop_small = luhn_loop_single luhn_loop_pair

declare luhn_loop.simps(2) [simp del]

lemma luhn_loop_middle:
  "luhn_loop b 0 (xs @ ds @ ys) =
     luhn_loop b 0 xs + luhn_loop (flip_n (length xs) b) 0 ds
       + luhn_loop (flip_n (length xs + length ds) b) 0 ys"
proof -
  have "luhn_loop b 0 (xs @ ds @ ys) =
      luhn_loop (flip_n (length ds) (flip_n (length xs) b))
        (luhn_loop (flip_n (length xs) b) (luhn_loop b 0 xs) ds) ys"
    by (simp add: luhn_loop_append)
  also have "flip_n (length ds) (flip_n (length xs) b) = flip_n (length xs + length ds) b"
    by (auto simp: flip_n_def)
  finally show ?thesis
    using luhn_loop_acc [of "flip_n (length xs) b" "luhn_loop b 0 xs" ds]
      luhn_loop_acc [of "flip_n (length xs + length ds) b"
        "luhn_loop (flip_n (length xs) b) (luhn_loop b 0 xs) ds" ys]
    by simp
qed

text \<open>The weight of a digit is injective on digits, and stays below ten.\<close>

lemma distinct_map_upt_inj:
  "distinct (map f [0..<n]) \<Longrightarrow> a < n \<Longrightarrow> b < n \<Longrightarrow> f a = f b \<Longrightarrow> a = b"
  by (auto simp: distinct_map inj_on_def)

text \<open>A table fact is used through these two rules: the simplifier would unroll it.\<close>

lemma all_uptD: "\<forall>a \<in> set [0..<n]. Q a \<Longrightarrow> a < n \<Longrightarrow> Q a"
  by simp

lemma all_boolD: "\<forall>b \<in> set [False, True]. Q b \<Longrightarrow> Q b"
  by (cases b) simp_all

lemma luhn_weight_table: "\<forall>b \<in> set [False, True]. distinct (map (luhn_weight b) [0..<10])"
  by code_simp

lemma luhn_weight_less_table: "\<forall>b \<in> set [False, True]. \<forall>d \<in> set [0..<10]. luhn_weight b d < 10"
  by code_simp

lemma luhn_weight_swap_table:
  "\<forall>b \<in> set [False, True]. \<forall>d \<in> set [0..<10]. \<forall>e \<in> set [0..<10].
     d = e \<or> (d = 0 \<and> e = 9) \<or> (d = 9 \<and> e = 0) \<or>
     (luhn_weight b d + luhn_weight (\<not> b) e) mod 10 \<noteq> (luhn_weight b e + luhn_weight (\<not> b) d) mod 10"
  by code_simp

lemma luhn_weight_less: "d < 10 \<Longrightarrow> luhn_weight b d < 10"
  by (rule all_uptD [OF all_boolD [OF luhn_weight_less_table]])

lemma luhn_weight_inj: "d < 10 \<Longrightarrow> e < 10 \<Longrightarrow> luhn_weight b d = luhn_weight b e \<Longrightarrow> d = e"
  by (rule distinct_map_upt_inj [OF all_boolD [OF luhn_weight_table]])

lemma luhn_weight_swap:
  assumes "d < 10" "e < 10" "d \<noteq> e" "\<not> (d = 0 \<and> e = 9)" "\<not> (d = 9 \<and> e = 0)"
  shows "(luhn_weight b d + luhn_weight (\<not> b) e) mod 10 \<noteq> (luhn_weight b e + luhn_weight (\<not> b) d) mod 10"
proof -
  have "d = e \<or> (d = 0 \<and> e = 9) \<or> (d = 9 \<and> e = 0) \<or>
     (luhn_weight b d + luhn_weight (\<not> b) e) mod 10 \<noteq> (luhn_weight b e + luhn_weight (\<not> b) d) mod 10"
    by (rule all_uptD [OF all_uptD [OF all_boolD [OF luhn_weight_swap_table]]]) (rule assms(1,2))+
  with assms(3-5) show ?thesis by argo
qed

lemma mod_shift_cancel:
  fixes a b x y :: nat
  assumes "(a + x + b) mod 10 = 0" "(a + y + b) mod 10 = 0"
  shows "x mod 10 = y mod 10"
proof -
  have "10 dvd int (a + x + b)" "10 dvd int (a + y + b)"
    by (metis assms(1) dvd_eq_mod_eq_0 of_nat_0 of_nat_numeral zmod_int)
      (metis assms(2) dvd_eq_mod_eq_0 of_nat_0 of_nat_numeral zmod_int)
  then have "10 dvd int (a + x + b) - int (a + y + b)" by (rule dvd_diff)
  then have "int x mod 10 = int y mod 10" by (simp add: mod_eq_dvd_iff)
  then show ?thesis by (metis of_nat_eq_iff of_nat_mod of_nat_numeral)
qed

lemma only_digits_append [simp]: "only_digits (xs @ ys) = only_digits xs @ only_digits ys"
  by (simp add: only_digits_def)

lemma only_digits_Cons [simp]:
  "only_digits (c # s) = (if is_digit c then c # only_digits s else only_digits s)"
  by (simp add: only_digits_def)

lemma only_digits_Nil [simp]: "only_digits [] = []"
  by (simp add: only_digits_def)

lemma only_digits_idem [simp]: "only_digits (only_digits s) = only_digits s"
  by (simp add: only_digits_def)

lemma LuhnCheck_split:
  assumes "list_all is_digit ds" and "LuhnCheck (xs @ ds @ ys)"
  shows "(luhn_loop False 0 (map digit_val (rev (only_digits ys)))
    + luhn_loop (flip_n (length (only_digits ys)) False) 0 (map digit_val (rev ds))
    + luhn_loop (flip_n (length (only_digits ys) + length ds) False) 0
        (map digit_val (rev (only_digits xs)))) mod 10 = 0"
proof -
  from assms(1) have "only_digits ds = ds"
    by (simp add: only_digits_def list_all_iff)
  with assms(2) show ?thesis
    using luhn_loop_middle [of False "map digit_val (rev (only_digits ys))"
      "map digit_val (rev ds)" "map digit_val (rev (only_digits xs))"]
    by (simp add: LuhnCheck_def Let_def split: if_splits)
qed

lemma LuhnCheck_replace:
  assumes "list_all is_digit ds" "list_all is_digit es" "length ds = length es"
    and "LuhnCheck (xs @ ds @ ys)" "LuhnCheck (xs @ es @ ys)"
  shows "\<exists>b. luhn_loop b 0 (map digit_val (rev ds)) mod 10 = luhn_loop b 0 (map digit_val (rev es)) mod 10"
  by (rule exI, rule mod_shift_cancel [OF LuhnCheck_split [OF assms(1,4)]
        LuhnCheck_split [OF assms(2,5), folded assms(3)]])

lemma luhn_single_error:
  assumes "is_digit c" "is_digit d" "c \<noteq> d" "LuhnCheck (xs @ c # ys)"
  shows "\<not> LuhnCheck (xs @ d # ys)"
proof
  assume "LuhnCheck (xs @ d # ys)"
  with assms obtain b where
    "luhn_loop b 0 (map digit_val (rev [c])) mod 10 = luhn_loop b 0 (map digit_val (rev [d])) mod 10"
    using LuhnCheck_replace [of "[c]" "[d]" xs ys] by auto
  then have "luhn_weight b (digit_val c) = luhn_weight b (digit_val d)"
    using assms(1,2) by (simp add: luhn_loop_small luhn_weight_less)
  then have "digit_val c = digit_val d"
    by (rule luhn_weight_inj [of _ _ b, rotated 2]) (use assms(1,2) in simp_all)
  then show False using assms(1-3) digit_val_inj by blast
qed

lemma luhn_swap_error:
  assumes "is_digit c" "is_digit d" "c \<noteq> d" "\<not> (c = CHR ''0'' \<and> d = CHR ''9'')"
    and "\<not> (c = CHR ''9'' \<and> d = CHR ''0'')" "LuhnCheck (xs @ c # d # ys)"
  shows "\<not> LuhnCheck (xs @ d # c # ys)"
proof
  assume "LuhnCheck (xs @ d # c # ys)"
  with assms obtain b where
    "luhn_loop b 0 (map digit_val (rev [c, d])) mod 10 = luhn_loop b 0 (map digit_val (rev [d, c])) mod 10"
    using LuhnCheck_replace [of "[c, d]" "[d, c]" xs ys] by auto
  then have eq: "(luhn_weight b (digit_val d) + luhn_weight (\<not> b) (digit_val c)) mod 10
      = (luhn_weight b (digit_val c) + luhn_weight (\<not> b) (digit_val d)) mod 10"
    by (simp add: luhn_loop_small)
  have "digit_val CHR ''0'' = 0" "digit_val CHR ''9'' = 9" "is_digit CHR ''0''" "is_digit CHR ''9''"
    by (simp_all add: digit_val_def is_digit_def)
  then have "digit_val c \<noteq> digit_val d" "\<not> (digit_val d = 0 \<and> digit_val c = 9)"
      "\<not> (digit_val d = 9 \<and> digit_val c = 0)"
    using assms(1-5) by (metis digit_val_inj)+
  then show False
    using eq luhn_weight_swap [of "digit_val d" "digit_val c" b] assms(1,2) by auto
qed

subsection \<open>Verhoeff\<close>

definition verhoeffD :: "nat list list" where
  "verhoeffD =
    [[0, 1, 2, 3, 4, 5, 6, 7, 8, 9],
     [1, 2, 3, 4, 0, 6, 7, 8, 9, 5],
     [2, 3, 4, 0, 1, 7, 8, 9, 5, 6],
     [3, 4, 0, 1, 2, 8, 9, 5, 6, 7],
     [4, 0, 1, 2, 3, 9, 5, 6, 7, 8],
     [5, 9, 8, 7, 6, 0, 4, 3, 2, 1],
     [6, 5, 9, 8, 7, 1, 0, 4, 3, 2],
     [7, 6, 5, 9, 8, 2, 1, 0, 4, 3],
     [8, 7, 6, 5, 9, 3, 2, 1, 0, 4],
     [9, 8, 7, 6, 5, 4, 3, 2, 1, 0]]"

definition verhoeffP :: "nat list list" where
  "verhoeffP =
    [[0, 1, 2, 3, 4, 5, 6, 7, 8, 9],
     [1, 5, 7, 6, 2, 8, 3, 0, 9, 4],
     [5, 8, 0, 3, 7, 9, 6, 1, 4, 2],
     [8, 9, 1, 6, 0, 4, 3, 5, 2, 7],
     [9, 4, 5, 3, 1, 2, 6, 8, 7, 0],
     [4, 2, 8, 6, 5, 7, 3, 9, 0, 1],
     [2, 7, 9, 3, 8, 0, 6, 4, 1, 5],
     [7, 0, 4, 6, 9, 1, 3, 2, 5, 8]]"

fun verhoeff_loop :: "nat \<Rightarrow> nat \<Rightarrow> nat list \<Rightarrow> nat" where
  "verhoeff_loop i c [] = c"
| "verhoeff_loop i c (val # vals) =
     (let p_val = verhoeffP ! (i mod 8) ! val
      in verhoeff_loop (Suc i) (verhoeffD ! c ! p_val) vals)"

definition VerhoeffCheck :: "string \<Rightarrow> bool" where
  "VerhoeffCheck number =
     (let clean = only_digits number in
      if length clean \<noteq> 12 then False
      else verhoeff_loop 0 0 (map digit_val (rev clean)) = 0)"

text \<open>
  Finite facts about the two tables, each checked by evaluation: the rows of both are
  permutations of the digits, \<open>D\<close> is an associative Latin square (the dihedral group), and
  \<open>P\<close> separates swapped neighbours.
\<close>

definition D :: "nat \<Rightarrow> nat \<Rightarrow> nat" where
  "D a b = verhoeffD ! a ! b"

definition P :: "nat \<Rightarrow> nat \<Rightarrow> nat" where
  "P i a = verhoeffP ! i ! a"

lemma D_less_table: "\<forall>a \<in> set [0..<10]. \<forall>b \<in> set [0..<10]. D a b < 10"
  by code_simp

lemma P_less_table: "\<forall>i \<in> set [0..<8]. \<forall>a \<in> set [0..<10]. P i a < 10"
  by code_simp

lemma D_assoc_table:
  "\<forall>a \<in> set [0..<10]. \<forall>b \<in> set [0..<10]. \<forall>c \<in> set [0..<10]. D (D a b) c = D a (D b c)"
  by code_simp

lemma D_inj_right_table: "\<forall>a \<in> set [0..<10]. distinct (map (D a) [0..<10])"
  by code_simp

lemma D_inj_left_table: "\<forall>b \<in> set [0..<10]. distinct (map (\<lambda>a. D a b) [0..<10])"
  by code_simp

lemma P_inj_table: "\<forall>i \<in> set [0..<8]. distinct (map (P i) [0..<10])"
  by code_simp

lemma DP_swap_table:
  "\<forall>i \<in> set [0..<8]. \<forall>a \<in> set [0..<10]. \<forall>b \<in> set [0..<10].
     a = b \<or> D (P i a) (P (Suc i mod 8) b) \<noteq> D (P i b) (P (Suc i mod 8) a)"
  by code_simp

lemma D_less [simp]: "a < 10 \<Longrightarrow> b < 10 \<Longrightarrow> D a b < 10"
  by (rule all_uptD [OF all_uptD [OF D_less_table]])

lemma P_less [simp]: "i < 8 \<Longrightarrow> a < 10 \<Longrightarrow> P i a < 10"
  by (rule all_uptD [OF all_uptD [OF P_less_table]])

lemma D_assoc: "a < 10 \<Longrightarrow> b < 10 \<Longrightarrow> c < 10 \<Longrightarrow> D (D a b) c = D a (D b c)"
  by (rule all_uptD [OF all_uptD [OF all_uptD [OF D_assoc_table]]])

lemma D_inj_right: "a < 10 \<Longrightarrow> b < 10 \<Longrightarrow> c < 10 \<Longrightarrow> D a b = D a c \<Longrightarrow> b = c"
  by (rule distinct_map_upt_inj [OF all_uptD [OF D_inj_right_table]])

lemma D_inj_left: "a < 10 \<Longrightarrow> b < 10 \<Longrightarrow> c < 10 \<Longrightarrow> D b a = D c a \<Longrightarrow> b = c"
  by (rule distinct_map_upt_inj [OF all_uptD [OF D_inj_left_table]])

lemma P_inj: "i < 8 \<Longrightarrow> a < 10 \<Longrightarrow> b < 10 \<Longrightarrow> P i a = P i b \<Longrightarrow> a = b"
  by (rule distinct_map_upt_inj [OF all_uptD [OF P_inj_table]])

lemma DP_swap:
  assumes "i < 8" "a < 10" "b < 10" "a \<noteq> b"
  shows "D (P i a) (P (Suc i mod 8) b) \<noteq> D (P i b) (P (Suc i mod 8) a)"
proof -
  have "a = b \<or> D (P i a) (P (Suc i mod 8) b) \<noteq> D (P i b) (P (Suc i mod 8) a)"
    by (rule all_uptD [OF all_uptD [OF all_uptD [OF DP_swap_table]]]) (rule assms(1-3))+
  with assms(4) show ?thesis by argo
qed

text \<open>The loop, over the table functions.\<close>

lemma verhoeff_loop_Cons:
  "verhoeff_loop i c (val # vals) = verhoeff_loop (Suc i) (D c (P (i mod 8) val)) vals"
  by (simp add: D_def P_def Let_def)

declare verhoeff_loop.simps(2) [simp del]

lemma verhoeff_loop_append:
  "verhoeff_loop i c (xs @ ys) = verhoeff_loop (i + length xs) (verhoeff_loop i c xs) ys"
  by (induction xs arbitrary: i c) (simp_all add: verhoeff_loop_Cons)

lemma verhoeff_loop_less:
  "c < 10 \<Longrightarrow> \<forall>x \<in> set xs. x < 10 \<Longrightarrow> verhoeff_loop i c xs < 10"
  by (induction xs arbitrary: i c) (simp_all add: verhoeff_loop_Cons)

lemma verhoeff_loop_inj:
  "c < 10 \<Longrightarrow> d < 10 \<Longrightarrow> \<forall>x \<in> set xs. x < 10 \<Longrightarrow>
   verhoeff_loop i c xs = verhoeff_loop i d xs \<Longrightarrow> c = d"
proof (induction xs arbitrary: i c d)
  case (Cons x xs)
  have "D c (P (i mod 8) x) = D d (P (i mod 8) x)"
    by (rule Cons.IH [of _ _ "Suc i"]) (use Cons.prems in \<open>simp_all add: verhoeff_loop_Cons\<close>)
  with Cons.prems show ?case by (rule_tac D_inj_left [of "P (i mod 8) x" c d]) auto
qed simp

lemma verhoeff_loop_changed:
  assumes "\<forall>x \<in> set (us @ ds @ es @ vs). x < 10" "length ds = length es"
    and "\<And>c i. c < 10 \<Longrightarrow> verhoeff_loop i c ds \<noteq> verhoeff_loop i c es"
  shows "verhoeff_loop 0 0 (us @ ds @ vs) \<noteq> verhoeff_loop 0 0 (us @ es @ vs)"
proof
  let ?c = "verhoeff_loop 0 0 us" and ?i = "length us"
  assume "verhoeff_loop 0 0 (us @ ds @ vs) = verhoeff_loop 0 0 (us @ es @ vs)"
  then have eq: "verhoeff_loop (?i + length ds) (verhoeff_loop ?i ?c ds) vs
      = verhoeff_loop (?i + length ds) (verhoeff_loop ?i ?c es) vs"
    using assms(2) by (simp add: verhoeff_loop_append)
  have c: "?c < 10" using assms(1) by (intro verhoeff_loop_less) auto
  have "verhoeff_loop ?i ?c ds = verhoeff_loop ?i ?c es"
    using eq assms(1) c by (intro verhoeff_loop_inj [OF _ _ _ eq] verhoeff_loop_less) auto
  with assms(3) [OF c] show False by blast
qed

lemma VerhoeffCheck_changed:
  assumes "list_all is_digit ds" "list_all is_digit es" "length ds = length es"
    and "\<And>c i. c < 10 \<Longrightarrow>
      verhoeff_loop i c (map digit_val (rev ds)) \<noteq> verhoeff_loop i c (map digit_val (rev es))"
    and "VerhoeffCheck (xs @ ds @ ys)"
  shows "\<not> VerhoeffCheck (xs @ es @ ys)"
proof -
  let ?v = "\<lambda>s. map digit_val (rev (only_digits s))"
  from assms(1,2) have od: "only_digits ds = ds" "only_digits es = es"
    by (simp_all add: only_digits_def list_all_iff)
  have "verhoeff_loop 0 0 (?v ys @ ?v ds @ ?v xs) \<noteq> verhoeff_loop 0 0 (?v ys @ ?v es @ ?v xs)"
  proof (rule verhoeff_loop_changed)
    show "\<forall>x \<in> set (?v ys @ ?v ds @ ?v es @ ?v xs). x < 10"
      by (auto simp: only_digits_def)
  next
    show "length (?v ds) = length (?v es)" using assms(3) od by simp
  next
    fix c i :: nat
    assume "c < 10"
    then show "verhoeff_loop i c (?v ds) \<noteq> verhoeff_loop i c (?v es)"
      using assms(4) od by simp
  qed
  then show ?thesis using assms(3,5) od by (auto simp: VerhoeffCheck_def Let_def)
qed

lemma verhoeff_single_error:
  assumes "is_digit c" "is_digit d" "c \<noteq> d" "VerhoeffCheck (xs @ c # ys)"
  shows "\<not> VerhoeffCheck (xs @ d # ys)"
proof -
  have "\<not> VerhoeffCheck (xs @ [d] @ ys)"
  proof (rule VerhoeffCheck_changed [of "[c]"])
    fix a i :: nat
    assume "a < 10"
    then show "verhoeff_loop i a (map digit_val (rev [c])) \<noteq> verhoeff_loop i a (map digit_val (rev [d]))"
      using assms(1-3) D_inj_right [of a "P (i mod 8) (digit_val c)" "P (i mod 8) (digit_val d)"]
        P_inj [of "i mod 8" "digit_val c" "digit_val d"] digit_val_inj
      by (auto simp: verhoeff_loop_Cons)
  qed (use assms in auto)
  then show ?thesis by simp
qed

lemma verhoeff_swap_error:
  assumes "is_digit c" "is_digit d" "c \<noteq> d" "VerhoeffCheck (xs @ c # d # ys)"
  shows "\<not> VerhoeffCheck (xs @ d # c # ys)"
proof -
  have "\<not> VerhoeffCheck (xs @ [d, c] @ ys)"
  proof (rule VerhoeffCheck_changed [of "[c, d]"])
    fix a i :: nat
    let ?i = "i mod 8" and ?j = "Suc i mod 8" and ?c = "digit_val c" and ?d = "digit_val d"
    assume a: "a < 10"
    have j: "?j = Suc ?i mod 8" by (simp add: mod_Suc_eq)
    have lt: "?c < 10" "?d < 10" "?i < 8" "?j < 8" using assms(1,2) by auto
    have "D (P ?i ?d) (P ?j ?c) \<noteq> D (P ?i ?c) (P ?j ?d)"
      using DP_swap [of ?i ?d ?c] lt assms(1-3) digit_val_inj j by auto
    then have "D (D a (P ?i ?d)) (P ?j ?c) \<noteq> D (D a (P ?i ?c)) (P ?j ?d)"
      using a lt D_inj_right [of a "D (P ?i ?d) (P ?j ?c)" "D (P ?i ?c) (P ?j ?d)"]
      by (auto simp: D_assoc)
    then show "verhoeff_loop i a (map digit_val (rev [c, d])) \<noteq> verhoeff_loop i a (map digit_val (rev [d, c]))"
      by (simp add: verhoeff_loop_Cons)
  qed (use assms in auto)
  then show ?thesis by simp
qed

subsection \<open>Error detection\<close>

text \<open>
  Property C22: a number that \<open>LuhnCheck\<close> accepts is rejected after any single digit is
  changed, and after any two adjacent different digits are swapped unless they are 0 and 9,
  whatever separators the number carries.
\<close>

theorem LuhnCheck_error_detection:
  assumes "is_digit c" "is_digit d" "c \<noteq> d"
  shows "(LuhnCheck (xs @ c # ys) \<longrightarrow> \<not> LuhnCheck (xs @ d # ys)) \<and>
    (LuhnCheck (xs @ c # d # ys) \<longrightarrow> {c, d} \<noteq> {CHR ''0'', CHR ''9''} \<longrightarrow>
      \<not> LuhnCheck (xs @ d # c # ys))"
  using luhn_single_error [OF assms] luhn_swap_error [OF assms] by blast

theorem LuhnCheck_error_detection_witness:
  "LuhnCheck ''4539 1488 0343 6467'' \<and> \<not> LuhnCheck ''4539 1488 0343 6461''
    \<and> \<not> LuhnCheck ''4539 1488 0343 6476''"
proof -
  have ok: "LuhnCheck (''4539 1488 0343 646'' @ CHR ''7'' # [])"
    and ok2: "LuhnCheck (''4539 1488 0343 64'' @ CHR ''6'' # CHR ''7'' # [])" by code_simp+
  have "\<not> LuhnCheck (''4539 1488 0343 646'' @ CHR ''1'' # [])"
    using LuhnCheck_error_detection [of "CHR ''7''" "CHR ''1''" "''4539 1488 0343 646''" "[]"] ok
    by (simp add: is_digit_def)
  moreover have "\<not> LuhnCheck (''4539 1488 0343 64'' @ CHR ''7'' # CHR ''6'' # [])"
    using LuhnCheck_error_detection [of "CHR ''6''" "CHR ''7''" "''4539 1488 0343 64''" "[]"] ok2
    by (simp add: is_digit_def doubleton_eq_iff)
  ultimately show ?thesis using ok by simp
qed

text \<open>
  Property C27: a number that \<open>VerhoeffCheck\<close> accepts is rejected after any single digit is
  changed and after any two adjacent different digits are swapped, with no exception.
\<close>

theorem VerhoeffCheck_error_detection:
  assumes "is_digit c" "is_digit d" "c \<noteq> d"
  shows "(VerhoeffCheck (xs @ c # ys) \<longrightarrow> \<not> VerhoeffCheck (xs @ d # ys)) \<and>
    (VerhoeffCheck (xs @ c # d # ys) \<longrightarrow> \<not> VerhoeffCheck (xs @ d # c # ys))"
  using verhoeff_single_error [OF assms] verhoeff_swap_error [OF assms] by blast

theorem VerhoeffCheck_error_detection_witness:
  "VerhoeffCheck ''2345 6789 0124'' \<and> \<not> VerhoeffCheck ''2345 6789 0125''
    \<and> \<not> VerhoeffCheck ''2345 6789 0142''"
proof -
  have ok: "VerhoeffCheck (''2345 6789 012'' @ CHR ''4'' # [])"
    and ok2: "VerhoeffCheck (''2345 6789 01'' @ CHR ''2'' # CHR ''4'' # [])" by code_simp+
  have "\<not> VerhoeffCheck (''2345 6789 012'' @ CHR ''5'' # [])"
    using VerhoeffCheck_error_detection [of "CHR ''4''" "CHR ''5''" "''2345 6789 012''" "[]"] ok
    by (simp add: is_digit_def)
  moreover have "\<not> VerhoeffCheck (''2345 6789 01'' @ CHR ''4'' # CHR ''2'' # [])"
    using VerhoeffCheck_error_detection [of "CHR ''2''" "CHR ''4''" "''2345 6789 01''" "[]"] ok2
    by (simp add: is_digit_def)
  ultimately show ?thesis using ok by simp
qed

end
