(* ===== verification/Pii_Iban.thy ===== *)
theory Pii_Iban
  imports Go_Base
begin

text \<open>
  \<open>IBANCheck\<close> of \<open>internal/analyzer/pii/verifiers.go\<close>: the ISO 13616 check. The first four
  characters move to the end, letters become two-digit numbers, and the resulting decimal number
  must be 1 modulo 97. The lemmas show that it rejects every substitution of one character by
  another of the same kind.
\<close>

subsection \<open>IBAN\<close>

text \<open>
  \<open>strconv(int(ch) - 55)\<close> of the code writes the letter's value in decimal; the loop stops
  with \<open>return false\<close> at the first character that is neither a digit nor a capital letter.
\<close>

fun iban_numeric :: "string \<Rightarrow> string option" where
  "iban_numeric [] = Some []"
| "iban_numeric (ch # rest) =
     (if is_digit ch then map_option (\<lambda>t. ch # t) (iban_numeric rest)
      else if is_upper ch then map_option (\<lambda>t. itoa (byte ch - 55) @ t) (iban_numeric rest)
      else None)"

definition IBANCheck :: "string \<Rightarrow> bool" where
  "IBANCheck iban0 =
     (let iban = to_upper (filter (\<lambda>c. c \<noteq> CHR '' '') iban0) in
      if length iban < 15 \<or> length iban > 34 then False
      else (case iban_numeric (drop 4 iban @ take 4 iban) of
              None \<Rightarrow> False
            | Some ns \<Rightarrow> digits_val ns mod 97 = 1))"

definition iban_tok :: "char \<Rightarrow> string" where
  "iban_tok c = (if is_digit c then [c] else itoa (byte c - 55))"

lemma digit_not_upper: "is_digit c \<Longrightarrow> \<not> is_upper c"
  by (simp add: is_digit_def is_upper_def)

lemma iban_tok_digit: "is_digit c \<Longrightarrow> iban_tok c = [c]"
  by (simp add: iban_tok_def)

lemma iban_tok_upper: "is_upper c \<Longrightarrow> iban_tok c = itoa (byte c - 55)"
  by (auto simp: iban_tok_def dest: digit_not_upper)

lemma iban_numeric_eq:
  "iban_numeric s = (if list_all (\<lambda>c. is_digit c \<or> is_upper c) s then Some (concat (map iban_tok s)) else None)"
  by (induction s) (auto simp: iban_tok_digit iban_tok_upper digit_not_upper)

lemma digits_val_append: "digits_val (s @ t) = digits_val s * 10 ^ length t + digits_val t"
proof (induction t rule: rev_induct)
  case (snoc c t)
  have "digits_val (s @ t @ [c]) = 10 * digits_val (s @ t) + digit_val c"
    using digits_val_snoc [of "s @ t" c] by simp
  with snoc show ?case by (simp add: algebra_simps)
qed simp

lemma digits_val_single [simp]: "digits_val [c] = digit_val c"
  by (simp add: digits_val_def)

lemma length_itoa_two: "10 \<le> n \<Longrightarrow> n < 100 \<Longrightarrow> length (itoa n) = 2"
  by (subst itoa.simps, subst itoa.simps) auto

text \<open>A character and a replacement of the same kind: two digits, or two capital letters.\<close>

definition same_kind :: "char \<Rightarrow> char \<Rightarrow> bool" where
  "same_kind c d \<longleftrightarrow> (is_digit c \<and> is_digit d) \<or> (is_upper c \<and> is_upper d)"

lemma iban_tok_val: "is_digit c \<or> is_upper c \<Longrightarrow> digits_val (iban_tok c) < 97"
proof (elim disjE)
  assume "is_digit c"
  then show ?thesis using digit_val_less [of c] by (simp add: iban_tok_digit del: digit_val_less)
next
  assume "is_upper c"
  then show ?thesis by (auto simp: iban_tok_upper is_upper_def)
qed

lemma iban_tok_inj: "same_kind c d \<Longrightarrow> digits_val (iban_tok c) = digits_val (iban_tok d) \<Longrightarrow> c = d"
proof -
  assume k: "same_kind c d" and eq: "digits_val (iban_tok c) = digits_val (iban_tok d)"
  show "c = d"
  proof (cases "is_digit c")
    case True
    with k eq digit_not_upper show ?thesis by (auto simp: same_kind_def iban_tok_def digit_val_inj)
  next
    case False
    with k digit_not_upper have u: "is_upper c" "is_upper d" "\<not> is_digit d"
      by (auto simp: same_kind_def)
    with eq have "byte c - 55 = byte d - 55" by (simp add: iban_tok_upper)
    with u have "byte c = byte d" unfolding is_upper_def by linarith
    then show ?thesis by simp
  qed
qed

lemma iban_tok_length: "same_kind c d \<Longrightarrow> length (iban_tok c) = length (iban_tok d)"
  using digit_not_upper by (auto simp: same_kind_def iban_tok_def is_upper_def length_itoa_two)

lemma coprime_97_10: "coprime (97::int) 10"
  unfolding coprime_iff_gcd_eq_1 by code_simp

lemma mod97_cancel:
  fixes x y n :: nat
  assumes "(a + x * 10 ^ n + b) mod 97 = (a + y * 10 ^ n + b) mod 97" "x < 97" "y < 97"
  shows "x = y"
proof -
  have "int (a + x * 10 ^ n + b) mod 97 = int (a + y * 10 ^ n + b) mod 97"
    by (metis assms(1) of_nat_numeral zmod_int)
  then have "97 dvd int (a + x * 10 ^ n + b) - int (a + y * 10 ^ n + b)"
    by (simp only: mod_eq_dvd_iff)
  then have "97 dvd (int x - int y) * 10 ^ n" by (simp add: algebra_simps)
  moreover have "coprime (97::int) (10 ^ n)"
    using coprime_97_10 by simp
  ultimately have "97 dvd int x - int y" using coprime_dvd_mult_left_iff by blast
  then have "int x mod 97 = int y mod 97" by (simp only: mod_eq_dvd_iff)
  with assms(2,3) show ?thesis by simp
qed

lemma rearranged_split:
  "\<exists>p q. \<forall>c. drop 4 (xs @ c # ys) @ take 4 (xs @ c # ys) = p @ c # q"
proof (cases "length xs < 4")
  case True
  then have "\<forall>c. drop 4 (xs @ c # ys) @ take 4 (xs @ c # ys)
      = (drop (3 - length xs) ys @ xs) @ c # take (3 - length xs) ys"
    by (simp add: drop_Cons' take_Cons' numeral_eq_Suc Suc_diff_le)
  then show ?thesis by blast
next
  case False
  then have "\<forall>c. drop 4 (xs @ c # ys) @ take 4 (xs @ c # ys) = drop 4 xs @ c # (ys @ take 4 xs)"
    by simp
  then show ?thesis by blast
qed

lemma iban_substitution:
  assumes "same_kind c d" "c \<noteq> d"
    and "iban_numeric (p @ c # q) = Some ns" "digits_val ns mod 97 = 1"
    and "iban_numeric (p @ d # q) = Some ms" "digits_val ms mod 97 = 1"
  shows False
proof -
  let ?p = "concat (map iban_tok p)" and ?q = "concat (map iban_tok q)"
  from assms(3,5) have ns: "ns = ?p @ iban_tok c @ ?q" and ms: "ms = ?p @ iban_tok d @ ?q"
    by (auto simp: iban_numeric_eq split: if_splits)
  let ?n = "length ?q" and ?m = "length (iban_tok c) + length ?q"
  have "digits_val ns = digits_val ?p * 10 ^ ?m + digits_val (iban_tok c) * 10 ^ ?n + digits_val ?q"
    unfolding ns by (simp add: digits_val_append)
  moreover have "digits_val ms = digits_val ?p * 10 ^ ?m + digits_val (iban_tok d) * 10 ^ ?n + digits_val ?q"
    unfolding ms by (simp add: digits_val_append iban_tok_length [OF assms(1)])
  ultimately have "(digits_val ?p * 10 ^ ?m + digits_val (iban_tok c) * 10 ^ ?n + digits_val ?q) mod 97
      = (digits_val ?p * 10 ^ ?m + digits_val (iban_tok d) * 10 ^ ?n + digits_val ?q) mod 97"
    using assms(4,6) by simp
  moreover have "digits_val (iban_tok c) < 97" "digits_val (iban_tok d) < 97"
    using assms(1) by (auto simp: same_kind_def intro: iban_tok_val)
  ultimately have "digits_val (iban_tok c) = digits_val (iban_tok d)"
    by (rule mod97_cancel)
  with assms(1,2) show False using iban_tok_inj by blast
qed

lemma upper_char_same_kind: "same_kind (upper_char c) (upper_char d) \<Longrightarrow> c \<noteq> CHR '' '' \<and> d \<noteq> CHR '' ''"
  by (auto simp: same_kind_def upper_char_def is_lower_def is_upper_def is_digit_def split: if_splits)

text \<open>
  Property C25: an IBAN that \<open>IBANCheck\<close> accepts is rejected after any one of its characters
  is replaced by a different one of the same kind (a digit by a digit, a letter by a letter up to
  case), whatever the spaces and wherever the character stands: the check digits, the country code
  or the account number.
\<close>

theorem IBANCheck_detects_substitution:
  assumes "same_kind (upper_char c) (upper_char d)" "upper_char c \<noteq> upper_char d"
    and "IBANCheck (xs @ c # ys)"
  shows "\<not> IBANCheck (xs @ d # ys)"
proof
  assume d: "IBANCheck (xs @ d # ys)"
  let ?f = "\<lambda>s. to_upper (filter (\<lambda>c. c \<noteq> CHR '' '') s)"
  have split: "?f (xs @ e # ys) = ?f xs @ upper_char e # ?f ys" if "e \<noteq> CHR '' ''" for e
    using that by (simp add: to_upper_def)
  obtain p q where pq: "\<forall>c. drop 4 (?f xs @ c # ?f ys) @ take 4 (?f xs @ c # ?f ys) = p @ c # q"
    using rearranged_split [of "?f xs" "?f ys"] by blast
  have "\<exists>ns. iban_numeric (p @ upper_char e # q) = Some ns \<and> digits_val ns mod 97 = 1"
    if "IBANCheck (xs @ e # ys)" "e \<noteq> CHR '' ''" for e
    using that(1) unfolding IBANCheck_def Let_def split [OF that(2)] pq [rule_format]
    by (auto split: if_splits option.splits)
  with d assms(3) upper_char_same_kind [OF assms(1)] obtain ns ms where
    "iban_numeric (p @ upper_char c # q) = Some ns" "digits_val ns mod 97 = 1"
    "iban_numeric (p @ upper_char d # q) = Some ms" "digits_val ms mod 97 = 1"
    by blast
  then show False by (rule iban_substitution [OF assms(1,2)])
qed

theorem IBANCheck_detects_substitution_witness:
  "IBANCheck ''GB82 WEST 1234 5698 7654 32'' \<and> \<not> IBANCheck ''GB82 WEST 1234 5698 7654 33''"
proof -
  have ok: "IBANCheck (''GB82 WEST 1234 5698 7654 3'' @ CHR ''2'' # [])"
    by (simp add: IBANCheck_def to_upper_def upper_char_def is_lower_def is_digit_def is_upper_def
        itoa.simps digit_char_def digits_val_def digit_val_def)
  have "\<not> IBANCheck (''GB82 WEST 1234 5698 7654 3'' @ CHR ''3'' # [])"
    by (rule IBANCheck_detects_substitution [OF _ _ ok])
      (simp_all add: same_kind_def upper_char_def is_lower_def is_digit_def)
  with ok show ?thesis by simp
qed

end
