(* ===== verification/Pii_Catalog.thy ===== *)
theory Pii_Catalog
  imports Pii_Verifiers Pii_Iban Core_Models
begin

text \<open>
  The detection rules of \<open>internal/analyzer/pii/catalog.go\<close> and the scan of
  \<open>scanner.go\<close>. A compiled pattern is a constructor of \<open>pii_regex\<close> (the
  inline patterns are named after their rule), and the matcher \<open>FindString\<close> is a parameter:
  \<open>re_find p v\<close> is the first match of \<open>p\<close> in \<open>v\<close>, if there is one.
\<close>

datatype pii_regex =
    regEmail | regPhone | regDate | regVisa | regMasterCard | regCardGeneric | regIBAN |
    regSWIFT | regUUID | regPAN | regAadhar | regSSN | regPassport | regDriverLic |
    regCanadianSIN | regFinnishPIN | regBearer | regJWT | regAWS | regGenericString |
    regGenericInt | regHealthID | regMedicare | regStreetAddress | regGermanInsurance |
    regFullName | regAddress | regPersonName

type_synonym re_find = "pii_regex \<Rightarrow> string \<Rightarrow> string option"

record pii_rule =
  pr_Name :: string
  pr_Regex :: pii_regex
  pr_Keywords :: "string list"
  pr_Verifier :: "(string \<Rightarrow> bool) option"

definition pii_Rules :: "pii_rule list" where
  "pii_Rules = [
     \<lparr>pr_Name = ''VISA_CARD'', pr_Regex = regVisa,
      pr_Keywords = [''cardNum'', ''cardnum'', ''card_number'', ''card'', ''cc'', ''visa'', ''payment'',
        ''billing'', ''credit'', ''debit''],
      pr_Verifier = Some LuhnCheck\<rparr>,
     \<lparr>pr_Name = ''MASTER_CARD'', pr_Regex = regMasterCard,
      pr_Keywords = [''cardNum'', ''cardnum'', ''card_number'', ''card'', ''cc'', ''master'', ''payment'',
        ''billing'', ''credit'', ''debit''],
      pr_Verifier = Some LuhnCheck\<rparr>,
     \<lparr>pr_Name = ''CREDIT_CARD'', pr_Regex = regCardGeneric,
      pr_Keywords = [''cardNum'', ''cardnum'', ''card_number'', ''credit_card'', ''debit_card'', ''cc_num'',
        ''payment'', ''billing'', ''credit'', ''debit''],
      pr_Verifier = None\<rparr>,
     \<lparr>pr_Name = ''IBAN_CODE'', pr_Regex = regIBAN,
      pr_Keywords = [''iban'', ''bank'', ''account''],
      pr_Verifier = Some IBANCheck\<rparr>,
     \<lparr>pr_Name = ''SWIFT_CODE'', pr_Regex = regSWIFT,
      pr_Keywords = [''swift'', ''bic'', ''bank''],
      pr_Verifier = None\<rparr>,
     \<lparr>pr_Name = ''INDIAN_PAN'', pr_Regex = regPAN,
      pr_Keywords = [''pan'', ''tax'', ''id''],
      pr_Verifier = None\<rparr>,
     \<lparr>pr_Name = ''INDIAN_AADHAR'', pr_Regex = regAadhar,
      pr_Keywords = [''aadhar'', ''uidai'', ''id''],
      pr_Verifier = Some VerhoeffCheck\<rparr>,
     \<lparr>pr_Name = ''INDIAN_HEALTH_ID'', pr_Regex = regHealthID,
      pr_Keywords = [''health'', ''abha'', ''ndhm''],
      pr_Verifier = None\<rparr>,
     \<lparr>pr_Name = ''US_SSN'', pr_Regex = regSSN,
      pr_Keywords = [''ssn'', ''social'', ''tax''],
      pr_Verifier = None\<rparr>,
     \<lparr>pr_Name = ''US_MEDICARE'', pr_Regex = regMedicare,
      pr_Keywords = [''medicare'', ''mbi'', ''insurance''],
      pr_Verifier = None\<rparr>,
     \<lparr>pr_Name = ''CANADIAN_SIN'', pr_Regex = regCanadianSIN,
      pr_Keywords = [''sin'', ''social'', ''insurance''],
      pr_Verifier = Some LuhnCheck\<rparr>,
     \<lparr>pr_Name = ''STREET_ADDRESS'', pr_Regex = regStreetAddress,
      pr_Keywords = [''address'', ''street'', ''city'', ''zip'', ''billing'', ''shipping'', ''residence'',
        ''location'', ''streetAddress'', ''StreetAddress'', ''street_address'',
        ''Street_Address'', ''zipCode'', ''zip_code'', ''zipcode'', ''ZipCode''],
      pr_Verifier = None\<rparr>,
     \<lparr>pr_Name = ''FINNISH_PIN'', pr_Regex = regFinnishPIN,
      pr_Keywords = [''pin'', ''hetu'', ''id''],
      pr_Verifier = None\<rparr>,
     \<lparr>pr_Name = ''GERMAN_INSURANCE_ID'', pr_Regex = regGermanInsurance,
      pr_Keywords = [''insurance'', ''kvnr''],
      pr_Verifier = None\<rparr>,
     \<lparr>pr_Name = ''PASSPORT_NO'', pr_Regex = regPassport,
      pr_Keywords = [''passport'', ''travel'', ''document''],
      pr_Verifier = None\<rparr>,
     \<lparr>pr_Name = ''DRIVERS_LICENSE'', pr_Regex = regDriverLic,
      pr_Keywords = [''driver'', ''license'', ''dl'', ''permit''],
      pr_Verifier = None\<rparr>,
     \<lparr>pr_Name = ''EMAIL'', pr_Regex = regEmail,
      pr_Keywords = [],
      pr_Verifier = None\<rparr>,
     \<lparr>pr_Name = ''PHONE_NUMBER'', pr_Regex = regPhone,
      pr_Keywords = [''phone'', ''mobile'', ''contact'', ''fax'', ''tel'', ''cell''],
      pr_Verifier = None\<rparr>,
     \<lparr>pr_Name = ''DATE_OF_BIRTH'', pr_Regex = regDate,
      pr_Keywords = [''dob'', ''birth'', ''date''],
      pr_Verifier = None\<rparr>,
     \<lparr>pr_Name = ''PASSWORD'', pr_Regex = regGenericString,
      pr_Keywords = [''password'', ''passwd'', ''pwd'', ''secret'', ''pass''],
      pr_Verifier = None\<rparr>,
     \<lparr>pr_Name = ''FULL_NAME'', pr_Regex = regFullName,
      pr_Keywords = [''name'', ''fullname'', ''customer'', ''user'', ''answer'', ''fullName'', ''full_name'',
        ''Name''],
      pr_Verifier = None\<rparr>,
     \<lparr>pr_Name = ''AUTH_TOKEN_BEARER'', pr_Regex = regBearer,
      pr_Keywords = [''authorization'', ''auth'', ''token''],
      pr_Verifier = None\<rparr>,
     \<lparr>pr_Name = ''JWT_TOKEN'', pr_Regex = regJWT,
      pr_Keywords = [''authentication'', ''token'', ''access_token'', ''access token'', ''refresh_token'',
        ''refresh token'', ''jwt'', ''id_token'', ''id token'', ''auth''],
      pr_Verifier = None\<rparr>,
     \<lparr>pr_Name = ''AWS_KEY'', pr_Regex = regAWS,
      pr_Keywords = [''aws'', ''amazon'', ''access_key'', ''access key'', ''secret_key'',
        ''aws_access_key_id'', ''aws_access_key'', ''access_key'', ''access_key_id'',
        ''aws_key'', ''aws_id''],
      pr_Verifier = None\<rparr>,
     \<lparr>pr_Name = ''USER_ID'', pr_Regex = regGenericInt,
      pr_Keywords = [''user_id'', ''userid'', ''uid'', ''account_id'', ''member_id''],
      pr_Verifier = None\<rparr>,
     \<lparr>pr_Name = ''USERNAME'', pr_Regex = regGenericString,
      pr_Keywords = [''username'', ''user_name'', ''login'', ''handle'', ''userName''],
      pr_Verifier = None\<rparr>,
     \<lparr>pr_Name = ''ADDRESS'', pr_Regex = regAddress,
      pr_Keywords = [''address'', ''street'', ''city'', ''zip'', ''billing'', ''shipping'', ''residence'',
        ''location'', ''streetAddress'', ''StreetAddress'', ''street_address'',
        ''Street_Address''],
      pr_Verifier = None\<rparr>,
     \<lparr>pr_Name = ''PERSON_NAME'', pr_Regex = regPersonName,
      pr_Keywords = [''fullname'', ''full_name'', ''customer_name'', ''fullName'', ''name''],
      pr_Verifier = None\<rparr>]"

definition keyword_gate :: "string list \<Rightarrow> string \<Rightarrow> bool" where
  "keyword_gate keywords key \<longleftrightarrow> keywords = [] \<or> list_ex (\<lambda>kw. contains_str key kw) keywords"

text \<open>\<open>pii.Scan\<close>, whose verifier sees the whole value.\<close>

definition pii_Scan :: "re_find \<Rightarrow> string \<Rightarrow> string \<Rightarrow> string list" where
  "pii_Scan re_find key0 value0 = (let key = to_lower key0 in
     map pr_Name (filter (\<lambda>rule. keyword_gate (pr_Keywords rule) key \<and> re_find (pr_Regex rule) value0 \<noteq> None \<and>
       (case pr_Verifier rule of None \<Rightarrow> True | Some verify \<Rightarrow> verify value0)) pii_Rules))"

text \<open>
  \<open>scanPII\<close> of \<open>processor.go\<close>, which verifies the matched part, and skips three
  rules for headers.
\<close>

definition pii_rule_fires :: "re_find \<Rightarrow> string \<Rightarrow> string \<Rightarrow> string \<Rightarrow> pii_rule \<Rightarrow> bool" where
  "pii_rule_fires re_find scope keyLower value0 rule \<longleftrightarrow>
     \<not> (scope = ''HEADER'' \<and> pr_Name rule \<in> {''ADDRESS'', ''PHONE_NUMBER'', ''PASSWORD''}) \<and>
     keyword_gate (pr_Keywords rule) keyLower \<and>
     (case re_find (pr_Regex rule) value0 of
        None \<Rightarrow> False
      | Some matchStr \<Rightarrow> (case pr_Verifier rule of None \<Rightarrow> True | Some verify \<Rightarrow> verify matchStr))"

definition scanPII :: "re_find \<Rightarrow> string \<Rightarrow> string \<Rightarrow> string \<Rightarrow> string list \<Rightarrow> string list" where
  "scanPII re_find scope key value0 foundTags =
     foundTags @ map pr_Name (filter (pii_rule_fires re_find scope (to_lower key) value0) pii_Rules)"

lemma pii_Rules_names: "distinct (map pr_Name pii_Rules)"
  by (simp add: pii_Rules_def)

lemma pii_Rules_trimmed: "\<forall>r \<in> set pii_Rules. trim_space (pr_Name r) = pr_Name r \<and> pr_Name r \<noteq> []"
  by (simp add: pii_Rules_def trim_space_def trim_left_def trim_right_def is_space_def)

lemma pii_Rules_verifiers:
  "r \<in> set pii_Rules \<Longrightarrow> pr_Name r \<in> {''VISA_CARD'', ''MASTER_CARD'', ''CANADIAN_SIN''} \<Longrightarrow> pr_Verifier r = Some LuhnCheck"
  "r \<in> set pii_Rules \<Longrightarrow> pr_Name r = ''IBAN_CODE'' \<Longrightarrow> pr_Verifier r = Some IBANCheck"
  "r \<in> set pii_Rules \<Longrightarrow> pr_Name r = ''INDIAN_AADHAR'' \<Longrightarrow> pr_Verifier r = Some VerhoeffCheck"
  by (auto simp: pii_Rules_def)

end
