(* ===== verification/Endpoint.thy ===== *)
theory Endpoint
  imports Core_Models Go_Url
begin

text \<open>
  The endpoint normaliser of \<open>internal/analyzer/endpoint/normalizer.go\<close>: it turns an observed
  path into a pattern with named parameters, and reads the query and cookie parameters. The anchored
  regular expressions are written as predicates on bytes. Two functions of the standard library are
  parameters: \<open>is_float\<close> (whether \<open>strconv.ParseFloat\<close> succeeds) and
  \<open>sha256_hex\<close>.
\<close>

definition LocationPath :: string where "LocationPath = ''path''"
definition LocationQuery :: string where "LocationQuery = ''query''"
definition LocationHeader :: string where "LocationHeader = ''header''"
definition LocationCookie :: string where "LocationCookie = ''cookie''"
definition LocationRequestBody :: string where "LocationRequestBody = ''request_body''"
definition LocationResponseBody :: string where "LocationResponseBody = ''response_body''"

record parameter_observation =
  po_Name :: string
  po_Location :: string
  po_Value :: string
  po_DataType :: string

record normalized_path =
  np_Pattern :: string
  np_Parameters :: "parameter_observation list"

subsection \<open>Segment classes\<close>

definition is_alnum :: "char \<Rightarrow> bool" where
  "is_alnum c \<longleftrightarrow> is_letter c \<or> is_digit c"

definition uuidPattern :: "string \<Rightarrow> bool" where
  "uuidPattern s = (case split_on (CHR ''-'') s of
     [a, b, c, d, e] \<Rightarrow> length a = 8 \<and> length b = 4 \<and> length c = 4 \<and> length d = 4 \<and> length e = 12 \<and>
       list_all is_hex (a @ b @ c @ d @ e) \<and> hd c \<in> set ''12345'' \<and> lower_char (hd d) \<in> set ''89ab''
   | _ \<Rightarrow> False)"

definition objectIDPattern :: "string \<Rightarrow> bool" where
  "objectIDPattern s \<longleftrightarrow> length s = 24 \<and> list_all is_hex s"

definition hashPattern :: "string \<Rightarrow> bool" where
  "hashPattern s \<longleftrightarrow> length s \<in> set [32, 40, 64, 128] \<and> list_all is_hex s"

definition ulidPattern :: "string \<Rightarrow> bool" where
  "ulidPattern s \<longleftrightarrow> length s = 26 \<and> hd s \<in> set ''01234567'' \<and>
     list_all (\<lambda>c. is_alnum c \<and> lower_char c \<notin> set ''ilou'') (tl s)"

definition ksuidPattern :: "string \<Rightarrow> bool" where
  "ksuidPattern s \<longleftrightarrow> length s = 27 \<and> list_all is_alnum s"

definition cuidPattern :: "string \<Rightarrow> bool" where
  "cuidPattern s \<longleftrightarrow> length s \<ge> 25 \<and> lower_char (hd s) = CHR ''c'' \<and> list_all is_alnum (tl s)"

definition versionPattern :: "string \<Rightarrow> bool" where
  "versionPattern s = (case s of [] \<Rightarrow> False
     | c # r \<Rightarrow> lower_char c = CHR ''v'' \<and>
         (let ps = split_on (CHR ''.'') r in length ps \<le> 2 \<and> list_all (\<lambda>p. p \<noteq> [] \<and> list_all is_digit p) ps))"

definition mixedIDPattern :: "string \<Rightarrow> bool" where
  "mixedIDPattern s =
     (let a = takeWhile is_alnum s; r = dropWhile is_alnum s in
      2 \<le> length a \<and> length a \<le> 33 \<and> is_letter (hd a) \<and> r \<noteq> [] \<and> hd r \<in> set ''-_'' \<and>
      2 \<le> length (tl r) \<and> list_all is_digit (tl r))"

definition tokenLikePattern :: "string \<Rightarrow> bool" where
  "tokenLikePattern s \<longleftrightarrow> 32 \<le> length s \<and> list_all (\<lambda>c. is_alnum c \<or> c \<in> set ''_-'') s"

definition hasDigitAndLetter :: "string \<Rightarrow> bool" where
  "hasDigitAndLetter s \<longleftrightarrow> list_ex is_digit s \<and> list_ex is_letter s"

definition classifySegment :: "string \<Rightarrow> string option" where
  "classifySegment segment =
     (if segment = [] \<or> versionPattern segment then None
      else if parse_int 64 segment \<noteq> None then Some ''id''
      else if uuidPattern segment then Some ''uuid''
      else if objectIDPattern segment then Some ''object_id''
      else if ulidPattern segment then Some ''ulid''
      else if hashPattern segment then Some ''hash''
      else if cuidPattern segment then Some ''id''
      else if mixedIDPattern segment then Some ''id''
      else if ksuidPattern segment \<and> hasDigitAndLetter segment then Some ''ksuid''
      else if tokenLikePattern segment \<and> hasDigitAndLetter segment then Some ''token''
      else None)"

definition singularizeResource :: "string \<Rightarrow> string" where
  "singularizeResource value0 =
     (let v1 = trim_set ''_-'' (to_lower (trim_space value0)) in
      if v1 = [] \<or> has_prefix v1 ''{'' then []
      else (let v = replace_char (CHR ''-'') (CHR ''_'') v1 in
        if has_suffix v ''ies'' \<and> length v > 3 then trim_suffix v ''ies'' @ ''y''
        else if has_suffix v ''ses'' \<and> length v > 3 then trim_suffix v ''es''
        else if has_suffix v ''s'' \<and> length v > 1 then trim_suffix v ''s''
        else v))"

definition parameterName :: "string \<Rightarrow> string \<Rightarrow> string" where
  "parameterName previousStatic class =
     (let resource = singularizeResource previousStatic in
      if resource = [] then class
      else if class = ''id'' then resource @ ''_id''
      else resource @ ''_'' @ class)"

definition seen_count :: "(string \<times> nat) list \<Rightarrow> string \<Rightarrow> nat" where
  "seen_count seen name = (case map_of seen name of None \<Rightarrow> 0 | Some n \<Rightarrow> n)"

definition uniqueParameterName :: "string \<Rightarrow> (string \<times> nat) list \<Rightarrow> string \<times> (string \<times> nat) list" where
  "uniqueParameterName name0 seen =
     (let name = (if name0 = [] then ''param'' else name0);
          n = seen_count seen name + 1;
          seen' = (name, n) # seen
      in if n = 1 then (name, seen') else (name @ ''_'' @ itoa n, seen'))"

definition dataType :: "(string \<Rightarrow> bool) \<Rightarrow> string \<Rightarrow> string" where
  "dataType is_float value0 =
     (let v = trim_space value0 in
      if v = [] then ''string''
      else if parse_int 64 v \<noteq> None then ''integer''
      else if is_float v then ''float''
      else if equal_fold v ''true'' \<or> equal_fold v ''false'' then ''boolean''
      else ''string'')"

definition normalizeStaticSegment :: "string \<Rightarrow> string" where
  "normalizeStaticSegment segment = trim_space segment"

definition decodeSegment :: "string \<Rightarrow> string" where
  "decodeSegment segment = (case PathUnescape segment of None \<Rightarrow> segment | Some decoded \<Rightarrow> decoded)"

definition canonicalPath :: "string \<Rightarrow> string \<Rightarrow> string" where
  "canonicalPath rawPath rawURL =
     (let c0 = trim_space rawPath;
          c1 = (if c0 = [] \<and> rawURL \<noteq> [] then (case url_Parse rawURL of None \<Rightarrow> c0 | Some u \<Rightarrow> EscapedPath u) else c0)
      in if c1 = [] then ''/''
         else (let c2 = (case url_Parse c1 of None \<Rightarrow> c1 | Some u \<Rightarrow> if u_Path u \<noteq> [] then EscapedPath u else c1);
                   c3 = (if has_prefix c2 ''/'' then c2 else CHR ''/'' # c2)
               in path_Clean c3))"

text \<open>The loop over the segments: the pattern segments and the parameters it appends.\<close>

fun normalize_loop ::
  "(string \<Rightarrow> bool) \<Rightarrow> (string \<times> nat) list \<Rightarrow> string \<Rightarrow> string list \<Rightarrow> string list \<times> parameter_observation list" where
  "normalize_loop is_float seen lastStatic [] = ([], [])"
| "normalize_loop is_float seen lastStatic (segment # segments) =
     (let decoded = decodeSegment segment in
      if decoded = [] then normalize_loop is_float seen lastStatic segments
      else (case classifySegment decoded of
          Some class \<Rightarrow>
            (let (name, seen') = uniqueParameterName (parameterName lastStatic class) seen;
                 (pats, params) = normalize_loop is_float seen' lastStatic segments
             in ((''{'' @ name @ ''}'') # pats,
                 \<lparr>po_Name = name, po_Location = LocationPath, po_Value = decoded, po_DataType = dataType is_float decoded\<rparr> # params))
        | None \<Rightarrow>
            (let staticSegment = normalizeStaticSegment decoded;
                 (pats, params) = normalize_loop is_float seen staticSegment segments
             in (staticSegment # pats, params))))"

definition NormalizePath :: "(string \<Rightarrow> bool) \<Rightarrow> string \<Rightarrow> string \<Rightarrow> normalized_path" where
  "NormalizePath is_float rawPath rawURL =
     (let cleanPath = canonicalPath rawPath rawURL in
      if cleanPath = ''/'' then \<lparr>np_Pattern = ''/'', np_Parameters = []\<rparr>
      else (case normalize_loop is_float [] [] (split_on (CHR ''/'') (trim_set ''/'' cleanPath)) of
          ([], _) \<Rightarrow> \<lparr>np_Pattern = ''/'', np_Parameters = []\<rparr>
        | (pats, params) \<Rightarrow> \<lparr>np_Pattern = CHR ''/'' # join_with ''/'' pats, np_Parameters = params\<rparr>))"

text \<open>\<open>Values\<close> as its keys with their first value, in an order that stands for the map's.\<close>

fun first_values :: "string list \<Rightarrow> (string \<times> string) list \<Rightarrow> (string \<times> string) list" where
  "first_values seen [] = []"
| "first_values seen ((k, v) # kvs) =
     (if k \<in> set seen then first_values seen kvs else (k, v) # first_values (k # seen) kvs)"

definition QueryParameters :: "(string \<Rightarrow> bool) \<Rightarrow> string \<Rightarrow> parameter_observation list" where
  "QueryParameters is_float rawURL =
     (case url_Parse rawURL of
        None \<Rightarrow> []
      | Some parsed \<Rightarrow>
          if u_RawQuery parsed = [] then []
          else (case ParseQuery (u_RawQuery parsed) of
              None \<Rightarrow> []
            | Some values0 \<Rightarrow>
                map (\<lambda>(k, v). \<lparr>po_Name = trim_space k, po_Location = LocationQuery, po_Value = v, po_DataType = dataType is_float v\<rparr>)
                  (filter (\<lambda>(k, v). trim_space k \<noteq> []) (first_values [] values0))))"

definition cookie_pair :: "(string \<Rightarrow> bool) \<Rightarrow> string \<Rightarrow> parameter_observation list" where
  "cookie_pair is_float part =
     (case cut_at (CHR ''='') (trim_space part) of
        None \<Rightarrow> []
      | Some (name, v) \<Rightarrow>
          if trim_space name = [] then []
          else [\<lparr>po_Name = trim_space name, po_Location = LocationCookie, po_Value = trim_space v,
                 po_DataType = dataType is_float v\<rparr>])"

definition CookieParameters :: "(string \<Rightarrow> bool) \<Rightarrow> string list gomap \<Rightarrow> parameter_observation list" where
  "CookieParameters is_float headers =
     concat (map (\<lambda>(key, values0).
       if equal_fold (trim_space key) ''Cookie'' then
         concat (map (\<lambda>headerValue. concat (map (cookie_pair is_float) (split_on (CHR '';'') headerValue))) values0)
       else []) headers)"

definition Fingerprint :: "(string \<Rightarrow> string) \<Rightarrow> string \<Rightarrow> string \<Rightarrow> string \<Rightarrow> string \<Rightarrow> string \<Rightarrow> string" where
  "Fingerprint sha256_hex tenantID projectID method0 baseURL pattern =
     sha256_hex (join_with [CHR 0x00]
       [trim_space tenantID, trim_space projectID, to_upper (trim_space method0),
        to_lower (trim_right_set ''/'' (trim_space baseURL)), trim_space pattern])"

subsection \<open>Parameter names are distinct\<close>

definition base_name :: "string \<Rightarrow> bool" where
  "base_name b \<longleftrightarrow> b \<noteq> [] \<and> \<not> is_digit (last b)"

definition numbered :: "string \<Rightarrow> nat \<Rightarrow> string" where
  "numbered b k = (if k = 1 then b else b @ ''_'' @ itoa k)"

lemma last_itoa_digit: "is_digit (last (itoa k))"
  using itoa_digits [of k] by (metis itoa_not_Nil last_in_set)

lemma split_number:
  "takeWhile is_digit (rev (b @ CHR ''_'' # itoa k)) = rev (itoa k)"
  "dropWhile is_digit (rev (b @ CHR ''_'' # itoa k)) = CHR ''_'' # rev b"
proof -
  have d: "\<forall>c \<in> set (rev (itoa k)). is_digit c" using itoa_digits by simp
  have u: "\<not> is_digit (CHR ''_'')" by (simp add: is_digit_def)
  have r: "rev (b @ CHR ''_'' # itoa k) = rev (itoa k) @ CHR ''_'' # rev b" by simp
  show "takeWhile is_digit (rev (b @ CHR ''_'' # itoa k)) = rev (itoa k)"
    unfolding r using d u by (subst takeWhile_append2) auto
  show "dropWhile is_digit (rev (b @ CHR ''_'' # itoa k)) = CHR ''_'' # rev b"
    unfolding r using d u by (subst dropWhile_append2) auto
qed

lemma numbered_inject:
  assumes "base_name b" "base_name b'" "numbered b k = numbered b' k'"
  shows "b = b' \<and> k = k'"
proof -
  have no: "c \<noteq> d @ CHR ''_'' # itoa n" if "base_name c" for c d n
    using that last_itoa_digit [of n] by (auto simp: base_name_def)
  have "b @ CHR ''_'' # itoa k = b' @ CHR ''_'' # itoa k' \<Longrightarrow> b = b' \<and> k = k'"
    using split_number [of b k] split_number [of b' k'] by simp
  with assms no show ?thesis by (auto simp: numbered_def split: if_splits)
qed

lemma classifySegment_classes:
  "classifySegment s = Some cl \<Longrightarrow> cl \<in> set [''id'', ''uuid'', ''object_id'', ''ulid'', ''hash'', ''ksuid'', ''token'']"
  by (auto simp: classifySegment_def split: if_splits)

lemma parameterName_base: "classifySegment s = Some cl \<Longrightarrow> base_name (parameterName prev cl)"
  by (drule classifySegment_classes) (auto simp: parameterName_def Let_def base_name_def is_digit_def)

lemma uniqueParameterName_numbered:
  "base_name b \<Longrightarrow> uniqueParameterName b seen = (numbered b (seen_count seen b + 1), (b, seen_count seen b + 1) # seen)"
  by (simp add: uniqueParameterName_def Let_def numbered_def base_name_def)

lemma normalize_loop_names:
  "po_Name ` set (snd (normalize_loop fl seen lst segs)) \<subseteq> {numbered b k |b k. base_name b \<and> seen_count seen b < k} \<and>
   distinct (map po_Name (snd (normalize_loop fl seen lst segs)))"
proof (induction fl seen lst segs rule: normalize_loop.induct)
  case (2 fl seen lst seg segs)
  let ?d = "decodeSegment seg"
  show ?case
  proof (cases "?d = []")
    case True
    with 2(1) show ?thesis by simp
  next
    case d: False
    show ?thesis
    proof (cases "classifySegment ?d")
      case None
      with 2(2) [OF refl d None refl] d show ?thesis by (simp add: Let_def case_prod_beta)
    next
      case (Some cl)
      let ?b = "parameterName lst cl" and ?n = "seen_count seen (parameterName lst cl) + 1"
      let ?rest = "snd (normalize_loop fl ((?b, ?n) # seen) lst segs)"
      note b = parameterName_base [OF Some, of lst]
      have IH: "po_Name ` set ?rest \<subseteq> {numbered b k |b k. base_name b \<and> seen_count ((?b, ?n) # seen) b < k}"
        "distinct (map po_Name ?rest)"
        using 2(3) [OF refl d Some] by (simp_all add: uniqueParameterName_numbered [OF b])
      have "numbered ?b ?n \<notin> po_Name ` set ?rest"
      proof
        assume "numbered ?b ?n \<in> po_Name ` set ?rest"
        with IH(1) obtain b' k where "numbered ?b ?n = numbered b' k" "base_name b'"
          "seen_count ((?b, ?n) # seen) b' < k" by blast
        with numbered_inject [OF b this(2,1)] show False by (auto simp: seen_count_def)
      qed
      moreover have "po_Name ` set ?rest \<subseteq> {numbered b k |b k. base_name b \<and> seen_count seen b < k}"
      proof -
        have "seen_count seen b' \<le> seen_count ((?b, ?n) # seen) b'" for b' by (simp add: seen_count_def)
        with IH(1) show ?thesis by (blast intro: le_less_trans)
      qed
      moreover have "numbered ?b ?n \<in> {numbered b k |b k. base_name b \<and> seen_count seen b < k}"
        using b by (auto intro: exI [of _ ?b] exI [of _ ?n])
      ultimately show ?thesis
        using d Some IH(2) by (simp add: Let_def case_prod_beta uniqueParameterName_numbered [OF b])
    qed
  qed
qed simp

text \<open>The pattern depends on a dynamic segment only through its class.\<close>

definition same_shape :: "string \<Rightarrow> string \<Rightarrow> bool" where
  "same_shape a b \<longleftrightarrow> decodeSegment a = decodeSegment b \<or>
     (\<exists>cl. classifySegment (decodeSegment a) = Some cl \<and> classifySegment (decodeSegment b) = Some cl)"

lemma normalize_loop_same_shape:
  "list_all2 same_shape as bs \<Longrightarrow> fst (normalize_loop fl seen lst as) = fst (normalize_loop fl seen lst bs)"
proof (induction as bs arbitrary: seen lst rule: list_all2_induct)
  case (Cons a as b bs)
  have ne: "decodeSegment s \<noteq> []" if "classifySegment (decodeSegment s) = Some cl" for s cl
    using that by (auto simp: classifySegment_def)
  from Cons(1) consider (eq) "decodeSegment a = decodeSegment b"
    | (cls) cl where "classifySegment (decodeSegment a) = Some cl" "classifySegment (decodeSegment b) = Some cl"
    by (auto simp: same_shape_def)
  then show ?case
  proof cases
    case eq
    with Cons.IH show ?thesis by (simp add: Let_def case_prod_beta split: option.split)
  next
    case cls
    with Cons.IH ne show ?thesis by (simp add: Let_def case_prod_beta)
  qed
qed simp

lemma NormalizePath_parts:
  "np_Parameters (NormalizePath fl p u) = [] \<or>
   (\<exists>segs. np_Parameters (NormalizePath fl p u) = snd (normalize_loop fl [] [] segs))"
  by (auto simp: NormalizePath_def Let_def split: prod.split list.split) (metis snd_conv)

text \<open>
  The parameters of a normalised path have pairwise distinct, non-empty names, so the
  observations of two segments are never stored under one name: a repeated name gets a number that
  no other name of the path can end in.
\<close>

theorem NormalizePath_distinct_names:
  "distinct (map po_Name (np_Parameters (NormalizePath is_float rawPath rawURL))) \<and>
   [] \<notin> set (map po_Name (np_Parameters (NormalizePath is_float rawPath rawURL)))"
proof -
  have "[] \<notin> {numbered b k |b k. base_name b \<and> seen_count [] b < k}"
    by (auto simp: numbered_def base_name_def split: if_splits)
  with normalize_loop_names [of is_float "[]" "[]"] have
    "distinct (map po_Name (snd (normalize_loop is_float [] [] segs))) \<and>
     [] \<notin> set (map po_Name (snd (normalize_loop is_float [] [] segs)))" for segs
    by (metis (no_types, lifting) list.set_map subset_iff)
  with NormalizePath_parts [of is_float rawPath rawURL] show ?thesis by fastforce
qed

text \<open>
  Identifiers do not split an endpoint: two request paths that agree segment by segment,
  or whose differing segments are identifiers of the same class (a number, a UUID, an object id, ...),
  have the same pattern, so their traffic is counted under one endpoint.
\<close>

theorem NormalizePath_same_pattern:
  assumes "canonicalPath p1 u1 \<noteq> ''/''" "canonicalPath p2 u2 \<noteq> ''/''"
    and "list_all2 same_shape (split_on (CHR ''/'') (trim_set ''/'' (canonicalPath p1 u1)))
           (split_on (CHR ''/'') (trim_set ''/'' (canonicalPath p2 u2)))"
  shows "np_Pattern (NormalizePath is_float p1 u1) = np_Pattern (NormalizePath is_float p2 u2)"
proof -
  have "np_Pattern (NormalizePath is_float p u) =
    (case fst (normalize_loop is_float [] [] (split_on (CHR ''/'') (trim_set ''/'' (canonicalPath p u)))) of
       [] \<Rightarrow> ''/'' | ps \<Rightarrow> CHR ''/'' # join_with ''/'' ps)" if "canonicalPath p u \<noteq> ''/''" for p u
    using that by (simp add: NormalizePath_def Let_def split: prod.split list.split)
  with assms(1,2) normalize_loop_same_shape [OF assms(3), of is_float "[]" "[]"] show ?thesis by simp
qed

lemmas endpoint_eval = trim_set_def same_shape_def
  decodeSegment_def PathUnescape_def classifySegment_def versionPattern_def parse_int_def in_int_range_def
  digits_val_def digit_val_def

theorem NormalizePath_same_pattern_witness:
  "np_Pattern (NormalizePath (\<lambda>_. True) ''/u/12'' []) = np_Pattern (NormalizePath (\<lambda>_. True) ''/u/7'' [])"
proof -
  have u: "url_Parse ''/u/12'' = Some (zero_url\<lparr>u_Path := ''/u/12''\<rparr>)" "url_Parse ''/u/7'' = Some (zero_url\<lparr>u_Path := ''/u/7''\<rparr>)"
    by (simp_all add: url_Parse_def parse_url_def get_scheme_def count_char_def set_path_def cut_at_def Let_def
        zero_url_def is_letter_def is_upper_def is_lower_def is_digit_def shouldEscape_def)
  have c: "canonicalPath ''/u/12'' [] = ''/u/12''" "canonicalPath ''/u/7'' [] = ''/u/7''"
    by (simp_all add: canonicalPath_def u Let_def EscapedPath_def zero_url_def path_Clean_def shouldEscape_def
        is_letter_def is_upper_def is_lower_def is_digit_def trim_space_def trim_left_def trim_right_def is_space_def)
  show ?thesis
    by (rule NormalizePath_same_pattern)
      (simp_all add: c endpoint_eval Let_def is_digit_def lower_char_def is_upper_def)
qed

end
