(* ===== verification/Redact.thy ===== *)
theory Redact
  imports Core_Models
begin

text \<open>
  The redaction of \<open>internal/security/redact/redact.go\<close>, applied before anything observed is
  stored: \<open>Text\<close> is its eight replacements in order, \<open>Headers\<close> and
  \<open>StringHeaders\<close> mask a sensitive header whole, and the remaining functions redact the fields
  of a document. The matcher behind \<open>ReplaceAllString\<close> is a parameter, \<open>re_replace\<close>,
  which gets the name of the compiled pattern and the template.
\<close>

datatype redact_pattern = authHeaderPattern | cookieLinePattern | bearerPattern | basicPattern
  | jwtPattern | awsAccessPattern | jsonSecretPattern | formSecretPattern

type_synonym re_replace = "redact_pattern \<Rightarrow> string \<Rightarrow> string \<Rightarrow> string"

definition redact_steps :: "(redact_pattern \<times> string) list" where
  "redact_steps =
    [(authHeaderPattern, ''${1}'' @ Marker), (cookieLinePattern, ''${1}'' @ Marker),
     (jsonSecretPattern, ''${1}'' @ Marker @ ''${3}''), (formSecretPattern, ''${1}='' @ Marker),
     (bearerPattern, ''Bearer '' @ Marker), (basicPattern, ''Basic '' @ Marker),
     (awsAccessPattern, Marker), (jwtPattern, Marker)]"

definition redact_Text :: "re_replace \<Rightarrow> string \<Rightarrow> string" where
  "redact_Text re_replace value0 =
     (if value0 = [] then [] else foldl (\<lambda>redacted (p, tmpl). re_replace p tmpl redacted) value0 redact_steps)"

definition sensitiveHeaderNames :: "string list" where
  "sensitiveHeaderNames = [''authorization'', ''proxy-authorization'', ''cookie'', ''set-cookie'', ''x-api-key'',
     ''api-key'', ''x-auth-token'', ''x-access-token'', ''x-csrf-token'', ''x-xsrf-token'', ''x-amz-security-token'']"

definition isSensitiveHeader :: "string \<Rightarrow> bool" where
  "isSensitiveHeader key = (let normalized = to_lower (trim_space key) in
     normalized \<in> set sensitiveHeaderNames \<or>
     contains_str normalized ''token'' \<or> contains_str normalized ''secret'' \<or> contains_str normalized ''api-key'')"

text \<open>A Go \<open>nil\<close> map reads and stores like the empty one, so both are the empty list here.\<close>

definition redact_Headers :: "re_replace \<Rightarrow> string list gomap \<Rightarrow> string list gomap" where
  "redact_Headers re_replace headers =
     map (\<lambda>(key, values0). (key,
       if isSensitiveHeader key then map (\<lambda>_. Marker) values0 else map (redact_Text re_replace) values0)) headers"

definition redact_StringHeaders :: "re_replace \<Rightarrow> string gomap \<Rightarrow> string gomap" where
  "redact_StringHeaders re_replace headers =
     map (\<lambda>(key, value0). (key, if isSensitiveHeader key then Marker else redact_Text re_replace value0)) headers"

definition redact_TrafficLog :: "re_replace \<Rightarrow> traffic_log \<Rightarrow> traffic_log" where
  "redact_TrafficLog re_replace logEntry =
     logEntry\<lparr>log_URL := redact_Text re_replace (log_URL logEntry),
       log_ReqHeaders := redact_Headers re_replace (log_ReqHeaders logEntry),
       log_ReqBody := redact_Text re_replace (log_ReqBody logEntry),
       log_RespHeaders := redact_Headers re_replace (log_RespHeaders logEntry),
       log_RespBody := redact_Text re_replace (log_RespBody logEntry)\<rparr>"

definition redact_TrafficConversation :: "re_replace \<Rightarrow> traffic_conversation \<Rightarrow> traffic_conversation" where
  "redact_TrafficConversation re_replace conv =
     conv\<lparr>conv_URL := redact_Text re_replace (conv_URL conv),
       conv_ReqHeaders := redact_Headers re_replace (conv_ReqHeaders conv),
       conv_ReqBody := redact_Text re_replace (conv_ReqBody conv),
       conv_RespHeaders := redact_Headers re_replace (conv_RespHeaders conv),
       conv_RespBody := redact_Text re_replace (conv_RespBody conv)\<rparr>"

definition redact_ScanResult :: "re_replace \<Rightarrow> scan_result \<Rightarrow> scan_result" where
  "redact_ScanResult re_replace result =
     result\<lparr>sr_Description := redact_Text re_replace (sr_Description result),
       sr_Proof := redact_Text re_replace (sr_Proof result),
       sr_ResponseBody := redact_Text re_replace (sr_ResponseBody result),
       sr_ResponseHeader := redact_Text re_replace (sr_ResponseHeader result)\<rparr>"

definition redact_IngestDeadLetter :: "re_replace \<Rightarrow> ingest_dead_letter \<Rightarrow> ingest_dead_letter" where
  "redact_IngestDeadLetter re_replace deadLetter =
     deadLetter\<lparr>idl_Error := redact_Text re_replace (idl_Error deadLetter),
       idl_PayloadExcerpt := redact_Text re_replace (idl_PayloadExcerpt deadLetter)\<rparr>"

subsection \<open>Lemmas\<close>

lemma redact_Headers_keys [simp]: "map fst (redact_Headers rr hs) = map fst hs"
  by (simp add: redact_Headers_def case_prod_beta comp_def)

lemma isSensitiveHeader_case: "isSensitiveHeader (to_upper k) = isSensitiveHeader k"
  "isSensitiveHeader (to_lower k) = isSensitiveHeader k"
  by (simp_all add: isSensitiveHeader_def go_str)

text \<open>
  What counts as a credential, said without the list of the code: the fields in which HTTP carries
  credentials, and every field whose name speaks of a token, a secret or an API key. \<open>masked\<close> is
  the effect of the redaction on headers, \<open>headers_masked\<close> what it leaves in them, and
  \<open>same_but_credentials\<close> relates two header lists that an observer who is not shown
  credentials cannot tell apart.
\<close>

definition credential_header :: "string \<Rightarrow> bool" where
  "credential_header key \<longleftrightarrow>
     list_ex (equal_fold (trim_space key)) [''Authorization'', ''Proxy-Authorization'', ''Cookie'', ''Set-Cookie''] \<or>
     list_ex (contains_str (to_lower (trim_space key))) [''token'', ''secret'', ''api-key'']"

definition masked :: "re_replace \<Rightarrow> string list gomap \<Rightarrow> string list gomap \<Rightarrow> bool" where
  "masked rr hs hs' \<longleftrightarrow> list_all2 (\<lambda>(k, vs) (k', vs'). k' = k \<and> length vs' = length vs \<and>
     (if credential_header k then set vs' \<subseteq> {Marker} else vs' = map (redact_Text rr) vs)) hs hs'"

definition headers_masked :: "string list gomap \<Rightarrow> bool" where
  "headers_masked hs = list_all (\<lambda>(k, vs). if credential_header k then list_all (\<lambda>v. v = Marker) vs else True) hs"

definition same_but_credentials :: "string list gomap \<Rightarrow> string list gomap \<Rightarrow> bool" where
  "same_but_credentials hs hs' \<longleftrightarrow>
     list_all2 (\<lambda>(k, vs) (k', vs'). k' = k \<and> length vs' = length vs \<and> (credential_header k \<or> vs' = vs)) hs hs'"

lemma listed_tokens:
  "sublist ''api-key'' ''x-api-key''" "sublist ''token'' ''x-auth-token''" "sublist ''token'' ''x-access-token''"
  "sublist ''token'' ''x-csrf-token''" "sublist ''token'' ''x-xsrf-token''" "sublist ''token'' ''x-amz-security-token''"
  by (simp_all add: sublist_code)

lemma isSensitiveHeader_iff: "isSensitiveHeader key \<longleftrightarrow> credential_header key"
proof -
  have l: "to_lower ''Authorization'' = ''authorization''" "to_lower ''Proxy-Authorization'' = ''proxy-authorization''"
    "to_lower ''Cookie'' = ''cookie''" "to_lower ''Set-Cookie'' = ''set-cookie''"
    by code_simp+
  show ?thesis
    using listed_tokens
    by (auto simp: isSensitiveHeader_def credential_header_def sensitiveHeaderNames_def equal_fold_def Let_def l)
qed

lemma redact_Headers_masked: "masked rr hs (redact_Headers rr hs)"
  by (auto simp: masked_def redact_Headers_def isSensitiveHeader_iff list_all2_conv_all_nth case_prod_beta)

lemma headers_masked_redact [simp]: "headers_masked (redact_Headers rr hs)"
  by (auto simp: headers_masked_def redact_Headers_def isSensitiveHeader_iff list_all_iff)

lemma redact_Headers_blind: "same_but_credentials hs hs' \<Longrightarrow> redact_Headers rr hs' = redact_Headers rr hs"
  unfolding same_but_credentials_def
  by (induction hs hs' rule: list_all2_induct)
    (auto simp: redact_Headers_def isSensitiveHeader_iff map_replicate_const)



end
