(* ===== verification/Analyzer.thy ===== *)
theory Analyzer
  imports Risk Endpoint_Rules Pii_Catalog Endpoint Redact "HOL-Library.AList"
begin

text \<open>
  The analysis of one traffic log, \<open>internal/analyzer/processor.go\<close> with
  \<open>internal/utils/flatten.go\<close> and \<open>internal/analyzer/schema/learner.go\<close>: flattening
  JSON bodies, detecting sensitive values, and deriving the risk level, reasons and tags that
  \<open>ProcessLog\<close> stores. Parameters: the JSON decoder \<open>json_decode\<close>, the matchers
  \<open>re_find\<close> and \<open>re_replace\<close>, \<open>is_float\<close> and \<open>sha256_hex\<close>.
\<close>

subsection \<open>JSON values\<close>

text \<open>
  What \<open>json.Unmarshal\<close> puts into an \<open>interface{}\<close>. A number carries the text that
  \<open>FormatFloat(v, 'f', -1, 64)\<close> prints and whether it is integral.
\<close>

datatype json = JNull | JBool bool | JNum string bool | JStr string | JArr "json list"
  | JObj "(string \<times> json) list"

type_synonym json_decode = "string \<Rightarrow> json option"

definition dotted :: "string \<Rightarrow> string \<Rightarrow> string" where
  "dotted prefix0 k = (if prefix0 = [] then k else prefix0 @ ''.'' @ k)"

fun flattenRecursive :: "string \<Rightarrow> json \<Rightarrow> string gomap \<Rightarrow> string gomap"
  and flatten_obj :: "string \<Rightarrow> (string \<times> json) list \<Rightarrow> string gomap \<Rightarrow> string gomap"
  and flatten_arr :: "string \<Rightarrow> json list \<Rightarrow> string gomap \<Rightarrow> string gomap" where
  "flattenRecursive p (JObj kvs) result = flatten_obj p kvs result"
| "flattenRecursive p (JArr vs) result = flatten_arr p vs result"
| "flattenRecursive p (JNum txt integral) result = AList.update p txt result"
| "flattenRecursive p (JStr s) result = AList.update p s result"
| "flattenRecursive p (JBool b) result = AList.update p (if b then ''true'' else ''false'') result"
| "flattenRecursive p JNull result = AList.update p ''null'' result"
| "flatten_obj p [] result = result"
| "flatten_obj p ((k, v) # kvs) result = flatten_obj p kvs (flattenRecursive (dotted p k) v result)"
| "flatten_arr p [] result = result"
| "flatten_arr p (v # vs) result = flatten_arr p vs (flattenRecursive p v result)"

definition FlattenJSON :: "json_decode \<Rightarrow> string \<Rightarrow> string gomap" where
  "FlattenJSON json_decode jsonStr =
     (if jsonStr = [] then []
      else (case json_decode jsonStr of None \<Rightarrow> [] | Some data \<Rightarrow> flattenRecursive [] data []))"

text \<open>\<open>schema.Learn\<close>: a body that is no JSON object (or null) teaches nothing.\<close>

fun learn_value :: "string \<Rightarrow> json \<Rightarrow> string gomap \<Rightarrow> string gomap"
  and flattenAndLearn :: "string \<Rightarrow> (string \<times> json) list \<Rightarrow> string gomap \<Rightarrow> string gomap" where
  "learn_value key JNull schema = schema"
| "learn_value key (JBool b) schema = AList.update key ''boolean'' schema"
| "learn_value key (JStr s) schema = AList.update key ''string'' schema"
| "learn_value key (JNum txt integral) schema = AList.update key (if integral then ''integer'' else ''float'') schema"
| "learn_value key (JObj kvs) schema = flattenAndLearn key kvs (AList.update key ''object'' schema)"
| "learn_value key (JArr vs) schema = AList.update key ''array'' schema"
| "flattenAndLearn p [] schema = schema"
| "flattenAndLearn p ((k, v) # kvs) schema = flattenAndLearn p kvs (learn_value (dotted p k) v schema)"

definition schema_Learn :: "json_decode \<Rightarrow> string \<Rightarrow> string gomap" where
  "schema_Learn json_decode jsonBody =
     (if jsonBody = [] then []
      else (case json_decode jsonBody of Some (JObj kvs) \<Rightarrow> flattenAndLearn [] kvs [] | _ \<Rightarrow> []))"

subsection \<open>Sensitive observations\<close>

record sensitive_observation =
  sen_Location :: string
  sen_Name :: string
  sen_Value :: string
  sen_Tags :: "string list"

definition tagsForField :: "re_find \<Rightarrow> string \<Rightarrow> string \<Rightarrow> string \<Rightarrow> string list" where
  "tagsForField re_find scope key value0 = uniqueStrings (scanPII re_find scope key value0 [])"

definition sensitiveTagsFor :: "re_find \<Rightarrow> string \<Rightarrow> string \<Rightarrow> string \<Rightarrow> string list" where
  "sensitiveTagsFor re_find scope key value0 = uniqueStrings (scanPII re_find (to_upper scope) key value0 [])"

definition observe :: "re_find \<Rightarrow> string \<Rightarrow> string \<Rightarrow> string \<Rightarrow> string \<Rightarrow> sensitive_observation list" where
  "observe re_find scope location0 name value0 =
     (let tags = tagsForField re_find scope name value0 in
      if tags \<noteq> [] then [\<lparr>sen_Location = location0, sen_Name = name, sen_Value = value0, sen_Tags = tags\<rparr>] else [])"

definition observe_headers :: "re_find \<Rightarrow> string \<Rightarrow> string list gomap \<Rightarrow> sensitive_observation list" where
  "observe_headers re_find location0 headers =
     concat (map (\<lambda>(key, values0). concat (map (observe re_find ''HEADER'' location0 key) values0)) headers)"

definition observe_params :: "re_find \<Rightarrow> string \<Rightarrow> parameter_observation list \<Rightarrow> sensitive_observation list" where
  "observe_params re_find location0 params =
     concat (map (\<lambda>p. observe re_find ''BODY'' location0 (po_Name p) (po_Value p)) params)"

definition observe_body :: "re_find \<Rightarrow> string \<Rightarrow> string gomap \<Rightarrow> sensitive_observation list" where
  "observe_body re_find location0 flat = concat (map (\<lambda>(k, v). observe re_find ''BODY'' location0 k v) flat)"

definition detectSensitiveObservations ::
  "re_find \<Rightarrow> (string \<Rightarrow> bool) \<Rightarrow> json_decode \<Rightarrow> traffic_log \<Rightarrow> sensitive_observation list" where
  "detectSensitiveObservations re_find is_float json_decode logEntry =
     (if isStaticResource (log_Path logEntry) then []
      else observe_headers re_find LocationHeader (log_ReqHeaders logEntry) @
           observe_params re_find LocationQuery (QueryParameters is_float (log_URL logEntry)) @
           observe_params re_find LocationCookie (CookieParameters is_float (log_ReqHeaders logEntry)) @
           observe_body re_find LocationRequestBody (FlattenJSON json_decode (log_ReqBody logEntry)) @
           observe_headers re_find ''response_header'' (log_RespHeaders logEntry) @
           observe_body re_find LocationResponseBody (FlattenJSON json_decode (log_RespBody logEntry)))"

definition tagsFromSensitiveObservations :: "sensitive_observation list \<Rightarrow> string list" where
  "tagsFromSensitiveObservations observations = uniqueStrings (concat (map sen_Tags observations))"

definition responseTagsFromSensitiveObservations :: "sensitive_observation list \<Rightarrow> string list" where
  "responseTagsFromSensitiveObservations observations =
     uniqueStrings (concat (map sen_Tags
       (filter (\<lambda>ob. sen_Location ob = LocationResponseBody \<or> sen_Location ob = ''response_header'') observations)))"

subsection \<open>Facts about the exchange\<close>

definition getBaseURL :: "string \<Rightarrow> string" where
  "getBaseURL fullURL = (case url_Parse fullURL of
      None \<Rightarrow> []
    | Some u \<Rightarrow> if u_Scheme u = [] \<or> u_Host u = [] then [] else to_lower (u_Scheme u) @ ''://'' @ to_lower (u_Host u))"

definition normalizedHost :: "string \<Rightarrow> string \<Rightarrow> string" where
  "normalizedHost host0 rawURL = (let host = to_lower (trim_space host0) in
     if host \<noteq> [] then host
     else (case url_Parse rawURL of None \<Rightarrow> [] | Some parsed \<Rightarrow> to_lower (u_Host parsed)))"

definition responseStatusCode :: "traffic_log \<Rightarrow> int" where
  "responseStatusCode logEntry =
     (if log_RespStatusCode logEntry > 0 then log_RespStatusCode logEntry
      else (case str_fields (log_RespStatus logEntry) of
          [] \<Rightarrow> 0
        | f # _ \<Rightarrow> (case atoi f of None \<Rightarrow> 0 | Some code \<Rightarrow> if code < 100 \<or> code > 599 then 0 else code)))"

definition authObserved :: "string list gomap \<Rightarrow> bool" where
  "authObserved headers = list_ex (\<lambda>(key, values0).
     (let normalized = to_lower (trim_space key) in
      (normalized = ''authorization'' \<or> normalized = ''cookie'' \<or> contains_str normalized ''token'' \<or>
       contains_str normalized ''api-key'') \<and> list_ex (\<lambda>v. trim_space v \<noteq> []) values0)) headers"

fun uniq_nonempty :: "string list \<Rightarrow> string list \<Rightarrow> string list" where
  "uniq_nonempty seen [] = []"
| "uniq_nonempty seen (v # vs) =
     (if v = [] \<or> v \<in> set seen then uniq_nonempty seen vs else v # uniq_nonempty (v # seen) vs)"

definition observedContentTypes :: "traffic_log \<Rightarrow> string list" where
  "observedContentTypes logEntry =
     uniq_nonempty [] (concat (map (\<lambda>(key, values0).
       if equal_fold (trim_space key) ''Content-Type''
       then map (\<lambda>v. to_lower (trim_space (hd (split_on (CHR '';'') v)))) values0 else [])
       (log_ReqHeaders logEntry @ log_RespHeaders logEntry)))"

definition mongoFieldKey :: "string \<Rightarrow> string" where
  "mongoFieldKey value0 =
     (let v = replace_char (CHR ''$'') (CHR ''_'') (replace_char (CHR ''.'') (CHR ''_'') (trim_space value0)) in
      if v = [] then ''_'' else v)"

definition headerSchema :: "string list gomap \<Rightarrow> string gomap" where
  "headerSchema headers =
     foldl (\<lambda>out (key, values0). if trim_space key = [] then out
       else AList.update (mongoFieldKey key) (if length values0 > 1 then ''array<string>'' else ''string'') out) [] headers"

definition observedAt :: "traffic_log \<Rightarrow> int \<Rightarrow> int" where
  "observedAt logEntry fallback = (case log_CreatedAt logEntry of None \<Rightarrow> fallback | Some t \<Rightarrow> t)"

definition statusClass :: "int \<Rightarrow> string" where
  "statusClass statusCode =
     (if statusCode < 100 \<or> statusCode > 599 then ''unknown'' else itoa (nat (statusCode div 100)) @ ''xx'')"

definition riskKeywords :: "string list" where
  "riskKeywords = [''admin'', ''debug'', ''swagger'', ''openapi'', ''internal'']"

definition path_keywords :: "string \<Rightarrow> string list" where
  "path_keywords path = map (\<lambda>k. ''keyword:'' @ k) (filter (contains_str (to_lower path)) riskKeywords)"

definition calculateRiskReasons :: "string list \<Rightarrow> string list \<Rightarrow> bool \<Rightarrow> int \<Rightarrow> string \<Rightarrow> string list" where
  "calculateRiskReasons piiTags responsePIITags auth statusCode requestPath =
     uniqueStrings (
       (if piiTags \<noteq> [] then [''sensitive_data_detected''] else []) @
       (if responsePIITags \<noteq> [] then [''sensitive_data_in_response''] else []) @
       (if \<not> auth then [''no_auth_observed''] else []) @
       (if statusCode \<ge> 500 then [''server_error_observed''] else []) @
       path_keywords requestPath)"

definition endpointTags :: "traffic_log \<Rightarrow> bool \<Rightarrow> string list \<Rightarrow> string list \<Rightarrow> string list" where
  "endpointTags logEntry auth piiTags responsePIITags =
     uniqueStrings (
       (if log_CaptureSource logEntry \<noteq> [] then [''capture_source:'' @ log_CaptureSource logEntry] else []) @
       [if auth then ''auth:observed'' else ''auth:not_observed''] @
       (if piiTags \<noteq> [] then [''sensitive_data:observed''] else []) @
       (if responsePIITags \<noteq> [] then [''sensitive_data:response''] else []) @
       path_keywords (log_Path logEntry))"

definition redactedParameterSample :: "re_replace \<Rightarrow> string \<Rightarrow> string list \<Rightarrow> string" where
  "redactedParameterSample re_replace value0 sensitiveTags =
     (if trim_space value0 = [] then []
      else if sensitiveTags \<noteq> [] then Marker
      else redact_Text re_replace value0)"

definition sampleExcerpt :: "string \<Rightarrow> int \<Rightarrow> string \<times> bool" where
  "sampleExcerpt value0 limit =
     (if value0 = [] \<or> limit \<le> 0 then ([], False)
      else if int (length value0) \<le> limit then (value0, False)
      else (take (nat limit) value0, True))"

definition sha256Hex :: "(string \<Rightarrow> string) \<Rightarrow> string \<Rightarrow> string" where
  "sha256Hex sha256_hex value0 = (if value0 = [] then [] else sha256_hex value0)"

text \<open>
  The assessment that \<open>ProcessLog\<close> computes before it writes: its local variables. The
  iteration order of the maps only permutes lists.
\<close>

record assessment =
  as_PathPattern :: string
  as_BaseURL :: string
  as_Host :: string
  as_Fingerprint :: string
  as_FinalPII :: "string list"
  as_RiskLevel :: string
  as_RiskReasons :: "string list"
  as_Tags :: "string list"
  as_AuthObserved :: bool
  as_StatusCode :: int
  as_Observations :: "sensitive_observation list"

record analyzer_env =
  ae_re_find :: re_find
  ae_is_float :: "string \<Rightarrow> bool"
  ae_json_decode :: json_decode
  ae_sha256_hex :: "string \<Rightarrow> string"

definition assess_log :: "analyzer_env \<Rightarrow> compiled_rule list option \<Rightarrow> traffic_log \<Rightarrow> assessment" where
  "assess_log ev rules logEntry =
     (let normalized = NormalizePath (ae_is_float ev) (log_Path logEntry) (log_URL logEntry);
          pathPattern = np_Pattern normalized;
          baseURL = getBaseURL (log_URL logEntry);
          observations = detectSensitiveObservations (ae_re_find ev) (ae_is_float ev) (ae_json_decode ev) logEntry;
          detectedPII = tagsFromSensitiveObservations observations @
            (if \<not> isStaticResource (log_Path logEntry)
             then tagsForField (ae_re_find ev) ''BODY'' ''url'' (log_URL logEntry) else []);
          finalPII = uniqueStrings detectedPII;
          ruleFindings = endpointRuleFindings rules (log_Path logEntry) pathPattern;
          finalResponsePII = uniqueStrings (responseTagsFromSensitiveObservations observations);
          auth = authObserved (log_ReqHeaders logEntry);
          statusCode = responseStatusCode logEntry
      in \<lparr>as_PathPattern = pathPattern,
          as_BaseURL = baseURL,
          as_Host = normalizedHost (log_Host logEntry) (log_URL logEntry),
          as_Fingerprint = Fingerprint (ae_sha256_hex ev) (log_TenantID logEntry) (log_ProjectID logEntry)
            (log_Method logEntry) baseURL pathPattern,
          as_FinalPII = finalPII,
          as_RiskLevel = maxRiskLevel (calculateRiskLevel finalPII) (riskLevelFromRuleFindings ruleFindings),
          as_RiskReasons = uniqueStrings (calculateRiskReasons finalPII finalResponsePII auth statusCode (log_Path logEntry)
            @ reasonsFromRuleFindings ruleFindings),
          as_Tags = uniqueStrings (endpointTags logEntry auth finalPII finalResponsePII @ tagsFromRuleFindings ruleFindings),
          as_AuthObserved = auth,
          as_StatusCode = statusCode,
          as_Observations = observations\<rparr>)"

subsection \<open>Stored samples\<close>

definition maxStoredSampleBodyBytes :: int where "maxStoredSampleBodyBytes = 16 * 1024"
definition TrafficSampleSchemaV1 :: string where "TrafficSampleSchemaV1 = ''traffic.sample.v1''"
definition SensitiveSampleSchemaV1 :: string where "SensitiveSampleSchemaV1 = ''sensitive.sample.v1''"

definition trafficSampleFromLog ::
  "(string \<Rightarrow> string) \<Rightarrow> traffic_log \<Rightarrow> traffic_log \<Rightarrow> string \<Rightarrow> string \<Rightarrow> string \<Rightarrow> string \<Rightarrow>
   string list \<Rightarrow> string list \<Rightarrow> int \<Rightarrow> traffic_sample" where
  "trafficSampleFromLog sha256_hex logEntry redacted baseURL host pathPattern fingerprint sensitiveData tags now =
     (let (reqBody, reqTruncated) = sampleExcerpt (log_ReqBody redacted) maxStoredSampleBodyBytes;
          (respBody, respTruncated) = sampleExcerpt (log_RespBody redacted) maxStoredSampleBodyBytes
      in zero_traffic_sample\<lparr>
        ts_SchemaVersion := TrafficSampleSchemaV1,
        ts_TenantID := log_TenantID logEntry,
        ts_ProjectID := log_ProjectID logEntry,
        ts_EndpointFingerprint := fingerprint,
        ts_Method := to_upper (trim_space (log_Method logEntry)),
        ts_BaseURL := baseURL,
        ts_Host := host,
        ts_PathPattern := pathPattern,
        ts_OriginalPath := log_Path logEntry,
        ts_URL := log_URL redacted,
        ts_AgentID := log_AgentID logEntry,
        ts_CaptureSource := log_CaptureSource logEntry,
        ts_CaptureMode := log_CaptureMode logEntry,
        ts_ReqHeaders := log_ReqHeaders redacted,
        ts_ReqBody := reqBody,
        ts_ReqBodySHA256 := sha256Hex sha256_hex (log_ReqBody redacted),
        ts_ReqBodyTruncated := reqTruncated,
        ts_RespStatus := log_RespStatus logEntry,
        ts_RespStatusCode := responseStatusCode logEntry,
        ts_RespHeaders := log_RespHeaders redacted,
        ts_RespBody := respBody,
        ts_RespBodySHA256 := sha256Hex sha256_hex (log_RespBody redacted),
        ts_RespBodyTruncated := respTruncated,
        ts_SensitiveData := uniqueStrings sensitiveData,
        ts_Tags := uniqueStrings tags,
        ts_CapturedAt := Some (observedAt logEntry now),
        ts_CreatedAt := Some now\<rparr>)"

definition sensitiveSampleFromObservations ::
  "re_replace \<Rightarrow> traffic_log \<Rightarrow> string \<Rightarrow> string \<Rightarrow> string \<Rightarrow> string list \<Rightarrow> sensitive_observation list \<Rightarrow> int \<Rightarrow> sensitive_sample" where
  "sensitiveSampleFromObservations re_replace logEntry baseURL pathPattern fingerprint sensitiveData observations now =
     zero_sensitive_sample\<lparr>
        ss_SchemaVersion := SensitiveSampleSchemaV1,
        ss_TenantID := log_TenantID logEntry,
        ss_ProjectID := log_ProjectID logEntry,
        ss_EndpointFingerprint := fingerprint,
        ss_Method := to_upper (trim_space (log_Method logEntry)),
        ss_BaseURL := baseURL,
        ss_PathPattern := pathPattern,
        ss_OriginalPath := log_Path logEntry,
        ss_AgentID := log_AgentID logEntry,
        ss_CaptureSource := log_CaptureSource logEntry,
        ss_SensitiveData := uniqueStrings sensitiveData,
        ss_Occurrences := map (\<lambda>ob. \<lparr>so_Location = sen_Location ob, so_Name = sen_Name ob,
            so_Tags = uniqueStrings (sen_Tags ob),
            so_Sample = redactedParameterSample re_replace (sen_Value ob) (sen_Tags ob)\<rparr>)
          (filter (\<lambda>ob. sen_Tags ob \<noteq> []) observations),
        ss_CapturedAt := Some (observedAt logEntry now),
        ss_CreatedAt := Some now\<rparr>"

subsection \<open>Lemmas and properties\<close>

lemma tagsForField_iff:
  "tag \<in> set (tagsForField rf scope key v) \<longleftrightarrow>
     (\<exists>r \<in> set pii_Rules. pr_Name r = tag \<and> pii_rule_fires rf scope (to_lower key) v r)"
  using pii_Rules_trimmed by (force simp: tagsForField_def scanPII_def)

definition visa_keywords :: "string list" where
  "visa_keywords = [''cardNum'', ''cardnum'', ''card_number'', ''card'', ''cc'', ''visa'', ''payment'', ''billing'',
     ''credit'', ''debit'']"

definition visa_rule :: pii_rule where
  "visa_rule = \<lparr>pr_Name = ''VISA_CARD'', pr_Regex = regVisa, pr_Keywords = visa_keywords, pr_Verifier = Some LuhnCheck\<rparr>"

lemma visa_rule_filter: "filter (\<lambda>r. pr_Name r = ''VISA_CARD'') pii_Rules = [visa_rule]"
  by (simp add: pii_Rules_def visa_keywords_def visa_rule_def)

lemma visa_rule_iff: "r \<in> set pii_Rules \<and> pr_Name r = ''VISA_CARD'' \<longleftrightarrow> r = visa_rule"
  using arg_cong [OF visa_rule_filter, of "\<lambda>l. r \<in> set l"] by simp

text \<open>
  A value is tagged as a Visa card exactly when the field name contains one of the
  rule's keywords (ignoring case) and the first match of the card pattern in the value passes the Luhn
  check, so a 16-digit number with a wrong check digit is not reported.
\<close>

theorem visa_tag_iff_luhn:
  "''VISA_CARD'' \<in> set (tagsForField re_find scope key value0) \<longleftrightarrow>
     keyword_gate visa_keywords (to_lower key) \<and>
     (case re_find regVisa value0 of None \<Rightarrow> False | Some m \<Rightarrow> LuhnCheck m)"
proof -
  have "''VISA_CARD'' \<in> set (tagsForField re_find scope key value0) \<longleftrightarrow>
      (\<exists>r. (r \<in> set pii_Rules \<and> pr_Name r = ''VISA_CARD'') \<and> pii_rule_fires re_find scope (to_lower key) value0 r)"
    unfolding tagsForField_iff by blast
  then show ?thesis unfolding visa_rule_iff by (simp add: pii_rule_fires_def visa_rule_def split: option.split)
qed

text \<open>
  No sensitive value reaches the sample store: every sample text of the stored
  occurrences is empty or the redaction marker, and every occurrence keeps at least one tag from its
  observation; this holds for any redaction patterns.
\<close>

theorem sensitive_samples_masked:
  "so_Sample ` set (ss_Occurrences (sensitiveSampleFromObservations rr l base pat fp sens obs now)) \<subseteq> {[], Marker} \<and>
   length (ss_Occurrences (sensitiveSampleFromObservations rr l base pat fp sens obs now))
     = length (filter (\<lambda>ob. sen_Tags ob \<noteq> []) obs)"
  by (auto simp: sensitiveSampleFromObservations_def redactedParameterSample_def split: if_splits)

lemma sampleExcerpt_props:
  "0 < n \<Longrightarrow> int (length (fst (sampleExcerpt v n))) \<le> n \<and> prefix (fst (sampleExcerpt v n)) v \<and>
     (snd (sampleExcerpt v n) \<longleftrightarrow> int (length v) > n)"
  by (auto simp: sampleExcerpt_def take_is_prefix)

text \<open>
  A stored traffic sample is bounded and redacted: each body has at most 16384 bytes and
  is a prefix of the redacted body, the truncation flag is set exactly when bytes were dropped, and the
  sensitive headers of the sample are masked.
\<close>

theorem traffic_sample_bounded:
  "(let s = trafficSampleFromLog sha l (redact_TrafficLog rr l) base host pat fp sens tags now in
    length (ts_ReqBody s) \<le> 16384 \<and> prefix (ts_ReqBody s) (redact_Text rr (log_ReqBody l)) \<and>
    (ts_ReqBodyTruncated s \<longleftrightarrow> length (redact_Text rr (log_ReqBody l)) > 16384) \<and>
    length (ts_RespBody s) \<le> 16384 \<and> prefix (ts_RespBody s) (redact_Text rr (log_RespBody l)) \<and>
    (ts_RespBodyTruncated s \<longleftrightarrow> length (redact_Text rr (log_RespBody l)) > 16384) \<and>
    masked rr (log_ReqHeaders l) (ts_ReqHeaders s) \<and> masked rr (log_RespHeaders l) (ts_RespHeaders s))"
  using sampleExcerpt_props [of maxStoredSampleBodyBytes "redact_Text rr (log_ReqBody l)"]
    sampleExcerpt_props [of maxStoredSampleBodyBytes "redact_Text rr (log_RespBody l)"]
  by (auto simp: trafficSampleFromLog_def redact_TrafficLog_def maxStoredSampleBodyBytes_def Let_def
      redact_Headers_masked split: prod.splits)

text \<open>
  The stored risk level of an endpoint is one of the four levels and is at least the
  level of its sensitive data and at least the level of every lifecycle rule it matches; no rule can
  lower it.
\<close>

theorem assessed_risk_bounds:
  "as_RiskLevel (assess_log ev rules l) \<in> {''LOW'', ''MEDIUM'', ''HIGH'', ''CRITICAL''} \<and>
   riskRank (calculateRiskLevel (as_FinalPII (assess_log ev rules l))) \<le> riskRank (as_RiskLevel (assess_log ev rules l)) \<and>
   list_all (\<lambda>f. riskRank (fd_RiskLevel f) \<le> riskRank (as_RiskLevel (assess_log ev rules l)))
     (endpointRuleFindings rules (log_Path l) (as_PathPattern (assess_log ev rules l)))"
proof -
  let ?fs = "endpointRuleFindings rules (log_Path l) (as_PathPattern (assess_log ev rules l))"
  let ?p = "calculateRiskLevel (as_FinalPII (assess_log ev rules l))"
  have r: "as_RiskLevel (assess_log ev rules l) = maxRiskLevel ?p (riskLevelFromRuleFindings ?fs)"
    by (simp add: assess_log_def Let_def)
  have "riskRank (fd_RiskLevel f) \<le> riskRank (riskLevelFromRuleFindings ?fs)" if "f \<in> set ?fs" for f
    using foldl_maxRiskLevel_ge [of "[]" ?fs] that by (simp add: riskLevelFromRuleFindings_def)
  moreover have "maxRiskLevel a b \<in> {''LOW'', ''MEDIUM'', ''HIGH'', ''CRITICAL''}" for a b
    unfolding maxRiskLevel_def Let_def riskRank_def by (auto simp: go_str)
  ultimately show ?thesis unfolding r by (fastforce simp: maxRiskLevel_rank list_all_iff)
qed

text \<open>
  Scalars of an array share one key, so only the last one is kept and scanned.
\<close>

lemma flatten_array_keeps_last:
  "flattenRecursive p (JArr [JStr a, JStr b]) [] = [(p, b)]"
  by simp

end
