(* ===== verification/Traffic_Metrics.thy ===== *)
theory Traffic_Metrics
  imports Analyzer
begin

text \<open>
  The traffic metrics of \<open>processor.go\<close> (\<open>recordTrafficMetrics\<close> and its helpers):
  each log is counted once in an hourly and a daily bucket. An event document with a unique key guards
  the counter, so a redelivered log is not counted again. The two collections are an interface: the
  record \<open>metric_store\<close> has the three calls the code makes, and the locale
  \<open>metric_laws\<close> what they promise (the key is unique, an insert does not touch the counters, an upsert adds its increments to the one document its filter names). The store in memory
  interprets it. \<open>fmt_time\<close> is \<open>Format(time.RFC3339Nano)\<close>.
\<close>

definition TrafficMetricGranularityHour :: string where "TrafficMetricGranularityHour = ''hour''"
definition TrafficMetricGranularityDay :: string where "TrafficMetricGranularityDay = ''day''"

definition granularities :: "string list" where
  "granularities = [TrafficMetricGranularityHour, TrafficMetricGranularityDay]"

text \<open>The document a log is counted in: the filter of the upsert.\<close>

record metric_key =
  mk_TenantID :: string
  mk_ProjectID :: string
  mk_Fingerprint :: string
  mk_Granularity :: string
  mk_BucketStart :: int
  mk_StatusCode :: int
  mk_AuthObserved :: bool
  mk_RiskLevel :: string

text \<open>The counters of a document, and the increments of an update.\<close>

record metric_counts =
  mc_RequestCount :: nat
  mc_ErrorCount :: nat
  mc_SensitiveCount :: nat

definition add_counts :: "metric_counts \<Rightarrow> metric_counts \<Rightarrow> metric_counts" where
  "add_counts a b = \<lparr>mc_RequestCount = mc_RequestCount a + mc_RequestCount b,
     mc_ErrorCount = mc_ErrorCount a + mc_ErrorCount b,
     mc_SensitiveCount = mc_SensitiveCount a + mc_SensitiveCount b\<rparr>"

definition zero_counts :: metric_counts where
  "zero_counts = \<lparr>mc_RequestCount = 0, mc_ErrorCount = 0, mc_SensitiveCount = 0\<rparr>"

definition metricBucketStart :: "int \<Rightarrow> string \<Rightarrow> int" where
  "metricBucketStart observed granularity =
     (if granularity = TrafficMetricGranularityDay then observed - observed mod (86400 * second)
      else observed - observed mod (3600 * second))"

definition trafficMetricEventID :: "(string \<Rightarrow> string) \<Rightarrow> (int \<Rightarrow> string) \<Rightarrow> traffic_log \<Rightarrow> string \<Rightarrow> string" where
  "trafficMetricEventID sha256_hex fmt_time logEntry fingerprint =
     (let conversationID = trim_space (log_ConversationID logEntry) in
      if conversationID \<noteq> [] then ''conversation:'' @ conversationID
      else (let observed = (case log_CreatedAt logEntry of None \<Rightarrow> [] | Some t \<Rightarrow> fmt_time t);
                code = responseStatusCode logEntry
            in ''log:'' @ sha256Hex sha256_hex (join_with [CHR 0x00]
              [log_TenantID logEntry, log_ProjectID logEntry, log_AgentID logEntry,
               to_upper (trim_space (log_Method logEntry)), log_URL logEntry, log_Path logEntry,
               log_RespStatus logEntry, itoa (nat code), observed,
               sha256Hex sha256_hex (log_ReqBody logEntry), sha256Hex sha256_hex (log_RespBody logEntry), fingerprint])))"

definition trafficMetricEventKey :: "(string \<Rightarrow> string) \<Rightarrow> (int \<Rightarrow> string) \<Rightarrow> string \<Rightarrow> string \<Rightarrow> string \<Rightarrow> int \<Rightarrow> string" where
  "trafficMetricEventKey sha256_hex fmt_time eventID fingerprint granularity bucketStart =
     sha256Hex sha256_hex (join_with [CHR 0x00] [eventID, fingerprint, granularity, fmt_time bucketStart])"

definition trafficMetricUpdate ::
  "traffic_log \<Rightarrow> string \<Rightarrow> string \<Rightarrow> bool \<Rightarrow> bool \<Rightarrow> int \<Rightarrow> string \<Rightarrow> int \<Rightarrow> metric_key \<times> metric_counts" where
  "trafficMetricUpdate logEntry fingerprint riskLevel0 auth hasSensitiveData statusCode granularity bucketStart =
     (let riskLevel = (if trim_space riskLevel0 = [] then ''LOW'' else trim_space riskLevel0) in
      (\<lparr>mk_TenantID = log_TenantID logEntry, mk_ProjectID = log_ProjectID logEntry, mk_Fingerprint = fingerprint,
        mk_Granularity = granularity, mk_BucketStart = bucketStart, mk_StatusCode = statusCode,
        mk_AuthObserved = auth, mk_RiskLevel = riskLevel\<rparr>,
       \<lparr>mc_RequestCount = 1, mc_ErrorCount = (if statusCode \<ge> 500 \<and> statusCode \<le> 599 then 1 else 0),
        mc_SensitiveCount = (if hasSensitiveData then 1 else 0)\<rparr>))"

datatype insert_outcome = Inserted | DuplicateKey | InsertFailed

record 's metric_store =
  ms_insert :: "'s \<Rightarrow> string \<Rightarrow> 's \<times> insert_outcome"
  ms_upsert :: "'s \<Rightarrow> metric_key \<Rightarrow> metric_counts \<Rightarrow> 's \<times> bool"
  ms_delete :: "'s \<Rightarrow> string \<Rightarrow> 's"
  ms_events :: "'s \<Rightarrow> string set"
  ms_counts :: "'s \<Rightarrow> metric_key \<Rightarrow> metric_counts"

text \<open>The loop over the granularities; the second component tells whether it returned no error.\<close>

fun record_loop ::
  "'s metric_store \<Rightarrow> (string \<Rightarrow> int \<Rightarrow> string) \<Rightarrow> (string \<Rightarrow> int \<Rightarrow> metric_key \<times> metric_counts) \<Rightarrow> int \<Rightarrow>
   's \<Rightarrow> string list \<Rightarrow> 's \<times> bool" where
  "record_loop S event_key update observed s [] = (s, True)"
| "record_loop S event_key update observed s (granularity # gs) =
     (let bucketStart = metricBucketStart observed granularity;
          eventKey = event_key granularity bucketStart in
      case ms_insert S s eventKey of
        (s1, DuplicateKey) \<Rightarrow> record_loop S event_key update observed s1 gs
      | (s1, InsertFailed) \<Rightarrow> (s1, False)
      | (s1, Inserted) \<Rightarrow>
          (let (key, inc) = update granularity bucketStart in
           case ms_upsert S s1 key inc of
             (s2, False) \<Rightarrow> (ms_delete S s2 eventKey, False)
           | (s2, True) \<Rightarrow> record_loop S event_key update observed s2 gs))"

definition recordTrafficMetrics ::
  "'s metric_store \<Rightarrow> (string \<Rightarrow> string) \<Rightarrow> (int \<Rightarrow> string) \<Rightarrow> traffic_log \<Rightarrow> string \<Rightarrow> string \<Rightarrow> bool \<Rightarrow> bool \<Rightarrow>
   int \<Rightarrow> int \<Rightarrow> 's \<Rightarrow> 's \<times> bool" where
  "recordTrafficMetrics S sha256_hex fmt_time logEntry fingerprint riskLevel auth hasSensitiveData statusCode now s =
     (let eventID = trafficMetricEventID sha256_hex fmt_time logEntry fingerprint in
      if eventID = [] then (s, True)
      else record_loop S (\<lambda>g b. trafficMetricEventKey sha256_hex fmt_time eventID fingerprint g b)
        (\<lambda>g b. trafficMetricUpdate logEntry fingerprint riskLevel auth hasSensitiveData statusCode g b)
        (observedAt logEntry now) s granularities)"

subsection \<open>The contract of the store\<close>

locale metric_laws =
  fixes S :: "'s metric_store"
  assumes insert_new: "ms_insert S s k = (s', Inserted) \<Longrightarrow>
      k \<notin> ms_events S s \<and> ms_events S s' = insert k (ms_events S s) \<and> ms_counts S s' = ms_counts S s"
    and insert_dup: "ms_insert S s k = (s', DuplicateKey) \<Longrightarrow>
      k \<in> ms_events S s \<and> ms_events S s' = ms_events S s \<and> ms_counts S s' = ms_counts S s"
    and insert_failed: "ms_insert S s k = (s', InsertFailed) \<Longrightarrow>
      ms_events S s \<subseteq> ms_events S s' \<and> ms_events S s' \<subseteq> insert k (ms_events S s) \<and> ms_counts S s' = ms_counts S s"
    and upsert_done: "ms_upsert S s m inc = (s', True) \<Longrightarrow>
      ms_events S s' = ms_events S s \<and> ms_counts S s' = (ms_counts S s)(m := add_counts (ms_counts S s m) inc)"
    and upsert_failed: "ms_upsert S s m inc = (s', False) \<Longrightarrow>
      ms_events S s' = ms_events S s \<and> (ms_counts S s' = ms_counts S s \<or>
        ms_counts S s' = (ms_counts S s)(m := add_counts (ms_counts S s m) inc))"
    and delete_event: "ms_events S (ms_delete S s k) \<subseteq> ms_events S s \<and>
      ms_events S s - {k} \<subseteq> ms_events S (ms_delete S s k) \<and> ms_counts S (ms_delete S s k) = ms_counts S s"
begin

definition loop_keys :: "(string \<Rightarrow> int \<Rightarrow> string) \<Rightarrow> int \<Rightarrow> string list \<Rightarrow> string set" where
  "loop_keys event_key observed gs = (\<lambda>g. event_key g (metricBucketStart observed g)) ` set gs"

lemma loop_keys_simps [simp]:
  "loop_keys ek ob [] = {}"
  "loop_keys ek ob (g # gs) = insert (ek g (metricBucketStart ob g)) (loop_keys ek ob gs)"
  by (simp_all add: loop_keys_def)

lemma loop_done_keys:
  "record_loop S ek up ob s gs = (s', True) \<Longrightarrow>
     ms_events S s \<union> loop_keys ek ob gs \<subseteq> ms_events S s'"
proof (induction gs arbitrary: s)
  case (Cons g gs)
  obtain s1 r where i: "ms_insert S s (ek g (metricBucketStart ob g)) = (s1, r)" by fastforce
  obtain key inc where u: "up g (metricBucketStart ob g) = (key, inc)" by fastforce
  obtain s2 ok where us: "ms_upsert S s1 key inc = (s2, ok)" by fastforce
  show ?case
  proof (cases r)
    case Inserted
    with Cons.prems i u us have ok: ok and l: "record_loop S ek up ob s2 gs = (s', True)"
      by (auto simp: Let_def split: if_splits bool.splits)
    from i Inserted have "ms_events S s1 = insert (ek g (metricBucketStart ob g)) (ms_events S s)"
      using insert_new by blast
    moreover from us ok have "ms_events S s2 = ms_events S s1" using upsert_done by simp
    ultimately show ?thesis using Cons.IH [OF l] by auto
  next
    case DuplicateKey
    with Cons.prems i have "record_loop S ek up ob s1 gs = (s', True)" by (simp add: Let_def)
    moreover from i DuplicateKey have "ek g (metricBucketStart ob g) \<in> ms_events S s" "ms_events S s1 = ms_events S s"
      using insert_dup by blast+
    ultimately show ?thesis using Cons.IH [of s1] by auto
  next
    case InsertFailed
    with Cons.prems i show ?thesis by (simp add: Let_def)
  qed
qed simp

lemma loop_known_keys:
  "loop_keys ek ob gs \<subseteq> ms_events S s \<Longrightarrow> ms_counts S (fst (record_loop S ek up ob s gs)) = ms_counts S s"
proof (induction gs arbitrary: s)
  case (Cons g gs)
  obtain s1 r where i: "ms_insert S s (ek g (metricBucketStart ob g)) = (s1, r)" by fastforce
  show ?case
  proof (cases r)
    case Inserted
    with insert_new i Cons.prems show ?thesis by fastforce
  next
    case DuplicateKey
    with insert_dup i have "ms_events S s1 = ms_events S s" "ms_counts S s1 = ms_counts S s" by blast+
    with Cons.IH [of s1] Cons.prems i DuplicateKey show ?thesis by (simp add: Let_def)
  next
    case InsertFailed
    with insert_failed i have "ms_counts S s1 = ms_counts S s" by blast
    with i InsertFailed show ?thesis by (simp add: Let_def)
  qed
qed simp

lemma loop_counts_once:
  assumes "record_loop S ek up ob s gs = (s', True)" "loop_keys ek ob gs \<inter> ms_events S s = {}"
    and "distinct (map (\<lambda>g. ek g (metricBucketStart ob g)) gs)"
  shows "ms_counts S s' = foldl (\<lambda>c (k, inc). c(k := add_counts (c k) inc)) (ms_counts S s)
    (map (\<lambda>g. up g (metricBucketStart ob g)) gs)"
  using assms
proof (induction gs arbitrary: s)
  case (Cons g gs)
  let ?k = "ek g (metricBucketStart ob g)"
  obtain s1 r where i: "ms_insert S s ?k = (s1, r)" by fastforce
  obtain key inc where u: "up g (metricBucketStart ob g) = (key, inc)" by fastforce
  obtain s2 ok where us: "ms_upsert S s1 key inc = (s2, ok)" by fastforce
  have r: "r = Inserted"
    using i insert_dup Cons.prems by (cases r) (force simp: Let_def)+
  with Cons.prems i u us have ok and l: "record_loop S ek up ob s2 gs = (s', True)"
    by (auto simp: Let_def split: if_splits bool.splits)
  have e: "ms_events S s2 = insert ?k (ms_events S s)"
    and c: "ms_counts S s2 = (ms_counts S s)(key := add_counts (ms_counts S s key) inc)"
    using insert_new i r upsert_done us \<open>ok\<close> by auto
  have "loop_keys ek ob gs \<inter> ms_events S s2 = {}"
    using Cons.prems(2,3) e by (auto simp: loop_keys_def)
  from Cons.IH [OF l this] Cons.prems(3) c u show ?case by simp
qed simp

end

subsection \<open>A store in memory\<close>

definition mem_metrics :: "(string list \<times> (metric_key \<Rightarrow> metric_counts)) metric_store" where
  "mem_metrics =
     \<lparr>ms_insert = (\<lambda>(evs, cs) k. if k \<in> set evs then ((evs, cs), DuplicateKey) else ((k # evs, cs), Inserted)),
      ms_upsert = (\<lambda>(evs, cs) m inc. ((evs, cs(m := add_counts (cs m) inc)), True)),
      ms_delete = (\<lambda>(evs, cs) k. (filter (\<lambda>e. e \<noteq> k) evs, cs)),
      ms_events = (\<lambda>(evs, cs). set evs),
      ms_counts = (\<lambda>(evs, cs). cs)\<rparr>"

lemma mem_metrics_laws: "metric_laws mem_metrics"
  by unfold_locales (auto simp: mem_metrics_def split: if_splits)

interpretation mem_metrics: metric_laws mem_metrics
  by (rule mem_metrics_laws)

subsection \<open>Properties\<close>

definition metric_event_keys :: "(string \<Rightarrow> string) \<Rightarrow> (int \<Rightarrow> string) \<Rightarrow> traffic_log \<Rightarrow> string \<Rightarrow> int \<Rightarrow> string list" where
  "metric_event_keys sha fmt l fp now =
     map (\<lambda>g. trafficMetricEventKey sha fmt (trafficMetricEventID sha fmt l fp) fp g
       (metricBucketStart (observedAt l now) g)) granularities"

definition metric_updates ::
  "traffic_log \<Rightarrow> string \<Rightarrow> string \<Rightarrow> bool \<Rightarrow> bool \<Rightarrow> int \<Rightarrow> int \<Rightarrow> (metric_key \<times> metric_counts) list" where
  "metric_updates l fp risk auth sens code now =
     map (\<lambda>g. trafficMetricUpdate l fp risk auth sens code g (metricBucketStart (observedAt l now) g)) granularities"

lemma event_id_nonempty [simp]: "trafficMetricEventID sha fmt l fp \<noteq> []"
  by (simp add: trafficMetricEventID_def Let_def)

text \<open>
  Redelivery of a log is not counted: once \<open>recordTrafficMetrics\<close> has returned
  without error for a log that carries its capture time, a further call for the same log and endpoint
  leaves every counter as it is, whatever the clock, the risk level, and the flags are then, whatever
  happened in between (as long as its two events are still stored), and whether or not the store fails.
\<close>

theorem metrics_redelivery_not_counted:
  assumes "metric_laws S" "log_CreatedAt l \<noteq> None"
    and "recordTrafficMetrics S sha fmt l fp risk auth sens code now s = (s1, True)"
    and "ms_events S s1 \<subseteq> ms_events S s2"
  shows "ms_counts S (fst (recordTrafficMetrics S sha fmt l fp risk' auth' sens' code' now' s2)) = ms_counts S s2"
proof -
  have ob: "observedAt l now' = observedAt l now" using assms(2) by (auto simp: observedAt_def)
  have "metric_laws.loop_keys (trafficMetricEventKey sha fmt (trafficMetricEventID sha fmt l fp) fp)
      (observedAt l now) granularities \<subseteq> ms_events S s2"
    using metric_laws.loop_done_keys [OF assms(1)] assms(3,4) by (fastforce simp: recordTrafficMetrics_def Let_def)
  then show ?thesis
    using metric_laws.loop_known_keys [OF assms(1)] by (simp add: recordTrafficMetrics_def Let_def ob)
qed

definition counted_log :: traffic_log where
  "counted_log = zero_traffic_log\<lparr>log_ConversationID := ''c1'', log_CreatedAt := Some 0, log_RespStatusCode := 503\<rparr>"

lemma counted_log_done:
  "snd (recordTrafficMetrics mem_metrics id (\<lambda>_. []) counted_log ''fp'' ''HIGH'' True False 503 5 ([], \<lambda>_. zero_counts)) = True"
  by (simp add: recordTrafficMetrics_def granularities_def mem_metrics_def Let_def trafficMetricUpdate_def)

theorem metrics_redelivery_not_counted_witness:
  "(let s1 = fst (recordTrafficMetrics mem_metrics id (\<lambda>_. []) counted_log ''fp'' ''HIGH'' True False 503 5 ([], \<lambda>_. zero_counts))
    in ms_counts mem_metrics (fst (recordTrafficMetrics mem_metrics id (\<lambda>_. []) counted_log ''fp'' ''LOW'' False True 200 9 s1))
       = ms_counts mem_metrics s1)"
proof -
  let ?r = "recordTrafficMetrics mem_metrics id (\<lambda>_. []) counted_log ''fp'' ''HIGH'' True False 503 5 ([], \<lambda>_. zero_counts)"
  have "?r = (fst ?r, True)" by (rule prod_eqI) (simp_all only: counted_log_done fst_conv snd_conv)
  moreover have "log_CreatedAt counted_log \<noteq> None" by (simp add: counted_log_def)
  ultimately show ?thesis
    unfolding Let_def using metrics_redelivery_not_counted [OF mem_metrics_laws _ _ subset_refl] by metis
qed

text \<open>
  The first delivery is counted exactly once per granularity: when the two event keys of
  a log are new and different, a call that returns without error has changed the counters by exactly
  the update of the hourly bucket and the update of the daily bucket, one request each.
\<close>

theorem metrics_first_delivery_counted:
  assumes "metric_laws S"
    and "recordTrafficMetrics S sha fmt l fp risk auth sens code now s = (s1, True)"
    and "distinct (metric_event_keys sha fmt l fp now)"
    and "set (metric_event_keys sha fmt l fp now) \<inter> ms_events S s = {}"
  shows "ms_counts S s1 = foldl (\<lambda>c (k, inc). c(k := add_counts (c k) inc)) (ms_counts S s)
      (metric_updates l fp risk auth sens code now) \<and>
    map (\<lambda>p. (mk_Granularity (fst p), mk_BucketStart (fst p), mc_RequestCount (snd p))) (metric_updates l fp risk auth sens code now)
      = [(''hour'', observedAt l now - observedAt l now mod (3600 * second), 1),
         (''day'', observedAt l now - observedAt l now mod (86400 * second), 1)]"
proof
  show "ms_counts S s1 = foldl (\<lambda>c (k, inc). c(k := add_counts (c k) inc)) (ms_counts S s)
      (metric_updates l fp risk auth sens code now)"
    using assms(2-4) unfolding metric_updates_def metric_event_keys_def recordTrafficMetrics_def Let_def
    by (intro metric_laws.loop_counts_once [OF assms(1)])
      (simp_all add: metric_laws.loop_keys_def [OF assms(1)] comp_def)
qed (simp add: metric_updates_def granularities_def trafficMetricUpdate_def Let_def metricBucketStart_def
       TrafficMetricGranularityHour_def TrafficMetricGranularityDay_def)

theorem metrics_first_delivery_counted_witness:
  "ms_counts mem_metrics
     (fst (recordTrafficMetrics mem_metrics id (\<lambda>_. []) counted_log ''fp'' ''HIGH'' True False 503 5 ([], \<lambda>_. zero_counts)))
   = foldl (\<lambda>c (k, inc). c(k := add_counts (c k) inc)) (\<lambda>_. zero_counts)
       (metric_updates counted_log ''fp'' ''HIGH'' True False 503 5)"
proof -
  let ?r = "recordTrafficMetrics mem_metrics id (\<lambda>_. []) counted_log ''fp'' ''HIGH'' True False 503 5 ([], \<lambda>_. zero_counts)"
  have 1: "?r = (fst ?r, True)" by (rule prod_eqI) (simp_all only: counted_log_done fst_conv snd_conv)
  have 2: "distinct (metric_event_keys id (\<lambda>_. []) counted_log ''fp'' 5)"
    by (simp add: metric_event_keys_def granularities_def trafficMetricEventKey_def sha256Hex_def
        TrafficMetricGranularityHour_def TrafficMetricGranularityDay_def trafficMetricEventID_def Let_def)
  have 3: "set (metric_event_keys id (\<lambda>_. []) counted_log ''fp'' 5) \<inter> ms_events mem_metrics ([], \<lambda>_. zero_counts) = {}"
    by (simp add: mem_metrics_def)
  have 4: "ms_counts mem_metrics ([], \<lambda>_. zero_counts) = (\<lambda>_. zero_counts)" by (simp add: mem_metrics_def)
  from metrics_first_delivery_counted [OF mem_metrics_laws 1 2 3, THEN conjunct1] show ?thesis unfolding 4 .
qed

end
