(* ===== verification/Contracts.thy ===== *)
theory Contracts
  imports Core_Models Go_Url "HOL-Library.Word"
begin

text \<open>
  The contracts between the agents and the backend, \<open>internal/contracts\<close>: the messages and their
  validation, and the strict decoding of a conversation. A validator returns the list of its error
  messages; \<open>errors.Join\<close> of an empty list is nil. Unsigned fields are words of their width. The JSON
  schema library and \<open>encoding/json\<close> are arguments.
\<close>

subsection \<open>Messages\<close>

definition SchemaRawNetworkV1 :: string where "SchemaRawNetworkV1 = ''raw.network.v1''"
definition SchemaRawV1Legacy :: string where "SchemaRawV1Legacy = ''raw.v1''"
definition SchemaHTTPConversationV1 :: string where "SchemaHTTPConversationV1 = ''http.conversation.v1''"
definition SchemaScanJobV1 :: string where "SchemaScanJobV1 = ''scan.job.v1''"
definition SchemaScanResultV1 :: string where "SchemaScanResultV1 = ''scan.result.v1''"

record connection_metadata =
  cm_SrcIP :: string
  cm_SrcPort :: int
  cm_DstIP :: string
  cm_DstPort :: int
  cm_Protocol :: string
  cm_Family :: string
  cm_Role :: string

record process_metadata =
  pm_PID :: "32 word"
  pm_Name :: string
  pm_Exe :: string

record container_metadata =
  ct_ID :: string
  ct_Name :: string
  ct_Image :: string
  ct_Namespace :: string
  ct_Pod :: string
  ct_Node :: string
  ct_Runtime :: string
  ct_PodUID :: string

record loss_metadata =
  lm_Truncated :: bool
  lm_OriginalSize :: "32 word"
  lm_CapturedSize :: "32 word"
  lm_Reason :: string
  lm_SequenceGap :: bool
  lm_ExpectedNextSeq :: "32 word"
  lm_ActualSeq :: "32 word"

record raw_network_event =
  rn_SchemaVersion :: string
  rn_TenantID :: string
  rn_ProjectID :: string
  rn_AgentID :: string
  rn_CaptureSource :: string
  rn_CaptureMode :: string
  rn_Timestamp :: "64 word"
  rn_PID :: "32 word"
  rn_TID :: "32 word"
  rn_FD :: "32 word"
  rn_Generation :: "32 word"
  rn_Seq :: "32 word"
  rn_ChunkIndex :: "16 word"
  rn_ChunkCount :: "16 word"
  rn_Direction :: "8 word"
  rn_EventType :: "8 word"
  rn_Flags :: "8 word"
  rn_OriginalSize :: "32 word"
  rn_Size :: "32 word"
  rn_Payload :: string
  rn_Connection :: connection_metadata
  rn_Process :: process_metadata
  rn_Container :: container_metadata
  rn_Loss :: loss_metadata

record http_request =
  hq_Method :: string
  hq_URL :: string
  hq_Host :: string
  hq_Path :: string
  hq_Headers :: "string list gomap"
  hq_Body :: string

record http_response =
  hr_Status :: string
  hr_StatusCode :: "int option"
  hr_Headers :: "string list gomap"
  hr_Body :: string

record http_conversation =
  hc_OID :: string
  hc_SchemaVersion :: string
  hc_TenantID :: string
  hc_ProjectID :: string
  hc_AgentID :: string
  hc_CaptureSource :: string
  hc_CaptureMode :: string
  hc_CapturedAt :: gotime
  hc_Connection :: connection_metadata
  hc_Process :: process_metadata
  hc_Container :: container_metadata
  hc_Loss :: loss_metadata
  hc_Request :: http_request
  hc_Response :: http_response

record scan_target =
  sct_BaseURL :: string
  sct_Method :: string
  sct_Path :: string
  sct_Headers :: "string gomap"
  sct_Body :: string
  sct_PollutedBody :: string
  sct_AttackMethod :: string

record scan_auth =
  sca_Mode :: string
  sca_SecretRef :: string

record scan_limits =
  scl_TimeoutSeconds :: int
  scl_MaxRequests :: int
  scl_RateLimitPerSecond :: int

record scan_job_contract =
  sj_SchemaVersion :: string
  sj_TenantID :: string
  sj_ProjectID :: string
  sj_JobID :: string
  sj_CreatedBy :: string
  sj_CreatedAt :: gotime
  sj_InventoryID :: string
  sj_TestType :: string
  sj_TemplateID :: string
  sj_Priority :: string
  sj_Target :: scan_target
  sj_Auth :: "scan_auth option"
  sj_Limits :: "scan_limits option"

record scan_response =
  rsp_StatusCode :: "int option"
  rsp_Headers :: "string list gomap"
  rsp_BodyExcerpt :: string
  rsp_BodySHA256 :: string

record scan_result_contract =
  rc_SchemaVersion :: string
  rc_TenantID :: string
  rc_ProjectID :: string
  rc_ResultID :: string
  rc_JobID :: string
  rc_InventoryID :: string
  rc_TestType :: string
  rc_TemplateID :: string
  rc_Status :: string
  rc_Vulnerable :: bool
  rc_Severity :: string
  rc_Description :: string
  rc_Proof :: string
  rc_Response :: "scan_response option"
  rc_Error :: string
  rc_CreatedAt :: gotime

subsection \<open>Validation\<close>

text \<open>One message when the condition of its \<open>if\<close> holds.\<close>

definition reject_if :: "bool \<Rightarrow> string \<Rightarrow> string list" where
  "reject_if b msg = (if b then [msg] else [])"

lemma reject_if_Nil [simp]: "reject_if b msg = [] \<longleftrightarrow> \<not> b"
  by (simp add: reject_if_def)

definition isOneOf :: "string \<Rightarrow> string list \<Rightarrow> bool" where
  "isOneOf v allowed = list_ex (\<lambda>c. v = c) allowed"

definition hex_of_length :: "nat \<Rightarrow> string \<Rightarrow> bool" where
  "hex_of_length n s \<longleftrightarrow> length s = n \<and> list_all is_hex s"

definition DirectionRead :: "8 word" where "DirectionRead = 0"
definition DirectionWrite :: "8 word" where "DirectionWrite = 1"
definition EventTypeData :: "8 word" where "EventTypeData = 0"
definition EventTypeClose :: "8 word" where "EventTypeClose = 1"

definition validateConnection :: "connection_metadata \<Rightarrow> string list" where
  "validateConnection conn =
     reject_if (cm_SrcPort conn < 0 \<or> cm_SrcPort conn > 65535) ''connection.src_port must be between 0 and 65535'' @
     reject_if (cm_DstPort conn < 0 \<or> cm_DstPort conn > 65535) ''connection.dst_port must be between 0 and 65535'' @
     reject_if (cm_Protocol conn \<noteq> [] \<and> \<not> isOneOf (cm_Protocol conn) [''tcp'', ''udp'', ''unix'', ''unknown''])
       ''connection.protocol has invalid value'' @
     reject_if (cm_Family conn \<noteq> [] \<and> \<not> isOneOf (cm_Family conn) [''ipv4'', ''ipv6'', ''unix'', ''unknown''])
       ''connection.family has invalid value'' @
     reject_if (cm_Role conn \<noteq> [] \<and> \<not> isOneOf (cm_Role conn) [''inbound'', ''outbound'', ''client'', ''server'', ''unknown''])
       ''connection.role has invalid value''"

definition validateLoss :: "loss_metadata \<Rightarrow> string list" where
  "validateLoss loss =
     reject_if (lm_OriginalSize loss > 0 \<and> lm_CapturedSize loss > lm_OriginalSize loss)
       ''loss.captured_size cannot exceed loss.original_size'' @
     reject_if (lm_Truncated loss \<and> lm_Reason loss = []) ''loss.reason is required when loss.truncated is true''"

definition ValidateRawNetworkEvent :: "raw_network_event \<Rightarrow> string list" where
  "ValidateRawNetworkEvent event =
     reject_if (rn_SchemaVersion event \<noteq> SchemaRawNetworkV1 \<and> rn_SchemaVersion event \<noteq> SchemaRawV1Legacy)
       ''schema_version must be raw.network.v1'' @
     reject_if (rn_CaptureSource event \<noteq> ''ebpf'') ''capture_source must be ebpf'' @
     reject_if (rn_ChunkCount event = 0) ''chunk_count must be greater than zero'' @
     reject_if (rn_ChunkCount event > 0 \<and> rn_ChunkIndex event \<ge> rn_ChunkCount event) ''chunk_index must be lower than chunk_count'' @
     reject_if (rn_Direction event \<noteq> DirectionRead \<and> rn_Direction event \<noteq> DirectionWrite) ''direction must be 0 or 1'' @
     reject_if (rn_EventType event \<noteq> EventTypeData \<and> rn_EventType event \<noteq> EventTypeClose) ''event_type must be 0 or 1'' @
     reject_if (rn_EventType event = EventTypeData \<and> rn_Size event = 0) ''data events must include a non-empty payload'' @
     reject_if (unat (rn_Size event) \<noteq> length (rn_Payload event)) ''size must match decoded payload length'' @
     reject_if (rn_OriginalSize event > 0 \<and> rn_OriginalSize event < rn_Size event) ''original_size cannot be smaller than size'' @
     validateConnection (rn_Connection event) @ validateLoss (rn_Loss event)"

definition ValidateHTTPConversation :: "http_conversation \<Rightarrow> string list" where
  "ValidateHTTPConversation c =
     (let req = hc_Request c; resp = hc_Response c in
     reject_if (hc_SchemaVersion c \<noteq> SchemaHTTPConversationV1) ''schema_version must be http.conversation.v1'' @
     reject_if (\<not> hex_of_length 24 (hc_OID c)) ''_id.$oid must be a 24-character hex ObjectID'' @
     reject_if (hc_CaptureSource c = []) ''capture_source is required'' @
     reject_if (is_zero (hc_CapturedAt c)) ''captured_at.$date is required'' @
     reject_if (hq_Method req = [] \<or> to_upper (hq_Method req) \<noteq> hq_Method req) ''http.request.method must be uppercase'' @
     (if hq_URL req = [] then [''http.request.url is required'']
      else reject_if (ParseRequestURI (hq_URL req) = None) ''http.request.url is invalid'') @
     reject_if (hq_Host req = []) ''http.request.host is required'' @
     reject_if (hq_Path req = [] \<or> hd (hq_Path req) \<noteq> CHR ''/'') ''http.request.path must start with /'' @
     reject_if (hr_Status resp = []) ''http.response.status is required'' @
     reject_if (case hr_StatusCode resp of None \<Rightarrow> False | Some code \<Rightarrow> code < 100 \<or> code > 599)
       ''http.response.status_code must be between 100 and 599'' @
     validateConnection (hc_Connection c) @ validateLoss (hc_Loss c))"

definition ValidateScanJob :: "scan_job_contract \<Rightarrow> string list" where
  "ValidateScanJob job =
     (let target = sj_Target job in
     reject_if (sj_SchemaVersion job \<noteq> SchemaScanJobV1) ''schema_version must be scan.job.v1'' @
     reject_if (trim_space (sj_JobID job) = []) ''job_id is required'' @
     reject_if (is_zero (sj_CreatedAt job)) ''created_at is required'' @
     reject_if (\<not> hex_of_length 24 (sj_InventoryID job)) ''inventory_id must be a 24-character hex ObjectID'' @
     reject_if (trim_space (sj_TestType job) = []) ''test_type is required'' @
     reject_if (sj_Priority job \<noteq> [] \<and> \<not> isOneOf (sj_Priority job) [''low'', ''normal'', ''high''])
       ''priority must be low, normal, or high'' @
     (if trim_space (sct_BaseURL target) = [] then [''target.base_url is required'']
      else reject_if (ParseRequestURI (sct_BaseURL target) = None) ''target.base_url is invalid'') @
     reject_if (sct_Method target = [] \<or> to_upper (sct_Method target) \<noteq> sct_Method target) ''target.method must be uppercase'' @
     reject_if (sct_Path target = [] \<or> hd (sct_Path target) \<noteq> CHR ''/'') ''target.path must start with /'' @
     reject_if (sct_AttackMethod target \<noteq> [] \<and> to_upper (sct_AttackMethod target) \<noteq> sct_AttackMethod target)
       ''target.attack_method must be uppercase when set'' @
     (case sj_Auth job of
        None \<Rightarrow> []
      | Some auth \<Rightarrow>
          if sca_Mode auth = ''none'' then
            reject_if (sca_SecretRef auth \<noteq> []) ''auth.secret_ref must be empty when auth.mode is none''
          else if sca_Mode auth = ''secret_ref'' then
            reject_if (trim_space (sca_SecretRef auth) = []) ''auth.secret_ref is required when auth.mode is secret_ref''
          else [''auth.mode must be none or secret_ref'']) @
     (case sj_Limits job of
        None \<Rightarrow> []
      | Some limits \<Rightarrow>
          reject_if (scl_TimeoutSeconds limits < 0 \<or> scl_TimeoutSeconds limits > 3600)
            ''limits.timeout_seconds must be between 1 and 3600 when set'' @
          reject_if (scl_MaxRequests limits < 0) ''limits.max_requests cannot be negative'' @
          reject_if (scl_RateLimitPerSecond limits < 0) ''limits.rate_limit_per_second cannot be negative''))"

definition ValidateScanResult :: "scan_result_contract \<Rightarrow> string list" where
  "ValidateScanResult r =
     reject_if (rc_SchemaVersion r \<noteq> SchemaScanResultV1) ''schema_version must be scan.result.v1'' @
     reject_if (trim_space (rc_ResultID r) = []) ''result_id is required'' @
     reject_if (trim_space (rc_JobID r) = []) ''job_id is required'' @
     reject_if (\<not> hex_of_length 24 (rc_InventoryID r)) ''inventory_id must be a 24-character hex ObjectID'' @
     reject_if (trim_space (rc_TestType r) = []) ''test_type is required'' @
     reject_if (\<not> isOneOf (rc_Status r) [''passed'', ''failed'', ''error'', ''skipped''])
       ''status must be passed, failed, error, or skipped'' @
     reject_if (\<not> isOneOf (rc_Severity r) [''info'', ''low'', ''medium'', ''high'', ''critical'', ''unknown''])
       ''severity must be info, low, medium, high, critical, or unknown'' @
     reject_if (is_zero (rc_CreatedAt r)) ''created_at is required'' @
     (case rc_Response r of
        None \<Rightarrow> []
      | Some resp \<Rightarrow>
          reject_if (case rsp_StatusCode resp of None \<Rightarrow> False | Some code \<Rightarrow> code < 0 \<or> code > 599)
            ''response.status_code must be between 0 and 599'' @
          reject_if (rsp_BodySHA256 resp \<noteq> [] \<and> \<not> hex_of_length 64 (rsp_BodySHA256 resp))
            ''response.body_sha256 must be a SHA-256 hex digest'')"

subsection \<open>Strict decoding\<close>

text \<open>
  \<open>schema\<close> is the JSON schema check, \<open>decode\<close> the decoder that refuses unknown fields: it returns
  the conversation and whether more JSON follows.
\<close>

definition DecodeAndValidateHTTPConversation ::
  "(string \<Rightarrow> string option) \<Rightarrow> (string \<Rightarrow> string + http_conversation \<times> bool) \<Rightarrow> string \<Rightarrow> string + http_conversation" where
  "DecodeAndValidateHTTPConversation schema decode raw =
     (case schema raw of
        Some err \<Rightarrow> Inl err
      | None \<Rightarrow>
          (case decode raw of
             Inl err \<Rightarrow> Inl (''decode http conversation: '' @ err)
           | Inr (conversation, trailing) \<Rightarrow>
               if trailing then Inl ''decode http conversation: trailing JSON''
               else (case ValidateHTTPConversation conversation of
                   [] \<Rightarrow> Inr conversation
                 | errs \<Rightarrow> Inl (join_with [char_of (10::nat)] errs))))"

end
