(* ===== verification/Traffic_Store.thy ===== *)
theory Traffic_Store
  imports Redact Go_Url "HOL-Library.Product_Lexorder" "HOL-Library.Multiset"
begin

text \<open>
  The traffic logs in the database: the noise filter of \<open>internal/db/log_filter.go\<close>,
  \<open>SaveLog\<close> and \<open>PruneTrafficLogs\<close> of \<open>internal/db/repository.go\<close> and the retention of
  \<open>internal/db/mongo.go\<close>. The collection is a parameter with the four calls the code makes; the locale
  \<open>log_store\<close> states what MongoDB documents of them (an upsert inserts only when nothing matches,
  a query returns in the order of its sort), and the collection in memory interprets it.
\<close>

subsection \<open>The noise filter\<close>

definition noisyPathPrefixes :: "string list" where
  "noisyPathPrefixes = [''/assets/'', ''/static/'', ''/public/'', ''/_next/'', ''/favicon'']"

definition noisyExtensions :: "string list" where
  "noisyExtensions = [''.css'', ''.gif'', ''.gz'', ''.ico'', ''.jpeg'', ''.jpg'', ''.js'', ''.map'', ''.mp3'', ''.mp4'',
     ''.pdf'', ''.png'', ''.svg'', ''.ttf'', ''.webm'', ''.woff'', ''.woff2'', ''.zip'']"

definition normalizedPath :: "string \<Rightarrow> string \<Rightarrow> string" where
  "normalizedPath rawPath rawURL =
     (if rawPath \<noteq> [] then
        (case ParseRequestURI rawPath of
           Some parsed \<Rightarrow> if u_Path parsed \<noteq> [] then u_Path parsed else rawPath
         | None \<Rightarrow> rawPath)
      else if rawURL = [] then []
      else (case url_Parse rawURL of None \<Rightarrow> rawURL | Some parsed \<Rightarrow> u_Path parsed))"

definition ShouldDropTrafficLog :: "traffic_log \<Rightarrow> bool" where
  "ShouldDropTrafficLog l =
     (let method = to_upper (trim_space (log_Method l)) in
      if method = [] then True
      else if method = ''OPTIONS'' then True
      else (let requestPath = normalizedPath (log_Path l) (log_URL l) in
        if requestPath = [] then True
        else (let lowerPath = to_lower requestPath in
          list_ex (has_prefix lowerPath) noisyPathPrefixes \<or> path_Ext lowerPath \<in> set noisyExtensions)))"

subsection \<open>The collection\<close>

datatype log_error = DuplicateKey | LogStoreError string

record 'c log_coll =
  lc_logs :: "'c \<Rightarrow> traffic_log list"
  lc_upsert :: "'c \<Rightarrow> string \<Rightarrow> traffic_log \<Rightarrow> 'c \<times> (log_error + nat)"
  lc_insert :: "'c \<Rightarrow> traffic_log \<Rightarrow> 'c \<times> log_error option"
  lc_find_old :: "'c \<Rightarrow> nat \<Rightarrow> nat \<Rightarrow> string + object_id list"
  lc_find_conv :: "'c \<Rightarrow> string \<Rightarrow> string + traffic_log option"
  lc_delete :: "'c \<Rightarrow> object_id list \<Rightarrow> 'c \<times> string option"

text \<open>
  Newest first: descending \<open>created_at\<close>, then descending \<open>_id\<close>; a BSON date has millisecond
  precision.
\<close>

definition newest_key :: "traffic_log \<Rightarrow> int \<times> int" where
  "newest_key l = (case log_CreatedAt l of None \<Rightarrow> 62135596800 * 1000 | Some t \<Rightarrow> - (t div 1000000), - int (log_ID l))"

definition newest_first :: "traffic_log list \<Rightarrow> traffic_log list" where
  "newest_first ls = sort_key newest_key ls"

definition first_of_conversation :: "string \<Rightarrow> traffic_log list \<Rightarrow> traffic_log option" where
  "first_of_conversation cid ls = List.find (\<lambda>l. log_ConversationID l = cid) (newest_first ls)"

subsection \<open>Saving and pruning\<close>

definition defaultTrafficLogMaxEvents :: int where "defaultTrafficLogMaxEvents = 1000"

definition defaultTrafficLogTTL :: int where "defaultTrafficLogTTL = 24 * 3600 * second"

record log_retention =
  rt_MaxEvents :: int
  rt_TTL :: int

definition DefaultLogRetention :: log_retention where
  "DefaultLogRetention = \<lparr>rt_MaxEvents = defaultTrafficLogMaxEvents, rt_TTL = defaultTrafficLogTTL\<rparr>"

definition normalizeLogRetention :: "log_retention \<Rightarrow> log_retention" where
  "normalizeLogRetention retention =
     (let r1 = (if rt_MaxEvents retention \<le> 0 then retention\<lparr>rt_MaxEvents := defaultTrafficLogMaxEvents\<rparr> else retention)
      in if rt_TTL r1 \<le> 0 then r1\<lparr>rt_TTL := defaultTrafficLogTTL\<rparr> else r1)"

definition PruneTrafficLogs :: "'c log_coll \<Rightarrow> log_retention \<Rightarrow> 'c \<Rightarrow> 'c \<times> string option" where
  "PruneTrafficLogs L r0 c =
     (let retention = normalizeLogRetention r0 in
      if rt_MaxEvents retention \<le> 0 then (c, None)
      else (case lc_find_old L c (nat (rt_MaxEvents retention)) 1000 of
          Inl err \<Rightarrow> (c, Some err)
        | Inr ids \<Rightarrow> if ids = [] then (c, None) else lc_delete L c ids))"

datatype save_result = LogSaved | LogDropped | LogDuplicate | LogFailed string

definition prepare_log :: "int \<Rightarrow> object_id \<Rightarrow> traffic_log \<Rightarrow> traffic_log" where
  "prepare_log now fresh l0 =
     (let l1 = (if log_ID l0 = 0 then l0\<lparr>log_ID := fresh\<rparr> else l0)
      in if is_zero (log_CreatedAt l1) then l1\<lparr>log_CreatedAt := Some now\<rparr> else l1)"

definition SaveLog ::
  "'c log_coll \<Rightarrow> re_replace \<Rightarrow> log_retention \<Rightarrow> int \<Rightarrow> object_id \<Rightarrow> 'c \<Rightarrow> traffic_log \<Rightarrow> 'c \<times> save_result" where
  "SaveLog L rr ret now fresh c logEntry0 =
     (let redacted = redact_TrafficLog rr logEntry0 in
      if ShouldDropTrafficLog redacted then (c, LogDropped)
      else (let logEntry = prepare_log now fresh redacted in
        if trim_space (log_ConversationHash logEntry) \<noteq> [] then
          (case lc_upsert L c (log_ConversationHash logEntry) logEntry of
             (c1, Inl DuplicateKey) \<Rightarrow> (c1, LogDuplicate)
           | (c1, Inl (LogStoreError err)) \<Rightarrow> (c1, LogFailed err)
           | (c1, Inr matched) \<Rightarrow>
               if matched > 0 then (c1, LogDuplicate)
               else (fst (PruneTrafficLogs L ret c1), LogSaved))
        else
          (case lc_insert L c logEntry of
             (c1, Some DuplicateKey) \<Rightarrow> (c1, LogDuplicate)
           | (c1, Some (LogStoreError err)) \<Rightarrow> (c1, LogFailed err)
           | (c1, None) \<Rightarrow> (fst (PruneTrafficLogs L ret c1), LogSaved))))"

definition GetTrafficLogByConversationID :: "'c log_coll \<Rightarrow> 'c \<Rightarrow> string \<Rightarrow> string + traffic_log" where
  "GetTrafficLogByConversationID L c conversationID0 =
     (let conversationID = trim_space conversationID0 in
      if conversationID = [] then Inl ''conversation id is required''
      else (case lc_find_conv L c conversationID of
          Inl err \<Rightarrow> Inl err
        | Inr None \<Rightarrow> Inl ''mongo: no documents in result''
        | Inr (Some l) \<Rightarrow> Inr l))"

text \<open>
  The other documents of the ingestion are redacted, get an identifier and a creation time when they have
  none, and are inserted; \<open>insertOne\<close> is the call of the driver.
\<close>

definition SaveConversation ::
  "('d \<Rightarrow> traffic_conversation \<Rightarrow> 'd \<times> log_error option) \<Rightarrow> re_replace \<Rightarrow> int \<Rightarrow> object_id \<Rightarrow> 'd \<Rightarrow>
   traffic_conversation \<Rightarrow> 'd \<times> save_result" where
  "SaveConversation insertOne rr now fresh d conv0 =
     (let conv1 = redact_TrafficConversation rr conv0;
          conv2 = (if conv_ID conv1 = 0 then conv1\<lparr>conv_ID := fresh\<rparr> else conv1);
          conv3 = (if is_zero (conv_CreatedAt conv2) then conv2\<lparr>conv_CreatedAt := Some now\<rparr> else conv2)
      in case insertOne d conv3 of
           (d', None) \<Rightarrow> (d', LogSaved)
         | (d', Some DuplicateKey) \<Rightarrow> (d', LogDuplicate)
         | (d', Some (LogStoreError err)) \<Rightarrow> (d', LogFailed err))"

definition SaveIngestionLog ::
  "('d \<Rightarrow> ingestion_log \<Rightarrow> 'd \<times> string option) \<Rightarrow> int \<Rightarrow> object_id \<Rightarrow> 'd \<Rightarrow> ingestion_log \<Rightarrow> 'd \<times> string option" where
  "SaveIngestionLog insertOne now fresh d e0 =
     (let e1 = (if ilog_ID e0 = 0 then e0\<lparr>ilog_ID := fresh\<rparr> else e0);
          e2 = (if is_zero (ilog_CreatedAt e1) then e1\<lparr>ilog_CreatedAt := Some now\<rparr> else e1)
      in insertOne d e2)"

definition SaveIngestDeadLetter ::
  "('d \<Rightarrow> ingest_dead_letter \<Rightarrow> 'd \<times> string option) \<Rightarrow> re_replace \<Rightarrow> int \<Rightarrow> object_id \<Rightarrow> 'd \<Rightarrow>
   ingest_dead_letter \<Rightarrow> 'd \<times> string option" where
  "SaveIngestDeadLetter insertOne rr now fresh d x0 =
     (let x1 = redact_IngestDeadLetter rr x0;
          x2 = (if idl_ID x1 = 0 then x1\<lparr>idl_ID := fresh\<rparr> else x1);
          x3 = (if is_zero (idl_CreatedAt x2) then x2\<lparr>idl_CreatedAt := Some now\<rparr> else x2)
      in insertOne d x3)"

text \<open>A sequence of calls with their clocks and fresh identifiers.\<close>

fun save_logs :: "'c log_coll \<Rightarrow> re_replace \<Rightarrow> log_retention \<Rightarrow> 'c \<Rightarrow> (int \<times> object_id \<times> traffic_log) list \<Rightarrow> 'c" where
  "save_logs L rr ret c [] = c"
| "save_logs L rr ret c ((now, fresh, l) # rest) =
     save_logs L rr ret (fst (SaveLog L rr ret now fresh c l)) rest"

subsection \<open>The contract of the collection\<close>

definition has_hash :: "string \<Rightarrow> traffic_log list \<Rightarrow> nat" where
  "has_hash h ls = length (filter (\<lambda>l. log_ConversationHash l = h) ls)"

lemma has_hash_mset: "has_hash h ls = size (filter_mset (\<lambda>l. log_ConversationHash l = h) (mset ls))"
  by (simp add: has_hash_def flip: mset_filter)

lemma filter_between:
  assumes "distinct (map f (xs @ ys @ zs))"
  shows "filter (\<lambda>x. f x \<notin> set (map f ys)) (xs @ ys @ zs) = xs @ zs"
proof -
  have "filter (\<lambda>x. f x \<notin> set (map f ys)) xs = xs" "filter (\<lambda>x. f x \<notin> set (map f ys)) zs = zs"
    by (rule filter_True, use assms in auto)+
  then show ?thesis by (auto simp: filter_empty_conv)
qed

lemma find_unique:
  assumes "x \<in> set xs" "P x" and unique: "\<And>y. y \<in> set xs \<Longrightarrow> P y \<Longrightarrow> y = x"
  shows "List.find P xs = Some x"
proof (cases "List.find P xs")
  case None
  then have "\<not> P x" using assms(1) by (simp add: find_None_iff)
  with assms(2) show ?thesis by contradiction
next
  case (Some y)
  then obtain i where "i < length xs" "P (xs ! i)" "y = xs ! i" by (auto simp only: find_Some_iff)
  then have "y = x" by (intro unique) simp_all
  with Some show ?thesis by (simp only:)
qed

lemma first_of_conversation_single:
  assumes "mset ls = add_mset l (mset c)" "list_all (\<lambda>x. log_ConversationID x \<noteq> cid) c" "log_ConversationID l = cid"
  shows "first_of_conversation cid ls = Some l"
  unfolding first_of_conversation_def
proof (rule find_unique)
  have s: "set (newest_first ls) = insert l (set c)"
    using arg_cong [OF assms(1), of set_mset] by (simp add: newest_first_def)
  then show "l \<in> set (newest_first ls)" by simp
  fix y assume "y \<in> set (newest_first ls)" "log_ConversationID y = cid"
  with s assms(2) show "y = l" by (auto simp: list_all_iff)
qed (rule assms(3))

locale log_store =
  fixes L :: "'c log_coll"
  assumes upsert_new: "lc_upsert L c h l = (c', Inr 0) \<Longrightarrow>
      has_hash h (lc_logs L c) = 0 \<and> mset (lc_logs L c') = add_mset l (mset (lc_logs L c))"
    and upsert_found: "lc_upsert L c h l = (c', Inr (Suc n)) \<Longrightarrow> 0 < has_hash h (lc_logs L c) \<and> lc_logs L c' = lc_logs L c"
    and upsert_err: "lc_upsert L c h l = (c', Inl eu) \<Longrightarrow> lc_logs L c' = lc_logs L c \<or>
      has_hash h (lc_logs L c) = 0 \<and> mset (lc_logs L c') = add_mset l (mset (lc_logs L c))"
    and insert_any: "lc_insert L c l = (c', ri) \<Longrightarrow> lc_logs L c' = lc_logs L c \<or>
      mset (lc_logs L c') = add_mset l (mset (lc_logs L c))"
    and insert_done: "lc_insert L c l = (c', None) \<Longrightarrow> mset (lc_logs L c') = add_mset l (mset (lc_logs L c))"
    and find_old: "lc_find_old L c skip many = Inr ids \<Longrightarrow>
      ids = map log_ID (take many (drop skip (newest_first (lc_logs L c))))"
    and find_conv: "lc_find_conv L c cid = Inr ro \<Longrightarrow> ro = first_of_conversation cid (lc_logs L c)"
    and delete_any: "lc_delete L c ids = (c', rd) \<Longrightarrow> mset (lc_logs L c') \<subseteq># mset (lc_logs L c)"
    and delete_done: "lc_delete L c ids = (c', None) \<Longrightarrow>
      mset (lc_logs L c') = filter_mset (\<lambda>l. log_ID l \<notin> set ids) (mset (lc_logs L c))"
begin

lemma has_hash_mono: "mset (lc_logs L c') \<subseteq># mset (lc_logs L c) \<Longrightarrow> has_hash h (lc_logs L c') \<le> has_hash h (lc_logs L c)"
  unfolding has_hash_mset by (intro size_mset_mono multiset_filter_mono)

lemma prune_mono: "mset (lc_logs L (fst (PruneTrafficLogs L n c))) \<subseteq># mset (lc_logs L c)"
  using delete_any [OF prod.collapse [symmetric]]
  by (auto simp: PruneTrafficLogs_def Let_def split: sum.splits)

text \<open>At most one log per conversation hash.\<close>

lemma SaveLog_unique:
  assumes "trim_space h \<noteq> []" "has_hash h (lc_logs L c) \<le> 1"
  shows "has_hash h (lc_logs L (fst (SaveLog L rr n now fresh c l))) \<le> 1"
proof -
  let ?l = "prepare_log now fresh (redact_TrafficLog rr l)"
  have prune: "has_hash h (lc_logs L (fst (PruneTrafficLogs L n c1))) \<le> has_hash h (lc_logs L c1)" for c1
    by (rule has_hash_mono [OF prune_mono])
  have added: "has_hash h (lc_logs L c1) \<le> 1"
    if "mset (lc_logs L c1) = add_mset ?l (mset (lc_logs L c))"
      "has_hash (log_ConversationHash ?l) (lc_logs L c) = 0 \<or> log_ConversationHash ?l \<noteq> h" for c1
    using that assms(2) by (auto simp: has_hash_mset)
  show ?thesis
  proof (cases "ShouldDropTrafficLog (redact_TrafficLog rr l)")
    case True
    with assms show ?thesis by (simp add: SaveLog_def Let_def)
  next
    case keep: False
    show ?thesis
    proof (cases "trim_space (log_ConversationHash ?l) = []")
      case True
      then have ne: "log_ConversationHash ?l \<noteq> h" using assms(1) by auto
      obtain c1 r where i: "lc_insert L c ?l = (c1, r)" by fastforce
      from insert_any [OF i] added ne assms(2) have "has_hash h (lc_logs L c1) \<le> 1" by auto
      then have "has_hash h (lc_logs L (fst (PruneTrafficLogs L n c1))) \<le> 1" "has_hash h (lc_logs L c1) \<le> 1"
        using prune [of c1] by linarith+
      with i keep True show ?thesis by (simp add: SaveLog_def Let_def split: option.split log_error.split)
    next
      case False
      obtain c1 r where u: "lc_upsert L c (log_ConversationHash ?l) ?l = (c1, r)" by fastforce
      have "has_hash h (lc_logs L c1) \<le> 1"
      proof (cases r)
        case (Inl e)
        from upsert_err [OF u [unfolded Inl]] added assms(2) show ?thesis by auto
      next
        case (Inr m)
        show ?thesis
        proof (cases m)
          case 0
          from upsert_new [OF u [unfolded Inr 0]] added show ?thesis by blast
        next
          case (Suc k)
          from upsert_found [OF u [unfolded Inr Suc]] assms(2) show ?thesis by simp
        qed
      qed
      then have "has_hash h (lc_logs L (fst (PruneTrafficLogs L n c1))) \<le> 1" "has_hash h (lc_logs L c1) \<le> 1"
        using prune [of c1] by linarith+
      with u keep False show ?thesis by (simp add: SaveLog_def Let_def split: sum.split log_error.split)
    qed
  qed
qed

lemma save_logs_unique:
  "trim_space h \<noteq> [] \<Longrightarrow> has_hash h (lc_logs L c) \<le> 1 \<Longrightarrow> has_hash h (lc_logs L (save_logs L rr n c calls)) \<le> 1"
proof (induction calls arbitrary: c)
  case (Cons call rest)
  obtain now fresh l where "call = (now, fresh, l)" by (cases call)
  with Cons SaveLog_unique [OF Cons.prems] show ?case by simp
qed simp

text \<open>A sorted query with a skip and a limit, then a deletion by identifier: what is left.\<close>

lemma prune_result:
  assumes "PruneTrafficLogs L ret c = (c', None)" "distinct (map log_ID (lc_logs L c))"
    and k: "k = nat (rt_MaxEvents (normalizeLogRetention ret))"
  shows "mset (lc_logs L c') = mset (take k (newest_first (lc_logs L c)) @ drop (k + 1000) (newest_first (lc_logs L c)))"
proof -
  let ?s = "newest_first (lc_logs L c)"
  let ?old = "take 1000 (drop k ?s)"
  have pos: "0 < rt_MaxEvents (normalizeLogRetention ret)"
    by (simp add: normalizeLogRetention_def defaultTrafficLogMaxEvents_def Let_def)
  obtain ids where f: "lc_find_old L c k 1000 = Inr ids"
    and r: "(if ids = [] then (c, None) else lc_delete L c ids) = (c', None)"
    using assms(1) pos by (auto simp: PruneTrafficLogs_def Let_def k split: sum.splits)
  note ids = find_old [OF f]
  have ms: "mset ?s = mset (lc_logs L c)" by (simp add: newest_first_def)
  have d: "distinct (map log_ID ?s)" using assms(2) by (simp add: newest_first_def distinct_map)
  have parts: "?s = take k ?s @ ?old @ drop (k + 1000) ?s"
    by (metis append_take_drop_id drop_drop add.commute)
  have keep: "filter (\<lambda>l. log_ID l \<notin> set ids) (take k ?s @ ?old @ drop (k + 1000) ?s) = take k ?s @ drop (k + 1000) ?s"
    unfolding ids by (rule filter_between) (use d parts in metis)
  have "mset (lc_logs L c') = filter_mset (\<lambda>l. log_ID l \<notin> set ids) (mset (lc_logs L c))"
  proof (cases "ids = []")
    case False
    with r delete_done show ?thesis by simp
  qed (use r in simp)
  also have "\<dots> = mset (filter (\<lambda>l. log_ID l \<notin> set ids) (take k ?s @ ?old @ drop (k + 1000) ?s))"
    using ms parts by (metis mset_filter)
  finally show ?thesis unfolding keep .
qed

lemma prune_small:
  assumes "length (lc_logs L c) \<le> nat (rt_MaxEvents (normalizeLogRetention ret))"
  shows "fst (PruneTrafficLogs L ret c) = c"
proof -
  have "ids = []" if "lc_find_old L c (nat (rt_MaxEvents (normalizeLogRetention ret))) 1000 = Inr ids" for ids
    using find_old [OF that] assms by (simp add: newest_first_def)
  then show ?thesis by (auto simp: PruneTrafficLogs_def Let_def split: sum.split)
qed

lemma SaveLog_saved:
  assumes "SaveLog L rr ret now fresh c l = (c', LogSaved)"
  shows "\<exists>c1. c' = fst (PruneTrafficLogs L ret c1) \<and>
    mset (lc_logs L c1) = add_mset (prepare_log now fresh (redact_TrafficLog rr l)) (mset (lc_logs L c))"
proof -
  let ?l = "prepare_log now fresh (redact_TrafficLog rr l)"
  have keep: "\<not> ShouldDropTrafficLog (redact_TrafficLog rr l)" using assms by (auto simp: SaveLog_def Let_def)
  show ?thesis
  proof (cases "trim_space (log_ConversationHash ?l) = []")
    case True
    obtain c1 r where i: "lc_insert L c ?l = (c1, r)" by fastforce
    with assms keep True have r: "r = None" "c' = fst (PruneTrafficLogs L ret c1)"
      by (auto simp: SaveLog_def Let_def split: option.splits log_error.splits)
    with insert_done i show ?thesis by blast
  next
    case False
    obtain c1 r where u: "lc_upsert L c (log_ConversationHash ?l) ?l = (c1, r)" by fastforce
    with assms keep False have r: "r = Inr 0" "c' = fst (PruneTrafficLogs L ret c1)"
      by (auto simp: SaveLog_def Let_def split: sum.splits log_error.splits if_splits)
    with upsert_new u show ?thesis by blast
  qed
qed

lemma SaveLog_Get:
  assumes saved: "SaveLog L rr ret now fresh c l = (c', LogSaved)"
    and room: "length (lc_logs L c) < nat (rt_MaxEvents (normalizeLogRetention ret))"
    and new: "list_all (\<lambda>x. log_ConversationID x \<noteq> trim_space cid) (lc_logs L c)" "log_ConversationID l = trim_space cid"
    and got: "lc_find_conv L c' (trim_space cid) = Inr r"
  shows "r = Some (prepare_log now fresh (redact_TrafficLog rr l))"
proof -
  from SaveLog_saved [OF saved] obtain c1 where c1: "c' = fst (PruneTrafficLogs L ret c1)"
    "mset (lc_logs L c1) = add_mset (prepare_log now fresh (redact_TrafficLog rr l)) (mset (lc_logs L c))" by blast
  have "length (lc_logs L c1) = Suc (length (lc_logs L c))"
    using arg_cong [OF c1(2), of size] by simp
  with room prune_small [of c1 ret] c1(1) have "c' = c1" by simp
  with find_conv [OF got] have "r = first_of_conversation (trim_space cid) (lc_logs L c1)" by simp
  also have "\<dots> = Some (prepare_log now fresh (redact_TrafficLog rr l))"
    by (rule first_of_conversation_single [OF c1(2) new(1)])
      (simp add: new(2) prepare_log_def redact_TrafficLog_def Let_def)
  finally show ?thesis .
qed

end

subsection \<open>The collection in memory\<close>

text \<open>With the unique index on the conversation hash and the one on \<open>_id\<close>.\<close>

definition mem_insert :: "traffic_log list \<Rightarrow> traffic_log \<Rightarrow> traffic_log list \<times> log_error option" where
  "mem_insert c l = (if log_ID l \<in> set (map log_ID c) \<or> log_ConversationHash l \<noteq> [] \<and> 0 < has_hash (log_ConversationHash l) c
     then (c, Some DuplicateKey) else (c @ [l], None))"

definition mem_logs :: "traffic_log list log_coll" where
  "mem_logs = \<lparr>lc_logs = id,
     lc_upsert = (\<lambda>c h l. if 0 < has_hash h c then (c, Inr 1)
       else (case mem_insert c l of (c', None) \<Rightarrow> (c', Inr 0) | (c', Some e) \<Rightarrow> (c', Inl e))),
     lc_insert = mem_insert,
     lc_find_old = (\<lambda>c skip many. Inr (map log_ID (take many (drop skip (newest_first c))))),
     lc_find_conv = (\<lambda>c cid. Inr (first_of_conversation cid c)),
     lc_delete = (\<lambda>c ids. (filter (\<lambda>l. log_ID l \<notin> set ids) c, None))\<rparr>"

interpretation mem_logs: log_store mem_logs
  by unfold_locales
    (auto simp: mem_logs_def mem_insert_def split: if_splits)

lemmas mem_logs_store = mem_logs.log_store_axioms

subsection \<open>Properties\<close>

text \<open>
  Property C29. A conversation is stored at most once: in a collection that holds at most one log with
  the conversation hash \<open>h\<close>, any sequence of \<open>SaveLog\<close> calls, with any logs, clocks and
  failures of the driver and with the pruning they cause, leaves at most one.
\<close>

theorem conversation_stored_once:
  assumes "log_store L" "trim_space h \<noteq> []" "has_hash h (lc_logs L c) \<le> 1"
  shows "has_hash h (lc_logs L (save_logs L rr ret c calls)) \<le> 1"
  by (rule log_store.save_logs_unique [OF assms])

definition sample_log :: "string \<Rightarrow> traffic_log" where
  "sample_log cid = zero_traffic_log\<lparr>log_Method := ''GET'', log_Path := ''/a'', log_ConversationID := cid, log_ConversationHash := ''h''\<rparr>"

theorem conversation_stored_once_witness:
  "has_hash ''h'' (lc_logs mem_logs (save_logs mem_logs (\<lambda>p t s. s) DefaultLogRetention []
     [(1, 1, sample_log ''c''), (2, 2, sample_log ''d''), (3, 3, sample_log ''c'')])) \<le> 1"
  by (rule conversation_stored_once [OF mem_logs_store]) (code_simp, code_simp)

text \<open>
  Pruning keeps the newest logs: a \<open>PruneTrafficLogs\<close> without error leaves exactly
  the \<open>MaxEvents\<close> newest logs (1000 when the setting is not positive) and, when there are more
  than 1000 older ones, those beyond the first thousand of them, for a later call.
\<close>

theorem prune_keeps_newest:
  assumes "log_store L" "PruneTrafficLogs L ret c = (c', None)" "distinct (map log_ID (lc_logs L c))"
  shows "let k = nat (rt_MaxEvents (normalizeLogRetention ret)); ordered = newest_first (lc_logs L c)
    in 0 < k \<and> mset (lc_logs L c') = mset (take k ordered @ drop (k + 1000) ordered)"
proof -
  have "0 < nat (rt_MaxEvents (normalizeLogRetention ret))"
    by (simp add: normalizeLogRetention_def defaultTrafficLogMaxEvents_def Let_def)
  with log_store.prune_result [OF assms refl] show ?thesis by (simp only: Let_def simp_thms)
qed

theorem prune_keeps_newest_witness:
  "let c = [(sample_log ''c'')\<lparr>log_ID := 1, log_CreatedAt := Some 0\<rparr>, (sample_log ''d'')\<lparr>log_ID := 2, log_CreatedAt := Some second\<rparr>]
   in mset (lc_logs mem_logs (fst (PruneTrafficLogs mem_logs \<lparr>rt_MaxEvents = 1, rt_TTL = 0\<rparr> c))) =
      {# (sample_log ''d'')\<lparr>log_ID := 2, log_CreatedAt := Some second\<rparr> #}"
proof -
  let ?c = "[(sample_log ''c'')\<lparr>log_ID := 1, log_CreatedAt := Some 0\<rparr>, (sample_log ''d'')\<lparr>log_ID := 2, log_CreatedAt := Some second\<rparr>]"
  let ?r = "\<lparr>rt_MaxEvents = 1, rt_TTL = 0\<rparr>"
  have p: "PruneTrafficLogs mem_logs ?r ?c = (fst (PruneTrafficLogs mem_logs ?r ?c), None)"
    by (simp add: PruneTrafficLogs_def mem_logs_def Let_def prod_eq_iff)
  have "newest_first ?c = rev ?c"
    by (simp add: newest_first_def newest_key_def second_def less_prod_def insort_key.simps)
  moreover have "nat (rt_MaxEvents (normalizeLogRetention ?r)) = 1" by (simp add: normalizeLogRetention_def Let_def)
  ultimately show ?thesis
    using prune_keeps_newest [OF mem_logs_store p] by (simp add: Let_def mem_logs_def)
qed

text \<open>
  What is saved is what the analyzer reads: after a successful \<open>SaveLog\<close> into a
  collection with room, \<open>GetTrafficLogByConversationID\<close> of the (new) conversation returns the
  redacted log, with the identifier and the creation time it was given, unless the driver fails.
\<close>

theorem saved_log_is_found:
  assumes "log_store L" "SaveLog L rr ret now fresh c l = (c', LogSaved)"
    and "length (lc_logs L c) < nat (rt_MaxEvents (normalizeLogRetention ret))"
    and "list_all (\<lambda>x. log_ConversationID x \<noteq> trim_space cid) (lc_logs L c)"
    and "log_ConversationID l = trim_space cid" "trim_space cid \<noteq> []"
  shows "case lc_find_conv L c' (trim_space cid) of
      Inl err \<Rightarrow> GetTrafficLogByConversationID L c' cid = Inl err
    | Inr r \<Rightarrow> GetTrafficLogByConversationID L c' cid = Inr (prepare_log now fresh (redact_TrafficLog rr l))"
proof (cases "lc_find_conv L c' (trim_space cid)")
  case (Inr r)
  with log_store.SaveLog_Get [OF assms(1-5) Inr] assms(6) show ?thesis
    by (simp add: GetTrafficLogByConversationID_def Let_def)
qed (simp add: GetTrafficLogByConversationID_def Let_def assms(6))

theorem saved_log_is_found_witness:
  "GetTrafficLogByConversationID mem_logs (fst (SaveLog mem_logs (\<lambda>p t s. s) DefaultLogRetention 7 1 [] (sample_log ''c''))) ''c'' =
    Inr (prepare_log 7 1 (redact_TrafficLog (\<lambda>p t s. s) (sample_log ''c'')))"
proof -
  let ?s = "SaveLog mem_logs (\<lambda>p t s. s) DefaultLogRetention 7 1 [] (sample_log ''c'')"
  have "snd ?s = LogSaved" by code_simp
  then have s: "?s = (fst ?s, LogSaved)" by (simp add: prod_eq_iff)
  have t: "trim_space ''c'' = ''c''" by code_simp
  have n: "rt_MaxEvents (normalizeLogRetention DefaultLogRetention) = 1000" by code_simp
  show ?thesis
    using saved_log_is_found [OF mem_logs_store s, of "''c''"]
    by (simp add: n t mem_logs_def sample_log_def)
qed

end
