(* ===== verification/Go_Utf8.thy ===== *)
theory Go_Utf8
  imports Go_Base
begin

text \<open>
  UTF-8 as Go's \<open>unicode/utf8\<close> reads it, and \<open>strings.ToValidUTF8\<close>, which the excerpts of
  payloads go through. Strings are byte strings.
\<close>

definition cont :: "nat \<Rightarrow> nat \<Rightarrow> char \<Rightarrow> bool" where
  "cont lo hi c \<longleftrightarrow> lo \<le> byte c \<and> byte c \<le> hi"

text \<open>The length of the encoded rune a string starts with; 0 for an invalid first byte.\<close>

fun rune_len :: "string \<Rightarrow> nat" where
  "rune_len [] = 0"
| "rune_len (a # s) =
     (if byte a < 128 then 1
      else if 194 \<le> byte a \<and> byte a \<le> 223 then
        (case s of b # _ \<Rightarrow> if cont 128 191 b then 2 else 0 | _ \<Rightarrow> 0)
      else if 224 \<le> byte a \<and> byte a \<le> 239 then
        (case s of b # c # _ \<Rightarrow>
           if cont (if byte a = 224 then 160 else 128) (if byte a = 237 then 159 else 191) b \<and> cont 128 191 c then 3 else 0
         | _ \<Rightarrow> 0)
      else if 240 \<le> byte a \<and> byte a \<le> 244 then
        (case s of b # c # d # _ \<Rightarrow>
           if cont (if byte a = 240 then 144 else 128) (if byte a = 244 then 143 else 191) b \<and> cont 128 191 c \<and> cont 128 191 d
           then 4 else 0
         | _ \<Rightarrow> 0)
      else 0)"

lemma rune_len_le: "rune_len s \<le> length s"
  by (cases s) (auto split: list.splits)

lemma rune_len_prefix: "rune_len s \<noteq> 0 \<Longrightarrow> rune_len (take (rune_len s) s @ t) = rune_len s"
proof -
  assume n: "rune_len s \<noteq> 0"
  consider "s = []" | a where "s = [a]" | a b where "s = [a, b]" | a b c where "s = [a, b, c]"
    | a b c d u where "s = a # b # c # d # u"
    by (metis neq_Nil_conv)
  then show ?thesis
  proof cases
    case (2 a) with n show ?thesis by (simp split: if_split_asm)
  next
    case (3 a b) with n show ?thesis by (simp split: if_split_asm)
  next
    case (4 a b c) with n show ?thesis by (simp split: if_split_asm)
  next
    case (5 a b c d u) with n show ?thesis by (simp split: if_split_asm)
  qed (use n in simp)
qed

function ValidUTF8 :: "string \<Rightarrow> bool" where
  "ValidUTF8 s = (if s = [] then True else if rune_len s = 0 then False else ValidUTF8 (drop (rune_len s) s))"
  by auto
termination by (relation "measure length") auto

declare ValidUTF8.simps [simp del]

text \<open>A run of invalid bytes becomes one replacement; \<open>inRun\<close> tells that one is being skipped.\<close>

function to_valid :: "string \<Rightarrow> bool \<Rightarrow> string \<Rightarrow> string" where
  "to_valid r inRun s =
     (if s = [] then []
      else if rune_len s = 0 then (if inRun then [] else r) @ to_valid r True (tl s)
      else take (rune_len s) s @ to_valid r False (drop (rune_len s) s))"
  by auto
termination by (relation "measure (\<lambda>(_, _, s). length s)") auto

declare to_valid.simps [simp del]

definition ToValidUTF8 :: "string \<Rightarrow> string \<Rightarrow> string" where
  "ToValidUTF8 s replacement = to_valid replacement False s"

lemma to_valid_length: "length r \<le> 1 \<Longrightarrow> length (to_valid r b s) \<le> length s"
proof (induction r b s rule: to_valid.induct)
  case (1 r b s)
  show ?case
  proof (cases "s = [] \<or> rune_len s = 0")
    case True
    with 1 show ?thesis by (subst to_valid.simps) (cases s; auto)
  next
    case False
    with 1(2) 1(3) rune_len_le [of s] show ?thesis by (subst to_valid.simps) auto
  qed
qed

lemma ValidUTF8_append: "ValidUTF8 s \<Longrightarrow> ValidUTF8 t \<Longrightarrow> ValidUTF8 (s @ t)"
proof (induction s rule: ValidUTF8.induct)
  case (1 s)
  show ?case
  proof (cases "s = []")
    case False
    with 1(2) have n: "rune_len s \<noteq> 0" by (subst (asm) ValidUTF8.simps) (auto split: if_splits)
    with 1(2) False have v: "ValidUTF8 (drop (rune_len s) s)" by (subst (asm) ValidUTF8.simps) simp
    have len: "rune_len (s @ t) = rune_len s"
      using rune_len_prefix [OF n, of "drop (rune_len s) s @ t"] by (simp del: append_assoc add: append_assoc [symmetric])
    from 1(1) [OF False n v 1(3)] show ?thesis
      using n rune_len_le [of s] False by (subst ValidUTF8.simps) (simp add: len)
  qed (use 1 in simp)
qed

lemma ValidUTF8_rune: "rune_len s \<noteq> 0 \<Longrightarrow> ValidUTF8 (take (rune_len s) s)"
proof -
  assume n: "rune_len s \<noteq> 0"
  have "rune_len (take (rune_len s) s) = rune_len s" using rune_len_prefix [OF n, of "[]"] by simp
  then show ?thesis using n by (subst ValidUTF8.simps) (simp add: ValidUTF8.simps [of "[]"])
qed

lemma to_valid_valid: "ValidUTF8 r \<Longrightarrow> ValidUTF8 (to_valid r b s)"
proof (induction r b s rule: to_valid.induct)
  case (1 r b s)
  then show ?case
    by (subst to_valid.simps) (auto intro!: ValidUTF8_append ValidUTF8_rune simp: ValidUTF8.simps [of "[]"])
qed

lemma to_valid_id: "ValidUTF8 s \<Longrightarrow> to_valid r b s = s"
proof (induction s arbitrary: b rule: ValidUTF8.induct)
  case (1 s)
  show ?case
  proof (cases "s = []")
    case False
    with 1(2) have n: "rune_len s \<noteq> 0" "ValidUTF8 (drop (rune_len s) s)"
      by (subst (asm) ValidUTF8.simps, simp split: if_splits)+
    from 1(1) [OF False n(1) n(2)] show ?thesis using False n(1) by (subst to_valid.simps) simp
  qed (simp add: to_valid.simps)
qed

lemma ValidUTF8_dot: "ValidUTF8 ''.''"
  by (simp add: ValidUTF8.simps)

end
