(* ===== verification/Event_Workers.thy ===== *)
theory Event_Workers
  imports Queue Redact Go_Utf8 "HOL-Library.Word"
begin

text \<open>
  The consumers of the queue: the runtime analyzer (\<open>internal/runtimeanalyzer\<close>), the dead-letter
  consumer (\<open>internal/deadletter\<close>), and the publisher of the ingestion service
  (\<open>internal/ingest/publisher.go\<close>). The queue, the stores and the analyzer are functions on a
  world \<open>'w\<close>; next to it a step keeps the trace of its effects, so that the order of handling
  and committing a message can be stated. The counters are the 64-bit words of \<open>sync/atomic\<close>.
  The checks of \<open>validate\<close> for parts that were not given (\<open>nil\<close>) are left out: the programs give all of them.
\<close>

subsection \<open>Publishing a conversation\<close>

text \<open>\<open>marshal_event\<close> and \<open>marshal\<close> are \<open>json.Marshal\<close>.\<close>

definition PublishConversation ::
  "(http_conversation_event \<Rightarrow> string + string) \<Rightarrow> (envelope \<Rightarrow> string + string) \<Rightarrow> bool \<Rightarrow> string \<Rightarrow> int \<Rightarrow>
   http_conversation_event \<Rightarrow> string + message" where
  "PublishConversation marshal_event marshal hasProducer topic0 now event0 =
     (if \<not> hasProducer then Inl ''conversation event producer is not configured''
      else if trim_space (hce_ConversationID event0) = [] then Inl ''conversation id is required''
      else (let event = (if hce_SchemaVersion event0 = [] then event0\<lparr>hce_SchemaVersion := EventHTTPConversationV1\<rparr> else event0);
                topic = (if trim_space topic0 = [] then TopicHTTPConversations else trim_space topic0);
                idempotencyKey = HTTPConversationIdempotencyKey (hce_ConversationID event)
            in case NewEnvelope now EventHTTPConversationV1 PayloadHTTPConversationPersistedV1 (marshal_event event)
                 [WithEventID idempotencyKey, WithIdempotencyKey idempotencyKey,
                  WithIdentity (hce_TenantID event) (hce_ProjectID event) (hce_AgentID event) (hce_CaptureSource event)] of
                 Inl err \<Rightarrow> Inl err
               | Inr e \<Rightarrow> EncodeEnvelope marshal topic idempotencyKey e))"

subsection \<open>Metrics\<close>

record metrics =
  consumed :: "64 word"
  processed :: "64 word"
  failed :: "64 word"
  retried :: "64 word"
  deadLettered :: "64 word"
  committed :: "64 word"
  lastLagMillis :: int
  maxLagMillis :: int
  lastMessageUnix :: int

definition zero_metrics :: metrics where
  "zero_metrics = \<lparr>consumed = 0, processed = 0, failed = 0, retried = 0, deadLettered = 0, committed = 0,
     lastLagMillis = 0, maxLagMillis = 0, lastMessageUnix = 0\<rparr>"

definition observeConsumed :: "gotime \<Rightarrow> int \<Rightarrow> metrics \<Rightarrow> metrics" where
  "observeConsumed messageTime now m =
     (let m1 = m\<lparr>consumed := consumed m + 1, lastMessageUnix := now div second\<rparr> in
      case messageTime of
        None \<Rightarrow> m1
      | Some t \<Rightarrow>
          (let lag = (if now - t < 0 then 0 else min (now - t) (2 ^ 63 - 1)); lagMillis = lag div 1000000
           in m1\<lparr>lastLagMillis := lagMillis, maxLagMillis := (if lagMillis \<le> maxLagMillis m then maxLagMillis m else lagMillis)\<rparr>))"

definition observeProcessed :: "metrics \<Rightarrow> metrics" where "observeProcessed m = m\<lparr>processed := processed m + 1\<rparr>"
definition observeFailed :: "metrics \<Rightarrow> metrics" where "observeFailed m = m\<lparr>failed := failed m + 1\<rparr>"
definition observeDeadLettered :: "metrics \<Rightarrow> metrics" where "observeDeadLettered m = m\<lparr>deadLettered := deadLettered m + 1\<rparr>"
definition observeCommitted :: "metrics \<Rightarrow> metrics" where "observeCommitted m = m\<lparr>committed := committed m + 1\<rparr>"

lemmas observe_defs = observeConsumed_def observeProcessed_def observeFailed_def observeDeadLettered_def
  observeCommitted_def Let_def

subsection \<open>The runtime analyzer\<close>

record 'w analyzer_env =
  ae_Consume :: "'w \<Rightarrow> 'w \<times> (string + message)"
  ae_Commit :: "'w \<Rightarrow> message \<Rightarrow> 'w \<times> string option"
  ae_Produce :: "('w \<Rightarrow> message \<Rightarrow> 'w \<times> string option) option"
  ae_GetTrafficLog :: "'w \<Rightarrow> string \<Rightarrow> string + traffic_log"
  ae_ProcessLog :: "'w \<Rightarrow> traffic_log \<Rightarrow> 'w"
  ae_now :: "'w \<Rightarrow> int"
  ae_decode :: "string \<Rightarrow> string + envelope"
  ae_decode_event :: "string \<Rightarrow> string + http_conversation_event"
  ae_encode :: "envelope \<Rightarrow> string + string"
  ae_encode_dead :: "dead_letter \<Rightarrow> string + string"
  ae_redact :: "string \<Rightarrow> string"
  ae_Unix :: "gotime \<Rightarrow> string"
  ae_Quote :: "string \<Rightarrow> string"

datatype effect =
    Analyzed message traffic_log
  | DeadLettered message message
  | Committed message

definition deadLetterPayloadMaxBytes :: int where "deadLetterPayloadMaxBytes = 8 * 1024"

definition truncatePayload :: "string \<Rightarrow> int \<Rightarrow> string" where
  "truncatePayload raw maxBytes =
     (if maxBytes \<le> 0 \<or> int (length raw) \<le> maxBytes then ToValidUTF8 raw ''.''
      else ToValidUTF8 (take (nat maxBytes) raw) ''.'')"

definition deadLetterEventID :: "'w analyzer_env \<Rightarrow> message \<Rightarrow> string" where
  "deadLetterEventID A m =
     (case DecodeEnvelope (ae_decode A) m of
        Inr e \<Rightarrow>
          if trim_space (env_EventID e) \<noteq> [] then env_EventID e
          else if trim_space (env_IdempotencyKey e) \<noteq> [] then env_IdempotencyKey e
          else if trim_space (msg_Key m) \<noteq> [] then msg_Key m
          else NormalizeTopic (msg_Topic m) @ '':'' @ ae_Unix A (msg_Timestamp m)
      | Inl _ \<Rightarrow>
          if trim_space (msg_Key m) \<noteq> [] then msg_Key m
          else NormalizeTopic (msg_Topic m) @ '':'' @ ae_Unix A (msg_Timestamp m))"

definition dead_letter_message :: "'w analyzer_env \<Rightarrow> int \<Rightarrow> message \<Rightarrow> string \<Rightarrow> string + message" where
  "dead_letter_message A now m cause =
     (let eventID = deadLetterEventID A m;
          deadLetter = \<lparr>dl_SchemaVersion = EventDeadLetterV1, dl_SourceTopic = msg_Topic m, dl_EventID = eventID,
            dl_Reason = ''runtime_analyzer_processing_failed'', dl_Error = cause,
            dl_Payload = ae_redact A (truncatePayload (msg_Value m) deadLetterPayloadMaxBytes), dl_CreatedAt = Some now\<rparr>
      in case NewEnvelope now EventDeadLetterV1 EventDeadLetterV1 (ae_encode_dead A deadLetter)
           [WithEventID (''dead_letter:'' @ eventID), WithIdempotencyKey (''dead_letter:'' @ eventID)] of
           Inl err \<Rightarrow> Inl err
         | Inr e \<Rightarrow> EncodeEnvelope (ae_encode A) TopicIngestDeadLetter (env_IdempotencyKey e) e)"

text \<open>A nil producer drops the dead letter without an error.\<close>

definition publishDeadLetter :: "'w analyzer_env \<Rightarrow> 'w \<Rightarrow> message \<Rightarrow> string \<Rightarrow> 'w \<times> effect list \<times> string option" where
  "publishDeadLetter A w m cause =
     (case ae_Produce A of
        None \<Rightarrow> (w, [], None)
      | Some produce \<Rightarrow>
          (case dead_letter_message A (ae_now A w) m cause of
             Inl err \<Rightarrow> (w, [], Some err)
           | Inr d \<Rightarrow> (case produce w d of
               (w', None) \<Rightarrow> (w', [DeadLettered m d], None)
             | (w', Some err) \<Rightarrow> (w', [], Some err))))"

definition processMessage :: "'w analyzer_env \<Rightarrow> 'w \<Rightarrow> message \<Rightarrow> 'w \<times> effect list \<times> string option" where
  "processMessage A w m =
     (case DecodeEnvelope (ae_decode A) m of
        Inl err \<Rightarrow> (w, [], Some (''decode queue envelope: '' @ err))
      | Inr e \<Rightarrow>
          if env_SchemaVersion e \<noteq> EventHTTPConversationV1 then (w, [], Some (''unexpected envelope schema '' @ ae_Quote A (env_SchemaVersion e)))
          else if env_PayloadType e \<noteq> PayloadHTTPConversationPersistedV1 then (w, [], Some (''unexpected payload type '' @ ae_Quote A (env_PayloadType e)))
          else (case ae_decode_event A (env_Payload e) of
              Inl err \<Rightarrow> (w, [], Some (''decode conversation event payload: '' @ err))
            | Inr event \<Rightarrow>
                if trim_space (hce_ConversationID event) = [] then
                  (w, [], Some ''conversation event missing conversation_id'')
                else (case ae_GetTrafficLog A w (hce_ConversationID event) of
                    Inl err \<Rightarrow> (w, [], Some (''load traffic log conversation_id='' @ hce_ConversationID event @ '': '' @ err))
                  | Inr logEntry \<Rightarrow> (ae_ProcessLog A w logEntry, [Analyzed m logEntry], None))))"

record 'w analyzer_state =
  as_world :: 'w
  as_metrics :: metrics
  as_trace :: "effect list"

definition commit_message :: "'w analyzer_env \<Rightarrow> 'w \<Rightarrow> message \<Rightarrow> 'w \<times> effect list \<times> string option" where
  "commit_message A w m =
     (case ae_Commit A w m of
        (w', None) \<Rightarrow> (w', [Committed m], None)
      | (w', Some err) \<Rightarrow> (w', [], Some err))"

definition ProcessOne :: "'w analyzer_env \<Rightarrow> 'w analyzer_state \<Rightarrow> 'w analyzer_state \<times> string option" where
  "ProcessOne A s =
     (case ae_Consume A (as_world s) of
        (w0, Inl err) \<Rightarrow> (s\<lparr>as_world := w0\<rparr>, Some err)
      | (w0, Inr m) \<Rightarrow>
          (let m1 = observeConsumed (msg_Timestamp m) (ae_now A w0) (as_metrics s) in
           case processMessage A w0 m of
             (w1, t1, Some err) \<Rightarrow>
               (let m2 = observeFailed m1 in
                case publishDeadLetter A w1 m err of
                  (w2, t2, Some dlqErr) \<Rightarrow>
                    (\<lparr>as_world = w2, as_metrics = m2, as_trace = as_trace s @ t1 @ t2\<rparr>,
                     Some (''process message: '' @ err @ ''; publish dead letter: '' @ dlqErr))
                | (w2, t2, None) \<Rightarrow>
                    (let m3 = observeDeadLettered m2 in
                     case commit_message A w2 m of
                       (w3, t3, Some commitErr) \<Rightarrow>
                         (\<lparr>as_world = w3, as_metrics = m3, as_trace = as_trace s @ t1 @ t2 @ t3\<rparr>,
                          Some (''process message: '' @ err @ ''; commit failed message: '' @ commitErr))
                     | (w3, t3, None) \<Rightarrow>
                         (\<lparr>as_world = w3, as_metrics = observeCommitted m3, as_trace = as_trace s @ t1 @ t2 @ t3\<rparr>, Some err)))
           | (w1, t1, None) \<Rightarrow>
               (case commit_message A w1 m of
                  (w2, t2, Some err) \<Rightarrow>
                    (\<lparr>as_world = w2, as_metrics = observeFailed m1, as_trace = as_trace s @ t1 @ t2\<rparr>, Some err)
                | (w2, t2, None) \<Rightarrow>
                    (\<lparr>as_world = w2, as_metrics = observeCommitted (observeProcessed m1), as_trace = as_trace s @ t1 @ t2\<rparr>, None))))"

text \<open>Any number of turns of \<open>Run\<close>, which goes on after every error.\<close>

fun analyzer_run :: "'w analyzer_env \<Rightarrow> nat \<Rightarrow> 'w analyzer_state \<Rightarrow> 'w analyzer_state" where
  "analyzer_run A 0 s = s"
| "analyzer_run A (Suc n) s = analyzer_run A n (fst (ProcessOne A s))"

subsection \<open>The dead-letter consumer\<close>

record 'w dead_env =
  de_Consume :: "'w \<Rightarrow> 'w \<times> (string + message)"
  de_Commit :: "'w \<Rightarrow> message \<Rightarrow> 'w \<times> string option"
  de_Save :: "'w \<Rightarrow> ingest_dead_letter \<Rightarrow> 'w \<times> string option"
  de_now :: "'w \<Rightarrow> int"
  de_decode :: "string \<Rightarrow> string + envelope"
  de_decode_dead :: "string \<Rightarrow> string + dead_letter"
  de_redact :: re_replace
  de_Unix :: "gotime \<Rightarrow> string"
  de_Quote :: "string \<Rightarrow> string"

datatype dead_effect = Saved message ingest_dead_letter | DeadCommitted message

definition fallbackEventID :: "'w dead_env \<Rightarrow> message \<Rightarrow> string" where
  "fallbackEventID A m =
     (if trim_space (msg_Key m) \<noteq> [] then msg_Key m
      else NormalizeTopic (msg_Topic m) @ '':'' @ de_Unix A (msg_Timestamp m))"

definition dead_decode :: "'w dead_env \<Rightarrow> int \<Rightarrow> message \<Rightarrow> string + ingest_dead_letter" where
  "dead_decode A now m =
     (case DecodeEnvelope (de_decode A) m of
        Inl err \<Rightarrow> Inl (''decode dead-letter envelope: '' @ err)
      | Inr e \<Rightarrow>
          if env_SchemaVersion e \<noteq> EventDeadLetterV1 then
            Inl (''unexpected dead-letter schema '' @ de_Quote A (env_SchemaVersion e))
          else (case de_decode_dead A (env_Payload e) of
              Inl err \<Rightarrow> Inl (''decode dead-letter payload: '' @ err)
            | Inr payload \<Rightarrow> Inr (zero_ingest_dead_letter
                \<lparr>idl_CreatedAt := (if is_zero (dl_CreatedAt payload) then Some now else dl_CreatedAt payload),
                 idl_Reason := dl_Reason payload, idl_SchemaVersion := dl_SchemaVersion payload,
                 idl_SourceTopic := dl_SourceTopic payload, idl_EventID := dl_EventID payload,
                 idl_Error := dl_Error payload, idl_PayloadExcerpt := dl_Payload payload\<rparr>)))"

definition dead_entry :: "'w dead_env \<Rightarrow> int \<Rightarrow> message \<Rightarrow> ingest_dead_letter" where
  "dead_entry A now m =
     redact_IngestDeadLetter (de_redact A)
       (case dead_decode A now m of
          Inr d \<Rightarrow> d
        | Inl err \<Rightarrow> zero_ingest_dead_letter
            \<lparr>idl_CreatedAt := Some now, idl_Reason := ''dead_letter_decode_failed'', idl_SourceTopic := msg_Topic m,
             idl_EventID := fallbackEventID A m, idl_Error := err,
             idl_PayloadExcerpt := truncatePayload (msg_Value m) (8 * 1024)\<rparr>)"

definition dead_ProcessOne :: "'w dead_env \<Rightarrow> 'w \<Rightarrow> 'w \<times> dead_effect list \<times> string option" where
  "dead_ProcessOne A w =
     (case de_Consume A w of
        (w0, Inl err) \<Rightarrow> (w0, [], Some err)
      | (w0, Inr m) \<Rightarrow>
          (let d = dead_entry A (de_now A w0) m in
           case de_Save A w0 d of
             (w1, Some err) \<Rightarrow> (w1, [], Some err)
           | (w1, None) \<Rightarrow>
               (case de_Commit A w1 m of
                  (w2, None) \<Rightarrow> (w2, [Saved m d, DeadCommitted m], None)
                | (w2, Some err) \<Rightarrow> (w2, [Saved m d], Some err))))"

text \<open>\<open>Run\<close> stops at the first error other than an empty queue; \<open>ctxDone\<close> reads the context.\<close>

fun dead_Run :: "'w dead_env \<Rightarrow> ('w \<Rightarrow> bool) \<Rightarrow> (string \<Rightarrow> bool) \<Rightarrow> nat \<Rightarrow> 'w \<Rightarrow> ('w \<times> dead_effect list \<times> string option) option" where
  "dead_Run A ctxDone isNoMessage 0 w = None"
| "dead_Run A ctxDone isNoMessage (Suc fuel) w =
     (if ctxDone w then Some (w, [], None)
      else (case dead_ProcessOne A w of
          (w', t, None) \<Rightarrow> map_option (\<lambda>(w2, t2, r). (w2, t @ t2, r)) (dead_Run A ctxDone isNoMessage fuel w')
        | (w', t, Some err) \<Rightarrow>
            if ctxDone w' then Some (w', t, None)
            else if isNoMessage err then map_option (\<lambda>(w2, t2, r). (w2, t @ t2, r)) (dead_Run A ctxDone isNoMessage fuel w')
            else Some (w', t, Some err)))"

subsection \<open>Lemmas\<close>

definition start :: "'w \<Rightarrow> 'w analyzer_state" where
  "start w = \<lparr>as_world = w, as_metrics = zero_metrics, as_trace = []\<rparr>"

fun is_committed :: "effect \<Rightarrow> bool" where
  "is_committed (Committed m) = True"
| "is_committed _ = False"

definition balanced :: "'w analyzer_state \<Rightarrow> bool" where
  "balanced s \<longleftrightarrow> consumed (as_metrics s) = processed (as_metrics s) + failed (as_metrics s) \<and>
     committed (as_metrics s) = of_nat (length (filter is_committed (as_trace s))) \<and>
     0 \<le> lastLagMillis (as_metrics s) \<and> lastLagMillis (as_metrics s) \<le> maxLagMillis (as_metrics s)"

lemma processMessage_trace:
  "\<exists>l. processMessage A w m = (ae_ProcessLog A w l, [Analyzed m l], None) \<or>
   (\<exists>err. processMessage A w m = (w, [], Some err))"
  by (auto simp: processMessage_def split: sum.splits)

lemma publish_trace:
  "(\<exists>w'. publishDeadLetter A w m cause = (w', [], None) \<and> ae_Produce A = None) \<or>
   (\<exists>w' d. publishDeadLetter A w m cause = (w', [DeadLettered m d], None)) \<or>
   (\<exists>w' err. publishDeadLetter A w m cause = (w', [], Some err))"
  by (auto simp: publishDeadLetter_def split: sum.splits option.splits prod.splits)

lemma commit_trace:
  "(\<exists>w'. commit_message A w m = (w', [Committed m], None)) \<or> (\<exists>w' err. commit_message A w m = (w', [], Some err))"
  by (auto simp: commit_message_def split: prod.splits option.splits)

text \<open>What one turn adds to the trace.\<close>

definition turn_effects :: "bool \<Rightarrow> effect list \<Rightarrow> bool" where
  "turn_effects hasProducer t \<longleftrightarrow> t = [] \<or>
     (\<exists>m l. t = [Analyzed m l] \<or> t = [Analyzed m l, Committed m]) \<or>
     (\<exists>m d. t = [DeadLettered m d] \<or> t = [DeadLettered m d, Committed m]) \<or>
     (\<not> hasProducer \<and> (\<exists>m. t = [Committed m]))"

lemma observeConsumed_props:
  "consumed (observeConsumed t now m) = consumed m + 1" "processed (observeConsumed t now m) = processed m"
  "failed (observeConsumed t now m) = failed m" "committed (observeConsumed t now m) = committed m"
  "0 \<le> lastLagMillis m \<Longrightarrow> lastLagMillis m \<le> maxLagMillis m \<Longrightarrow>
    0 \<le> lastLagMillis (observeConsumed t now m) \<and> lastLagMillis (observeConsumed t now m) \<le> maxLagMillis (observeConsumed t now m)"
  by (auto simp: observeConsumed_def Let_def split: option.splits)

lemma ProcessOne_turn:
  "\<exists>t. as_trace (fst (ProcessOne A s)) = as_trace s @ t \<and> turn_effects (ae_Produce A \<noteq> None) t \<and>
     (balanced s \<longrightarrow> balanced (fst (ProcessOne A s)))"
proof -
  obtain w0 r where c: "ae_Consume A (as_world s) = (w0, r)" by fastforce
  show ?thesis
  proof (cases r)
    case (Inl err)
    with c show ?thesis by (auto simp: ProcessOne_def turn_effects_def balanced_def)
  next
    case (Inr m)
    note simps = ProcessOne_def c Inr Let_def turn_effects_def balanced_def observeConsumed_props
      observeProcessed_def observeFailed_def observeDeadLettered_def observeCommitted_def
    from processMessage_trace [of A w0 m] show ?thesis
    proof (elim exE disjE)
      fix l assume p: "processMessage A w0 m = (ae_ProcessLog A w0 l, [Analyzed m l], None)"
      from commit_trace [of A "ae_ProcessLog A w0 l" m] show ?thesis
        by (elim exE disjE) (simp_all add: simps p)
    next
      fix err assume p: "processMessage A w0 m = (w0, [], Some err)"
      from publish_trace [of A w0 m err] show ?thesis
      proof (elim exE disjE conjE)
        fix w' assume q: "publishDeadLetter A w0 m err = (w', [], None)" "ae_Produce A = None"
        from commit_trace [of A w' m] show ?thesis by (elim exE disjE) (simp_all add: simps p q)
      next
        fix w' d assume q: "publishDeadLetter A w0 m err = (w', [DeadLettered m d], None)"
        from commit_trace [of A w' m] show ?thesis by (elim exE disjE) (simp_all add: simps p q)
      next
        fix w' err' assume q: "publishDeadLetter A w0 m err = (w', [], Some err')"
        then show ?thesis by (simp add: simps p)
      qed
    qed
  qed
qed

lemma analyzer_run_turns:
  "\<exists>ts. as_trace (analyzer_run A n s) = as_trace s @ concat ts \<and> (\<forall>t \<in> set ts. turn_effects (ae_Produce A \<noteq> None) t) \<and>
     (balanced s \<longrightarrow> balanced (analyzer_run A n s))"
proof (induction n arbitrary: s)
  case 0 show ?case by (rule exI [of _ "[]"]) simp
next
  case (Suc n)
  from ProcessOne_turn [of A s] obtain t where
    t: "as_trace (fst (ProcessOne A s)) = as_trace s @ t" "turn_effects (ae_Produce A \<noteq> None) t"
      "balanced s \<longrightarrow> balanced (fst (ProcessOne A s))" by blast
  from Suc.IH [of "fst (ProcessOne A s)"] obtain ts where
    "as_trace (analyzer_run A n (fst (ProcessOne A s))) = as_trace (fst (ProcessOne A s)) @ concat ts"
    "\<forall>t \<in> set ts. turn_effects (ae_Produce A \<noteq> None) t"
    "balanced (fst (ProcessOne A s)) \<longrightarrow> balanced (analyzer_run A n (fst (ProcessOne A s)))" by blast
  with t show ?case by (intro exI [of _ "t # ts"]) auto
qed

text \<open>A commit in a trace of such turns is preceded by the handling of its message.\<close>

fun commits_handled :: "effect option \<Rightarrow> effect list \<Rightarrow> bool" where
  "commits_handled prev [] = True"
| "commits_handled prev (Committed m # es) =
     ((case prev of Some (Analyzed m' _) \<Rightarrow> m' = m | Some (DeadLettered m' _) \<Rightarrow> m' = m | _ \<Rightarrow> False) \<and>
      commits_handled (Some (Committed m)) es)"
| "commits_handled prev (e # es) = commits_handled (Some e) es"

lemma turns_handled:
  "\<forall>t \<in> set ts. turn_effects True t \<Longrightarrow> commits_handled prev (concat ts)"
proof (induction ts arbitrary: prev)
  case (Cons t ts)
  then have "turn_effects True t" and ih: "commits_handled prev' (concat ts)" for prev' by auto
  then show ?case unfolding turn_effects_def by (elim disjE exE conjE) (simp_all add: ih)
qed simp

fun dead_commits_ok :: "dead_effect option \<Rightarrow> dead_effect list \<Rightarrow> bool" where
  "dead_commits_ok prev [] = True"
| "dead_commits_ok prev (DeadCommitted m # es) =
     ((case prev of Some (Saved m' _) \<Rightarrow> m' = m | _ \<Rightarrow> False) \<and> dead_commits_ok (Some (DeadCommitted m)) es)"
| "dead_commits_ok prev (e # es) = dead_commits_ok (Some e) es"

lemma dead_ProcessOne_cases:
  obtains w' err where "dead_ProcessOne A w = (w', [], Some err)"
  | m w0 w' err where "de_Consume A w = (w0, Inr m)" "dead_ProcessOne A w = (w', [Saved m (dead_entry A (de_now A w0) m)], Some err)"
  | m w0 w' where "de_Consume A w = (w0, Inr m)"
      "dead_ProcessOne A w = (w', [Saved m (dead_entry A (de_now A w0) m), DeadCommitted m], None)"
proof -
  obtain w0 r where c: "de_Consume A w = (w0, r)" by fastforce
  show ?thesis
  proof (cases r)
    case (Inl e)
    with c show ?thesis by (intro that(1)) (simp add: dead_ProcessOne_def)
  next
    case (Inr m)
    let ?d = "dead_entry A (de_now A w0) m"
    obtain w1 e1 where s: "de_Save A w0 ?d = (w1, e1)" by fastforce
    obtain w2 e2 where k: "de_Commit A w1 m = (w2, e2)" by fastforce
    show ?thesis
    proof (cases e1)
      case (Some e)
      with c Inr s show ?thesis by (intro that(1)) (simp add: dead_ProcessOne_def)
    next
      case None
      note c' = c [unfolded Inr]
      show ?thesis
      proof (cases e2)
        case (Some e)
        with c Inr s k None show ?thesis by (intro that(2) [OF c']) (simp add: dead_ProcessOne_def)
      next
        case e: None
        with c Inr s k None show ?thesis by (intro that(3) [OF c']) (simp add: dead_ProcessOne_def)
      qed
    qed
  qed
qed

lemma dead_Run_ok:
  "dead_Run A cd nm fuel w = Some (w', t, r) \<Longrightarrow> dead_commits_ok prev t"
proof (induction fuel arbitrary: w w' t r prev)
  case (Suc fuel)
  show ?case
  proof (cases "cd w")
    case False
    from Suc.prems False show ?thesis
      by (cases rule: dead_ProcessOne_cases [of A w])
        (auto split: if_splits intro: Suc.IH)
  qed (use Suc.prems in auto)
qed simp

subsection \<open>Properties\<close>

text \<open>
  Property C30. The runtime analyzer loses no message: with a dead-letter producer, over any number of
  turns and whatever the queue, the stores and the producer answer, a message is committed only right after
  its traffic log has been analyzed or its dead letter has been accepted by the producer.
\<close>

theorem analyzer_commits_after_handling:
  assumes "ae_Produce A \<noteq> None"
  shows "commits_handled None (as_trace (analyzer_run A n (start w)))"
proof -
  from analyzer_run_turns [of A n "start w"] obtain ts where
    "as_trace (analyzer_run A n (start w)) = concat ts" "\<forall>t \<in> set ts. turn_effects (ae_Produce A \<noteq> None) t"
    by (auto simp: start_def)
  with assms turns_handled show ?thesis by simp
qed

definition sample_message :: message where
  "sample_message = \<lparr>msg_Topic = ''t'', msg_Key = ''k'', msg_Value = ''{'', msg_Headers = [], msg_Timestamp = Some 0,
     msg_Attempts = 0, msg_AckToken = None\<rparr>"

definition sample_analyzer :: "nat analyzer_env" where
  "sample_analyzer = \<lparr>ae_Consume = (\<lambda>w. (w, Inr sample_message)), ae_Commit = (\<lambda>w m. (Suc w, None)),
     ae_Produce = Some (\<lambda>w m. (w, None)), ae_GetTrafficLog = (\<lambda>w c. Inr zero_traffic_log), ae_ProcessLog = (\<lambda>w l. w),
     ae_now = int, ae_decode = (\<lambda>_. Inl ''unexpected end of JSON input''), ae_decode_event = (\<lambda>_. Inl []),
     ae_encode = (\<lambda>_. Inr ''{}''), ae_encode_dead = (\<lambda>_. Inr ''{}''), ae_redact = id, ae_Unix = (\<lambda>_. ''0''), ae_Quote = id\<rparr>"

theorem analyzer_commits_after_handling_witness:
  "commits_handled None (as_trace (analyzer_run sample_analyzer 2 (start 0)))"
  by (rule analyzer_commits_after_handling) (simp add: sample_analyzer_def)

text \<open>
  The counters of the runtime analyzer agree with what it did: after any number of turns,
  on every path, the consumed messages are the processed and the failed ones together (modulo the width
  of the counters), the committed counter is the number of commits made, and the last lag is
  non-negative and at most the maximum.
\<close>

theorem analyzer_metrics_balance:
  "let s = analyzer_run A n (start w) in
    consumed (as_metrics s) = processed (as_metrics s) + failed (as_metrics s) \<and>
    committed (as_metrics s) = of_nat (length (filter is_committed (as_trace s))) \<and>
    0 \<le> lastLagMillis (as_metrics s) \<and> lastLagMillis (as_metrics s) \<le> maxLagMillis (as_metrics s)"
proof -
  have "balanced (start w)" by (simp add: balanced_def start_def zero_metrics_def)
  with analyzer_run_turns [of A n "start w"] have "balanced (analyzer_run A n (start w))" by blast
  then show ?thesis by (simp add: balanced_def Let_def)
qed

text \<open>
  The dead-letter consumer commits a message only right after it has stored an entry for
  it, over any run and whatever the queue and the store answer; a message that does not decode is
  stored as well, as \<open>dead_letter_decode_failed\<close>, so it cannot block the queue.
\<close>

theorem dead_letters_saved_before_commit:
  "(case dead_Run A ctxDone isNoMessage fuel w of None \<Rightarrow> True | Some (w', t, r) \<Rightarrow> dead_commits_ok None t) \<and>
   (case dead_decode A now m of
      Inl err \<Rightarrow> idl_Reason (dead_entry A now m) = ''dead_letter_decode_failed'' \<and>
        idl_Error (dead_entry A now m) = redact_Text (de_redact A) err
    | Inr d \<Rightarrow> idl_Reason (dead_entry A now m) = idl_Reason d)"
  by (auto simp: dead_entry_def redact_IngestDeadLetter_def dest: dead_Run_ok split: option.split sum.split)

text \<open>The queue, the store and the clock after a number of turns.\<close>

primrec dead_world :: "'w dead_env \<Rightarrow> nat \<Rightarrow> 'w \<Rightarrow> 'w" where
  "dead_world A 0 w = w"
| "dead_world A (Suc n) w = dead_world A n (fst (dead_ProcessOne A w))"

text \<open>A run with fuel settles on a result when every larger fuel gives it.\<close>

definition settles :: "(nat \<Rightarrow> 'r option) \<Rightarrow> nat \<Rightarrow> 'r \<Rightarrow> bool" where
  "settles run n r \<longleftrightarrow> (\<forall>fuel > n. run fuel = Some r)"

lemma dead_Run_returns:
  "ctxDone (dead_world A n w) \<Longrightarrow> n < fuel \<Longrightarrow>
   \<exists>w' t r. dead_Run A ctxDone nm fuel w = Some (w', t, r) \<and> dead_Run A ctxDone nm (Suc n) w = Some (w', t, r) \<and>
     (r = None \<longrightarrow> ctxDone w') \<and> (\<forall>err. r = Some err \<longrightarrow> \<not> nm err)"
proof (induction n arbitrary: w fuel)
  case 0
  then obtain f where "fuel = Suc f" by (cases fuel) auto
  with 0 show ?case by simp
next
  case (Suc n)
  then obtain f where f: "fuel = Suc f" "n < f" by (cases fuel) auto
  obtain w1 t1 r1 where one: "dead_ProcessOne A w = (w1, t1, r1)" by (cases "dead_ProcessOne A w")
  with Suc.prems have "ctxDone (dead_world A n w1)" by simp
  from Suc.IH [OF this f(2)] obtain w' t r where
    "dead_Run A ctxDone nm f w1 = Some (w', t, r)" "dead_Run A ctxDone nm (Suc n) w1 = Some (w', t, r)"
    "r = None \<longrightarrow> ctxDone w'" "\<forall>err. r = Some err \<longrightarrow> \<not> nm err" by blast
  with f(1) one show ?case by (cases r1) (simp_all del: dead_Run.simps(2) add: dead_Run.simps(2) [of A ctxDone nm f w]
      dead_Run.simps(2) [of A ctxDone nm "Suc n" w])
qed

text \<open>
  Property C40. The dead-letter consumer stops: when the context is done after some number of turns, the
  run returns within as many turns, with a result that more turns do not change; it returns without an
  error only when the context is done, and never because the queue was empty.
\<close>

theorem dead_letter_run_stops:
  assumes "ctxDone (dead_world A n w)"
  shows "\<exists>w' t r. settles (\<lambda>fuel. dead_Run A ctxDone isNoMessage fuel w) n (w', t, r) \<and>
    (case r of None \<Rightarrow> ctxDone w' | Some err \<Rightarrow> \<not> isNoMessage err)"
proof -
  note returns = dead_Run_returns [of ctxDone A n w _ isNoMessage, OF assms]
  from returns [OF lessI] obtain w' t r where
    1: "dead_Run A ctxDone isNoMessage (Suc n) w = Some (w', t, r)" "r = None \<longrightarrow> ctxDone w'" "\<forall>err. r = Some err \<longrightarrow> \<not> isNoMessage err"
    by blast
  have "dead_Run A ctxDone isNoMessage fuel w = Some (w', t, r)" if "n < fuel" for fuel
    using returns [OF that] 1(1) by auto
  then have "settles (\<lambda>fuel. dead_Run A ctxDone isNoMessage fuel w) n (w', t, r)" by (simp add: settles_def)
  moreover have "case r of None \<Rightarrow> ctxDone w' | Some err \<Rightarrow> \<not> isNoMessage err" using 1(2,3) by (cases r) simp_all
  ultimately show ?thesis by blast
qed

definition sample_dead_env :: "nat dead_env" where
  "sample_dead_env = \<lparr>de_Consume = (\<lambda>w. (Suc w, if even w then Inr sample_message else Inl ''no message'')),
     de_Commit = (\<lambda>w m. (w, None)), de_Save = (\<lambda>w d. (w, None)), de_now = int, de_decode = (\<lambda>_. Inl ''unexpected end of JSON input''),
     de_decode_dead = (\<lambda>_. Inl []), de_redact = (\<lambda>re repl s. s), de_Unix = (\<lambda>_. ''0''), de_Quote = id\<rparr>"

theorem dead_letter_run_stops_witness:
  "\<exists>w' t r. settles (\<lambda>fuel. dead_Run sample_dead_env (\<lambda>w. 3 \<le> w) (\<lambda>e. e = ''no message'') fuel (0 :: nat)) 3 (w', t, r) \<and>
    (case r of None \<Rightarrow> 3 \<le> w' | Some err \<Rightarrow> \<not> err = ''no message'')"
proof (rule dead_letter_run_stops)
  show "3 \<le> dead_world sample_dead_env 3 (0 :: nat)"
    by (simp add: eval_nat_numeral dead_ProcessOne_def sample_dead_env_def Let_def)
qed

text \<open>
  The excerpt of a payload that goes into a dead letter is bounded valid text: at most
  8192 bytes of valid UTF-8 whatever the payload, and the payload itself when it is short and valid.
\<close>

theorem excerpt_is_bounded_text:
  "length (truncatePayload raw deadLetterPayloadMaxBytes) \<le> 8192 \<and>
   ValidUTF8 (truncatePayload raw deadLetterPayloadMaxBytes) \<and>
   (if ValidUTF8 raw \<and> length raw \<le> 8192 then truncatePayload raw deadLetterPayloadMaxBytes = raw
    else truncatePayload raw deadLetterPayloadMaxBytes = ToValidUTF8 (take 8192 raw) ''.'')"
proof -
  have eq: "truncatePayload raw deadLetterPayloadMaxBytes = ToValidUTF8 (take 8192 raw) ''.''"
    by (simp add: truncatePayload_def deadLetterPayloadMaxBytes_def)
  have "length (ToValidUTF8 (take 8192 raw) ''.'') \<le> 8192"
    using to_valid_length [of "''.''" False "take 8192 raw"] by (simp add: ToValidUTF8_def)
  moreover have "ValidUTF8 (ToValidUTF8 (take 8192 raw) ''.'')"
    by (simp add: ToValidUTF8_def to_valid_valid ValidUTF8_dot)
  moreover have "ValidUTF8 raw \<Longrightarrow> length raw \<le> 8192 \<Longrightarrow> ToValidUTF8 (take 8192 raw) ''.'' = raw"
    by (simp add: ToValidUTF8_def to_valid_id)
  ultimately show ?thesis unfolding eq by simp
qed

end
