(* ===== verification/Ingest.thy ===== *)
theory Ingest
  imports Contracts Traffic_Store Event_Workers
begin

text \<open>
  The ingestion of conversations: \<open>internal/ingest/service.go\<close> and \<open>auth.go\<close> (the agent path)
  and \<open>internal/api/account_ingest_handler.go\<close> (the account path). The stores, the publisher and
  the analyzer are functions on a world \<open>'w\<close>; a missing interface of the Go service is
  \<open>None\<close>. Every call to one of them is kept in a trace with its result, so that the properties
  can state what data reaches which store and in which order. \<open>encoding/json\<close>, \<open>crypto/sha256\<close>
  and the hexadecimal form of an \<open>ObjectID\<close> are arguments.
\<close>

subsection \<open>The service and its calls\<close>

record agent_auth =
  aa_AgentID :: string
  aa_TenantID :: string
  aa_ProjectID :: string
  aa_DataSourceID :: string

record 'w ingest_service =
  is_SaveLog :: "('w \<Rightarrow> traffic_log \<Rightarrow> 'w \<times> save_result) option"
  is_SaveConversation :: "('w \<Rightarrow> traffic_conversation \<Rightarrow> 'w \<times> string option) option"
  is_SaveIngestionLog :: "('w \<Rightarrow> ingestion_log \<Rightarrow> 'w) option"
  is_SaveIngestDeadLetter :: "('w \<Rightarrow> ingest_dead_letter \<Rightarrow> 'w) option"
  is_Publish :: "('w \<Rightarrow> http_conversation_event \<Rightarrow> 'w \<times> string option) option"
  is_ProcessLog :: "('w \<Rightarrow> traffic_log \<Rightarrow> 'w) option"
  is_AgentToken :: string
  is_AgentAuthenticator :: "('w \<Rightarrow> string \<Rightarrow> 'w \<times> agent_auth option) option"
  is_MaxBodyBytes :: int
  is_schema :: "string \<Rightarrow> string option"
  is_decode :: "string \<Rightarrow> string + http_conversation \<times> bool"
  is_envelope :: "string \<Rightarrow> string \<times> string"
  is_hash_json :: "http_conversation \<Rightarrow> string option"
  is_sha256_hex :: "string \<Rightarrow> string"
  is_redact :: re_replace

datatype ingest_call =
    CallSaveLog traffic_log save_result
  | CallSaveConversation traffic_conversation "string option"
  | CallPublish http_conversation_event "string option"
  | CallProcessLog traffic_log
  | CallIngestionLog ingestion_log
  | CallDeadLetter ingest_dead_letter

type_synonym 'w traced = "'w \<times> ingest_call list"

definition DefaultMaxBodyBytes :: int where "DefaultMaxBodyBytes = 5 * 1024 * 1024"
definition payloadExcerptMaxBytes :: nat where "payloadExcerptMaxBytes = 8 * 1024"

subsection \<open>Conversions\<close>

definition analyzerPath :: "http_request \<Rightarrow> string" where
  "analyzerPath request =
     (case ParseRequestURI (hq_Path request) of
        Some parsed \<Rightarrow>
          if u_Path parsed \<noteq> [] then u_Path parsed
          else (case url_Parse (hq_URL request) of
              Some parsed2 \<Rightarrow> if u_Path parsed2 \<noteq> [] then u_Path parsed2 else hq_Path request
            | None \<Rightarrow> hq_Path request)
      | None \<Rightarrow>
          (case url_Parse (hq_URL request) of
              Some parsed2 \<Rightarrow> if u_Path parsed2 \<noteq> [] then u_Path parsed2 else hq_Path request
            | None \<Rightarrow> hq_Path request))"

definition ingest_responseStatusCode :: "int option \<Rightarrow> int" where
  "ingest_responseStatusCode statusCode = (case statusCode of None \<Rightarrow> 0 | Some c \<Rightarrow> c)"

text \<open>The hashed structure has every field of the conversation but its identifier.\<close>

definition ConversationHash :: "'w ingest_service \<Rightarrow> http_conversation \<Rightarrow> string" where
  "ConversationHash A conversation =
     (case is_hash_json A (conversation\<lparr>hc_OID := []\<rparr>) of None \<Rightarrow> [] | Some raw \<Rightarrow> is_sha256_hex A raw)"

definition ConversationToTrafficLog :: "'w ingest_service \<Rightarrow> http_conversation \<Rightarrow> traffic_log" where
  "ConversationToTrafficLog A conversation =
     (let req = hc_Request conversation; resp = hc_Response conversation in
      zero_traffic_log\<lparr>log_SchemaVersion := hc_SchemaVersion conversation,
        log_TenantID := hc_TenantID conversation,
        log_ProjectID := hc_ProjectID conversation,
        log_CaptureSource := hc_CaptureSource conversation,
        log_CaptureMode := hc_CaptureMode conversation,
        log_AgentID := hc_AgentID conversation,
        log_ConversationID := hc_OID conversation,
        log_ConversationHash := ConversationHash A conversation,
        log_CreatedAt := hc_CapturedAt conversation,
        log_Method := hq_Method req,
        log_URL := hq_URL req,
        log_Host := hq_Host req,
        log_Path := analyzerPath req,
        log_ReqHeaders := hq_Headers req,
        log_ReqBody := hq_Body req,
        log_RespStatus := hr_Status resp,
        log_RespStatusCode := ingest_responseStatusCode (hr_StatusCode resp),
        log_RespHeaders := hr_Headers resp,
        log_RespBody := hr_Body resp,
        log_Tags := [''capture_source:'' @ hc_CaptureSource conversation]\<rparr>)"

definition ConversationToTrafficConversation :: "'w ingest_service \<Rightarrow> http_conversation \<Rightarrow> traffic_conversation" where
  "ConversationToTrafficConversation A conversation =
     (let req = hc_Request conversation; resp = hc_Response conversation in
      zero_traffic_conversation\<lparr>conv_ConversationID := hc_OID conversation,
        conv_ConversationHash := ConversationHash A conversation,
        conv_SchemaVersion := hc_SchemaVersion conversation,
        conv_TenantID := hc_TenantID conversation,
        conv_ProjectID := hc_ProjectID conversation,
        conv_AgentID := hc_AgentID conversation,
        conv_CaptureSource := hc_CaptureSource conversation,
        conv_CaptureMode := hc_CaptureMode conversation,
        conv_CapturedAt := hc_CapturedAt conversation,
        conv_Method := hq_Method req,
        conv_URL := hq_URL req,
        conv_Host := hq_Host req,
        conv_Path := analyzerPath req,
        conv_ReqHeaders := hq_Headers req,
        conv_ReqBody := hq_Body req,
        conv_RespStatus := hr_Status resp,
        conv_RespStatusCode := ingest_responseStatusCode (hr_StatusCode resp),
        conv_RespHeaders := hr_Headers resp,
        conv_RespBody := hr_Body resp\<rparr>)"

definition ConversationToQueueEvent :: "'w ingest_service \<Rightarrow> http_conversation \<Rightarrow> http_conversation_event" where
  "ConversationToQueueEvent A conversation =
     \<lparr>hce_SchemaVersion = EventHTTPConversationV1,
      hce_ConversationID = hc_OID conversation,
      hce_ConversationHash = ConversationHash A conversation,
      hce_TenantID = hc_TenantID conversation,
      hce_ProjectID = hc_ProjectID conversation,
      hce_AgentID = hc_AgentID conversation,
      hce_CaptureSource = hc_CaptureSource conversation,
      hce_CaptureMode = hc_CaptureMode conversation,
      hce_CapturedAt = hc_CapturedAt conversation,
      hce_Method = hq_Method (hc_Request conversation),
      hce_Host = hq_Host (hc_Request conversation),
      hce_Path = analyzerPath (hc_Request conversation),
      hce_ResponseStatus = ingest_responseStatusCode (hr_StatusCode (hc_Response conversation))\<rparr>"

subsection \<open>Identity\<close>

definition bindAgentIdentity :: "http_conversation \<Rightarrow> agent_auth \<Rightarrow> string + http_conversation" where
  "bindAgentIdentity conversation auth =
     (if aa_AgentID auth = [] then Inr conversation
      else if hc_AgentID conversation \<noteq> [] \<and> hc_AgentID conversation \<noteq> aa_AgentID auth then Inl ''agent identity mismatch''
      else (let c1 = conversation\<lparr>hc_AgentID := aa_AgentID auth\<rparr>;
                c2 = (if aa_TenantID auth \<noteq> [] then c1\<lparr>hc_TenantID := aa_TenantID auth\<rparr> else c1)
            in Inr (if aa_ProjectID auth \<noteq> [] then c2\<lparr>hc_ProjectID := aa_ProjectID auth\<rparr> else c2)))"

definition bearerToken :: "string \<Rightarrow> string" where
  "bearerToken header =
     (let parts = str_fields header in
      if length parts \<noteq> 2 \<or> \<not> equal_fold (parts ! 0) ''Bearer'' then [] else parts ! 1)"

definition isJSONContentType :: "string \<Rightarrow> bool" where
  "isJSONContentType value0 =
     (if value0 = [] then False
      else to_lower (trim_space (split_on (CHR '';'') value0 ! 0)) = ''application/json'')"

text \<open>\<open>headerValue\<close> is \<open>r.Header.Get\<close>; two SHA-256 sums are compared in constant time.\<close>

definition ingest_authorize :: "'w ingest_service \<Rightarrow> (string \<Rightarrow> string) \<Rightarrow> 'w \<Rightarrow> 'w \<times> agent_auth option" where
  "ingest_authorize A headerValue w =
     (let bearer = bearerToken (headerValue ''Authorization'');
          token = (if bearer = [] then headerValue ''X-API-Key'' else bearer)
      in if token = [] then (w, None)
         else if is_AgentToken A \<noteq> [] \<and> is_sha256_hex A token = is_sha256_hex A (is_AgentToken A)
         then (w, Some \<lparr>aa_AgentID = [], aa_TenantID = [], aa_ProjectID = [], aa_DataSourceID = []\<rparr>)
         else (case is_AgentAuthenticator A of
             None \<Rightarrow> (w, None)
           | Some authenticate \<Rightarrow> authenticate w token))"

text \<open>The authenticator of the server: the agent by the hash of its token.\<close>

record agent_doc =
  ag_ID :: object_id
  ag_AccountID :: object_id
  ag_DataSourceID :: object_id

definition MongoAgentAuthenticator ::
  "('w \<Rightarrow> string \<Rightarrow> 'w \<times> (string + agent_doc)) \<Rightarrow> ('w \<Rightarrow> object_id \<Rightarrow> 'w) \<Rightarrow> (string \<Rightarrow> string) \<Rightarrow> (object_id \<Rightarrow> string) \<Rightarrow>
   'w \<Rightarrow> string \<Rightarrow> 'w \<times> agent_auth option" where
  "MongoAgentAuthenticator FindAgentByTokenHash MarkAgentSeen sha256_hex Hex w token =
     (if token = [] then (w, None)
      else (case FindAgentByTokenHash w (sha256_hex token) of
          (w1, Inl err) \<Rightarrow> (w1, None)
        | (w1, Inr agent) \<Rightarrow>
            (MarkAgentSeen w1 (ag_ID agent),
             Some \<lparr>aa_AgentID = Hex (ag_ID agent), aa_TenantID = Hex (ag_AccountID agent), aa_ProjectID = [],
               aa_DataSourceID = Hex (ag_DataSourceID agent)\<rparr>)))"

subsection \<open>Processing a conversation\<close>

definition payloadExcerpt :: "string \<Rightarrow> string" where
  "payloadExcerpt raw = (if length raw \<le> payloadExcerptMaxBytes then ToValidUTF8 raw ''.''
     else ToValidUTF8 (take payloadExcerptMaxBytes raw) ''.'')"

definition recordIngestionLog :: "'w ingest_service \<Rightarrow> string \<Rightarrow> http_conversation \<Rightarrow> string \<Rightarrow> 'w traced \<Rightarrow> 'w traced" where
  "recordIngestionLog A status conversation message s =
     (case is_SaveIngestionLog A of
        None \<Rightarrow> s
      | Some save \<Rightarrow>
          (let e = zero_ingestion_log\<lparr>ilog_Status := status,
             ilog_SchemaVersion := hc_SchemaVersion conversation,
             ilog_CaptureSource := hc_CaptureSource conversation,
             ilog_AgentID := hc_AgentID conversation,
             ilog_ConversationID := hc_OID conversation,
             ilog_Method := hq_Method (hc_Request conversation),
             ilog_Host := hq_Host (hc_Request conversation),
             ilog_Path := analyzerPath (hc_Request conversation),
             ilog_Message := message\<rparr>
           in (save (fst s) e, snd s @ [CallIngestionLog e])))"

definition recordDeadLetterAddr :: "'w ingest_service \<Rightarrow> string \<Rightarrow> string \<Rightarrow> string \<Rightarrow> 'w traced \<Rightarrow> 'w traced" where
  "recordDeadLetterAddr A reason raw remoteAddr s =
     (case is_SaveIngestDeadLetter A of
        None \<Rightarrow> s
      | Some save \<Rightarrow>
          (let (schemaVersion, agentID) = is_envelope A raw;
               d = zero_ingest_dead_letter\<lparr>idl_Reason := reason,
                 idl_SchemaVersion := schemaVersion,
                 idl_AgentID := agentID,
                 idl_RemoteAddr := remoteAddr,
                 idl_PayloadExcerpt := redact_Text (is_redact A) (payloadExcerpt raw)\<rparr>
           in (save (fst s) d, snd s @ [CallDeadLetter d])))"

definition call_SaveConversation :: "'w ingest_service \<Rightarrow> http_conversation \<Rightarrow> 'w traced \<Rightarrow> 'w traced \<times> string option" where
  "call_SaveConversation A conversation s =
     (case is_SaveConversation A of
        None \<Rightarrow> (s, None)
      | Some save \<Rightarrow>
          (let c = redact_TrafficConversation (is_redact A) (ConversationToTrafficConversation A conversation);
               (w, r) = save (fst s) c
           in ((w, snd s @ [CallSaveConversation c r]), r)))"

definition call_Publish :: "'w ingest_service \<Rightarrow> http_conversation \<Rightarrow> 'w traced \<Rightarrow> 'w traced \<times> string option" where
  "call_Publish A conversation s =
     (case is_Publish A of
        Some publish \<Rightarrow>
          (let e = ConversationToQueueEvent A conversation; (w, r) = publish (fst s) e
           in ((w, snd s @ [CallPublish e r]), r))
      | None \<Rightarrow>
          (case is_ProcessLog A of
             None \<Rightarrow> (s, None)
           | Some process \<Rightarrow>
               (let l = ConversationToTrafficLog A conversation
                in ((process (fst s) l, snd s @ [CallProcessLog l]), None))))"

datatype delivery = Accepted | Duplicate | Dropped | PersistFailed | EnqueueFailed

text \<open>
  From the bound conversation to the outcome, as both entry points do it: store the log, store the
  conversation, then publish it or, without a publisher, analyze it.
\<close>

definition deliver_conversation ::
  "'w ingest_service \<Rightarrow> ('w \<Rightarrow> traffic_log \<Rightarrow> 'w \<times> save_result) \<Rightarrow> string \<Rightarrow> string \<Rightarrow> http_conversation \<Rightarrow> 'w traced \<Rightarrow> 'w traced \<times> delivery" where
  "deliver_conversation A save raw remoteAddr conversation s0 =
     (let persisted = redact_TrafficLog (is_redact A) (ConversationToTrafficLog A conversation);
          (w, saved) = save (fst s0) persisted;
          s1 = (w, snd s0 @ [CallSaveLog persisted saved]);
          give_up = (\<lambda>message reason s. recordDeadLetterAddr A reason raw remoteAddr (recordIngestionLog A ''failed'' conversation message s))
      in case saved of
        LogDuplicate \<Rightarrow> (recordIngestionLog A ''duplicate'' conversation ''duplicate conversation'' s1, Duplicate)
      | LogDropped \<Rightarrow> (recordIngestionLog A ''dropped'' conversation ''traffic log dropped by retention or noise policy'' s1, Dropped)
      | LogFailed err \<Rightarrow> (give_up err ''traffic_log_persist_failed'' s1, PersistFailed)
      | LogSaved \<Rightarrow>
          (case call_SaveConversation A conversation s1 of
             (s2, Some err) \<Rightarrow> (give_up err ''traffic_conversation_persist_failed'' s2, PersistFailed)
           | (s2, None) \<Rightarrow>
               (case call_Publish A conversation s2 of
                  (s3, Some err) \<Rightarrow>
                    (give_up (''conversation event publish failed: '' @ err) ''conversation_event_publish_failed'' s3, EnqueueFailed)
                | (s3, None) \<Rightarrow> (recordIngestionLog A ''accepted'' conversation [] s3, Accepted))))"

text \<open>The account path: a status, or the code and the text of an \<open>IngestProcessError\<close>.\<close>

definition ProcessConversationForTenant ::
  "'w ingest_service \<Rightarrow> string \<Rightarrow> string \<Rightarrow> string \<Rightarrow> 'w traced \<Rightarrow> 'w traced \<times> (int \<times> string + string)" where
  "ProcessConversationForTenant A raw tenantID remoteAddr s =
     (case is_SaveLog A of
        None \<Rightarrow> (s, Inl (500, ''ingestion store unavailable''))
      | Some save \<Rightarrow>
          (case DecodeAndValidateHTTPConversation (is_schema A) (is_decode A) raw of
             Inl err \<Rightarrow>
               (recordDeadLetterAddr A ''invalid_conversation_contract'' raw remoteAddr s, Inl (400, ''invalid conversation contract''))
           | Inr conversation \<Rightarrow>
               (case deliver_conversation A save raw remoteAddr (conversation\<lparr>hc_TenantID := tenantID\<rparr>) s of
                  (s', Accepted) \<Rightarrow> (s', Inr ''accepted'')
                | (s', Duplicate) \<Rightarrow> (s', Inr ''duplicate'')
                | (s', Dropped) \<Rightarrow> (s', Inr ''dropped'')
                | (s', PersistFailed) \<Rightarrow> (s', Inl (500, ''failed to persist conversation''))
                | (s', EnqueueFailed) \<Rightarrow> (s', Inl (500, ''failed to enqueue conversation'')))))"

subsection \<open>The agent path\<close>

text \<open>
  A request: its method, its headers, its body, whether reading the body fails at its end, and the
  address of the client. \<open>MaxBytesReader\<close> fails once the body is longer than its limit.
\<close>

record http_req =
  rq_Method :: string
  rq_Header :: "string \<Rightarrow> string"
  rq_Body :: string
  rq_BodyFails :: bool
  rq_RemoteAddr :: string

datatype body_read = BodyTooLarge | BodyError | BodyRead string

definition read_body :: "int \<Rightarrow> http_req \<Rightarrow> body_read" where
  "read_body limit r =
     (if int (length (rq_Body r)) > limit then BodyTooLarge else if rq_BodyFails r then BodyError else BodyRead (rq_Body r))"

datatype http_reply = HTTPError int string | IngestAccepted string string | IngestCounts int int int

definition HandleConversation :: "'w ingest_service \<Rightarrow> http_req \<Rightarrow> 'w \<Rightarrow> 'w traced \<times> http_reply" where
  "HandleConversation A r w =
     (if rq_Method r \<noteq> ''POST'' then ((w, []), HTTPError 405 ''Method Not Allowed'')
      else if is_AgentToken A = [] \<and> is_AgentAuthenticator A = None then ((w, []), HTTPError 503 ''Ingestion disabled'')
      else (case ingest_authorize A (rq_Header r) w of
          (w1, None) \<Rightarrow> ((w1, []), HTTPError 401 ''Unauthorized'')
        | (w1, Some agentAuth) \<Rightarrow>
            if \<not> isJSONContentType (rq_Header r ''Content-Type'')
            then ((w1, []), HTTPError 415 ''Content-Type must be application/json'')
            else (case is_SaveLog A of
                None \<Rightarrow> ((w1, []), HTTPError 500 ''Ingestion store unavailable'')
              | Some save \<Rightarrow>
                  (case read_body (if is_MaxBodyBytes A \<le> 0 then DefaultMaxBodyBytes else is_MaxBodyBytes A) r of
                     BodyTooLarge \<Rightarrow> ((w1, []), HTTPError 413 ''Request body too large'')
                   | BodyError \<Rightarrow> ((w1, []), HTTPError 400 ''Invalid JSON'')
                   | BodyRead raw \<Rightarrow>
                       (case DecodeAndValidateHTTPConversation (is_schema A) (is_decode A) raw of
                          Inl err \<Rightarrow>
                            (recordDeadLetterAddr A ''invalid_conversation_contract'' raw (rq_RemoteAddr r) (w1, []),
                             HTTPError 400 ''Invalid conversation contract'')
                        | Inr conversation0 \<Rightarrow>
                            (case bindAgentIdentity conversation0 agentAuth of
                               Inl err \<Rightarrow>
                                 (recordDeadLetterAddr A ''agent_identity_mismatch'' raw (rq_RemoteAddr r) (w1, []), HTTPError 403 err)
                             | Inr conversation \<Rightarrow>
                                 (case deliver_conversation A save raw (rq_RemoteAddr r) conversation (w1, []) of
                                    (s', Accepted) \<Rightarrow> (s', IngestAccepted ''accepted'' (hc_SchemaVersion conversation))
                                  | (s', Duplicate) \<Rightarrow> (s', IngestAccepted ''duplicate'' (hc_SchemaVersion conversation))
                                  | (s', Dropped) \<Rightarrow> (s', IngestAccepted ''dropped'' (hc_SchemaVersion conversation))
                                  | (s', PersistFailed) \<Rightarrow> (s', HTTPError 500 ''Failed to persist conversation'')
                                  | (s', EnqueueFailed) \<Rightarrow> (s', HTTPError 500 ''Failed to enqueue conversation''))))))))"

subsection \<open>The account path\<close>

definition maxAccountIngestBytes :: int where "maxAccountIngestBytes = 10 * 1024 * 1024"
definition maxBatchSize :: nat where "maxBatchSize = 500"

definition bearerTokenFromRequest :: "http_req \<Rightarrow> string" where
  "bearerTokenFromRequest r =
     (let tok = bearerToken (rq_Header r ''Authorization'') in
      if tok \<noteq> [] then tok else trim_space (rq_Header r ''X-Karaxys-Account-Token''))"

text \<open>The loop over the items with its three counters; an error aborts the batch.\<close>

fun ingest_items ::
  "'w ingest_service \<Rightarrow> string \<Rightarrow> string \<Rightarrow> string list \<Rightarrow> int \<Rightarrow> int \<Rightarrow> int \<Rightarrow> 'w traced \<Rightarrow> 'w traced \<times> http_reply" where
  "ingest_items A tenantID remoteAddr [] accepted duplicated dropped s = (s, IngestCounts accepted duplicated dropped)"
| "ingest_items A tenantID remoteAddr (item # items) accepted duplicated dropped s =
     (case ProcessConversationForTenant A item tenantID remoteAddr s of
        (s', Inl (code, msg)) \<Rightarrow> (s', HTTPError code msg)
      | (s', Inr status) \<Rightarrow>
          ingest_items A tenantID remoteAddr items
            (if status = ''accepted'' then accepted + 1 else accepted)
            (if status = ''duplicate'' then duplicated + 1 else duplicated)
            (if status = ''dropped'' then dropped + 1 else dropped) s')"

text \<open>
  \<open>lookup\<close> is \<open>FindAccountByIngestToken\<close>, \<open>Hex\<close> the text of an identifier and
  \<open>items_of\<close> the decoding of a JSON array. The two goroutines that touch the token and the data
  source run beside the handler and are left out.
\<close>

definition batch_items :: "(string \<Rightarrow> string list option) \<Rightarrow> string \<Rightarrow> http_reply + string list" where
  "batch_items items_of raw =
     (if raw = [] then Inl (HTTPError 400 ''Empty request body'')
      else if hd raw = CHR ''['' then
        (case items_of raw of
           None \<Rightarrow> Inl (HTTPError 400 ''Invalid JSON array'')
         | Some rawItems \<Rightarrow>
             if rawItems = [] then Inl (IngestCounts 0 0 0)
             else if length rawItems > maxBatchSize then Inl (HTTPError 413 ''Batch exceeds maximum size'')
             else Inr rawItems)
      else if hd raw = CHR ''{'' then Inr [raw]
      else Inl (HTTPError 400 ''Body must be a JSON object or array''))"

definition handleAccountIngest ::
  "'w ingest_service option \<Rightarrow> ('w \<Rightarrow> string \<Rightarrow> 'w \<times> (string + object_id)) \<Rightarrow> (string \<Rightarrow> string) \<Rightarrow> (object_id \<Rightarrow> string) \<Rightarrow>
   (string \<Rightarrow> string list option) \<Rightarrow> http_req \<Rightarrow> 'w \<Rightarrow> 'w traced \<times> http_reply" where
  "handleAccountIngest ingest lookup sha256_hex Hex items_of r w =
     (if rq_Method r \<noteq> ''POST'' then ((w, []), HTTPError 405 ''Method Not Allowed'')
      else if bearerTokenFromRequest r = [] then ((w, []), HTTPError 401 ''Unauthorized'')
      else (case lookup w (sha256_hex (bearerTokenFromRequest r)) of
          (w1, Inl err) \<Rightarrow> ((w1, []), HTTPError 401 ''Unauthorized'')
        | (w1, Inr accountID) \<Rightarrow>
            if \<not> isJSONContentType (rq_Header r ''Content-Type'')
            then ((w1, []), HTTPError 415 ''Content-Type must be application/json'')
            else (case read_body maxAccountIngestBytes r of
                BodyTooLarge \<Rightarrow> ((w1, []), HTTPError 413 ''Request body too large'')
              | BodyError \<Rightarrow> ((w1, []), HTTPError 400 ''Failed to read request body'')
              | BodyRead body \<Rightarrow>
                  (case batch_items items_of (trim_space body) of
                     Inl reply \<Rightarrow> ((w1, []), reply)
                   | Inr rawItems \<Rightarrow>
                       (case ingest of
                          None \<Rightarrow> ((w1, []), HTTPError 503 ''Ingestion service unavailable'')
                        | Some A \<Rightarrow> ingest_items A (Hex accountID) (rq_RemoteAddr r) rawItems 0 0 0 (w1, []))))))"

subsection \<open>Lemmas\<close>

text \<open>
  What a call discloses of its owner and of its contents. An ingestion log and a dead letter have no
  tenant; neither has headers, but a dead letter holds an excerpt of the payload (see
  \<open>letter_of\<close>).
\<close>

fun call_tenant :: "string \<Rightarrow> ingest_call \<Rightarrow> bool" where
  "call_tenant t (CallSaveLog l _) = (log_TenantID l = t)"
| "call_tenant t (CallSaveConversation c _) = (conv_TenantID c = t)"
| "call_tenant t (CallPublish e _) = (hce_TenantID e = t)"
| "call_tenant t (CallProcessLog l) = (log_TenantID l = t)"
| "call_tenant t (CallIngestionLog _) = True"
| "call_tenant t (CallDeadLetter _) = True"

fun call_agent :: "string \<Rightarrow> ingest_call \<Rightarrow> bool" where
  "call_agent a (CallSaveLog l _) = (log_AgentID l = a)"
| "call_agent a (CallSaveConversation c _) = (conv_AgentID c = a)"
| "call_agent a (CallPublish e _) = (hce_AgentID e = a)"
| "call_agent a (CallProcessLog l) = (log_AgentID l = a)"
| "call_agent a (CallIngestionLog e) = (ilog_AgentID e = a)"
| "call_agent a (CallDeadLetter _) = True"

fun call_redacted :: "ingest_call \<Rightarrow> bool" where
  "call_redacted (CallSaveLog l _) = (headers_masked (log_ReqHeaders l) \<and> headers_masked (log_RespHeaders l))"
| "call_redacted (CallSaveConversation c _) = (headers_masked (conv_ReqHeaders c) \<and> headers_masked (conv_RespHeaders c))"
| "call_redacted _ = True"

text \<open>
  What a dead letter may hold of a request: the address of the client and the redacted start of one of
  the payloads \<open>raws\<close>.
\<close>

fun letter_of :: "'w ingest_service \<Rightarrow> string \<Rightarrow> string list \<Rightarrow> ingest_call \<Rightarrow> bool" where
  "letter_of A addr raws (CallDeadLetter d) =
     (idl_RemoteAddr d = addr \<and> idl_Error d = [] \<and>
      list_ex (\<lambda>raw. idl_PayloadExcerpt d = redact_Text (is_redact A) (payloadExcerpt raw)) raws)"
| "letter_of A addr raws _ = True"

text \<open>The calls of one delivery, in the order in which they can come.\<close>

definition log_call :: "http_conversation \<Rightarrow> ingest_call \<Rightarrow> bool" where
  "log_call conversation x \<longleftrightarrow>
     (case x of CallIngestionLog i \<Rightarrow> ilog_AgentID i = hc_AgentID conversation | CallDeadLetter _ \<Rightarrow> True | _ \<Rightarrow> False)"

lemma log_call_props:
  "list_all (log_call c) ls \<Longrightarrow> list_all (call_tenant t) ls \<and> list_all (call_agent (hc_AgentID c)) ls \<and> list_all call_redacted ls"
  by (induction ls) (auto simp: log_call_def split: ingest_call.splits)

definition persisted_log :: "'w ingest_service \<Rightarrow> http_conversation \<Rightarrow> traffic_log" where
  "persisted_log A c = redact_TrafficLog (is_redact A) (ConversationToTrafficLog A c)"

definition persisted_conversation :: "'w ingest_service \<Rightarrow> http_conversation \<Rightarrow> traffic_conversation" where
  "persisted_conversation A c = redact_TrafficConversation (is_redact A) (ConversationToTrafficConversation A c)"

definition storing_calls :: "'w ingest_service \<Rightarrow> http_conversation \<Rightarrow> ingest_call list" where
  "storing_calls A c = CallSaveLog (persisted_log A c) LogSaved #
     (if is_SaveConversation A = None then [] else [CallSaveConversation (persisted_conversation A c) None])"

definition working_calls :: "'w ingest_service \<Rightarrow> http_conversation \<Rightarrow> ingest_call list" where
  "working_calls A c = (if is_Publish A \<noteq> None then [CallPublish (ConversationToQueueEvent A c) None]
     else if is_ProcessLog A \<noteq> None then [CallProcessLog (ConversationToTrafficLog A c)] else [])"

inductive delivery_calls :: "'w ingest_service \<Rightarrow> http_conversation \<Rightarrow> ingest_call list \<Rightarrow> delivery \<Rightarrow> bool"
  for A :: "'w ingest_service" and c :: http_conversation where
  all_done: "list_all (log_call c) ls \<Longrightarrow> delivery_calls A c (storing_calls A c @ working_calls A c @ ls) Accepted"
| refused: "list_all (log_call c) ls \<Longrightarrow> (r, d) \<in> {(LogDuplicate, Duplicate), (LogDropped, Dropped), (LogFailed err, PersistFailed)} \<Longrightarrow>
    delivery_calls A c (CallSaveLog (persisted_log A c) r # ls) d"
| conversation_failed: "list_all (log_call c) ls \<Longrightarrow>
    delivery_calls A c ([CallSaveLog (persisted_log A c) LogSaved, CallSaveConversation (persisted_conversation A c) (Some err)] @ ls) PersistFailed"
| publish_failed: "list_all (log_call c) ls \<Longrightarrow>
    delivery_calls A c (storing_calls A c @ CallPublish (ConversationToQueueEvent A c) (Some err) # ls) EnqueueFailed"

definition logs_after :: "http_conversation \<Rightarrow> 'w traced \<Rightarrow> 'w traced \<Rightarrow> bool" where
  "logs_after c s s' \<longleftrightarrow> (\<exists>ls. snd s' = snd s @ ls \<and> list_all (log_call c) ls)"

lemma logs_after_trans: "logs_after c s1 s2 \<Longrightarrow> logs_after c s2 s3 \<Longrightarrow> logs_after c s1 s3"
  unfolding logs_after_def by (elim exE) (rule exI, auto)

lemma recordIngestionLog_after: "logs_after c s (recordIngestionLog A status c msg s)"
  unfolding logs_after_def recordIngestionLog_def
  by (cases "is_SaveIngestionLog A") (simp_all add: log_call_def Let_def)

lemma recordDeadLetterAddr_after: "logs_after c s (recordDeadLetterAddr A reason raw addr s)"
  unfolding logs_after_def recordDeadLetterAddr_def
  by (cases "is_SaveIngestDeadLetter A") (simp_all add: log_call_def Let_def split: prod.split)

lemma give_up_after: "logs_after c s (recordDeadLetterAddr A reason raw addr (recordIngestionLog A status c msg s))"
  by (rule logs_after_trans [OF recordIngestionLog_after recordDeadLetterAddr_after])

lemma call_SaveConversation_cases:
  obtains (ok) w where "call_SaveConversation A c s = ((w, snd s @ tl (storing_calls A c)), None)"
  | (failed) w err where
    "call_SaveConversation A c s = ((w, snd s @ [CallSaveConversation (persisted_conversation A c) (Some err)]), Some err)"
proof (cases "is_SaveConversation A")
  case None
  show ?thesis by (rule ok [of "fst s"]) (simp add: call_SaveConversation_def storing_calls_def None)
next
  case (Some save)
  obtain w r where f: "save (fst s) (persisted_conversation A c) = (w, r)" by fastforce
  show ?thesis
  proof (cases r)
    case None
    with f Some show ?thesis
      by (intro ok [of w]) (simp add: call_SaveConversation_def storing_calls_def persisted_conversation_def Let_def)
  next
    case (Some err)
    with f \<open>is_SaveConversation A = Some save\<close> show ?thesis
      by (intro failed [of w err]) (simp add: call_SaveConversation_def persisted_conversation_def Let_def)
  qed
qed

lemma call_Publish_cases:
  obtains (ok) w where "call_Publish A c s = ((w, snd s @ working_calls A c), None)"
  | (failed) w err where
    "call_Publish A c s = ((w, snd s @ [CallPublish (ConversationToQueueEvent A c) (Some err)]), Some err)"
proof (cases "is_Publish A")
  case None
  show ?thesis
  proof (cases "is_ProcessLog A")
    case (Some f)
    show ?thesis by (rule ok) (simp add: call_Publish_def working_calls_def None Some Let_def)
  qed (rule ok [of "fst s"], simp add: call_Publish_def working_calls_def None)
next
  case (Some publish)
  obtain w r where f: "publish (fst s) (ConversationToQueueEvent A c) = (w, r)" by fastforce
  show ?thesis
  proof (cases r)
    case None
    with f Some show ?thesis by (intro ok [of w]) (simp add: call_Publish_def working_calls_def Let_def)
  next
    case (Some err)
    with f \<open>is_Publish A = Some publish\<close> show ?thesis
      by (intro failed [of w err]) (simp add: call_Publish_def Let_def)
  qed
qed

lemma logs_afterE: "logs_after c (w, t) s' \<Longrightarrow> (\<And>ls. snd s' = t @ ls \<Longrightarrow> list_all (log_call c) ls \<Longrightarrow> P) \<Longrightarrow> P"
  by (auto simp: logs_after_def)

lemma storing_calls_Cons: "storing_calls A c = CallSaveLog (persisted_log A c) LogSaved # tl (storing_calls A c)"
  by (simp add: storing_calls_def)

definition delivered :: "'w ingest_service \<Rightarrow> http_conversation \<Rightarrow> ingest_call list \<Rightarrow> 'w traced \<times> delivery \<Rightarrow> bool" where
  "delivered A c t0 res \<longleftrightarrow> (\<exists>calls. snd (fst res) = t0 @ calls \<and> delivery_calls A c calls (snd res))"

lemma delivered_logs:
  assumes "logs_after c (w, t0 @ calls) f" "\<And>ls. list_all (log_call c) ls \<Longrightarrow> delivery_calls A c (calls @ ls) d"
  shows "delivered A c t0 (f, d)"
proof -
  from assms(1) obtain ls where "snd f = (t0 @ calls) @ ls" "list_all (log_call c) ls"
    by (auto simp: logs_after_def)
  with assms(2) show ?thesis unfolding delivered_def by (intro exI [of _ "calls @ ls"]) simp
qed

lemma deliver_calls: "delivered A c (snd s) (deliver_conversation A save raw addr c s)"
proof -
  let ?l = "persisted_log A c"
  obtain w r where sv: "save (fst s) ?l = (w, r)" by fastforce
  note unfold = deliver_conversation_def persisted_log_def [symmetric] Let_def sv prod.case save_result.case
  show ?thesis
  proof (cases r)
    case LogDuplicate
    show ?thesis unfolding unfold LogDuplicate
      by (rule delivered_logs [OF recordIngestionLog_after]) (simp add: refused)
  next
    case LogDropped
    show ?thesis unfolding unfold LogDropped
      by (rule delivered_logs [OF recordIngestionLog_after]) (simp add: refused)
  next
    case (LogFailed err)
    show ?thesis unfolding unfold LogFailed
      by (rule delivered_logs [OF give_up_after]) (simp add: refused)
  next
    case LogSaved
    let ?s1 = "(w, snd s @ [CallSaveLog ?l LogSaved])"
    show ?thesis
    proof (cases rule: call_SaveConversation_cases [of A c ?s1])
      case (failed w2 err)
      show ?thesis unfolding unfold LogSaved failed option.case snd_conv append_assoc
        by (rule delivered_logs [OF give_up_after]) (use conversation_failed in simp)
    next
      case (ok w2)
      then have s2: "call_SaveConversation A c ?s1 = ((w2, snd s @ storing_calls A c), None)"
        by (simp flip: storing_calls_Cons)
      show ?thesis
      proof (cases rule: call_Publish_cases [of A c "(w2, snd s @ storing_calls A c)"])
        case (failed w3 err)
        show ?thesis unfolding unfold LogSaved s2 failed option.case snd_conv append_assoc
          by (rule delivered_logs [OF give_up_after]) (use publish_failed in simp)
      next
        case (ok w3)
        show ?thesis unfolding unfold LogSaved s2 ok option.case snd_conv append_assoc
          by (rule delivered_logs [OF recordIngestionLog_after]) (use all_done in simp)
      qed
    qed
  qed
qed

text \<open>What every delivery discloses.\<close>

lemma delivery_props:
  "delivery_calls A c calls d \<Longrightarrow> list_all (call_tenant (hc_TenantID c)) calls \<and>
     list_all (call_agent (hc_AgentID c)) calls \<and> list_all call_redacted calls"
proof (induction rule: delivery_calls.induct)
qed (use log_call_props in \<open>auto simp: storing_calls_def working_calls_def persisted_log_def persisted_conversation_def
  ConversationToTrafficLog_def ConversationToTrafficConversation_def ConversationToQueueEvent_def Let_def
  redact_TrafficLog_def redact_TrafficConversation_def\<close>)

definition saved_with :: "save_result \<Rightarrow> ingest_call list \<Rightarrow> int" where
  "saved_with r calls = int (length (filter (\<lambda>x. case x of CallSaveLog l r' \<Rightarrow> r' = r | _ \<Rightarrow> False) calls))"

lemma saved_with_append [simp]: "saved_with r (xs @ ys) = saved_with r xs + saved_with r ys"
  by (simp add: saved_with_def)

lemma saved_with_logs: "list_all (log_call c) ls \<Longrightarrow> saved_with r ls = 0"
  by (induction ls) (auto simp: saved_with_def log_call_def split: ingest_call.splits)

fun delivery_result :: "delivery \<Rightarrow> save_result option" where
  "delivery_result Accepted = Some LogSaved"
| "delivery_result Duplicate = Some LogDuplicate"
| "delivery_result Dropped = Some LogDropped"
| "delivery_result _ = None"

lemma delivery_counts:
  "delivery_calls A c calls d \<Longrightarrow> delivery_result d = Some r0 \<Longrightarrow> saved_with r calls = (if r = r0 then 1 else 0)"
proof (induction rule: delivery_calls.induct)
  case (all_done ls)
  then show ?case by (auto simp: saved_with_logs) (auto simp: saved_with_def storing_calls_def working_calls_def)
next
  case (refused ls r' d err)
  then have "saved_with r ls = 0" by (simp add: saved_with_logs)
  then show ?case using refused by (auto simp: saved_with_def)
qed simp_all

text \<open>One item of the account path: what it adds to the trace, and its status.\<close>

fun process_reply :: "delivery \<Rightarrow> int \<times> string + string" where
  "process_reply Accepted = Inr ''accepted''"
| "process_reply Duplicate = Inr ''duplicate''"
| "process_reply Dropped = Inr ''dropped''"
| "process_reply PersistFailed = Inl (500, ''failed to persist conversation'')"
| "process_reply EnqueueFailed = Inl (500, ''failed to enqueue conversation'')"

lemma Process_delivery:
  assumes "is_SaveLog A = Some save" "DecodeAndValidateHTTPConversation (is_schema A) (is_decode A) raw = Inr conversation"
  obtains f calls d where "delivery_calls A (conversation\<lparr>hc_TenantID := t\<rparr>) calls d" "snd f = snd s @ calls"
    "ProcessConversationForTenant A raw t addr s = (f, process_reply d)"
proof -
  let ?c = "conversation\<lparr>hc_TenantID := t\<rparr>"
  obtain f d where e: "deliver_conversation A save raw addr ?c s = (f, d)" by fastforce
  from deliver_calls [of A ?c s save raw addr] obtain calls where
    calls: "snd f = snd s @ calls" "delivery_calls A ?c calls d"
    by (auto simp: delivered_def e)
  have "ProcessConversationForTenant A raw t addr s = (f, process_reply d)"
    by (simp add: ProcessConversationForTenant_def assms e split: delivery.split)
  with calls show ?thesis by (intro that)
qed

lemma Process_calls:
  obtains calls where "snd (fst (ProcessConversationForTenant A raw t addr s)) = snd s @ calls"
    "list_all (call_tenant t) calls" "list_all call_redacted calls"
    "\<And>st. snd (ProcessConversationForTenant A raw t addr s) = Inr st \<Longrightarrow>
      \<exists>c d. delivery_calls A c calls d \<and> (st, delivery_result d) \<in>
        {(''accepted'', Some LogSaved), (''duplicate'', Some LogDuplicate), (''dropped'', Some LogDropped)}"
proof (cases "is_SaveLog A")
  case None
  show ?thesis by (rule that [of "[]"]) (simp_all add: ProcessConversationForTenant_def None)
next
  case (Some save)
  show ?thesis
  proof (cases "DecodeAndValidateHTTPConversation (is_schema A) (is_decode A) raw")
    case (Inl err)
    obtain ls where "snd (recordDeadLetterAddr A ''invalid_conversation_contract'' raw addr s) = snd s @ ls"
      "list_all (log_call undefined) ls"
      using recordDeadLetterAddr_after [of undefined s A "''invalid_conversation_contract''" raw addr] by (auto simp: logs_after_def)
    with log_call_props show ?thesis
      by (intro that [of ls]) (simp_all add: ProcessConversationForTenant_def Some Inl)
  next
    case (Inr conversation)
    obtain f calls d where calls: "delivery_calls A (conversation\<lparr>hc_TenantID := t\<rparr>) calls d" "snd f = snd s @ calls"
      and p: "ProcessConversationForTenant A raw t addr s = (f, process_reply d)"
      by (rule Process_delivery [OF Some Inr])
    show ?thesis
    proof (rule that [of calls])
      fix st assume "snd (ProcessConversationForTenant A raw t addr s) = Inr st"
      then have "(st, delivery_result d) \<in>
        {(''accepted'', Some LogSaved), (''duplicate'', Some LogDuplicate), (''dropped'', Some LogDropped)}"
        by (cases d) (auto simp: p)
      with calls(1) show "\<exists>c d. delivery_calls A c calls d \<and> (st, delivery_result d) \<in>
        {(''accepted'', Some LogSaved), (''duplicate'', Some LogDuplicate), (''dropped'', Some LogDropped)}" by blast
    qed (use p calls delivery_props [OF calls(1)] in simp_all)
  qed
qed

lemma ingest_items_calls:
  "\<exists>calls. snd (fst (ingest_items A t addr items a d x s)) = snd s @ calls \<and>
     list_all (call_tenant t) calls \<and> list_all call_redacted calls \<and>
     (case snd (ingest_items A t addr items a d x s) of
        IngestCounts a' d' x' \<Rightarrow> a' = a + saved_with LogSaved calls \<and> d' = d + saved_with LogDuplicate calls \<and>
          x' = x + saved_with LogDropped calls \<and> a' + d' + x' = a + d + x + int (length items)
      | _ \<Rightarrow> True)"
proof (induction items arbitrary: a d x s)
  case Nil
  show ?case by (rule exI [of _ "[]"]) (simp add: saved_with_def)
next
  case (Cons item items)
  obtain f r where p: "ProcessConversationForTenant A item t addr s = (f, r)" by fastforce
  obtain calls where calls: "snd f = snd s @ calls" "list_all (call_tenant t) calls" "list_all call_redacted calls"
    "\<And>st. r = Inr st \<Longrightarrow> \<exists>c dl. delivery_calls A c calls dl \<and> (st, delivery_result dl) \<in>
        {(''accepted'', Some LogSaved), (''duplicate'', Some LogDuplicate), (''dropped'', Some LogDropped)}"
    by (rule Process_calls [of A item t addr s]) (auto simp: p)
  show ?case
  proof (cases r)
    case (Inl e)
    obtain code msg where "e = (code, msg)" by fastforce
    with Inl p calls(1-3) show ?thesis by (intro exI [of _ calls]) simp
  next
    case (Inr st)
    obtain c dl r0 where dl: "delivery_calls A c calls dl" "delivery_result dl = Some r0"
      and st: "(st, r0) \<in> {(''accepted'', LogSaved), (''duplicate'', LogDuplicate), (''dropped'', LogDropped)}"
      using calls(4) [OF Inr] by auto
    note n = delivery_counts [OF dl]
    let ?a = "if st = ''accepted'' then a + 1 else a" and ?d = "if st = ''duplicate'' then d + 1 else d"
      and ?x = "if st = ''dropped'' then x + 1 else x"
    obtain more_calls where ih: "snd (fst (ingest_items A t addr items ?a ?d ?x f)) = snd f @ more_calls"
      "list_all (call_tenant t) more_calls" "list_all call_redacted more_calls"
      "case snd (ingest_items A t addr items ?a ?d ?x f) of
        IngestCounts a' d' x' \<Rightarrow> a' = ?a + saved_with LogSaved more_calls \<and> d' = ?d + saved_with LogDuplicate more_calls \<and>
          x' = ?x + saved_with LogDropped more_calls \<and> a' + d' + x' = ?a + ?d + ?x + int (length items)
      | _ \<Rightarrow> True"
      using Cons.IH [of ?a ?d ?x f] by blast
    have step: "ingest_items A t addr (item # items) a d x s = ingest_items A t addr items ?a ?d ?x f"
      by (simp add: p Inr)
    have counts: "case snd (ingest_items A t addr items ?a ?d ?x f) of
        IngestCounts a' d' x' \<Rightarrow> a' = a + saved_with LogSaved (calls @ more_calls) \<and>
          d' = d + saved_with LogDuplicate (calls @ more_calls) \<and> x' = x + saved_with LogDropped (calls @ more_calls) \<and>
          a' + d' + x' = a + d + x + int (length (item # items))
      | _ \<Rightarrow> True"
    proof (cases "snd (ingest_items A t addr items ?a ?d ?x f)")
      case (IngestCounts a' d' x')
      with ih(4) have "a' = ?a + saved_with LogSaved more_calls" "d' = ?d + saved_with LogDuplicate more_calls"
        "x' = ?x + saved_with LogDropped more_calls" "a' + d' + x' = ?a + ?d + ?x + int (length items)" by simp_all
      moreover from st n have
        "?a = a + saved_with LogSaved calls" "?d = d + saved_with LogDuplicate calls" "?x = x + saved_with LogDropped calls"
        "?a + ?d + ?x = a + d + x + 1" by (elim insertE emptyE; simp)+
      ultimately show ?thesis unfolding IngestCounts http_reply.case saved_with_append list.size by linarith
    qed simp_all
    show ?thesis unfolding step
      by (rule exI [of _ "calls @ more_calls"], intro conjI counts) (simp_all add: ih(1-3) calls(1-3))
  qed
qed

text \<open>The agent path.\<close>

lemma bindAgentIdentity_bound:
  "bindAgentIdentity c0 auth = Inr c \<Longrightarrow> aa_AgentID auth \<noteq> [] \<Longrightarrow>
     hc_AgentID c = aa_AgentID auth \<and> (aa_TenantID auth \<noteq> [] \<longrightarrow> hc_TenantID c = aa_TenantID auth)"
  by (auto simp: bindAgentIdentity_def Let_def split: if_splits)

definition agent_calls :: "agent_auth \<Rightarrow> ingest_call list \<Rightarrow> bool" where
  "agent_calls auth calls \<longleftrightarrow> list_all call_redacted calls \<and>
     (aa_AgentID auth \<noteq> [] \<longrightarrow> list_all (call_agent (aa_AgentID auth)) calls \<and>
       (aa_TenantID auth \<noteq> [] \<longrightarrow> list_all (call_tenant (aa_TenantID auth)) calls))"

lemma agent_calls_Nil [simp]: "agent_calls auth []" by (simp add: agent_calls_def)

lemma agent_calls_dead_letter: "agent_calls auth (snd (recordDeadLetterAddr A reason raw addr (w, [])))"
  unfolding recordDeadLetterAddr_def
  by (cases "is_SaveIngestDeadLetter A") (simp_all add: agent_calls_def Let_def split: prod.split)

lemma agent_calls_delivery:
  assumes "bindAgentIdentity c0 auth = Inr c"
  shows "agent_calls auth (snd (fst (deliver_conversation A save raw addr c (w, []))))"
proof -
  from deliver_calls [of A c "(w, [])" save raw addr] obtain calls d where
    calls: "snd (fst (deliver_conversation A save raw addr c (w, []))) = calls" "delivery_calls A c calls d"
    by (auto simp: delivered_def)
  show ?thesis unfolding calls(1) agent_calls_def
    using delivery_props [OF calls(2)] bindAgentIdentity_bound [OF assms] by auto
qed

lemma HandleConversation_agent:
  "(case ingest_authorize A (rq_Header r) w of
      (_, None) \<Rightarrow> snd (fst (HandleConversation A r w)) = []
    | (_, Some auth) \<Rightarrow> agent_calls auth (snd (fst (HandleConversation A r w))))"
proof -
  obtain w1 a where au: "ingest_authorize A (rq_Header r) w = (w1, a)" by fastforce
  show ?thesis
  proof (cases a)
    case None
    with au show ?thesis by (simp add: HandleConversation_def)
  next
    case (Some auth)
    have bound: "agent_calls auth (snd (fst (case deliver_conversation A save raw (rq_RemoteAddr r) c (w1, []) of
        (s', Accepted) \<Rightarrow> (s', IngestAccepted ''accepted'' (hc_SchemaVersion c))
      | (s', Duplicate) \<Rightarrow> (s', IngestAccepted ''duplicate'' (hc_SchemaVersion c))
      | (s', Dropped) \<Rightarrow> (s', IngestAccepted ''dropped'' (hc_SchemaVersion c))
      | (s', PersistFailed) \<Rightarrow> (s', HTTPError 500 ''Failed to persist conversation'')
      | (s', EnqueueFailed) \<Rightarrow> (s', HTTPError 500 ''Failed to enqueue conversation''))))"
      if "bindAgentIdentity c0 auth = Inr c" for c0 c save raw
      using agent_calls_delivery [OF that, of A save raw "rq_RemoteAddr r" w1]
      by (cases "deliver_conversation A save raw (rq_RemoteAddr r) c (w1, [])") (simp split: delivery.split)
    show ?thesis unfolding HandleConversation_def au Some prod.case option.case
      by (auto simp: bound agent_calls_dead_letter split: option.split body_read.split sum.split)
  qed
qed

lemma batch_reply:
  "batch_items items_of raw = Inl reply \<Longrightarrow> (case reply of IngestCounts a d x \<Rightarrow> a = 0 \<and> d = 0 \<and> x = 0 | _ \<Rightarrow> True)"
  by (auto simp: batch_items_def split: if_splits option.splits)

definition account_calls :: "string \<Rightarrow> ingest_call list \<Rightarrow> http_reply \<Rightarrow> bool" where
  "account_calls t calls reply \<longleftrightarrow> list_all (call_tenant t) calls \<and> list_all call_redacted calls \<and>
     (case reply of IngestCounts a d x \<Rightarrow> a = saved_with LogSaved calls \<and> d = saved_with LogDuplicate calls \<and>
        x = saved_with LogDropped calls | _ \<Rightarrow> True)"

lemma account_calls_items:
  "account_calls t (snd (fst (ingest_items A t addr items 0 0 0 (w, [])))) (snd (ingest_items A t addr items 0 0 0 (w, [])))"
  using ingest_items_calls [of A t addr items 0 0 0 "(w, [])"]
  by (auto simp: account_calls_def split: http_reply.splits)

lemma account_calls_Nil: "(case reply of IngestCounts a d x \<Rightarrow> a = 0 \<and> d = 0 \<and> x = 0 | _ \<Rightarrow> True) \<Longrightarrow> account_calls t [] reply"
  by (simp add: account_calls_def saved_with_def split: http_reply.splits)

lemma handleAccountIngest_calls:
  assumes "lookup w (sha (bearerTokenFromRequest r)) = (w1, Inr accountID)"
  shows "account_calls (Hex accountID) (snd (fst (handleAccountIngest ingest lookup sha Hex items_of r w)))
    (snd (handleAccountIngest ingest lookup sha Hex items_of r w))"
  unfolding handleAccountIngest_def assms prod.case sum.case
  using batch_reply
  by (auto simp: account_calls_items account_calls_Nil split: body_read.split sum.split option.split)

text \<open>The dead letters of the account path.\<close>

definition letters_after ::
  "'w ingest_service \<Rightarrow> string \<Rightarrow> string list \<Rightarrow> 'w traced \<Rightarrow> 'w traced \<Rightarrow> bool" where
  "letters_after A addr raws s s' \<longleftrightarrow> (\<exists>ls. snd s' = snd s @ ls \<and> list_all (letter_of A addr raws) ls)"

lemma letters_after_refl [simp]: "letters_after A addr raws s s"
  by (simp add: letters_after_def)

lemma letters_after_trans:
  "letters_after A addr raws s1 s2 \<Longrightarrow> letters_after A addr raws s2 s3 \<Longrightarrow> letters_after A addr raws s1 s3"
  unfolding letters_after_def by (elim exE) (rule exI, auto)

lemma letters_after_one:
  "snd s' = snd s @ [x] \<Longrightarrow> letter_of A addr raws x \<Longrightarrow> letters_after A addr raws s s'"
  by (simp add: letters_after_def)

lemma recordIngestionLog_letters: "letters_after A addr raws s (recordIngestionLog A status c msg s)"
  unfolding recordIngestionLog_def
  by (cases "is_SaveIngestionLog A") (simp_all add: letters_after_def Let_def)

lemma recordDeadLetterAddr_letters:
  "raw \<in> set raws \<Longrightarrow> letters_after A addr raws s (recordDeadLetterAddr A reason raw addr s)"
  unfolding recordDeadLetterAddr_def
  by (cases "is_SaveIngestDeadLetter A")
    (auto simp: letters_after_def Let_def list_ex_iff zero_ingest_dead_letter_def split: prod.split)

lemmas record_letters = recordIngestionLog_letters
  letters_after_trans [OF recordIngestionLog_letters recordDeadLetterAddr_letters]

lemma call_SaveConversation_letters: "letters_after A addr raws s (fst (call_SaveConversation A c s))"
  unfolding call_SaveConversation_def
  by (cases "is_SaveConversation A") (simp_all add: letters_after_def Let_def split: prod.split)

lemma call_Publish_letters: "letters_after A addr raws s (fst (call_Publish A c s))"
  unfolding call_Publish_def
  by (cases "is_Publish A"; cases "is_ProcessLog A")
    (simp_all add: letters_after_def Let_def split: prod.split)

lemma deliver_letters:
  assumes raw: "raw \<in> set raws"
  shows "letters_after A addr raws s (fst (deliver_conversation A save raw addr c s))"
proof -
  let ?l = "persisted_log A c"
  obtain w r where sv: "save (fst s) ?l = (w, r)" by fastforce
  let ?s1 = "(w, snd s @ [CallSaveLog ?l r])"
  obtain s2 e2 where c2: "call_SaveConversation A c ?s1 = (s2, e2)" by fastforce
  obtain s3 e3 where c3: "call_Publish A c s2 = (s3, e3)" by fastforce
  have 1: "letters_after A addr raws s ?s1" by (rule letters_after_one [where x = "CallSaveLog ?l r"]) simp_all
  have 2: "letters_after A addr raws s s2"
    using letters_after_trans [OF 1 call_SaveConversation_letters] c2 by (metis fst_conv)
  have 3: "letters_after A addr raws s s3"
    using letters_after_trans [OF 2 call_Publish_letters] c3 by (metis fst_conv)
  note unfold = deliver_conversation_def persisted_log_def [symmetric] Let_def sv prod.case
  note ends = record_letters(1) record_letters(2) [OF raw]
  show ?thesis
  proof (cases r)
    case LogDuplicate
    show ?thesis
      unfolding unfold LogDuplicate save_result.case fst_conv by (rule letters_after_trans [OF 1 [unfolded LogDuplicate] ends(1)])
  next
    case LogDropped
    show ?thesis
      unfolding unfold LogDropped save_result.case fst_conv by (rule letters_after_trans [OF 1 [unfolded LogDropped] ends(1)])
  next
    case (LogFailed err)
    show ?thesis
      unfolding unfold LogFailed save_result.case fst_conv by (rule letters_after_trans [OF 1 [unfolded LogFailed] ends(2)])
  next
    case LogSaved
    note c = c2 [unfolded LogSaved]
    show ?thesis
      unfolding unfold LogSaved save_result.case c
      by (cases e2; cases e3)
        (simp_all add: c3 letters_after_trans [OF 2 ends(2)] letters_after_trans [OF 3 ends(1)] letters_after_trans [OF 3 ends(2)])
  qed
qed

lemma Process_letters:
  assumes "raw \<in> set raws"
  shows "letters_after A addr raws s (fst (ProcessConversationForTenant A raw t addr s))"
proof (cases "is_SaveLog A")
  case (Some save)
  show ?thesis
  proof (cases "DecodeAndValidateHTTPConversation (is_schema A) (is_decode A) raw")
    case (Inl err)
    with recordDeadLetterAddr_letters [OF assms] Some show ?thesis by (simp add: ProcessConversationForTenant_def)
  next
    case (Inr c)
    obtain f d where f: "deliver_conversation A save raw addr (c\<lparr>hc_TenantID := t\<rparr>) s = (f, d)" by fastforce
    have "letters_after A addr raws s f" using deliver_letters [OF assms] f by (metis fst_conv)
    then show ?thesis by (cases d) (simp_all add: ProcessConversationForTenant_def Some Inr f)
  qed
qed (simp add: ProcessConversationForTenant_def)

lemma ingest_items_letters:
  "set items \<subseteq> set raws \<Longrightarrow> letters_after A addr raws s (fst (ingest_items A t addr items a d x s))"
proof (induction items arbitrary: a d x s)
  case (Cons item items)
  obtain s' r where p: "ProcessConversationForTenant A item t addr s = (s', r)" by fastforce
  have 1: "letters_after A addr raws s s'"
    using Process_letters [of item raws A addr s t] Cons.prems p by simp
  show ?case
  proof (cases r)
    case (Inl e)
    with 1 show ?thesis by (cases e) (simp add: p)
  next
    case (Inr st)
    have "set items \<subseteq> set raws" using Cons.prems by simp
    from letters_after_trans [OF 1 Cons.IH [OF this]] show ?thesis by (simp add: p Inr)
  qed
qed simp

definition account_payloads :: "(string \<Rightarrow> string list option) \<Rightarrow> http_req \<Rightarrow> string list" where
  "account_payloads items_of r = (case batch_items items_of (trim_space (rq_Body r)) of Inl _ \<Rightarrow> [] | Inr items \<Rightarrow> items)"

lemma read_body_is_body: "read_body n r = BodyRead body \<Longrightarrow> body = rq_Body r"
  by (simp add: read_body_def split: if_splits)

lemma account_items_letters:
  "batch_items items_of (trim_space (rq_Body r)) = Inr items \<Longrightarrow>
   list_all (letter_of A (rq_RemoteAddr r) (account_payloads items_of r))
     (snd (fst (ingest_items A t (rq_RemoteAddr r) items 0 0 0 (w1, []))))"
  using ingest_items_letters [of items items A "rq_RemoteAddr r" "(w1, [])" t 0 0 0]
  by (auto simp: letters_after_def account_payloads_def)

lemma handleAccountIngest_letters:
  "list_all (letter_of A (rq_RemoteAddr r) (account_payloads items_of r))
     (snd (fst (handleAccountIngest (Some A) lookup sha Hex items_of r w)))"
proof -
  obtain w1 res where l: "lookup w (sha (bearerTokenFromRequest r)) = (w1, res)" by fastforce
  show ?thesis
    unfolding handleAccountIngest_def l prod.case option.case
    by (cases res; cases "read_body maxAccountIngestBytes r"; cases "batch_items items_of (trim_space (rq_Body r))")
      (auto simp: account_items_letters dest!: read_body_is_body)
qed

lemma handleAccountIngest_none: "snd (fst (handleAccountIngest None lookup sha Hex items_of r w)) = []"
proof -
  obtain w1 res where l: "lookup w (sha (bearerTokenFromRequest r)) = (w1, res)" by fastforce
  show ?thesis
    unfolding handleAccountIngest_def l prod.case option.case
    by (cases res; cases "read_body maxAccountIngestBytes r") (simp_all split: sum.split)
qed

text \<open>
  What happens to a conversation whose publication fails: its log is already stored, so the retry the
  client is asked for is answered with \<open>duplicate\<close>, and the event is published by neither call.
\<close>

definition sample_conversation :: http_conversation where
  "sample_conversation =
     \<lparr>hc_OID = ''0123456789abcdef01234567'', hc_SchemaVersion = SchemaHTTPConversationV1, hc_TenantID = [], hc_ProjectID = [],
      hc_AgentID = [], hc_CaptureSource = ''ebpf'', hc_CaptureMode = [], hc_CapturedAt = Some 0,
      hc_Connection = \<lparr>cm_SrcIP = [], cm_SrcPort = 0, cm_DstIP = [], cm_DstPort = 0, cm_Protocol = [], cm_Family = [], cm_Role = []\<rparr>,
      hc_Process = \<lparr>pm_PID = 0, pm_Name = [], pm_Exe = []\<rparr>,
      hc_Container = \<lparr>ct_ID = [], ct_Name = [], ct_Image = [], ct_Namespace = [], ct_Pod = [], ct_Node = [], ct_Runtime = [], ct_PodUID = []\<rparr>,
      hc_Loss = \<lparr>lm_Truncated = False, lm_OriginalSize = 0, lm_CapturedSize = 0, lm_Reason = [], lm_SequenceGap = False,
        lm_ExpectedNextSeq = 0, lm_ActualSeq = 0\<rparr>,
      hc_Request = \<lparr>hq_Method = ''GET'', hq_URL = ''/a'', hq_Host = ''h'', hq_Path = ''/a'', hq_Headers = [], hq_Body = []\<rparr>,
      hc_Response = \<lparr>hr_Status = ''200 OK'', hr_StatusCode = Some 200, hr_Headers = [], hr_Body = []\<rparr>\<rparr>"

definition flaky_service :: "(traffic_log list \<times> nat) ingest_service" where
  "flaky_service =
     \<lparr>is_SaveLog = Some (\<lambda>(c, n) l. case SaveLog mem_logs (\<lambda>p t s. s) DefaultLogRetention 0 (Suc n) c l of (c', r) \<Rightarrow> ((c', Suc n), r)),
      is_SaveConversation = None, is_SaveIngestionLog = None, is_SaveIngestDeadLetter = None,
      is_Publish = Some (\<lambda>(c, n) e. ((c, n), if n = 1 then Some ''broker unavailable'' else None)), is_ProcessLog = None,
      is_AgentToken = [], is_AgentAuthenticator = None, is_MaxBodyBytes = 0, is_schema = (\<lambda>_. None),
      is_decode = (\<lambda>_. Inr (sample_conversation, False)), is_envelope = (\<lambda>_. ([], [])), is_hash_json = (\<lambda>_. Some ''x''),
      is_sha256_hex = id, is_redact = (\<lambda>p t s. s)\<rparr>"

lemma retry_is_reported_duplicate:
  "let (s1, r1) = ProcessConversationForTenant flaky_service ''{}'' ''t'' ''a'' (([], 0), []);
       (s2, r2) = ProcessConversationForTenant flaky_service ''{}'' ''t'' ''a'' s1
   in r1 = Inl (500, ''failed to enqueue conversation'') \<and> r2 = Inr ''duplicate'' \<and>
      list_all (\<lambda>x. case x of CallPublish e None \<Rightarrow> False | _ \<Rightarrow> True) (snd s2)"
  by code_simp

subsection \<open>Properties\<close>

text \<open>
  Property C26. On the account path the server decides whose data it is: whatever the request, its
  payload and the stores, every log, conversation, event and analyzed log that the handler hands
  over carries the tenant of the account its token belongs to, and nothing is handed over when the
  token is missing or unknown. The logs and conversations given to the store have every
  credential header masked. An entry of the ingestion log has no tenant, headers or body. A dead letter, which
  has neither tenant nor headers, holds nothing of the
  request but the address of the client and the start of one of its items after
  \<open>redact.Text\<close> (its credentials are masked as far as those patterns go, which is not the
  case for the header arrays of a conversation). The three counts of the reply are the numbers of
  logs saved, found as duplicates, and dropped.
\<close>

theorem account_data_is_bound:
  "(case lookup w (sha (bearerTokenFromRequest r)) of
      (_, Inl _) \<Rightarrow> snd (fst (handleAccountIngest ingest lookup sha Hex items_of r w)) = []
    | (_, Inr accountID) \<Rightarrow>
        (let calls = snd (fst (handleAccountIngest ingest lookup sha Hex items_of r w)) in
         list_all (call_tenant (Hex accountID)) calls \<and> list_all call_redacted calls \<and>
         (case ingest of
            None \<Rightarrow> calls = []
          | Some A \<Rightarrow> list_all (letter_of A (rq_RemoteAddr r) (account_payloads items_of r)) calls) \<and>
         (case snd (handleAccountIngest ingest lookup sha Hex items_of r w) of
            IngestCounts a d x \<Rightarrow>
              a = saved_with LogSaved calls \<and> d = saved_with LogDuplicate calls \<and> x = saved_with LogDropped calls
          | _ \<Rightarrow> True))) \<and>
   (if bearerTokenFromRequest r = [] then snd (fst (handleAccountIngest ingest lookup sha Hex items_of r w)) = [] else True)"
proof -
  obtain w1 res where l: "lookup w (sha (bearerTokenFromRequest r)) = (w1, res)" by fastforce
  have empty: "bearerTokenFromRequest r = [] \<Longrightarrow> snd (fst (handleAccountIngest ingest lookup sha Hex items_of r w)) = []"
    by (simp add: handleAccountIngest_def)
  show ?thesis
  proof (cases res)
    case (Inl err)
    have "snd (fst (handleAccountIngest ingest lookup sha Hex items_of r w)) = []"
      by (simp add: handleAccountIngest_def l Inl)
    then show ?thesis by (simp add: l Inl)
  next
    case (Inr accountID)
    then have l': "lookup w (sha (bearerTokenFromRequest r)) = (w1, Inr accountID)" using l by simp
    have letters: "case ingest of
        None \<Rightarrow> snd (fst (handleAccountIngest ingest lookup sha Hex items_of r w)) = []
      | Some A \<Rightarrow> list_all (letter_of A (rq_RemoteAddr r) (account_payloads items_of r))
          (snd (fst (handleAccountIngest ingest lookup sha Hex items_of r w)))"
      by (cases ingest) (simp_all add: handleAccountIngest_letters handleAccountIngest_none)
    note handleAccountIngest_calls [where lookup = lookup and sha = sha and r = r and Hex = Hex, OF l', of ingest items_of]
    with empty letters show ?thesis unfolding account_calls_def l Inr Let_def prod.case sum.case by simp
  qed
qed

text \<open>
  Property C27. An authenticated agent cannot speak for another: whatever the request, when the
  token is not accepted nothing reaches the stores; when it is, everything that reaches them has its
  sensitive headers masked and, for a token that belongs to an agent, carries that agent's
  identifier and its tenant, in the ingestion logs too.
\<close>

theorem agent_identity_is_bound:
  "(case ingest_authorize A (rq_Header r) w of
      (_, None) \<Rightarrow> snd (fst (HandleConversation A r w)) = []
    | (_, Some auth) \<Rightarrow>
        (let calls = snd (fst (HandleConversation A r w)) in
         list_all call_redacted calls \<and>
         (if aa_AgentID auth = [] then True else list_all (call_agent (aa_AgentID auth)) calls) \<and>
         (if aa_AgentID auth = [] \<or> aa_TenantID auth = [] then True else list_all (call_tenant (aa_TenantID auth)) calls)))"
  using HandleConversation_agent [of A r w]
  by (auto simp: agent_calls_def Let_def split: prod.splits option.splits)

text \<open>
  Property C28. Accepted means stored and handed on: when the account path answers
  \<open>accepted\<close>, the calls it made are, in this order, the successful save of the redacted log of
  the conversation under the given tenant, the successful save of the redacted conversation when
  the store keeps conversations, the successful publication (or, without a publisher, the
  analysis), and then only ingestion logs; and when it answers that the conversation could not be
  enqueued, the log had been saved all the same.
\<close>

theorem accepted_is_stored_then_published:
  "let (s', res) = ProcessConversationForTenant A raw t addr s in
    if res = Inr ''accepted'' then
      (\<exists>c ls. hc_TenantID c = t \<and> snd s' = snd s @ storing_calls A c @ working_calls A c @ ls \<and> list_all (log_call c) ls)
    else if res = Inl (500, ''failed to enqueue conversation'') then
      (\<exists>c ls. hc_TenantID c = t \<and> snd s' = snd s @ storing_calls A c @ ls)
    else True"
proof (cases "is_SaveLog A")
  case None
  then show ?thesis by (simp add: ProcessConversationForTenant_def)
next
  case (Some save)
  show ?thesis
  proof (cases "DecodeAndValidateHTTPConversation (is_schema A) (is_decode A) raw")
    case (Inl err)
    with Some show ?thesis by (simp add: ProcessConversationForTenant_def)
  next
    case (Inr conversation)
    obtain f calls d where calls: "delivery_calls A (conversation\<lparr>hc_TenantID := t\<rparr>) calls d" "snd f = snd s @ calls"
      and p: "ProcessConversationForTenant A raw t addr s = (f, process_reply d)"
      by (rule Process_delivery [OF Some Inr])
    have "\<exists>c. hc_TenantID c = t \<and> delivery_calls A c calls d"
      by (rule exI [of _ "conversation\<lparr>hc_TenantID := t\<rparr>"]) (simp add: calls(1))
    then obtain c where t: "hc_TenantID c = t" and dc: "delivery_calls A c calls d" by blast
    from dc show ?thesis
    proof cases
      case (all_done ls)
      with t show ?thesis unfolding p Let_def prod.case calls(2) by auto
    next
      case (publish_failed ls err)
      with t show ?thesis unfolding p Let_def prod.case calls(2) by auto
    qed (auto simp: p)
  qed
qed

end
