(* ===== verification/Templates.thy ===== *)
theory Templates
  imports Core_Models Go_Url "HOL-Library.AList" "HOL-Library.List_Lexorder" "HOL-Library.Char_ord"
begin

text \<open>
  The scan templates, \<open>internal/scanner\<close>: the registry of test types with its metadata, the
  suite presets, and the variables a template is run with. The embedded files are an argument: the
  entries of the community directory with what \<open>yaml.Unmarshal\<close> reads from each, and the
  contents by name.
\<close>

subsection \<open>Metadata\<close>

record severity_rule =
  svr_SensitiveMarkers :: "string list"
  svr_DowngradeTo :: string

record template_metadata =
  tm_TestType :: string
  tm_Filename :: string
  tm_Category :: string
  tm_Severity :: string
  tm_RequiresAuth :: bool
  tm_RequiresAttackerAuth :: bool
  tm_RequiredAuthRole :: string
  tm_RequiredSampleFields :: "string list"
  tm_Description :: string
  tm_DynamicSeverity :: "severity_rule option"

definition CategoryAccessControl :: string where "CategoryAccessControl = ''access_control''"
definition CategoryAuth :: string where "CategoryAuth = ''authentication''"
definition CategoryDiscovery :: string where "CategoryDiscovery = ''discovery''"
definition CategoryExposure :: string where "CategoryExposure = ''exposure''"
definition CategoryRedirect :: string where "CategoryRedirect = ''redirect''"
definition CategoryInjection :: string where "CategoryInjection = ''injection''"
definition CategoryMisconfig :: string where "CategoryMisconfig = ''misconfiguration''"
definition CategoryCommunity :: string where "CategoryCommunity = ''community''"

definition sensitiveDataMarkers :: "string list" where
  "sensitiveDataMarkers = [''password'', ''passwd'', ''secret'', ''token'', ''api_key'', ''apikey'',
     ''ssn'', ''credit'', ''card_number'', ''\"email\"'', ''\"role\"'', ''authorization'']"

definition defaultTemplates :: "template_metadata list" where
  "defaultTemplates = [
     \<lparr>tm_TestType = ''BOLA'', tm_Filename = ''test_cases/bola-by-changing-auth-token.yaml'', tm_Category = CategoryAccessControl,
       tm_Severity = ''high'', tm_RequiresAuth = True, tm_RequiresAttackerAuth = True,
       tm_RequiredAuthRole = ''attacker'', tm_RequiredSampleFields = [''headers.Authorization'', ''path''],
       tm_Description = ''Checks object-level authorization by replaying a request with attacker credentials.'',
       tm_DynamicSeverity = Some \<lparr>svr_SensitiveMarkers = sensitiveDataMarkers, svr_DowngradeTo = ''medium''\<rparr>\<rparr>,
     \<lparr>tm_TestType = ''BFLA'', tm_Filename = ''test_cases/bfla-by-changing-http-method.yaml'', tm_Category = CategoryAccessControl,
       tm_Severity = ''high'', tm_RequiresAuth = False, tm_RequiresAttackerAuth = False,
       tm_RequiredAuthRole = [], tm_RequiredSampleFields = [''method'', ''path''],
       tm_Description = ''Checks function-level authorization by changing the HTTP method.'',
       tm_DynamicSeverity = Some \<lparr>svr_SensitiveMarkers = sensitiveDataMarkers, svr_DowngradeTo = ''medium''\<rparr>\<rparr>,
     \<lparr>tm_TestType = ''BROKEN_USER_AUTH'', tm_Filename = ''test_cases/broken-user-authentication.yaml'', tm_Category = CategoryAuth,
       tm_Severity = ''high'', tm_RequiresAuth = False, tm_RequiresAttackerAuth = False,
       tm_RequiredAuthRole = [], tm_RequiredSampleFields = [''path''],
       tm_Description = ''Checks whether authentication-sensitive endpoints accept missing credentials.'',
       tm_DynamicSeverity = None\<rparr>,
     \<lparr>tm_TestType = ''BOLA_PARAMETER_POLLUTION'', tm_Filename = ''test_cases/bola-by-parameter-pollution.yaml'', tm_Category = CategoryAccessControl,
       tm_Severity = ''high'', tm_RequiresAuth = True, tm_RequiresAttackerAuth = True,
       tm_RequiredAuthRole = ''attacker'', tm_RequiredSampleFields = [''headers.Authorization'', ''body''],
       tm_Description = ''Checks object-level authorization by injecting duplicate object identifiers.'',
       tm_DynamicSeverity = None\<rparr>,
     \<lparr>tm_TestType = ''SWAGGER_CHECK'', tm_Filename = ''test_cases/swagger-check.yaml'', tm_Category = CategoryDiscovery,
       tm_Severity = ''medium'', tm_RequiresAuth = False, tm_RequiresAttackerAuth = False,
       tm_RequiredAuthRole = [], tm_RequiredSampleFields = [''base_url''],
       tm_Description = ''Checks for exposed OpenAPI or Swagger documentation endpoints.'',
       tm_DynamicSeverity = None\<rparr>,
     \<lparr>tm_TestType = ''JWT_NONE_ALGO'', tm_Filename = ''test_cases/jwt-none-algo.yaml'', tm_Category = CategoryAuth,
       tm_Severity = ''high'', tm_RequiresAuth = True, tm_RequiresAttackerAuth = False,
       tm_RequiredAuthRole = ''victim'', tm_RequiredSampleFields = [''headers.Authorization''],
       tm_Description = ''Checks whether JWT none-algorithm tokens are accepted.'',
       tm_DynamicSeverity = None\<rparr>,
     \<lparr>tm_TestType = ''JWT_INVALID_SIGNATURE'', tm_Filename = ''test_cases/jwt-invalid-signature.yaml'', tm_Category = CategoryAuth,
       tm_Severity = ''high'', tm_RequiresAuth = True, tm_RequiresAttackerAuth = False,
       tm_RequiredAuthRole = ''victim'', tm_RequiredSampleFields = [''headers.Authorization''],
       tm_Description = ''Checks whether tampered JWT signatures are accepted.'',
       tm_DynamicSeverity = None\<rparr>,
     \<lparr>tm_TestType = ''OPEN_REDIRECT'', tm_Filename = ''test_cases/open-redirect.yaml'', tm_Category = CategoryRedirect,
       tm_Severity = ''medium'', tm_RequiresAuth = False, tm_RequiresAttackerAuth = False,
       tm_RequiredAuthRole = [], tm_RequiredSampleFields = [''path''],
       tm_Description = ''Checks redirect parameters for externally controlled redirects.'',
       tm_DynamicSeverity = None\<rparr>,
     \<lparr>tm_TestType = ''EXPOSED_METRICS'', tm_Filename = ''test_cases/exposed-metrics.yaml'', tm_Category = CategoryExposure,
       tm_Severity = ''medium'', tm_RequiresAuth = False, tm_RequiresAttackerAuth = False,
       tm_RequiredAuthRole = [], tm_RequiredSampleFields = [''base_url''],
       tm_Description = ''Checks for exposed operational metrics endpoints.'',
       tm_DynamicSeverity = None\<rparr>,
     \<lparr>tm_TestType = ''REFLECTED_XSS'', tm_Filename = ''test_cases/reflected-xss.yaml'', tm_Category = CategoryInjection,
       tm_Severity = ''medium'', tm_RequiresAuth = False, tm_RequiresAttackerAuth = False,
       tm_RequiredAuthRole = [], tm_RequiredSampleFields = [''path''],
       tm_Description = ''Injects an HTML/script marker and checks for unescaped reflection.'',
       tm_DynamicSeverity = None\<rparr>,
     \<lparr>tm_TestType = ''SQL_INJECTION'', tm_Filename = ''test_cases/sql-injection.yaml'', tm_Category = CategoryInjection,
       tm_Severity = ''high'', tm_RequiresAuth = False, tm_RequiresAttackerAuth = False,
       tm_RequiredAuthRole = [], tm_RequiredSampleFields = [''path''],
       tm_Description = ''Error-based SQL injection: injects SQL metacharacters and detects database errors.'',
       tm_DynamicSeverity = None\<rparr>,
     \<lparr>tm_TestType = ''COMMAND_INJECTION'', tm_Filename = ''test_cases/command-injection.yaml'', tm_Category = CategoryInjection,
       tm_Severity = ''critical'', tm_RequiresAuth = False, tm_RequiresAttackerAuth = False,
       tm_RequiredAuthRole = [], tm_RequiredSampleFields = [''path''],
       tm_Description = ''Injects shell metacharacters and detects reflected command output.'',
       tm_DynamicSeverity = None\<rparr>,
     \<lparr>tm_TestType = ''SSRF'', tm_Filename = ''test_cases/ssrf.yaml'', tm_Category = CategoryInjection,
       tm_Severity = ''high'', tm_RequiresAuth = False, tm_RequiresAttackerAuth = False,
       tm_RequiredAuthRole = [], tm_RequiredSampleFields = [''path''],
       tm_Description = ''Injects internal/cloud-metadata URLs and detects reflected fetched content (in-band SSRF).'',
       tm_DynamicSeverity = None\<rparr>,
     \<lparr>tm_TestType = ''SSRF_BLIND_OOB'', tm_Filename = ''test_cases/ssrf-blind-oob.yaml'', tm_Category = CategoryInjection,
       tm_Severity = ''high'', tm_RequiresAuth = False, tm_RequiresAttackerAuth = False,
       tm_RequiredAuthRole = [], tm_RequiredSampleFields = [''path''],
       tm_Description = ''Blind SSRF via out-of-band Interactsh callback; requires OOB detection enabled.'',
       tm_DynamicSeverity = None\<rparr>,
     \<lparr>tm_TestType = ''CORS_MISCONFIGURATION'', tm_Filename = ''test_cases/cors-misconfiguration.yaml'', tm_Category = CategoryMisconfig,
       tm_Severity = ''medium'', tm_RequiresAuth = False, tm_RequiresAttackerAuth = False,
       tm_RequiredAuthRole = [], tm_RequiredSampleFields = [''path''],
       tm_Description = ''Checks whether the server reflects an attacker-controlled Origin with credentials enabled.'',
       tm_DynamicSeverity = None\<rparr>,
     \<lparr>tm_TestType = ''MASS_ASSIGNMENT'', tm_Filename = ''test_cases/mass-assignment.yaml'', tm_Category = CategoryAccessControl,
       tm_Severity = ''high'', tm_RequiresAuth = True, tm_RequiresAttackerAuth = False,
       tm_RequiredAuthRole = [], tm_RequiredSampleFields = [''path'', ''body''],
       tm_Description = ''Injects privileged fields into a write request and checks whether they are accepted.'',
       tm_DynamicSeverity = None\<rparr>,
     \<lparr>tm_TestType = ''DEFAULT_CREDENTIALS'', tm_Filename = ''test_cases/default-credentials.yaml'', tm_Category = CategoryAuth,
       tm_Severity = ''high'', tm_RequiresAuth = False, tm_RequiresAttackerAuth = False,
       tm_RequiredAuthRole = [], tm_RequiredSampleFields = [''path''],
       tm_Description = ''Submits common default credential pairs to the auth endpoint and checks for successful login.'',
       tm_DynamicSeverity = None\<rparr>,
     \<lparr>tm_TestType = ''BOLA_CHAINED_ENUMERATION'', tm_Filename = ''test_cases/bola-chained-enumeration.yaml'', tm_Category = CategoryAccessControl,
       tm_Severity = ''high'', tm_RequiresAuth = True, tm_RequiresAttackerAuth = True,
       tm_RequiredAuthRole = ''attacker'', tm_RequiredSampleFields = [''headers.Authorization'', ''path''],
       tm_Description = ''Two-step BOLA: extracts an object id from a listing, then reads it directly with attacker credentials.'',
       tm_DynamicSeverity = Some \<lparr>svr_SensitiveMarkers = sensitiveDataMarkers, svr_DowngradeTo = ''medium''\<rparr>\<rparr>]"

subsection \<open>The registry\<close>

record yaml_doc =
  yd_ID :: string
  yd_Name :: string
  yd_Severity :: string

record dir_entry =
  de_Name :: string
  de_IsDir :: bool
  de_Doc :: "yaml_doc option"

type_synonym registry = "template_metadata gomap"

definition communityTestType :: "string \<Rightarrow> string" where
  "communityTestType i =
     ''COMMUNITY_'' @ map (\<lambda>c. if c \<in> set ''-. /'' then CHR ''_'' else c) (to_upper (trim_space i))"

text \<open>\<open>de_Doc\<close> is \<^const>\<open>None\<close> when the file cannot be read or parsed.\<close>

definition directory_template :: "dir_entry \<Rightarrow> template_metadata option" where
  "directory_template entry =
     (if de_IsDir entry then None
      else if to_lower (path_Ext (de_Name entry)) \<noteq> ''.yaml'' \<and> to_lower (path_Ext (de_Name entry)) \<noteq> ''.yml'' then None
      else (case de_Doc entry of
          None \<Rightarrow> None
        | Some doc \<Rightarrow>
            if trim_space (yd_ID doc) = [] then None
            else (let severity0 = to_lower (trim_space (yd_Severity doc)) in
              Some \<lparr>tm_TestType = communityTestType (yd_ID doc), tm_Filename = ''test_cases/community/'' @ de_Name entry,
                tm_Category = CategoryCommunity, tm_Severity = (if severity0 = [] then ''info'' else severity0),
                tm_RequiresAuth = False, tm_RequiresAttackerAuth = False, tm_RequiredAuthRole = [],
                tm_RequiredSampleFields = [], tm_Description = trim_space (yd_Name doc), tm_DynamicSeverity = None\<rparr>)))"

definition directoryTemplates :: "dir_entry list \<Rightarrow> template_metadata list" where
  "directoryTemplates entries = List.map_filter directory_template entries"

definition add_default :: "registry \<Rightarrow> template_metadata \<Rightarrow> registry" where
  "add_default templates metadata0 =
     (let metadata = metadata0\<lparr>tm_TestType := trim_space (tm_TestType metadata0)\<rparr>
      in AList.update (tm_TestType metadata) metadata templates)"

definition add_discovered :: "registry \<Rightarrow> template_metadata \<Rightarrow> registry" where
  "add_discovered templates metadata =
     (if map_of templates (tm_TestType metadata) = None then AList.update (tm_TestType metadata) metadata templates else templates)"

definition DefaultTemplateRegistry :: "dir_entry list \<Rightarrow> registry" where
  "DefaultTemplateRegistry entries =
     foldl add_discovered (foldl add_default [] defaultTemplates) (directoryTemplates entries)"

datatype template_error = RegistryRequired | UnknownTestType | ReadFailed string

definition GetMetadata :: "registry option \<Rightarrow> string \<Rightarrow> template_error + template_metadata" where
  "GetMetadata r testType =
     (case r of
        None \<Rightarrow> Inl RegistryRequired
      | Some templates \<Rightarrow>
          (case map_of templates (trim_space testType) of None \<Rightarrow> Inl UnknownTestType | Some metadata \<Rightarrow> Inr metadata))"

definition registry_GetTemplate :: "(string \<Rightarrow> string + string) \<Rightarrow> registry option \<Rightarrow> string \<Rightarrow> template_error + string" where
  "registry_GetTemplate readFile r testType =
     (case GetMetadata r testType of
        Inl err \<Rightarrow> Inl err
      | Inr metadata \<Rightarrow> (case readFile (tm_Filename metadata) of Inl err \<Rightarrow> Inl (ReadFailed err) | Inr content \<Rightarrow> Inr content))"

definition GetTemplate :: "(string \<Rightarrow> string + string) \<Rightarrow> dir_entry list \<Rightarrow> string \<Rightarrow> template_error + string" where
  "GetTemplate readFile entries testType = registry_GetTemplate readFile (Some (DefaultTemplateRegistry entries)) testType"

definition ListMetadata :: "registry option \<Rightarrow> template_metadata list" where
  "ListMetadata r = (case r of None \<Rightarrow> [] | Some templates \<Rightarrow> sort_key tm_TestType (map snd templates))"

subsection \<open>Suites\<close>

record suite_preset =
  sp_ID :: string
  sp_Name :: string
  sp_Description :: string
  sp_TestTypes :: "string list"

definition suitePresets :: "suite_preset list" where
  "suitePresets = [
     \<lparr>sp_ID = ''OWASP_API_TOP_10'', sp_Name = ''OWASP API Security Top 10'',
       sp_Description = ''Broad coverage mapped across the OWASP API Security Top 10 risk categories.'',
       sp_TestTypes = [''BOLA'', ''BOLA_PARAMETER_POLLUTION'', ''BOLA_CHAINED_ENUMERATION'', ''BROKEN_USER_AUTH'',
        ''JWT_NONE_ALGO'', ''JWT_INVALID_SIGNATURE'', ''DEFAULT_CREDENTIALS'', ''MASS_ASSIGNMENT'',
        ''BFLA'', ''SSRF'', ''SSRF_BLIND_OOB'', ''CORS_MISCONFIGURATION'', ''EXPOSED_METRICS'',
        ''SWAGGER_CHECK'', ''REFLECTED_XSS'', ''SQL_INJECTION'', ''COMMAND_INJECTION'', ''OPEN_REDIRECT'']\<rparr>,
     \<lparr>sp_ID = ''ACCESS_CONTROL'', sp_Name = ''Broken Access Control'',
       sp_Description = ''Object- and function-level authorization checks (OWASP API1/API3/API5).'',
       sp_TestTypes = [''BOLA'', ''BOLA_PARAMETER_POLLUTION'', ''BOLA_CHAINED_ENUMERATION'', ''BFLA'', ''MASS_ASSIGNMENT'']\<rparr>,
     \<lparr>sp_ID = ''AUTHENTICATION'', sp_Name = ''Broken Authentication'',
       sp_Description = ''Anonymous access, JWT flaws and default credentials (OWASP API2).'',
       sp_TestTypes = [''BROKEN_USER_AUTH'', ''JWT_NONE_ALGO'', ''JWT_INVALID_SIGNATURE'', ''DEFAULT_CREDENTIALS'']\<rparr>,
     \<lparr>sp_ID = ''INJECTION'', sp_Name = ''Injection'',
       sp_Description = ''Reflected XSS, SQL injection, command injection and open redirect.'',
       sp_TestTypes = [''REFLECTED_XSS'', ''SQL_INJECTION'', ''COMMAND_INJECTION'', ''OPEN_REDIRECT'']\<rparr>,
     \<lparr>sp_ID = ''SSRF'', sp_Name = ''Server-Side Request Forgery'',
       sp_Description = ''In-band and blind out-of-band SSRF (OWASP API7).'',
       sp_TestTypes = [''SSRF'', ''SSRF_BLIND_OOB'']\<rparr>,
     \<lparr>sp_ID = ''MISCONFIGURATION'', sp_Name = ''Security Misconfiguration'',
       sp_Description = ''CORS, exposed metrics/documentation and inventory exposure (OWASP API8/API9).'',
       sp_TestTypes = [''CORS_MISCONFIGURATION'', ''EXPOSED_METRICS'', ''SWAGGER_CHECK'']\<rparr>,
     \<lparr>sp_ID = ''FULL'', sp_Name = ''Full Scan'',
       sp_Description = ''Every registered test type applicable to the endpoint, including community templates.'',
       sp_TestTypes = []\<rparr>]"

definition SuitePresets :: "suite_preset list" where
  "SuitePresets = suitePresets"

definition LookupSuitePreset :: "string \<Rightarrow> suite_preset option" where
  "LookupSuitePreset i = List.find (\<lambda>preset. sp_ID preset = to_upper (trim_space i)) suitePresets"

definition FilterRegistered :: "registry option \<Rightarrow> string list \<Rightarrow> string list" where
  "FilterRegistered r testTypes =
     (case r of None \<Rightarrow> [] | Some templates \<Rightarrow> filter (\<lambda>testType. map_of templates (trim_space testType) \<noteq> None) testTypes)"

subsection \<open>Template variables\<close>

record template_vars =
  tv_Vars :: "string list"
  tv_Hostname :: string
  tv_BodyPayload :: string
  tv_HeaderBlock :: string

definition headerExcludedFromTemplateVars :: "string \<Rightarrow> bool" where
  "headerExcludedFromTemplateVars key \<longleftrightarrow>
     equal_fold key ''Authorization'' \<or> equal_fold key ''Host'' \<or> equal_fold key ''Content-Length'' \<or> equal_fold key ''Connection''"

definition BuildHeaderBlock :: "string gomap \<Rightarrow> string" where
  "BuildHeaderBlock headers =
     (if headers = [] then []
      else (let keys = sort_key to_lower (filter (\<lambda>key. \<not> headerExcludedFromTemplateVars key) (map fst headers))
        in concat (map (\<lambda>key. key @ '': '' @ str_at headers key @ [char_of (10::nat)]) keys)))"

definition hostnameFor :: "string \<Rightarrow> string" where
  "hostnameFor targetURL =
     (case url_Parse targetURL of None \<Rightarrow> targetURL | Some parsed \<Rightarrow> if u_Host parsed = [] then targetURL else u_Host parsed)"

definition ExecutionTarget :: "string \<Rightarrow> string" where
  "ExecutionTarget targetURL = replace_first ''localhost'' ''127.0.0.1'' (trim_space targetURL)"

definition BuildTemplateVars :: "scan_config \<Rightarrow> template_vars" where
  "BuildTemplateVars config =
     (let hostname = hostnameFor (cfg_TargetURL config);
          bodyPayload = (if cfg_PollutedBody config \<noteq> [] then cfg_PollutedBody config else cfg_Body config);
          headerBlock = BuildHeaderBlock (cfg_Headers config)
      in \<lparr>tv_Vars = [''Hostname='' @ hostname, ''method='' @ cfg_Method config, ''path='' @ cfg_Path config,
            ''attack_token='' @ cfg_ManualAuth config, ''attack_method='' @ cfg_AttackMethod config,
            ''body='' @ bodyPayload, ''polluted_body='' @ bodyPayload, ''body_len='' @ itoa (length bodyPayload),
            ''header_block='' @ headerBlock],
          tv_Hostname = hostname, tv_BodyPayload = bodyPayload, tv_HeaderBlock = headerBlock\<rparr>)"

subsection \<open>Lemmas\<close>

definition registry_ok :: "registry \<Rightarrow> bool" where
  "registry_ok r \<longleftrightarrow> distinct (map fst r) \<and> list_all (\<lambda>(k, m). tm_TestType m = k) r"

lemma set_update: "distinct (map fst r) \<Longrightarrow> set (AList.update k v r) = insert (k, v) {(k', v') \<in> set r. k' \<noteq> k}"
proof (induction r)
  case (Cons a r)
  then show ?case by (cases a) (force simp: image_iff)
qed simp

lemma registry_ok_update: "registry_ok r \<Longrightarrow> tm_TestType m = k \<Longrightarrow> registry_ok (AList.update k m r)"
  by (auto simp: registry_ok_def distinct_update list_all_iff set_update)

lemma registry_ok_default: "registry_ok r \<Longrightarrow> registry_ok (foldl add_default r ms)"
  by (induction ms arbitrary: r) (simp_all add: add_default_def Let_def registry_ok_update)

lemma registry_ok_discovered: "registry_ok r \<Longrightarrow> registry_ok (foldl add_discovered r ms)"
  by (induction ms arbitrary: r) (simp_all add: add_discovered_def registry_ok_update)

lemma registry_ok_DefaultTemplateRegistry: "registry_ok (DefaultTemplateRegistry entries)"
  unfolding DefaultTemplateRegistry_def
  by (intro registry_ok_discovered registry_ok_default) (simp add: registry_ok_def)

lemma discovered_keeps: "map_of r t = Some m \<Longrightarrow> map_of (foldl add_discovered r ms) t = Some m"
proof (induction ms arbitrary: r)
  case (Cons x ms)
  have "map_of (add_discovered r x) t = Some m"
    using Cons.prems by (cases "t = tm_TestType x") (auto simp: add_discovered_def update_conv')
  with Cons.IH show ?case by simp
qed simp

lemma default_types: "map tm_TestType defaultTemplates =
    [''BOLA'', ''BFLA'', ''BROKEN_USER_AUTH'', ''BOLA_PARAMETER_POLLUTION'', ''SWAGGER_CHECK'',
     ''JWT_NONE_ALGO'', ''JWT_INVALID_SIGNATURE'', ''OPEN_REDIRECT'', ''EXPOSED_METRICS'',
     ''REFLECTED_XSS'', ''SQL_INJECTION'', ''COMMAND_INJECTION'', ''SSRF'', ''SSRF_BLIND_OOB'',
     ''CORS_MISCONFIGURATION'', ''MASS_ASSIGNMENT'', ''DEFAULT_CREDENTIALS'',
     ''BOLA_CHAINED_ENUMERATION'']"
  by (simp add: defaultTemplates_def)

lemma trim_space_id: "t = [] \<or> \<not> is_space (hd t) \<and> \<not> is_space (last t) \<Longrightarrow> trim_space t = t"
proof -
  assume "t = [] \<or> \<not> is_space (hd t) \<and> \<not> is_space (last t)"
  then have "dropWhile is_space t = t" "dropWhile is_space (rev t) = rev t"
    by (auto intro!: dropWhile_hd_eq simp: hd_rev)
  then show ?thesis by (simp add: trim_space_def trim_left_def trim_right_def)
qed

lemma default_types_trimmed: "list_all (\<lambda>t. trim_space t = t) (map tm_TestType defaultTemplates)"
proof -
  have "list_all (\<lambda>t. t = [] \<or> \<not> is_space (hd t) \<and> \<not> is_space (last t)) (map tm_TestType defaultTemplates)"
    unfolding default_types by (simp add: is_space_def)
  then show ?thesis by (rule list.pred_mono_strong) (rule trim_space_id)
qed

lemma add_default_lookup:
  "distinct (map tm_TestType ms) \<Longrightarrow> \<forall>m \<in> set ms. trim_space (tm_TestType m) = tm_TestType m \<Longrightarrow>
   map_of (foldl add_default r ms) t = (case List.find (\<lambda>m. tm_TestType m = t) ms of Some m \<Rightarrow> Some m | None \<Rightarrow> map_of r t)"
proof (induction ms arbitrary: r)
  case (Cons m ms)
  then have "map_of (foldl add_default (add_default r m) ms) t =
    (case List.find (\<lambda>m. tm_TestType m = t) ms of Some m \<Rightarrow> Some m | None \<Rightarrow> map_of (add_default r m) t)" by simp
  moreover have "add_default r m = AList.update (tm_TestType m) m r" using Cons.prems by (simp add: add_default_def Let_def)
  moreover have "t = tm_TestType m \<Longrightarrow> List.find (\<lambda>m. tm_TestType m = t) ms = None"
    using Cons.prems(1) by (auto simp: find_None_iff image_iff)
  ultimately show ?case by (auto simp: update_conv' split: option.split)
qed simp

lemma find_distinct: "distinct (map f ms) \<Longrightarrow> m \<in> set ms \<Longrightarrow> List.find (\<lambda>x. f x = f m) ms = Some m"
  by (induction ms) (auto simp: image_iff)

lemma default_lookup:
  "map_of (foldl add_default [] defaultTemplates) t = List.find (\<lambda>m. tm_TestType m = t) defaultTemplates"
proof -
  have "distinct (map tm_TestType defaultTemplates)" unfolding default_types by simp
  moreover have "\<forall>m \<in> set defaultTemplates. trim_space (tm_TestType m) = tm_TestType m"
    using default_types_trimmed by (simp add: list_all_iff)
  ultimately show ?thesis by (simp add: add_default_lookup option.case_eq_if)
qed

lemma defaults_registered:
  "list_all (\<lambda>m. trim_space (tm_TestType m) = tm_TestType m \<and>
     map_of (foldl add_default [] defaultTemplates) (tm_TestType m) = Some m) defaultTemplates"
  unfolding default_lookup list_all_iff
proof (intro ballI conjI)
  fix m assume m: "m \<in> set defaultTemplates"
  show "trim_space (tm_TestType m) = tm_TestType m" using default_types_trimmed m by (simp add: list_all_iff)
  have "distinct (map tm_TestType defaultTemplates)" unfolding default_types by simp
  then show "List.find (\<lambda>x. tm_TestType x = tm_TestType m) defaultTemplates = Some m" by (rule find_distinct [OF _ m])
qed

lemma preset_types:
  "list_all (\<lambda>p. list_all (\<lambda>t. t \<in> set (map tm_TestType defaultTemplates)) (sp_TestTypes p)) SuitePresets"
  unfolding default_types by (simp add: SuitePresets_def suitePresets_def)

lemma preset_types_registered:
  "list_all (\<lambda>p. list_all (\<lambda>t. map_of (foldl add_default [] defaultTemplates) (trim_space t) \<noteq> None) (sp_TestTypes p)) SuitePresets"
proof (rule list.pred_mono_strong [OF preset_types], rule list.pred_mono_strong, assumption)
  fix t assume "t \<in> set (map tm_TestType defaultTemplates)"
  then obtain m where "m \<in> set defaultTemplates" "tm_TestType m = t" by auto
  with defaults_registered show "map_of (foldl add_default [] defaultTemplates) (trim_space t) \<noteq> None"
    by (auto simp: list_all_iff)
qed

lemma registry_entries:
  "registry_ok r \<Longrightarrow> (t, m) \<in> set r \<longleftrightarrow> m \<in> set (ListMetadata (Some r)) \<and> tm_TestType m = t"
  by (force simp: registry_ok_def ListMetadata_def list_all_iff)

lemma ListMetadata_distinct:
  assumes "registry_ok r" shows "distinct (map tm_TestType (ListMetadata (Some r)))"
proof -
  have "map tm_TestType (map snd r) = map fst r" using assms by (auto simp: registry_ok_def list_all_iff)
  then have "distinct (map tm_TestType (map snd r))" using assms unfolding registry_ok_def by metis
  then show ?thesis unfolding ListMetadata_def option.case by (simp only: distinct_map distinct_sort set_sort simp_thms)
qed

subsection \<open>Properties\<close>

text \<open>
  The registry knows its own tests, whatever files are in the community directory: every
  hand-written template is found under its test type unchanged, so no discovered file replaces
  one, and every test type of every suite preset is registered.
\<close>

theorem presets_are_registered:
  "list_all (\<lambda>m. GetMetadata (Some (DefaultTemplateRegistry entries)) (tm_TestType m) = Inr m) defaultTemplates \<and>
   list_all (\<lambda>p. FilterRegistered (Some (DefaultTemplateRegistry entries)) (sp_TestTypes p) = sp_TestTypes p) SuitePresets"
proof
  have keep: "map_of (DefaultTemplateRegistry entries) t = Some m" if "map_of (foldl add_default [] defaultTemplates) t = Some m" for t m
    unfolding DefaultTemplateRegistry_def by (rule discovered_keeps [OF that])
  show "list_all (\<lambda>m. GetMetadata (Some (DefaultTemplateRegistry entries)) (tm_TestType m) = Inr m) defaultTemplates"
    by (rule list.pred_mono_strong [OF defaults_registered]) (simp add: GetMetadata_def keep)
  have reg: "map_of (DefaultTemplateRegistry entries) t \<noteq> None" if "map_of (foldl add_default [] defaultTemplates) t \<noteq> None" for t
    using that keep by fastforce
  show "list_all (\<lambda>p. FilterRegistered (Some (DefaultTemplateRegistry entries)) (sp_TestTypes p) = sp_TestTypes p) SuitePresets"
  proof (rule list.pred_mono_strong [OF preset_types_registered])
    fix p assume "list_all (\<lambda>t. map_of (foldl add_default [] defaultTemplates) (trim_space t) \<noteq> None) (sp_TestTypes p)"
    then have "\<forall>t \<in> set (sp_TestTypes p). map_of (DefaultTemplateRegistry entries) (trim_space t) \<noteq> None"
      using reg unfolding list_all_iff by blast
    then show "FilterRegistered (Some (DefaultTemplateRegistry entries)) (sp_TestTypes p) = sp_TestTypes p"
      unfolding FilterRegistered_def option.case by (rule filter_True)
  qed
qed

text \<open>
  The catalogue of tests is the registry in order: \<open>ListMetadata\<close> is strictly
  increasing in the test type, and \<open>GetMetadata\<close> finds, up to surrounding spaces, exactly the
  test types it lists.
\<close>

theorem catalogue_is_the_registry:
  "let r = Some (DefaultTemplateRegistry entries); ls = ListMetadata r in
    sorted_wrt (<) (map tm_TestType ls) \<and>
    (case GetMetadata r t of
       Inr m \<Rightarrow> m \<in> set ls \<and> tm_TestType m = trim_space t
     | Inl err \<Rightarrow> err = UnknownTestType \<and> trim_space t \<notin> tm_TestType ` set ls)"
proof -
  let ?r = "DefaultTemplateRegistry entries"
  note ok = registry_ok_DefaultTemplateRegistry [of entries]
  have "distinct (map tm_TestType (ListMetadata (Some ?r)))"
    by (rule ListMetadata_distinct [OF ok])
  moreover have "sorted (map tm_TestType (ListMetadata (Some ?r)))" by (simp add: ListMetadata_def)
  ultimately have "sorted_wrt (<) (map tm_TestType (ListMetadata (Some ?r)))" by (simp add: strict_sorted_iff)
  moreover have "case GetMetadata (Some ?r) t of
       Inr m \<Rightarrow> m \<in> set (ListMetadata (Some ?r)) \<and> tm_TestType m = trim_space t
     | Inl err \<Rightarrow> err = UnknownTestType \<and> trim_space t \<notin> tm_TestType ` set (ListMetadata (Some ?r))"
  proof (cases "map_of ?r (trim_space t)")
    case None
    then have "(trim_space t, m) \<notin> set ?r" for m by (auto simp: map_of_eq_None_iff image_iff)
    then have "trim_space t \<notin> tm_TestType ` set (ListMetadata (Some ?r))"
      using registry_entries [OF ok, of "trim_space t"] by force
    with None show ?thesis by (simp add: GetMetadata_def)
  next
    case (Some m)
    with map_of_SomeD [OF Some] show ?thesis by (simp add: GetMetadata_def registry_entries [OF ok])
  qed
  ultimately show ?thesis by (simp add: Let_def)
qed

end
