(* ===== verification/Go_Base64.thy ===== *)
theory Go_Base64
  imports Go_Base
begin

text \<open>
  \<open>base64.RawURLEncoding\<close> of Go's \<open>encoding/base64\<close>: the URL alphabet without padding.
  The decoder skips line breaks and, not being strict, ignores the bits of the last character that
  stand for no byte. Characters are handled as six-bit numbers.
\<close>

definition b64_char :: "nat \<Rightarrow> char" where
  "b64_char n = (if n < 26 then char_of (65 + n) else if n < 52 then char_of (71 + n)
     else if n < 62 then char_of (n - 4) else if n = 62 then CHR ''-'' else CHR ''_'')"

definition b64_val :: "char \<Rightarrow> nat option" where
  "b64_val c = (if is_upper c then Some (byte c - 65) else if is_lower c then Some (byte c - 71)
     else if is_digit c then Some (byte c + 4) else if c = CHR ''-'' then Some 62 else if c = CHR ''_'' then Some 63 else None)"

fun b64_sextets :: "string \<Rightarrow> nat list" where
  "b64_sextets [] = []"
| "b64_sextets [a] = [byte a div 4, byte a mod 4 * 16]"
| "b64_sextets [a, b] = [byte a div 4, byte a mod 4 * 16 + byte b div 16, byte b mod 16 * 4]"
| "b64_sextets (a # b # c # r) =
     byte a div 4 # (byte a mod 4 * 16 + byte b div 16) # (byte b mod 16 * 4 + byte c div 64) # byte c mod 64 # b64_sextets r"

definition EncodeToString :: "string \<Rightarrow> string" where
  "EncodeToString s = map b64_char (b64_sextets s)"

fun b64_bytes :: "nat list \<Rightarrow> string option" where
  "b64_bytes [] = Some []"
| "b64_bytes [p] = None"
| "b64_bytes [p, q] = Some [char_of (p * 4 + q div 16)]"
| "b64_bytes [p, q, r] = Some [char_of (p * 4 + q div 16), char_of (q mod 16 * 16 + r div 4)]"
| "b64_bytes (p # q # r # s # t) =
     map_option (\<lambda>u. char_of (p * 4 + q div 16) # char_of (q mod 16 * 16 + r div 4) # char_of (r mod 4 * 64 + s) # u) (b64_bytes t)"

fun b64_values :: "string \<Rightarrow> nat list option" where
  "b64_values [] = Some []"
| "b64_values (c # cs) = (case b64_val c of None \<Rightarrow> None | Some v \<Rightarrow> map_option (\<lambda>vs. v # vs) (b64_values cs))"

definition DecodeString :: "string \<Rightarrow> string option" where
  "DecodeString s = Option.bind (b64_values (filter (\<lambda>c. byte c \<noteq> 10 \<and> byte c \<noteq> 13) s)) b64_bytes"

subsection \<open>Round trip\<close>

lemma b64_char_cases: "n < 64 \<Longrightarrow> b64_val (b64_char n) = Some n"
  by (auto simp: b64_val_def b64_char_def is_upper_def is_lower_def is_digit_def split: if_splits)

lemma b64_char_printable: "n < 64 \<Longrightarrow> byte (b64_char n) > 44 \<and> byte (b64_char n) \<noteq> 46"
  by (auto simp: b64_char_def)

lemma byte_parts: "byte c div 4 < 64" "byte c div 16 < 16" "byte c div 64 < 4"
  by (rule less_mult_imp_div_less, use byte_less [of c] in simp)+

lemma byte_mods: "byte c mod 4 \<le> 3" "byte c mod 16 \<le> 15"
  using mod_less_divisor [of 4 "byte c"] mod_less_divisor [of 16 "byte c"] by linarith+

lemma byte_parts_0 [simp]: "byte c div 16 div 16 = 0" "byte c div 16 mod 16 = byte c div 16" "byte c div 64 div 4 = 0"
  "byte c div 64 mod 4 = byte c div 64" "byte c div 256 = 0"
  using byte_parts [of c] byte_less [of c] by simp_all

lemma b64_sextets_less: "n \<in> set (b64_sextets s) \<Longrightarrow> n < 64"
proof (induction s rule: b64_sextets.induct)
  case (2 a)
  then show ?case using byte_parts [of a] byte_mods [of a] by auto
next
  case (3 a b)
  then show ?case using byte_parts [of a] byte_parts [of b] byte_mods [of a] byte_mods [of b] by auto
next
  case (4 a b c r)
  then show ?case using byte_parts [of a] byte_parts [of b] byte_parts [of c] byte_mods [of a] byte_mods [of b] by auto
qed simp

lemma b64_values_chars: "list_all (\<lambda>n. n < 64) ns \<Longrightarrow> b64_values (map b64_char ns) = Some ns"
  by (induction ns) (simp_all add: b64_char_cases)

lemma b64_bytes_sextets: "b64_bytes (b64_sextets s) = Some s"
proof (induction s rule: b64_sextets.induct)
  case (4 a b c r)
  then show ?case by simp
qed simp_all

lemma filter_encoded: "filter (\<lambda>c. byte c \<noteq> 10 \<and> byte c \<noteq> 13) (map b64_char (b64_sextets s)) = map b64_char (b64_sextets s)"
proof (rule filter_True, rule ballI)
  fix c assume "c \<in> set (map b64_char (b64_sextets s))"
  then obtain n where "n < 64" "c = b64_char n" using b64_sextets_less by auto
  with b64_char_printable [of n] show "byte c \<noteq> 10 \<and> byte c \<noteq> 13" by simp
qed

lemma DecodeString_EncodeToString [simp]: "DecodeString (EncodeToString s) = Some s"
proof -
  have "list_all (\<lambda>n. n < 64) (b64_sextets s)" using b64_sextets_less by (simp add: list_all_iff)
  then show ?thesis
    by (simp add: DecodeString_def EncodeToString_def filter_encoded b64_values_chars b64_bytes_sextets)
qed

lemma no_dot_EncodeToString [simp]: "CHR ''.'' \<notin> set (EncodeToString s)"
proof
  assume "CHR ''.'' \<in> set (EncodeToString s)"
  then obtain n where "n < 64" "CHR ''.'' = b64_char n" using b64_sextets_less by (auto simp: EncodeToString_def)
  with b64_char_printable [of n] have "byte (CHR ''.'') \<noteq> 46" by metis
  then show False by simp
qed

text \<open>
  The last character of an encoding whose bytes do not fill it: the character after it stands for the
  same bytes.
\<close>

lemma b64_values_append:
  "b64_values (xs @ ys) = (case b64_values xs of None \<Rightarrow> None | Some a \<Rightarrow> map_option ((@) a) (b64_values ys))"
proof (induction xs)
  case Nil
  show ?case by (cases "b64_values ys") simp_all
next
  case (Cons x xs)
  then show ?case by (cases "b64_values ys") (auto split: option.split)
qed

lemma b64_next_char: "n < 64 \<Longrightarrow> n mod 4 = 0 \<Longrightarrow> char_of (byte (b64_char n) + 1) = b64_char (n + 1)"
proof -
  assume n: "n < 64" "n mod 4 = 0"
  then have "n \<noteq> 25" "n \<noteq> 51" "n \<noteq> 61" "n \<noteq> 62" "n \<noteq> 63" by auto
  with n(1) show ?thesis by (auto simp: b64_char_def)
qed

lemma Suc_mult_div: "Suc (x * 16) div 16 = x" "Suc (x * 4) div 4 = x"
  by presburger+

lemma b64_last_sextet:
  "length s mod 3 \<noteq> 0 \<Longrightarrow> \<exists>ns n. b64_sextets s = ns @ [n] \<and> n mod 4 = 0 \<and> b64_bytes (ns @ [n + 1]) = Some s"
proof (induction s rule: b64_sextets.induct)
  case (2 a)
  show ?case by (rule exI [of _ "[byte a div 4]"], rule exI [of _ "byte a mod 4 * 16"]) (simp add: Suc_mult_div)
next
  case (3 a b)
  show ?case by (rule exI [of _ "[byte a div 4, byte a mod 4 * 16 + byte b div 16]"], rule exI [of _ "byte b mod 16 * 4"]) (simp add: Suc_mult_div)
next
  case (4 a b c r)
  have "length (a # b # c # r) = length r + 3" by simp
  with 4(2) have "length r mod 3 \<noteq> 0" by (simp only: mod_add_self2 not_False_eq_True)
  from 4(1) [OF this] obtain ns n where "b64_sextets r = ns @ [n]" "n mod 4 = 0" "b64_bytes (ns @ [n + 1]) = Some r"
    by (elim exE conjE) (rule that)
  then show ?case
    by (intro exI [of _ "byte a div 4 # (byte a mod 4 * 16 + byte b div 16) # (byte b mod 16 * 4 + byte c div 64) # byte c mod 64 # ns"]
        exI [of _ n]) simp
qed simp

lemma next_last_char_same_bytes:
  assumes "length s mod 3 \<noteq> 0"
  shows "DecodeString (butlast (EncodeToString s) @ [char_of (byte (last (EncodeToString s)) + 1)]) = Some s"
    "byte (last (EncodeToString s)) < 127" "EncodeToString s \<noteq> []"
proof -
  obtain ns n where ns: "b64_sextets s = ns @ [n]" "n mod 4 = 0" "b64_bytes (ns @ [n + 1]) = Some s"
    using b64_last_sextet [OF assms] by (elim exE conjE) (rule that)
  have all: "list_all (\<lambda>n. n < 64) (ns @ [n])" using b64_sextets_less [of _ s] ns(1) by (simp add: list_all_iff)
  then have n: "n < 64" by simp
  with ns(2) have n1: "n + 1 < 64" by presburger
  have e: "EncodeToString s = map b64_char ns @ [b64_char n]" by (simp add: EncodeToString_def ns)
  then have l: "butlast (EncodeToString s) @ [char_of (byte (last (EncodeToString s)) + 1)] = map b64_char (ns @ [n + 1])"
    using b64_next_char [OF n ns(2)] by simp
  have all': "list_all (\<lambda>n. n < 64) (ns @ [n + 1])" using all n1 by simp
  have "filter (\<lambda>c. byte c \<noteq> 10 \<and> byte c \<noteq> 13) (map b64_char (ns @ [n + 1])) = map b64_char (ns @ [n + 1])"
  proof (rule filter_True, rule ballI)
    fix c assume "c \<in> set (map b64_char (ns @ [n + 1]))"
    then obtain m where "m \<in> set (ns @ [n + 1])" and c: "c = b64_char m" by (auto simp only: set_map)
    then have "m < 64" using all' by (simp only: list_all_iff)
    with c b64_char_printable [of m] show "byte c \<noteq> 10 \<and> byte c \<noteq> 13" by simp
  qed
  with all' ns(3) show "DecodeString (butlast (EncodeToString s) @ [char_of (byte (last (EncodeToString s)) + 1)]) = Some s"
    unfolding l by (simp add: DecodeString_def b64_values_chars del: map_append)
  show "byte (last (EncodeToString s)) < 127" using n by (auto simp: e b64_char_def)
  show "EncodeToString s \<noteq> []" by (simp add: e)
qed

end
