(* ===== verification/Scan_Plan.thy ===== *)
theory Scan_Plan
  imports Templates Analyzer Go_Base64
begin

text \<open>
  The planning of a scan, \<open>internal/scanplan\<close>: the credentials, method, path and bodies of the
  attack for a test type (\<open>builder.go\<close>) and the test types that fit an endpoint
  (\<open>applicability.go\<close>). JSON is an argument: the decoder, the encoder of a map, the encoder of
  a string and the \<open>%v\<close> of a value. A write to a nil map panics.
\<close>

datatype plan_error =
    BOLARequiresAttacker | NoneRequiresVictim | SignatureRequiresVictim | ForgeFailed plan_error
  | InvalidJWT | HeaderNotBase64 | HeaderNotJSON | PayloadNotBase64 | PayloadNotJSON | SignatureEmpty
  | NoPollutableParameter

datatype 'a planned = Planned 'a | PlanFailed plan_error | PlanPanic

fun bind_plan :: "'a planned \<Rightarrow> ('a \<Rightarrow> 'b planned) \<Rightarrow> 'b planned" where
  "bind_plan (Planned x) f = f x"
| "bind_plan (PlanFailed e) f = PlanFailed e"
| "bind_plan PlanPanic f = PlanPanic"

record json_env =
  je_decode :: json_decode
  je_marshal :: "(string \<times> json) list \<Rightarrow> string option"
  je_string :: "string \<Rightarrow> string"
  je_format :: "json \<Rightarrow> string"

text \<open>\<open>json.Unmarshal\<close> into a \<open>map[string]interface\<close>: \<open>null\<close> leaves the map nil.\<close>

datatype json_map = NotAMap | NilMap | JsonMap "(string \<times> json) list"

definition unmarshal_map :: "json_env \<Rightarrow> string \<Rightarrow> json_map" where
  "unmarshal_map J s = (case je_decode J s of Some (JObj kvs) \<Rightarrow> JsonMap kvs | Some JNull \<Rightarrow> NilMap | _ \<Rightarrow> NotAMap)"

subsection \<open>Tokens\<close>

definition AuthRoleAttacker :: string where "AuthRoleAttacker = ''attacker''"
definition AuthRoleVictim :: string where "AuthRoleVictim = ''victim''"
definition AuthRoleAdmin :: string where "AuthRoleAdmin = ''admin''"

definition usableToken :: "string \<Rightarrow> bool" where
  "usableToken token \<longleftrightarrow> trim_space token \<noteq> [] \<and> trim_space token \<noteq> Marker"

definition normalize_context :: "string gomap \<Rightarrow> string \<times> string \<Rightarrow> string gomap" where
  "normalize_context normalized = (\<lambda>(role0, token0).
     (let role = to_lower (trim_space role0); token = trim_space token0 in
      if token = [] \<or> token = Marker then normalized
      else if role \<in> {AuthRoleAttacker, AuthRoleVictim, AuthRoleAdmin} then AList.update role token normalized
      else normalized))"

definition normalizeAuthContexts :: "string gomap \<Rightarrow> string gomap" where
  "normalizeAuthContexts authContexts = foldl normalize_context [] authContexts"

definition pickContextToken :: "string gomap \<Rightarrow> string \<Rightarrow> string" where
  "pickContextToken authContexts role =
     (let token = trim_space (str_at authContexts (to_lower (trim_space role))) in if usableToken token then token else [])"

fun firstContextToken :: "string gomap \<Rightarrow> string list \<Rightarrow> string" where
  "firstContextToken authContexts [] = []"
| "firstContextToken authContexts (role # roles) =
     (let token = pickContextToken authContexts role in if token \<noteq> [] then token else firstContextToken authContexts roles)"

definition pickToken :: "string \<Rightarrow> api_inventory \<Rightarrow> nat \<Rightarrow> string" where
  "pickToken reqManualToken inventory i =
     (if usableToken reqManualToken then reqManualToken
      else (let authHeaders = strs_at (inv_SampleHeaders inventory) ''Authorization'' in
        if i < length authHeaders \<and> usableToken (authHeaders ! i) then authHeaders ! i else []))"

definition splitAuthHeader :: "string \<Rightarrow> string \<times> string" where
  "splitAuthHeader originalAuthHeader =
     (let parts = split_on (CHR '' '') originalAuthHeader in
      if length parts = 2 then (parts ! 0 @ '' '', parts ! 1) else ([], originalAuthHeader))"

text \<open>\<open>json.Marshal\<close> of a map, its error ignored; a nil map is \<open>null\<close>.\<close>

definition marshal_or_empty :: "json_env \<Rightarrow> json_map \<Rightarrow> string" where
  "marshal_or_empty J m = (case m of
     JsonMap kvs \<Rightarrow> (case je_marshal J kvs of None \<Rightarrow> [] | Some out \<Rightarrow> out) | _ \<Rightarrow> ''null'')"

definition forgeNoneToken :: "json_env \<Rightarrow> string \<Rightarrow> string planned" where
  "forgeNoneToken J originalAuthHeader =
     (let (prefix0, token) = splitAuthHeader originalAuthHeader; jwtParts = split_on (CHR ''.'') token in
      if length jwtParts \<noteq> 3 then PlanFailed InvalidJWT
      else (case DecodeString (jwtParts ! 0) of
          None \<Rightarrow> PlanFailed HeaderNotBase64
        | Some headerBytes \<Rightarrow>
            (case unmarshal_map J headerBytes of
               NotAMap \<Rightarrow> PlanFailed HeaderNotJSON
             | NilMap \<Rightarrow> PlanPanic
             | JsonMap headerMap \<Rightarrow>
                 (let newHeader = AList.update ''typ'' (JStr ''JWT'') (AList.update ''alg'' (JStr ''none'') headerMap);
                      newHeaderStr = EncodeToString (marshal_or_empty J (JsonMap newHeader))
                  in case DecodeString (jwtParts ! 1) of
                    None \<Rightarrow> PlanFailed PayloadNotBase64
                  | Some payloadBytes \<Rightarrow>
                      (case unmarshal_map J payloadBytes of
                         NotAMap \<Rightarrow> PlanFailed PayloadNotJSON
                       | payloadMap \<Rightarrow>
                           Planned (prefix0 @ newHeaderStr @ ''.'' @ EncodeToString (marshal_or_empty J payloadMap) @ ''.''))))))"

text \<open>\<open>string(c)\<close> of a byte: the UTF-8 text of the code point.\<close>

definition string_of_byte :: "nat \<Rightarrow> string" where
  "string_of_byte b = (if b < 128 then [char_of b] else [char_of (192 + b div 64), char_of (128 + b mod 64)])"

definition tamperSignature :: "string \<Rightarrow> string planned" where
  "tamperSignature originalAuthHeader =
     (let (prefix0, token) = splitAuthHeader originalAuthHeader; jwtParts = split_on (CHR ''.'') token in
      if length jwtParts \<noteq> 3 then PlanFailed InvalidJWT
      else (let sig = jwtParts ! 2 in
        if sig = [] then PlanFailed SignatureEmpty
        else (let newChar = (byte (last sig) + 1) mod 256; newSig = butlast sig @ string_of_byte newChar
          in Planned (prefix0 @ jwtParts ! 0 @ ''.'' @ jwtParts ! 1 @ ''.'' @ newSig))))"

definition with_legacy_token :: "string \<Rightarrow> string gomap \<Rightarrow> string gomap" where
  "with_legacy_token legacy contexts =
     (if usableToken legacy then
        (let c1 = (if map_of contexts AuthRoleAttacker = None then AList.update AuthRoleAttacker legacy contexts else contexts)
         in if map_of c1 AuthRoleVictim = None then AList.update AuthRoleVictim legacy c1 else c1)
      else contexts)"

definition victim_token :: "string gomap \<Rightarrow> api_inventory \<Rightarrow> string" where
  "victim_token contexts inventory =
     (let validToken = pickContextToken contexts AuthRoleVictim in
      if validToken = [] then pickToken [] inventory 0 else validToken)"

definition resolveAuthTokenFromContexts ::
  "json_env \<Rightarrow> string \<Rightarrow> api_inventory \<Rightarrow> string gomap \<Rightarrow> string \<Rightarrow> string planned" where
  "resolveAuthTokenFromContexts J testType inventory authContexts legacyManualToken =
     (let contexts = with_legacy_token legacyManualToken (normalizeAuthContexts authContexts) in
      if testType \<in> {''BOLA'', ''BOLA_PARAMETER_POLLUTION''} then
        (let token0 = pickContextToken contexts AuthRoleAttacker;
             token = (if token0 = [] then pickToken [] inventory 1 else token0)
         in if token = [] then PlanFailed BOLARequiresAttacker else Planned token)
      else if testType = ''BROKEN_USER_AUTH'' then Planned []
      else if testType = ''JWT_NONE_ALGO'' then
        (let validToken = victim_token contexts inventory in
         if validToken = [] then PlanFailed NoneRequiresVictim
         else (case forgeNoneToken J validToken of PlanFailed e \<Rightarrow> PlanFailed (ForgeFailed e) | forged \<Rightarrow> forged))
      else if testType = ''JWT_INVALID_SIGNATURE'' then
        (let validToken = victim_token contexts inventory in
         if validToken = [] then PlanFailed SignatureRequiresVictim else tamperSignature validToken)
      else (let token = firstContextToken contexts [AuthRoleVictim, AuthRoleAttacker, AuthRoleAdmin] in
        Planned (if token \<noteq> [] then token else pickToken [] inventory 0)))"

text \<open>The older resolution from one manual token; its messages differ, its cases do not.\<close>

definition resolveAuthToken :: "json_env \<Rightarrow> string \<Rightarrow> api_inventory \<Rightarrow> string \<Rightarrow> string planned" where
  "resolveAuthToken J testType inventory reqManualToken =
     (if testType \<in> {''BOLA'', ''BOLA_PARAMETER_POLLUTION''} then
        (let token = pickToken reqManualToken inventory 1 in
         if token = [] then PlanFailed BOLARequiresAttacker else Planned token)
      else if testType = ''BROKEN_USER_AUTH'' then Planned []
      else if testType = ''JWT_NONE_ALGO'' then
        (let validToken = pickToken reqManualToken inventory 0 in
         if validToken = [] then PlanFailed NoneRequiresVictim
         else (case forgeNoneToken J validToken of PlanFailed e \<Rightarrow> PlanFailed (ForgeFailed e) | forged \<Rightarrow> forged))
      else if testType = ''JWT_INVALID_SIGNATURE'' then
        (let validToken = pickToken reqManualToken inventory 0 in
         if validToken = [] then PlanFailed SignatureRequiresVictim else tamperSignature validToken)
      else Planned (pickToken reqManualToken inventory 0))"

subsection \<open>Method, path and body\<close>

definition resolveMethod :: "string \<Rightarrow> string \<Rightarrow> string \<Rightarrow> string" where
  "resolveMethod testType originalMethod reqMethod =
     (if testType = ''BFLA'' \<and> reqMethod \<noteq> [] then reqMethod
      else if testType = ''SWAGGER_CHECK'' \<or> testType = ''EXPOSED_METRICS'' then ''GET''
      else originalMethod)"

definition ensureTrailingID :: "string \<Rightarrow> string" where
  "ensureTrailingID targetPath =
     (if has_suffix targetPath ''1'' \<or> has_suffix targetPath ''0'' then targetPath
      else (if has_suffix targetPath ''/'' then targetPath else targetPath @ ''/'') @ ''1'')"

definition resolvePath :: "string \<Rightarrow> string \<Rightarrow> string \<Rightarrow> string" where
  "resolvePath testType originalPath methodToUse =
     (if testType = ''SWAGGER_CHECK'' \<or> testType = ''EXPOSED_METRICS'' then []
      else if testType = ''BFLA'' \<and> methodToUse = ''DELETE'' then ensureTrailingID originalPath
      else originalPath)"

definition resolveBody :: "string \<Rightarrow> string \<Rightarrow> string \<Rightarrow> string" where
  "resolveBody testType methodToUse sampleBody =
     (if testType = ''SWAGGER_CHECK'' \<or> testType = ''EXPOSED_METRICS'' then []
      else if methodToUse \<in> {''PUT'', ''PATCH'', ''POST''} \<and> (sampleBody = [] \<or> sampleBody = ''{}'') then ''{\"UserId\":1}''
      else sampleBody)"

definition flattenHeaders :: "string list gomap \<Rightarrow> string gomap" where
  "flattenHeaders headers = map (\<lambda>(k, v). (k, hd v)) (filter (\<lambda>(k, v). v \<noteq> []) headers)"

definition firstStatusCode :: "int list \<Rightarrow> int" where
  "firstStatusCode codes = (if codes \<noteq> [] then hd codes else 0)"

definition injectionPayloads :: "string \<Rightarrow> string option" where
  "injectionPayloads = map_of
     [(''REFLECTED_XSS'', ''kx7xss<svg/onload=alert(1)>''),
      (''SQL_INJECTION'', ''kx'' @ [CHR 0x27] @ ''\"'' @ [CHR 0x60] @ '')-- -''),
      (''COMMAND_INJECTION'', ''kx;id;$(id)'' @ [CHR 0x60] @ ''id'' @ [CHR 0x60]),
      (''SSRF'', ''http://169.254.169.254/latest/meta-data/'')]"

definition single_field :: "json_env \<Rightarrow> string \<Rightarrow> string" where
  "single_field J payload = ''{\"kx_input\":'' @ je_string J payload @ ''}''"

definition buildInjectionBody :: "json_env \<Rightarrow> string \<Rightarrow> string \<Rightarrow> string" where
  "buildInjectionBody J sampleBody payload =
     (case unmarshal_map J (trim_space sampleBody) of
        JsonMap (kv # kvs) \<Rightarrow>
          (let bodyMap = map (\<lambda>(key, v). (key, case v of JStr _ \<Rightarrow> JStr payload | _ \<Rightarrow> v)) (kv # kvs)
           in case je_marshal J (AList.update ''kx_input'' (JStr payload) bodyMap) of
                None \<Rightarrow> single_field J payload
              | Some out \<Rightarrow> out)
      | _ \<Rightarrow> single_field J payload)"

text \<open>\<open>url.Values\<close> written by \<open>Encode\<close>: by key, every value escaped.\<close>

definition injected_values :: "string \<Rightarrow> string \<Rightarrow> (string \<times> string) list" where
  "injected_values rawQuery payload =
     (let keys = (case ParseQuery rawQuery of None \<Rightarrow> [] | Some kvs \<Rightarrow> map fst kvs)
      in map (\<lambda>k. (k, payload)) (sort (remdups (''kx_input'' # keys))))"

definition split_query :: "string \<Rightarrow> string \<times> string" where
  "split_query originalPath = (case cut_at (CHR ''?'') originalPath of None \<Rightarrow> (originalPath, []) | Some bq \<Rightarrow> bq)"

definition buildInjectionPath :: "string \<Rightarrow> string \<Rightarrow> string" where
  "buildInjectionPath originalPath payload =
     (let (base, rawQuery) = split_query originalPath
      in base @ ''?'' @ join_with ''&'' (map query_pair (injected_values rawQuery payload)))"

definition buildMassAssignmentBody :: "json_env \<Rightarrow> string \<Rightarrow> string" where
  "buildMassAssignmentBody J sampleBody =
     (let bodyMap = (case unmarshal_map J (trim_space sampleBody) of JsonMap kvs \<Rightarrow> kvs | _ \<Rightarrow> [])
      in case je_marshal J (AList.update ''kx_role'' (JStr ''admin'') (AList.update ''kx_is_admin'' (JBool True) bodyMap)) of
           None \<Rightarrow> ''{\"kx_is_admin\":true,\"kx_role\":\"admin\"}''
         | Some out \<Rightarrow> out)"

definition interesting_key :: "string \<Rightarrow> bool" where
  "interesting_key key =
     (let lowerKey = to_lower key in
      has_suffix lowerKey ''id'' \<or> has_suffix lowerKey ''uuid'' \<or> has_suffix lowerKey ''ref'' \<or> has_suffix lowerKey ''token'' \<or>
      contains_str lowerKey ''user'' \<or> contains_str lowerKey ''account'')"

definition buildPollutedBody :: "json_env \<Rightarrow> string \<Rightarrow> string planned" where
  "buildPollutedBody J originalBody =
     (case List.find (\<lambda>kv. interesting_key (fst kv)) (case unmarshal_map J originalBody of JsonMap kvs \<Rightarrow> kvs | _ \<Rightarrow> []) of
        None \<Rightarrow> PlanFailed NoPollutableParameter
      | Some (targetParam, v) \<Rightarrow>
          (let attackerValue = je_format J v;
               victimValue = (if attackerValue = ''1'' then ''2'' else ''1'');
               quoted = ''\"'' @ targetParam @ ''\":'';
               oldPairStr = quoted @ ''\"'' @ attackerValue @ ''\"'';
               oldPairInt = quoted @ attackerValue
           in if contains_str originalBody oldPairStr then
                Planned (replace_first oldPairStr (oldPairStr @ '', '' @ quoted @ ''\"'' @ victimValue @ ''\"'') originalBody)
              else if contains_str originalBody oldPairInt then
                Planned (replace_first oldPairInt (oldPairInt @ '', '' @ quoted @ victimValue) originalBody)
              else Planned (trim_suffix (trim_space originalBody) ''}'' @ '', '' @ quoted @ ''\"'' @ victimValue @ ''\"}'')))"

definition applyOpenRedirect :: "string \<Rightarrow> string" where
  "applyOpenRedirect originalPath =
     originalPath @ (if contains_str originalPath ''?'' then ''&'' else ''?'') @ ''redirect=https://evil.example''"

definition BuildScanConfigWithAuthContexts ::
  "json_env \<Rightarrow> string \<Rightarrow> api_inventory \<Rightarrow> string gomap \<Rightarrow> string \<Rightarrow> string \<Rightarrow> string \<Rightarrow> scan_config planned" where
  "BuildScanConfigWithAuthContexts J targetBaseURL inventory authContexts legacyManualToken reqMethod testType =
     bind_plan (resolveAuthTokenFromContexts J testType inventory authContexts legacyManualToken) (\<lambda>tokenToUse.
       let methodToUse = resolveMethod testType (inv_Method inventory) reqMethod;
           path0 = resolvePath testType (inv_OriginalPath inventory) methodToUse;
           bodyToUse = resolveBody testType methodToUse (inv_SampleReqBody inventory)
       in bind_plan (if testType = ''BOLA_PARAMETER_POLLUTION'' then buildPollutedBody J (inv_SampleReqBody inventory) else Planned [])
            (\<lambda>polluted0.
          let (polluted1, path1) = (case injectionPayloads testType of
                 Some payload \<Rightarrow> (buildInjectionBody J bodyToUse payload, buildInjectionPath path0 payload)
               | None \<Rightarrow> (polluted0, path0));
              polluted2 = (if testType = ''MASS_ASSIGNMENT'' then buildMassAssignmentBody J bodyToUse else polluted1);
              path2 = (if testType = ''OPEN_REDIRECT'' then applyOpenRedirect path1 else path1)
          in Planned (zero_scan_config\<lparr>cfg_TargetURL := targetBaseURL,
               cfg_Method := inv_Method inventory,
               cfg_Path := path2,
               cfg_Body := bodyToUse,
               cfg_PollutedBody := polluted2,
               cfg_Headers := flattenHeaders (inv_SampleHeaders inventory),
               cfg_TestType := testType,
               cfg_ManualAuth := tokenToUse,
               cfg_AttackMethod := methodToUse,
               cfg_OriginalResponseBody := inv_SampleRespBody inventory,
               cfg_OriginalStatusCode := firstStatusCode (inv_StatusCodes inventory)\<rparr>)))"

definition BuildScanConfig ::
  "json_env \<Rightarrow> string \<Rightarrow> api_inventory \<Rightarrow> string \<Rightarrow> string \<Rightarrow> string \<Rightarrow> scan_config planned" where
  "BuildScanConfig J targetBaseURL inventory reqManualToken reqMethod testType =
     BuildScanConfigWithAuthContexts J targetBaseURL inventory [(AuthRoleAttacker, reqManualToken)] reqManualToken reqMethod testType"

subsection \<open>Applicability\<close>

definition sampleHasAuthorization :: "api_inventory \<Rightarrow> bool" where
  "sampleHasAuthorization inventory = list_ex usableToken (strs_at (inv_SampleHeaders inventory) ''Authorization'')"

definition endpointCarriesBody :: "api_inventory \<Rightarrow> bool" where
  "endpointCarriesBody inventory =
     (let body = trim_space (inv_SampleReqBody inventory) in
      if body \<noteq> [] \<and> body \<noteq> ''{}'' then True
      else to_upper (trim_space (inv_Method inventory)) \<in> {''POST'', ''PUT'', ''PATCH''})"

definition field_satisfied :: "api_inventory \<Rightarrow> bool \<Rightarrow> string \<Rightarrow> bool" where
  "field_satisfied inventory hasAnyAuth field0 =
     (let field = to_lower (trim_space field0) in
      if field = ''path'' then trim_space (inv_OriginalPath inventory) \<noteq> []
      else if field = ''method'' then trim_space (inv_Method inventory) \<noteq> []
      else if field = ''base_url'' then trim_space (inv_BaseURL inventory) \<noteq> []
      else if field = ''body'' then endpointCarriesBody inventory
      else if field = ''headers.authorization'' then hasAnyAuth
      else True)"

definition endpointSatisfiesFields :: "template_metadata \<Rightarrow> api_inventory \<Rightarrow> bool \<Rightarrow> bool" where
  "endpointSatisfiesFields meta inventory hasAnyAuth = list_all (field_satisfied inventory hasAnyAuth) (tm_RequiredSampleFields meta)"

definition has_attacker :: "string gomap \<Rightarrow> string \<Rightarrow> bool" where
  "has_attacker authContexts legacyManualToken \<longleftrightarrow>
     usableToken legacyManualToken \<or> pickContextToken (normalizeAuthContexts authContexts) AuthRoleAttacker \<noteq> []"

definition has_any_auth :: "api_inventory \<Rightarrow> string gomap \<Rightarrow> string \<Rightarrow> bool" where
  "has_any_auth inventory authContexts legacyManualToken \<longleftrightarrow>
     has_attacker authContexts legacyManualToken \<or>
     pickContextToken (normalizeAuthContexts authContexts) AuthRoleVictim \<noteq> [] \<or>
     pickContextToken (normalizeAuthContexts authContexts) AuthRoleAdmin \<noteq> [] \<or> sampleHasAuthorization inventory"

definition ApplicableTestTypes ::
  "registry option \<Rightarrow> api_inventory option \<Rightarrow> string gomap \<Rightarrow> string \<Rightarrow> string list" where
  "ApplicableTestTypes r inventory0 authContexts legacyManualToken =
     (case (r, inventory0) of
        (Some _, Some inventory) \<Rightarrow>
          (let hasAttacker = has_attacker authContexts legacyManualToken;
               hasAnyAuth = has_any_auth inventory authContexts legacyManualToken
           in sort (map tm_TestType (filter (\<lambda>meta. endpointSatisfiesFields meta inventory hasAnyAuth \<and>
                (tm_RequiresAttackerAuth meta \<longrightarrow> hasAttacker) \<and> (tm_RequiresAuth meta \<longrightarrow> hasAnyAuth)) (ListMetadata r))))
      | _ \<Rightarrow> [])"

subsection \<open>Lemmas\<close>

lemma usableToken_trim [simp]: "usableToken (trim_space t) = usableToken t"
  by (simp add: usableToken_def)

lemma pickContextToken_usable: "pickContextToken c role = [] \<or> usableToken (pickContextToken c role)"
  by (auto simp: pickContextToken_def Let_def)

lemma pickToken_usable: "pickToken m inventory i = [] \<or> usableToken (pickToken m inventory i)"
  by (auto simp: pickToken_def Let_def)

lemma firstContextToken_usable: "firstContextToken c roles = [] \<or> usableToken (firstContextToken c roles)"
  using pickContextToken_usable by (induction roles) (auto simp: Let_def)

lemma victim_token_usable: "victim_token c inventory = [] \<or> usableToken (victim_token c inventory)"
  using pickContextToken_usable [of c AuthRoleVictim] pickToken_usable [of "[]" inventory 0]
  by (auto simp: victim_token_def Let_def)

text \<open>A text with a dot is a usable token: the marker has none, and trimming keeps it.\<close>

lemma in_trim_space: "c \<in> set s \<Longrightarrow> \<not> is_space c \<Longrightarrow> c \<in> set (trim_space s)"
proof -
  have dw: "c \<in> set xs \<Longrightarrow> \<not> is_space c \<Longrightarrow> c \<in> set (dropWhile is_space xs)" for xs
    by (induction xs) auto
  show "c \<in> set s \<Longrightarrow> \<not> is_space c \<Longrightarrow> c \<in> set (trim_space s)"
    using dw [of "rev (dropWhile is_space s)"] dw [of s] by (simp add: trim_space_def trim_left_def trim_right_def)
qed

lemma dot_usable: "CHR ''.'' \<in> set t \<Longrightarrow> usableToken t"
proof -
  assume "CHR ''.'' \<in> set t"
  then have "CHR ''.'' \<in> set (trim_space t)" by (rule in_trim_space) (simp add: is_space_def)
  moreover have "CHR ''.'' \<notin> set Marker" by (simp add: Marker_def)
  ultimately show ?thesis unfolding usableToken_def by force
qed

lemma forgeNoneToken_usable: "forgeNoneToken J a = Planned t \<Longrightarrow> usableToken t"
  by (auto simp: forgeNoneToken_def Let_def split: prod.splits if_splits option.splits json_map.splits intro!: dot_usable)

lemma tamperSignature_usable: "tamperSignature a = Planned t \<Longrightarrow> usableToken t"
  by (auto simp: tamperSignature_def Let_def split: prod.splits if_splits intro!: dot_usable)

definition attack_tests :: "string set" where
  "attack_tests = {''BOLA'', ''BOLA_PARAMETER_POLLUTION'', ''JWT_NONE_ALGO'', ''JWT_INVALID_SIGNATURE''}"

lemma resolved_token:
  assumes "resolveAuthTokenFromContexts J testType inventory contexts legacy = Planned t"
  shows "(t = [] \<or> usableToken t) \<and> (testType \<in> attack_tests \<longrightarrow> usableToken t) \<and> (testType = ''BROKEN_USER_AUTH'' \<longrightarrow> t = [])"
  using assms pickContextToken_usable [of "with_legacy_token legacy (normalizeAuthContexts contexts)" AuthRoleAttacker]
    pickToken_usable [of "[]" inventory 1] pickToken_usable [of "[]" inventory 0]
    firstContextToken_usable [of "with_legacy_token legacy (normalizeAuthContexts contexts)" "[AuthRoleVictim, AuthRoleAttacker, AuthRoleAdmin]"]
    forgeNoneToken_usable tamperSignature_usable
  unfolding resolveAuthTokenFromContexts_def attack_tests_def Let_def
  by (simp split: if_splits planned.splits) (auto split: if_splits)

lemma bind_plan_Planned: "bind_plan x f = Planned y \<longleftrightarrow> (\<exists>z. x = Planned z \<and> f z = Planned y)"
  by (cases x) auto

lemma BuildScanConfig_token:
  assumes "BuildScanConfigWithAuthContexts J url0 inventory contexts legacy meth testType = Planned config"
  shows "resolveAuthTokenFromContexts J testType inventory contexts legacy = Planned (cfg_ManualAuth config)"
proof (cases "resolveAuthTokenFromContexts J testType inventory contexts legacy")
  case (Planned z)
  show ?thesis
  proof (cases "if testType = ''BOLA_PARAMETER_POLLUTION'' then buildPollutedBody J (inv_SampleReqBody inventory) else Planned []")
    case (Planned b)
    with \<open>_ = Planned z\<close> assms show ?thesis unfolding BuildScanConfigWithAuthContexts_def
      by (cases "injectionPayloads testType") (auto simp: Let_def)
  qed (use assms Planned in \<open>simp_all add: BuildScanConfigWithAuthContexts_def Let_def\<close>)
qed (use assms in \<open>simp_all add: BuildScanConfigWithAuthContexts_def\<close>)

lemma b64_no_space: "CHR '' '' \<notin> set (EncodeToString s)"
proof
  assume "CHR '' '' \<in> set (EncodeToString s)"
  then obtain n where "n < 64" "CHR '' '' = b64_char n" using b64_sextets_less by (auto simp: EncodeToString_def)
  with b64_char_printable [of n] have "byte (CHR '' '') > 44" by metis
  then show False by simp
qed

lemma splitAuthHeader_plain: "CHR '' '' \<notin> set t \<Longrightarrow> splitAuthHeader t = ([], t)"
  by (simp add: splitAuthHeader_def split_on_no_sep)

lemma split_dots: "CHR ''.'' \<notin> set a \<Longrightarrow> CHR ''.'' \<notin> set b \<Longrightarrow> CHR ''.'' \<notin> set c \<Longrightarrow>
  split_on (CHR ''.'') (a @ CHR ''.'' # b @ CHR ''.'' # c) = [a, b, c]"
  by (simp add: split_on_append split_on_no_sep)

text \<open>The parts of a forged token.\<close>

lemma forgeNoneToken_parts:
  assumes "forgeNoneToken J a = Planned t"
  shows "\<exists>hdr payload.
     unmarshal_map J (the (DecodeString (split_on (CHR ''.'') (snd (splitAuthHeader a)) ! 0))) = JsonMap hdr \<and>
     unmarshal_map J (the (DecodeString (split_on (CHR ''.'') (snd (splitAuthHeader a)) ! 1))) = payload \<and>
     t = fst (splitAuthHeader a) @
       EncodeToString (marshal_or_empty J (JsonMap (AList.update ''typ'' (JStr ''JWT'') (AList.update ''alg'' (JStr ''none'') hdr)))) @
       CHR ''.'' # EncodeToString (marshal_or_empty J payload) @ ''.''"
  using assms unfolding forgeNoneToken_def
  by (auto simp: Let_def split: prod.splits if_splits option.splits json_map.splits)

lemma null_header:
  "forgeNoneToken J (EncodeToString h @ CHR ''.'' # EncodeToString p @ CHR ''.'' # EncodeToString g) = PlanPanic \<longleftrightarrow>
     je_decode J h = Some JNull"
proof -
  let ?t = "EncodeToString h @ CHR ''.'' # EncodeToString p @ CHR ''.'' # EncodeToString g"
  have "CHR '' '' \<notin> set ?t" using b64_no_space by auto
  then have "splitAuthHeader ?t = ([], ?t)" by (rule splitAuthHeader_plain)
  then show ?thesis
    by (auto simp: forgeNoneToken_def split_dots Let_def unmarshal_map_def split: option.splits json.splits)
qed

lemma split_query_built:
  "split_query (buildInjectionPath path payload) =
     (fst (split_query path), join_with ''&'' (map query_pair (injected_values (snd (split_query path)) payload)))"
proof -
  obtain base q where bq: "split_query path = (base, q)" by fastforce
  then have "CHR ''?'' \<notin> set base"
    by (auto simp: split_query_def cut_at_def Let_def dropWhile_eq_Nil_conv split: list.splits option.splits dest: set_takeWhileD)
  then have "\<forall>x \<in> set base. x \<noteq> CHR ''?''" by blast
  with bq show ?thesis
    by (simp add: buildInjectionPath_def split_query_def [of "base @ CHR ''?'' # _"] cut_at_def takeWhile_append2 dropWhile_append2)
qed

lemma injected_values_not_Nil: "injected_values q payload \<noteq> []"
proof -
  have "''kx_input'' \<in> set (sort (remdups (''kx_input'' # ks)))" for ks by simp
  then have "sort (remdups (''kx_input'' # ks)) \<noteq> []" for ks by (metis empty_iff empty_set)
  then show ?thesis by (simp only: injected_values_def Let_def map_is_Nil_conv not_False_eq_True)
qed

text \<open>The attacker tests need an attacker's credentials in the registry.\<close>

lemma default_meta:
  assumes "m0 \<in> set defaultTemplates" "m \<in> set (ListMetadata (Some (DefaultTemplateRegistry entries)))" "tm_TestType m = tm_TestType m0"
  shows "m = m0"
proof -
  let ?r = "DefaultTemplateRegistry entries"
  note ok = registry_ok_DefaultTemplateRegistry [of entries]
  from assms(2,3) have "(tm_TestType m0, m) \<in> set ?r" using registry_entries [OF ok] by blast
  moreover have "distinct (map fst ?r)" using ok by (simp add: registry_ok_def)
  ultimately have "map_of ?r (tm_TestType m0) = Some m" by simp
  moreover have "map_of (foldl add_default [] defaultTemplates) (tm_TestType m0) = Some m0"
    using defaults_registered assms(1) unfolding list_all_iff by blast
  then have "map_of ?r (tm_TestType m0) = Some m0" unfolding DefaultTemplateRegistry_def by (rule discovered_keeps)
  ultimately show ?thesis by simp
qed

lemma bola_templates:
  "list_all (\<lambda>t. list_ex (\<lambda>m. tm_TestType m = t \<and> tm_RequiresAttackerAuth m) defaultTemplates)
     [''BOLA'', ''BOLA_PARAMETER_POLLUTION'']"
  by (simp add: defaultTemplates_def)

lemma applicable_attacker:
  assumes "t \<in> {''BOLA'', ''BOLA_PARAMETER_POLLUTION''}"
    and "t \<in> set (ApplicableTestTypes (Some (DefaultTemplateRegistry entries)) (Some inventory) contexts legacy)"
  shows "has_attacker contexts legacy"
proof -
  from bola_templates assms(1) have "list_ex (\<lambda>m. tm_TestType m = t \<and> tm_RequiresAttackerAuth m) defaultTemplates"
    by auto
  then obtain m0 where m0: "m0 \<in> set defaultTemplates" "tm_TestType m0 = t" "tm_RequiresAttackerAuth m0"
    unfolding list_ex_iff by blast
  from assms(2) obtain m where m: "m \<in> set (ListMetadata (Some (DefaultTemplateRegistry entries)))" "tm_TestType m = t"
    and auth: "tm_RequiresAttackerAuth m \<longrightarrow> has_attacker contexts legacy"
    by (auto simp: ApplicableTestTypes_def Let_def)
  have "m = m0" by (rule default_meta [OF m0(1) m(1)]) (simp add: m(2) m0(2))
  with m0(3) auth show ?thesis by simp
qed

lemma trim_role [simp]: "to_lower (trim_space AuthRoleAttacker) = AuthRoleAttacker"
  "to_lower (trim_space AuthRoleVictim) = AuthRoleVictim"
  by (code_simp, code_simp)

definition usable_contexts :: "string gomap \<Rightarrow> bool" where
  "usable_contexts n \<longleftrightarrow> (\<forall>k v. map_of n k = Some v \<longrightarrow> usableToken v)"

lemma usable_contexts_update: "usable_contexts n \<Longrightarrow> usableToken t \<Longrightarrow> usable_contexts (AList.update r t n)"
  by (simp add: usable_contexts_def update_conv')

lemma usable_contexts_normalized: "usable_contexts (normalizeAuthContexts contexts)"
proof -
  have step: "usable_contexts n \<Longrightarrow> usable_contexts (normalize_context n kv)" for n kv
    by (cases kv) (auto simp: normalize_context_def Let_def usableToken_def intro!: usable_contexts_update)
  have "usable_contexts n \<Longrightarrow> usable_contexts (foldl normalize_context n contexts)" for n
    by (induction contexts arbitrary: n) (simp_all add: step)
  moreover have "usable_contexts []" by (simp add: usable_contexts_def)
  ultimately show ?thesis unfolding normalizeAuthContexts_def by blast
qed

lemma picked:
  assumes "usable_contexts n" "to_lower (trim_space role) = role"
  shows "pickContextToken n role \<noteq> [] \<longleftrightarrow> map_of n role \<noteq> None"
proof (cases "map_of n role")
  case None
  then show ?thesis by (simp add: pickContextToken_def str_at_def assms(2) usableToken_def)
next
  case (Some v)
  with assms(1) have "usableToken v" unfolding usable_contexts_def by blast
  with Some show ?thesis by (simp add: pickContextToken_def str_at_def assms(2) Let_def) (simp add: usableToken_def)
qed

lemma usable_contexts_legacy: "usable_contexts n \<Longrightarrow> usable_contexts (with_legacy_token legacy n)"
  by (auto simp: with_legacy_token_def Let_def intro: usable_contexts_update)

lemma legacy_attacker:
  assumes "has_attacker contexts legacy"
  shows "pickContextToken (with_legacy_token legacy (normalizeAuthContexts contexts)) AuthRoleAttacker \<noteq> []"
proof -
  let ?n = "normalizeAuthContexts contexts"
  note n = usable_contexts_normalized [of contexts]
  have "map_of (with_legacy_token legacy ?n) AuthRoleAttacker \<noteq> None"
    using assms unfolding has_attacker_def picked [OF n trim_role(1)]
    by (auto simp: with_legacy_token_def Let_def update_conv')
  then show ?thesis using picked [OF usable_contexts_legacy [OF n] trim_role(1)] by simp
qed

text \<open>
  The converse does not hold for the JWT tests: with an admin's credentials only they count as
  applicable, and then they cannot be built.
\<close>

lemma jwt_applicable_without_victim:
  "tm_RequiresAuth m \<Longrightarrow> \<not> tm_RequiresAttackerAuth m \<Longrightarrow> tm_RequiredSampleFields m = [''headers.Authorization''] \<Longrightarrow>
     m \<in> set (ListMetadata (Some r)) \<Longrightarrow>
     tm_TestType m \<in> set (ApplicableTestTypes (Some r) (Some zero_api_inventory) [(''admin'', ''a.b.c'')] [])"
  and "resolveAuthTokenFromContexts J ''JWT_NONE_ALGO'' zero_api_inventory [(''admin'', ''a.b.c'')] [] = PlanFailed NoneRequiresVictim"
proof -
  have any: "has_any_auth zero_api_inventory [(''admin'', ''a.b.c'')] []" by code_simp
  have "to_lower (trim_space ''headers.Authorization'') = ''headers.authorization''" by code_simp
  then show "tm_RequiresAuth m \<Longrightarrow> \<not> tm_RequiresAttackerAuth m \<Longrightarrow> tm_RequiredSampleFields m = [''headers.Authorization''] \<Longrightarrow>
     m \<in> set (ListMetadata (Some r)) \<Longrightarrow>
     tm_TestType m \<in> set (ApplicableTestTypes (Some r) (Some zero_api_inventory) [(''admin'', ''a.b.c'')] [])"
    by (auto simp: ApplicableTestTypes_def Let_def any endpointSatisfiesFields_def field_satisfied_def)
  have "with_legacy_token [] (normalizeAuthContexts [(''admin'', ''a.b.c'')]) = [(''admin'', ''a.b.c'')]" by code_simp
  moreover have "victim_token [(''admin'', ''a.b.c'')] zero_api_inventory = []" by code_simp
  ultimately show "resolveAuthTokenFromContexts J ''JWT_NONE_ALGO'' zero_api_inventory [(''admin'', ''a.b.c'')] [] = PlanFailed NoneRequiresVictim"
    by (simp add: resolveAuthTokenFromContexts_def Let_def)
qed

subsection \<open>Properties\<close>

text \<open>
  The redaction marker is never used as a credential: whatever the endpoint, the
  contexts and the test type, a planned scan has no token or a usable one; the BOLA and the JWT
  tests always have one, and the test for missing authentication has none.
\<close>

theorem planned_credentials_usable:
  "case BuildScanConfigWithAuthContexts J base inventory contexts legacy meth testType of
     Planned config \<Rightarrow>
       (let t = cfg_ManualAuth config in
        if testType \<in> attack_tests then usableToken t
        else if testType = ''BROKEN_USER_AUTH'' then t = []
        else t = [] \<or> usableToken t)
   | _ \<Rightarrow> True"
proof (cases "BuildScanConfigWithAuthContexts J base inventory contexts legacy meth testType")
  case (Planned config)
  from resolved_token [OF BuildScanConfig_token [OF Planned]] show ?thesis by (simp add: Planned Let_def)
qed simp_all

text \<open>
  Property C32. A tampered signature is still the signature: for a JWT whose signature has a length
  that is no multiple of three bytes (the 32 bytes of HS256, the 64 of ES256 and HS512, the 256 of
  RS256), the token that \<open>tamperSignature\<close> returns has the same header and payload, and its last
  part decodes to the same signature bytes. (\<open>JWT_INVALID_SIGNATURE\<close> means to send an invalid
  signature, but a verifier with a decoder like Go's accepts this one.)
\<close>

theorem tampered_signature_verifies:
  assumes "length sig mod 3 \<noteq> 0"
  shows "\<exists>s'. tamperSignature (EncodeToString h @ CHR ''.'' # EncodeToString p @ CHR ''.'' # EncodeToString sig)
      = Planned (EncodeToString h @ CHR ''.'' # EncodeToString p @ CHR ''.'' # s') \<and> DecodeString s' = Some sig"
proof -
  let ?t = "EncodeToString h @ CHR ''.'' # EncodeToString p @ CHR ''.'' # EncodeToString sig"
  have "CHR '' '' \<notin> set ?t" using b64_no_space by auto
  then have "splitAuthHeader ?t = ([], ?t)" by (rule splitAuthHeader_plain)
  then have "tamperSignature ?t = Planned (EncodeToString h @ CHR ''.'' # EncodeToString p @ CHR ''.'' #
      butlast (EncodeToString sig) @ [char_of (byte (last (EncodeToString sig)) + 1)])"
    using next_last_char_same_bytes(2,3) [OF assms]
    by (simp add: tamperSignature_def split_dots Let_def string_of_byte_def)
  with next_last_char_same_bytes(1) [OF assms] show ?thesis by blast
qed

theorem tampered_signature_verifies_witness:
  "\<exists>s'. tamperSignature (EncodeToString ''{}'' @ CHR ''.'' # EncodeToString ''{}'' @ CHR ''.'' # EncodeToString ''signature!'')
      = Planned (EncodeToString ''{}'' @ CHR ''.'' # EncodeToString ''{}'' @ CHR ''.'' # s') \<and> DecodeString s' = Some ''signature!''"
  by (rule tampered_signature_verifies) simp

text \<open>
  A forged token is what it claims: its first part decodes to the header of the
  original token with \<open>alg\<close> set to \<open>none\<close>, \<open>typ\<close> to \<open>JWT\<close> and every other
  entry kept, its second part to the payload as it was parsed, and its signature is empty; and the
  forging panics exactly for a header that is the JSON text \<open>null\<close>.
\<close>

theorem forged_token_decodes:
  "(case forgeNoneToken J a of
      Planned t \<Rightarrow>
        (\<exists>hdr hdr' payload h p.
          unmarshal_map J (the (DecodeString (split_on (CHR ''.'') (snd (splitAuthHeader a)) ! 0))) = JsonMap hdr \<and>
          unmarshal_map J (the (DecodeString (split_on (CHR ''.'') (snd (splitAuthHeader a)) ! 1))) = payload \<and>
          t = fst (splitAuthHeader a) @ h @ CHR ''.'' # p @ ''.'' \<and>
          DecodeString h = Some (marshal_or_empty J (JsonMap hdr')) \<and> DecodeString p = Some (marshal_or_empty J payload) \<and>
          map_of hdr' = (map_of hdr)(''alg'' \<mapsto> JStr ''none'', ''typ'' \<mapsto> JStr ''JWT''))
    | _ \<Rightarrow> True) \<and>
   (forgeNoneToken J (EncodeToString h0 @ CHR ''.'' # EncodeToString p0 @ CHR ''.'' # EncodeToString g0) = PlanPanic \<longleftrightarrow>
      je_decode J h0 = Some JNull)"
proof (rule conjI [OF _ null_header])
  show "case forgeNoneToken J a of
      Planned t \<Rightarrow>
        (\<exists>hdr hdr' payload h p.
          unmarshal_map J (the (DecodeString (split_on (CHR ''.'') (snd (splitAuthHeader a)) ! 0))) = JsonMap hdr \<and>
          unmarshal_map J (the (DecodeString (split_on (CHR ''.'') (snd (splitAuthHeader a)) ! 1))) = payload \<and>
          t = fst (splitAuthHeader a) @ h @ CHR ''.'' # p @ ''.'' \<and>
          DecodeString h = Some (marshal_or_empty J (JsonMap hdr')) \<and> DecodeString p = Some (marshal_or_empty J payload) \<and>
          map_of hdr' = (map_of hdr)(''alg'' \<mapsto> JStr ''none'', ''typ'' \<mapsto> JStr ''JWT''))
    | _ \<Rightarrow> True"
  proof (cases "forgeNoneToken J a")
    case (Planned t)
    from forgeNoneToken_parts [OF this] obtain hdr payload where
      "unmarshal_map J (the (DecodeString (split_on (CHR ''.'') (snd (splitAuthHeader a)) ! 0))) = JsonMap hdr"
      "unmarshal_map J (the (DecodeString (split_on (CHR ''.'') (snd (splitAuthHeader a)) ! 1))) = payload"
      "t = fst (splitAuthHeader a) @
       EncodeToString (marshal_or_empty J (JsonMap (AList.update ''typ'' (JStr ''JWT'') (AList.update ''alg'' (JStr ''none'') hdr)))) @
       CHR ''.'' # EncodeToString (marshal_or_empty J payload) @ ''.''" by blast
    then show ?thesis unfolding Planned planned.case
      by (intro exI conjI) (assumption | rule DecodeString_EncodeToString | simp add: update_conv')+
  qed simp_all
qed

text \<open>
  An injection reaches every query parameter: the built path has the base of the
  original, its query parses, its keys are the keys of the original query (none when that does not
  parse) and \<open>kx_input\<close>, each once, and every value is the payload.
\<close>

theorem injection_path_carries_payload:
  "(let (base, query) = split_query path; (base', query') = split_query (buildInjectionPath path payload);
        keys = (case ParseQuery query of None \<Rightarrow> [] | Some kvs \<Rightarrow> map fst kvs)
    in base' = base \<and>
       (case ParseQuery query' of
          None \<Rightarrow> False
        | Some kvs \<Rightarrow> set (map fst kvs) = insert ''kx_input'' (set keys) \<and> distinct (map fst kvs) \<and> list_all (\<lambda>kv. snd kv = payload) kvs))"
proof -
  obtain base q where bq: "split_query path = (base, q)" by fastforce
  define ks where "ks = (case ParseQuery q of None \<Rightarrow> [] | Some kvs \<Rightarrow> map fst kvs)"
  have m: "map fst (injected_values q payload) = sort (remdups (''kx_input'' # ks))"
    unfolding ks_def by (simp add: injected_values_def Let_def comp_def)
  have "set (map fst (injected_values q payload)) = insert ''kx_input'' (set ks)" "distinct (map fst (injected_values q payload))"
    unfolding m by (simp_all only: set_sort set_remdups list.set distinct_sort distinct_remdups)
  moreover have "list_all (\<lambda>kv. snd kv = payload) (injected_values q payload)"
    by (auto simp: injected_values_def Let_def list_all_iff)
  ultimately show ?thesis
    unfolding split_query_built bq Let_def prod.case fst_conv snd_conv ks_def [symmetric]
      ParseQuery_pairs [OF injected_values_not_Nil] option.case by (intro conjI refl)
qed

text \<open>
  A BOLA test that is offered can be authenticated: when \<open>ApplicableTestTypes\<close>
  lists a test that needs an attacker, whatever the community files, the credentials resolve to a
  usable token.
\<close>

theorem applicable_bola_has_attacker:
  "if t \<in> {''BOLA'', ''BOLA_PARAMETER_POLLUTION''} \<and>
      t \<in> set (ApplicableTestTypes (Some (DefaultTemplateRegistry entries)) (Some inventory) contexts legacy)
   then (case resolveAuthTokenFromContexts J t inventory contexts legacy of Planned tok \<Rightarrow> usableToken tok | _ \<Rightarrow> False)
   else True"
proof (cases "t \<in> {''BOLA'', ''BOLA_PARAMETER_POLLUTION''} \<and>
    t \<in> set (ApplicableTestTypes (Some (DefaultTemplateRegistry entries)) (Some inventory) contexts legacy)")
  case True
  then have "pickContextToken (with_legacy_token legacy (normalizeAuthContexts contexts)) AuthRoleAttacker \<noteq> []"
    using applicable_attacker legacy_attacker by blast
  moreover from this have "usableToken (pickContextToken (with_legacy_token legacy (normalizeAuthContexts contexts)) AuthRoleAttacker)"
    using pickContextToken_usable by blast
  ultimately show ?thesis using True by (auto simp: resolveAuthTokenFromContexts_def Let_def)
qed (rule if_not_P [THEN iffD2], assumption, rule TrueI)

end
