(* ===== verification/Doc_Bulk.thy ===== *)
theory Doc_Bulk
  imports Doc_Store
begin

text \<open>
  The operations of a collection on several documents: \<open>Find\<close> with a sort and a skip,
  \<open>UpdateMany\<close>, \<open>DeleteMany\<close> and \<open>DeleteOne\<close>. They are not atomic: after an error each
  selected document has been treated or not. The locale \<open>bulk_store\<close> extends \<open>doc_store\<close>
  with what the code relies on, and the in-memory collection satisfies it.
\<close>

record ('c, 'd) bulk =
  bulk_find :: "'c \<Rightarrow> ('d \<Rightarrow> bool) \<Rightarrow> ('d \<Rightarrow> int) \<Rightarrow> nat \<Rightarrow> db_error + 'd list"
  bulk_update :: "'c \<Rightarrow> ('d \<Rightarrow> bool) \<Rightarrow> ('d \<Rightarrow> 'd) \<Rightarrow> 'c \<times> db_error option"
  bulk_delete :: "'c \<Rightarrow> ('d \<Rightarrow> bool) \<Rightarrow> 'c \<times> db_error option"

text \<open>All documents that a filter selects, in the order of the sort.\<close>

definition selected_docs :: "('k \<Rightarrow> 'd option) \<Rightarrow> ('d \<Rightarrow> 'k) \<Rightarrow> ('d \<Rightarrow> bool) \<Rightarrow> ('d \<Rightarrow> int) \<Rightarrow> 'd list \<Rightarrow> bool" where
  "selected_docs m key f srt ds \<longleftrightarrow>
     distinct (map key ds) \<and> sorted (map srt ds) \<and> (\<forall>d. d \<in> set ds \<longleftrightarrow> f d \<and> m (key d) = Some d)"

locale bulk_store = doc_store M for M :: "('c, 'k, 'd) coll" +
  fixes B :: "('c, 'd) bulk"
  assumes find_many: "coll_ok M c \<Longrightarrow> bulk_find B c f srt skip = Inr ds \<Longrightarrow>
      \<exists>full. selected_docs (coll_docs M c) (coll_key M) f srt full \<and> ds = drop skip full"
    and update_many_ok: "coll_ok M c \<Longrightarrow> (\<And>d. coll_key M (u d) = coll_key M d) \<Longrightarrow>
      bulk_update B c f u = (c', rb) \<Longrightarrow> coll_ok M c'"
    and update_many: "coll_ok M c \<Longrightarrow> (\<And>d. coll_key M (u d) = coll_key M d) \<Longrightarrow>
      bulk_update B c f u = (c', rb) \<Longrightarrow>
      coll_docs M c' k = coll_docs M c k \<or> (\<exists>d. coll_docs M c k = Some d \<and> f d \<and> coll_docs M c' k = Some (u d))"
    and update_many_all: "coll_ok M c \<Longrightarrow> (\<And>d. coll_key M (u d) = coll_key M d) \<Longrightarrow>
      bulk_update B c f u = (c', None) \<Longrightarrow> coll_docs M c k = Some d \<Longrightarrow> f d \<Longrightarrow> coll_docs M c' k = Some (u d)"
    and delete_many_ok: "coll_ok M c \<Longrightarrow> bulk_delete B c f = (c', rb) \<Longrightarrow> coll_ok M c'"
    and delete_many: "coll_ok M c \<Longrightarrow> bulk_delete B c f = (c', rb) \<Longrightarrow>
      coll_docs M c' k = coll_docs M c k \<or> (\<exists>d. coll_docs M c k = Some d \<and> f d \<and> coll_docs M c' k = None)"
    and delete_many_all: "coll_ok M c \<Longrightarrow> bulk_delete B c f = (c', None) \<Longrightarrow>
      coll_docs M c k = Some d \<Longrightarrow> f d \<Longrightarrow> coll_docs M c' k = None"
begin

lemma delete_many_None: "coll_ok M c \<Longrightarrow> bulk_delete B c f = (c', rb) \<Longrightarrow> coll_docs M c k = None \<Longrightarrow> coll_docs M c' k = None"
  using delete_many [of c f c' rb k] by auto

end

subsection \<open>The in-memory collection\<close>

definition mem_bulk :: "('d list, 'd) bulk" where
  "mem_bulk =
     \<lparr>bulk_find = (\<lambda>ds f srt skip. Inr (drop skip (sort_key srt (filter f ds)))),
      bulk_update = (\<lambda>ds f u. (map (\<lambda>d. if f d then u d else d) ds, None)),
      bulk_delete = (\<lambda>ds f. (filter (\<lambda>d. \<not> f d) ds, None))\<rparr>"

lemma mem_selected:
  assumes "distinct (map key ds)"
  shows "selected_docs (mem_docs key ds) key f srt (sort_key srt (filter f ds))"
proof -
  have "distinct (map key (sort_key srt (filter f ds)))"
    using assms by (auto simp: distinct_map distinct_filter intro: inj_on_subset)
  with assms show ?thesis by (auto simp: selected_docs_def mem_docs_Some)
qed

lemma mem_docs_map:
  "(\<And>d. key (u d) = key d) \<Longrightarrow> mem_docs key (map u ds) k = map_option u (mem_docs key ds k)"
  by (induction ds) (auto simp: mem_docs_def)

lemma mem_docs_filter:
  "distinct (map key ds) \<Longrightarrow>
   mem_docs key (filter P ds) k = (case mem_docs key ds k of None \<Rightarrow> None | Some d \<Rightarrow> if P d then Some d else None)"
proof (induction ds)
  case (Cons a ds)
  then have "key a \<notin> set (map key ds)" by simp
  then have "mem_docs key ds (key a) = None" by (simp add: mem_docs_None)
  with Cons show ?case by (auto simp: mem_docs_def)
qed (simp add: mem_docs_def)

lemma mem_bulk_store: "bulk_store (mem_coll key) mem_bulk"
proof -
  have eq: "key (if f d then u d else d) = key d" if "\<And>d. key (u d) = key d" for f u d by (simp add: that)
  show ?thesis
  proof (rule bulk_store.intro [OF mem_coll_store], rule bulk_store_axioms.intro, goal_cases)
    case (1 c f srt skip ds)
    then show ?case
      by (intro exI [of _ "sort_key srt (filter f c)"]) (simp add: mem_coll_def mem_bulk_def mem_selected)
  next
    case (2 c u f c' r)
    then show ?case by (auto simp: mem_coll_def mem_bulk_def comp_def eq)
  next
    case (3 c u f c' r k)
    then have "key (if f d then u d else d) = key d" for d by (simp add: mem_coll_def)
    with 3 show ?case
      by (cases "mem_docs key c k") (auto simp: mem_coll_def mem_bulk_def mem_docs_map split: if_splits)
  next
    case (4 c u f c' k d)
    then have "key (if f d then u d else d) = key d" for d by (simp add: mem_coll_def)
    with 4 show ?case by (auto simp: mem_coll_def mem_bulk_def mem_docs_map split: if_splits)
  next
    case (5 c f c' r)
    then show ?case by (auto simp: mem_coll_def mem_bulk_def distinct_map intro: inj_on_subset)
  next
    case (6 c f c' r k)
    then show ?case by (auto simp: mem_coll_def mem_bulk_def mem_docs_filter split: option.split)
  next
    case (7 c f c' k d)
    then show ?case by (auto simp: mem_coll_def mem_bulk_def mem_docs_filter)
  qed
qed

end
