(* ===== verification/Http_Auth.thy ===== *)
theory Http_Auth
  imports Core_Models Go_Url "HOL-Library.AList"
begin

text \<open>
  The HTTP middleware of the API, \<open>internal/api/middleware.go\<close>, with the roles of
  \<open>rbac.go\<close> and the order in which \<open>server.go\<close> wraps the routes. A handler is a
  function of the request, the response headers written so far and the state; it answers or panics.
  A middleware takes the next handler, as in the code, so a request that a middleware turns away
  never reaches it. Session lookup, the Redis rate limiter, the token bucket of
  \<open>golang.org/x/time/rate\<close> and SHA-256 are arguments.
\<close>

subsection \<open>Requests and answers\<close>

record principal =
  pr_Subject :: string
  pr_ActorType :: string
  pr_UserID :: string
  pr_AccountID :: string
  pr_Role :: string

text \<open>
  \<open>rx_Header\<close> is \<open>Header.Get\<close>; \<open>rx_Subject\<close> and \<open>rx_Principal\<close> are the two
  values of the request's context; \<open>rx_BodyLimit\<close> is the limit of a \<open>MaxBytesReader\<close>
  around the body.
\<close>

record http_req =
  rx_Method :: string
  rx_Path :: string
  rx_Header :: "string \<Rightarrow> string"
  rx_RemoteAddr :: string
  rx_HasBody :: bool
  rx_BodyLimit :: "int option"
  rx_Subject :: "string option"
  rx_Principal :: "principal option"

text \<open>What the handlers leave in the audit log.\<close>

record audit_log =
  adt_ID :: object_id
  adt_CreatedAt :: gotime
  adt_ActorType :: string
  adt_ActorID :: string
  adt_Action :: string
  adt_ResourceType :: string
  adt_ResourceID :: string
  adt_Status :: string
  adt_RemoteAddr :: string
  adt_Message :: string
  adt_Metadata :: "string gomap"

datatype outcome = Panicked | Answered nat string

type_synonym 'w handler = "http_req \<Rightarrow> string gomap \<Rightarrow> 'w \<Rightarrow> 'w \<times> string gomap \<times> outcome"

definition http_Error :: "string gomap \<Rightarrow> string \<Rightarrow> nat \<Rightarrow> 'w \<Rightarrow> 'w \<times> string gomap \<times> outcome" where
  "http_Error hdr msg code w =
     (w, AList.update ''X-Content-Type-Options'' ''nosniff''
           (AList.update ''Content-Type'' ''text/plain; charset=utf-8'' (AList.delete ''Content-Length'' hdr)),
      Answered code msg)"

text \<open>\<open>net.SplitHostPort\<close>: the host of \<open>host:port\<close> or \<open>[host]:port\<close>.\<close>

definition SplitHostPort_host :: "string \<Rightarrow> string option" where
  "SplitHostPort_host hostport =
     (case cut_last (CHR '':'') hostport of
        None \<Rightarrow> None
      | Some (before_colon, port) \<Rightarrow>
          if hostport \<noteq> [] \<and> hd hostport = CHR ''[''
          then (case cut_at (CHR '']'') (tl hostport) of
                  None \<Rightarrow> None
                | Some (host, rest) \<Rightarrow>
                    if before_colon = CHR ''['' # host @ '']'' \<and> CHR ''['' \<notin> set (host @ '']'' @ rest) \<and> CHR '']'' \<notin> set rest
                    then Some host else None)
          else if CHR '':'' \<in> set before_colon \<or> CHR ''['' \<in> set hostport \<or> CHR '']'' \<in> set hostport then None
          else Some before_colon)"

subsection \<open>Helpers\<close>

definition api_bearerToken :: "string \<Rightarrow> string" where
  "api_bearerToken header =
     (let parts = str_fields header in
      if length parts \<noteq> 2 \<or> \<not> equal_fold (parts ! 0) ''Bearer'' then [] else parts ! 1)"

definition clientID :: "http_req \<Rightarrow> string" where
  "clientID r =
     (let xff = rx_Header r ''X-Forwarded-For''; xrip = rx_Header r ''X-Real-IP'' in
      if xff \<noteq> [] then trim_space (split_on (CHR '','') xff ! 0)
      else if xrip \<noteq> [] then trim_space xrip
      else (case SplitHostPort_host (rx_RemoteAddr r) of Some host \<Rightarrow> host | None \<Rightarrow> rx_RemoteAddr r))"

definition constantTimeEqual :: "(string \<Rightarrow> string) \<Rightarrow> string \<Rightarrow> string \<Rightarrow> bool" where
  "constantTimeEqual sha actual expected \<longleftrightarrow> sha actual = sha expected"

definition isIngestionPath :: "string \<Rightarrow> bool" where
  "isIngestionPath path \<longleftrightarrow> path = ''/v1/ingest/conversations'' \<or> path = ''/ingest''"

definition isExemptPath :: "string \<Rightarrow> bool" where
  "isExemptPath path \<longleftrightarrow>
     (if isIngestionPath path then True
      else if has_prefix path ''/auth/oauth/'' then True
      else path \<in> {''/auth/signup'', ''/auth/login'', ''/auth/refresh'', ''/agents/register'', ''/agents/heartbeat'', ''/agents/config''})"

definition isWriteMethod :: "string \<Rightarrow> bool" where
  "isWriteMethod m \<longleftrightarrow> m \<in> {''POST'', ''PUT'', ''PATCH'', ''DELETE''}"

definition originSet :: "string list \<Rightarrow> string set" where
  "originSet origins = set (filter (\<lambda>s. s \<noteq> []) (map trim_space origins))"

definition UserRoleAdmin :: string where "UserRoleAdmin = ''admin''"
definition UserRoleAnalyst :: string where "UserRoleAnalyst = ''analyst''"
definition UserRoleScanner :: string where "UserRoleScanner = ''scanner''"
definition UserRoleReadOnly :: string where "UserRoleReadOnly = ''read_only''"

lemmas role_defs = UserRoleAdmin_def UserRoleAnalyst_def UserRoleScanner_def UserRoleReadOnly_def

definition normalizeAPIKeyRole :: "string \<Rightarrow> string" where
  "normalizeAPIKeyRole role0 =
     (let role = trim_space role0 in
      if role \<in> {UserRoleAdmin, UserRoleAnalyst, UserRoleScanner, UserRoleReadOnly} then role else UserRoleAdmin)"

subsection \<open>The middleware\<close>

text \<open>
  \<open>m.clients\<close> maps a key to its token bucket and the time it was last seen. The two functions
  stand for the bucket of the rate package: a new one, and \<open>Allow\<close> at a time.
\<close>

record 'l limiters =
  lm_clients :: "('l \<times> int) gomap"
  lm_lastCleanup :: int

record ('l, 'w) middleware =
  mw_apiKey :: string
  mw_apiKeyAccountID :: string
  mw_apiKeyRole :: string
  mw_sessionAuth :: "('w \<Rightarrow> string \<Rightarrow> principal option) option"
  mw_rateLimiter :: "('w \<Rightarrow> string \<Rightarrow> int \<Rightarrow> int \<Rightarrow> 'w \<times> (string + bool)) option"
  mw_burst :: int
  mw_rateLimitWindow :: int
  mw_allowedOrigins :: "string set"
  mw_maxWriteBodyBytes :: int
  mw_sha :: "string \<Rightarrow> string"
  mw_hex8 :: "string \<Rightarrow> string"
  mw_new_limiter :: 'l
  mw_limiter_Allow :: "int \<Rightarrow> 'l \<Rightarrow> 'l \<times> bool"
  mw_now :: int

record 'w middleware_options =
  mo_APIKey :: string
  mo_APIKeyAccountID :: string
  mo_APIKeyRole :: string
  mo_SessionAuth :: "('w \<Rightarrow> string \<Rightarrow> principal option) option"
  mo_RateLimiter :: "('w \<Rightarrow> string \<Rightarrow> int \<Rightarrow> int \<Rightarrow> 'w \<times> (string + bool)) option"
  mo_RateLimitWindow :: int
  mo_AllowedOrigins :: "string list"
  mo_MaxWriteBodyBytes :: int

definition DefaultMaxWriteBodyBytes :: int where
  "DefaultMaxWriteBodyBytes = 1 * 1024 * 1024"

definition with_defaults :: "'w middleware_options \<Rightarrow> 'w middleware_options" where
  "with_defaults opts =
     (let o1 = (if mo_AllowedOrigins opts = [] then opts\<lparr>mo_AllowedOrigins := [''http://localhost:7000'']\<rparr> else opts);
          o2 = (if mo_MaxWriteBodyBytes o1 \<le> 0 then o1\<lparr>mo_MaxWriteBodyBytes := DefaultMaxWriteBodyBytes\<rparr> else o1)
      in if mo_RateLimitWindow o2 \<le> 0 then o2\<lparr>mo_RateLimitWindow := second\<rparr> else o2)"

text \<open>The buckets take requests at \<open>rps\<close>, which is part of \<open>new_limiter\<close> and of its \<open>Allow\<close>.\<close>

definition NewMiddleware ::
  "(string \<Rightarrow> string) \<Rightarrow> (string \<Rightarrow> string) \<Rightarrow> 'l \<Rightarrow> (int \<Rightarrow> 'l \<Rightarrow> 'l \<times> bool) \<Rightarrow> int \<Rightarrow> int \<Rightarrow> 'w middleware_options \<Rightarrow> ('l, 'w) middleware" where
  "NewMiddleware sha hex8 new_lim lim_allow now burst opts0 =
     (let opts = with_defaults opts0 in
      \<lparr>mw_apiKey = trim_space (mo_APIKey opts), mw_apiKeyAccountID = trim_space (mo_APIKeyAccountID opts),
       mw_apiKeyRole = normalizeAPIKeyRole (mo_APIKeyRole opts), mw_sessionAuth = mo_SessionAuth opts,
       mw_rateLimiter = mo_RateLimiter opts, mw_burst = burst, mw_rateLimitWindow = mo_RateLimitWindow opts,
       mw_allowedOrigins = originSet (mo_AllowedOrigins opts), mw_maxWriteBodyBytes = mo_MaxWriteBodyBytes opts,
       mw_sha = sha, mw_hex8 = hex8, mw_new_limiter = new_lim, mw_limiter_Allow = lim_allow, mw_now = now\<rparr>)"

definition subjectFromToken :: "('l, 'w) middleware \<Rightarrow> string \<Rightarrow> string" where
  "subjectFromToken M tok = ''api_key:'' @ mw_hex8 M tok"

definition request_token :: "http_req \<Rightarrow> string" where
  "request_token r =
     (let tok = api_bearerToken (rx_Header r ''Authorization'') in
      if tok = [] then rx_Header r ''X-API-Key'' else tok)"

definition with_principal :: "http_req \<Rightarrow> principal \<Rightarrow> http_req" where
  "with_principal r p = r\<lparr>rx_Subject := Some (pr_Subject p), rx_Principal := Some p\<rparr>"

text \<open>The state of a request is the limiters of the process and the rest of the world.\<close>

definition session_principal :: "('l, 'w) middleware \<Rightarrow> 'w \<Rightarrow> string \<Rightarrow> principal option" where
  "session_principal M w tok =
     (case mw_sessionAuth M of
        None \<Rightarrow> None
      | Some auth \<Rightarrow>
          (case auth w tok of
             None \<Rightarrow> None
           | Some p \<Rightarrow> Some (if pr_Subject p = [] then p\<lparr>pr_Subject := ''user:'' @ pr_UserID p\<rparr> else p)))"

definition Authenticate :: "('l, 'w) middleware \<Rightarrow> ('l limiters \<times> 'w) handler \<Rightarrow> ('l limiters \<times> 'w) handler" where
  "Authenticate M nxt r hdr w =
     (if rx_Method r = ''OPTIONS'' \<or> isExemptPath (rx_Path r) then nxt r hdr w
      else (let tok = request_token r in
        if tok = [] then http_Error hdr ''Unauthorized'' 401 w
        else (case session_principal M (snd w) tok of
            Some p \<Rightarrow> nxt (with_principal r p) hdr w
          | None \<Rightarrow>
              if mw_apiKey M = [] then http_Error hdr ''API authentication is not configured'' 503 w
              else if tok = [] \<or> \<not> constantTimeEqual (mw_sha M) tok (mw_apiKey M) then http_Error hdr ''Unauthorized'' 401 w
              else nxt (with_principal r \<lparr>pr_Subject = subjectFromToken M tok, pr_ActorType = ''api_key'', pr_UserID = [],
                pr_AccountID = mw_apiKeyAccountID M, pr_Role = mw_apiKeyRole M\<rparr>) hdr w)))"

definition rateLimitKey :: "('l, 'w) middleware \<Rightarrow> http_req \<Rightarrow> string" where
  "rateLimitKey M r =
     (case rx_Subject r of
        Some (s # ss) \<Rightarrow> s # ss
      | _ \<Rightarrow>
          (let tok = request_token r in
           if mw_apiKey M \<noteq> [] \<and> tok \<noteq> [] \<and> constantTimeEqual (mw_sha M) tok (mw_apiKey M) then subjectFromToken M tok
           else ''ip:'' @ clientID r))"

definition minute :: int where
  "minute = 60 * second"

text \<open>Buckets that were not used for five minutes are dropped, at most once a minute.\<close>

definition cleanup :: "int \<Rightarrow> 'l limiters \<Rightarrow> 'l limiters" where
  "cleanup now ls =
     (if now - lm_lastCleanup ls > minute
      then \<lparr>lm_clients = filter (\<lambda>(k, l, seen). \<not> now - seen > 5 * minute) (lm_clients ls), lm_lastCleanup = now\<rparr>
      else ls)"

definition getLimiter :: "('l, 'w) middleware \<Rightarrow> string \<Rightarrow> 'l limiters \<Rightarrow> 'l limiters \<times> 'l" where
  "getLimiter M key ls0 =
     (let now = mw_now M; ls = cleanup now ls0 in
      (case map_of (lm_clients ls) key of
         Some (l, seen) \<Rightarrow> (ls\<lparr>lm_clients := AList.update key (l, now) (lm_clients ls)\<rparr>, l)
       | None \<Rightarrow>
           (ls\<lparr>lm_clients := AList.update key (mw_new_limiter M, now) (lm_clients ls)\<rparr>, mw_new_limiter M)))"

text \<open>The limiter is shared through its pointer, so \<open>Allow\<close> changes the bucket in the map.\<close>

definition limiter_allows :: "('l, 'w) middleware \<Rightarrow> string \<Rightarrow> 'l limiters \<Rightarrow> 'l limiters \<times> bool" where
  "limiter_allows M key ls0 =
     (let (ls, l) = getLimiter M key ls0; (l', ok) = mw_limiter_Allow M (mw_now M) l
      in (ls\<lparr>lm_clients := AList.update key (l', mw_now M) (lm_clients ls)\<rparr>, ok))"

definition RateLimit :: "('l, 'w) middleware \<Rightarrow> ('l limiters \<times> 'w) handler \<Rightarrow> ('l limiters \<times> 'w) handler" where
  "RateLimit M nxt r hdr w =
     (if rx_Method r = ''OPTIONS'' then nxt r hdr w
      else (let key = rateLimitKey M r; (ls, x) = w in
        case mw_rateLimiter M of
          Some allow \<Rightarrow>
            (case allow x key (mw_burst M) (mw_rateLimitWindow M) of
               (x', Inl err) \<Rightarrow> nxt r hdr (ls, x')
             | (x', Inr False) \<Rightarrow> http_Error hdr ''Too Many Requests - Slow Down'' 429 (ls, x')
             | (x', Inr True) \<Rightarrow> nxt r hdr (ls, x'))
        | None \<Rightarrow>
            (case limiter_allows M key ls of
               (ls', False) \<Rightarrow> http_Error hdr ''Too Many Requests - Slow Down'' 429 (ls', x)
             | (ls', True) \<Rightarrow> nxt r hdr (ls', x))))"

definition Recoverer :: "'w handler \<Rightarrow> 'w handler" where
  "Recoverer nxt r hdr w =
     (case nxt r hdr w of
        (w', hdr', Panicked) \<Rightarrow> http_Error hdr' ''Internal Server Error'' 500 w'
      | res \<Rightarrow> res)"

definition CORS :: "('l, 'w) middleware \<Rightarrow> 'x handler \<Rightarrow> 'x handler" where
  "CORS M nxt r hdr w =
     (let origin = rx_Header r ''Origin'' in
      if origin \<noteq> [] \<and> origin \<notin> mw_allowedOrigins M then http_Error hdr ''Origin Not Allowed'' 403 w
      else (let hdr' = (if origin = [] then hdr
              else AList.update ''Access-Control-Max-Age'' ''600''
                (AList.update ''Access-Control-Allow-Credentials'' ''true''
                (AList.update ''Access-Control-Allow-Headers'' ''Content-Type, Authorization, X-API-Key''
                (AList.update ''Access-Control-Allow-Methods'' ''GET, POST, PUT, DELETE, OPTIONS''
                (AList.update ''Vary'' ''Origin''
                (AList.update ''Access-Control-Allow-Origin'' origin hdr))))))
        in if rx_Method r = ''OPTIONS'' then (w, hdr', Answered 204 []) else nxt r hdr' w))"

definition quoted :: "string \<Rightarrow> string" where
  "quoted s = CHR 0x27 # s @ [CHR 0x27]"

definition SecureHeaders :: "'w handler \<Rightarrow> 'w handler" where
  "SecureHeaders nxt r hdr w =
     nxt r (AList.update ''Content-Security-Policy'' (''default-src '' @ quoted ''self'' @ ''; frame-ancestors '' @ quoted ''none'')
       (AList.update ''Permissions-Policy'' ''camera=(), microphone=(), geolocation=()''
       (AList.update ''Referrer-Policy'' ''no-referrer''
       (AList.update ''X-Frame-Options'' ''DENY''
       (AList.update ''X-Content-Type-Options'' ''nosniff'' hdr))))) w"

definition LimitWriteBody :: "('l, 'w) middleware \<Rightarrow> 'x handler \<Rightarrow> 'x handler" where
  "LimitWriteBody M nxt r hdr w =
     nxt (if isWriteMethod (rx_Method r) \<and> \<not> isIngestionPath (rx_Path r) \<and> rx_HasBody r
          then r\<lparr>rx_BodyLimit := Some (mw_maxWriteBodyBytes M)\<rparr> else r) hdr w"

text \<open>The chain of \<open>StartWithContext\<close>; \<open>Logger\<close> only prints and is left out.\<close>

definition serve :: "('l, 'w) middleware \<Rightarrow> ('l limiters \<times> 'w) handler \<Rightarrow> ('l limiters \<times> 'w) handler" where
  "serve M mux = SecureHeaders (CORS M (Recoverer (RateLimit M (Authenticate M (LimitWriteBody M mux)))))"

subsection \<open>Roles\<close>

definition readRoles :: "string list" where
  "readRoles = [UserRoleAdmin, UserRoleAnalyst, UserRoleScanner, UserRoleReadOnly]"

definition scanRoles :: "string list" where
  "scanRoles = [UserRoleAdmin, UserRoleAnalyst, UserRoleScanner]"

definition adminOnlyRoles :: "string list" where
  "adminOnlyRoles = [UserRoleAdmin]"

definition settingsReadRoles :: "string list" where
  "settingsReadRoles = [UserRoleAdmin, UserRoleAnalyst, UserRoleReadOnly]"

text \<open>\<open>Inl\<close> is the status and message that \<open>requireRoles\<close> has written.\<close>

definition requireRoles :: "http_req \<Rightarrow> string list \<Rightarrow> nat \<times> string + principal" where
  "requireRoles r allowedRoles =
     (case rx_Principal r of
        None \<Rightarrow> Inl (401, ''Unauthorized'')
      | Some p0 \<Rightarrow>
          (let role = (if trim_space (pr_Role p0) = [] \<and> pr_ActorType p0 = ''api_key'' then UserRoleAdmin else trim_space (pr_Role p0));
               p = (if trim_space (pr_Role p0) = [] \<and> pr_ActorType p0 = ''api_key'' then p0\<lparr>pr_Role := UserRoleAdmin\<rparr> else p0)
           in if role \<in> set allowedRoles then Inr p else Inl (403, ''Forbidden'')))"

text \<open>A route whose handler starts with \<open>requireRoles\<close>.\<close>

definition guarded :: "string list \<Rightarrow> (principal \<Rightarrow> 'w handler) \<Rightarrow> 'w handler" where
  "guarded roles body r hdr w =
     (case requireRoles r roles of
        Inl (code, msg) \<Rightarrow> http_Error hdr msg code w
      | Inr p \<Rightarrow> body p r hdr w)"

text \<open>
  The account a principal is scoped to: not scoped, or the parsed account, or a parse error.
\<close>

datatype account_scope = NotScoped | ScopedTo object_id | is_BadAccount: BadAccount string

definition scopedAccountID :: "(string \<Rightarrow> string + object_id) \<Rightarrow> principal \<Rightarrow> account_scope" where
  "scopedAccountID fromHex p =
     (if trim_space (pr_AccountID p) = [] then NotScoped
      else (case fromHex (pr_AccountID p) of Inl err \<Rightarrow> BadAccount err | Inr accountID \<Rightarrow> ScopedTo accountID))"

subsection \<open>What reaches the routes\<close>

text \<open>Who a token speaks for: the user of a session, else the holder of the API key.\<close>

definition authenticated_as :: "('l, 'w) middleware \<Rightarrow> http_req \<Rightarrow> 'w \<Rightarrow> principal \<Rightarrow> bool" where
  "authenticated_as M r w p \<longleftrightarrow>
     request_token r \<noteq> [] \<and>
     (session_principal M w (request_token r) = Some p \<or>
      session_principal M w (request_token r) = None \<and> mw_apiKey M \<noteq> [] \<and>
      mw_sha M (request_token r) = mw_sha M (mw_apiKey M) \<and>
      p = \<lparr>pr_Subject = subjectFromToken M (request_token r), pr_ActorType = ''api_key'', pr_UserID = [],
        pr_AccountID = mw_apiKeyAccountID M, pr_Role = mw_apiKeyRole M\<rparr>)"

definition same_request :: "http_req \<Rightarrow> http_req \<Rightarrow> bool" where
  "same_request r r' \<longleftrightarrow> rx_Method r' = rx_Method r \<and> rx_Path r' = rx_Path r \<and> rx_Header r' = rx_Header r \<and>
     rx_RemoteAddr r' = rx_RemoteAddr r \<and> rx_HasBody r' = rx_HasBody r"

definition admitted :: "('l, 'w) middleware \<Rightarrow> http_req \<Rightarrow> 'w \<Rightarrow> http_req \<Rightarrow> bool" where
  "admitted M r w r' \<longleftrightarrow>
     same_request r r' \<and> rx_Method r \<noteq> ''OPTIONS'' \<and>
     (rx_Header r ''Origin'' = [] \<or> rx_Header r ''Origin'' \<in> mw_allowedOrigins M) \<and>
     rx_BodyLimit r' = (if isWriteMethod (rx_Method r) \<and> \<not> isIngestionPath (rx_Path r) \<and> rx_HasBody r
        then Some (mw_maxWriteBodyBytes M) else rx_BodyLimit r) \<and>
     (if isExemptPath (rx_Path r) then rx_Principal r' = rx_Principal r
      else (\<exists>p. rx_Principal r' = Some p \<and> authenticated_as M r w p))"

lemma RateLimit_stops_or_passes:
  "(\<exists>res. \<forall>nxt. RateLimit M nxt r hdr w = res) \<or> (\<exists>w'. \<forall>nxt. RateLimit M nxt r hdr w = nxt r hdr w')"
proof (cases "rx_Method r = ''OPTIONS''")
  case False
  obtain ls x where w: "w = (ls, x)" by fastforce
  show ?thesis
  proof (cases "mw_rateLimiter M")
    case None
    obtain ls' ok where "limiter_allows M (rateLimitKey M r) ls = (ls', ok)" by fastforce
    with False None w show ?thesis by (cases ok) (auto simp: RateLimit_def simp del: split_paired_Ex)
  next
    case (Some allow)
    obtain x' res where "allow x (rateLimitKey M r) (mw_burst M) (mw_rateLimitWindow M) = (x', res)" by fastforce
    with False Some w show ?thesis
      by (cases res) (auto simp: RateLimit_def simp del: split_paired_Ex split: bool.split)
  qed
next
  case True
  then have "RateLimit M nxt r hdr w = nxt r hdr w" for nxt by (simp add: RateLimit_def)
  then show ?thesis by blast
qed

lemma Authenticate_stops_or_passes:
  "(\<exists>res. \<forall>nxt. Authenticate M nxt r hdr w = res) \<or>
   (rx_Method r = ''OPTIONS'' \<or> isExemptPath (rx_Path r)) \<and> (\<forall>nxt. Authenticate M nxt r hdr w = nxt r hdr w) \<or>
   \<not> isExemptPath (rx_Path r) \<and>
   (\<exists>p. authenticated_as M r (snd w) p \<and> (\<forall>nxt. Authenticate M nxt r hdr w = nxt (with_principal r p) hdr w))"
proof (cases "rx_Method r = ''OPTIONS'' \<or> isExemptPath (rx_Path r)")
  case True
  then show ?thesis by (auto simp: Authenticate_def)
next
  case False
  show ?thesis
  proof (cases "session_principal M (snd w) (request_token r)")
    case None
    with False show ?thesis
      by (cases "request_token r = []"; cases "mw_apiKey M = []"; cases "mw_sha M (request_token r) = mw_sha M (mw_apiKey M)")
        (simp_all add: Authenticate_def authenticated_as_def constantTimeEqual_def Let_def del: split_paired_Ex)
  next
    case (Some p)
    with False show ?thesis
      by (cases "request_token r = []") (simp_all add: Authenticate_def authenticated_as_def Let_def del: split_paired_Ex)
  qed
qed

lemma CORS_stops_or_passes:
  "(\<exists>res. \<forall>nxt. CORS M nxt r hdr w = res) \<or>
   rx_Method r \<noteq> ''OPTIONS'' \<and> (rx_Header r ''Origin'' = [] \<or> rx_Header r ''Origin'' \<in> mw_allowedOrigins M) \<and>
   (\<exists>hdr'. \<forall>nxt. CORS M nxt r hdr w = nxt r hdr' w)"
proof (cases "rx_Header r ''Origin'' = [] \<or> rx_Header r ''Origin'' \<in> mw_allowedOrigins M")
  case True
  then obtain hdr' where c: "\<And>nxt. CORS M nxt r hdr w = (if rx_Method r = ''OPTIONS'' then (w, hdr', Answered 204 []) else nxt r hdr' w)"
    unfolding CORS_def Let_def by auto
  with True show ?thesis by (cases "rx_Method r = ''OPTIONS''") (simp_all only: c if_True if_False simp_thms, blast+)
next
  case False
  then have "CORS M nxt r hdr w = http_Error hdr ''Origin Not Allowed'' 403 w" for nxt by (simp add: CORS_def)
  then show ?thesis by blast
qed

lemma Recoverer_cong: "f r hdr w = g r' hdr' w' \<Longrightarrow> Recoverer f r hdr w = Recoverer g r' hdr' w'"
  by (simp add: Recoverer_def)

text \<open>
  A request is either answered before any route, or the routes get it once, as \<open>admitted\<close> says.
\<close>

lemma serve_stops_or_admits:
  "(\<exists>res. \<forall>mux. serve M mux r hdr w = res) \<or>
   (\<exists>r' hdr' w'. admitted M r (snd w') r' \<and> (\<forall>mux. serve M mux r hdr w = Recoverer mux r' hdr' w'))"
proof -
  obtain h0 where sec: "\<And>nxt :: ('a limiters \<times> 'b) handler. SecureHeaders nxt r hdr w = nxt r h0 w"
    by (simp add: SecureHeaders_def)
  from CORS_stops_or_passes [of M r h0 w] show ?thesis
  proof (elim disjE)
    assume "\<exists>res. \<forall>nxt. CORS M nxt r h0 w = res"
    then show ?thesis by (auto simp: serve_def sec simp del: split_paired_Ex)
  next
    assume "rx_Method r \<noteq> ''OPTIONS'' \<and> (rx_Header r ''Origin'' = [] \<or> rx_Header r ''Origin'' \<in> mw_allowedOrigins M) \<and>
      (\<exists>hdr'. \<forall>nxt. CORS M nxt r h0 w = nxt r hdr' w)"
    then obtain h1 where m: "rx_Method r \<noteq> ''OPTIONS''"
      and o: "rx_Header r ''Origin'' = [] \<or> rx_Header r ''Origin'' \<in> mw_allowedOrigins M"
      and c: "\<And>nxt. CORS M nxt r h0 w = nxt r h1 w" by blast
    have s: "serve M mux r hdr w = Recoverer (RateLimit M (Authenticate M (LimitWriteBody M mux))) r h1 w" for mux
      by (simp add: serve_def sec c)
    from RateLimit_stops_or_passes [of M r h1 w] show ?thesis
    proof
      assume "\<exists>res. \<forall>nxt. RateLimit M nxt r h1 w = res"
      then show ?thesis by (auto simp: s Recoverer_def simp del: split_paired_Ex)
    next
      assume "\<exists>w'. \<forall>nxt. RateLimit M nxt r h1 w = nxt r h1 w'"
      then obtain w' where rl: "\<And>nxt. RateLimit M nxt r h1 w = nxt r h1 w'" by blast
      define q where "q x = (if isWriteMethod (rx_Method x) \<and> \<not> isIngestionPath (rx_Path x) \<and> rx_HasBody x
        then x\<lparr>rx_BodyLimit := Some (mw_maxWriteBodyBytes M)\<rparr> else x)" for x :: http_req
      have lim: "LimitWriteBody M mux x h y = mux (q x) h y" for mux :: "('a limiters \<times> 'b) handler" and x h y
        by (simp add: LimitWriteBody_def q_def)
      have adm: "admitted M r (snd w') (q r2)"
        if "r2 = r \<and> isExemptPath (rx_Path r) \<or>
          \<not> isExemptPath (rx_Path r) \<and> (\<exists>p. authenticated_as M r (snd w') p \<and> r2 = with_principal r p)" for r2
        using that m o by (auto simp: admitted_def same_request_def q_def with_principal_def)
      from Authenticate_stops_or_passes [of M r h1 w'] show ?thesis
      proof (elim disjE conjE exE)
        fix res assume "\<forall>nxt. Authenticate M nxt r h1 w' = res"
        then show ?thesis by (auto simp: s Recoverer_def rl simp del: split_paired_Ex)
      next
        assume "rx_Method r = ''OPTIONS''" with m show ?thesis by simp
      next
        assume "isExemptPath (rx_Path r)" "\<forall>nxt. Authenticate M nxt r h1 w' = nxt r h1 w'"
        then have "serve M mux r hdr w = Recoverer mux (q r) h1 w'" for mux
          by (simp add: s rl lim Recoverer_def)
        with adm [of r] \<open>isExemptPath _\<close> show ?thesis by blast
      next
        fix p assume a: "\<not> isExemptPath (rx_Path r)" "authenticated_as M r (snd w') p"
          "\<forall>nxt. Authenticate M nxt r h1 w' = nxt (with_principal r p) h1 w'"
        then have "serve M mux r hdr w = Recoverer mux (q (with_principal r p)) h1 w'" for mux
          by (simp add: s rl lim Recoverer_def)
        moreover have "admitted M r (snd w') (q (with_principal r p))" using a adm by blast
        ultimately show ?thesis by blast
      qed
    qed
  qed
qed

text \<open>A request as it arrives: nothing in its context, no limit on its body.\<close>

definition incoming :: "http_req \<Rightarrow> http_req" where
  "incoming r = r\<lparr>rx_Subject := None, rx_Principal := None, rx_BodyLimit := None\<rparr>"

definition has_role :: "principal \<Rightarrow> principal \<Rightarrow> string list \<Rightarrow> bool" where
  "has_role p0 p roles \<longleftrightarrow> trim_space (pr_Role p) \<in> set roles \<and>
     (p = p0 \<or> trim_space (pr_Role p0) = [] \<and> pr_ActorType p0 = ''api_key'' \<and> p = p0\<lparr>pr_Role := UserRoleAdmin\<rparr>)"

lemma requireRoles_has_role: "requireRoles r roles = Inr p \<Longrightarrow> \<exists>p0. rx_Principal r = Some p0 \<and> has_role p0 p roles"
  by (auto simp: requireRoles_def has_role_def Let_def UserRoleAdmin_def trim_space_def trim_left_def trim_right_def is_space_def
      split: option.splits if_splits)

text \<open>
  The rate limit is taken before the request is authenticated, so its key is never that of a
  session's user: it is that of the API key or the address the client claims.
\<close>

lemma rate_key_ignores_session:
  "rateLimitKey M (incoming r) =
     (if mw_apiKey M \<noteq> [] \<and> request_token r \<noteq> [] \<and> mw_sha M (request_token r) = mw_sha M (mw_apiKey M)
      then subjectFromToken M (request_token r) else ''ip:'' @ clientID r)"
  by (simp add: rateLimitKey_def incoming_def request_token_def clientID_def constantTimeEqual_def Let_def split: option.split)

lemma unknown_role_is_admin: "normalizeAPIKeyRole ''viewer'' = UserRoleAdmin"
  by code_simp

text \<open>
  A route that starts with \<open>requireRoles\<close> is entered only by a caller who may: for
  every request as it arrives, the answer either does not depend on the body of the route, or the
  body runs once, for a principal that the request's token was authenticated as (the user of a
  session, else the holder of the API key) and that has one of the allowed roles; the origin of the
  request is then allowed, and the body of a write is limited.
\<close>

theorem guarded_route_needs_role:
  "serve M (guarded roles body) (incoming r) hdr w = serve M (guarded roles body') (incoming r) hdr w \<or>
   (\<exists>p0 p r' hdr' w'.
      serve M (guarded roles body) (incoming r) hdr w = Recoverer (body p) r' hdr' w' \<and>
      admitted M (incoming r) (snd w') r' \<and> rx_Principal r' = Some p0 \<and>
      authenticated_as M (incoming r) (snd w') p0 \<and> has_role p0 p roles)"
proof -
  from serve_stops_or_admits [of M "incoming r" hdr w] show ?thesis
  proof
    assume "\<exists>res. \<forall>mux. serve M mux (incoming r) hdr w = res"
    then show ?thesis by auto
  next
    assume "\<exists>r' hdr' w'. admitted M (incoming r) (snd w') r' \<and> (\<forall>mux. serve M mux (incoming r) hdr w = Recoverer mux r' hdr' w')"
    then obtain r' hdr' w' where adm: "admitted M (incoming r) (snd w') r'"
      and s: "\<And>mux. serve M mux (incoming r) hdr w = Recoverer mux r' hdr' w'" by blast
    show ?thesis
    proof (cases "requireRoles r' roles")
      case (Inl e)
      then have "guarded roles body r' hdr' w' = guarded roles body' r' hdr' w'"
        by (simp add: guarded_def)
      then show ?thesis by (simp add: s Recoverer_def)
    next
      case (Inr p)
      from requireRoles_has_role [OF this] obtain p0 where p0: "rx_Principal r' = Some p0" "has_role p0 p roles" by blast
      have "authenticated_as M (incoming r) (snd w') p0"
        using adm p0(1) by (auto simp: admitted_def incoming_def split: if_splits)
      moreover have "serve M (guarded roles body) (incoming r) hdr w = Recoverer (body p) r' hdr' w'"
        unfolding s by (rule Recoverer_cong) (simp add: guarded_def Inr)
      ultimately show ?thesis using adm p0 by blast
    qed
  qed
qed

end
