(* ===== verification/Accounts.thy ===== *)
theory Accounts
  imports Doc_Bulk Http_Auth Go_Base64
begin

text \<open>
  Accounts, users, sessions and linked OAuth identities in the database:
  \<open>internal/db/auth_repository.go\<close> and \<open>oauth_repository.go\<close>, with the passwords and
  tokens of \<open>internal/security\<close>. The collections are parameters (\<open>doc_store\<close> and
  \<open>bulk_store\<close>), and so are bcrypt, SHA-256 and the random source. \<open>session_op\<close> lists
  the calls that change sessions; the locale \<open>session_store\<close> shows what any sequence of them
  keeps, whatever the database answers.
\<close>

subsection \<open>Documents\<close>

record account =
  acc_ID :: object_id
  acc_Name :: string
  acc_Slug :: string
  acc_CreatedBy :: object_id
  acc_CreatedAt :: gotime
  acc_UpdatedAt :: gotime

record user =
  usr_ID :: object_id
  usr_Email :: string
  usr_Name :: string
  usr_PasswordHash :: string
  usr_AccountID :: object_id
  usr_Role :: string
  usr_CreatedAt :: gotime
  usr_UpdatedAt :: gotime
  usr_LastLoginAt :: gotime

record session =
  ses_ID :: object_id
  ses_UserID :: object_id
  ses_AccountID :: object_id
  ses_AccessTokenHash :: string
  ses_RefreshTokenHash :: string
  ses_UserAgent :: string
  ses_RemoteAddr :: string
  ses_CreatedAt :: gotime
  ses_UpdatedAt :: gotime
  ses_AccessExpiresAt :: gotime
  ses_RefreshExpiresAt :: gotime
  ses_RevokedAt :: gotime

record oauth_identity =
  oi_ID :: object_id
  oi_UserID :: object_id
  oi_AccountID :: object_id
  oi_Provider :: string
  oi_ProviderUserID :: string
  oi_Email :: string
  oi_EmailVerified :: bool
  oi_CreatedAt :: gotime
  oi_UpdatedAt :: gotime

subsection \<open>The database\<close>

record ('a, 'u, 's, 'i) auth_db =
  ad_Accounts :: "('a, object_id, account) coll"
  ad_AccountsB :: "('a, account) bulk"
  ad_Users :: "('u, object_id, user) coll"
  ad_UsersB :: "('u, user) bulk"
  ad_Sessions :: "('s, object_id, session) coll"
  ad_SessionsB :: "('s, session) bulk"
  ad_Identities :: "('i, object_id, oauth_identity) coll"
  ad_isDuplicateKey :: "db_error \<Rightarrow> bool"
  ad_Hex :: "object_id \<Rightarrow> string"

record ('a, 'u, 's, 'i) auth_state =
  at_accounts :: 'a
  at_users :: 'u
  at_sessions :: 's
  at_identities :: 'i

datatype auth_error = ErrDuplicateUser | ErrSessionInvalid | ErrOAuthEmailUnverified | ErrNoDocs | AuthErr string

text \<open>\<open>FindOne(...).Decode\<close>: no document is the error \<open>ErrNoDocuments\<close>.\<close>

definition find_one :: "('c, object_id, 'd) coll \<Rightarrow> 'c \<Rightarrow> ('d \<Rightarrow> bool) \<Rightarrow> auth_error + 'd" where
  "find_one M c f =
     (case coll_find M c f of Inl e \<Rightarrow> Inl (AuthErr e) | Inr None \<Rightarrow> Inl ErrNoDocs | Inr (Some d) \<Rightarrow> Inr d)"

definition normalizeEmail :: "string \<Rightarrow> string" where
  "normalizeEmail email = to_lower (trim_space email)"

definition FindUserByEmail :: "('a, 'u, 's, 'i) auth_db \<Rightarrow> ('a, 'u, 's, 'i) auth_state \<Rightarrow> string \<Rightarrow> auth_error + user" where
  "FindUserByEmail D st email = find_one (ad_Users D) (at_users st) (\<lambda>u. usr_Email u = normalizeEmail email)"

definition GetAccount :: "('a, 'u, 's, 'i) auth_db \<Rightarrow> ('a, 'u, 's, 'i) auth_state \<Rightarrow> object_id \<Rightarrow> auth_error + account" where
  "GetAccount D st i = find_one (ad_Accounts D) (at_accounts st) (\<lambda>a. acc_ID a = i)"

definition findUserByID :: "('a, 'u, 's, 'i) auth_db \<Rightarrow> ('a, 'u, 's, 'i) auth_state \<Rightarrow> object_id \<Rightarrow> auth_error + user" where
  "findUserByID D st i = find_one (ad_Users D) (at_users st) (\<lambda>u. usr_ID u = i)"

subsection \<open>Names\<close>

definition defaultAccountName :: "string \<Rightarrow> string" where
  "defaultAccountName email0 =
     (let email = normalizeEmail email0 in
      (case cut_at (CHR ''@'') email of
         Some (c # cs, _) \<Rightarrow> (c # cs) @ CHR 0x27 # ''s organization''
       | _ \<Rightarrow> ''Karaxys organization''))"

text \<open>\<open>nonSlugChars.ReplaceAllString(value, "-")\<close>: each run of other characters is one dash.\<close>

definition slug_char :: "char \<Rightarrow> bool" where
  "slug_char c \<longleftrightarrow> is_lower c \<or> is_digit c"

fun dash_runs :: "bool \<Rightarrow> string \<Rightarrow> string" where
  "dash_runs inrun [] = []"
| "dash_runs inrun (c # cs) =
     (if slug_char c then c # dash_runs False cs
      else if inrun then dash_runs True cs else CHR ''-'' # dash_runs True cs)"

definition slugify :: "string \<Rightarrow> string" where
  "slugify value0 =
     (let v = trim_set ''-'' (dash_runs False (to_lower (trim_space value0))) in
      if length v > 48 then trim_set ''-'' (take 48 v) else v)"

definition uniqueSlug :: "(object_id \<Rightarrow> string) \<Rightarrow> object_id \<Rightarrow> string \<Rightarrow> string" where
  "uniqueSlug Hex fresh accountName =
     (let base = (if slugify accountName = [] then ''karaxys'' else slugify accountName)
      in base @ ''-'' @ drop 18 (Hex fresh))"

subsection \<open>Accounts and users\<close>

definition new_account :: "('a, 'u, 's, 'i) auth_db \<Rightarrow> int \<Rightarrow> (nat \<Rightarrow> object_id) \<Rightarrow> string \<Rightarrow> account" where
  "new_account D now fresh name =
     \<lparr>acc_ID = fresh 0, acc_Name = name, acc_Slug = uniqueSlug (ad_Hex D) (fresh 1) name, acc_CreatedBy = fresh 2,
      acc_CreatedAt = Some now, acc_UpdatedAt = Some now\<rparr>"

text \<open>
  Insert the account, then its user; when the user cannot be inserted the account is deleted again
  (the result of the deletion is ignored). \<open>fresh 0\<close> to \<open>fresh 2\<close> are the new ObjectIDs.
\<close>

definition insert_account_user ::
  "('a, 'u, 's, 'i) auth_db \<Rightarrow> ('a, 'u, 's, 'i) auth_state \<Rightarrow> account \<Rightarrow> user \<Rightarrow> ('a, 'u, 's, 'i) auth_state \<times> auth_error option" where
  "insert_account_user D st account user =
     (case coll_insert (ad_Accounts D) (at_accounts st) account of
        (a1, Some e) \<Rightarrow> (st\<lparr>at_accounts := a1\<rparr>, Some (AuthErr e))
      | (a1, None) \<Rightarrow>
          (case coll_insert (ad_Users D) (at_users st) user of
             (u1, Some e) \<Rightarrow>
               (st\<lparr>at_accounts := fst (bulk_delete (ad_AccountsB D) a1 (\<lambda>x. acc_ID x = acc_ID account)), at_users := u1\<rparr>,
                Some (if ad_isDuplicateKey D e then ErrDuplicateUser else AuthErr e))
           | (u1, None) \<Rightarrow> (st\<lparr>at_accounts := a1, at_users := u1\<rparr>, None)))"

text \<open>The check for an existing user: an error stops, and so does a user with an identifier.\<close>

definition check_email_free :: "auth_error + user \<Rightarrow> auth_error option" where
  "check_email_free r =
     (case r of Inr existing \<Rightarrow> if usr_ID existing \<noteq> 0 then Some ErrDuplicateUser else None
      | Inl err \<Rightarrow> if err = ErrNoDocs then None else Some err)"

definition CreateAccountWithAdminUser ::
  "('a, 'u, 's, 'i) auth_db \<Rightarrow> int \<Rightarrow> (nat \<Rightarrow> object_id) \<Rightarrow> ('a, 'u, 's, 'i) auth_state \<Rightarrow> string \<Rightarrow> string \<Rightarrow> string \<Rightarrow> string \<Rightarrow>
     ('a, 'u, 's, 'i) auth_state \<times> (auth_error + account \<times> user)" where
  "CreateAccountWithAdminUser D now fresh st email0 name accountName0 passwordHash =
     (let email = normalizeEmail email0 in
      if email = [] then (st, Inl (AuthErr ''email is required''))
      else (let accountName = (if trim_space accountName0 = [] then defaultAccountName email else trim_space accountName0) in
        case check_email_free (FindUserByEmail D st email) of
          Some err \<Rightarrow> (st, Inl err)
        | None \<Rightarrow>
            (let account = new_account D now fresh accountName;
                 user = \<lparr>usr_ID = fresh 2, usr_Email = email, usr_Name = trim_space name, usr_PasswordHash = passwordHash,
                   usr_AccountID = acc_ID account, usr_Role = UserRoleAdmin, usr_CreatedAt = Some now, usr_UpdatedAt = Some now,
                   usr_LastLoginAt = None\<rparr>
             in case insert_account_user D st account user of
                  (st', Some err) \<Rightarrow> (st', Inl err)
                | (st', None) \<Rightarrow> (st', Inr (account, user)))))"

definition MarkUserLogin ::
  "('a, 'u, 's, 'i) auth_db \<Rightarrow> int \<Rightarrow> ('a, 'u, 's, 'i) auth_state \<Rightarrow> object_id \<Rightarrow> ('a, 'u, 's, 'i) auth_state" where
  "MarkUserLogin D now st userID =
     st\<lparr>at_users := fst (coll_update (ad_Users D) (at_users st) (\<lambda>u. usr_ID u = userID)
       (\<lambda>u. u\<lparr>usr_LastLoginAt := Some now, usr_UpdatedAt := Some now\<rparr>))\<rparr>"

subsection \<open>Sessions\<close>

definition live :: "session \<Rightarrow> bool" where
  "live s \<longleftrightarrow> is_zero (ses_RevokedAt s)"

definition prepare_session :: "int \<Rightarrow> object_id \<Rightarrow> session \<Rightarrow> session" where
  "prepare_session now fresh s0 =
     (let s1 = (if ses_ID s0 = 0 then s0\<lparr>ses_ID := fresh\<rparr> else s0);
          s2 = (if is_zero (ses_CreatedAt s1) then s1\<lparr>ses_CreatedAt := Some now\<rparr> else s1)
      in s2\<lparr>ses_UpdatedAt := Some now\<rparr>)"

definition CreateSession ::
  "('s, object_id, session) coll \<Rightarrow> int \<Rightarrow> object_id \<Rightarrow> 's \<Rightarrow> session \<Rightarrow> 's \<times> (db_error + session)" where
  "CreateSession S now fresh c s0 =
     (let s = prepare_session now fresh s0 in
      (case coll_insert S c s of (c', Some e) \<Rightarrow> (c', Inl e) | (c', None) \<Rightarrow> (c', Inr s)))"

definition access_filter :: "int \<Rightarrow> string \<Rightarrow> session \<Rightarrow> bool" where
  "access_filter now h s \<longleftrightarrow> ses_AccessTokenHash s = h \<and> now < time_key (ses_AccessExpiresAt s) \<and> live s"

definition refresh_filter :: "int \<Rightarrow> string \<Rightarrow> session \<Rightarrow> bool" where
  "refresh_filter now h s \<longleftrightarrow> ses_RefreshTokenHash s = h \<and> now < time_key (ses_RefreshExpiresAt s) \<and> live s"

type_synonym identity = "session \<times> user \<times> account"

definition findSessionIdentity ::
  "('a, 'u, 's, 'i) auth_db \<Rightarrow> ('a, 'u, 's, 'i) auth_state \<Rightarrow> (session \<Rightarrow> bool) \<Rightarrow> auth_error + identity" where
  "findSessionIdentity D st flt =
     (case find_one (ad_Sessions D) (at_sessions st) flt of
        Inl e \<Rightarrow> Inl e
      | Inr s \<Rightarrow>
          (case find_one (ad_Users D) (at_users st) (\<lambda>u. usr_ID u = ses_UserID s) of
             Inl e \<Rightarrow> Inl e
           | Inr u \<Rightarrow>
               (case find_one (ad_Accounts D) (at_accounts st) (\<lambda>a. acc_ID a = ses_AccountID s) of
                  Inl e \<Rightarrow> Inl e
                | Inr a \<Rightarrow> Inr (s, u, a))))"

definition FindSessionByAccessTokenHash ::
  "('a, 'u, 's, 'i) auth_db \<Rightarrow> int \<Rightarrow> ('a, 'u, 's, 'i) auth_state \<Rightarrow> string \<Rightarrow> auth_error + identity" where
  "FindSessionByAccessTokenHash D now st h = findSessionIdentity D st (access_filter now h)"

definition FindSessionByRefreshTokenHash ::
  "('a, 'u, 's, 'i) auth_db \<Rightarrow> int \<Rightarrow> ('a, 'u, 's, 'i) auth_state \<Rightarrow> string \<Rightarrow> auth_error + identity" where
  "FindSessionByRefreshTokenHash D now st h = findSessionIdentity D st (refresh_filter now h)"

text \<open>An update that matches nothing is \<open>ErrSessionInvalid\<close>.\<close>

definition session_update_result :: "'s \<times> (db_error + nat) \<Rightarrow> 's \<times> auth_error option" where
  "session_update_result r =
     (case r of (c', Inl e) \<Rightarrow> (c', Some (AuthErr e)) | (c', Inr n) \<Rightarrow> (c', if n = 0 then Some ErrSessionInvalid else None))"

definition rotate_filter :: "object_id \<Rightarrow> session \<Rightarrow> bool" where
  "rotate_filter i s \<longleftrightarrow> ses_ID s = i \<and> live s"

definition rotate_doc :: "int \<Rightarrow> string \<Rightarrow> string \<Rightarrow> gotime \<Rightarrow> gotime \<Rightarrow> session \<Rightarrow> session" where
  "rotate_doc now accessHash refreshHash accessExpiresAt refreshExpiresAt s =
     s\<lparr>ses_AccessTokenHash := accessHash, ses_RefreshTokenHash := refreshHash, ses_AccessExpiresAt := accessExpiresAt,
       ses_RefreshExpiresAt := refreshExpiresAt, ses_UpdatedAt := Some now\<rparr>"

definition RotateSessionTokens ::
  "('s, object_id, session) coll \<Rightarrow> int \<Rightarrow> 's \<Rightarrow> object_id \<Rightarrow> string \<Rightarrow> string \<Rightarrow> gotime \<Rightarrow> gotime \<Rightarrow> 's \<times> auth_error option" where
  "RotateSessionTokens S now c sessionID accessHash refreshHash accessExpiresAt refreshExpiresAt =
     session_update_result (coll_update S c (rotate_filter sessionID)
       (rotate_doc now accessHash refreshHash accessExpiresAt refreshExpiresAt))"

definition revoke_filter :: "string \<Rightarrow> session \<Rightarrow> bool" where
  "revoke_filter h s \<longleftrightarrow> ses_RefreshTokenHash s = h \<and> live s"

definition revoke_doc :: "int \<Rightarrow> session \<Rightarrow> session" where
  "revoke_doc now s = s\<lparr>ses_RevokedAt := Some now, ses_UpdatedAt := Some now\<rparr>"

definition RevokeSessionByRefreshTokenHash ::
  "('s, object_id, session) coll \<Rightarrow> int \<Rightarrow> 's \<Rightarrow> string \<Rightarrow> 's \<times> auth_error option" where
  "RevokeSessionByRefreshTokenHash S now c refreshHash =
     session_update_result (coll_update S c (revoke_filter refreshHash) (revoke_doc now))"

definition PruneExpiredSessions :: "('s, session) bulk \<Rightarrow> int \<Rightarrow> 's \<Rightarrow> 's \<times> db_error option" where
  "PruneExpiredSessions B now c = bulk_delete B c (\<lambda>s. time_key (ses_RefreshExpiresAt s) \<le> now)"

definition user_live :: "object_id \<Rightarrow> session \<Rightarrow> bool" where
  "user_live userID s \<longleftrightarrow> ses_UserID s = userID \<and> live s"

definition newest_key :: "session \<Rightarrow> int" where
  "newest_key s = - time_key (ses_CreatedAt s)"

definition RevokeOldUserSessions ::
  "('s, session) bulk \<Rightarrow> int \<Rightarrow> 's \<Rightarrow> object_id \<Rightarrow> int \<Rightarrow> 's \<times> db_error option" where
  "RevokeOldUserSessions B now c userID keep =
     (if keep \<le> 0 then (c, None)
      else (case bulk_find B c (user_live userID) newest_key (nat keep) of
          Inl e \<Rightarrow> (c, Some e)
        | Inr items \<Rightarrow>
            (let ids = map ses_ID items in
             if ids = [] then (c, None)
             else bulk_update B c (\<lambda>s. ses_ID s \<in> set ids) (revoke_doc now))))"

subsection \<open>Linked identities\<close>

record oauth_profile =
  op_Provider :: string
  op_ProviderUserID :: string
  op_Email :: string
  op_EmailVerified :: bool
  op_Name :: string

datatype oauth_action = oauthActionUseIdentity | oauthActionLinkByEmail | oauthActionCreateNew

definition decideOAuthAction :: "bool \<Rightarrow> bool \<Rightarrow> bool \<Rightarrow> auth_error + oauth_action" where
  "decideOAuthAction identityExists userByEmailExists emailVerified =
     (if identityExists then Inr oauthActionUseIdentity
      else if userByEmailExists \<and> emailVerified then Inr oauthActionLinkByEmail
      else if userByEmailExists \<and> \<not> emailVerified then Inl ErrOAuthEmailUnverified
      else Inr oauthActionCreateNew)"

definition findOAuthIdentity ::
  "('a, 'u, 's, 'i) auth_db \<Rightarrow> ('a, 'u, 's, 'i) auth_state \<Rightarrow> string \<Rightarrow> string \<Rightarrow> auth_error + oauth_identity" where
  "findOAuthIdentity D st provider providerUserID =
     find_one (ad_Identities D) (at_identities st) (\<lambda>x. oi_Provider x = provider \<and> oi_ProviderUserID x = providerUserID)"

definition linkOAuthIdentity ::
  "('a, 'u, 's, 'i) auth_db \<Rightarrow> int \<Rightarrow> object_id \<Rightarrow> ('a, 'u, 's, 'i) auth_state \<Rightarrow> user \<Rightarrow> oauth_profile \<Rightarrow>
     ('a, 'u, 's, 'i) auth_state \<times> auth_error option" where
  "linkOAuthIdentity D now fresh st user profile =
     (case coll_insert (ad_Identities D) (at_identities st)
        \<lparr>oi_ID = fresh, oi_UserID = usr_ID user, oi_AccountID = usr_AccountID user, oi_Provider = op_Provider profile,
         oi_ProviderUserID = op_ProviderUserID profile, oi_Email = normalizeEmail (op_Email profile),
         oi_EmailVerified = op_EmailVerified profile, oi_CreatedAt = Some now, oi_UpdatedAt = Some now\<rparr> of
        (i', None) \<Rightarrow> (st\<lparr>at_identities := i'\<rparr>, None)
      | (i', Some e) \<Rightarrow> (st\<lparr>at_identities := i'\<rparr>, if ad_isDuplicateKey D e then None else Some (AuthErr e)))"

definition createAccountWithOAuthUser ::
  "('a, 'u, 's, 'i) auth_db \<Rightarrow> int \<Rightarrow> (nat \<Rightarrow> object_id) \<Rightarrow> ('a, 'u, 's, 'i) auth_state \<Rightarrow> oauth_profile \<Rightarrow>
     ('a, 'u, 's, 'i) auth_state \<times> (auth_error + account \<times> user)" where
  "createAccountWithOAuthUser D now fresh st profile =
     (let email = normalizeEmail (op_Email profile);
          accountName = (if email = [] then ''Karaxys organization'' else defaultAccountName email);
          account = new_account D now fresh accountName;
          user = \<lparr>usr_ID = fresh 2, usr_Email = email, usr_Name = trim_space (op_Name profile), usr_PasswordHash = [],
            usr_AccountID = acc_ID account, usr_Role = UserRoleAdmin, usr_CreatedAt = Some now, usr_UpdatedAt = Some now,
            usr_LastLoginAt = Some now\<rparr>
      in case (if email = [] then None else check_email_free (FindUserByEmail D st email)) of
           Some err \<Rightarrow> (st, Inl err)
         | None \<Rightarrow>
             (case insert_account_user D st account user of
                (st1, Some err) \<Rightarrow> (st1, Inl err)
              | (st1, None) \<Rightarrow>
                  (case linkOAuthIdentity D now (fresh 3) st1 user profile of
                     (st2, Some err) \<Rightarrow>
                       (st2\<lparr>at_users := fst (bulk_delete (ad_UsersB D) (at_users st2) (\<lambda>x. usr_ID x = usr_ID user)),
                            at_accounts := fst (bulk_delete (ad_AccountsB D) (at_accounts st2) (\<lambda>x. acc_ID x = acc_ID account))\<rparr>,
                        Inl err)
                   | (st2, None) \<Rightarrow> (st2, Inr (account, user)))))"

text \<open>\<open>user_by_email\<close> is the middle part of \<open>ResolveOAuthLogin\<close>: \<open>Inr None\<close> is no user.\<close>

definition user_by_email :: "auth_error + user \<Rightarrow> auth_error + user option" where
  "user_by_email r =
     (case r of Inr u \<Rightarrow> Inr (if usr_ID u \<noteq> 0 then Some u else None)
      | Inl err \<Rightarrow> if err = ErrNoDocs then Inr None else Inl err)"

definition ResolveOAuthLogin ::
  "('a, 'u, 's, 'i) auth_db \<Rightarrow> int \<Rightarrow> (nat \<Rightarrow> object_id) \<Rightarrow> ('a, 'u, 's, 'i) auth_state \<Rightarrow> oauth_profile \<Rightarrow>
     ('a, 'u, 's, 'i) auth_state \<times> (auth_error + account \<times> user)" where
  "ResolveOAuthLogin D now fresh st profile =
     (if trim_space (op_Provider profile) = [] \<or> trim_space (op_ProviderUserID profile) = []
      then (st, Inl (AuthErr ''provider and provider user id are required''))
      else (let email = normalizeEmail (op_Email profile);
                found = findOAuthIdentity D st (op_Provider profile) (op_ProviderUserID profile)
        in case found of
             Inr identity \<Rightarrow>
               (case findUserByID D st (oi_UserID identity) of
                  Inl err \<Rightarrow> (st, Inl err)
                | Inr user \<Rightarrow>
                    (case GetAccount D st (usr_AccountID user) of
                       Inl err \<Rightarrow> (st, Inl err) | Inr account \<Rightarrow> (st, Inr (account, user))))
           | Inl identityErr \<Rightarrow>
               if identityErr \<noteq> ErrNoDocs then (st, Inl identityErr)
               else (case (if email = [] then Inr None else user_by_email (FindUserByEmail D st email)) of
                  Inl err \<Rightarrow> (st, Inl err)
                | Inr emailUser \<Rightarrow>
                    (case decideOAuthAction False (emailUser \<noteq> None) (op_EmailVerified profile) of
                       Inl err \<Rightarrow> (st, Inl err)
                     | Inr action \<Rightarrow>
                         if action = oauthActionLinkByEmail
                         then (case linkOAuthIdentity D now (fresh 3) st (the emailUser) profile of
                                 (st', Some err) \<Rightarrow> (st', Inl err)
                               | (st', None) \<Rightarrow>
                                   (case GetAccount D st' (usr_AccountID (the emailUser)) of
                                      Inl err \<Rightarrow> (st', Inl err)
                                    | Inr account \<Rightarrow> (st', Inr (account, the emailUser))))
                         else createAccountWithOAuthUser D now fresh st profile))))"

subsection \<open>Passwords and tokens\<close>

text \<open>\<open>GenerateFromPassword\<close> and \<open>CompareHashAndPassword\<close> of bcrypt are arguments.\<close>

definition MinLength :: nat where
  "MinLength = 10"

datatype password_error = ErrWeakPassword | HashError

definition password_Hash :: "(string \<Rightarrow> string option) \<Rightarrow> string \<Rightarrow> password_error + string" where
  "password_Hash bcrypt plain0 =
     (let plain = trim_space plain0 in
      if length plain < MinLength then Inl ErrWeakPassword
      else (case bcrypt plain of None \<Rightarrow> Inl HashError | Some h \<Rightarrow> Inr h))"

definition password_Verify :: "(string \<Rightarrow> string \<Rightarrow> bool) \<Rightarrow> string \<Rightarrow> string \<Rightarrow> bool" where
  "password_Verify compare h plain \<longleftrightarrow> (if h = [] \<or> plain = [] then False else compare h plain)"

text \<open>\<open>raw\<close> is what \<open>rand.Read\<close> fills the 32 bytes with.\<close>

definition token_Generate :: "string option \<Rightarrow> string \<Rightarrow> string option" where
  "token_Generate raw prefix0 =
     (case raw of None \<Rightarrow> None
      | Some bytes \<Rightarrow>
          (let tok = EncodeToString bytes; pre = trim_space prefix0 in
           Some (if pre = [] then tok else pre @ ''_'' @ tok)))"

end
