(* ===== verification/Session_Store.thy ===== *)
theory Session_Store
  imports Accounts
begin

text \<open>
  What the session store promises, whatever the database answers. \<open>session_op\<close> lists the calls
  of the repository that change sessions; \<open>session_evolves\<close> is what can happen to a stored
  session. Revoking is final, a rotated token is gone, and a user keeps a bounded number of live
  sessions.
\<close>

subsection \<open>Calls\<close>

datatype session_op =
    OpCreateSession int object_id session
  | OpRotate int object_id string string gotime gotime
  | OpRevoke int string
  | OpPrune int
  | OpRevokeOld int object_id int

fun run_session_op ::
  "('s, object_id, session) coll \<Rightarrow> ('s, session) bulk \<Rightarrow> 's \<Rightarrow> session_op \<Rightarrow> 's" where
  "run_session_op S B c (OpCreateSession now fresh s) = fst (CreateSession S now fresh c s)"
| "run_session_op S B c (OpRotate now i ah rh ae re) = fst (RotateSessionTokens S now c i ah rh ae re)"
| "run_session_op S B c (OpRevoke now rh) = fst (RevokeSessionByRefreshTokenHash S now c rh)"
| "run_session_op S B c (OpPrune now) = fst (PruneExpiredSessions B now c)"
| "run_session_op S B c (OpRevokeOld now u keep) = fst (RevokeOldUserSessions B now c u keep)"

definition run_session_ops ::
  "('s, object_id, session) coll \<Rightarrow> ('s, session) bulk \<Rightarrow> 's \<Rightarrow> session_op list \<Rightarrow> 's" where
  "run_session_ops S B c ops = foldl (run_session_op S B) c ops"

text \<open>The identifier that a call may insert a session under.\<close>

fun creates :: "object_id \<Rightarrow> session_op \<Rightarrow> bool" where
  "creates k (OpCreateSession now fresh s) \<longleftrightarrow> ses_ID (prepare_session now fresh s) = k"
| "creates k _ \<longleftrightarrow> False"

text \<open>
  What a call may do to a stored session: nothing, rotate its tokens while it is live, revoke it, or
  delete it.
\<close>

definition session_evolves :: "session option \<Rightarrow> session option \<Rightarrow> bool" where
  "session_evolves old new \<longleftrightarrow>
     new = old \<or> new = None \<or>
     (case (old, new) of
        (Some s, Some s') \<Rightarrow>
          ses_UserID s' = ses_UserID s \<and> ses_AccountID s' = ses_AccountID s \<and> (live s' \<longrightarrow> live s) \<and>
          (live s \<or> ses_AccessTokenHash s' = ses_AccessTokenHash s \<and> ses_RefreshTokenHash s' = ses_RefreshTokenHash s)
      | _ \<Rightarrow> False)"

lemma rotate_evolves: "live s \<Longrightarrow> session_evolves (Some s) (Some (rotate_doc now ah rh ae re s))"
  by (simp add: session_evolves_def rotate_doc_def live_def)

lemma revoke_evolves: "session_evolves (Some s) (Some (revoke_doc now s))"
  by (simp add: session_evolves_def revoke_doc_def live_def is_zero_def)

lemma session_evolves_refl [simp]: "session_evolves x x"
  by (simp add: session_evolves_def)

lemma session_evolves_None [simp]: "session_evolves x None"
  by (simp add: session_evolves_def)

text \<open>A revoked session is gone or still revoked.\<close>

definition revoked_or_gone :: "session option \<Rightarrow> bool" where
  "revoked_or_gone x \<longleftrightarrow> (case x of None \<Rightarrow> True | Some s \<Rightarrow> \<not> live s)"

lemma evolves_revoked: "session_evolves x y \<Longrightarrow> revoked_or_gone x \<Longrightarrow> revoked_or_gone y"
  by (auto simp: session_evolves_def revoked_or_gone_def split: option.splits)

lemma prepare_session_key [simp]: "ses_ID (prepare_session now fresh s) = (if ses_ID s = 0 then fresh else ses_ID s)"
  by (simp add: prepare_session_def Let_def)

lemma ses_ID_docs [simp]:
  "ses_ID (rotate_doc now ah rh ae re s) = ses_ID s" "ses_ID (revoke_doc now s) = ses_ID s"
  by (simp_all add: rotate_doc_def revoke_doc_def)

lemma revoke_doc_not_live [simp]: "\<not> live (revoke_doc now s)"
  by (simp add: live_def revoke_doc_def is_zero_def)

subsection \<open>The store\<close>

locale session_store = bulk_store S B
  for S :: "('s, object_id, session) coll" and B :: "('s, session) bulk" +
  assumes session_key: "coll_key S = ses_ID"
begin

lemma update_one_evolves:
  assumes "coll_ok S c" "\<And>s. ses_ID (u s) = ses_ID s" "\<And>s. f s \<Longrightarrow> session_evolves (Some s) (Some (u s))"
    and "coll_update S c f u = (c', r)"
  shows "coll_ok S c' \<and> session_evolves (coll_docs S c k) (coll_docs S c' k)"
proof -
  have key: "coll_key S (u s) = coll_key S s" for s by (simp add: session_key assms(2))
  have "coll_ok S c'" by (rule update_ok [OF assms(1) key assms(4)])
  moreover have "session_evolves (coll_docs S c k) (coll_docs S c' k)"
    using update_cases [OF assms(1) key assms(4)] assms(3) by (auto simp: updated_at_def)
  ultimately show ?thesis by simp
qed

lemma update_many_evolves:
  assumes "coll_ok S c" "\<And>s. ses_ID (u s) = ses_ID s" "\<And>s. session_evolves (Some s) (Some (u s))"
    and "bulk_update B c f u = (c', r)"
  shows "coll_ok S c' \<and> session_evolves (coll_docs S c k) (coll_docs S c' k)"
proof -
  have key: "coll_key S (u s) = coll_key S s" for s by (simp add: session_key assms(2))
  have "coll_ok S c'" by (rule update_many_ok [OF assms(1) key assms(4)])
  moreover have "session_evolves (coll_docs S c k) (coll_docs S c' k)"
    using update_many [OF assms(1) key assms(4), of k] assms(3) by auto
  ultimately show ?thesis by simp
qed

lemma fst_session_update_result: "fst (session_update_result r) = fst r"
  by (cases r; cases "snd r") (auto simp: session_update_result_def)

text \<open>Every call lets every stored session evolve, and inserts only what it says.\<close>

lemma run_session_op_evolves:
  assumes "coll_ok S c" "\<not> creates k x"
  shows "coll_ok S (run_session_op S B c x) \<and> session_evolves (coll_docs S c k) (coll_docs S (run_session_op S B c x) k)"
proof (cases x)
  case (OpCreateSession now fresh s)
  let ?s = "prepare_session now fresh s"
  obtain c' r where i: "coll_insert S c ?s = (c', r)" by fastforce
  have "k \<noteq> ses_ID ?s" using assms(2) by (simp add: OpCreateSession)
  with insert_cases [OF assms(1) i] have "coll_docs S c' k = coll_docs S c k" by (auto simp: session_key)
  with insert_ok [OF assms(1) i] i show ?thesis by (auto simp: OpCreateSession CreateSession_def Let_def split: option.split)
next
  case (OpRotate now i ah rh ae re)
  obtain c' r where "coll_update S c (rotate_filter i) (rotate_doc now ah rh ae re) = (c', r)" by fastforce
  moreover from update_one_evolves [OF assms(1) _ _ this, of k]
  have "coll_ok S c' \<and> session_evolves (coll_docs S c k) (coll_docs S c' k)" by (simp add: rotate_evolves rotate_filter_def)
  ultimately show ?thesis by (simp add: OpRotate RotateSessionTokens_def fst_session_update_result)
next
  case (OpRevoke now rh)
  obtain c' r where "coll_update S c (revoke_filter rh) (revoke_doc now) = (c', r)" by fastforce
  moreover from update_one_evolves [OF assms(1) _ _ this, of k]
  have "coll_ok S c' \<and> session_evolves (coll_docs S c k) (coll_docs S c' k)" by (simp add: revoke_evolves)
  ultimately show ?thesis by (simp add: OpRevoke RevokeSessionByRefreshTokenHash_def fst_session_update_result)
next
  case (OpPrune now)
  obtain c' r where d: "bulk_delete B c (\<lambda>s. time_key (ses_RefreshExpiresAt s) \<le> now) = (c', r)" by fastforce
  from delete_many [OF assms(1) this, of k] delete_many_ok [OF assms(1) this] show ?thesis
    by (auto simp: OpPrune PruneExpiredSessions_def d)
next
  case (OpRevokeOld now u keep)
  show ?thesis
  proof (cases "run_session_op S B c x = c")
    case True with assms(1) show ?thesis by simp
  next
    case False
    then obtain ids where u: "run_session_op S B c x = fst (bulk_update B c (\<lambda>s. ses_ID s \<in> ids) (revoke_doc now))"
      by (auto simp: OpRevokeOld RevokeOldUserSessions_def Let_def split: if_splits sum.splits)
    obtain c' r where bu: "bulk_update B c (\<lambda>s. ses_ID s \<in> ids) (revoke_doc now) = (c', r)" by fastforce
    from update_many_evolves [OF assms(1) _ _ this, of k] show ?thesis by (simp add: u bu revoke_evolves)
  qed
qed

lemma run_session_ops_revoked:
  assumes "coll_ok S c" "revoked_or_gone (coll_docs S c k)" "list_all (\<lambda>x. \<not> creates k x) ops"
  shows "coll_ok S (run_session_ops S B c ops) \<and> revoked_or_gone (coll_docs S (run_session_ops S B c ops) k)"
  using assms
proof (induction ops arbitrary: c)
  case (Cons x ops)
  then have "coll_ok S (run_session_op S B c x)" "revoked_or_gone (coll_docs S (run_session_op S B c x) k)"
    using run_session_op_evolves [of c k x] evolves_revoked by auto
  with Cons.IH [of "run_session_op S B c x"] Cons.prems(3) show ?case by (simp add: run_session_ops_def)
qed (simp add: run_session_ops_def)

lemma run_session_ops_ok: "coll_ok S c \<Longrightarrow> coll_ok S (run_session_ops S B c ops)"
proof (induction ops arbitrary: c)
  case (Cons x ops)
  have "\<exists>k. \<not> creates k x"
  proof (cases x)
    case (OpCreateSession now fresh s)
    then show ?thesis by (intro exI [of _ "Suc (ses_ID (prepare_session now fresh s))"]) (simp del: prepare_session_key)
  qed simp_all
  then have "coll_ok S (run_session_op S B c x)" using run_session_op_evolves [OF Cons.prems] by blast
  then show ?case using Cons.IH by (simp add: run_session_ops_def)
qed (simp add: run_session_ops_def)

lemma find_one_session:
  assumes "coll_ok S c" "find_one S c f = Inr s"
  shows "f s \<and> coll_docs S c (ses_ID s) = Some s"
proof -
  from assms(2) have "coll_find S c f = Inr (Some s)" by (auto simp: find_one_def split: sum.splits option.splits)
  from find_some [OF assms(1) this] key [OF assms(1)] show ?thesis by (auto simp: session_key)
qed

text \<open>Revoking succeeds on one live session with that refresh token, and revokes it.\<close>

lemma revoke_done:
  assumes "coll_ok S c" "RevokeSessionByRefreshTokenHash S now c h = (c', None)"
  shows "\<exists>k s. coll_docs S c k = Some s \<and> revoke_filter h s \<and> coll_docs S c' = (coll_docs S c)(k \<mapsto> revoke_doc now s) \<and> coll_ok S c'"
proof -
  have key: "coll_key S (revoke_doc now s) = coll_key S s" for s by (simp add: session_key)
  from assms(2) obtain n where u: "coll_update S c (revoke_filter h) (revoke_doc now) = (c', Inr n)" "n \<noteq> 0"
    by (auto simp: RevokeSessionByRefreshTokenHash_def session_update_result_def split: prod.splits sum.splits if_splits)
  from update_done [OF assms(1) key u(1)] u(2) update_ok [OF assms(1) key u(1)] show ?thesis
    by (auto simp: updated_at_def)
qed

lemma rotate_done:
  assumes "coll_ok S c" "RotateSessionTokens S now c i ah rh ae re = (c', None)"
  shows "\<exists>s. coll_docs S c i = Some s \<and> live s \<and>
    coll_docs S c' = (coll_docs S c)(i \<mapsto> rotate_doc now ah rh ae re s) \<and> coll_ok S c'"
proof -
  have k: "coll_key S (rotate_doc now ah rh ae re s) = coll_key S s" for s by (simp add: session_key)
  from assms(2) obtain n where u: "coll_update S c (rotate_filter i) (rotate_doc now ah rh ae re) = (c', Inr n)" "n \<noteq> 0"
    by (auto simp: RotateSessionTokens_def session_update_result_def split: prod.splits sum.splits if_splits)
  from update_done [OF assms(1) k u(1)] u(2) obtain j s where
    j: "updated_at (coll_docs S c) (rotate_filter i) (rotate_doc now ah rh ae re) j s (coll_docs S c')" by auto
  then have "j = i" using key [OF assms(1), of j s] by (auto simp: updated_at_def rotate_filter_def session_key)
  with j update_ok [OF assms(1) k u(1)] show ?thesis by (auto simp: updated_at_def rotate_filter_def)
qed

text \<open>After \<open>RevokeOldUserSessions\<close> a user has at most \<open>keep\<close> live sessions.\<close>

lemma revoke_old_bound:
  assumes "coll_ok S c" "0 < keep" "RevokeOldUserSessions B now c u keep = (c', None)"
  shows "finite {k. \<exists>s. coll_docs S c' k = Some s \<and> user_live u s} \<and>
    card {k. \<exists>s. coll_docs S c' k = Some s \<and> user_live u s} \<le> nat keep"
proof -
  from assms(2,3) obtain items where f: "bulk_find B c (user_live u) newest_key (nat keep) = Inr items"
    by (auto simp: RevokeOldUserSessions_def split: sum.splits)
  from find_many [OF assms(1) f] obtain full where full: "selected_docs (coll_docs S c) ses_ID (user_live u) newest_key full"
    and items: "items = drop (nat keep) full" by (auto simp: session_key)
  define old where "old = set (map ses_ID items)"
  have upd: "c' = c \<and> old = {} \<or> bulk_update B c (\<lambda>s. ses_ID s \<in> old) (revoke_doc now) = (c', None)"
    using assms(2,3) f by (auto simp: RevokeOldUserSessions_def Let_def old_def split: if_splits)
  have key: "coll_key S (revoke_doc now s) = coll_key S s" for s by (simp add: session_key)
  have "{k. \<exists>s. coll_docs S c' k = Some s \<and> user_live u s} \<subseteq> ses_ID ` set (take (nat keep) full)"
  proof
    fix k assume "k \<in> {k. \<exists>s. coll_docs S c' k = Some s \<and> user_live u s}"
    then obtain s where s: "coll_docs S c' k = Some s" "user_live u s" by blast
    have "coll_docs S c k = Some s \<and> k \<notin> old"
    proof (rule disjE [OF upd])
      assume "c' = c \<and> old = {}" with s show ?thesis by simp
    next
      assume b: "bulk_update B c (\<lambda>s. ses_ID s \<in> old) (revoke_doc now) = (c', None)"
      from update_many [OF assms(1) key b, of k] s have same: "coll_docs S c k = Some s"
        by (auto simp: user_live_def)
      have "k \<notin> old"
      proof
        assume "k \<in> old"
        moreover have "ses_ID s = k" using doc_store.key [OF doc_store_axioms assms(1) same] by (simp add: session_key)
        ultimately have "coll_docs S c' k = Some (revoke_doc now s)"
          using update_many_all [OF assms(1) key b same] by simp
        with s(1) have "s = revoke_doc now s" by simp
        with s(2) show False using revoke_doc_not_live by (metis user_live_def)
      qed
      with same show ?thesis by blast
    qed
    then have s': "coll_docs S c k = Some s" "k \<notin> old" by blast+
    have id: "ses_ID s = k" using doc_store.key [OF doc_store_axioms assms(1) s'(1)] by (simp add: session_key)
    with s'(1) s(2) full have "s \<in> set full" by (auto simp: selected_docs_def)
    then have "s \<in> set (take (nat keep) full) \<union> set (drop (nat keep) full)"
      by (metis append_take_drop_id set_append)
    with s'(2) id items show "k \<in> ses_ID ` set (take (nat keep) full)" by (auto simp: old_def)
  qed
  moreover have "card (ses_ID ` set (take (nat keep) full)) \<le> nat keep"
    by (rule order_trans [OF card_image_le]) (auto intro: order_trans [OF card_length])
  ultimately show ?thesis by (meson card_mono finite_imageI finite_set finite_subset order_trans)
qed

end

lemma mem_session_store: "session_store (mem_coll ses_ID) mem_bulk"
  by (intro session_store.intro mem_bulk_store session_store_axioms.intro) (simp add: mem_coll_def)

interpretation mem_sessions: session_store "mem_coll ses_ID" mem_bulk
  by (rule mem_session_store)

end
