(* ===== verification/Auth_Api.thy ===== *)
theory Auth_Api
  imports Session_Store
begin

text \<open>
  The authentication endpoints, \<open>internal/api/auth_handlers.go\<close> and \<open>oauth_handlers.go\<close>:
  signup, login, refresh, logout, the OAuth redirect and its callback, and the session lookup that
  the middleware calls. A handler maps the request and the state (the collections and the audit
  entries written so far) to the new state, the cookies it sets and its reply. The clock, new
  ObjectIDs and the random source are numbered readings, so nothing is assumed about them. The
  goroutine that creates an ingest token after a signup runs beside the handler and is left out.
\<close>

subsection \<open>Requests, replies, environment\<close>

record signup_request =
  sq_Email :: string
  sq_Password :: string
  sq_Name :: string
  sq_AccountName :: string

record login_request =
  lq_Email :: string
  lq_Password :: string

record user_response =
  ur_ID :: string
  ur_Email :: string
  ur_Name :: string
  ur_AccountID :: string
  ur_Role :: string
  ur_CreatedAt :: gotime

record account_response =
  ar_ID :: string
  ar_Name :: string
  ar_Slug :: string

record auth_response =
  ax_AccessToken :: string
  ax_TokenType :: string
  ax_AccessExpiresAt :: gotime
  ax_RefreshExpiresAt :: gotime
  ax_User :: user_response
  ax_Account :: account_response

record cookie =
  ck_Name :: string
  ck_Value :: string
  ck_Path :: string
  ck_Expires :: gotime
  ck_MaxAge :: int
  ck_HttpOnly :: bool
  ck_Secure :: bool
  ck_SameSite :: string

datatype auth_reply =
    ErrorReply nat string
  | SessionReply nat auth_response
  | NoContentReply
  | MeReply principal
  | RedirectReply string

record oauth_config =
  oc_ClientID :: string
  oc_ClientSecret :: string
  oc_RedirectURL :: string
  oc_AuthURL :: string
  oc_TokenURL :: string
  oc_Scopes :: "string list"

record google_userinfo =
  gu_Sub :: string
  gu_Email :: string
  gu_EmailVerified :: bool
  gu_Name :: string

record github_user =
  gh_ID :: int
  gh_Login :: string
  gh_Name :: string
  gh_Email :: string

record github_email =
  ge_Email :: string
  ge_Primary :: bool
  ge_Verified :: bool

record ('a, 'u, 's, 'i, 't) auth_env =
  av_db :: "('a, 'u, 's, 'i) auth_db"
  av_now :: "nat \<Rightarrow> int"
  av_new_id :: "nat \<Rightarrow> object_id"
  av_random :: "nat \<Rightarrow> string option"
  av_Hash :: "string \<Rightarrow> string"
  av_bcrypt :: "string \<Rightarrow> string option"
  av_compare :: "string \<Rightarrow> string \<Rightarrow> bool"
  av_ParseAddress :: "string \<Rightarrow> bool"
  av_production :: bool
  av_Getenv :: "string \<Rightarrow> string"
  av_AuthCodeURL :: "oauth_config \<Rightarrow> string \<Rightarrow> string"
  av_Exchange :: "oauth_config \<Rightarrow> string \<Rightarrow> 't option"
  av_google :: "'t \<Rightarrow> google_userinfo option"
  av_github :: "'t \<Rightarrow> github_user option"
  av_github_emails :: "'t \<Rightarrow> github_email list option"
  av_saveAudit :: "audit_log list \<Rightarrow> audit_log \<Rightarrow> bool"

text \<open>The request with its body as the JSON decoder reads it, and its cookies by name.\<close>

record auth_req =
  aq_req :: http_req
  aq_Cookie :: "string \<Rightarrow> string option"
  aq_UserAgent :: string
  aq_Signup :: "signup_request option"
  aq_Login :: "login_request option"
  aq_provider :: string
  aq_Query :: "string \<Rightarrow> string"

type_synonym ('a, 'u, 's, 'i) auth_world = "('a, 'u, 's, 'i) auth_state \<times> audit_log list"

subsection \<open>Helpers\<close>

definition accessTokenTTL :: int where
  "accessTokenTTL = 15 * minute"

definition refreshTokenTTL :: int where
  "refreshTokenTTL = 30 * 24 * 60 * minute"

text \<open>
  The entry of a session action and its store: \<open>SaveAuditLog\<close> may fail (\<open>av_saveAudit\<close> says
  whether it takes the entry), and \<open>auditAuth\<close> ignores that.
\<close>

definition auth_entry :: "auth_req \<Rightarrow> string \<Rightarrow> string \<Rightarrow> string \<Rightarrow> string \<Rightarrow> string \<Rightarrow> audit_log" where
  "auth_entry q action status userID accountID message =
     \<lparr>adt_ID = 0, adt_CreatedAt = None, adt_ActorType = ''user'', adt_ActorID = userID, adt_Action = action,
      adt_ResourceType = ''session'', adt_ResourceID = accountID, adt_Status = status, adt_RemoteAddr = clientID (aq_req q),
      adt_Message = message, adt_Metadata = []\<rparr>"

definition auditAuth ::
  "('a, 'u, 's, 'i, 't) auth_env \<Rightarrow> auth_req \<Rightarrow> string \<Rightarrow> string \<Rightarrow> string \<Rightarrow> string \<Rightarrow> string \<Rightarrow>
     ('a, 'u, 's, 'i) auth_world \<Rightarrow> ('a, 'u, 's, 'i) auth_world" where
  "auditAuth E q action status userID accountID message w =
     (let e = auth_entry q action status userID accountID message in
      (fst w, if av_saveAudit E (snd w) e then snd w @ [e] else snd w))"

definition newSessionTokens ::
  "('a, 'u, 's, 'i, 't) auth_env \<Rightarrow> nat \<Rightarrow> nat \<Rightarrow> (string \<times> string \<times> gotime \<times> gotime) option" where
  "newSessionTokens E n k =
     (case token_Generate (av_random E k) ''kx_access'' of
        None \<Rightarrow> None
      | Some accessToken \<Rightarrow>
          (case token_Generate (av_random E (k + 1)) ''kx_refresh'' of
             None \<Rightarrow> None
           | Some refreshToken \<Rightarrow>
               Some (accessToken, refreshToken, Some (av_now E n + accessTokenTTL), Some (av_now E n + refreshTokenTTL))))"

definition refreshCookieName :: string where
  "refreshCookieName = ''karaxys_refresh_token''"

text \<open>\<open>time.Until(t).Seconds()\<close> cut to an integer.\<close>

definition setRefreshCookie :: "('a, 'u, 's, 'i, 't) auth_env \<Rightarrow> nat \<Rightarrow> string \<Rightarrow> gotime \<Rightarrow> cookie" where
  "setRefreshCookie E n refreshToken expiresAt =
     (let left = time_key expiresAt - av_now E n in
      \<lparr>ck_Name = refreshCookieName, ck_Value = refreshToken, ck_Path = ''/'', ck_Expires = expiresAt,
       ck_MaxAge = (if left < 0 then - ((- left) div second) else left div second), ck_HttpOnly = True,
       ck_Secure = av_production E, ck_SameSite = ''Lax''\<rparr>)"

definition clearRefreshCookie :: "('a, 'u, 's, 'i, 't) auth_env \<Rightarrow> cookie" where
  "clearRefreshCookie E =
     \<lparr>ck_Name = refreshCookieName, ck_Value = [], ck_Path = ''/'', ck_Expires = None, ck_MaxAge = - 1, ck_HttpOnly = True,
      ck_Secure = av_production E, ck_SameSite = ''Lax''\<rparr>"

definition refreshTokenFromRequest :: "auth_req \<Rightarrow> string" where
  "refreshTokenFromRequest q = (case aq_Cookie q refreshCookieName of None \<Rightarrow> [] | Some v \<Rightarrow> v)"

definition normalizeAuthEmail :: "('a, 'u, 's, 'i, 't) auth_env \<Rightarrow> string \<Rightarrow> string option" where
  "normalizeAuthEmail E email0 =
     (let email = to_lower (trim_space email0) in
      if email = [] then None else if \<not> av_ParseAddress E email then None else Some email)"

definition userResponse :: "('a, 'u, 's, 'i) auth_db \<Rightarrow> user \<Rightarrow> user_response" where
  "userResponse D u =
     \<lparr>ur_ID = ad_Hex D (usr_ID u), ur_Email = usr_Email u, ur_Name = usr_Name u, ur_AccountID = ad_Hex D (usr_AccountID u),
      ur_Role = usr_Role u, ur_CreatedAt = usr_CreatedAt u\<rparr>"

definition accountResponse :: "('a, 'u, 's, 'i) auth_db \<Rightarrow> account \<Rightarrow> account_response" where
  "accountResponse D a = \<lparr>ar_ID = ad_Hex D (acc_ID a), ar_Name = acc_Name a, ar_Slug = acc_Slug a\<rparr>"

definition session_response ::
  "('a, 'u, 's, 'i) auth_db \<Rightarrow> string \<Rightarrow> gotime \<Rightarrow> gotime \<Rightarrow> user \<Rightarrow> account \<Rightarrow> auth_response" where
  "session_response D accessToken accessExpiresAt refreshExpiresAt u a =
     \<lparr>ax_AccessToken = accessToken, ax_TokenType = ''Bearer'', ax_AccessExpiresAt = accessExpiresAt,
      ax_RefreshExpiresAt = refreshExpiresAt, ax_User = userResponse D u, ax_Account = accountResponse D a\<rparr>"

text \<open>
  The new session of a user; its clock readings start at \<open>n\<close>, its new identifier is \<open>fresh\<close>.
\<close>

definition new_session ::
  "('a, 'u, 's, 'i, 't) auth_env \<Rightarrow> auth_req \<Rightarrow> user \<Rightarrow> account \<Rightarrow> string \<Rightarrow> string \<Rightarrow> gotime \<Rightarrow> gotime \<Rightarrow> session" where
  "new_session E q u a accessToken refreshToken accessExpiresAt refreshExpiresAt =
     \<lparr>ses_ID = 0, ses_UserID = usr_ID u, ses_AccountID = acc_ID a, ses_AccessTokenHash = av_Hash E accessToken,
      ses_RefreshTokenHash = av_Hash E refreshToken, ses_UserAgent = aq_UserAgent q, ses_RemoteAddr = clientID (aq_req q),
      ses_CreatedAt = None, ses_UpdatedAt = None, ses_AccessExpiresAt = accessExpiresAt,
      ses_RefreshExpiresAt = refreshExpiresAt, ses_RevokedAt = None\<rparr>"

definition createSessionResponse ::
  "('a, 'u, 's, 'i, 't) auth_env \<Rightarrow> auth_req \<Rightarrow> nat \<Rightarrow> object_id \<Rightarrow> ('a, 'u, 's, 'i) auth_state \<Rightarrow> user \<Rightarrow> account \<Rightarrow>
     ('a, 'u, 's, 'i) auth_state \<times> (auth_response \<times> cookie) option" where
  "createSessionResponse E q n fresh st u a =
     (case newSessionTokens E n 0 of
        None \<Rightarrow> (st, None)
      | Some (accessToken, refreshToken, accessExpiresAt, refreshExpiresAt) \<Rightarrow>
          (case CreateSession (ad_Sessions (av_db E)) (av_now E (n + 1)) fresh (at_sessions st)
              (new_session E q u a accessToken refreshToken accessExpiresAt refreshExpiresAt) of
             (c1, Inl err) \<Rightarrow> (st\<lparr>at_sessions := c1\<rparr>, None)
           | (c1, Inr s) \<Rightarrow>
               (st\<lparr>at_sessions := fst (RevokeOldUserSessions (ad_SessionsB (av_db E)) (av_now E (n + 2)) c1 (usr_ID u) 10)\<rparr>,
                Some (session_response (av_db E) accessToken accessExpiresAt refreshExpiresAt u a,
                  setRefreshCookie E (n + 3) refreshToken refreshExpiresAt))))"

subsection \<open>Handlers\<close>

definition handleSignup ::
  "('a, 'u, 's, 'i, 't) auth_env \<Rightarrow> auth_req \<Rightarrow> ('a, 'u, 's, 'i) auth_world \<Rightarrow> ('a, 'u, 's, 'i) auth_world \<times> cookie list \<times> auth_reply" where
  "handleSignup E q w =
     (let failed = auditAuth E q ''auth.signup'' ''failure'' in
      case aq_Signup q of
        None \<Rightarrow> (w, [], ErrorReply 400 ''Invalid JSON'')
      | Some req \<Rightarrow>
          (case normalizeAuthEmail E (sq_Email req) of
             None \<Rightarrow> (failed [] [] ''invalid email'' w, [], ErrorReply 400 ''Invalid email'')
           | Some email \<Rightarrow>
               (case password_Hash (av_bcrypt E) (sq_Password req) of
                  Inl ErrWeakPassword \<Rightarrow>
                    (failed [] [] ''password must be at least 10 characters'' w, [],
                     ErrorReply 400 ''password must be at least 10 characters'')
                | Inl HashError \<Rightarrow> (failed [] [] ''Password setup failed'' w, [], ErrorReply 500 ''Password setup failed'')
                | Inr passwordHash \<Rightarrow>
                    (case CreateAccountWithAdminUser (av_db E) (av_now E 0) (av_new_id E) (fst w) email (sq_Name req)
                        (sq_AccountName req) passwordHash of
                       (st1, Inl ErrDuplicateUser) \<Rightarrow>
                         (failed [] [] ''duplicate user'' (st1, snd w), [], ErrorReply 409 ''User already exists'')
                     | (st1, Inl err) \<Rightarrow>
                         (failed [] [] ''user creation failed'' (st1, snd w), [], ErrorReply 500 ''User creation failed'')
                     | (st1, Inr (account, user)) \<Rightarrow>
                         (let ids = (ad_Hex (av_db E) (usr_ID user), ad_Hex (av_db E) (acc_ID account)) in
                          case createSessionResponse E q 1 (av_new_id E 3) st1 user account of
                            (st2, None) \<Rightarrow>
                              (failed (fst ids) (snd ids) ''session creation failed'' (st2, snd w), [],
                               ErrorReply 500 ''Session creation failed'')
                          | (st2, Some (resp, cookie)) \<Rightarrow>
                              (auditAuth E q ''auth.signup'' ''success'' (fst ids) (snd ids) [] (st2, snd w), [cookie],
                               SessionReply 201 resp))))))"

definition handleLogin ::
  "('a, 'u, 's, 'i, 't) auth_env \<Rightarrow> auth_req \<Rightarrow> ('a, 'u, 's, 'i) auth_world \<Rightarrow> ('a, 'u, 's, 'i) auth_world \<times> cookie list \<times> auth_reply" where
  "handleLogin E q w =
     (let failed = auditAuth E q ''auth.login'' ''failure''; denied = ErrorReply 401 ''Invalid email or password'' in
      case aq_Login q of
        None \<Rightarrow> (w, [], ErrorReply 400 ''Invalid JSON'')
      | Some req \<Rightarrow>
          (case normalizeAuthEmail E (lq_Email req) of
             None \<Rightarrow> (failed [] [] ''invalid email'' w, [], denied)
           | Some email \<Rightarrow>
               (case FindUserByEmail (av_db E) (fst w) email of
                  Inl err \<Rightarrow> (failed [] [] ''unknown user'' w, [], denied)
                | Inr user \<Rightarrow>
                    (let uid = ad_Hex (av_db E) (usr_ID user); aid = ad_Hex (av_db E) (usr_AccountID user) in
                     if \<not> password_Verify (av_compare E) (usr_PasswordHash user) (lq_Password req)
                     then (failed uid aid ''invalid password'' w, [], denied)
                     else (case GetAccount (av_db E) (fst w) (usr_AccountID user) of
                         Inl err \<Rightarrow> (failed uid aid ''account missing'' w, [], ErrorReply 500 ''Account not found'')
                       | Inr account \<Rightarrow>
                           (case createSessionResponse E q 0 (av_new_id E 0) (fst w) user account of
                              (st1, None) \<Rightarrow>
                                (failed uid aid ''session creation failed'' (st1, snd w), [], ErrorReply 500 ''Session creation failed'')
                            | (st1, Some (resp, cookie)) \<Rightarrow>
                                (auditAuth E q ''auth.login'' ''success'' uid aid []
                                   (MarkUserLogin (av_db E) (av_now E 4) st1 (usr_ID user), snd w),
                                 [cookie], SessionReply 200 resp)))))))"

definition handleRefresh ::
  "('a, 'u, 's, 'i, 't) auth_env \<Rightarrow> auth_req \<Rightarrow> ('a, 'u, 's, 'i) auth_world \<Rightarrow> ('a, 'u, 's, 'i) auth_world \<times> cookie list \<times> auth_reply" where
  "handleRefresh E q w =
     (let refreshToken0 = refreshTokenFromRequest q in
      if refreshToken0 = [] then (w, [], ErrorReply 401 ''Refresh token missing'')
      else (case FindSessionByRefreshTokenHash (av_db E) (av_now E 0) (fst w) (av_Hash E refreshToken0) of
          Inl err \<Rightarrow> (auditAuth E q ''auth.refresh'' ''failure'' [] [] ''invalid refresh token'' w, [], ErrorReply 401 ''Invalid refresh token'')
        | Inr (s, u, a) \<Rightarrow>
            (case newSessionTokens E 1 0 of
               None \<Rightarrow> (w, [], ErrorReply 500 ''Token generation failed'')
             | Some (accessToken, refreshToken, accessExpiresAt, refreshExpiresAt) \<Rightarrow>
                 (case RotateSessionTokens (ad_Sessions (av_db E)) (av_now E 2) (at_sessions (fst w)) (ses_ID s)
                     (av_Hash E accessToken) (av_Hash E refreshToken) accessExpiresAt refreshExpiresAt of
                    (c', Some err) \<Rightarrow> (((fst w)\<lparr>at_sessions := c'\<rparr>, snd w), [], ErrorReply 401 ''Refresh failed'')
                  | (c', None) \<Rightarrow>
                      (auditAuth E q ''auth.refresh'' ''success'' (ad_Hex (av_db E) (usr_ID u)) (ad_Hex (av_db E) (acc_ID a)) []
                         ((fst w)\<lparr>at_sessions := c'\<rparr>, snd w),
                       [setRefreshCookie E 3 refreshToken refreshExpiresAt],
                       SessionReply 200 (session_response (av_db E) accessToken accessExpiresAt refreshExpiresAt u a))))))"

definition handleLogout ::
  "('a, 'u, 's, 'i, 't) auth_env \<Rightarrow> auth_req \<Rightarrow> ('a, 'u, 's, 'i) auth_world \<Rightarrow> ('a, 'u, 's, 'i) auth_world \<times> cookie list \<times> auth_reply" where
  "handleLogout E q w =
     (let refreshToken = refreshTokenFromRequest q;
          st1 = (if refreshToken = [] then fst w
            else (fst w)\<lparr>at_sessions := fst (RevokeSessionByRefreshTokenHash (ad_Sessions (av_db E)) (av_now E 0)
              (at_sessions (fst w)) (av_Hash E refreshToken))\<rparr>);
          (uid, aid) = (case rx_Principal (aq_req q) of None \<Rightarrow> ([], []) | Some p \<Rightarrow> (pr_UserID p, pr_AccountID p))
      in (auditAuth E q ''auth.logout'' ''success'' uid aid [] (st1, snd w), [clearRefreshCookie E], NoContentReply))"

definition handleMe :: "auth_req \<Rightarrow> auth_reply" where
  "handleMe q =
     (case rx_Principal (aq_req q) of
        None \<Rightarrow> ErrorReply 401 ''Unauthorized''
      | Some p \<Rightarrow> if pr_UserID p = [] then ErrorReply 401 ''Unauthorized'' else MeReply p)"

definition authenticateSessionToken ::
  "('a, 'u, 's, 'i, 't) auth_env \<Rightarrow> ('a, 'u, 's, 'i) auth_state \<Rightarrow> string \<Rightarrow> principal option" where
  "authenticateSessionToken E st tok =
     (if tok = [] then None
      else (case FindSessionByAccessTokenHash (av_db E) (av_now E 0) st (av_Hash E tok) of
          Inl err \<Rightarrow> None
        | Inr (s, u, a) \<Rightarrow>
            Some \<lparr>pr_Subject = ''user:'' @ ad_Hex (av_db E) (usr_ID u), pr_ActorType = ''user'', pr_UserID = ad_Hex (av_db E) (usr_ID u),
              pr_AccountID = ad_Hex (av_db E) (acc_ID a), pr_Role = usr_Role u\<rparr>))"

subsection \<open>OAuth\<close>

definition isSupportedOAuthProvider :: "string \<Rightarrow> bool" where
  "isSupportedOAuthProvider provider \<longleftrightarrow> provider = ''google'' \<or> provider = ''github''"

definition providerOAuthConfig :: "('a, 'u, 's, 'i, 't) auth_env \<Rightarrow> string \<Rightarrow> oauth_config option" where
  "providerOAuthConfig E provider =
     (let env = av_Getenv E;
          base0 = trim_right_set ''/'' (trim_space (env ''KARAXYS_OAUTH_REDIRECT_BASE_URL''));
          base = (if base0 = [] then ''http://localhost:8081'' else base0);
          redirectURL = base @ ''/auth/oauth/'' @ provider @ ''/callback''
      in if provider = ''google''
         then (let i = trim_space (env ''KARAXYS_OAUTH_GOOGLE_CLIENT_ID''); s = trim_space (env ''KARAXYS_OAUTH_GOOGLE_CLIENT_SECRET'') in
           if i = [] \<or> s = [] then None
           else Some \<lparr>oc_ClientID = i, oc_ClientSecret = s, oc_RedirectURL = redirectURL,
             oc_AuthURL = ''https://accounts.google.com/o/oauth2/v2/auth'', oc_TokenURL = ''https://oauth2.googleapis.com/token'',
             oc_Scopes = [''openid'', ''email'', ''profile'']\<rparr>)
         else if provider = ''github''
         then (let i = trim_space (env ''KARAXYS_OAUTH_GITHUB_CLIENT_ID''); s = trim_space (env ''KARAXYS_OAUTH_GITHUB_CLIENT_SECRET'') in
           if i = [] \<or> s = [] then None
           else Some \<lparr>oc_ClientID = i, oc_ClientSecret = s, oc_RedirectURL = redirectURL,
             oc_AuthURL = ''https://github.com/login/oauth/authorize'', oc_TokenURL = ''https://github.com/login/oauth/access_token'',
             oc_Scopes = [''read:user'', ''user:email'']\<rparr>)
         else None)"

definition dashboardURL :: "('a, 'u, 's, 'i, 't) auth_env \<Rightarrow> string" where
  "dashboardURL E =
     (let base = trim_right_set ''/'' (trim_space (av_Getenv E ''KARAXYS_DASHBOARD_URL'')) in
      if base = [] then ''http://localhost:7000'' else base)"

definition oauthStateCookieName :: string where
  "oauthStateCookieName = ''karaxys_oauth_state''"

definition setOAuthStateCookie :: "('a, 'u, 's, 'i, 't) auth_env \<Rightarrow> string \<Rightarrow> cookie" where
  "setOAuthStateCookie E value0 =
     \<lparr>ck_Name = oauthStateCookieName, ck_Value = value0, ck_Path = ''/'', ck_Expires = None, ck_MaxAge = 600, ck_HttpOnly = True,
      ck_Secure = av_production E, ck_SameSite = ''Lax''\<rparr>"

definition clearOAuthStateCookie :: "('a, 'u, 's, 'i, 't) auth_env \<Rightarrow> cookie" where
  "clearOAuthStateCookie E =
     \<lparr>ck_Name = oauthStateCookieName, ck_Value = [], ck_Path = ''/'', ck_Expires = None, ck_MaxAge = - 1, ck_HttpOnly = True,
      ck_Secure = av_production E, ck_SameSite = ''Lax''\<rparr>"

definition oauthStateFromRequest :: "auth_req \<Rightarrow> string" where
  "oauthStateFromRequest q = (case aq_Cookie q oauthStateCookieName of None \<Rightarrow> [] | Some v \<Rightarrow> v)"

definition randomToken :: "('a, 'u, 's, 'i, 't) auth_env \<Rightarrow> string option" where
  "randomToken E = map_option EncodeToString (av_random E 0)"

definition handleOAuthStart ::
  "('a, 'u, 's, 'i, 't) auth_env \<Rightarrow> auth_req \<Rightarrow> cookie list \<times> auth_reply" where
  "handleOAuthStart E q =
     (let provider = aq_provider q in
      if \<not> isSupportedOAuthProvider provider then ([], ErrorReply 404 ''Unsupported provider'')
      else (case providerOAuthConfig E provider of
          None \<Rightarrow> ([], ErrorReply 503 ''OAuth provider not configured'')
        | Some cfg \<Rightarrow>
            (case randomToken E of
               None \<Rightarrow> ([], ErrorReply 500 ''Failed to start OAuth'')
             | Some state \<Rightarrow>
                 ([setOAuthStateCookie E (provider @ CHR '':'' # state)], RedirectReply (av_AuthCodeURL E cfg state)))))"

definition redirectOAuthError :: "('a, 'u, 's, 'i, 't) auth_env \<Rightarrow> string \<Rightarrow> auth_reply" where
  "redirectOAuthError E reason = RedirectReply (dashboardURL E @ ''/login?error='' @ escape encodeQueryComponent reason)"

text \<open>The primary address of a GitHub user with its verification; the profile's own, unverified, when there is none.\<close>

definition github_email_of :: "github_user \<Rightarrow> github_email list option \<Rightarrow> string \<times> bool" where
  "github_email_of profile emails =
     (case emails of
        None \<Rightarrow> (gh_Email profile, False)
      | Some es \<Rightarrow>
          (case List.find ge_Primary es of None \<Rightarrow> (gh_Email profile, False) | Some e \<Rightarrow> (ge_Email e, ge_Verified e)))"

definition format_int :: "int \<Rightarrow> string" where
  "format_int i = (if i < 0 then CHR ''-'' # itoa (nat (- i)) else itoa (nat i))"

definition fetchOAuthProfile :: "('a, 'u, 's, 'i, 't) auth_env \<Rightarrow> string \<Rightarrow> 't \<Rightarrow> oauth_profile option" where
  "fetchOAuthProfile E provider tok =
     (if provider = ''google''
      then (case av_google E tok of
              None \<Rightarrow> None
            | Some d \<Rightarrow>
                if gu_Sub d = [] then None
                else Some \<lparr>op_Provider = provider, op_ProviderUserID = gu_Sub d, op_Email = gu_Email d,
                  op_EmailVerified = gu_EmailVerified d, op_Name = gu_Name d\<rparr>)
      else if provider = ''github''
      then (case av_github E tok of
              None \<Rightarrow> None
            | Some profile \<Rightarrow>
                if gh_ID profile = 0 then None
                else (let (email, verified) = github_email_of profile (av_github_emails E tok) in
                  Some \<lparr>op_Provider = provider, op_ProviderUserID = format_int (gh_ID profile), op_Email = email,
                    op_EmailVerified = verified, op_Name = (if gh_Name profile = [] then gh_Login profile else gh_Name profile)\<rparr>))
      else None)"

definition handleOAuthCallback ::
  "('a, 'u, 's, 'i, 't) auth_env \<Rightarrow> auth_req \<Rightarrow> ('a, 'u, 's, 'i) auth_world \<Rightarrow> ('a, 'u, 's, 'i) auth_world \<times> cookie list \<times> auth_reply" where
  "handleOAuthCallback E q w =
     (let provider = aq_provider q; failed = auditAuth E q ''auth.login'' ''failure'' in
      if \<not> isSupportedOAuthProvider provider then (w, [], ErrorReply 404 ''Unsupported provider'')
      else if aq_Query q ''error'' \<noteq> [] then (w, [], redirectOAuthError E ''access_denied'')
      else (case providerOAuthConfig E provider of
          None \<Rightarrow> (w, [], ErrorReply 503 ''OAuth provider not configured'')
        | Some cfg \<Rightarrow>
            (let cookieState = oauthStateFromRequest q; clear = clearOAuthStateCookie E; queryState = aq_Query q ''state'';
                 code = aq_Query q ''code'' in
             if cookieState = [] \<or> queryState = [] \<or> cookieState \<noteq> provider @ CHR '':'' # queryState
             then (w, [clear], redirectOAuthError E ''invalid_state'')
             else if code = [] then (w, [clear], redirectOAuthError E ''missing_code'')
             else (case av_Exchange E cfg code of
                 None \<Rightarrow> (w, [clear], redirectOAuthError E ''exchange_failed'')
               | Some tok \<Rightarrow>
                   (case fetchOAuthProfile E provider tok of
                      None \<Rightarrow> (w, [clear], redirectOAuthError E ''profile_failed'')
                    | Some profile \<Rightarrow>
                        (case ResolveOAuthLogin (av_db E) (av_now E 0) (av_new_id E) (fst w) profile of
                           (st1, Inl err) \<Rightarrow>
                             (let reason = (if err = ErrOAuthEmailUnverified then ''email_unverified''
                                else if err = ErrDuplicateUser then ''account_exists'' else ''login_failed'')
                              in (failed [] [] (''oauth '' @ provider @ '' '' @ reason) (st1, snd w), [clear], redirectOAuthError E reason))
                         | (st1, Inr (account, user)) \<Rightarrow>
                             (let uid = ad_Hex (av_db E) (usr_ID user); aid = ad_Hex (av_db E) (acc_ID account) in
                              case createSessionResponse E q 1 (av_new_id E 4) st1 user account of
                                (st2, None) \<Rightarrow>
                                  (failed uid aid ''oauth session creation failed'' (st2, snd w), [clear], redirectOAuthError E ''session_failed'')
                              | (st2, Some (resp, cookie)) \<Rightarrow>
                                  (auditAuth E q ''auth.login'' ''success'' uid aid (''oauth '' @ provider)
                                     (MarkUserLogin (av_db E) (av_now E 5) st2 (usr_ID user), snd w),
                                   [clear, cookie], RedirectReply (dashboardURL E @ ''/auth/callback'')))))))))"

subsection \<open>Examples of behaviour\<close>

text \<open>An in-memory environment: tokens are numbered, hashes are the texts themselves.\<close>

definition mem_auth_db :: "(account list, user list, session list, oauth_identity list) auth_db" where
  "mem_auth_db =
     \<lparr>ad_Accounts = mem_coll acc_ID, ad_AccountsB = mem_bulk, ad_Users = mem_coll usr_ID, ad_UsersB = mem_bulk,
      ad_Sessions = mem_coll ses_ID, ad_SessionsB = mem_bulk, ad_Identities = mem_coll oi_ID,
      ad_isDuplicateKey = (\<lambda>e. e = ''duplicate key''), ad_Hex = itoa\<rparr>"

definition mem_auth_env :: "nat \<Rightarrow> (account list, user list, session list, oauth_identity list, unit) auth_env" where
  "mem_auth_env n =
     \<lparr>av_db = mem_auth_db, av_now = (\<lambda>i. int (100 * n + i)), av_new_id = (\<lambda>i. 100 * n + i + 1), av_random = (\<lambda>i. Some (itoa (10 * n + i))),
      av_Hash = id, av_bcrypt = (\<lambda>p. Some (CHR ''h'' # p)), av_compare = (\<lambda>h p. h = CHR ''h'' # p), av_ParseAddress = (\<lambda>a. True),
      av_production = False, av_Getenv = (\<lambda>k. []), av_AuthCodeURL = (\<lambda>c s. s), av_Exchange = (\<lambda>c s. None), av_google = (\<lambda>t. None),
      av_github = (\<lambda>t. None), av_github_emails = (\<lambda>t. None),
      av_saveAudit = (\<lambda>audit e. True)\<rparr>"

definition empty_auth :: "(account list, user list, session list, oauth_identity list) auth_state" where
  "empty_auth = \<lparr>at_accounts = [], at_users = [], at_sessions = [], at_identities = []\<rparr>"

definition mem_session :: "object_id \<Rightarrow> string \<Rightarrow> session" where
  "mem_session i rh =
     \<lparr>ses_ID = i, ses_UserID = 1, ses_AccountID = 2, ses_AccessTokenHash = ''access'', ses_RefreshTokenHash = rh, ses_UserAgent = [],
      ses_RemoteAddr = [], ses_CreatedAt = Some 0, ses_UpdatedAt = Some 0, ses_AccessExpiresAt = Some 1000,
      ses_RefreshExpiresAt = Some 1000, ses_RevokedAt = None\<rparr>"

text \<open>
  Two requests that refresh with the same token, each looking the session up before the other
  rotates it: both rotations succeed, although the token is meant to be used once.
\<close>

lemma concurrent_refreshes_both_succeed:
  "find_one (mem_coll ses_ID) [mem_session 7 ''r''] (refresh_filter 5 ''r'') = Inr (mem_session 7 ''r'') \<and>
   (let (c1, e1) = RotateSessionTokens (mem_coll ses_ID) 6 [mem_session 7 ''r''] 7 ''a1'' ''r1'' (Some 2000) (Some 2000);
        (c2, e2) = RotateSessionTokens (mem_coll ses_ID) 7 c1 7 ''a2'' ''r2'' (Some 2000) (Some 2000)
    in e1 = None \<and> e2 = None)"
  by code_simp

text \<open>A password is trimmed before it is hashed but not before it is compared.\<close>

lemma padded_password_cannot_log_in:
  "(case password_Hash (av_bcrypt (mem_auth_env 0)) ''my long password '' of
      Inr h \<Rightarrow> \<not> password_Verify (av_compare (mem_auth_env 0)) h ''my long password '' | Inl e \<Rightarrow> False)"
  by code_simp

text \<open>
  An account can be prepared for somebody else: a profile whose address is not verified gets a new
  account under that address, and the owner of the address, with a verified profile, is then linked
  to it. The policy of \<open>decideOAuthAction\<close> refuses only the other order.
\<close>

definition unverified_profile :: oauth_profile where
  "unverified_profile = \<lparr>op_Provider = ''github'', op_ProviderUserID = ''66'', op_Email = ''a@b'', op_EmailVerified = False, op_Name = []\<rparr>"

definition verified_profile :: oauth_profile where
  "verified_profile = \<lparr>op_Provider = ''google'', op_ProviderUserID = ''1'', op_Email = ''a@b'', op_EmailVerified = True, op_Name = []\<rparr>"

lemma unverified_signup_is_shared:
  "(let (s1, r1) = ResolveOAuthLogin mem_auth_db 1 (\<lambda>i. i + 10) empty_auth unverified_profile;
        (s2, r2) = ResolveOAuthLogin mem_auth_db 2 (\<lambda>i. i + 20) s1 verified_profile;
        (s3, r3) = ResolveOAuthLogin mem_auth_db 3 (\<lambda>i. i + 30) s2 unverified_profile
    in case (r1, r2, r3) of (Inr x, Inr y, Inr z) \<Rightarrow> x = y \<and> y = z | _ \<Rightarrow> False)"
  by code_simp

subsection \<open>Properties\<close>

text \<open>
  What a successful \<open>createSessionResponse\<close> for a user leaves: a new live session of this user
  and account that the value of the cookie finds as its refresh token, after which the oldest sessions of
  this user may have been revoked.
\<close>

definition opens_session ::
  "('a, 'u, 's, 'i, 't) auth_env \<Rightarrow> ('a, 'u, 's, 'i) auth_state \<Rightarrow> ('a, 'u, 's, 'i) auth_state \<Rightarrow> user \<Rightarrow> account \<Rightarrow> cookie \<Rightarrow> bool" where
  "opens_session E st st' u a ck \<longleftrightarrow>
     ck_Name ck = refreshCookieName \<and>
     (\<exists>s c1 now. coll_insert (ad_Sessions (av_db E)) (at_sessions st) s = (c1, None) \<and>
        ses_UserID s = usr_ID u \<and> ses_AccountID s = acc_ID a \<and> ses_RefreshTokenHash s = av_Hash E (ck_Value ck) \<and> live s \<and>
        st' = st\<lparr>at_sessions := fst (RevokeOldUserSessions (ad_SessionsB (av_db E)) now c1 (usr_ID u) 10)\<rparr>)"

lemma createSessionResponse_opens:
  assumes "createSessionResponse E q n fresh st u a = (st', Some (resp, ck))"
  shows "opens_session E st st' u a ck \<and> ax_User resp = userResponse (av_db E) u"
proof -
  obtain acct rt ae re where t: "newSessionTokens E n 0 = Some (acct, rt, ae, re)"
    using assms by (auto simp: createSessionResponse_def split: option.splits)
  let ?s = "prepare_session (av_now E (n + 1)) fresh (new_session E q u a acct rt ae re)"
  obtain c1 where i: "coll_insert (ad_Sessions (av_db E)) (at_sessions st) ?s = (c1, None)"
    and st': "st' = st\<lparr>at_sessions := fst (RevokeOldUserSessions (ad_SessionsB (av_db E)) (av_now E (n + 2)) c1 (usr_ID u) 10)\<rparr>"
    and ck: "ck = setRefreshCookie E (n + 3) rt re" and resp: "ax_User resp = userResponse (av_db E) u"
    using assms t
    by (auto simp: createSessionResponse_def CreateSession_def Let_def session_response_def split: prod.splits option.splits)
  have "ses_UserID ?s = usr_ID u" "ses_AccountID ?s = acc_ID a" "ses_RefreshTokenHash ?s = av_Hash E rt" "live ?s"
    by (simp_all add: prepare_session_def new_session_def Let_def live_def is_zero_def)
  moreover have "ck_Name ck = refreshCookieName" "ck_Value ck = rt"
    by (simp_all add: ck setRefreshCookie_def Let_def)
  ultimately show ?thesis using i st' resp unfolding opens_session_def by (metis (full_types))
qed

lemma createSessionResponse_none:
  "createSessionResponse E q n fresh st u a = (st', None) \<Longrightarrow> at_users st' = at_users st \<and> at_accounts st' = at_accounts st"
  by (auto simp: createSessionResponse_def split: option.splits prod.splits sum.splits)

text \<open>At most one entry of the given status is added to the audit log: it is, unless the store refuses it.\<close>

definition audited ::
  "('a, 'u, 's, 'i, 't) auth_env \<Rightarrow> string \<Rightarrow> string \<Rightarrow> audit_log list \<Rightarrow> audit_log list \<Rightarrow> bool" where
  "audited E action status audit audit' \<longleftrightarrow>
     (\<exists>e. adt_Action e = action \<and> adt_Status e = status \<and> audit' = (if av_saveAudit E audit e then audit @ [e] else audit))"

lemma auditAuth_audited:
  "fst (auditAuth E q action status uid aid msg (st, audit)) = st"
  "audited E action status audit (snd (auditAuth E q action status uid aid msg (st, audit)))"
proof -
  show "fst (auditAuth E q action status uid aid msg (st, audit)) = st" by (simp add: auditAuth_def Let_def)
  show "audited E action status audit (snd (auditAuth E q action status uid aid msg (st, audit)))"
    unfolding audited_def
    by (rule exI [of _ "auth_entry q action status uid aid msg"]) (simp add: auditAuth_def Let_def auth_entry_def)
qed

text \<open>
  Property C5. Nobody logs in without the password: a login that answers with a session was made
  with a body whose address belongs to a stored user and whose password the user's hash verifies;
  the answer is about that user, its only cookie is the refresh token of a new session of that
  user, and besides only the last login of the user is noted. Every other login sets no cookie, leaves the users and
  the accounts alone, and, unless the server failed, changes nothing at all. A login whose body cannot be
  read leaves no audit entry; every other one leaves one entry that says how it ended, unless the
  audit store refuses it, which the handler ignores.
\<close>

theorem login_needs_password:
  "case handleLogin E q (st, audit) of
     ((st', audit'), cookies, reply) \<Rightarrow>
       (case reply of
          SessionReply code resp \<Rightarrow>
            (\<exists>req email u a st1 ck. aq_Login q = Some req \<and> normalizeAuthEmail E (lq_Email req) = Some email \<and>
               FindUserByEmail (av_db E) st email = Inr u \<and> password_Verify (av_compare E) (usr_PasswordHash u) (lq_Password req) \<and>
               GetAccount (av_db E) st (usr_AccountID u) = Inr a \<and>
               ax_User resp = userResponse (av_db E) u \<and> cookies = [ck] \<and> opens_session E st st1 u a ck \<and>
               st' = MarkUserLogin (av_db E) (av_now E 4) st1 (usr_ID u) \<and>
               audited E ''auth.login'' ''success'' audit audit')
        | ErrorReply code msg \<Rightarrow>
            cookies = [] \<and> at_users st' = at_users st \<and> at_accounts st' = at_accounts st \<and> (if code = 500 then True else st' = st) \<and>
            (if aq_Login q = None then audit' = audit else audited E ''auth.login'' ''failure'' audit audit')
        | _ \<Rightarrow> False)"
proof (cases "aq_Login q")
  case None
  then show ?thesis by (simp add: handleLogin_def)
next
  case (Some req)
  note l = this
  show ?thesis
  proof (cases "normalizeAuthEmail E (lq_Email req)")
    case None
    with l show ?thesis by (simp add: handleLogin_def auditAuth_audited case_prod_beta)
  next
    case (Some email)
    note m = this
    show ?thesis
    proof (cases "FindUserByEmail (av_db E) st email")
      case (Inl err)
      with l m show ?thesis by (simp add: handleLogin_def auditAuth_audited case_prod_beta)
    next
      case (Inr u)
      note f = this
      show ?thesis
      proof (cases "password_Verify (av_compare E) (usr_PasswordHash u) (lq_Password req)")
        case False
        with l m f show ?thesis by (simp add: handleLogin_def auditAuth_audited case_prod_beta Let_def)
      next
        case True
        note v = this
        show ?thesis
        proof (cases "GetAccount (av_db E) st (usr_AccountID u)")
          case (Inl err)
          with l m f v show ?thesis by (simp add: handleLogin_def auditAuth_audited case_prod_beta Let_def)
        next
          case (Inr a)
          note g = this
          obtain st1 r where c: "createSessionResponse E q 0 (av_new_id E 0) st u a = (st1, r)" by fastforce
          show ?thesis
          proof (cases r)
            case None
            from createSessionResponse_none [OF c [unfolded None]] l m f v g c None
            show ?thesis by (simp add: handleLogin_def auditAuth_audited case_prod_beta Let_def)
          next
            case (Some rc)
            obtain resp ck where rc: "rc = (resp, ck)" by fastforce
            from createSessionResponse_opens [OF c [unfolded Some rc]] l m f v g c Some rc
            show ?thesis by (auto simp: handleLogin_def auditAuth_audited case_prod_beta Let_def)
          qed
        qed
      qed
    qed
  qed
qed

text \<open>Who an OAuth profile may become: its linked user, the owner of its verified address, or somebody new.\<close>

definition may_login ::
  "('a, 'u, 's, 'i) auth_db \<Rightarrow> (nat \<Rightarrow> object_id) \<Rightarrow> ('a, 'u, 's, 'i) auth_state \<Rightarrow> oauth_profile \<Rightarrow> user \<Rightarrow> bool" where
  "may_login D fresh st profile u \<longleftrightarrow>
     (\<exists>x. findOAuthIdentity D st (op_Provider profile) (op_ProviderUserID profile) = Inr x \<and> findUserByID D st (oi_UserID x) = Inr u) \<or>
     op_EmailVerified profile \<and> normalizeEmail (op_Email profile) \<noteq> [] \<and>
       FindUserByEmail D st (normalizeEmail (op_Email profile)) = Inr u \<or>
     usr_ID u = fresh 2 \<and> usr_AccountID u = fresh 0 \<and> usr_PasswordHash u = [] \<and>
       (normalizeEmail (op_Email profile) = [] \<or>
        (case FindUserByEmail D st (normalizeEmail (op_Email profile)) of Inl err \<Rightarrow> err = ErrNoDocs | Inr x \<Rightarrow> usr_ID x = 0))"

lemma new_account_ID [simp]: "acc_ID (new_account D now fresh name) = fresh 0"
  by (simp add: new_account_def)

lemma check_email_free_None: "check_email_free r = None \<Longrightarrow> (case r of Inl err \<Rightarrow> err = ErrNoDocs | Inr x \<Rightarrow> usr_ID x = 0)"
  by (auto simp: check_email_free_def split: sum.splits if_splits)

lemma createAccountWithOAuthUser_new:
  assumes "createAccountWithOAuthUser D now fresh st profile = (st', Inr (a, u))"
  shows "may_login D fresh st profile u"
proof -
  let ?email = "normalizeEmail (op_Email profile)"
  have "(if ?email = [] then None else check_email_free (FindUserByEmail D st ?email)) = None"
    using assms by (auto simp: createAccountWithOAuthUser_def Let_def split: option.splits)
  then have "?email = [] \<or> (case FindUserByEmail D st ?email of Inl err \<Rightarrow> err = ErrNoDocs | Inr x \<Rightarrow> usr_ID x = 0)"
    using check_email_free_None by (auto split: if_splits)
  moreover have "usr_ID u = fresh 2" "usr_AccountID u = fresh 0" "usr_PasswordHash u = []"
    using assms by (auto simp: createAccountWithOAuthUser_def Let_def split: option.splits prod.splits)
  ultimately show ?thesis by (simp add: may_login_def)
qed

lemma user_by_email_Some: "user_by_email r = Inr (Some u) \<Longrightarrow> r = Inr u"
  by (auto simp: user_by_email_def split: sum.splits if_splits)

lemma ResolveOAuthLogin_may_login:
  assumes "ResolveOAuthLogin D now fresh st profile = (st', Inr (a, u))"
  shows "may_login D fresh st profile u"
proof (cases "findOAuthIdentity D st (op_Provider profile) (op_ProviderUserID profile)")
  case (Inr x)
  with assms show ?thesis
    by (auto simp: ResolveOAuthLogin_def may_login_def Let_def split: if_splits sum.splits)
next
  case (Inl e)
  let ?email = "normalizeEmail (op_Email profile)"
  let ?found = "if ?email = [] then Inr None else user_by_email (FindUserByEmail D st ?email)"
  from assms Inl obtain eu where eu: "?found = Inr eu"
    by (auto simp: ResolveOAuthLogin_def Let_def split: if_splits sum.splits)
  show ?thesis
  proof (cases eu)
    case None
    with assms Inl eu have "createAccountWithOAuthUser D now fresh st profile = (st', Inr (a, u))"
      by (auto simp: ResolveOAuthLogin_def Let_def decideOAuthAction_def split: if_splits)
    then show ?thesis by (rule createAccountWithOAuthUser_new)
  next
    case (Some v)
    with eu have "?email \<noteq> []" "FindUserByEmail D st ?email = Inr v"
      using user_by_email_Some by (auto split: if_splits)
    moreover from assms Inl eu Some have "op_EmailVerified profile \<and> u = v"
      by (auto simp: ResolveOAuthLogin_def Let_def decideOAuthAction_def split: if_splits option.splits prod.splits sum.splits)
    ultimately show ?thesis by (simp add: may_login_def)
  qed
qed

text \<open>
  Property C6. An OAuth callback never takes over an account: it hands out a refresh cookie only
  when the state in the query is the one in the browser's cookie for this provider, and only for
  the user the provider's identity is linked to, for the owner of an address the provider has
  verified, or for a user that is new and under whose address nobody was registered. That cookie
  is the refresh token of a new session of this very user (and of the account the login was
  resolved to), no other session is opened, and the browser is sent to the dashboard.
\<close>

theorem oauth_callback_never_takes_over:
  "case handleOAuthCallback E q w of
     (w', cookies, reply) \<Rightarrow>
       list_all (\<lambda>c. ck_Name c \<noteq> refreshCookieName) cookies \<or>
       (aq_Query q ''state'' \<noteq> [] \<and> oauthStateFromRequest q = aq_provider q @ CHR '':'' # aq_Query q ''state'' \<and>
        (\<exists>cfg tok profile st1 a u st2 ck. providerOAuthConfig E (aq_provider q) = Some cfg \<and>
           av_Exchange E cfg (aq_Query q ''code'') = Some tok \<and>
           fetchOAuthProfile E (aq_provider q) tok = Some profile \<and>
           ResolveOAuthLogin (av_db E) (av_now E 0) (av_new_id E) (fst w) profile = (st1, Inr (a, u)) \<and>
           may_login (av_db E) (av_new_id E) (fst w) profile u \<and>
           opens_session E st1 st2 u a ck \<and> cookies = [clearOAuthStateCookie E, ck] \<and>
           fst w' = MarkUserLogin (av_db E) (av_now E 5) st2 (usr_ID u) \<and>
           reply = RedirectReply (dashboardURL E @ ''/auth/callback'')))"
proof -
  have n: "ck_Name (clearOAuthStateCookie E) \<noteq> refreshCookieName"
    by (simp add: clearOAuthStateCookie_def oauthStateCookieName_def refreshCookieName_def)
  show ?thesis
  proof (cases "\<not> isSupportedOAuthProvider (aq_provider q) \<or> aq_Query q ''error'' \<noteq> [] \<or> providerOAuthConfig E (aq_provider q) = None")
    case True
    then show ?thesis by (auto simp: handleOAuthCallback_def Let_def)
  next
    case False
    then obtain cfg where cfg: "providerOAuthConfig E (aq_provider q) = Some cfg" and ok: "isSupportedOAuthProvider (aq_provider q)"
      "aq_Query q ''error'' = []" by auto
    show ?thesis
    proof (cases "oauthStateFromRequest q = [] \<or> aq_Query q ''state'' = [] \<or>
        oauthStateFromRequest q \<noteq> aq_provider q @ CHR '':'' # aq_Query q ''state''")
      case True
      with cfg ok n show ?thesis by (auto simp: handleOAuthCallback_def Let_def)
    next
      case st: False
      show ?thesis
      proof (cases "\<exists>tok profile st1 a u st2 resp ck. aq_Query q ''code'' \<noteq> [] \<and> av_Exchange E cfg (aq_Query q ''code'') = Some tok \<and>
          fetchOAuthProfile E (aq_provider q) tok = Some profile \<and>
          ResolveOAuthLogin (av_db E) (av_now E 0) (av_new_id E) (fst w) profile = (st1, Inr (a, u)) \<and>
          createSessionResponse E q 1 (av_new_id E 4) st1 u a = (st2, Some (resp, ck))")
        case True
        then obtain tok profile st1 a u st2 resp ck where code: "aq_Query q ''code'' \<noteq> []"
          and x: "av_Exchange E cfg (aq_Query q ''code'') = Some tok" "fetchOAuthProfile E (aq_provider q) tok = Some profile"
          and r: "ResolveOAuthLogin (av_db E) (av_now E 0) (av_new_id E) (fst w) profile = (st1, Inr (a, u))"
          and c: "createSessionResponse E q 1 (av_new_id E 4) st1 u a = (st2, Some (resp, ck))" by blast
        have h: "handleOAuthCallback E q w = (auditAuth E q ''auth.login'' ''success'' (ad_Hex (av_db E) (usr_ID u)) (ad_Hex (av_db E) (acc_ID a))
              (''oauth '' @ aq_provider q) (MarkUserLogin (av_db E) (av_now E 5) st2 (usr_ID u), snd w),
            [clearOAuthStateCookie E, ck], RedirectReply (dashboardURL E @ ''/auth/callback''))"
          using cfg ok st code x r c by (simp add: handleOAuthCallback_def Let_def)
        have "fst (fst (handleOAuthCallback E q w)) = MarkUserLogin (av_db E) (av_now E 5) st2 (usr_ID u)"
          unfolding h fst_conv by (rule auditAuth_audited)
        with h x r cfg st ResolveOAuthLogin_may_login [OF r] createSessionResponse_opens [OF c, THEN conjunct1]
        show ?thesis by (auto split: prod.split)
      next
        case nolog: False
        have "list_all (\<lambda>c. ck_Name c \<noteq> refreshCookieName) (fst (snd (handleOAuthCallback E q w)))"
          using nolog cfg ok st n
          by (auto simp: handleOAuthCallback_def Let_def split: option.split prod.split sum.split)
        then show ?thesis by (auto split: prod.split)
      qed
    qed
  qed
qed

text \<open>
  Property C4. Logging out is final: when \<open>RevokeSessionByRefreshTokenHash\<close> succeeds, it has
  revoked one live session with that token, and no later sequence of calls that does not create a
  session under the same identifier, whatever the database answers, lets that session be found
  again by an access or a refresh token.
\<close>

theorem logout_is_final:
  fixes S :: "('s, object_id, session) coll"
  assumes "session_store S B" "coll_ok S c" "RevokeSessionByRefreshTokenHash S now c h = (c', None)"
  shows "\<exists>k s. coll_docs S c k = Some s \<and> ses_RefreshTokenHash s = h \<and> live s \<and>
    (\<forall>ops (D :: ('a, 'u, 's, 'i) auth_db) st now' tok. list_all (\<lambda>x. \<not> creates k x) ops \<longrightarrow> ad_Sessions D = S \<longrightarrow>
       at_sessions st = run_session_ops S B c' ops \<longrightarrow>
       (case FindSessionByAccessTokenHash D now' st tok of Inr (s', _) \<Rightarrow> ses_ID s' \<noteq> k | Inl _ \<Rightarrow> True) \<and>
       (case FindSessionByRefreshTokenHash D now' st tok of Inr (s', _) \<Rightarrow> ses_ID s' \<noteq> k | Inl _ \<Rightarrow> True))"
proof -
  from session_store.revoke_done [OF assms] obtain k s where k: "coll_docs S c k = Some s" "revoke_filter h s"
    "coll_docs S c' = (coll_docs S c)(k \<mapsto> revoke_doc now s)" and ok: "coll_ok S c'" by blast
  have rev: "revoked_or_gone (coll_docs S c' k)" by (simp add: k(3) revoked_or_gone_def)
  have never: "ses_ID s' \<noteq> k"
    if "list_all (\<lambda>x. \<not> creates k x) ops" "find_one S (run_session_ops S B c' ops) f = Inr s'" "\<And>x. f x \<Longrightarrow> live x" for ops f s'
  proof
    assume "ses_ID s' = k"
    note after = session_store.run_session_ops_revoked [OF assms(1) ok rev that(1)]
    from session_store.find_one_session [OF assms(1) conjunct1 [OF after] that(2)] \<open>ses_ID s' = k\<close> that(3)
    show False using conjunct2 [OF after] by (auto simp: revoked_or_gone_def)
  qed
  show ?thesis
  proof (intro exI conjI allI impI)
    show "coll_docs S c k = Some s" by (rule k(1))
    show "ses_RefreshTokenHash s = h" "live s" using k(2) by (simp_all add: revoke_filter_def)
  next
    fix ops and D :: "('a, 'u, 's, 'i) auth_db" and st :: "('a, 'u, 's, 'i) auth_state" and now' tok
    assume a: "list_all (\<lambda>x. \<not> creates k x) ops" "ad_Sessions D = S" "at_sessions st = run_session_ops S B c' ops"
    show "case FindSessionByAccessTokenHash D now' st tok of Inr (s', _) \<Rightarrow> ses_ID s' \<noteq> k | Inl _ \<Rightarrow> True"
      using never [OF a(1), of "access_filter now' tok"]
      by (auto simp: FindSessionByAccessTokenHash_def findSessionIdentity_def a(2,3) access_filter_def split: sum.splits)
    show "case FindSessionByRefreshTokenHash D now' st tok of Inr (s', _) \<Rightarrow> ses_ID s' \<noteq> k | Inl _ \<Rightarrow> True"
      using never [OF a(1), of "refresh_filter now' tok"]
      by (auto simp: FindSessionByRefreshTokenHash_def findSessionIdentity_def a(2,3) refresh_filter_def split: sum.splits)
  qed
qed

theorem logout_is_final_witness:
  "\<exists>k s. coll_docs (mem_coll ses_ID) [mem_session 7 ''r''] k = Some s \<and> ses_RefreshTokenHash s = ''r'' \<and> live s \<and>
    (\<forall>ops (D :: (account list, user list, session list, oauth_identity list) auth_db) st now' tok.
       list_all (\<lambda>x. \<not> creates k x) ops \<longrightarrow> ad_Sessions D = mem_coll ses_ID \<longrightarrow>
       at_sessions st = run_session_ops (mem_coll ses_ID) mem_bulk [revoke_doc 5 (mem_session 7 ''r'')] ops \<longrightarrow>
       (case FindSessionByAccessTokenHash D now' st tok of Inr (s', _) \<Rightarrow> ses_ID s' \<noteq> k | Inl _ \<Rightarrow> True) \<and>
       (case FindSessionByRefreshTokenHash D now' st tok of Inr (s', _) \<Rightarrow> ses_ID s' \<noteq> k | Inl _ \<Rightarrow> True))"
proof (rule logout_is_final [OF mem_session_store])
  show "coll_ok (mem_coll ses_ID) [mem_session 7 ''r'']" by (simp add: mem_coll_def)
  show "RevokeSessionByRefreshTokenHash (mem_coll ses_ID) 5 [mem_session 7 ''r''] ''r'' = ([revoke_doc 5 (mem_session 7 ''r'')], None)"
    by (simp add: RevokeSessionByRefreshTokenHash_def session_update_result_def mem_coll_def revoke_filter_def live_def is_zero_def
        mem_session_def)
qed

text \<open>
  Property C7. A refresh hands out new tokens for the session of the old one: when the answer is a
  session, the cookie's token was that of a live, unexpired session, this session now has the
  hashes of the new tokens and still belongs to the same user and account, and the old token no
  longer finds it (unless the new token has the same hash).
\<close>

theorem refresh_rotates:
  assumes "session_store (ad_Sessions (av_db E)) (ad_SessionsB (av_db E))" "coll_ok (ad_Sessions (av_db E)) (at_sessions st)"
    and "handleRefresh E q (st, audit) = ((st', audit'), cookies, SessionReply code resp)"
  shows "\<exists>s u a s' refreshToken. FindSessionByRefreshTokenHash (av_db E) (av_now E 0) st (av_Hash E (refreshTokenFromRequest q)) = Inr (s, u, a) \<and>
    coll_docs (ad_Sessions (av_db E)) (at_sessions st) (ses_ID s) = Some s \<and> refresh_filter (av_now E 0) (av_Hash E (refreshTokenFromRequest q)) s \<and>
    coll_docs (ad_Sessions (av_db E)) (at_sessions st') (ses_ID s) = Some s' \<and> ses_UserID s' = ses_UserID s \<and> ses_AccountID s' = ses_AccountID s \<and>
    ses_AccessTokenHash s' = av_Hash E (ax_AccessToken resp) \<and> ses_RefreshTokenHash s' = av_Hash E refreshToken \<and>
    map ck_Value cookies = [refreshToken] \<and>
    (\<forall>now. av_Hash E refreshToken = av_Hash E (refreshTokenFromRequest q) \<or>
       (case FindSessionByRefreshTokenHash (av_db E) now st' (av_Hash E (refreshTokenFromRequest q)) of
          Inr (s2, _) \<Rightarrow> ses_ID s2 \<noteq> ses_ID s | Inl _ \<Rightarrow> True))"
proof -
  let ?S = "ad_Sessions (av_db E)" and ?old = "av_Hash E (refreshTokenFromRequest q)"
  obtain s u a where f: "FindSessionByRefreshTokenHash (av_db E) (av_now E 0) st ?old = Inr (s, u, a)"
    using assms(3) by (auto simp: handleRefresh_def Let_def split: if_splits sum.splits)
  obtain acct rt ae re where t: "newSessionTokens E 1 0 = Some (acct, rt, ae, re)"
    using assms(3) f by (auto simp: handleRefresh_def Let_def split: if_splits option.splits)
  have r: "RotateSessionTokens ?S (av_now E 2) (at_sessions st) (ses_ID s) (av_Hash E acct) (av_Hash E rt) ae re = (at_sessions st', None)"
    and resp: "ax_AccessToken resp = acct" "map ck_Value cookies = [rt]"
    using assms(3) f t
    by (auto simp: handleRefresh_def Let_def auditAuth_def session_response_def setRefreshCookie_def split: if_splits option.splits prod.splits)
  from f have "find_one ?S (at_sessions st) (refresh_filter (av_now E 0) ?old) = Inr s"
    by (auto simp: FindSessionByRefreshTokenHash_def findSessionIdentity_def split: sum.splits)
  from session_store.find_one_session [OF assms(1,2) this]
  have s: "refresh_filter (av_now E 0) ?old s" "coll_docs ?S (at_sessions st) (ses_ID s) = Some s" by auto
  define s' where "s' = rotate_doc (av_now E 2) (av_Hash E acct) (av_Hash E rt) ae re s"
  from session_store.rotate_done [OF assms(1,2) r] s(2) have s': "coll_docs ?S (at_sessions st') (ses_ID s) = Some s'"
    and ok: "coll_ok ?S (at_sessions st')" by (auto simp: s'_def)
  have gone: "ses_ID s2 \<noteq> ses_ID s"
    if "av_Hash E rt \<noteq> ?old" "FindSessionByRefreshTokenHash (av_db E) now st' ?old = Inr (s2, x)" for now s2 x
  proof
    assume id: "ses_ID s2 = ses_ID s"
    from that(2) have "find_one ?S (at_sessions st') (refresh_filter now ?old) = Inr s2"
      by (auto simp: FindSessionByRefreshTokenHash_def findSessionIdentity_def split: sum.splits)
    from session_store.find_one_session [OF assms(1) ok this] s' that(1) id show False
      by (auto simp: refresh_filter_def s'_def rotate_doc_def)
  qed
  have "\<forall>now. av_Hash E rt = ?old \<or> (case FindSessionByRefreshTokenHash (av_db E) now st' ?old of
      Inr (s2, _) \<Rightarrow> ses_ID s2 \<noteq> ses_ID s | Inl _ \<Rightarrow> True)"
    using gone by (auto split: sum.split prod.split)
  moreover have "ses_UserID s' = ses_UserID s" "ses_AccountID s' = ses_AccountID s"
    "ses_AccessTokenHash s' = av_Hash E (ax_AccessToken resp)" "ses_RefreshTokenHash s' = av_Hash E rt"
    by (simp_all add: s'_def rotate_doc_def resp(1))
  ultimately show ?thesis using f s(2) s(1) s' resp(2) by - (intro exI conjI, assumption+)
qed

definition mem_auth_state :: "(account list, user list, session list, oauth_identity list) auth_state" where
  "mem_auth_state =
     \<lparr>at_accounts = [\<lparr>acc_ID = 2, acc_Name = ''n'', acc_Slug = ''n'', acc_CreatedBy = 1, acc_CreatedAt = None, acc_UpdatedAt = None\<rparr>],
      at_users = [\<lparr>usr_ID = 1, usr_Email = ''a@b'', usr_Name = [], usr_PasswordHash = ''hpw'', usr_AccountID = 2, usr_Role = UserRoleAdmin,
        usr_CreatedAt = None, usr_UpdatedAt = None, usr_LastLoginAt = None\<rparr>],
      at_sessions = [mem_session 7 ''r''], at_identities = []\<rparr>"

definition mem_auth_req :: auth_req where
  "mem_auth_req =
     \<lparr>aq_req = \<lparr>rx_Method = ''POST'', rx_Path = ''/auth/refresh'', rx_Header = (\<lambda>k. []), rx_RemoteAddr = [], rx_HasBody = False,
        rx_BodyLimit = None, rx_Subject = None, rx_Principal = None\<rparr>,
      aq_Cookie = (\<lambda>k. Some ''r''), aq_UserAgent = [], aq_Signup = None, aq_Login = None, aq_provider = [], aq_Query = (\<lambda>k. [])\<rparr>"

lemma mem_refresh_ok:
  "(case handleRefresh (mem_auth_env 0) mem_auth_req (mem_auth_state, []) of (w, cks, SessionReply code resp) \<Rightarrow> code = 200 | _ \<Rightarrow> False)"
  by code_simp

theorem refresh_rotates_witness:
  "\<exists>s u a. FindSessionByRefreshTokenHash mem_auth_db 0 mem_auth_state ''r'' = Inr (s, u, a)"
proof -
  obtain st' audit' cookies code resp where
    h: "handleRefresh (mem_auth_env 0) mem_auth_req (mem_auth_state, []) = ((st', audit'), cookies, SessionReply code resp)"
    using mem_refresh_ok by (auto split: prod.splits auth_reply.splits)
  have db: "av_db (mem_auth_env 0) = mem_auth_db" "av_now (mem_auth_env 0) 0 = 0" "av_Hash (mem_auth_env 0) = id"
    "refreshTokenFromRequest mem_auth_req = ''r''"
    by (simp_all add: mem_auth_env_def refreshTokenFromRequest_def mem_auth_req_def)
  have "session_store (ad_Sessions (av_db (mem_auth_env 0))) (ad_SessionsB (av_db (mem_auth_env 0)))"
    "coll_ok (ad_Sessions (av_db (mem_auth_env 0))) (at_sessions mem_auth_state)"
    by (simp_all add: db mem_auth_db_def mem_session_store mem_auth_state_def) (simp add: mem_coll_def)
  from refresh_rotates [OF this h] show ?thesis unfolding db by auto
qed

text \<open>
  A user keeps at most ten live sessions: after \<open>createSessionResponse\<close> handed out
  a session and the revocation of the old ones reported no error, at most ten sessions of that user
  are live, whatever there was before.
\<close>

theorem live_sessions_bounded:
  assumes "session_store (ad_Sessions (av_db E)) (ad_SessionsB (av_db E))" "coll_ok (ad_Sessions (av_db E)) (at_sessions st)"
    and "createSessionResponse E q n fresh st u a = (st', Some (resp, ck))"
    and "\<And>c. snd (RevokeOldUserSessions (ad_SessionsB (av_db E)) (av_now E (n + 2)) c (usr_ID u) 10) = None"
  shows "card {k. \<exists>s. coll_docs (ad_Sessions (av_db E)) (at_sessions st') k = Some s \<and> user_live (usr_ID u) s} \<le> 10"
proof -
  from assms(3) obtain c1 s s0 fr where c1: "CreateSession (ad_Sessions (av_db E)) (av_now E (n + 1)) fr (at_sessions st) s0 = (c1, Inr s)"
    and st': "at_sessions st' = fst (RevokeOldUserSessions (ad_SessionsB (av_db E)) (av_now E (n + 2)) c1 (usr_ID u) 10)"
    by (auto simp: createSessionResponse_def split: option.splits prod.splits sum.splits)
  have ok: "coll_ok (ad_Sessions (av_db E)) c1"
    using c1 doc_store.insert_ok [OF bulk_store.axioms(1) [OF session_store.axioms(1) [OF assms(1)]] assms(2)]
    by (auto simp: CreateSession_def Let_def split: prod.splits option.splits)
  have "RevokeOldUserSessions (ad_SessionsB (av_db E)) (av_now E (n + 2)) c1 (usr_ID u) 10 = (at_sessions st', None)"
    using st' assms(4) [of c1] by (simp add: prod_eq_iff)
  from session_store.revoke_old_bound [OF assms(1) ok _ this] show ?thesis by simp
qed

theorem live_sessions_bounded_witness:
  "\<exists>st' r. createSessionResponse (mem_auth_env 0) mem_auth_req 0 9 mem_auth_state (hd (at_users mem_auth_state)) (hd (at_accounts mem_auth_state)) = (st', Some r) \<and>
     card {k. \<exists>s. coll_docs (mem_coll ses_ID) (at_sessions st') k = Some s \<and> user_live 1 s} \<le> 10"
proof -
  let ?E = "mem_auth_env 0" and ?u = "hd (at_users mem_auth_state)" and ?a = "hd (at_accounts mem_auth_state)"
  have "snd (createSessionResponse ?E mem_auth_req 0 9 mem_auth_state ?u ?a) \<noteq> None" by code_simp
  then obtain st' resp ck where c: "createSessionResponse ?E mem_auth_req 0 9 mem_auth_state ?u ?a = (st', Some (resp, ck))"
    by (cases "createSessionResponse ?E mem_auth_req 0 9 mem_auth_state ?u ?a") auto
  have db: "ad_Sessions (av_db ?E) = mem_coll ses_ID" "ad_SessionsB (av_db ?E) = mem_bulk" "usr_ID ?u = 1"
    by (simp_all add: mem_auth_env_def mem_auth_db_def mem_auth_state_def)
  have "card {k. \<exists>s. coll_docs (ad_Sessions (av_db ?E)) (at_sessions st') k = Some s \<and> user_live (usr_ID ?u) s} \<le> 10"
  proof (rule live_sessions_bounded [OF _ _ c])
    show "session_store (ad_Sessions (av_db ?E)) (ad_SessionsB (av_db ?E))" unfolding db by (rule mem_session_store)
    show "coll_ok (ad_Sessions (av_db ?E)) (at_sessions mem_auth_state)" by (simp add: db mem_coll_def mem_auth_state_def)
  qed (simp add: db RevokeOldUserSessions_def mem_bulk_def Let_def)
  with c show ?thesis unfolding db by blast
qed

text \<open>What the middleware learns from a session token: the stored user of a live session.\<close>

lemma session_token_identifies:
  assumes "session_store (ad_Sessions (av_db E)) (ad_SessionsB (av_db E))" "coll_ok (ad_Sessions (av_db E)) (at_sessions st)"
    and "authenticateSessionToken E st tok = Some p"
  shows "\<exists>s u a. coll_docs (ad_Sessions (av_db E)) (at_sessions st) (ses_ID s) = Some s \<and> access_filter (av_now E 0) (av_Hash E tok) s \<and>
    findUserByID (av_db E) st (ses_UserID s) = Inr u \<and> GetAccount (av_db E) st (ses_AccountID s) = Inr a \<and>
    p = \<lparr>pr_Subject = ''user:'' @ ad_Hex (av_db E) (usr_ID u), pr_ActorType = ''user'', pr_UserID = ad_Hex (av_db E) (usr_ID u),
      pr_AccountID = ad_Hex (av_db E) (acc_ID a), pr_Role = usr_Role u\<rparr>"
proof -
  from assms(3) obtain s u a where f: "FindSessionByAccessTokenHash (av_db E) (av_now E 0) st (av_Hash E tok) = Inr (s, u, a)"
    and p: "p = \<lparr>pr_Subject = ''user:'' @ ad_Hex (av_db E) (usr_ID u), pr_ActorType = ''user'', pr_UserID = ad_Hex (av_db E) (usr_ID u),
      pr_AccountID = ad_Hex (av_db E) (acc_ID a), pr_Role = usr_Role u\<rparr>"
    by (auto simp: authenticateSessionToken_def split: if_splits sum.splits)
  from f have "find_one (ad_Sessions (av_db E)) (at_sessions st) (access_filter (av_now E 0) (av_Hash E tok)) = Inr s"
    and "findUserByID (av_db E) st (ses_UserID s) = Inr u" "GetAccount (av_db E) st (ses_AccountID s) = Inr a"
    by (auto simp: FindSessionByAccessTokenHash_def findSessionIdentity_def findUserByID_def GetAccount_def split: sum.splits)
  with session_store.find_one_session [OF assms(1,2)] p show ?thesis by blast
qed

end
