(* ===== verification/Scan_Secrets.thy ===== *)
theory Scan_Secrets
  imports Core_Models Doc_Bulk Go_Base64
begin

text \<open>
  The credentials of a scan at rest: the encryption of \<open>internal/security/scansecrets/crypto.go\<close>
  and the documents of \<open>internal/db/scan_secrets.go\<close>. AES-GCM itself is an argument, as is the
  random source; \<open>base64.StdEncoding\<close> is defined here on top of the URL alphabet.
\<close>

subsection \<open>Standard base64\<close>

definition std_char :: "char \<Rightarrow> char" where
  "std_char c = (if c = CHR ''-'' then CHR ''+'' else if c = CHR ''_'' then CHR ''/'' else c)"

definition url_char :: "char \<Rightarrow> char option" where
  "url_char c = (if c = CHR ''+'' then Some (CHR ''-'') else if c = CHR ''/'' then Some (CHR ''_'')
     else if c = CHR ''-'' \<or> c = CHR ''_'' then None else Some c)"

definition std_Encode :: "string \<Rightarrow> string" where
  "std_Encode s = map std_char (EncodeToString s) @ (if length s mod 3 = 1 then ''=='' else if length s mod 3 = 2 then ''='' else [])"

fun url_text :: "string \<Rightarrow> string option" where
  "url_text [] = Some []"
| "url_text (c # cs) = (case url_char c of None \<Rightarrow> None | Some d \<Rightarrow> map_option ((#) d) (url_text cs))"

text \<open>The decoder skips line breaks; padding ends the text and makes its length a multiple of four.\<close>

definition std_Decode :: "string \<Rightarrow> string option" where
  "std_Decode s0 =
     (let s = filter (\<lambda>c. byte c \<noteq> 10 \<and> byte c \<noteq> 13) s0;
          body = (if suffix ''=='' s then take (length s - 2) s else if suffix ''='' s then take (length s - 1) s else s)
      in if length s mod 4 \<noteq> 0 then None else Option.bind (url_text body) DecodeString)"

lemma b64_char_cases62:
  assumes "n < 64"
  obtains "n = 62" | "n = 63" | "n < 62" "byte (b64_char n) > 47" "byte (b64_char n) \<noteq> 61" "byte (b64_char n) \<noteq> 95"
proof -
  have "byte (b64_char n) > 47 \<and> byte (b64_char n) \<noteq> 61 \<and> byte (b64_char n) \<noteq> 95" if "n < 62"
    using that by (auto simp: b64_char_def)
  moreover have "n < 62 \<or> n = 62 \<or> n = 63" using assms by auto
  ultimately show ?thesis using that by blast
qed

lemma b64_char_special: "b64_char 62 = CHR ''-''" "b64_char 63 = CHR ''_''"
  by (simp_all add: b64_char_def)

lemma byte_neq: "byte c \<noteq> byte d \<Longrightarrow> c \<noteq> d"
  by blast

lemma std_char_b64: "n < 62 \<Longrightarrow> std_char (b64_char n) = b64_char n \<and> url_char (b64_char n) = Some (b64_char n)"
proof -
  assume "n < 62"
  then have "byte (b64_char n) > 47" "byte (b64_char n) \<noteq> 95" using b64_char_cases62 [of n] by auto
  then have "b64_char n \<noteq> CHR ''-''" "b64_char n \<noteq> CHR ''_''" "b64_char n \<noteq> CHR ''+''" "b64_char n \<noteq> CHR ''/''"
    by (auto intro!: byte_neq)
  then show ?thesis by (simp add: std_char_def url_char_def)
qed

lemma b64_char_url: "n < 64 \<Longrightarrow> url_char (std_char (b64_char n)) = Some (b64_char n)"
  by (erule b64_char_cases62) (simp_all add: b64_char_special std_char_b64, simp_all add: std_char_def url_char_def)

lemma std_char_printable: "n < 64 \<Longrightarrow> byte (std_char (b64_char n)) > 42 \<and> std_char (b64_char n) \<noteq> CHR ''=''"
proof (erule b64_char_cases62)
  assume "n < 62" "byte (b64_char n) > 47" "byte (b64_char n) \<noteq> 61"
  then show ?thesis using std_char_b64 byte_neq [of "b64_char n" "CHR ''=''"] by simp
qed (simp_all add: b64_char_special std_char_def)

lemma EncodeToString_chars: "c \<in> set (EncodeToString s) \<Longrightarrow> \<exists>n < 64. c = b64_char n"
  using b64_sextets_less by (auto simp: EncodeToString_def)

lemma url_text_std: "list_all (\<lambda>c. \<exists>n < 64. c = b64_char n) t \<Longrightarrow> url_text (map std_char t) = Some t"
  by (induction t) (auto simp: b64_char_url)

lemma length_sextets: "length (b64_sextets s) mod 4 = (if length s mod 3 = 1 then 2 else if length s mod 3 = 2 then 3 else 0)"
  by (induction s rule: b64_sextets.induct) (simp_all add: mod_Suc)

lemma std_Decode_Encode [simp]: "std_Decode (std_Encode s) = Some s"
proof -
  let ?t = "map std_char (EncodeToString s)"
  have chars: "list_all (\<lambda>c. \<exists>n < 64. c = b64_char n) (EncodeToString s)"
    using EncodeToString_chars by (simp add: list_all_iff)
  then have p: "list_all (\<lambda>c. byte c > 42 \<and> c \<noteq> CHR ''='') ?t"
    using std_char_printable by (fastforce simp: list_all_iff)
  have "filter (\<lambda>c. byte c \<noteq> 10 \<and> byte c \<noteq> 13) (std_Encode s) = std_Encode s"
  proof (rule filter_True, rule ballI)
    fix c assume "c \<in> set (std_Encode s)"
    then have "c \<in> set ?t \<or> c = CHR ''=''" by (auto simp: std_Encode_def split: if_splits)
    moreover have "byte c > 42" if "c \<in> set ?t" for c using p that unfolding list_all_iff by blast
    ultimately have "byte c > 42" by auto
    then show "byte c \<noteq> 10 \<and> byte c \<noteq> 13" by simp
  qed
  moreover have ne: "\<not> suffix ''='' ?t"
  proof
    assume "suffix ''='' ?t"
    then have "CHR ''='' \<in> set ?t" by (auto simp: suffix_def simp del: set_map)
    with p show False unfolding list_all_iff by blast
  qed
  then have ne2: "\<not> suffix ''=='' ?t" by (auto simp: suffix_def)
  have ne3: "\<not> suffix ''=='' (?t @ ''='')"
  proof
    assume "suffix ''=='' (?t @ ''='')"
    then obtain u where "?t @ ''='' = u @ ''==''" by (auto simp: suffix_def)
    then have "?t @ [CHR ''=''] = (u @ ''='') @ [CHR ''='']" by simp
    then have "?t = u @ ''=''" by (simp only: append1_eq_conv)
    with ne show False by (auto simp: suffix_def)
  qed
  have len: "length (EncodeToString s) mod 4 = (if length s mod 3 = 1 then 2 else if length s mod 3 = 2 then 3 else 0)"
    by (simp add: EncodeToString_def length_sextets)
  have "length (std_Encode s) mod 4 = 0"
    using len by (auto simp: std_Encode_def split: if_splits) presburger+
  moreover have "(if suffix ''=='' (std_Encode s) then take (length (std_Encode s) - 2) (std_Encode s)
      else if suffix ''='' (std_Encode s) then take (length (std_Encode s) - 1) (std_Encode s) else std_Encode s) = ?t"
    using ne ne2 ne3 suffixI [of "?t @ ''==''" ?t "''==''"] by (auto simp: std_Encode_def)
  ultimately show ?thesis
    unfolding std_Decode_def by (simp add: Let_def url_text_std [OF chars])
qed

subsection \<open>Encryption\<close>

text \<open>\<open>Seal\<close> and \<open>Open\<close> of AES-GCM with the standard nonce of 12 bytes, for a key of 16, 24 or 32 bytes.\<close>

record aead =
  ae_Seal :: "string \<Rightarrow> string \<Rightarrow> string \<Rightarrow> string"
  ae_Open :: "string \<Rightarrow> string \<Rightarrow> string \<Rightarrow> string option"

datatype secret_error = ErrSecretKeyMissing | KeyNotBase64 | KeyWrongSize | SecretError string

record protector =
  pt_key :: string
  pt_keyID :: string

definition defaultKeyID :: string where
  "defaultKeyID = ''local-env-v1''"

definition keySizeBytes :: nat where
  "keySizeBytes = 32"

definition NewProtector :: "string \<Rightarrow> string \<Rightarrow> secret_error + protector" where
  "NewProtector key keyID =
     (if length key \<noteq> keySizeBytes then Inl KeyWrongSize
      else Inr \<lparr>pt_key = key, pt_keyID = (if keyID = [] then defaultKeyID else keyID)\<rparr>)"

definition secrets_FromEnv :: "(string \<Rightarrow> string) \<Rightarrow> secret_error + protector" where
  "secrets_FromEnv env =
     (if env ''KARAXYS_SECRET_KEY_B64'' \<noteq> []
      then (case std_Decode (env ''KARAXYS_SECRET_KEY_B64'') of None \<Rightarrow> Inl KeyNotBase64 | Some key \<Rightarrow> NewProtector key defaultKeyID)
      else if env ''KARAXYS_SECRET_KEY'' \<noteq> [] then NewProtector (env ''KARAXYS_SECRET_KEY'') defaultKeyID
      else Inl ErrSecretKeyMissing)"

definition KeyID :: "protector option \<Rightarrow> string" where
  "KeyID p = (case p of None \<Rightarrow> [] | Some q \<Rightarrow> pt_keyID q)"

definition aes_key_size :: "string \<Rightarrow> bool" where
  "aes_key_size key \<longleftrightarrow> length key \<in> {16, 24, 32}"

text \<open>\<open>rnd\<close> is what the random source fills the nonce with.\<close>

definition Encrypt :: "aead \<Rightarrow> string option \<Rightarrow> protector option \<Rightarrow> string \<Rightarrow> secret_error + string \<times> string" where
  "Encrypt A rnd p plaintext =
     (case p of
        None \<Rightarrow> Inl ErrSecretKeyMissing
      | Some q \<Rightarrow>
          if \<not> aes_key_size (pt_key q) then Inl (SecretError ''crypto/aes: invalid key size'')
          else (case rnd of
              None \<Rightarrow> Inl (SecretError ''random source failed'')
            | Some nonce \<Rightarrow> Inr (std_Encode nonce, std_Encode (ae_Seal A (pt_key q) nonce plaintext))))"

text \<open>\<open>Open\<close> panics on a nonce of another length.\<close>

datatype decrypted = Decrypted string | DecryptFailed secret_error | DecryptPanic

definition Decrypt :: "aead \<Rightarrow> protector option \<Rightarrow> string \<Rightarrow> string \<Rightarrow> decrypted" where
  "Decrypt A p nonceEncoded ciphertextEncoded =
     (case p of
        None \<Rightarrow> DecryptFailed ErrSecretKeyMissing
      | Some q \<Rightarrow>
          (case std_Decode nonceEncoded of
             None \<Rightarrow> DecryptFailed (SecretError ''decode scan secret nonce'')
           | Some nonce \<Rightarrow>
               (case std_Decode ciphertextEncoded of
                  None \<Rightarrow> DecryptFailed (SecretError ''decode scan secret ciphertext'')
                | Some ciphertext \<Rightarrow>
                    if \<not> aes_key_size (pt_key q) then DecryptFailed (SecretError ''crypto/aes: invalid key size'')
                    else if length nonce \<noteq> 12 then DecryptPanic
                    else (case ae_Open A (pt_key q) nonce ciphertext of
                        None \<Rightarrow> DecryptFailed (SecretError ''decrypt scan secret'')
                      | Some plaintext \<Rightarrow> Decrypted plaintext))))"

text \<open>What the program relies on of AES-GCM: opening what was sealed with the same key and nonce.\<close>

definition aead_opens :: "aead \<Rightarrow> bool" where
  "aead_opens A \<longleftrightarrow> (\<forall>key nonce text. ae_Open A key nonce (ae_Seal A key nonce text) = Some text)"

lemma secrets_FromEnv_key: "secrets_FromEnv env = Inr q \<Longrightarrow> length (pt_key q) = 32"
  by (auto simp: secrets_FromEnv_def NewProtector_def keySizeBytes_def split: if_splits option.splits)

lemma Decrypt_Encrypt:
  assumes "aead_opens A" "Encrypt A (Some nonce) (Some q) plaintext = Inr (n, c)" "length nonce = 12"
  shows "Decrypt A (Some q) n c = Decrypted plaintext"
  using assms by (auto simp: Encrypt_def Decrypt_def aead_opens_def split: if_splits)

subsection \<open>Documents\<close>

record scan_secret =
  sec_ID :: object_id
  sec_JobID :: object_id
  sec_Purpose :: string
  sec_KeyID :: string
  sec_Nonce :: string
  sec_Ciphertext :: string
  sec_CreatedAt :: gotime
  sec_ExpiresAt :: gotime

definition ScanSecretPurposeAuth :: string where
  "ScanSecretPurposeAuth = ''scan_auth''"

definition hour :: int where
  "hour = 3600 * second"

definition defaultScanSecretTTL :: int where
  "defaultScanSecretTTL = 24 * hour"

definition prepare_secret :: "int \<Rightarrow> object_id \<Rightarrow> scan_secret \<Rightarrow> scan_secret" where
  "prepare_secret now fresh s0 =
     (let s1 = (if sec_ID s0 = 0 then s0\<lparr>sec_ID := fresh\<rparr> else s0);
          s2 = (if is_zero (sec_CreatedAt s1) then s1\<lparr>sec_CreatedAt := Some now\<rparr> else s1);
          s3 = (if is_zero (sec_ExpiresAt s2) then s2\<lparr>sec_ExpiresAt := Some (now + defaultScanSecretTTL)\<rparr> else s2)
      in if sec_Purpose s3 = [] then s3\<lparr>sec_Purpose := ScanSecretPurposeAuth\<rparr> else s3)"

definition SaveScanSecret ::
  "('v, object_id, scan_secret) coll \<Rightarrow> int \<Rightarrow> object_id \<Rightarrow> 'v \<Rightarrow> scan_secret \<Rightarrow> 'v \<times> scan_secret \<times> db_error option" where
  "SaveScanSecret S now fresh v s0 =
     (let s = prepare_secret now fresh s0; (v', err) = coll_insert S v s in (v', s, err))"

text \<open>\<open>Inl None\<close> is \<open>ErrNoDocuments\<close>, which an expired secret is reported as too.\<close>

definition GetScanSecret ::
  "('v, object_id, scan_secret) coll \<Rightarrow> int \<Rightarrow> 'v \<Rightarrow> object_id \<Rightarrow> db_error option + scan_secret" where
  "GetScanSecret S now v i =
     (case coll_find S v (\<lambda>s. sec_ID s = i) of
        Inl e \<Rightarrow> Inl (Some e)
      | Inr None \<Rightarrow> Inl None
      | Inr (Some s) \<Rightarrow> if \<not> is_zero (sec_ExpiresAt s) \<and> time_key (sec_ExpiresAt s) < now then Inl None else Inr s)"

definition DeleteScanSecret :: "('v, scan_secret) bulk \<Rightarrow> 'v \<Rightarrow> object_id \<Rightarrow> 'v \<times> db_error option" where
  "DeleteScanSecret B v i = bulk_delete B v (\<lambda>s. sec_ID s = i)"

lemma prepare_secret_fields [simp]:
  "sec_ID (prepare_secret now fresh s) = (if sec_ID s = 0 then fresh else sec_ID s)"
  "sec_Nonce (prepare_secret now fresh s) = sec_Nonce s"
  "sec_Ciphertext (prepare_secret now fresh s) = sec_Ciphertext s"
  "sec_ExpiresAt (prepare_secret now fresh s) =
     (if is_zero (sec_ExpiresAt s) then Some (now + defaultScanSecretTTL) else sec_ExpiresAt s)"
  by (simp_all add: prepare_secret_def Let_def)

locale secret_store = bulk_store S B
  for S :: "('v, object_id, scan_secret) coll" and B :: "('v, scan_secret) bulk" +
  assumes secret_key: "coll_key S = sec_ID"
begin

text \<open>A saved secret is found under its identifier until it expires, unless the database fails.\<close>

lemma saved_secret_is_found:
  assumes "coll_ok S v" "SaveScanSecret S now fresh v s0 = (v', s, None)"
    and "now' \<le> time_key (sec_ExpiresAt s)"
  shows "s = prepare_secret now fresh s0 \<and> coll_ok S v' \<and>
    (case GetScanSecret S now' v' (sec_ID s) of Inl (Some e) \<Rightarrow> True | Inl None \<Rightarrow> False | Inr x \<Rightarrow> x = s)"
proof -
  from assms(2) have s: "s = prepare_secret now fresh s0" and i: "coll_insert S v s = (v', None)"
    by (auto simp: SaveScanSecret_def Let_def split: prod.splits)
  have ok: "coll_ok S v'" by (rule insert_ok [OF assms(1) i])
  from insert_done [OF assms(1) i] have d: "coll_docs S v' (sec_ID s) = Some s" by (simp add: secret_key)
  have "case GetScanSecret S now' v' (sec_ID s) of Inl (Some e) \<Rightarrow> True | Inl None \<Rightarrow> False | Inr x \<Rightarrow> x = s"
  proof (cases "coll_find S v' (\<lambda>x. sec_ID x = sec_ID s)")
    case (Inl e)
    then show ?thesis by (simp add: GetScanSecret_def)
  next
    case (Inr r)
    show ?thesis
    proof (cases r)
      case None
      with find_none [OF ok Inr [unfolded None] d] show ?thesis by simp
    next
      case (Some x)
      from find_some [OF ok Inr [unfolded Some]] obtain k where x: "sec_ID x = sec_ID s" "coll_docs S v' k = Some x" by blast
      with key [OF ok x(2)] d have "x = s" by (simp add: secret_key)
      with Inr Some assms(3) show ?thesis by (simp add: GetScanSecret_def)
    qed
  qed
  with s ok show ?thesis by blast
qed

end

lemma mem_secret_store: "secret_store (mem_coll sec_ID) mem_bulk"
  by (intro secret_store.intro mem_bulk_store secret_store_axioms.intro) (simp add: mem_coll_def)

interpretation mem_secrets: secret_store "mem_coll sec_ID" mem_bulk
  by (rule mem_secret_store)

end
