(* ===== verification/Scan_Api.thy ===== *)
theory Scan_Api
  imports Scan_Plan Scan_Policy Scan_Control Scan_Jobs Scan_Secrets Queue Http_Auth
begin

text \<open>
  The scan endpoints of the API, \<open>internal/api/server.go\<close> and \<open>scan_suite.go\<close>: a scan is
  asked for, asked for again, or asked for as a suite; its endpoint is looked up within the caller's
  account, the target is checked against the scan policy, the attack is planned, its credential is
  moved into an encrypted secret, and the job is put into the queue of the database and announced
  on the message queue. The collections of jobs and secrets are parameters; the inventory and the
  traffic samples are only read, so they are the list of documents the database shows to the request
  (or its error). The audit list holds the entries handed to \<open>SaveAuditLog\<close>, whose error is only
  dropped or logged.
\<close>

subsection \<open>Requests and replies\<close>

datatype 'a decoded_body = DecodedTooLarge | DecodedInvalid | DecodedEOF | Decoded 'a

record scan_request =
  rq_InventoryID :: string
  rq_TestType :: string
  rq_AttackerToken :: string
  rq_AuthContexts :: "string gomap"
  rq_AttackMethod :: string
  rq_TimeoutSeconds :: int

record scan_rerun_request =
  rr_AttackerToken :: string
  rr_AuthContexts :: "string gomap"
  rr_AttackMethod :: string
  rr_TimeoutSeconds :: int

record scan_suite_request =
  sq_InventoryID :: string
  sq_Suite :: string
  sq_TestTypes :: "string list"
  sq_AttackerToken :: string
  sq_AuthContexts :: "string gomap"
  sq_AttackMethod :: string
  sq_TimeoutSeconds :: int

record scan_job_response =
  sjr_JobID :: string
  sjr_Status :: string
  sjr_InventoryID :: string
  sjr_RerunOfJobID :: string
  sjr_TestType :: string
  sjr_Error :: string
  sjr_ResultsCount :: int
  sjr_TimeoutSeconds :: int
  sjr_CreatedAt :: string
  sjr_StartedAt :: string
  sjr_DeadlineAt :: string
  sjr_CompletedAt :: string

record scan_suite_response =
  ssr_SuiteID :: string
  ssr_Suite :: string
  ssr_JobCount :: int
  ssr_TestTypes :: "string list"
  ssr_Skipped :: "string list"
  ssr_Jobs :: "scan_job_response list"

record scan_suite_status =
  sss_SuiteID :: string
  sss_InventoryID :: string
  sss_JobCount :: int
  sss_StatusCounts :: "(string \<times> int) list"
  sss_TotalFindings :: int
  sss_Completed :: bool
  sss_Jobs :: "scan_job_response list"

datatype scan_reply =
    ScanError nat string
  | ScanPanics
  | JobReply nat scan_job_response
  | SuiteReply nat scan_suite_response
  | SuiteStatusReply scan_suite_status
  | EventsReply "scan_progress_event list"

record ('c, 'v) scan_world =
  sw_jobs :: 'c
  sw_secrets :: 'v
  sw_audit :: "audit_log list"
  sw_sent :: "message list"

record ('c, 'v) scan_env =
  sx_jobs :: "('c, object_id, scan_job) coll"
  sx_secrets :: "('v, object_id, scan_secret) coll"
  sx_secretsB :: "('v, scan_secret) bulk"
  sx_inventory :: "db_error + api_inventory list"
  sx_samples :: "db_error + traffic_sample list"
  sx_events :: "db_error + scan_progress_event list"
  sx_suite_jobs :: "db_error + scan_job list"
  sx_Getenv :: "string \<Rightarrow> string"
  sx_resolver :: resolver
  sx_json :: json_env
  sx_entries :: "dir_entry list"
  sx_aead :: aead
  sx_random :: "nat \<Rightarrow> string option"
  sx_now :: "nat \<Rightarrow> int"
  sx_new_id :: "nat \<Rightarrow> object_id"
  sx_Hex :: "object_id \<Rightarrow> string"
  sx_FromHex :: "string \<Rightarrow> string + object_id"
  sx_format :: "int \<Rightarrow> string"
  sx_Produce :: "(message \<Rightarrow> string option) option"
  sx_event_json :: "scan_job_event \<Rightarrow> string + string"
  sx_envelope_json :: "envelope \<Rightarrow> string + string"

subsection \<open>Helpers\<close>

definition normalizeScanTimeout :: "int \<Rightarrow> int option" where
  "normalizeScanTimeout timeoutSeconds =
     (if timeoutSeconds = 0 then Some DefaultScanTimeoutSeconds
      else if timeoutSeconds < 1 \<or> timeoutSeconds > MaxScanTimeoutSeconds then None
      else Some timeoutSeconds)"

definition scanPolicyHTTPStatus :: "target_error \<Rightarrow> nat" where
  "scanPolicyHTTPStatus err =
     (case err of ErrTargetDenied \<Rightarrow> 403 | ErrTargetNotAllowed \<Rightarrow> 403 | ErrTargetPrivateNetwork \<Rightarrow> 403 | ErrTargetMetadata \<Rightarrow> 403
      | _ \<Rightarrow> 400)"

definition formatOptionalTime :: "('c, 'v) scan_env \<Rightarrow> gotime \<Rightarrow> string" where
  "formatOptionalTime E t = (case t of None \<Rightarrow> [] | Some n \<Rightarrow> sx_format E n)"

definition objectIDHexOrEmpty :: "('c, 'v) scan_env \<Rightarrow> object_id \<Rightarrow> string" where
  "objectIDHexOrEmpty E i = (if i = 0 then [] else sx_Hex E i)"

definition scanJobResponse :: "('c, 'v) scan_env \<Rightarrow> scan_job \<Rightarrow> scan_job_response" where
  "scanJobResponse E job =
     \<lparr>sjr_JobID = sx_Hex E (job_ID job), sjr_Status = job_Status job, sjr_InventoryID = sx_Hex E (job_InventoryID job),
      sjr_RerunOfJobID = objectIDHexOrEmpty E (job_RerunOfJobID job), sjr_TestType = job_TestType job, sjr_Error = job_Error job,
      sjr_ResultsCount = job_ResultsCount job, sjr_TimeoutSeconds = job_TimeoutSeconds job,
      sjr_CreatedAt = formatOptionalTime E (job_CreatedAt job), sjr_StartedAt = formatOptionalTime E (job_StartedAt job),
      sjr_DeadlineAt = formatOptionalTime E (job_DeadlineAt job), sjr_CompletedAt = formatOptionalTime E (job_CompletedAt job)\<rparr>"

text \<open>The actor of an audit entry: the user, else the subject, else \<open>unknown\<close>.\<close>

definition auditScanCreate ::
  "http_req \<Rightarrow> string \<Rightarrow> scan_request \<Rightarrow> string \<Rightarrow> string \<Rightarrow> ('c, 'v) scan_world \<Rightarrow> ('c, 'v) scan_world" where
  "auditScanCreate q jobID req status message w =
     (let subject = (case rx_Subject q of None \<Rightarrow> [] | Some s \<Rightarrow> s);
          (actorType, actor0) = (case rx_Principal q of
             None \<Rightarrow> (''api_key'', subject)
           | Some p \<Rightarrow> if pr_ActorType p = [] then (''api_key'', subject)
               else (pr_ActorType p, if pr_UserID p \<noteq> [] then pr_UserID p else subject));
          actorID = (if actor0 = [] then ''unknown'' else actor0)
      in w\<lparr>sw_audit := sw_audit w @ [\<lparr>adt_ID = 0, adt_CreatedAt = None, adt_ActorType = actorType, adt_ActorID = actorID,
           adt_Action = ''scan.create'', adt_ResourceType = ''scan_job'', adt_ResourceID = jobID, adt_Status = status,
           adt_RemoteAddr = clientID q, adt_Message = message,
           adt_Metadata = [(''inventory_id'', rq_InventoryID req), (''test_type'', rq_TestType req),
             (''attack_method'', rq_AttackMethod req)]\<rparr>]\<rparr>)"

text \<open>
  The latest sample of an endpoint: by its fingerprint when it has one, within its tenant when it
  has one; the newest capture first, the newest document among equal captures.
\<close>

definition sample_filter :: "api_inventory \<Rightarrow> traffic_sample \<Rightarrow> bool" where
  "sample_filter inventory s \<longleftrightarrow>
     (if trim_space (inv_EndpointFingerprint inventory) \<noteq> []
      then ts_EndpointFingerprint s = inv_EndpointFingerprint inventory
      else ts_Method s = inv_Method inventory \<and> ts_BaseURL s = inv_BaseURL inventory \<and> ts_PathPattern s = inv_PathPattern inventory) \<and>
     (trim_space (inv_TenantID inventory) \<noteq> [] \<longrightarrow> ts_TenantID s = inv_TenantID inventory)"

definition ResolveLatestTrafficSample ::
  "db_error + traffic_sample list \<Rightarrow> api_inventory \<Rightarrow> db_error + traffic_sample option" where
  "ResolveLatestTrafficSample samples inventory =
     (case samples of
        Inl e \<Rightarrow> Inl e
      | Inr ss \<Rightarrow>
          (case sort_key (\<lambda>s. - time_key (ts_CapturedAt s)) (sort_key (\<lambda>s. - time_key (ts_CreatedAt s)) (filter (sample_filter inventory) ss)) of
             [] \<Rightarrow> Inr None | s # _ \<Rightarrow> Inr (Some s)))"

definition ApplyTrafficSampleToInventory :: "api_inventory \<Rightarrow> traffic_sample option \<Rightarrow> api_inventory" where
  "ApplyTrafficSampleToInventory i0 sample =
     (case sample of
        None \<Rightarrow> i0
      | Some s \<Rightarrow>
          (let i1 = (if trim_space (ts_ReqBody s) \<noteq> [] then i0\<lparr>inv_SampleReqBody := ts_ReqBody s\<rparr> else i0);
               i2 = (if ts_ReqHeaders s \<noteq> [] then i1\<lparr>inv_SampleHeaders := ts_ReqHeaders s\<rparr> else i1);
               i3 = (if trim_space (ts_OriginalPath s) \<noteq> [] then i2\<lparr>inv_OriginalPath := ts_OriginalPath s\<rparr> else i2)
           in if trim_space (ts_BaseURL s) \<noteq> [] then i3\<lparr>inv_BaseURL := ts_BaseURL s\<rparr> else i3))"

definition applyLatestTrafficSample :: "('c, 'v) scan_env \<Rightarrow> api_inventory \<Rightarrow> api_inventory" where
  "applyLatestTrafficSample E target =
     (case ResolveLatestTrafficSample (sx_samples E) target of
        Inl err \<Rightarrow> target
      | Inr sample \<Rightarrow> ApplyTrafficSampleToInventory target sample)"

text \<open>\<open>FindOne\<close> on the inventory: the first document the filter selects.\<close>

definition find_inventory :: "('c, 'v) scan_env \<Rightarrow> (api_inventory \<Rightarrow> bool) \<Rightarrow> api_inventory option" where
  "find_inventory E f = (case sx_inventory E of Inl e \<Rightarrow> None | Inr is \<Rightarrow> List.find f is)"

subsection \<open>Secrets and announcements\<close>

text \<open>
  \<open>k\<close> numbers the job within the request: its clock readings are \<open>5 * k\<close> and the next four,
  its new ObjectIDs \<open>2 * k + 1\<close> (the job) and \<open>2 * k + 2\<close> (the secret).
\<close>

definition externalizeScanAuthSecret ::
  "('c, 'v) scan_env \<Rightarrow> nat \<Rightarrow> object_id \<Rightarrow> scan_config \<Rightarrow> ('c, 'v) scan_world \<Rightarrow> ('c, 'v) scan_world \<times> (secret_error + scan_config)" where
  "externalizeScanAuthSecret E k jobID config w =
     (if cfg_ManualAuth config = [] then (w, Inr config)
      else (case secrets_FromEnv (sx_Getenv E) of
          Inl err \<Rightarrow> (w, Inl err)
        | Inr protector \<Rightarrow>
            (case Encrypt (sx_aead E) (sx_random E k) (Some protector) (cfg_ManualAuth config) of
               Inl err \<Rightarrow> (w, Inl err)
             | Inr (nonce, ciphertext) \<Rightarrow>
                 (case SaveScanSecret (sx_secrets E) (sx_now E (5 * k + 1)) (sx_new_id E (2 * k + 2)) (sw_secrets w)
                     \<lparr>sec_ID = 0, sec_JobID = jobID, sec_Purpose = ScanSecretPurposeAuth, sec_KeyID = KeyID (Some protector),
                      sec_Nonce = nonce, sec_Ciphertext = ciphertext, sec_CreatedAt = None,
                      sec_ExpiresAt = Some (sx_now E (5 * k) + 24 * hour)\<rparr> of
                    (v', secret, Some err) \<Rightarrow> (w\<lparr>sw_secrets := v'\<rparr>, Inl (SecretError err))
                  | (v', secret, None) \<Rightarrow>
                      (w\<lparr>sw_secrets := v'\<rparr>,
                       Inr (config\<lparr>cfg_AuthSecretRef := sx_Hex E (sec_ID secret), cfg_ManualAuth := []\<rparr>))))))"

definition deleteScanSecret :: "('c, 'v) scan_env \<Rightarrow> string \<Rightarrow> ('c, 'v) scan_world \<Rightarrow> ('c, 'v) scan_world" where
  "deleteScanSecret E ref w =
     (case sx_FromHex E ref of
        Inl err \<Rightarrow> w
      | Inr i \<Rightarrow> w\<lparr>sw_secrets := fst (DeleteScanSecret (sx_secretsB E) (sw_secrets w) i)\<rparr>)"

definition publishScanJobQueued ::
  "('c, 'v) scan_env \<Rightarrow> nat \<Rightarrow> scan_job \<Rightarrow> ('c, 'v) scan_world \<Rightarrow> ('c, 'v) scan_world \<times> string option" where
  "publishScanJobQueued E k job w =
     (case sx_Produce E of
        None \<Rightarrow> (w, None)
      | Some produce \<Rightarrow>
          (let key = ScanJobIdempotencyKey (sx_Hex E (job_ID job)) in
           if key = [] then (w, Some ''scan job id is required'')
           else (case NewEnvelope (sx_now E (5 * k + 4)) EventScanJobV1 PayloadScanJobQueuedV1
               (sx_event_json E \<lparr>sje_SchemaVersion = EventScanJobV1, sje_JobID = sx_Hex E (job_ID job),
                  sje_InventoryID = sx_Hex E (job_InventoryID job), sje_TenantID = job_TenantID job, sje_ProjectID = job_ProjectID job,
                  sje_TestType = job_TestType job, sje_Status = job_Status job, sje_CreatedAt = Some (sx_now E (5 * k + 3))\<rparr>)
               [WithEventID key, WithIdempotencyKey key, WithIdentity (job_TenantID job) (job_ProjectID job) [] ''active_scanner''] of
              Inl err \<Rightarrow> (w, Some err)
            | Inr envelope \<Rightarrow>
                (case EncodeEnvelope (sx_envelope_json E) TopicScanJobs key envelope of
                   Inl err \<Rightarrow> (w, Some err)
                 | Inr m \<Rightarrow> (w\<lparr>sw_sent := sw_sent w @ [m]\<rparr>, produce m)))))"

text \<open>The job a request asks for; the tenant, the project and the endpoint are those of the inventory.\<close>

definition queued_job ::
  "object_id \<Rightarrow> api_inventory \<Rightarrow> object_id \<Rightarrow> object_id \<Rightarrow> string \<Rightarrow> string \<Rightarrow> scan_config \<Rightarrow> int \<Rightarrow> scan_job" where
  "queued_job jobID target suiteID rerunOf testType attackMethod config timeoutSeconds =
     \<lparr>job_ID = jobID, job_TenantID = inv_TenantID target, job_ProjectID = inv_ProjectID target, job_InventoryID = inv_ID target,
      job_SuiteID = suiteID, job_RerunOfJobID = rerunOf, job_Status = ScanJobStatusQueued, job_TestType = testType,
      job_AttackMethod = attackMethod, job_Config = config, job_Error = [], job_WorkerID = [], job_Attempts = 0, job_ResultsCount = 0,
      job_TimeoutSeconds = timeoutSeconds, job_CreatedAt = None, job_UpdatedAt = None, job_StartedAt = None, job_DeadlineAt = None,
      job_NotBeforeAt = None, job_CompletedAt = None, job_CancelRequestedAt = None, job_CancelledAt = None\<rparr>"

text \<open>\<open>CreateScanJob\<close> and what follows when it fails: the secret of the job is removed again.\<close>

definition store_job ::
  "('c, 'v) scan_env \<Rightarrow> nat \<Rightarrow> scan_job \<Rightarrow> ('c, 'v) scan_world \<Rightarrow> ('c, 'v) scan_world \<times> scan_job option" where
  "store_job E k job w =
     (case CreateScanJob (sx_jobs E) (sx_now E (5 * k + 2)) (sx_new_id E (2 * k + 1)) (sw_jobs w) job of
        (c', job', None) \<Rightarrow> (w\<lparr>sw_jobs := c'\<rparr>, Some job')
      | (c', job', Some err) \<Rightarrow>
          (let w1 = w\<lparr>sw_jobs := c'\<rparr> in
           (if cfg_AuthSecretRef (job_Config job) \<noteq> [] then deleteScanSecret E (cfg_AuthSecretRef (job_Config job)) w1 else w1, None)))"

definition secret_status :: "secret_error \<Rightarrow> nat" where
  "secret_status err = (if err = ErrSecretKeyMissing then 503 else 500)"

definition limited :: "('c, 'v) scan_env \<Rightarrow> scan_config \<Rightarrow> scan_config" where
  "limited E config = ApplyExecutionLimits config (LoadConfigFromEnv (sx_Getenv E))"

subsection \<open>A scan\<close>

definition inventory_filter :: "object_id \<Rightarrow> account_scope \<Rightarrow> principal \<Rightarrow> api_inventory \<Rightarrow> bool" where
  "inventory_filter objID scope p i \<longleftrightarrow> inv_ID i = objID \<and> (scope = NotScoped \<or> inv_TenantID i = pr_AccountID p)"

definition target_policy_of :: "('c, 'v) scan_env \<Rightarrow> api_inventory \<Rightarrow> target_error option" where
  "target_policy_of E target = ValidateTargetURL (LoadTargetPolicyFromEnv (sx_Getenv E)) (sx_resolver E) (inv_BaseURL target)"

text \<open>
  The first steps of a scan and of a suite, up to the check of the timeout: the endpoint within the
  caller's account, its base URL, the scan policy. An error is the status, the message of the reply
  and the message of the audit entry.
\<close>

definition api_scan_target ::
  "('c, 'v) scan_env \<Rightarrow> principal \<Rightarrow> string \<Rightarrow> int \<Rightarrow> (nat \<times> string \<times> string) + (api_inventory \<times> int)" where
  "api_scan_target E p inventoryID timeout0 =
     (case sx_FromHex E inventoryID of
        Inl err \<Rightarrow> Inl (400, ''Invalid Inventory ID'', ''invalid inventory id'')
      | Inr objID \<Rightarrow>
          (let scope = scopedAccountID (sx_FromHex E) p in
           if is_BadAccount scope then Inl (401, ''Invalid account'', ''invalid account'')
           else (case find_inventory E (inventory_filter objID scope p) of
               None \<Rightarrow> Inl (404, ''Endpoint Not Found'', ''endpoint not found'')
             | Some target \<Rightarrow>
                 if inv_BaseURL target = []
                 then Inl (400, ''Target BaseURL missing in inventory. Re-capture traffic.'', ''target base url missing'')
                 else (case target_policy_of E target of
                     Some err \<Rightarrow> Inl (scanPolicyHTTPStatus err, ''Target blocked by scan policy'', ''target blocked by scan policy'')
                   | None \<Rightarrow>
                       (case normalizeScanTimeout timeout0 of
                          None \<Rightarrow> Inl (400, ''timeout_seconds must be between 1 and 3600'', ''invalid scan timeout'')
                        | Some timeoutSeconds \<Rightarrow> Inr (target, timeoutSeconds))))))"

definition handleTriggerScan ::
  "('c, 'v) scan_env \<Rightarrow> http_req \<Rightarrow> scan_request decoded_body \<Rightarrow> ('c, 'v) scan_world \<Rightarrow> ('c, 'v) scan_world \<times> scan_reply" where
  "handleTriggerScan E q body w =
     (case requireRoles q scanRoles of
        Inl (code, msg) \<Rightarrow> (w, ScanError code msg)
      | Inr p \<Rightarrow>
    (case body of
       DecodedTooLarge \<Rightarrow> (w, ScanError 413 ''Request body too large'')
     | DecodedInvalid \<Rightarrow> (w, ScanError 400 ''Invalid JSON'')
     | DecodedEOF \<Rightarrow> (w, ScanError 400 ''Invalid JSON'')
     | Decoded req \<Rightarrow>
    (let failed = auditScanCreate q [] req ''failure'' in
     case api_scan_target E p (rq_InventoryID req) (rq_TimeoutSeconds req) of
       Inl (code, msg, why) \<Rightarrow> (failed why w, ScanError code msg)
     | Inr (target0, timeoutSeconds) \<Rightarrow>
    (let target = applyLatestTrafficSample E target0 in
     case BuildScanConfigWithAuthContexts (sx_json E) (inv_BaseURL target) target (rq_AuthContexts req) (rq_AttackerToken req)
         (rq_AttackMethod req) (rq_TestType req) of
       PlanPanic \<Rightarrow> (w, ScanPanics)
     | PlanFailed err \<Rightarrow> (failed ''scan config error'' w, ScanError 400 ''Config Error'')
     | Planned config0 \<Rightarrow>
    (case externalizeScanAuthSecret E 0 (sx_new_id E 1) (limited E config0) w of
       (w1, Inl err) \<Rightarrow> (failed ''scan secret setup failed'' w1, ScanError (secret_status err) ''Scan secret setup failed'')
     | (w1, Inr config) \<Rightarrow>
    (case store_job E 0 (queued_job (sx_new_id E 1) target 0 0 (rq_TestType req) (rq_AttackMethod req) config timeoutSeconds) w1 of
       (w2, None) \<Rightarrow> (failed ''failed to enqueue scan job'' w2, ScanError 500 ''Failed to enqueue scan job'')
     | (w2, Some job) \<Rightarrow>
         (fst (publishScanJobQueued E 0 job (auditScanCreate q (sx_Hex E (job_ID job)) req ''success'' [] w2)),
          JobReply 202 \<lparr>sjr_JobID = sx_Hex E (job_ID job), sjr_Status = job_Status job, sjr_InventoryID = sx_Hex E (inv_ID target),
            sjr_RerunOfJobID = objectIDHexOrEmpty E (job_RerunOfJobID job), sjr_TestType = job_TestType job, sjr_Error = [],
            sjr_ResultsCount = job_ResultsCount job, sjr_TimeoutSeconds = job_TimeoutSeconds job,
            sjr_CreatedAt = formatOptionalTime E (job_CreatedAt job), sjr_StartedAt = [], sjr_DeadlineAt = [], sjr_CompletedAt = []\<rparr>)))))))"

text \<open>What a principal scoped to an account may see of a job; a foreign job is not found.\<close>

definition visible_job ::
  "('c, 'v) scan_env \<Rightarrow> principal \<Rightarrow> object_id \<Rightarrow> ('c, 'v) scan_world \<Rightarrow> nat \<times> string + scan_job" where
  "visible_job E p i w =
     (case GetScanJob (sx_jobs E) (sw_jobs w) i of
        Inl err \<Rightarrow> Inl (404, ''Scan Job Not Found'')
      | Inr job \<Rightarrow>
          (case scopedAccountID (sx_FromHex E) p of
             NotScoped \<Rightarrow> Inr job
           | BadAccount err \<Rightarrow> Inl (401, ''Invalid account'')
           | ScopedTo a \<Rightarrow> if job_TenantID job \<noteq> pr_AccountID p then Inl (404, ''Scan Job Not Found'') else Inr job))"

definition handleGetScanJob ::
  "('c, 'v) scan_env \<Rightarrow> http_req \<Rightarrow> string \<Rightarrow> ('c, 'v) scan_world \<Rightarrow> scan_reply" where
  "handleGetScanJob E q idStr w =
     (case requireRoles q readRoles of
        Inl (code, msg) \<Rightarrow> ScanError code msg
      | Inr p \<Rightarrow>
          (case sx_FromHex E idStr of
             Inl err \<Rightarrow> ScanError 400 ''Invalid scan job ID''
           | Inr i \<Rightarrow>
               (case visible_job E p i w of
                  Inl (code, msg) \<Rightarrow> ScanError code msg
                | Inr job \<Rightarrow> JobReply 200 (scanJobResponse E job))))"

definition handleCancelScanJob ::
  "('c, 'v) scan_env \<Rightarrow> http_req \<Rightarrow> string \<Rightarrow> ('c, 'v) scan_world \<Rightarrow> ('c, 'v) scan_world \<times> scan_reply" where
  "handleCancelScanJob E q idStr w =
     (case requireRoles q scanRoles of
        Inl (code, msg) \<Rightarrow> (w, ScanError code msg)
      | Inr p \<Rightarrow>
          (case sx_FromHex E idStr of
             Inl err \<Rightarrow> (w, ScanError 400 ''Invalid scan job ID'')
           | Inr i \<Rightarrow>
               (if is_BadAccount (scopedAccountID (sx_FromHex E) p) then (w, ScanError 401 ''Invalid account'')
                else
                    (let tenantID = (if scopedAccountID (sx_FromHex E) p = NotScoped then [] else pr_AccountID p) in
                     case CancelScanJob (sx_jobs E) (sx_now E 0) (sw_jobs w) i tenantID of
                       (c', Inr job) \<Rightarrow> (w\<lparr>sw_jobs := c'\<rparr>, JobReply 200 (scanJobResponse E job))
                     | (c', Inl (NotCancellable job)) \<Rightarrow> (w\<lparr>sw_jobs := c'\<rparr>, ScanError 409 ''Scan job is already terminal'')
                     | (c', Inl err) \<Rightarrow> (w\<lparr>sw_jobs := c'\<rparr>, ScanError 404 ''Scan Job Not Found'')))))"

definition rerun_filter :: "scan_job \<Rightarrow> api_inventory \<Rightarrow> bool" where
  "rerun_filter original i \<longleftrightarrow>
     inv_ID i = job_InventoryID original \<and> (job_TenantID original \<noteq> [] \<longrightarrow> inv_TenantID i = job_TenantID original)"

definition rerun_body :: "scan_rerun_request decoded_body \<Rightarrow> nat \<times> string + scan_rerun_request" where
  "rerun_body body =
     (case body of
        DecodedTooLarge \<Rightarrow> Inl (413, ''Request body too large'')
      | DecodedInvalid \<Rightarrow> Inl (400, ''Invalid JSON'')
      | DecodedEOF \<Rightarrow> Inr \<lparr>rr_AttackerToken = [], rr_AuthContexts = [], rr_AttackMethod = [], rr_TimeoutSeconds = 0\<rparr>
      | Decoded req \<Rightarrow> Inr req)"

definition handleRerunScanJob ::
  "('c, 'v) scan_env \<Rightarrow> http_req \<Rightarrow> string \<Rightarrow> scan_rerun_request decoded_body \<Rightarrow> ('c, 'v) scan_world \<Rightarrow> ('c, 'v) scan_world \<times> scan_reply" where
  "handleRerunScanJob E q idStr body w =
     (case requireRoles q scanRoles of
        Inl (code, msg) \<Rightarrow> (w, ScanError code msg)
      | Inr p \<Rightarrow>
    (case sx_FromHex E idStr of
       Inl err \<Rightarrow> (w, ScanError 400 ''Invalid scan job ID'')
     | Inr originalID \<Rightarrow>
    (case visible_job E p originalID w of
       Inl (code, msg) \<Rightarrow> (w, ScanError code msg)
     | Inr original \<Rightarrow>
    (case rerun_body body of
       Inl (code, msg) \<Rightarrow> (w, ScanError code msg)
     | Inr req \<Rightarrow>
    (case find_inventory E (rerun_filter original) of
       None \<Rightarrow> (w, ScanError 404 ''Endpoint Not Found'')
     | Some target0 \<Rightarrow>
     if inv_BaseURL target0 = [] then (w, ScanError 400 ''Target BaseURL missing in inventory. Re-capture traffic.'')
     else
    (case target_policy_of E target0 of
       Some err \<Rightarrow> (w, ScanError (scanPolicyHTTPStatus err) ''Target blocked by scan policy'')
     | None \<Rightarrow>
    (let attackMethod = (if trim_space (rr_AttackMethod req) = [] then job_AttackMethod original else trim_space (rr_AttackMethod req));
         timeout0 = (if rr_TimeoutSeconds req = 0 then job_TimeoutSeconds original else rr_TimeoutSeconds req)
     in case normalizeScanTimeout timeout0 of
       None \<Rightarrow> (w, ScanError 400 ''timeout_seconds must be between 1 and 3600'')
     | Some timeoutSeconds \<Rightarrow>
    (let target = applyLatestTrafficSample E target0 in
     case BuildScanConfigWithAuthContexts (sx_json E) (inv_BaseURL target) target (rr_AuthContexts req) (rr_AttackerToken req)
         attackMethod (job_TestType original) of
       PlanPanic \<Rightarrow> (w, ScanPanics)
     | PlanFailed err \<Rightarrow> (w, ScanError 400 ''Config Error'')
     | Planned config0 \<Rightarrow>
    (case externalizeScanAuthSecret E 0 (sx_new_id E 1) (limited E config0) w of
       (w1, Inl err) \<Rightarrow> (w1, ScanError (secret_status err) ''Scan secret setup failed'')
     | (w1, Inr config) \<Rightarrow>
    (case store_job E 0 (queued_job (sx_new_id E 1) target 0 (job_ID original) (job_TestType original) attackMethod config timeoutSeconds) w1 of
       (w2, None) \<Rightarrow> (w2, ScanError 500 ''Failed to enqueue scan rerun'')
     | (w2, Some job) \<Rightarrow>
         (fst (publishScanJobQueued E 0 job (auditScanCreate q (sx_Hex E (job_ID job))
             \<lparr>rq_InventoryID = sx_Hex E (inv_ID target), rq_TestType = job_TestType original, rq_AttackerToken = [], rq_AuthContexts = [],
              rq_AttackMethod = attackMethod, rq_TimeoutSeconds = timeoutSeconds\<rparr> ''success'' ''scan rerun'' w2)),
          JobReply 202 (scanJobResponse E job))))))))))))"

definition handleGetScanProgressEvents ::
  "('c, 'v) scan_env \<Rightarrow> http_req \<Rightarrow> string \<Rightarrow> ('c, 'v) scan_world \<Rightarrow> scan_reply" where
  "handleGetScanProgressEvents E q idStr w =
     (case requireRoles q readRoles of
        Inl (code, msg) \<Rightarrow> ScanError code msg
      | Inr p \<Rightarrow>
          (case sx_FromHex E idStr of
             Inl err \<Rightarrow> ScanError 400 ''Invalid scan job ID''
           | Inr i \<Rightarrow>
               (case visible_job E p i w of
                  Inl (code, msg) \<Rightarrow> ScanError code msg
                | Inr job \<Rightarrow>
                    (let tenantID = (if scopedAccountID (sx_FromHex E) p = NotScoped then [] else pr_AccountID p) in
                     case sx_events E of
                       Inl err \<Rightarrow> ScanError 500 ''Database Error''
                     | Inr es \<Rightarrow> EventsReply (sort_key (\<lambda>e. time_key (spe_CreatedAt e))
                         (filter (\<lambda>e. spe_JobID e = i \<and> (trim_space tenantID \<noteq> [] \<longrightarrow> spe_TenantID e = tenantID)) es))))))"

subsection \<open>A suite of scans\<close>

text \<open>\<open>seen\<close> holds the test types already taken; repeated and empty ones are dropped silently.\<close>

fun intersect_from :: "string list \<Rightarrow> string list \<Rightarrow> string list \<Rightarrow> string list \<times> string list" where
  "intersect_from applicable seen [] = ([], [])"
| "intersect_from applicable seen (t0 # ts) =
     (let t = trim_space t0 in
      if t = [] \<or> t \<in> set seen then intersect_from applicable seen ts
      else (case intersect_from applicable (t # seen) ts of (selected, skipped) \<Rightarrow>
        if t \<in> set applicable then (t # selected, skipped) else (selected, t # skipped)))"

definition intersectTestTypes :: "string list \<Rightarrow> string list \<Rightarrow> string list \<times> string list" where
  "intersectTestTypes requested applicable = intersect_from applicable [] requested"

definition selectSuiteTestTypes ::
  "registry option \<Rightarrow> scan_suite_request \<Rightarrow> string list \<Rightarrow> (string list \<times> string list) option" where
  "selectSuiteTestTypes r req applicable =
     (if sq_TestTypes req \<noteq> [] then Some (intersectTestTypes (FilterRegistered r (sq_TestTypes req)) applicable)
      else (let suiteID = to_upper (trim_space (sq_Suite req)) in
        if suiteID \<noteq> [] \<and> suiteID \<noteq> ''FULL''
        then (case LookupSuitePreset suiteID of
                None \<Rightarrow> None
              | Some preset \<Rightarrow> Some (intersectTestTypes (FilterRegistered r (sp_TestTypes preset)) applicable))
        else Some (applicable, [])))"

datatype suite_job = SuiteJob scan_job_response | SuiteJobFailed | SuiteJobPanics

definition enqueueSuiteJob ::
  "('c, 'v) scan_env \<Rightarrow> nat \<Rightarrow> api_inventory \<Rightarrow> object_id \<Rightarrow> scan_suite_request \<Rightarrow> string \<Rightarrow> int \<Rightarrow> ('c, 'v) scan_world \<Rightarrow>
     ('c, 'v) scan_world \<times> suite_job" where
  "enqueueSuiteJob E k target suiteID req testType timeoutSeconds w =
     (case BuildScanConfigWithAuthContexts (sx_json E) (inv_BaseURL target) target (sq_AuthContexts req) (sq_AttackerToken req)
         (sq_AttackMethod req) testType of
        PlanPanic \<Rightarrow> (w, SuiteJobPanics)
      | PlanFailed err \<Rightarrow> (w, SuiteJobFailed)
      | Planned config0 \<Rightarrow>
          (case externalizeScanAuthSecret E k (sx_new_id E (2 * k + 1)) (limited E config0) w of
             (w1, Inl err) \<Rightarrow> (w1, SuiteJobFailed)
           | (w1, Inr config) \<Rightarrow>
               (case store_job E k (queued_job (sx_new_id E (2 * k + 1)) target suiteID 0 testType (sq_AttackMethod req) config timeoutSeconds) w1 of
                  (w2, None) \<Rightarrow> (w2, SuiteJobFailed)
                | (w2, Some job) \<Rightarrow> (fst (publishScanJobQueued E k job w2), SuiteJob (scanJobResponse E job)))))"

text \<open>The loop over the selected test types; a panic leaves it with the jobs made so far.\<close>

fun enqueue_suite ::
  "('c, 'v) scan_env \<Rightarrow> nat \<Rightarrow> api_inventory \<Rightarrow> object_id \<Rightarrow> scan_suite_request \<Rightarrow> string list \<Rightarrow> int \<Rightarrow> ('c, 'v) scan_world \<Rightarrow>
     ('c, 'v) scan_world \<times> (scan_job_response list \<times> string list) option" where
  "enqueue_suite E k target suiteID req [] timeoutSeconds w = (w, Some ([], []))"
| "enqueue_suite E k target suiteID req (t # ts) timeoutSeconds w =
     (case enqueueSuiteJob E k target suiteID req t timeoutSeconds w of
        (w1, SuiteJobPanics) \<Rightarrow> (w1, None)
      | (w1, SuiteJobFailed) \<Rightarrow>
          (case enqueue_suite E (Suc k) target suiteID req ts timeoutSeconds w1 of
             (w2, None) \<Rightarrow> (w2, None) | (w2, Some (jobs, skipped)) \<Rightarrow> (w2, Some (jobs, t # skipped)))
      | (w1, SuiteJob j) \<Rightarrow>
          (case enqueue_suite E (Suc k) target suiteID req ts timeoutSeconds w1 of
             (w2, None) \<Rightarrow> (w2, None) | (w2, Some (jobs, skipped)) \<Rightarrow> (w2, Some (j # jobs, skipped))))"

definition handleTriggerSuite ::
  "('c, 'v) scan_env \<Rightarrow> http_req \<Rightarrow> scan_suite_request decoded_body \<Rightarrow> ('c, 'v) scan_world \<Rightarrow> ('c, 'v) scan_world \<times> scan_reply" where
  "handleTriggerSuite E q body w =
     (case requireRoles q scanRoles of
        Inl (code, msg) \<Rightarrow> (w, ScanError code msg)
      | Inr p \<Rightarrow>
    (case body of
       DecodedTooLarge \<Rightarrow> (w, ScanError 413 ''Request body too large'')
     | DecodedInvalid \<Rightarrow> (w, ScanError 400 ''Invalid JSON'')
     | DecodedEOF \<Rightarrow> (w, ScanError 400 ''Invalid JSON'')
     | Decoded req \<Rightarrow>
    (case api_scan_target E p (sq_InventoryID req) (sq_TimeoutSeconds req) of
       Inl (code, msg, why) \<Rightarrow> (w, ScanError code msg)
     | Inr (target0, timeoutSeconds) \<Rightarrow>
    (let target = applyLatestTrafficSample E target0; r = Some (DefaultTemplateRegistry (sx_entries E));
         applicable = ApplicableTestTypes r (Some target) (sq_AuthContexts req) (sq_AttackerToken req)
     in case selectSuiteTestTypes r req applicable of
       None \<Rightarrow> (w, ScanError 400 ''unknown suite preset'')
     | Some (selected, skipped) \<Rightarrow>
     if selected = [] then (w, ScanError 400 ''No applicable test types for this endpoint and selection'')
     else
    (let suiteID = sx_new_id E 0; suiteName = to_upper (trim_space (sq_Suite req)) in
     case enqueue_suite E 0 target suiteID req selected timeoutSeconds w of
       (w1, None) \<Rightarrow> (w1, ScanPanics)
     | (w1, Some (jobs, failed)) \<Rightarrow>
     if jobs = [] then (w1, ScanError 500 ''Failed to enqueue any suite jobs'')
     else (auditScanCreate q (sx_Hex E suiteID) \<lparr>rq_InventoryID = sq_InventoryID req, rq_TestType = ''SUITE:'' @ suiteName,
             rq_AttackerToken = [], rq_AuthContexts = [], rq_AttackMethod = [], rq_TimeoutSeconds = 0\<rparr> ''success'' [] w1,
           SuiteReply 202 \<lparr>ssr_SuiteID = sx_Hex E suiteID, ssr_Suite = suiteName, ssr_JobCount = int (length jobs),
             ssr_TestTypes = selected, ssr_Skipped = skipped @ failed, ssr_Jobs = jobs\<rparr>))))))"

text \<open>\<open>GetScanJobsBySuite\<close> on the documents the database shows.\<close>

definition GetScanJobsBySuite :: "db_error + scan_job list \<Rightarrow> object_id \<Rightarrow> string \<Rightarrow> db_error + scan_job list" where
  "GetScanJobsBySuite docs suiteID tenantID =
     (case docs of Inl e \<Rightarrow> Inl e
      | Inr js \<Rightarrow> Inr (sort_key (\<lambda>j. time_key (job_CreatedAt j))
          (filter (\<lambda>j. job_SuiteID j = suiteID \<and> (trim_space tenantID \<noteq> [] \<longrightarrow> job_TenantID j = trim_space tenantID)) js)))"

fun count_status :: "(string \<times> int) list \<Rightarrow> scan_job list \<Rightarrow> (string \<times> int) list" where
  "count_status counts [] = counts"
| "count_status counts (j # js) =
     count_status (AList.update (job_Status j) ((case map_of counts (job_Status j) of None \<Rightarrow> 0 | Some n \<Rightarrow> n) + 1) counts) js"

definition handleGetSuite :: "('c, 'v) scan_env \<Rightarrow> http_req \<Rightarrow> string \<Rightarrow> scan_reply" where
  "handleGetSuite E q idStr =
     (case requireRoles q readRoles of
        Inl (code, msg) \<Rightarrow> ScanError code msg
      | Inr p \<Rightarrow>
          (case sx_FromHex E idStr of
             Inl err \<Rightarrow> ScanError 400 ''Invalid suite id''
           | Inr suiteID \<Rightarrow>
               (if is_BadAccount (scopedAccountID (sx_FromHex E) p) then ScanError 401 ''Invalid account''
                else
                    (case GetScanJobsBySuite (sx_suite_jobs E) suiteID (if scopedAccountID (sx_FromHex E) p = NotScoped then [] else pr_AccountID p) of
                       Inl err \<Rightarrow> ScanError 500 ''Database Error''
                     | Inr [] \<Rightarrow> ScanError 404 ''Suite Not Found''
                     | Inr (j # js) \<Rightarrow>
                         SuiteStatusReply \<lparr>sss_SuiteID = sx_Hex E suiteID, sss_InventoryID = sx_Hex E (job_InventoryID j),
                           sss_JobCount = int (length (j # js)), sss_StatusCounts = count_status [] (j # js),
                           sss_TotalFindings = sum_list (map job_ResultsCount (j # js)),
                           sss_Completed = list_all (\<lambda>x. isTerminalScanStatus (job_Status x)) (j # js),
                           sss_Jobs = map (scanJobResponse E) (j # js)\<rparr>))))"

end
