(* ===== verification/Scan_Api_Logic.thy ===== *)
theory Scan_Api_Logic
  imports Scan_Api "HOL-Library.Multiset"
begin

text \<open>
  What the scan endpoints promise: a job gets into the queue only for an endpoint of the caller's
  account whose target the scan policy accepts, with valid limits and without its credential in the
  clear, whichever of the three endpoints asked for it; a caller scoped to an account sees and
  cancels only that account's jobs; and the credential that was moved out comes back unchanged.
\<close>

subsection \<open>Jobs that get into the queue\<close>

definition running_limits_ok :: "scan_config \<Rightarrow> bool" where
  "running_limits_ok c \<longleftrightarrow> 0 \<le> cfg_RateLimitPerSecond c \<and> 0 < cfg_TemplateConcurrency c \<and> 0 < cfg_HostConcurrency c \<and>
     0 < cfg_PayloadConcurrency c \<and> 0 < cfg_ProbeConcurrency c"

text \<open>
  The headers of a job are those of the endpoint's sample; when the sample is masked, as the analyzer
  stores it (\<open>inventory_samples_masked\<close>, \<open>traffic_sample_bounded\<close>), none of them shows a credential.
\<close>

definition headers_from_sample :: "api_inventory \<Rightarrow> scan_config \<Rightarrow> bool" where
  "headers_from_sample target config \<longleftrightarrow>
     cfg_Headers config = flattenHeaders (inv_SampleHeaders target) \<and>
     (if headers_masked (inv_SampleHeaders target)
      then list_all (\<lambda>(k, v). if credential_header k then v = Marker else True) (cfg_Headers config) else True)"

definition vetted :: "('c, 'v) scan_env \<Rightarrow> api_inventory \<Rightarrow> scan_job \<Rightarrow> bool" where
  "vetted E target job \<longleftrightarrow>
     inv_BaseURL target \<noteq> [] \<and> target_policy_of E target = None \<and>
     job_Status job = ScanJobStatusQueued \<and> 1 \<le> job_TimeoutSeconds job \<and> job_TimeoutSeconds job \<le> MaxScanTimeoutSeconds \<and>
     job_TenantID job = inv_TenantID target \<and> job_ProjectID job = inv_ProjectID target \<and> job_InventoryID job = inv_ID target \<and>
     cfg_TargetURL (job_Config job) = inv_BaseURL (applyLatestTrafficSample E target) \<and>
     cfg_ManualAuth (job_Config job) = [] \<and> headers_from_sample (applyLatestTrafficSample E target) (job_Config job) \<and>
     running_limits_ok (job_Config job)"

text \<open>The endpoint belongs to what the caller may scan.\<close>

definition allowed_target :: "('c, 'v) scan_env \<Rightarrow> http_req \<Rightarrow> api_inventory \<Rightarrow> bool" where
  "allowed_target E q target \<longleftrightarrow>
     (\<exists>p is. requireRoles q scanRoles = Inr p \<and> sx_inventory E = Inr is \<and> target \<in> set is \<and>
        (case scopedAccountID (sx_FromHex E) p of
           NotScoped \<Rightarrow> True | ScopedTo a \<Rightarrow> inv_TenantID target = pr_AccountID p | BadAccount e \<Rightarrow> False))"

text \<open>The job collection after some jobs were created, in this order.\<close>

inductive stores :: "('c, 'v) scan_env \<Rightarrow> 'c \<Rightarrow> scan_job list \<Rightarrow> 'c \<Rightarrow> bool" for E where
  stores_none: "stores E c [] c"
| stores_next: "stores E c1 js c2 \<Longrightarrow> c1 = fst (CreateScanJob (sx_jobs E) now fresh c job) \<Longrightarrow> stores E c (job # js) c2"

definition queued_for :: "('c, 'v) scan_env \<Rightarrow> http_req \<Rightarrow> 'c \<Rightarrow> 'c \<Rightarrow> bool" where
  "queued_for E q c c' \<longleftrightarrow>
     (\<exists>js. stores E c js c' \<and> (js = [] \<or> (\<exists>target. allowed_target E q target \<and> list_all (vetted E target) js)))"

lemma queued_for_refl [simp]: "queued_for E q c c"
  unfolding queued_for_def by (blast intro: stores_none)

lemma queued_for_one:
  "allowed_target E q target \<Longrightarrow> vetted E target job \<Longrightarrow> queued_for E q c (fst (CreateScanJob (sx_jobs E) now fresh c job))"
  unfolding queued_for_def by (rule exI [of _ "[job]"]) (auto intro: stores.intros)

subsection \<open>The steps\<close>

lemma sw_jobs_audit [simp]:
  "sw_jobs (auditScanCreate q jobID req status message w) = sw_jobs w"
  by (simp add: auditScanCreate_def Let_def split: prod.split option.split)

lemma sw_jobs_publish [simp]: "sw_jobs (fst (publishScanJobQueued E k job w)) = sw_jobs w"
  by (simp add: publishScanJobQueued_def Let_def split: option.split sum.split)

lemma sw_jobs_delete [simp]: "sw_jobs (deleteScanSecret E ref w) = sw_jobs w"
  by (simp add: deleteScanSecret_def split: sum.split)

lemma externalize_result:
  assumes "externalizeScanAuthSecret E k jobID config w = (w', r)"
  shows "sw_jobs w' = sw_jobs w \<and>
    (case r of Inl e \<Rightarrow> True
     | Inr c \<Rightarrow> cfg_ManualAuth c = [] \<and> cfg_TargetURL c = cfg_TargetURL config \<and> cfg_Headers c = cfg_Headers config \<and> (running_limits_ok c \<longleftrightarrow> running_limits_ok config))"
  using assms
  by (auto simp: externalizeScanAuthSecret_def running_limits_ok_def split: if_splits sum.splits prod.splits option.splits)

lemma store_job_result:
  assumes "store_job E k job w = (w', r)"
  shows "\<exists>now fresh. sw_jobs w' = fst (CreateScanJob (sx_jobs E) now fresh (sw_jobs w) job)"
proof -
  obtain c' job' e where c: "CreateScanJob (sx_jobs E) (sx_now E (5 * k + 2)) (sx_new_id E (2 * k + 1)) (sw_jobs w) job = (c', job', e)"
    by (metis prod_cases3)
  with assms have "sw_jobs w' = c'" by (cases e) (auto simp: store_job_def Let_def split: if_splits)
  with c show ?thesis by (metis fst_conv)
qed

lemma planned_target:
  "BuildScanConfigWithAuthContexts J base inventory contexts legacy meth testType = Planned config \<Longrightarrow>
     cfg_TargetURL config = base \<and> cfg_Headers config = flattenHeaders (inv_SampleHeaders inventory)"
proof -
  assume a: "BuildScanConfigWithAuthContexts J base inventory contexts legacy meth testType = Planned config"
  show ?thesis
    using a unfolding BuildScanConfigWithAuthContexts_def Let_def
    by (cases "resolveAuthTokenFromContexts J testType inventory contexts legacy";
        cases "if testType = ''BOLA_PARAMETER_POLLUTION'' then buildPollutedBody J (inv_SampleReqBody inventory) else Planned []")
      (auto split: prod.splits)
qed

lemma limited_ok: "running_limits_ok (limited E config) \<and> cfg_TargetURL (limited E config) = cfg_TargetURL config \<and>
    cfg_Headers (limited E config) = cfg_Headers config"
  using Normalize_ok [of "LoadConfigFromEnv (sx_Getenv E)"]
  by (simp add: limited_def running_limits_ok_def ApplyExecutionLimits_def limits_ok_def Let_def)

lemma flattened_masked:
  "headers_masked hs \<Longrightarrow> list_all (\<lambda>(k, v). if credential_header k then v = Marker else True) (flattenHeaders hs)"
  unfolding headers_masked_def flattenHeaders_def list_all_iff
  by (fastforce split: if_splits dest: hd_in_set)

lemma timeout_range: "normalizeScanTimeout t = Some s \<Longrightarrow> 1 \<le> s \<and> s \<le> MaxScanTimeoutSeconds"
  by (auto simp: normalizeScanTimeout_def DefaultScanTimeoutSeconds_def MaxScanTimeoutSeconds_def split: if_splits)

lemma sample_keeps_identity [simp]:
  "inv_TenantID (applyLatestTrafficSample E t) = inv_TenantID t" "inv_ProjectID (applyLatestTrafficSample E t) = inv_ProjectID t"
  "inv_ID (applyLatestTrafficSample E t) = inv_ID t"
  by (simp_all add: applyLatestTrafficSample_def ApplyTrafficSampleToInventory_def Let_def split: sum.split option.split)

text \<open>From an accepted target, a plan and an externalised credential, the job is vetted.\<close>

lemma queued_job_vetted:
  assumes "inv_BaseURL target \<noteq> []" "target_policy_of E target = None" "normalizeScanTimeout t = Some timeout"
    and "BuildScanConfigWithAuthContexts J (inv_BaseURL (applyLatestTrafficSample E target)) (applyLatestTrafficSample E target) contexts legacy meth testType = Planned config0"
    and "externalizeScanAuthSecret E k jobID (limited E config0) w = (w1, Inr config)"
  shows "vetted E target (queued_job i (applyLatestTrafficSample E target) suiteID rerunOf testType2 meth2 config timeout)"
  using assms(1,2) timeout_range [OF assms(3)] planned_target [OF assms(4)] externalize_result [OF assms(5)] limited_ok [of E config0]
    flattened_masked [of "inv_SampleHeaders (applyLatestTrafficSample E target)"]
  by (simp add: vetted_def queued_job_def headers_from_sample_def)

lemma found_target_allowed:
  assumes "requireRoles q scanRoles = Inr p" "scopedAccountID (sx_FromHex E) p = scope" "\<And>e. scope \<noteq> BadAccount e"
    and "find_inventory E (inventory_filter i scope p) = Some target"
  shows "allowed_target E q target"
proof -
  from assms(4) obtain xs where xs: "sx_inventory E = Inr xs" "target \<in> set xs" "inventory_filter i scope p target"
    by (auto simp: find_inventory_def find_Some_iff split: sum.splits)
  with assms(1-3) show ?thesis
    by (cases scope) (auto simp: allowed_target_def inventory_filter_def)
qed

lemma trim_nonempty: "trim_space s \<noteq> [] \<Longrightarrow> s \<noteq> []"
  by auto

lemma rerun_target_allowed:
  assumes "requireRoles q scanRoles = Inr p" "visible_job E p i w = Inr original" "find_inventory E (rerun_filter original) = Some target"
  shows "allowed_target E q target"
proof -
  from assms(3) obtain xs where xs: "sx_inventory E = Inr xs" "target \<in> set xs" "rerun_filter original target"
    by (auto simp: find_inventory_def find_Some_iff split: sum.splits)
  show ?thesis
  proof (cases "scopedAccountID (sx_FromHex E) p")
    case NotScoped
    with assms(1) xs show ?thesis by (auto simp: allowed_target_def)
  next
    case (ScopedTo a)
    then have "pr_AccountID p \<noteq> []" by (auto simp: scopedAccountID_def split: if_splits)
    moreover from assms(2) ScopedTo have "job_TenantID original = pr_AccountID p"
      by (auto simp: visible_job_def split: sum.splits if_splits)
    ultimately have "inv_TenantID target = pr_AccountID p" using xs(3) by (simp add: rerun_filter_def)
    with assms(1) xs ScopedTo show ?thesis by (auto simp: allowed_target_def)
  next
    case (BadAccount e)
    with assms(2) show ?thesis by (auto simp: visible_job_def split: sum.splits)
  qed
qed

lemma stored_job_queued:
  assumes "allowed_target E q target" "inv_BaseURL target \<noteq> []" "target_policy_of E target = None" "normalizeScanTimeout t = Some timeout"
    and "BuildScanConfigWithAuthContexts J (inv_BaseURL (applyLatestTrafficSample E target)) (applyLatestTrafficSample E target) contexts legacy meth testType = Planned config0"
    and "externalizeScanAuthSecret E k jobID (limited E config0) w = (w1, Inr config)"
    and "store_job E k (queued_job i (applyLatestTrafficSample E target) suiteID rerunOf testType2 meth2 config timeout) w1 = (w2, r)"
  shows "queued_for E q (sw_jobs w) (sw_jobs w2)"
proof -
  from store_job_result [OF assms(7)] externalize_result [OF assms(6)] obtain now fresh where
    "sw_jobs w2 = fst (CreateScanJob (sx_jobs E) now fresh (sw_jobs w)
       (queued_job i (applyLatestTrafficSample E target) suiteID rerunOf testType2 meth2 config timeout))" by auto
  with queued_for_one [OF assms(1) queued_job_vetted [OF assms(2-6)]] show ?thesis by simp
qed

lemma api_scan_target_result:
  assumes "requireRoles q scanRoles = Inr p" "api_scan_target E p i t = Inr (target, timeout)"
  shows "allowed_target E q target \<and> inv_BaseURL target \<noteq> [] \<and> target_policy_of E target = None \<and> normalizeScanTimeout t = Some timeout"
proof -
  define scope where "scope = scopedAccountID (sx_FromHex E) p"
  from assms(2) obtain objID where f: "\<not> is_BadAccount scope" "find_inventory E (inventory_filter objID scope p) = Some target"
    and r: "inv_BaseURL target \<noteq> []" "target_policy_of E target = None" "normalizeScanTimeout t = Some timeout"
    by (auto simp: api_scan_target_def scope_def Let_def split: sum.splits if_splits option.splits)
  have "scope \<noteq> BadAccount e" for e using f(1) by auto
  from found_target_allowed [OF assms(1) scope_def [symmetric] this f(2)] r show ?thesis by blast
qed

lemma trigger_queued: "queued_for E q (sw_jobs w) (sw_jobs (fst (handleTriggerScan E q body w)))"
proof (cases "requireRoles q scanRoles")
  case (Inr p)
  note role = this
  show ?thesis
  proof (cases body)
    case (Decoded req)
    note b = this
    show ?thesis
    proof (cases "api_scan_target E p (rq_InventoryID req) (rq_TimeoutSeconds req)")
      case (Inl e)
      with role b show ?thesis by (auto simp: handleTriggerScan_def Let_def split: prod.split)
    next
      case (Inr tt)
      obtain target0 timeout where tt: "tt = (target0, timeout)" by fastforce
      note tgt = Inr [unfolded tt]
      define target where "target = applyLatestTrafficSample E target0"
      show ?thesis
      proof (cases "BuildScanConfigWithAuthContexts (sx_json E) (inv_BaseURL target) target (rq_AuthContexts req)
          (rq_AttackerToken req) (rq_AttackMethod req) (rq_TestType req)")
        case (Planned config0)
        obtain w1 r1 where ex: "externalizeScanAuthSecret E 0 (sx_new_id E 1) (limited E config0) w = (w1, r1)" by fastforce
        show ?thesis
        proof (cases r1)
          case (Inl err)
          with role b tgt Planned ex externalize_result [OF ex] show ?thesis by (simp add: handleTriggerScan_def Let_def target_def)
        next
          case (Inr config)
          obtain w2 r2 where st: "store_job E 0 (queued_job (sx_new_id E 1) target 0 0 (rq_TestType req) (rq_AttackMethod req) config timeout) w1 = (w2, r2)"
            by fastforce
          have "queued_for E q (sw_jobs w) (sw_jobs w2)"
            using api_scan_target_result [OF role tgt]
              stored_job_queued [OF _ _ _ _ Planned [unfolded target_def] ex [unfolded Inr] st [unfolded target_def]] by blast
          moreover have "sw_jobs (fst (handleTriggerScan E q body w)) = sw_jobs w2"
            using role b tgt Planned ex Inr st by (cases r2) (simp_all add: handleTriggerScan_def Let_def target_def)
          ultimately show ?thesis by simp
        qed
      qed (use role b tgt in \<open>simp_all add: handleTriggerScan_def Let_def target_def\<close>)
    qed
  qed (use role in \<open>simp_all add: handleTriggerScan_def\<close>)
qed (auto simp: handleTriggerScan_def)

lemma rerun_queued: "queued_for E q (sw_jobs w) (sw_jobs (fst (handleRerunScanJob E q idStr body w)))"
proof (cases "\<exists>p originalID original req target0. requireRoles q scanRoles = Inr p \<and> sx_FromHex E idStr = Inr originalID \<and>
    visible_job E p originalID w = Inr original \<and> rerun_body body = Inr req \<and> find_inventory E (rerun_filter original) = Some target0 \<and>
    inv_BaseURL target0 \<noteq> [] \<and> target_policy_of E target0 = None")
  case False
  then show ?thesis
    unfolding handleRerunScanJob_def by (auto split: sum.split option.split prod.split)
next
  case True
  then obtain p originalID original req target0 where pre: "requireRoles q scanRoles = Inr p" "sx_FromHex E idStr = Inr originalID"
    "visible_job E p originalID w = Inr original" "rerun_body body = Inr req" "find_inventory E (rerun_filter original) = Some target0"
    and ok: "inv_BaseURL target0 \<noteq> []" "target_policy_of E target0 = None" by blast
  define target where "target = applyLatestTrafficSample E target0"
  define meth where "meth = (if trim_space (rr_AttackMethod req) = [] then job_AttackMethod original else trim_space (rr_AttackMethod req))"
  define t0 where "t0 = (if rr_TimeoutSeconds req = 0 then job_TimeoutSeconds original else rr_TimeoutSeconds req)"
  note facts = pre ok
  show ?thesis
  proof (cases "normalizeScanTimeout t0")
    case None
    with facts show ?thesis by (simp add: handleRerunScanJob_def Let_def t0_def)
  next
    case (Some timeout)
    show ?thesis
    proof (cases "BuildScanConfigWithAuthContexts (sx_json E) (inv_BaseURL target) target (rr_AuthContexts req)
        (rr_AttackerToken req) meth (job_TestType original)")
      case (Planned config0)
      obtain w1 r1 where ex: "externalizeScanAuthSecret E 0 (sx_new_id E 1) (limited E config0) w = (w1, r1)" by fastforce
      show ?thesis
      proof (cases r1)
        case (Inl err)
        with facts Some Planned ex externalize_result [OF ex] show ?thesis
          by (simp add: handleRerunScanJob_def Let_def t0_def [symmetric] meth_def [symmetric] target_def [symmetric])
      next
        case (Inr config)
        obtain w2 r2 where st: "store_job E 0 (queued_job (sx_new_id E 1) target 0 (job_ID original) (job_TestType original) meth config timeout) w1 = (w2, r2)"
          by fastforce
        have "queued_for E q (sw_jobs w) (sw_jobs w2)"
          using stored_job_queued [OF rerun_target_allowed [OF pre(1,3,5)] ok Some Planned [unfolded target_def] ex [unfolded Inr] st [unfolded target_def]] .
        moreover have "sw_jobs (fst (handleRerunScanJob E q idStr body w)) = sw_jobs w2"
          using facts Some Planned ex Inr st
          by (cases r2) (simp_all add: handleRerunScanJob_def Let_def t0_def [symmetric] meth_def [symmetric] target_def [symmetric])
        ultimately show ?thesis by simp
      qed
    qed (use facts Some in \<open>simp_all add: handleRerunScanJob_def Let_def t0_def [symmetric] meth_def [symmetric] target_def [symmetric]\<close>)
  qed
qed

lemma stores_append: "stores E c1 js c2 \<Longrightarrow> stores E c2 ks c3 \<Longrightarrow> stores E c1 (js @ ks) c3"
  by (induction rule: stores.induct) (auto intro: stores.intros)

lemma suite_job_stores:
  assumes "inv_BaseURL target0 \<noteq> []" "target_policy_of E target0 = None" "normalizeScanTimeout t = Some timeout"
    and "enqueueSuiteJob E k (applyLatestTrafficSample E target0) suiteID req testType timeout w = (w', r)"
  shows "\<exists>js. list_all (vetted E target0) js \<and> stores E (sw_jobs w) js (sw_jobs w')"
proof -
  let ?target = "applyLatestTrafficSample E target0"
  have none: ?thesis if "sw_jobs w' = sw_jobs w"
    using that by (intro exI [of _ "[]"]) (simp add: stores_none)
  show ?thesis
  proof (cases "BuildScanConfigWithAuthContexts (sx_json E) (inv_BaseURL ?target) ?target (sq_AuthContexts req) (sq_AttackerToken req)
      (sq_AttackMethod req) testType")
    case (Planned config0)
    obtain w1 r1 where ex: "externalizeScanAuthSecret E k (sx_new_id E (2 * k + 1)) (limited E config0) w = (w1, r1)" by fastforce
    show ?thesis
    proof (cases r1)
      case (Inl err)
      with assms(4) Planned ex externalize_result [OF ex] show ?thesis by (intro none) (simp add: enqueueSuiteJob_def)
    next
      case (Inr config)
      let ?job = "queued_job (sx_new_id E (2 * k + 1)) ?target suiteID 0 testType (sq_AttackMethod req) config timeout"
      obtain w2 r2 where st: "store_job E k ?job w1 = (w2, r2)" by fastforce
      from store_job_result [OF this] externalize_result [OF ex] obtain now fresh where
        "sw_jobs w2 = fst (CreateScanJob (sx_jobs E) now fresh (sw_jobs w) ?job)" by auto
      then have "stores E (sw_jobs w) [?job] (sw_jobs w2)" by (auto intro: stores.intros)
      moreover have "vetted E target0 ?job" by (rule queued_job_vetted [OF assms(1-3) Planned ex [unfolded Inr]])
      moreover have "sw_jobs w' = sw_jobs w2"
        using assms(4) Planned ex Inr st by (cases r2) (auto simp: enqueueSuiteJob_def)
      ultimately show ?thesis by (intro exI [of _ "[?job]"]) simp
    qed
  qed (use assms(4) none in \<open>simp_all add: enqueueSuiteJob_def\<close>)
qed

lemma suite_stores:
  assumes "inv_BaseURL target0 \<noteq> []" "target_policy_of E target0 = None" "normalizeScanTimeout t = Some timeout"
    and "enqueue_suite E k (applyLatestTrafficSample E target0) suiteID req ts timeout w = (w', r)"
  shows "\<exists>js. list_all (vetted E target0) js \<and> stores E (sw_jobs w) js (sw_jobs w')"
  using assms(4)
proof (induction ts arbitrary: k w w' r)
  case Nil
  then show ?case by (intro exI [of _ "[]"]) (simp add: stores_none)
next
  case (Cons x ts)
  obtain w1 j where j: "enqueueSuiteJob E k (applyLatestTrafficSample E target0) suiteID req x timeout w = (w1, j)" by fastforce
  from suite_job_stores [OF assms(1-3) j] obtain js where js: "list_all (vetted E target0) js" "stores E (sw_jobs w) js (sw_jobs w1)" by blast
  show ?case
  proof (cases "j = SuiteJobPanics")
    case True
    with Cons.prems j js show ?thesis by auto
  next
    case False
    obtain w2 r2 where rest: "enqueue_suite E (Suc k) (applyLatestTrafficSample E target0) suiteID req ts timeout w1 = (w2, r2)" by fastforce
    from Cons.IH [OF this] obtain ks where ks: "list_all (vetted E target0) ks" "stores E (sw_jobs w1) ks (sw_jobs w2)" by blast
    have "w' = w2" using Cons.prems j rest False by (cases j; cases r2) auto
    with js ks stores_append [OF js(2) ks(2)] show ?thesis by (intro exI [of _ "js @ ks"]) simp
  qed
qed

lemma suite_queued: "queued_for E q (sw_jobs w) (sw_jobs (fst (handleTriggerSuite E q body w)))"
proof (cases "requireRoles q scanRoles")
  case (Inr p)
  note role = this
  show ?thesis
  proof (cases body)
    case (Decoded req)
    note b = this
    show ?thesis
    proof (cases "api_scan_target E p (sq_InventoryID req) (sq_TimeoutSeconds req)")
      case (Inl e)
      with role b show ?thesis by (auto simp: handleTriggerSuite_def Let_def split: prod.split)
    next
      case (Inr tt)
      obtain target0 timeout where "tt = (target0, timeout)" by fastforce
      with Inr have tgt: "api_scan_target E p (sq_InventoryID req) (sq_TimeoutSeconds req) = Inr (target0, timeout)" by simp
      define target where "target = applyLatestTrafficSample E target0"
      define sel where "sel = selectSuiteTestTypes (Some (DefaultTemplateRegistry (sx_entries E))) req
        (ApplicableTestTypes (Some (DefaultTemplateRegistry (sx_entries E))) (Some target) (sq_AuthContexts req) (sq_AttackerToken req))"
      show ?thesis
      proof (cases "sel = None \<or> fst (the sel) = []")
        case True
        with role b tgt show ?thesis
          by (auto simp: handleTriggerSuite_def Let_def sel_def target_def split: prod.split option.split)
      next
        case False
        then obtain chosen skipped where s: "sel = Some (chosen, skipped)" "chosen \<noteq> []" by auto
        obtain w1 r where e: "enqueue_suite E 0 target (sx_new_id E 0) req chosen timeout w = (w1, r)" by fastforce
        have "sw_jobs (fst (handleTriggerSuite E q body w)) = sw_jobs w1"
          using role b tgt s e by (cases r) (auto simp: handleTriggerSuite_def Let_def sel_def [symmetric] target_def [symmetric])
        moreover have "queued_for E q (sw_jobs w) (sw_jobs w1)"
          using suite_stores [OF _ _ _ e [unfolded target_def]] api_scan_target_result [OF role tgt] unfolding queued_for_def by blast
        ultimately show ?thesis by simp
      qed
    qed
  qed (use role in \<open>simp_all add: handleTriggerSuite_def\<close>)
qed (auto simp: handleTriggerSuite_def)

subsection \<open>Selections and counts\<close>

lemma intersect_from_sets:
  "case intersect_from applicable seen ts of (sel, skp) \<Rightarrow>
     distinct (sel @ skp) \<and> set sel \<subseteq> set applicable \<and> set skp \<inter> set applicable = {} \<and>
     set sel \<union> set skp = trim_space ` set ts - {[]} - set seen"
proof (induction ts arbitrary: seen)
  case (Cons t0 ts)
  obtain sel skp where r: "intersect_from applicable (trim_space t0 # seen) ts = (sel, skp)" by fastforce
  from Cons.IH [of "trim_space t0 # seen"] have ih: "distinct (sel @ skp)" "set sel \<subseteq> set applicable" "set skp \<inter> set applicable = {}"
    "set sel \<union> set skp = trim_space ` set ts - {[]} - set (trim_space t0 # seen)" by (simp_all add: r)
  show ?case
  proof (cases "trim_space t0 = [] \<or> trim_space t0 \<in> set seen")
    case True
    with Cons.IH [of seen] show ?thesis by (auto split: prod.splits)
  next
    case False
    have "trim_space t0 \<notin> set sel \<union> set skp" unfolding ih(4) by simp
    with False ih show ?thesis by (cases "trim_space t0 \<in> set applicable") (auto simp: r Let_def)
  qed
qed simp

lemma count_status_sum:
  "distinct (map fst counts) \<Longrightarrow>
   distinct (map fst (count_status counts js)) \<and>
   sum_list (map snd (count_status counts js)) = sum_list (map snd counts) + int (length js)"
proof (induction counts js rule: count_status.induct)
  case (2 counts j js)
  let ?n = "(case map_of counts (job_Status j) of None \<Rightarrow> 0 | Some n \<Rightarrow> n) :: int"
  have upd: "sum_list (map snd (AList.update k (v + 1) xs)) = sum_list (map snd xs) + 1"
    if "distinct (map fst xs)" "v = (case map_of xs k of None \<Rightarrow> 0 | Some n \<Rightarrow> n)" for k v and xs :: "(string \<times> int) list"
    using that
  proof (induction xs)
    case (Cons x xs)
    then show ?case by (cases x) auto
  qed simp
  from 2 have "distinct (map fst (AList.update (job_Status j) (?n + 1) counts))" by (simp add: distinct_update)
  with 2 upd [OF 2(2), of ?n "job_Status j"] show ?case by simp
qed simp

subsection \<open>What a caller sees\<close>

definition may_see :: "('c, 'v) scan_env \<Rightarrow> principal \<Rightarrow> string \<Rightarrow> bool" where
  "may_see E p tenant \<longleftrightarrow>
     (case scopedAccountID (sx_FromHex E) p of
        NotScoped \<Rightarrow> True | ScopedTo a \<Rightarrow> trim_space tenant = trim_space (pr_AccountID p) | BadAccount e \<Rightarrow> False)"

lemma visible_job_may_see:
  "visible_job E p i w = Inr job \<Longrightarrow> GetScanJob (sx_jobs E) (sw_jobs w) i = Inr job \<and> may_see E p (job_TenantID job)"
  by (auto simp: visible_job_def may_see_def split: sum.splits account_scope.splits if_splits)

lemma scoped_account_nonempty: "scopedAccountID f p \<noteq> NotScoped \<Longrightarrow> trim_space (pr_AccountID p) \<noteq> []"
  by (auto simp: scopedAccountID_def)

subsection \<open>Properties\<close>


lemma shown_job:
  "handleGetScanJob E q i w = JobReply code r \<Longrightarrow>
     \<exists>p k job. requireRoles q readRoles = Inr p \<and> sx_FromHex E i = Inr k \<and>
       GetScanJob (sx_jobs E) (sw_jobs w) k = Inr job \<and> r = scanJobResponse E job \<and> may_see E p (job_TenantID job)"
  using visible_job_may_see by (fastforce simp: handleGetScanJob_def split: sum.splits prod.splits)

lemma scoped_filter:
  "scopedAccountID f p = NotScoped \<or> (trim_space (pr_AccountID p) \<noteq> []) \<Longrightarrow>
   (trim_space (if scopedAccountID f p = NotScoped then [] else pr_AccountID p) \<noteq> [] \<longrightarrow>
      t = g (if scopedAccountID f p = NotScoped then [] else pr_AccountID p)) \<longleftrightarrow>
   (scopedAccountID f p = NotScoped \<or> t = g (pr_AccountID p))"
  by auto

lemma shown_events:
  assumes "handleGetScanProgressEvents E q i w = EventsReply es"
  shows "\<exists>p k job docs. requireRoles q readRoles = Inr p \<and> sx_FromHex E i = Inr k \<and>
    GetScanJob (sx_jobs E) (sw_jobs w) k = Inr job \<and> may_see E p (job_TenantID job) \<and> sx_events E = Inr docs \<and>
    mset es = mset (filter (\<lambda>e. spe_JobID e = k \<and>
      (scopedAccountID (sx_FromHex E) p = NotScoped \<or> spe_TenantID e = pr_AccountID p)) docs) \<and>
    list_all (\<lambda>e. may_see E p (spe_TenantID e)) es"
proof -
  from assms obtain p k job docs where p: "requireRoles q readRoles = Inr p" "sx_FromHex E i = Inr k" "sx_events E = Inr docs"
    and v: "visible_job E p k w = Inr job"
    and es0: "es = sort_key (\<lambda>e. time_key (spe_CreatedAt e)) (filter (\<lambda>e. spe_JobID e = k \<and>
      (trim_space (if scopedAccountID (sx_FromHex E) p = NotScoped then [] else pr_AccountID p) \<noteq> [] \<longrightarrow>
       spe_TenantID e = (if scopedAccountID (sx_FromHex E) p = NotScoped then [] else pr_AccountID p))) docs)"
    unfolding handleGetScanProgressEvents_def Let_def by (auto split: sum.splits prod.splits)
  note seen = visible_job_may_see [OF v]
  have "scopedAccountID (sx_FromHex E) p = NotScoped \<or> trim_space (pr_AccountID p) \<noteq> []"
    using scoped_account_nonempty by blast
  note es = es0 [unfolded scoped_filter [OF this, where g = "\<lambda>x. x"]]
  have "may_see E p (spe_TenantID e)"
    if "scopedAccountID (sx_FromHex E) p = NotScoped \<or> spe_TenantID e = pr_AccountID p" for e
    using that conjunct2 [OF seen] by (auto simp: may_see_def split: account_scope.splits)
  then have "list_all (\<lambda>e. may_see E p (spe_TenantID e)) es" unfolding es list_all_iff by auto
  with p seen es show ?thesis by simp
qed

lemma shown_suite:
  assumes "handleGetSuite E q i = SuiteStatusReply st"
  shows "\<exists>p s docs js. requireRoles q readRoles = Inr p \<and> sx_FromHex E i = Inr s \<and> sx_suite_jobs E = Inr docs \<and>
    sss_SuiteID st = sx_Hex E s \<and> sss_Jobs st = map (scanJobResponse E) js \<and> js \<noteq> [] \<and>
    mset js = mset (filter (\<lambda>d. job_SuiteID d = s \<and>
      (scopedAccountID (sx_FromHex E) p = NotScoped \<or> job_TenantID d = trim_space (pr_AccountID p))) docs) \<and>
    list_all (\<lambda>j. may_see E p (job_TenantID j)) js \<and>
    (sss_Completed st \<longleftrightarrow> list_all (\<lambda>j. isTerminalScanStatus (job_Status j)) js) \<and>
    sum_list (map snd (sss_StatusCounts st)) = sss_JobCount st \<and> sss_JobCount st = int (length js)"
proof -
  from assms obtain p s j js where p: "requireRoles q readRoles = Inr p" "sx_FromHex E i = Inr s"
      "\<not> is_BadAccount (scopedAccountID (sx_FromHex E) p)"
    and g: "GetScanJobsBySuite (sx_suite_jobs E) s (if scopedAccountID (sx_FromHex E) p = NotScoped then [] else pr_AccountID p) = Inr (j # js)"
    and st: "sss_SuiteID st = sx_Hex E s" "sss_Jobs st = map (scanJobResponse E) (j # js)"
      "sss_Completed st = list_all (\<lambda>x. isTerminalScanStatus (job_Status x)) (j # js)"
      "sss_StatusCounts st = count_status [] (j # js)" "sss_JobCount st = int (length (j # js))"
    by (auto simp: handleGetSuite_def split: sum.splits prod.splits if_splits list.splits)
  from g obtain docs where docs: "sx_suite_jobs E = Inr docs" and so: "j # js = sort_key (\<lambda>y. time_key (job_CreatedAt y))
      (filter (\<lambda>y. job_SuiteID y = s \<and>
        (trim_space (if scopedAccountID (sx_FromHex E) p = NotScoped then [] else pr_AccountID p) \<noteq> [] \<longrightarrow>
         job_TenantID y = trim_space (if scopedAccountID (sx_FromHex E) p = NotScoped then [] else pr_AccountID p))) docs)"
    unfolding GetScanJobsBySuite_def by (auto simp del: sort_key_simps split: sum.splits)
  have ne: "scopedAccountID (sx_FromHex E) p = NotScoped \<or> trim_space (pr_AccountID p) \<noteq> []"
    using scoped_account_nonempty by blast
  note js = so [unfolded scoped_filter [OF ne, where g = trim_space]]
  have m: "mset (j # js) = mset (filter (\<lambda>d. job_SuiteID d = s \<and>
      (scopedAccountID (sx_FromHex E) p = NotScoped \<or> job_TenantID d = trim_space (pr_AccountID p))) docs)"
    unfolding js by (rule mset_sort)
  have "may_see E p (job_TenantID x)"
    if "scopedAccountID (sx_FromHex E) p = NotScoped \<or> job_TenantID x = trim_space (pr_AccountID p)" for x
    using that p(3) by (auto simp: may_see_def split: account_scope.splits)
  then have see: "list_all (\<lambda>x. may_see E p (job_TenantID x)) (j # js)" unfolding js list_all_iff by auto
  have counts: "sum_list (map snd (sss_StatusCounts st)) = sss_JobCount st"
    unfolding st using conjunct2 [OF count_status_sum [of "[]" "j # js"]] by (simp del: count_status.simps)
  show ?thesis
    by (intro exI [of _ p] exI [of _ s] exI [of _ docs] exI [of _ "j # js"] conjI p docs st m see counts) simp_all
qed

text \<open>
  Property C9. A caller scoped to an account sees only that account's scans. A job is shown only as
  the stored job of the identifier in the request, to a principal with a reading role that is not scoped or is
  scoped to the tenant of that stored job (up to surrounding spaces). Events are shown only when the
  stored job they are asked for may be shown, and they are exactly the stored events of that job that carry
  the caller's account (all of them for an unscoped caller). A suite shows exactly the stored jobs of
  that suite in the caller's tenant, at least one, and it is reported as completed exactly when all of
  them are in a terminal state, with counts that add up to their number.
\<close>

theorem scoped_callers_see_their_account:
  "(case handleGetScanJob E q i w of
      JobReply code r \<Rightarrow>
        (\<exists>p k job. requireRoles q readRoles = Inr p \<and> sx_FromHex E i = Inr k \<and>
           GetScanJob (sx_jobs E) (sw_jobs w) k = Inr job \<and> r = scanJobResponse E job \<and> may_see E p (job_TenantID job))
    | _ \<Rightarrow> True) \<and>
   (case handleGetScanProgressEvents E q i w of
      EventsReply es \<Rightarrow>
        (\<exists>p k job docs. requireRoles q readRoles = Inr p \<and> sx_FromHex E i = Inr k \<and>
           GetScanJob (sx_jobs E) (sw_jobs w) k = Inr job \<and> may_see E p (job_TenantID job) \<and> sx_events E = Inr docs \<and>
           mset es = mset (filter (\<lambda>e. spe_JobID e = k \<and>
             (scopedAccountID (sx_FromHex E) p = NotScoped \<or> spe_TenantID e = pr_AccountID p)) docs) \<and>
           list_all (\<lambda>e. may_see E p (spe_TenantID e)) es)
    | _ \<Rightarrow> True) \<and>
   (case handleGetSuite E q i of
      SuiteStatusReply st \<Rightarrow>
        (\<exists>p s docs js. requireRoles q readRoles = Inr p \<and> sx_FromHex E i = Inr s \<and> sx_suite_jobs E = Inr docs \<and>
           sss_SuiteID st = sx_Hex E s \<and> sss_Jobs st = map (scanJobResponse E) js \<and> js \<noteq> [] \<and>
           mset js = mset (filter (\<lambda>d. job_SuiteID d = s \<and>
             (scopedAccountID (sx_FromHex E) p = NotScoped \<or> job_TenantID d = trim_space (pr_AccountID p))) docs) \<and>
           list_all (\<lambda>j. may_see E p (job_TenantID j)) js \<and>
           (sss_Completed st \<longleftrightarrow> list_all (\<lambda>j. isTerminalScanStatus (job_Status j)) js) \<and>
           sum_list (map snd (sss_StatusCounts st)) = sss_JobCount st \<and> sss_JobCount st = int (length js))
    | _ \<Rightarrow> True)"
  by (intro conjI; cases "handleGetScanJob E q i w"; cases "handleGetScanProgressEvents E q i w"; cases "handleGetSuite E q i")
    (simp_all only: scan_reply.case shown_job shown_events shown_suite)

text \<open>
  A suite runs what was asked for and fits: the selected and the skipped test types of
  an explicit request are together the registered ones of the request without repetitions, none
  twice, every selected one is applicable and no skipped one is.
\<close>

theorem suite_selection_partitions:
  "case selectSuiteTestTypes r req applicable of
     None \<Rightarrow> sq_TestTypes req = [] \<and> LookupSuitePreset (to_upper (trim_space (sq_Suite req))) = None
   | Some (sel, skp) \<Rightarrow>
       (if sq_TestTypes req \<noteq> [] then
          distinct (sel @ skp) \<and> set sel \<subseteq> set applicable \<and> set skp \<inter> set applicable = {} \<and>
          set sel \<union> set skp = trim_space ` set (FilterRegistered r (sq_TestTypes req)) - {[]}
        else set sel \<subseteq> set applicable \<and> set skp \<inter> set applicable = {})"
proof -
  have part: "case intersectTestTypes ts applicable of (sel, skp) \<Rightarrow>
      distinct (sel @ skp) \<and> set sel \<subseteq> set applicable \<and> set skp \<inter> set applicable = {} \<and> set sel \<union> set skp = trim_space ` set ts - {[]}" for ts
  proof -
    obtain sel skp where i: "intersect_from applicable [] ts = (sel, skp)" by fastforce
    note sets = intersect_from_sets [of applicable ts "[]", unfolded i prod.case]
    show ?thesis unfolding intersectTestTypes_def i prod.case using sets by (simp only: list.set Diff_empty simp_thms)
  qed
  show ?thesis
  proof (cases "sq_TestTypes req = []")
    case False
    with part [of "FilterRegistered r (sq_TestTypes req)"] show ?thesis by (auto simp: selectSuiteTestTypes_def split: prod.splits)
  next
    case True
    show ?thesis
    proof (cases "LookupSuitePreset (to_upper (trim_space (sq_Suite req)))")
      case None
      with True show ?thesis by (auto simp: selectSuiteTestTypes_def Let_def)
    next
      case (Some preset)
      with True part [of "FilterRegistered r (sp_TestTypes preset)"] show ?thesis
        by (auto simp: selectSuiteTestTypes_def Let_def split: prod.splits)
    qed
  qed
qed

text \<open>
  Property C10. A scan's credential survives its encryption: when \<open>externalizeScanAuthSecret\<close>
  succeeds for a job with a credential, the configuration holds only a reference, and until the
  secret expires, 24 hours later, reading it under that reference and decrypting it with the key of
  the same environment gives the credential back, unless the database fails.
\<close>

theorem scan_secret_roundtrip:
  assumes "secret_store (sx_secrets E) (sx_secretsB E)" "coll_ok (sx_secrets E) (sw_secrets w)" "aead_opens (sx_aead E)"
    and "\<And>r. sx_random E k = Some r \<Longrightarrow> length r = 12"
    and "externalizeScanAuthSecret E k jobID config w = (w', Inr config')" "cfg_ManualAuth config \<noteq> []"
  shows "cfg_ManualAuth config' = [] \<and>
    (\<exists>i q. cfg_AuthSecretRef config' = sx_Hex E i \<and> secrets_FromEnv (sx_Getenv E) = Inr q \<and>
       (\<forall>now \<le> sx_now E (5 * k) + 24 * hour.
          case GetScanSecret (sx_secrets E) now (sw_secrets w') i of
            Inl (Some e) \<Rightarrow> True
          | Inl None \<Rightarrow> False
          | Inr s \<Rightarrow> sec_JobID s = jobID \<and> Decrypt (sx_aead E) (Some q) (sec_Nonce s) (sec_Ciphertext s) = Decrypted (cfg_ManualAuth config)))"
proof -
  from assms(5,6) obtain q nonce ciphertext where q: "secrets_FromEnv (sx_Getenv E) = Inr q"
    and enc: "Encrypt (sx_aead E) (sx_random E k) (Some q) (cfg_ManualAuth config) = Inr (nonce, ciphertext)"
    by (auto simp: externalizeScanAuthSecret_def split: sum.splits)
  define s0 where "s0 = \<lparr>sec_ID = 0, sec_JobID = jobID, sec_Purpose = ScanSecretPurposeAuth, sec_KeyID = KeyID (Some q),
    sec_Nonce = nonce, sec_Ciphertext = ciphertext, sec_CreatedAt = None, sec_ExpiresAt = Some (sx_now E (5 * k) + 24 * hour)\<rparr>"
  obtain v' s e where sv: "SaveScanSecret (sx_secrets E) (sx_now E (5 * k + 1)) (sx_new_id E (2 * k + 2)) (sw_secrets w) s0 = (v', s, e)"
    by (metis prod_cases3)
  from assms(5,6) q enc sv have e: "e = None" and w': "sw_secrets w' = v'"
    and c: "config' = config\<lparr>cfg_AuthSecretRef := sx_Hex E (sec_ID s), cfg_ManualAuth := []\<rparr>"
    by (auto simp: externalizeScanAuthSecret_def s0_def [symmetric] split: option.splits)
  obtain r where r: "sx_random E k = Some r" using enc by (cases "sx_random E k") (auto simp: Encrypt_def split: if_splits)
  have dec: "Decrypt (sx_aead E) (Some q) nonce ciphertext = Decrypted (cfg_ManualAuth config)"
    by (rule Decrypt_Encrypt [OF assms(3) enc [unfolded r] assms(4) [OF r]])
  have s: "s = prepare_secret (sx_now E (5 * k + 1)) (sx_new_id E (2 * k + 2)) s0"
    using sv by (simp add: SaveScanSecret_def Let_def split: prod.splits)
  then have fields: "sec_ExpiresAt s = Some (sx_now E (5 * k) + 24 * hour)" "sec_Nonce s = nonce" "sec_Ciphertext s = ciphertext"
    "sec_JobID s = jobID"
    by (simp_all add: s0_def is_zero_def) (simp add: prepare_secret_def Let_def)
  have "case GetScanSecret (sx_secrets E) now (sw_secrets w') (sec_ID s) of Inl (Some e) \<Rightarrow> True | Inl None \<Rightarrow> False
      | Inr x \<Rightarrow> sec_JobID x = jobID \<and> Decrypt (sx_aead E) (Some q) (sec_Nonce x) (sec_Ciphertext x) = Decrypted (cfg_ManualAuth config)"
    if "now \<le> sx_now E (5 * k) + 24 * hour" for now
  proof -
    have "now \<le> time_key (sec_ExpiresAt s)" using that by (simp add: fields(1) time_key_def)
    note found = conjunct2 [OF conjunct2 [OF secret_store.saved_secret_is_found [OF assms(1,2) sv [unfolded e] this]]]
    show ?thesis
      using found unfolding w' by (auto simp: fields dec simp del: prepare_secret_fields split: sum.splits option.splits)
  qed
  then show ?thesis using c q by auto
qed

text \<open>An environment in memory, whose cipher is the identity, for the examples.\<close>

definition mem_scan_env :: "(scan_job list, scan_secret list) scan_env" where
  "mem_scan_env =
     \<lparr>sx_jobs = mem_coll job_ID, sx_secrets = mem_coll sec_ID, sx_secretsB = mem_bulk, sx_inventory = Inr [], sx_samples = Inr [],
      sx_events = Inr [], sx_suite_jobs = Inr [],
      sx_Getenv = (\<lambda>k. if k = ''KARAXYS_SECRET_KEY'' then replicate 32 (CHR ''k'') else []), sx_resolver = (\<lambda>h. Inl []),
      sx_json = \<lparr>je_decode = (\<lambda>s. None), je_marshal = (\<lambda>m. None), je_string = id, je_format = (\<lambda>j. [])\<rparr>, sx_entries = [],
      sx_aead = \<lparr>ae_Seal = (\<lambda>k n t. t), ae_Open = (\<lambda>k n c. Some c)\<rparr>, sx_random = (\<lambda>i. Some (replicate 12 (CHR ''n''))),
      sx_now = int, sx_new_id = Suc, sx_Hex = itoa, sx_FromHex = (\<lambda>s. Inl []), sx_format = (\<lambda>t. []), sx_Produce = None,
      sx_event_json = (\<lambda>e. Inl []), sx_envelope_json = (\<lambda>e. Inl [])\<rparr>"

definition mem_scan_world :: "(scan_job list, scan_secret list) scan_world" where
  "mem_scan_world = \<lparr>sw_jobs = [], sw_secrets = [], sw_audit = [], sw_sent = []\<rparr>"

definition secret_config :: scan_config where
  "secret_config = zero_scan_config\<lparr>cfg_ManualAuth := ''Bearer t''\<rparr>"

theorem scan_secret_roundtrip_witness:
  "\<exists>w' config'. externalizeScanAuthSecret mem_scan_env 0 1 secret_config mem_scan_world = (w', Inr config') \<and>
     cfg_ManualAuth config' = [] \<and>
     (case GetScanSecret (mem_coll sec_ID) 0 (sw_secrets w') 3 of
        Inr s \<Rightarrow> Decrypt (sx_aead mem_scan_env) (Some \<lparr>pt_key = replicate 32 (CHR ''k''), pt_keyID = defaultKeyID\<rparr>) (sec_Nonce s) (sec_Ciphertext s)
          = Decrypted ''Bearer t''
      | Inl e \<Rightarrow> False)"
proof -
  have key: "secrets_FromEnv (sx_Getenv mem_scan_env) = Inr \<lparr>pt_key = replicate 32 (CHR ''k''), pt_keyID = defaultKeyID\<rparr>"
    by (simp add: secrets_FromEnv_def NewProtector_def mem_scan_env_def keySizeBytes_def defaultKeyID_def)
  define s where "s = prepare_secret 1 3 \<lparr>sec_ID = 0, sec_JobID = 1, sec_Purpose = ScanSecretPurposeAuth, sec_KeyID = defaultKeyID,
    sec_Nonce = std_Encode (replicate 12 (CHR ''n'')), sec_Ciphertext = std_Encode ''Bearer t'', sec_CreatedAt = None,
    sec_ExpiresAt = Some (24 * hour)\<rparr>"
  have ex: "externalizeScanAuthSecret mem_scan_env 0 1 secret_config mem_scan_world =
      (mem_scan_world\<lparr>sw_secrets := [s]\<rparr>, Inr (secret_config\<lparr>cfg_AuthSecretRef := itoa 3, cfg_ManualAuth := []\<rparr>))"
    by (simp only: externalizeScanAuthSecret_def key sum.case)
      (simp add: mem_scan_env_def secret_config_def mem_scan_world_def Encrypt_def aes_key_size_def SaveScanSecret_def mem_coll_def
        Let_def KeyID_def s_def numeral_3_eq_3 del: itoa.simps)
  have store: "secret_store (sx_secrets mem_scan_env) (sx_secretsB mem_scan_env)"
    by (simp add: mem_scan_env_def mem_secret_store)
  have "coll_ok (sx_secrets mem_scan_env) (sw_secrets mem_scan_world)" "aead_opens (sx_aead mem_scan_env)"
    "\<And>r. sx_random mem_scan_env 0 = Some r \<Longrightarrow> length r = 12" "cfg_ManualAuth secret_config \<noteq> []"
    by (auto simp: mem_scan_env_def mem_scan_world_def mem_coll_def aead_opens_def secret_config_def)
  note rt = scan_secret_roundtrip [OF store this(1,2) this(3) ex this(4)]
  have manual: "cfg_ManualAuth secret_config = ''Bearer t''" by (simp add: secret_config_def)
  from rt [unfolded manual] obtain i q where i: "itoa 3 = itoa i" "q = \<lparr>pt_key = replicate 32 (CHR ''k''), pt_keyID = defaultKeyID\<rparr>"
    and all: "\<forall>now \<le> 24 * hour. case GetScanSecret (mem_coll sec_ID) now [s] i of Inl (Some e) \<Rightarrow> True | Inl None \<Rightarrow> False
      | Inr s \<Rightarrow> sec_JobID s = 1 \<and> Decrypt (sx_aead mem_scan_env) (Some q) (sec_Nonce s) (sec_Ciphertext s) = Decrypted ''Bearer t''"
    by (auto simp: key mem_scan_env_def [THEN arg_cong [where f = sx_secrets]] mem_scan_env_def [THEN arg_cong [where f = sx_Hex]]
        mem_scan_env_def [THEN arg_cong [where f = sx_now]] secret_config_def simp del: itoa.simps)
  have day: "(0::int) \<le> 24 * hour" by (simp add: hour_def second_def)
  have i3: "i = 3" using i(1) by simp
  have g: "GetScanSecret (mem_coll sec_ID) 0 [s] 3 = Inr s"
    by (simp add: GetScanSecret_def mem_coll_def s_def is_zero_def time_key_def hour_def second_def)
  from all [rule_format, OF day] have "Decrypt (sx_aead mem_scan_env) (Some q) (sec_Nonce s) (sec_Ciphertext s) = Decrypted ''Bearer t''"
    unfolding i3 g sum.case by (rule conjunct2)
  with ex g show ?thesis unfolding i(2) by simp
qed

end
