(* ===== verification/Doc_Upsert.thy ===== *)
theory Doc_Upsert
  imports Doc_Bulk
begin

text \<open>
  \<open>FindOneAndUpdate\<close> with \<open>SetUpsert(true)\<close>, and unique indexes. A collection with an index
  holds no two documents with the same indexed value; a write that would break this fails and changes
  nothing. The upsert updates one selected document, or inserts a new one when there is none. The
  locale \<open>unique_store\<close> states what the code relies on; the in-memory collection guards every
  write by the constraint.
\<close>

type_synonym ('c, 'd) upsert = "'c \<Rightarrow> ('d \<Rightarrow> bool) \<Rightarrow> ('d \<Rightarrow> 'd) \<Rightarrow> 'd \<Rightarrow> 'c \<times> (db_error + 'd)"

text \<open>What an upsert can have done to the documents, and the document it leaves.\<close>

definition upserted :: "('k \<Rightarrow> 'd option) \<Rightarrow> ('d \<Rightarrow> 'k) \<Rightarrow> ('d \<Rightarrow> bool) \<Rightarrow> ('d \<Rightarrow> 'd) \<Rightarrow> 'd \<Rightarrow> 'd \<Rightarrow> ('k \<Rightarrow> 'd option) \<Rightarrow> bool" where
  "upserted m key f u new d' m' \<longleftrightarrow>
     (\<exists>k d. updated_at m f u k d m' \<and> d' = u d) \<or>
     (\<forall>k d. m k = Some d \<longrightarrow> \<not> f d) \<and> m (key new) = None \<and> m' = m(key new \<mapsto> new) \<and> d' = new"

locale unique_store = doc_store M for M :: "('c, 'k, 'd) coll" +
  fixes up :: "('c, 'd) upsert" and idx :: "'d \<Rightarrow> 'x"
  assumes unique: "coll_ok M c \<Longrightarrow> coll_docs M c k = Some d \<Longrightarrow> coll_docs M c k2 = Some d2 \<Longrightarrow> idx d = idx d2 \<Longrightarrow> k = k2"
    and upsert_ok: "coll_ok M c \<Longrightarrow> (\<And>d. coll_key M (u d) = coll_key M d) \<Longrightarrow> up c f u new = (c', r) \<Longrightarrow> coll_ok M c'"
    and upsert_done: "coll_ok M c \<Longrightarrow> (\<And>d. coll_key M (u d) = coll_key M d) \<Longrightarrow> up c f u new = (c', Inr d') \<Longrightarrow>
      upserted (coll_docs M c) (coll_key M) f u new d' (coll_docs M c')"
    and upsert_err: "coll_ok M c \<Longrightarrow> (\<And>d. coll_key M (u d) = coll_key M d) \<Longrightarrow> up c f u new = (c', Inl e) \<Longrightarrow>
      coll_docs M c' = coll_docs M c \<or> (\<exists>d'. upserted (coll_docs M c) (coll_key M) f u new d' (coll_docs M c'))"
begin

text \<open>Two documents of the same index value are the same one.\<close>

lemma same_doc: "coll_ok M c \<Longrightarrow> coll_docs M c k = Some d \<Longrightarrow> coll_docs M c k2 = Some d2 \<Longrightarrow> idx d = idx d2 \<Longrightarrow> d = d2"
  using unique [of c k d k2 d2] by auto

text \<open>
  An upsert by the index value leaves exactly one document of this value, the one it returns, and
  every document of another value as it was.
\<close>

lemma upsert_by_index:
  assumes ok: "coll_ok M c" and u: "\<And>d. coll_key M (u d) = coll_key M d" "\<And>d. idx d = x \<Longrightarrow> idx (u d) = x" and new: "idx new = x"
    and up: "up c (\<lambda>d. idx d = x) u new = (c', Inr d')"
  shows "idx d' = x \<and> coll_docs M c' (coll_key M d') = Some d' \<and>
    (\<forall>k d. coll_docs M c' k = Some d \<longrightarrow> idx d = x \<longrightarrow> d = d') \<and>
    (\<forall>k d. idx d \<noteq> x \<longrightarrow> (coll_docs M c' k = Some d \<longleftrightarrow> coll_docs M c k = Some d))"
  using upsert_done [OF ok u(1) up] unfolding upserted_def
proof (elim disjE exE conjE)
  fix k d assume upd: "updated_at (coll_docs M c) (\<lambda>d. idx d = x) u k d (coll_docs M c')" and d': "d' = u d"
  then have k: "coll_docs M c k = Some d" "idx d = x" "coll_docs M c' = (coll_docs M c)(k \<mapsto> u d)" by (auto simp: updated_at_def)
  have key: "coll_key M d' = k" using u(1) key [OF ok k(1)] d' by simp
  have uniq: "k2 = k" if "coll_docs M c k2 = Some d2" "idx d2 = x" for k2 d2
    using unique [OF ok that(1) k(1)] that(2) k(2) by simp
  have x: "idx d' = x" using u(2) [OF k(2)] d' by simp
  have "d2 = d'" if "coll_docs M c' k2 = Some d2" "idx d2 = x" for k2 d2
    using that uniq [of k2 d2] k(3) d' by (cases "k2 = k") simp_all
  moreover have "coll_docs M c' k2 = Some d2 \<longleftrightarrow> coll_docs M c k2 = Some d2" if "idx d2 \<noteq> x" for k2 d2
    using that k x d' by (cases "k2 = k") auto
  ultimately show ?thesis using x key k(3) d' by simp
next
  assume none: "\<forall>k d. coll_docs M c k = Some d \<longrightarrow> idx d \<noteq> x" and k: "coll_docs M c (coll_key M new) = None"
    "coll_docs M c' = (coll_docs M c)(coll_key M new \<mapsto> new)" "d' = new"
  have "d2 = d'" if "coll_docs M c' k2 = Some d2" "idx d2 = x" for k2 d2
    using that none k by (cases "k2 = coll_key M new") auto
  moreover have "coll_docs M c' k2 = Some d2 \<longleftrightarrow> coll_docs M c k2 = Some d2" if "idx d2 \<noteq> x" for k2 d2
    using that k new by (cases "k2 = coll_key M new") auto
  ultimately show ?thesis using k new by simp
qed

text \<open>A property of documents that the update keeps and the new document has is kept, whatever the upsert reports.\<close>

lemma upsert_keeps:
  assumes ok: "coll_ok M c" and u: "\<And>d. coll_key M (u d) = coll_key M d" and up: "up c f u new = (c', r)" and new: "J new"
    and keep: "\<And>d. f d \<Longrightarrow> J d \<Longrightarrow> J (u d)" and all: "\<And>k d. coll_docs M c k = Some d \<Longrightarrow> J d" and d: "coll_docs M c' k = Some d"
  shows "J d"
proof -
  have ups: "J d" if "upserted (coll_docs M c) (coll_key M) f u new d' (coll_docs M c')" for d'
    using that unfolding upserted_def
  proof (elim disjE exE conjE)
    fix k2 e assume "updated_at (coll_docs M c) f u k2 e (coll_docs M c')"
    then have "coll_docs M c k2 = Some e" "f e" "coll_docs M c' = (coll_docs M c)(k2 \<mapsto> u e)" by (auto simp: updated_at_def)
    then show "J d" using d keep [of e] all [of k2 e] all [of k d] by (cases "k = k2") simp_all
  next
    assume "coll_docs M c' = (coll_docs M c)(coll_key M new \<mapsto> new)"
    then show "J d" using d new all [of k d] by (cases "k = coll_key M new") simp_all
  qed
  show ?thesis
  proof (cases r)
    case (Inr d')
    show ?thesis by (rule ups [OF upsert_done [OF ok u up [unfolded Inr]]])
  next
    case (Inl e)
    from upsert_err [OF ok u up [unfolded Inl]] show ?thesis
    proof (elim disjE exE)
      assume "coll_docs M c' = coll_docs M c"
      with d all show ?thesis by simp
    qed (rule ups)
  qed
qed

text \<open>What an upsert does to one stored document: nothing, or the update when it is selected.\<close>

lemma upsert_one:
  assumes ok: "coll_ok M c" and u: "\<And>d. coll_key M (u d) = coll_key M d" and up: "up c f u new = (c', r)" and d: "coll_docs M c k = Some d"
  shows "coll_docs M c' k = Some d \<or> f d \<and> coll_docs M c' k = Some (u d)"
proof -
  have ups: "coll_docs M c' k = Some d \<or> f d \<and> coll_docs M c' k = Some (u d)"
    if "upserted (coll_docs M c) (coll_key M) f u new d' (coll_docs M c')" for d'
    using that unfolding upserted_def
  proof (elim disjE exE conjE)
    fix k2 e assume "updated_at (coll_docs M c) f u k2 e (coll_docs M c')"
    then have "coll_docs M c k2 = Some e" "f e" "coll_docs M c' = (coll_docs M c)(k2 \<mapsto> u e)" by (auto simp: updated_at_def)
    then show ?thesis using d by (cases "k = k2") simp_all
  next
    assume "coll_docs M c (coll_key M new) = None" "coll_docs M c' = (coll_docs M c)(coll_key M new \<mapsto> new)"
    then show ?thesis using d by (cases "k = coll_key M new") simp_all
  qed
  show ?thesis
  proof (cases r)
    case (Inr d')
    show ?thesis by (rule ups [OF upsert_done [OF ok u up [unfolded Inr]]])
  next
    case (Inl e)
    from upsert_err [OF ok u up [unfolded Inl]] show ?thesis
    proof (elim disjE exE)
      assume "coll_docs M c' = coll_docs M c"
      with d show ?thesis by simp
    qed (rule ups)
  qed
qed

end

subsection \<open>An in-memory collection with a constraint\<close>

definition guard_write :: "('d list \<Rightarrow> bool) \<Rightarrow> 'd list \<Rightarrow> 'd list \<times> 'r \<Rightarrow> 'r \<Rightarrow> 'd list \<times> 'r" where
  "guard_write U ds w failed = (if U (fst w) then w else (ds, failed))"

definition mem_unique :: "('d \<Rightarrow> 'k) \<Rightarrow> ('d list \<Rightarrow> bool) \<Rightarrow> ('d list, 'k, 'd) coll" where
  "mem_unique key U = (let M = mem_coll key in
     M\<lparr>coll_ok := (\<lambda>ds. coll_ok M ds \<and> U ds),
       coll_insert := (\<lambda>ds d. guard_write U ds (coll_insert M ds d) (Some ''duplicate key'')),
       coll_update := (\<lambda>ds f u. guard_write U ds (coll_update M ds f u) (Inl ''duplicate key'')),
       coll_find_modify := (\<lambda>ds f srt u. guard_write U ds (coll_find_modify M ds f srt u) (Inl ''duplicate key''))\<rparr>)"

definition mem_upsert :: "('d \<Rightarrow> 'k) \<Rightarrow> ('d list \<Rightarrow> bool) \<Rightarrow> ('d list, 'd) upsert" where
  "mem_upsert key U ds f u new =
     (case coll_find_modify (mem_coll key) ds f (\<lambda>d. 0) u of
        (ds', Inr (Some d)) \<Rightarrow> guard_write U ds (ds', Inr d) (Inl ''duplicate key'')
      | (_, Inr None) \<Rightarrow>
          (case coll_insert (mem_coll key) ds new of
             (ds', None) \<Rightarrow> guard_write U ds (ds', Inr new) (Inl ''duplicate key'')
           | (_, Some e) \<Rightarrow> (ds, Inl e))
      | (_, Inl e) \<Rightarrow> (ds, Inl e))"

lemma guard_writeE:
  assumes "guard_write U ds w failed = (ds', r)"
  obtains "w = (ds', r)" "U ds'" | "ds' = ds" "r = failed" "\<not> U (fst w)"
  using assms by (cases "U (fst w)") (auto simp: guard_write_def)

lemma mem_unique_simps [simp]:
  "coll_ok (mem_unique key U) ds \<longleftrightarrow> coll_ok (mem_coll key) ds \<and> U ds"
  "coll_docs (mem_unique key U) = coll_docs (mem_coll key)" "coll_key (mem_unique key U) = coll_key (mem_coll key)"
  "coll_find (mem_unique key U) = coll_find (mem_coll key)"
  "coll_insert (mem_unique key U) ds d = guard_write U ds (coll_insert (mem_coll key) ds d) (Some ''duplicate key'')"
  "coll_update (mem_unique key U) ds f u = guard_write U ds (coll_update (mem_coll key) ds f u) (Inl ''duplicate key'')"
  "coll_find_modify (mem_unique key U) ds f srt u =
     guard_write U ds (coll_find_modify (mem_coll key) ds f srt u) (Inl ''duplicate key'')"
  by (simp_all add: mem_unique_def Let_def)

lemma mem_unique_doc_store: "doc_store (mem_unique key U)"
proof (unfold_locales, goal_cases)
  case (1 c k d) then show ?case using doc_store.key [OF mem_coll_store, of key] by auto
next
  case (2 c d c' r)
  then show ?case using doc_store.insert_ok [OF mem_coll_store, of key] by (auto elim!: guard_writeE)
next
  case (3 c d c')
  then show ?case using doc_store.insert_done [OF mem_coll_store, of key c d c'] by (auto elim!: guard_writeE)
next
  case (4 c d c' e)
  then show ?case using doc_store.insert_err [OF mem_coll_store, of key c d c' e] by (auto elim!: guard_writeE)
next
  case (5 c f d) then show ?case using doc_store.find_some [OF mem_coll_store, of key c f d] by auto
next
  case (6 c f k d) then show ?case using doc_store.find_none [OF mem_coll_store, of key c f k d] by auto
next
  case (7 c u f c' r)
  then show ?case using doc_store.update_ok [OF mem_coll_store, of key c u f c' r] by (auto elim!: guard_writeE)
next
  case (8 c u f c' n)
  then show ?case using doc_store.update_done [OF mem_coll_store, of key c u f c' n] by (auto elim!: guard_writeE)
next
  case (9 c u f c' e)
  then show ?case using doc_store.update_err [OF mem_coll_store, of key c u f c' e] by (auto elim!: guard_writeE)
next
  case (10 c u f srt c' r)
  then show ?case using doc_store.find_update_ok [OF mem_coll_store, of key c u f srt c' r] by (auto elim!: guard_writeE)
next
  case (11 c u f srt c')
  then show ?case using doc_store.find_update_none [OF mem_coll_store, of key c u f srt c'] by (auto elim!: guard_writeE)
next
  case (12 c u f srt c' d')
  then have "coll_find_modify (mem_coll key) c f srt u = (c', Inr (Some d'))" by (auto elim!: guard_writeE)
  with doc_store.find_update_some [OF mem_coll_store, of key c u f srt c' d'] 12 show ?case by simp
next
  case (13 c u f srt c' e)
  then show ?case using doc_store.find_update_err [OF mem_coll_store, of key c u f srt c' e] by (auto elim!: guard_writeE)
qed

lemma mem_upsert_done:
  assumes "mem_upsert key U ds f u new = (ds', r)"
  shows "ds' = ds \<and> (\<exists>e. r = Inl e) \<or> (\<exists>d. r = Inr d \<and> U ds' \<and> coll_find_modify (mem_coll key) ds f (\<lambda>d. 0) u = (ds', Inr (Some d))) \<or>
    r = Inr new \<and> U ds' \<and> (\<exists>ds2. coll_find_modify (mem_coll key) ds f (\<lambda>d. 0) u = (ds2, Inr None)) \<and>
    coll_insert (mem_coll key) ds new = (ds', None)"
  using assms by (auto simp: mem_upsert_def elim!: guard_writeE split: prod.splits sum.splits option.splits)

lemma mem_unique_store:
  assumes "\<And>ds. U ds \<Longrightarrow> distinct (map idx ds)"
  shows "unique_store (mem_unique key U) (mem_upsert key U) idx"
proof (rule unique_store.intro [OF mem_unique_doc_store], rule unique_store_axioms.intro, goal_cases)
  case (1 c k d k2 d2)
  then have "distinct (map key c)" and m: "d \<in> set c" "key d = k" "d2 \<in> set c" "key d2 = k2"
    by (simp_all add: mem_coll_def mem_docs_Some)
  moreover from 1 assms have "distinct (map idx c)" by simp
  ultimately show ?case using 1 by (auto simp: distinct_map inj_on_def)
next
  case (2 c u f new c' r)
  from mem_upsert_done [OF 2(3)] 2 show ?case
    using doc_store.find_update_ok [OF mem_coll_store, of key c u f "\<lambda>d. 0" c'] doc_store.insert_ok [OF mem_coll_store, of key c new c']
    by auto
next
  case (3 c u f new c' d')
  then have ok: "coll_ok (mem_coll key) c" "\<And>d. coll_key (mem_coll key) (u d) = coll_key (mem_coll key) d" by simp_all
  from mem_upsert_done [OF 3(3)] show ?case
  proof (elim disjE exE conjE)
    fix d assume "coll_find_modify (mem_coll key) c f (\<lambda>d. 0) u = (c', Inr (Some d))" "Inr d' = Inr d"
    with doc_store.find_update_some [OF mem_coll_store ok] show ?thesis by (fastforce simp: upserted_def)
  next
    fix ds2 assume "coll_find_modify (mem_coll key) c f (\<lambda>d. 0) u = (ds2, Inr None)"
      "coll_insert (mem_coll key) c new = (c', None)" "Inr d' = Inr new"
    with doc_store.find_update_none [OF mem_coll_store ok] doc_store.insert_done [OF mem_coll_store ok(1)]
    show ?thesis by (fastforce simp: upserted_def)
  qed simp
next
  case (4 c u f new c' e)
  from mem_upsert_done [OF 4(3)] show ?case by auto
qed

end
