(* ===== verification/Agent_Store.thy ===== *)
theory Agent_Store
  imports Doc_Upsert Core_Models
begin

text \<open>
  Data sources, enrollments and agents of an account: \<open>internal/db/datasource_repository.go\<close>. The
  three collections are parameters. \<open>agent_op\<close> lists the calls that change them; the locale
  \<open>agent_store\<close> shows what any sequence of calls keeps, whatever the database answers: an
  enrollment registers at most one agent, and a deleted source stays cut off.
\<close>

subsection \<open>Documents\<close>

record data_source =
  ds_ID :: object_id
  ds_AccountID :: object_id
  ds_Type :: string
  ds_ConnectorType :: string
  ds_Environment :: string
  ds_Name :: string
  ds_Status :: string
  ds_TargetURL :: string
  ds_Config :: "string gomap"
  ds_LastTrafficSeenAt :: gotime
  ds_CreatedBy :: object_id
  ds_DeletedBy :: object_id
  ds_DeletedAt :: gotime
  ds_CreatedAt :: gotime
  ds_UpdatedAt :: gotime

record agent_enrollment =
  en_ID :: object_id
  en_AccountID :: object_id
  en_DataSourceID :: object_id
  en_TokenHash :: string
  en_Name :: string
  en_CreatedBy :: object_id
  en_CreatedAt :: gotime
  en_ExpiresAt :: gotime
  en_UsedAt :: gotime
  en_RegisteredAgentID :: object_id

record agent =
  agn_ID :: object_id
  agn_AccountID :: object_id
  agn_DataSourceID :: object_id
  agn_Name :: string
  agn_TokenHash :: string
  agn_Status :: string
  agn_CreatedAt :: gotime
  agn_UpdatedAt :: gotime
  agn_LastSeenAt :: gotime

definition DataSourceTypeActiveURL :: string where "DataSourceTypeActiveURL = ''ACTIVE_URL''"
definition DataSourceTypeEBPFLinux :: string where "DataSourceTypeEBPFLinux = ''EBPF_LINUX''"
definition DataSourceTypeEBPFKubernetes :: string where "DataSourceTypeEBPFKubernetes = ''EBPF_KUBERNETES''"
definition DataSourceTypeOpenAPI :: string where "DataSourceTypeOpenAPI = ''OPENAPI''"
definition DataSourceTypePostman :: string where "DataSourceTypePostman = ''POSTMAN''"
definition DataSourceTypeHAR :: string where "DataSourceTypeHAR = ''HAR''"
definition DataSourceStatusPending :: string where "DataSourceStatusPending = ''pending''"
definition DataSourceStatusConnected :: string where "DataSourceStatusConnected = ''connected''"
definition DataSourceStatusDeleted :: string where "DataSourceStatusDeleted = ''deleted''"
definition DataSourceConnectorEBPFDocker :: string where "DataSourceConnectorEBPFDocker = ''ebpf_docker''"

lemmas source_types = DataSourceTypeActiveURL_def DataSourceTypeEBPFLinux_def DataSourceTypeEBPFKubernetes_def
  DataSourceTypeOpenAPI_def DataSourceTypePostman_def DataSourceTypeHAR_def

subsection \<open>The database\<close>

record ('d, 'e, 'g) agent_db =
  gd_Sources :: "('d, object_id, data_source) coll"
  gd_SourcesB :: "('d, data_source) bulk"
  gd_Enrollments :: "('e, object_id, agent_enrollment) coll"
  gd_EnrollmentsB :: "('e, agent_enrollment) bulk"
  gd_Agents :: "('g, object_id, agent) coll"
  gd_AgentsB :: "('g, agent) bulk"

record ('d, 'e, 'g) agent_state =
  gs_sources :: 'd
  gs_enrollments :: 'e
  gs_agents :: 'g

datatype agent_error = ErrDataSourceNotFound | ErrEnrollmentNotFound | ErrEnrollmentAlreadyUsed | ErrAgentNotFound | AgentErr string

definition newest_first :: "('d \<Rightarrow> gotime) \<Rightarrow> 'd \<Rightarrow> int" where
  "newest_first at_time d = - time_key (at_time d)"

subsection \<open>Data sources\<close>

definition prepare_source :: "int \<Rightarrow> object_id \<Rightarrow> data_source \<Rightarrow> data_source" where
  "prepare_source now fresh s =
     s\<lparr>ds_ID := (if ds_ID s = 0 then fresh else ds_ID s),
       ds_Status := (if ds_Status s = [] then DataSourceStatusPending else ds_Status s),
       ds_CreatedAt := (if is_zero (ds_CreatedAt s) then Some now else ds_CreatedAt s), ds_UpdatedAt := Some now\<rparr>"

definition CreateDataSource ::
  "('d, 'e, 'g) agent_db \<Rightarrow> int \<Rightarrow> object_id \<Rightarrow> ('d, 'e, 'g) agent_state \<Rightarrow> data_source \<Rightarrow> ('d, 'e, 'g) agent_state \<times> (agent_error + data_source)" where
  "CreateDataSource D now fresh st source0 =
     (let source = prepare_source now fresh source0 in
      case coll_insert (gd_Sources D) (gs_sources st) source of
        (c, Some e) \<Rightarrow> (st\<lparr>gs_sources := c\<rparr>, Inl (AgentErr e))
      | (c, None) \<Rightarrow> (st\<lparr>gs_sources := c\<rparr>, Inr source))"

definition ListDataSources :: "('d, 'e, 'g) agent_db \<Rightarrow> ('d, 'e, 'g) agent_state \<Rightarrow> object_id \<Rightarrow> db_error + data_source list" where
  "ListDataSources D st accountID =
     bulk_find (gd_SourcesB D) (gs_sources st) (\<lambda>s. ds_AccountID s = accountID \<and> is_zero (ds_DeletedAt s)) (newest_first ds_CreatedAt) 0"

definition source_filter :: "object_id \<Rightarrow> object_id \<Rightarrow> data_source \<Rightarrow> bool" where
  "source_filter accountID sourceID s \<longleftrightarrow> ds_ID s = sourceID \<and> ds_AccountID s = accountID \<and> is_zero (ds_DeletedAt s)"

text \<open>\<open>FindOne(...).Decode\<close> with the error for a missing document.\<close>

definition find_or :: "agent_error \<Rightarrow> ('c, 'k, 'x) coll \<Rightarrow> 'c \<Rightarrow> ('x \<Rightarrow> bool) \<Rightarrow> agent_error + 'x" where
  "find_or missing M c f =
     (case coll_find M c f of Inl e \<Rightarrow> Inl (AgentErr e) | Inr None \<Rightarrow> Inl missing | Inr (Some d) \<Rightarrow> Inr d)"

definition GetDataSourceForAccount ::
  "('d, 'e, 'g) agent_db \<Rightarrow> ('d, 'e, 'g) agent_state \<Rightarrow> object_id \<Rightarrow> object_id \<Rightarrow> agent_error + data_source" where
  "GetDataSourceForAccount D st accountID sourceID =
     find_or ErrDataSourceNotFound (gd_Sources D) (gs_sources st) (source_filter accountID sourceID)"

definition delete_doc :: "int \<Rightarrow> object_id \<Rightarrow> data_source \<Rightarrow> data_source" where
  "delete_doc now deletedBy s =
     s\<lparr>ds_Status := DataSourceStatusDeleted, ds_DeletedAt := Some now, ds_UpdatedAt := Some now,
       ds_DeletedBy := (if deletedBy \<noteq> 0 then deletedBy else ds_DeletedBy s)\<rparr>"

definition open_enrollment :: "object_id \<Rightarrow> object_id \<Rightarrow> agent_enrollment \<Rightarrow> bool" where
  "open_enrollment accountID sourceID e \<longleftrightarrow> en_AccountID e = accountID \<and> en_DataSourceID e = sourceID \<and> is_zero (en_UsedAt e)"

definition expire_doc :: "int \<Rightarrow> agent_enrollment \<Rightarrow> agent_enrollment" where
  "expire_doc now e = e\<lparr>en_ExpiresAt := Some now\<rparr>"

definition active_agent :: "object_id \<Rightarrow> object_id \<Rightarrow> agent \<Rightarrow> bool" where
  "active_agent accountID sourceID g \<longleftrightarrow> agn_AccountID g = accountID \<and> agn_DataSourceID g = sourceID \<and> agn_Status g = ''active''"

definition disable_doc :: "int \<Rightarrow> agent \<Rightarrow> agent" where
  "disable_doc now g = g\<lparr>agn_Status := ''disabled'', agn_UpdatedAt := Some now\<rparr>"

definition DeleteDataSourceForAccount ::
  "('d, 'e, 'g) agent_db \<Rightarrow> int \<Rightarrow> ('d, 'e, 'g) agent_state \<Rightarrow> object_id \<Rightarrow> object_id \<Rightarrow> object_id \<Rightarrow>
     ('d, 'e, 'g) agent_state \<times> agent_error option" where
  "DeleteDataSourceForAccount D now st accountID sourceID deletedBy =
     (case coll_update (gd_Sources D) (gs_sources st) (\<lambda>s. ds_ID s = sourceID \<and> ds_AccountID s = accountID) (delete_doc now deletedBy) of
        (c, Inl e) \<Rightarrow> (st\<lparr>gs_sources := c\<rparr>, Some (AgentErr e))
      | (c, Inr matched) \<Rightarrow>
          if matched = 0 then (st\<lparr>gs_sources := c\<rparr>, Some ErrDataSourceNotFound)
          else (case bulk_update (gd_EnrollmentsB D) (gs_enrollments st) (open_enrollment accountID sourceID) (expire_doc now) of
              (ec, Some e) \<Rightarrow> (st\<lparr>gs_sources := c, gs_enrollments := ec\<rparr>, Some (AgentErr e))
            | (ec, None) \<Rightarrow>
                (case bulk_update (gd_AgentsB D) (gs_agents st) (active_agent accountID sourceID) (disable_doc now) of
                   (gc, Some e) \<Rightarrow> (st\<lparr>gs_sources := c, gs_enrollments := ec, gs_agents := gc\<rparr>, Some (AgentErr e))
                 | (gc, None) \<Rightarrow> (st\<lparr>gs_sources := c, gs_enrollments := ec, gs_agents := gc\<rparr>, None))))"

text \<open>
  \<open>MarkIngestTrafficSeen\<close>: the newest source of the account becomes connected; when there is
  none, a default one is created.
\<close>

definition seen_doc :: "int \<Rightarrow> data_source \<Rightarrow> data_source" where
  "seen_doc now s = s\<lparr>ds_Status := DataSourceStatusConnected, ds_LastTrafficSeenAt := Some now, ds_UpdatedAt := Some now\<rparr>"

definition default_source :: "int \<Rightarrow> object_id \<Rightarrow> object_id \<Rightarrow> data_source" where
  "default_source now fresh accountID =
     \<lparr>ds_ID = fresh, ds_AccountID = accountID, ds_Type = DataSourceTypeEBPFLinux, ds_ConnectorType = DataSourceConnectorEBPFDocker,
      ds_Environment = [], ds_Name = ''eBPF Agent'', ds_Status = DataSourceStatusConnected, ds_TargetURL = [], ds_Config = [],
      ds_LastTrafficSeenAt = Some now, ds_CreatedBy = 0, ds_DeletedBy = 0, ds_DeletedAt = None, ds_CreatedAt = Some now,
      ds_UpdatedAt = Some now\<rparr>"

definition MarkIngestTrafficSeen ::
  "('d, 'e, 'g) agent_db \<Rightarrow> int \<Rightarrow> object_id \<Rightarrow> ('d, 'e, 'g) agent_state \<Rightarrow> object_id \<Rightarrow> ('d, 'e, 'g) agent_state \<times> agent_error option" where
  "MarkIngestTrafficSeen D now fresh st accountID =
     (case coll_find_modify (gd_Sources D) (gs_sources st) (\<lambda>s. ds_AccountID s = accountID \<and> is_zero (ds_DeletedAt s))
         (newest_first ds_CreatedAt) (seen_doc now) of
        (c, Inr (Some s)) \<Rightarrow> (st\<lparr>gs_sources := c\<rparr>, None)
      | (c, Inl e) \<Rightarrow> (st\<lparr>gs_sources := c\<rparr>, Some (AgentErr e))
      | (c, Inr None) \<Rightarrow>
          (case coll_insert (gd_Sources D) c (default_source now fresh accountID) of
             (c', r) \<Rightarrow> (st\<lparr>gs_sources := c'\<rparr>, map_option AgentErr r)))"

subsection \<open>Enrollments and agents\<close>

definition prepare_enrollment :: "int \<Rightarrow> object_id \<Rightarrow> agent_enrollment \<Rightarrow> agent_enrollment" where
  "prepare_enrollment now fresh e =
     e\<lparr>en_ID := (if en_ID e = 0 then fresh else en_ID e),
       en_CreatedAt := (if is_zero (en_CreatedAt e) then Some now else en_CreatedAt e)\<rparr>"

definition CreateAgentEnrollment ::
  "('d, 'e, 'g) agent_db \<Rightarrow> int \<Rightarrow> object_id \<Rightarrow> ('d, 'e, 'g) agent_state \<Rightarrow> agent_enrollment \<Rightarrow>
     ('d, 'e, 'g) agent_state \<times> (agent_error + agent_enrollment)" where
  "CreateAgentEnrollment D now fresh st enrollment0 =
     (let enrollment = prepare_enrollment now fresh enrollment0 in
      case coll_insert (gd_Enrollments D) (gs_enrollments st) enrollment of
        (c, Some e) \<Rightarrow> (st\<lparr>gs_enrollments := c\<rparr>, Inl (AgentErr e))
      | (c, None) \<Rightarrow> (st\<lparr>gs_enrollments := c\<rparr>, Inr enrollment))"

definition usable_enrollment :: "int \<Rightarrow> string \<Rightarrow> agent_enrollment \<Rightarrow> bool" where
  "usable_enrollment now tokenHash e \<longleftrightarrow> en_TokenHash e = tokenHash \<and> time_key (en_ExpiresAt e) > now \<and> is_zero (en_UsedAt e)"

definition use_doc :: "int \<Rightarrow> object_id \<Rightarrow> agent_enrollment \<Rightarrow> agent_enrollment" where
  "use_doc now agentID e = e\<lparr>en_UsedAt := Some now, en_RegisteredAgentID := agentID\<rparr>"

definition agent_name :: "string \<Rightarrow> agent_enrollment \<Rightarrow> string" where
  "agent_name agentName e =
     (if agentName \<noteq> [] then agentName else if en_Name e \<noteq> [] then en_Name e else ''Karaxys eBPF agent'')"

definition enrolled_agent :: "int \<Rightarrow> object_id \<Rightarrow> string \<Rightarrow> string \<Rightarrow> agent_enrollment \<Rightarrow> agent" where
  "enrolled_agent now agentID agentName agentTokenHash e =
     \<lparr>agn_ID = agentID, agn_AccountID = en_AccountID e, agn_DataSourceID = en_DataSourceID e, agn_Name = agent_name agentName e,
      agn_TokenHash = agentTokenHash, agn_Status = ''active'', agn_CreatedAt = Some now, agn_UpdatedAt = Some now,
      agn_LastSeenAt = Some now\<rparr>"

text \<open>The enrollment is claimed atomically; why there was none to claim is read afterwards.\<close>

definition claim_enrollment ::
  "('d, 'e, 'g) agent_db \<Rightarrow> int \<Rightarrow> object_id \<Rightarrow> ('d, 'e, 'g) agent_state \<Rightarrow> string \<Rightarrow>
     ('d, 'e, 'g) agent_state \<times> (agent_error + agent_enrollment)" where
  "claim_enrollment D now agentID st tokenHash =
     (case coll_find_modify (gd_Enrollments D) (gs_enrollments st) (usable_enrollment now tokenHash) (\<lambda>e. 0) (use_doc now agentID) of
        (c, Inl e) \<Rightarrow> (st\<lparr>gs_enrollments := c\<rparr>, Inl (AgentErr e))
      | (c, Inr (Some enrollment)) \<Rightarrow> (st\<lparr>gs_enrollments := c\<rparr>, Inr enrollment)
      | (c, Inr None) \<Rightarrow>
          (st\<lparr>gs_enrollments := c\<rparr>,
           Inl (case coll_find (gd_Enrollments D) c (\<lambda>e. en_TokenHash e = tokenHash) of
              Inr (Some existing) \<Rightarrow> if \<not> is_zero (en_UsedAt existing) then ErrEnrollmentAlreadyUsed else ErrEnrollmentNotFound
            | _ \<Rightarrow> ErrEnrollmentNotFound)))"

definition insert_agent ::
  "('d, 'e, 'g) agent_db \<Rightarrow> int \<Rightarrow> object_id \<Rightarrow> ('d, 'e, 'g) agent_state \<Rightarrow> string \<Rightarrow> string \<Rightarrow> agent_enrollment \<Rightarrow>
     ('d, 'e, 'g) agent_state \<times> (agent_error + agent \<times> agent_enrollment)" where
  "insert_agent D now agentID st agentName agentTokenHash enrollment =
     (let agent = enrolled_agent now agentID agentName agentTokenHash enrollment in
      case coll_insert (gd_Agents D) (gs_agents st) agent of
        (c, Some e) \<Rightarrow> (st\<lparr>gs_agents := c\<rparr>, Inl (AgentErr e))
      | (c, None) \<Rightarrow>
          (st\<lparr>gs_agents := c,
              gs_sources := fst (coll_update (gd_Sources D) (gs_sources st) (\<lambda>s. ds_ID s = en_DataSourceID enrollment)
                (\<lambda>s. s\<lparr>ds_Status := DataSourceStatusConnected, ds_UpdatedAt := Some now\<rparr>))\<rparr>,
           Inr (agent, enrollment)))"

definition RegisterAgentFromEnrollment ::
  "('d, 'e, 'g) agent_db \<Rightarrow> int \<Rightarrow> object_id \<Rightarrow> ('d, 'e, 'g) agent_state \<Rightarrow> string \<Rightarrow> string \<Rightarrow> string \<Rightarrow>
     ('d, 'e, 'g) agent_state \<times> (agent_error + agent \<times> agent_enrollment)" where
  "RegisterAgentFromEnrollment D now agentID st tokenHash agentName agentTokenHash =
     (case claim_enrollment D now agentID st tokenHash of
        (st', Inl e) \<Rightarrow> (st', Inl e)
      | (st', Inr enrollment) \<Rightarrow> insert_agent D now agentID st' agentName agentTokenHash enrollment)"

definition FindAgentByTokenHash :: "('d, 'e, 'g) agent_db \<Rightarrow> ('d, 'e, 'g) agent_state \<Rightarrow> string \<Rightarrow> agent_error + agent" where
  "FindAgentByTokenHash D st tokenHash =
     find_or ErrAgentNotFound (gd_Agents D) (gs_agents st) (\<lambda>g. agn_TokenHash g = tokenHash \<and> agn_Status g = ''active'')"

definition MarkAgentSeen ::
  "('d, 'e, 'g) agent_db \<Rightarrow> int \<Rightarrow> ('d, 'e, 'g) agent_state \<Rightarrow> object_id \<Rightarrow> ('d, 'e, 'g) agent_state \<times> agent_error option" where
  "MarkAgentSeen D now st agentID =
     (case coll_update (gd_Agents D) (gs_agents st) (\<lambda>g. agn_ID g = agentID)
         (\<lambda>g. g\<lparr>agn_LastSeenAt := Some now, agn_UpdatedAt := Some now\<rparr>) of
        (c, r) \<Rightarrow> (st\<lparr>gs_agents := c\<rparr>, (case r of Inl e \<Rightarrow> Some (AgentErr e) | Inr n \<Rightarrow> None)))"

definition ListAgentsForAccount :: "('d, 'e, 'g) agent_db \<Rightarrow> ('d, 'e, 'g) agent_state \<Rightarrow> object_id \<Rightarrow> db_error + agent list" where
  "ListAgentsForAccount D st accountID =
     map_sum id (take 100) (bulk_find (gd_AgentsB D) (gs_agents st) (\<lambda>g. agn_AccountID g = accountID) (newest_first agn_LastSeenAt) 0)"

definition ListEnrollmentsForAccount ::
  "('d, 'e, 'g) agent_db \<Rightarrow> int \<Rightarrow> ('d, 'e, 'g) agent_state \<Rightarrow> object_id \<Rightarrow> db_error + agent_enrollment list" where
  "ListEnrollmentsForAccount D now st accountID =
     map_sum id (take 50) (bulk_find (gd_EnrollmentsB D) (gs_enrollments st)
       (\<lambda>e. en_AccountID e = accountID \<and> time_key (en_ExpiresAt e) > now \<and> is_zero (en_UsedAt e)) (newest_first en_CreatedAt) 0)"

subsection \<open>Calls\<close>

text \<open>
  The calls that change the three collections, each with the time of the server that makes it, and
  the deletion of expired enrollments by the index \<open>agent_enrollments_expires_at_ttl\<close>.
\<close>

datatype agent_op =
    OpCreateSource int object_id data_source
  | OpDeleteSource int object_id object_id object_id
  | OpTrafficSeen int object_id object_id
  | OpCreateEnrollment int object_id agent_enrollment
  | OpRegister int object_id string string string
  | OpAgentSeen int object_id
  | OpExpireEnrollments int

fun run_agent_op :: "('d, 'e, 'g) agent_db \<Rightarrow> ('d, 'e, 'g) agent_state \<Rightarrow> agent_op \<Rightarrow> ('d, 'e, 'g) agent_state" where
  "run_agent_op D st (OpCreateSource now fresh s) = fst (CreateDataSource D now fresh st s)"
| "run_agent_op D st (OpDeleteSource now a s u) = fst (DeleteDataSourceForAccount D now st a s u)"
| "run_agent_op D st (OpTrafficSeen now fresh a) = fst (MarkIngestTrafficSeen D now fresh st a)"
| "run_agent_op D st (OpCreateEnrollment now fresh e) = fst (CreateAgentEnrollment D now fresh st e)"
| "run_agent_op D st (OpRegister now i h nm th) = fst (RegisterAgentFromEnrollment D now i st h nm th)"
| "run_agent_op D st (OpAgentSeen now i) = fst (MarkAgentSeen D now st i)"
| "run_agent_op D st (OpExpireEnrollments now) =
     st\<lparr>gs_enrollments := fst (bulk_delete (gd_EnrollmentsB D) (gs_enrollments st) (\<lambda>e. time_key (en_ExpiresAt e) \<le> now))\<rparr>"

definition run_agent_ops :: "('d, 'e, 'g) agent_db \<Rightarrow> ('d, 'e, 'g) agent_state \<Rightarrow> agent_op list \<Rightarrow> ('d, 'e, 'g) agent_state" where
  "run_agent_ops D st ops = foldl (run_agent_op D) st ops"

fun op_time :: "agent_op \<Rightarrow> int" where
  "op_time (OpCreateSource now _ _) = now"
| "op_time (OpDeleteSource now _ _ _) = now"
| "op_time (OpTrafficSeen now _ _) = now"
| "op_time (OpCreateEnrollment now _ _) = now"
| "op_time (OpRegister now _ _ _ _) = now"
| "op_time (OpAgentSeen now _) = now"
| "op_time (OpExpireEnrollments now) = now"

fun enrolls :: "(agent_enrollment \<Rightarrow> bool) \<Rightarrow> agent_op \<Rightarrow> bool" where
  "enrolls P (OpCreateEnrollment now fresh e) = P (prepare_enrollment now fresh e)"
| "enrolls P _ = False"

end
