(* ===== verification/Agent_Logic.thy ===== *)
theory Agent_Logic
  imports Agent_Store
begin

text \<open>
  What the agent store promises, whatever the database answers: an enrollment registers at most one
  agent, and a deleted data source stays cut off, its agents disabled and its enrollments useless.
  \<open>enroll_step\<close> and \<open>agent_step\<close> say what a call may do to a stored document.
\<close>

subsection \<open>What a call may do to a document\<close>

definition enroll_step :: "agent_op \<Rightarrow> agent_enrollment option \<Rightarrow> agent_enrollment option \<Rightarrow> bool" where
  "enroll_step x old new \<longleftrightarrow>
     new = old \<or> new = None \<or>
     (case (x, old, new) of
        (OpCreateEnrollment now fresh e0, None, Some e) \<Rightarrow> e = prepare_enrollment now fresh e0
      | (OpRegister now i h nm th, Some e, Some e') \<Rightarrow> usable_enrollment now h e \<and> e' = use_doc now i e
      | (OpDeleteSource now a s u, Some e, Some e') \<Rightarrow> open_enrollment a s e \<and> e' = expire_doc now e
      | _ \<Rightarrow> False)"

definition agent_step :: "agent_op \<Rightarrow> (object_id \<Rightarrow> agent_enrollment option) \<Rightarrow> agent option \<Rightarrow> agent option \<Rightarrow> bool" where
  "agent_step x m old new \<longleftrightarrow>
     new = old \<or>
     (case (x, old, new) of
        (OpRegister now i h nm th, None, Some g) \<Rightarrow>
          \<exists>k e. m k = Some e \<and> usable_enrollment now h e \<and> g = enrolled_agent now i nm th (use_doc now i e)
      | (_, Some g, Some g') \<Rightarrow>
          agn_AccountID g' = agn_AccountID g \<and> agn_DataSourceID g' = agn_DataSourceID g \<and>
          (agn_Status g' = ''active'' \<longrightarrow> agn_Status g = ''active'')
      | _ \<Rightarrow> False)"

lemma enroll_step_refl [simp]: "enroll_step x y y" and enroll_step_None [simp]: "enroll_step x y None"
  by (simp_all add: enroll_step_def)

lemma agent_step_refl [simp]: "agent_step x m y y"
  by (simp add: agent_step_def)

lemma enroll_step_SomeE:
  assumes "enroll_step x old (Some e)"
  obtains (same) "old = Some e"
  | (create) now fresh e0 where "x = OpCreateEnrollment now fresh e0" "old = None" "e = prepare_enrollment now fresh e0"
  | (use) now i h nm th e0 where "x = OpRegister now i h nm th" "old = Some e0" "usable_enrollment now h e0" "e = use_doc now i e0"
  | (expire) now a s u e0 where "x = OpDeleteSource now a s u" "old = Some e0" "open_enrollment a s e0" "e = expire_doc now e0"
  using assms by (cases x; cases old) (auto simp: enroll_step_def)

lemma agent_step_SomeE:
  assumes "agent_step x m old (Some g)"
  obtains (same) "old = Some g"
  | (changed) g0 where "old = Some g0" "agn_AccountID g = agn_AccountID g0" "agn_DataSourceID g = agn_DataSourceID g0"
      "agn_Status g = ''active'' \<longrightarrow> agn_Status g0 = ''active''"
  | (new) now i h nm th k e where "x = OpRegister now i h nm th" "m k = Some e" "usable_enrollment now h e"
      "g = enrolled_agent now i nm th (use_doc now i e)"
  using assms by (cases x; cases old) (auto simp: agent_step_def)

lemma agent_doc_keys [simp]:
  "en_ID (use_doc now i e) = en_ID e" "en_ID (expire_doc now e) = en_ID e" "agn_ID (disable_doc now g) = agn_ID g"
  "ds_ID (delete_doc now u s) = ds_ID s" "ds_ID (seen_doc now s) = ds_ID s"
  "en_AccountID (use_doc now i e) = en_AccountID e" "en_DataSourceID (use_doc now i e) = en_DataSourceID e"
  "en_AccountID (expire_doc now e) = en_AccountID e" "en_DataSourceID (expire_doc now e) = en_DataSourceID e"
  "en_UsedAt (use_doc now i e) = Some now" "en_UsedAt (expire_doc now e) = en_UsedAt e" "en_ExpiresAt (expire_doc now e) = Some now"
  "en_ExpiresAt (use_doc now i e) = en_ExpiresAt e"
  "agn_Status (disable_doc now g) = ''disabled''" "agn_AccountID (disable_doc now g) = agn_AccountID g"
  "agn_DataSourceID (disable_doc now g) = agn_DataSourceID g"
  by (simp_all add: use_doc_def expire_doc_def disable_doc_def delete_doc_def seen_doc_def)

lemma enrolled_agent_fields [simp]:
  "agn_ID (enrolled_agent now i nm th e) = i" "agn_AccountID (enrolled_agent now i nm th e) = en_AccountID e"
  "agn_DataSourceID (enrolled_agent now i nm th e) = en_DataSourceID e"
  by (simp_all add: enrolled_agent_def)

subsection \<open>The store\<close>

locale agent_store =
  fixes D :: "('d, 'e, 'g) agent_db"
  assumes sources: "doc_store (gd_Sources D)"
    and enrollments: "bulk_store (gd_Enrollments D) (gd_EnrollmentsB D)"
    and agents: "bulk_store (gd_Agents D) (gd_AgentsB D)"
    and enroll_key: "coll_key (gd_Enrollments D) = en_ID"
    and agent_key: "coll_key (gd_Agents D) = agn_ID"
begin

definition agents_ok :: "('d, 'e, 'g) agent_state \<Rightarrow> bool" where
  "agents_ok st \<longleftrightarrow> coll_ok (gd_Enrollments D) (gs_enrollments st) \<and> coll_ok (gd_Agents D) (gs_agents st)"

abbreviation enrolled :: "('d, 'e, 'g) agent_state \<Rightarrow> object_id \<Rightarrow> agent_enrollment option" where
  "enrolled st \<equiv> coll_docs (gd_Enrollments D) (gs_enrollments st)"

abbreviation registered :: "('d, 'e, 'g) agent_state \<Rightarrow> object_id \<Rightarrow> agent option" where
  "registered st \<equiv> coll_docs (gd_Agents D) (gs_agents st)"

lemma enroll_store: "doc_store (gd_Enrollments D)" and agents_store: "doc_store (gd_Agents D)"
  using enrollments agents by (simp_all add: bulk_store_def)

text \<open>Claiming an enrollment uses at most one, and the claimed one was usable.\<close>

lemma claim_enrollment_step:
  assumes "agents_ok st" "claim_enrollment D now i st h = (st', r)"
  shows "agents_ok st' \<and> gs_agents st' = gs_agents st \<and> enroll_step (OpRegister now i h nm th) (enrolled st k) (enrolled st' k) \<and>
    (case r of Inl e \<Rightarrow> True
     | Inr e \<Rightarrow> \<exists>k e0. enrolled st k = Some e0 \<and> usable_enrollment now h e0 \<and> e = use_doc now i e0 \<and>
         enrolled st' = (enrolled st)(k \<mapsto> e))"
proof -
  obtain c q where f: "coll_find_modify (gd_Enrollments D) (gs_enrollments st) (usable_enrollment now h) (\<lambda>e. 0) (use_doc now i) = (c, q)"
    by fastforce
  have ok: "coll_ok (gd_Enrollments D) (gs_enrollments st)" using assms(1) by (simp add: agents_ok_def)
  have key: "coll_key (gd_Enrollments D) (use_doc now i e) = coll_key (gd_Enrollments D) e" for e by (simp add: enroll_key)
  have st': "gs_enrollments st' = c" "gs_agents st' = gs_agents st" and r: "\<And>e. r = Inr e \<Longrightarrow> q = Inr (Some e)"
    using assms(2) f by (auto simp: claim_enrollment_def split: sum.splits option.splits)
  have c: "coll_ok (gd_Enrollments D) c" by (rule doc_store.find_update_ok [OF enroll_store ok key f])
  have "enroll_step (OpRegister now i h nm th) (enrolled st k) (enrolled st' k)"
    using doc_store.find_update_cases [OF enroll_store ok key f] unfolding st'
    by (auto simp: updated_at_def enroll_step_def)
  moreover have "case r of Inl e \<Rightarrow> True
     | Inr e \<Rightarrow> \<exists>k e0. enrolled st k = Some e0 \<and> usable_enrollment now h e0 \<and> e = use_doc now i e0 \<and>
         enrolled st' = (enrolled st)(k \<mapsto> e)"
  proof (cases r)
    case (Inr e)
    from doc_store.find_update_some [OF enroll_store ok key f [unfolded r [OF Inr]]] show ?thesis
      unfolding st' Inr by (auto simp: updated_at_def)
  qed simp
  ultimately show ?thesis using c assms(1) st' by (simp add: agents_ok_def)
qed

lemma insert_agent_step:
  assumes "agents_ok st" "insert_agent D now i st nm th e = (st', r)"
  shows "agents_ok st' \<and> gs_enrollments st' = gs_enrollments st \<and>
    (registered st' k = registered st k \<or> registered st k = None \<and> registered st' k = Some (enrolled_agent now i nm th e)) \<and>
    (case r of Inl x \<Rightarrow> True | Inr (g, e') \<Rightarrow> e' = e \<and> g = enrolled_agent now i nm th e)"
proof -
  obtain c q where f: "coll_insert (gd_Agents D) (gs_agents st) (enrolled_agent now i nm th e) = (c, q)" by fastforce
  have ok: "coll_ok (gd_Agents D) (gs_agents st)" using assms(1) by (simp add: agents_ok_def)
  have st': "gs_agents st' = c" "gs_enrollments st' = gs_enrollments st"
    using assms(2) f by (auto simp: insert_agent_def Let_def split: option.splits)
  have r: "case r of Inl x \<Rightarrow> True | Inr (g, e') \<Rightarrow> e' = e \<and> g = enrolled_agent now i nm th e"
    using assms(2) f by (auto simp: insert_agent_def Let_def split: option.splits)
  from doc_store.insert_cases [OF agents_store ok f] doc_store.insert_ok [OF agents_store ok f] assms(1) r
  show ?thesis by (cases "k = i") (auto simp: st' agents_ok_def agent_key)
qed

lemma register_step:
  assumes ok: "agents_ok st" and reg: "RegisterAgentFromEnrollment D now i st h nm th = (st', r)"
  shows "agents_ok st' \<and> enroll_step (OpRegister now i h nm th) (enrolled st k) (enrolled st' k) \<and>
    agent_step (OpRegister now i h nm th) (enrolled st) (registered st k) (registered st' k) \<and>
    (case r of Inl x \<Rightarrow> True
     | Inr (g, e) \<Rightarrow> \<exists>k e0. enrolled st k = Some e0 \<and> usable_enrollment now h e0 \<and> e = use_doc now i e0 \<and>
         enrolled st' = (enrolled st)(k \<mapsto> e))"
proof -
  obtain st1 q where cl: "claim_enrollment D now i st h = (st1, q)" by fastforce
  note step = claim_enrollment_step [OF ok cl, of nm th k]
  show ?thesis
  proof (cases q)
    case (Inl e)
    with reg cl have "st' = st1" "r = Inl e" by (simp_all add: RegisterAgentFromEnrollment_def)
    with step show ?thesis by simp
  next
    case (Inr e)
    with reg cl have ins: "insert_agent D now i st1 nm th e = (st', r)" by (simp add: RegisterAgentFromEnrollment_def)
    from step Inr obtain k0 e0 where e0: "enrolled st k0 = Some e0" "usable_enrollment now h e0" "e = use_doc now i e0"
      "enrolled st1 = (enrolled st)(k0 \<mapsto> e)" by auto
    from step have ok1: "agents_ok st1" "gs_agents st1 = gs_agents st" by simp_all
    note ia = insert_agent_step [OF ok1(1) ins, of k]
    have "agent_step (OpRegister now i h nm th) (enrolled st) (registered st k) (registered st' k)"
      using ia ok1(2)
    proof (cases "registered st' k = registered st k")
      case False
      with ia ok1(2) have "registered st k = None" "registered st' k = Some (enrolled_agent now i nm th (use_doc now i e0))"
        by (simp_all add: e0(3))
      with e0(1,2) show ?thesis unfolding agent_step_def by auto
    qed simp
    moreover have "case r of Inl x \<Rightarrow> True
      | Inr (g, e) \<Rightarrow> \<exists>k e0. enrolled st k = Some e0 \<and> usable_enrollment now h e0 \<and> e = use_doc now i e0 \<and>
         enrolled st' = (enrolled st)(k \<mapsto> e)"
      using ia e0 by (auto split: sum.splits prod.splits)
    ultimately show ?thesis using step ia by simp
  qed
qed

lemma delete_step:
  assumes ok: "agents_ok st" and del: "DeleteDataSourceForAccount D now st a s u = (st', r)"
  shows "agents_ok st' \<and> enroll_step (OpDeleteSource now a s u) (enrolled st k) (enrolled st' k) \<and>
    agent_step (OpDeleteSource now a s u) (enrolled st) (registered st k) (registered st' k) \<and>
    (r = None \<longrightarrow>
       (\<forall>k e. enrolled st' k = Some e \<longrightarrow> open_enrollment a s e \<longrightarrow> en_ExpiresAt e = Some now) \<and>
       (\<forall>k g. registered st' k = Some g \<longrightarrow> \<not> active_agent a s g))"
proof -
  let ?E = "gd_Enrollments D" and ?G = "gd_Agents D"
  obtain ec qe where e: "bulk_update (gd_EnrollmentsB D) (gs_enrollments st) (open_enrollment a s) (expire_doc now) = (ec, qe)" by fastforce
  obtain gc qg where g: "bulk_update (gd_AgentsB D) (gs_agents st) (active_agent a s) (disable_doc now) = (gc, qg)" by fastforce
  have oke: "coll_ok ?E (gs_enrollments st)" and okg: "coll_ok ?G (gs_agents st)" using ok by (simp_all add: agents_ok_def)
  have ke: "coll_key ?E (expire_doc now x) = coll_key ?E x" for x by (simp add: enroll_key)
  have kg: "coll_key ?G (disable_doc now x) = coll_key ?G x" for x by (simp add: agent_key)
  have oks: "coll_ok ?E ec" "coll_ok ?G gc"
    by (rule bulk_store.update_many_ok [OF enrollments oke ke e], rule bulk_store.update_many_ok [OF agents okg kg g])
  have ee: "enroll_step (OpDeleteSource now a s u) (enrolled st k) (coll_docs ?E ec k)"
    using bulk_store.update_many [OF enrollments oke ke e, of k] by (auto simp: enroll_step_def)
  have gg: "agent_step (OpDeleteSource now a s u) (enrolled st) (registered st k) (coll_docs ?G gc k)"
    using bulk_store.update_many [OF agents okg kg g, of k] by (auto simp: agent_step_def)
  have same: "gs_enrollments st' = gs_enrollments st \<or> gs_enrollments st' = ec" "gs_agents st' = gs_agents st \<or> gs_agents st' = gc"
    and none: "r = None \<Longrightarrow> qe = None \<and> qg = None \<and> gs_enrollments st' = ec \<and> gs_agents st' = gc"
    using del e g by (auto simp: DeleteDataSourceForAccount_def split: prod.splits sum.splits option.splits if_splits)
  have exp: "en_ExpiresAt x = Some now" if "qe = None" "coll_docs ?E ec j = Some x" "open_enrollment a s x" for j x
  proof (cases "enrolled st j = Some x")
    case True
    then have "open_enrollment a s x" using that(3) by simp
    with bulk_store.update_many_all [OF enrollments oke ke e [unfolded that(1)] True] that(2) have "x = expire_doc now x" by simp
    then show ?thesis using agent_doc_keys(12) [of now x] by simp
  next
    case False
    with bulk_store.update_many [OF enrollments oke ke e, of j] that(2) obtain y where "x = expire_doc now y" by auto
    then show ?thesis by simp
  qed
  have dis: "\<not> active_agent a s x" if "qg = None" "coll_docs ?G gc j = Some x" for j x
  proof (cases "registered st j = Some x")
    case True
    show ?thesis
    proof
      assume "active_agent a s x"
      with bulk_store.update_many_all [OF agents okg kg g [unfolded that(1)] True] that(2) have "x = disable_doc now x" by simp
      then have "agn_Status x = ''disabled''" using agent_doc_keys(14) [of now x] by simp
      with \<open>active_agent a s x\<close> show False by (simp add: active_agent_def)
    qed
  next
    case False
    with bulk_store.update_many [OF agents okg kg g, of j] that(2) obtain y where "x = disable_doc now y" by auto
    then show ?thesis by (simp add: active_agent_def)
  qed
  show ?thesis
  proof (intro conjI impI allI)
    show "agents_ok st'" using same oks ok by (auto simp: agents_ok_def)
    show "enroll_step (OpDeleteSource now a s u) (enrolled st k) (enrolled st' k)" using same(1) ee by auto
    show "agent_step (OpDeleteSource now a s u) (enrolled st) (registered st k) (registered st' k)" using same(2) gg by auto
  next
    fix j x assume "r = None" "enrolled st' j = Some x" "open_enrollment a s x"
    with none exp show "en_ExpiresAt x = Some now" by simp
  next
    fix j x assume "r = None" "registered st' j = Some x"
    with none dis show "\<not> active_agent a s x" by simp
  qed
qed


text \<open>Every call keeps the stores well formed and lets each document take a step.\<close>

lemma run_agent_op_step:
  assumes ok: "agents_ok st"
  shows "agents_ok (run_agent_op D st x) \<and> enroll_step x (enrolled st k) (enrolled (run_agent_op D st x) k) \<and>
    agent_step x (enrolled st) (registered st k) (registered (run_agent_op D st x) k)"
proof (cases x)
  case (OpCreateSource now fresh s)
  then have "gs_enrollments (run_agent_op D st x) = gs_enrollments st" "gs_agents (run_agent_op D st x) = gs_agents st"
    by (auto simp: CreateDataSource_def Let_def split: prod.split option.split)
  with ok show ?thesis by (simp add: agents_ok_def)
next
  case (OpDeleteSource now a s u)
  obtain st' r where "DeleteDataSourceForAccount D now st a s u = (st', r)" by fastforce
  with delete_step [OF ok this, of k] show ?thesis by (simp add: OpDeleteSource)
next
  case (OpTrafficSeen now fresh a)
  then have "gs_enrollments (run_agent_op D st x) = gs_enrollments st" "gs_agents (run_agent_op D st x) = gs_agents st"
    by (auto simp: MarkIngestTrafficSeen_def split: prod.split sum.split option.split)
  with ok show ?thesis by (simp add: agents_ok_def)
next
  case (OpCreateEnrollment now fresh e)
  let ?e = "prepare_enrollment now fresh e"
  obtain c r where i: "coll_insert (gd_Enrollments D) (gs_enrollments st) ?e = (c, r)" by fastforce
  have oke: "coll_ok (gd_Enrollments D) (gs_enrollments st)" using ok by (simp add: agents_ok_def)
  have st': "gs_enrollments (run_agent_op D st x) = c" "gs_agents (run_agent_op D st x) = gs_agents st"
    using i by (auto simp: OpCreateEnrollment CreateAgentEnrollment_def Let_def split: option.split)
  have "enroll_step x (enrolled st k) (coll_docs (gd_Enrollments D) c k)"
    using doc_store.insert_cases [OF enroll_store oke i]
    by (cases "k = en_ID ?e") (auto simp: OpCreateEnrollment enroll_step_def enroll_key)
  with doc_store.insert_ok [OF enroll_store oke i] ok show ?thesis by (simp add: st' agents_ok_def)
next
  case (OpRegister now i h nm th)
  obtain st' r where "RegisterAgentFromEnrollment D now i st h nm th = (st', r)" by fastforce
  with register_step [OF ok this, of k] show ?thesis by (simp add: OpRegister)
next
  case (OpAgentSeen now i)
  let ?u = "\<lambda>g. g\<lparr>agn_LastSeenAt := Some now, agn_UpdatedAt := Some now\<rparr>"
  obtain c r where u: "coll_update (gd_Agents D) (gs_agents st) (\<lambda>g. agn_ID g = i) ?u = (c, r)" by fastforce
  have okg: "coll_ok (gd_Agents D) (gs_agents st)" using ok by (simp add: agents_ok_def)
  have kg: "coll_key (gd_Agents D) (?u g) = coll_key (gd_Agents D) g" for g by (simp add: agent_key)
  have st': "gs_agents (run_agent_op D st x) = c" "gs_enrollments (run_agent_op D st x) = gs_enrollments st"
    using u by (auto simp: OpAgentSeen MarkAgentSeen_def)
  have "agent_step x (enrolled st) (registered st k) (coll_docs (gd_Agents D) c k)"
    using doc_store.update_cases [OF agents_store okg kg u]
    by (auto simp: OpAgentSeen agent_step_def updated_at_def)
  with doc_store.update_ok [OF agents_store okg kg u] ok show ?thesis by (simp add: st' agents_ok_def)
next
  case (OpExpireEnrollments now)
  obtain c r where d: "bulk_delete (gd_EnrollmentsB D) (gs_enrollments st) (\<lambda>e. time_key (en_ExpiresAt e) \<le> now) = (c, r)" by fastforce
  have oke: "coll_ok (gd_Enrollments D) (gs_enrollments st)" using ok by (simp add: agents_ok_def)
  from bulk_store.delete_many [OF enrollments oke d, of k] bulk_store.delete_many_ok [OF enrollments oke d] ok d
  show ?thesis by (auto simp: OpExpireEnrollments agents_ok_def)
qed

lemma run_agent_ops_ok: "agents_ok st \<Longrightarrow> agents_ok (run_agent_ops D st ops)"
  by (induction ops arbitrary: st) (simp_all add: run_agent_ops_def run_agent_op_step)

subsection \<open>An enrollment is used once\<close>

definition used_up :: "agent_enrollment option \<Rightarrow> bool" where
  "used_up x \<longleftrightarrow> (case x of None \<Rightarrow> True | Some e \<Rightarrow> \<not> is_zero (en_UsedAt e))"

lemma used_up_step:
  assumes "used_up old" "enroll_step x old new" "\<not> enrolls (\<lambda>e. en_ID e = k) x" "\<And>e. new = Some e \<Longrightarrow> en_ID e = k"
  shows "used_up new"
proof (cases new)
  case (Some e)
  from assms(2) [unfolded Some] show ?thesis
  proof (cases rule: enroll_step_SomeE)
    case (create now fresh e0)
    with assms(3,4) Some show ?thesis by simp
  qed (use assms(1) Some in \<open>simp_all add: used_up_def is_zero_def\<close>)
qed (simp add: used_up_def)

lemma enrolled_id: "agents_ok st \<Longrightarrow> enrolled st k = Some e \<Longrightarrow> en_ID e = k"
  using doc_store.key [OF enroll_store] by (auto simp: agents_ok_def enroll_key)

lemma registered_id: "agents_ok st \<Longrightarrow> registered st k = Some g \<Longrightarrow> agn_ID g = k"
  using doc_store.key [OF agents_store] by (auto simp: agents_ok_def agent_key)

lemma run_agent_ops_used:
  assumes "agents_ok st" "used_up (enrolled st k)" "list_all (\<lambda>x. \<not> enrolls (\<lambda>e. en_ID e = k) x) ops"
  shows "used_up (enrolled (run_agent_ops D st ops) k)"
  using assms
proof (induction ops arbitrary: st)
  case (Cons x ops)
  from run_agent_op_step [OF Cons.prems(1), of x k] have ok: "agents_ok (run_agent_op D st x)"
    and s: "enroll_step x (enrolled st k) (enrolled (run_agent_op D st x) k)" by simp_all
  from used_up_step [OF Cons.prems(2) s, of k] enrolled_id [OF ok] Cons.prems(3)
  have "used_up (enrolled (run_agent_op D st x) k)" by simp
  with Cons.IH [OF ok] Cons.prems(3) show ?case by (simp add: run_agent_ops_def)
qed (simp add: run_agent_ops_def)

lemma registered_once:
  assumes ok: "agents_ok st" and reg: "RegisterAgentFromEnrollment D now i st h nm th = (st', Inr (g, e))"
    and ops: "list_all (\<lambda>x. \<not> enrolls (\<lambda>y. en_ID y = en_ID e) x) ops"
    and again: "RegisterAgentFromEnrollment D now2 i2 (run_agent_ops D st' ops) h2 nm2 th2 = (st2, Inr (g2, e2))"
  shows "en_ID e2 \<noteq> en_ID e"
proof -
  from register_step [OF ok reg, of 0] obtain k e0 where k: "enrolled st k = Some e0" "e = use_doc now i e0"
    "enrolled st' = (enrolled st)(k \<mapsto> e)" and ok': "agents_ok st'" by auto
  have id: "en_ID e = k" using enrolled_id [OF ok k(1)] k(2) by simp
  have "enrolled st' (en_ID e) = Some e" unfolding id k(3) by simp
  then have "used_up (enrolled st' (en_ID e))" by (simp add: used_up_def k(2) is_zero_def)
  note used = run_agent_ops_used [OF ok' this ops]
  from register_step [OF run_agent_ops_ok [OF ok'] again, of 0] obtain k2 e3 where
    k2: "enrolled (run_agent_ops D st' ops) k2 = Some e3" "usable_enrollment now2 h2 e3" "e2 = use_doc now2 i2 e3" by auto
  have "en_ID e2 = k2" using enrolled_id [OF run_agent_ops_ok [OF ok'] k2(1)] k2(3) by simp
  with used k2 show ?thesis by (auto simp: used_up_def usable_enrollment_def)
qed

subsection \<open>A deleted source is cut off\<close>

text \<open>Nothing of the source is usable at a time: no active agent, no enrollment that is unused and not expired.\<close>

definition cut_off :: "object_id \<Rightarrow> object_id \<Rightarrow> int \<Rightarrow> ('d, 'e, 'g) agent_state \<Rightarrow> bool" where
  "cut_off a s t st \<longleftrightarrow>
     (\<forall>k e. enrolled st k = Some e \<longrightarrow> open_enrollment a s e \<longrightarrow> time_key (en_ExpiresAt e) \<le> t) \<and>
     (\<forall>k g. registered st k = Some g \<longrightarrow> \<not> active_agent a s g)"

lemma cut_off_later: "cut_off a s t st \<Longrightarrow> t \<le> t' \<Longrightarrow> cut_off a s t' st"
  by (auto simp: cut_off_def intro: order_trans)

lemma enroll_step_expired:
  assumes "enroll_step x old new" "\<not> enrolls (\<lambda>e. en_AccountID e = a \<and> en_DataSourceID e = s) x" "new = Some e"
    and "open_enrollment a s e" "\<And>e. old = Some e \<Longrightarrow> open_enrollment a s e \<Longrightarrow> time_key (en_ExpiresAt e) \<le> t" "t \<le> op_time x"
  shows "time_key (en_ExpiresAt e) \<le> op_time x"
  using assms(1) [unfolded assms(3)]
proof (cases rule: enroll_step_SomeE)
  case same
  with assms(4,6) show ?thesis using assms(5) [of e] by simp
next
  case (create now fresh e0)
  with assms(2,4) show ?thesis by (simp add: open_enrollment_def)
next
  case (use now i h nm th e0)
  with assms(4) show ?thesis by (simp add: open_enrollment_def is_zero_def)
next
  case (expire now a' s' u e0)
  then show ?thesis by (simp add: time_key_def)
qed

lemma agent_step_inactive:
  assumes "agent_step x m old new" "new = Some g" "\<And>g. old = Some g \<Longrightarrow> \<not> active_agent a s g" "t \<le> op_time x"
    and "\<And>k e. m k = Some e \<Longrightarrow> open_enrollment a s e \<Longrightarrow> time_key (en_ExpiresAt e) \<le> t"
  shows "\<not> active_agent a s g"
  using assms(1) [unfolded assms(2)]
proof (cases rule: agent_step_SomeE)
  case same
  with assms(3) show ?thesis by simp
next
  case (changed g0)
  with assms(3) [of g0] show ?thesis by (auto simp: active_agent_def)
next
  case (new now i h nm th k e)
  show ?thesis
  proof
    assume "active_agent a s g"
    with new have "open_enrollment a s e" by (simp add: active_agent_def open_enrollment_def usable_enrollment_def)
    from assms(5) [OF new(2) this] assms(4) new(1,3) show False by (simp add: usable_enrollment_def)
  qed
qed

lemma cut_off_step:
  assumes ok: "agents_ok st" and cut: "cut_off a s t st" and t: "t \<le> op_time x"
    and x: "\<not> enrolls (\<lambda>e. en_AccountID e = a \<and> en_DataSourceID e = s) x"
  shows "cut_off a s (op_time x) (run_agent_op D st x)"
  unfolding cut_off_def
proof (intro conjI allI impI)
  fix k e assume e: "enrolled (run_agent_op D st x) k = Some e" "open_enrollment a s e"
  from run_agent_op_step [OF ok, of x k] have step: "enroll_step x (enrolled st k) (enrolled (run_agent_op D st x) k)" by simp
  show "time_key (en_ExpiresAt e) \<le> op_time x"
    using cut by (intro enroll_step_expired [OF step x e _ t]) (auto simp: cut_off_def)
next
  fix k g assume g: "registered (run_agent_op D st x) k = Some g"
  from run_agent_op_step [OF ok, of x k]
  have step: "agent_step x (enrolled st) (registered st k) (registered (run_agent_op D st x) k)" by simp
  show "\<not> active_agent a s g"
    using cut by (intro agent_step_inactive [OF step g _ t]) (auto simp: cut_off_def)
qed

lemma run_agent_ops_cut_off:
  assumes "agents_ok st" "cut_off a s t st" "sorted (t # map op_time ops)"
    and "list_all (\<lambda>x. \<not> enrolls (\<lambda>e. en_AccountID e = a \<and> en_DataSourceID e = s) x) ops"
  shows "cut_off a s (last (t # map op_time ops)) (run_agent_ops D st ops)"
  using assms
proof (induction ops arbitrary: st t)
  case (Cons x ops)
  from Cons.prems have t: "t \<le> op_time x" and x: "\<not> enrolls (\<lambda>e. en_AccountID e = a \<and> en_DataSourceID e = s) x" by simp_all
  have "agents_ok (run_agent_op D st x)" using run_agent_op_step [OF Cons.prems(1)] by simp
  from Cons.IH [OF this cut_off_step [OF Cons.prems(1,2) t x]] Cons.prems(3,4) show ?case by (simp add: run_agent_ops_def)
qed (simp add: run_agent_ops_def)

lemma delete_cuts_off:
  assumes "agents_ok st" "DeleteDataSourceForAccount D now st a s u = (st', None)"
  shows "agents_ok st' \<and> cut_off a s now st'"
  using delete_step [OF assms, of 0] by (auto simp: cut_off_def time_key_def)

text \<open>An agent is found by its token only when it is active.\<close>

lemma found_agent:
  assumes "agents_ok st" "FindAgentByTokenHash D st h = Inr g"
  shows "registered st (agn_ID g) = Some g \<and> agn_TokenHash g = h \<and> agn_Status g = ''active''"
proof -
  from assms(2) have f: "coll_find (gd_Agents D) (gs_agents st) (\<lambda>g. agn_TokenHash g = h \<and> agn_Status g = ''active'') = Inr (Some g)"
    by (auto simp: FindAgentByTokenHash_def find_or_def split: sum.splits option.splits)
  have "coll_ok (gd_Agents D) (gs_agents st)" using assms(1) by (simp add: agents_ok_def)
  from doc_store.find_some [OF agents_store this f] registered_id [OF assms(1)] show ?thesis by auto
qed

end

subsection \<open>An in-memory instance\<close>

definition mem_agent_db :: "(data_source list, agent_enrollment list, agent list) agent_db" where
  "mem_agent_db =
     \<lparr>gd_Sources = mem_coll ds_ID, gd_SourcesB = mem_bulk, gd_Enrollments = mem_coll en_ID, gd_EnrollmentsB = mem_bulk,
      gd_Agents = mem_coll agn_ID, gd_AgentsB = mem_bulk\<rparr>"

interpretation mem_agents: agent_store mem_agent_db
  by (intro agent_store.intro) (simp_all add: mem_agent_db_def mem_coll_store mem_bulk_store, simp_all add: mem_coll_def)

definition mem_source :: data_source where
  "mem_source = default_source 1 2 1"

definition mem_enrollment :: agent_enrollment where
  "mem_enrollment = \<lparr>en_ID = 5, en_AccountID = 1, en_DataSourceID = 2, en_TokenHash = ''h'', en_Name = [], en_CreatedBy = 0,
     en_CreatedAt = Some 1, en_ExpiresAt = Some 100, en_UsedAt = None, en_RegisteredAgentID = 0\<rparr>"

definition mem_agent_state :: "(data_source list, agent_enrollment list, agent list) agent_state" where
  "mem_agent_state = \<lparr>gs_sources = [mem_source], gs_enrollments = [mem_enrollment], gs_agents = []\<rparr>"

lemma mem_agents_ok: "coll_ok (gd_Enrollments mem_agent_db) (gs_enrollments mem_agent_state)"
  "coll_ok (gd_Agents mem_agent_db) (gs_agents mem_agent_state)"
  by (simp_all add: mem_agent_db_def mem_agent_state_def mem_coll_def)

text \<open>
  The claim of an enrollment and the insertion of its agent are two operations. When the source is
  deleted between them, the agent is inserted after the agents of the source were disabled, and it
  keeps authenticating for the deleted source.
\<close>

lemma registration_can_outlive_deletion:
  "(case claim_enrollment mem_agent_db 10 7 mem_agent_state ''h'' of
      (st1, Inr e) \<Rightarrow>
        (case DeleteDataSourceForAccount mem_agent_db 11 st1 1 2 0 of
           (st2, None) \<Rightarrow>
             (case insert_agent mem_agent_db 10 7 st2 [] ''t'' e of
                (st3, Inr r) \<Rightarrow>
                  (case FindAgentByTokenHash mem_agent_db st3 ''t'' of
                     Inr g \<Rightarrow> agn_DataSourceID g = 2 \<and> GetDataSourceForAccount mem_agent_db st3 1 2 = Inl ErrDataSourceNotFound
                   | _ \<Rightarrow> False)
              | _ \<Rightarrow> False)
         | _ \<Rightarrow> False)
    | _ \<Rightarrow> False)"
  by code_simp

subsection \<open>Properties\<close>

text \<open>
  Property C33. An enrollment registers at most one agent: once a registration has returned an
  enrollment, no later registration returns it again, with whatever token and after any sequence of
  calls that does not create an enrollment under the same identifier, whatever the database answers.
\<close>

theorem enrollment_registers_once:
  assumes "agent_store D" "coll_ok (gd_Enrollments D) (gs_enrollments st)" "coll_ok (gd_Agents D) (gs_agents st)"
    and "RegisterAgentFromEnrollment D now i st h nm th = (st', Inr (g, e))"
    and "list_all (\<lambda>x. \<not> enrolls (\<lambda>y. en_ID y = en_ID e) x) ops"
  shows "case RegisterAgentFromEnrollment D now2 i2 (run_agent_ops D st' ops) h2 nm2 th2 of
      (st2, Inr (g2, e2)) \<Rightarrow> en_ID e2 \<noteq> en_ID e | (st2, Inl err) \<Rightarrow> True"
proof -
  have "agent_store.agents_ok D st" using assms(2,3) by (simp add: agent_store.agents_ok_def [OF assms(1)])
  from agent_store.registered_once [OF assms(1) this assms(4,5)] show ?thesis by (auto split: prod.split sum.split)
qed

lemma mem_registers:
  "case RegisterAgentFromEnrollment mem_agent_db 10 7 mem_agent_state ''h'' [] ''t'' of (st', Inr (g, e)) \<Rightarrow> True | _ \<Rightarrow> False"
  by code_simp

theorem enrollment_registers_once_witness:
  "\<exists>st' g e. RegisterAgentFromEnrollment mem_agent_db 10 7 mem_agent_state ''h'' [] ''t'' = (st', Inr (g, e)) \<and>
     (case RegisterAgentFromEnrollment mem_agent_db 12 8 (run_agent_ops mem_agent_db st' [OpAgentSeen 11 7]) ''h'' [] ''t2'' of
        (st2, Inr (g2, e2)) \<Rightarrow> en_ID e2 \<noteq> en_ID e | (st2, Inl err) \<Rightarrow> True)"
proof -
  obtain st' g e where r: "RegisterAgentFromEnrollment mem_agent_db 10 7 mem_agent_state ''h'' [] ''t'' = (st', Inr (g, e))"
    using mem_registers by (auto split: prod.splits sum.splits)
  from enrollment_registers_once [OF mem_agents.agent_store_axioms mem_agents_ok r, of "[OpAgentSeen 11 7]" 12 8 "''h''" "[]" "''t2''"] r
  show ?thesis by auto
qed

text \<open>
  Property C34. A deleted data source is cut off: after a successful deletion, and after any sequence
  of calls with clocks that do not run back and without a new enrollment for the source, no token
  authenticates an agent of the source and no registration succeeds for it, whatever the database
  answers.
\<close>

theorem deleted_source_is_cut_off:
  assumes "agent_store D" "coll_ok (gd_Enrollments D) (gs_enrollments st)" "coll_ok (gd_Agents D) (gs_agents st)"
    and "DeleteDataSourceForAccount D now st a s u = (st', None)"
    and "sorted (now # map op_time ops)" "last (now # map op_time ops) \<le> now2"
    and "list_all (\<lambda>x. \<not> enrolls (\<lambda>e. en_AccountID e = a \<and> en_DataSourceID e = s) x) ops"
  shows "(case FindAgentByTokenHash D (run_agent_ops D st' ops) h of
      Inr g \<Rightarrow> (agn_AccountID g, agn_DataSourceID g) \<noteq> (a, s) | Inl err \<Rightarrow> True) \<and>
    (case RegisterAgentFromEnrollment D now2 i (run_agent_ops D st' ops) h nm th of
      (st2, Inr (g, e)) \<Rightarrow> (en_AccountID e, en_DataSourceID e) \<noteq> (a, s) | (st2, Inl err) \<Rightarrow> True)"
proof (rule conjI)
  have ok: "agent_store.agents_ok D st" using assms(2,3) by (simp add: agent_store.agents_ok_def [OF assms(1)])
  note del = agent_store.delete_cuts_off [OF assms(1) ok assms(4)]
  note ok' = agent_store.run_agent_ops_ok [OF assms(1) conjunct1 [OF del], of ops]
  have cut: "agent_store.cut_off D a s now2 (run_agent_ops D st' ops)"
    by (rule agent_store.cut_off_later [OF assms(1) agent_store.run_agent_ops_cut_off [OF assms(1) conjunct1 [OF del]
          conjunct2 [OF del] assms(5,7)] assms(6)])
  show "case FindAgentByTokenHash D (run_agent_ops D st' ops) h of
      Inr g \<Rightarrow> (agn_AccountID g, agn_DataSourceID g) \<noteq> (a, s) | Inl err \<Rightarrow> True"
  proof (cases "FindAgentByTokenHash D (run_agent_ops D st' ops) h")
    case (Inr g)
    from agent_store.found_agent [OF assms(1) ok' this] have g: "agn_Status g = ''active''"
      "coll_docs (gd_Agents D) (gs_agents (run_agent_ops D st' ops)) (agn_ID g) = Some g" by blast+
    from cut g(2) have "\<not> active_agent a s g" unfolding agent_store.cut_off_def [OF assms(1)] by blast
    with g(1) Inr show ?thesis by (auto simp: active_agent_def)
  qed simp
  show "case RegisterAgentFromEnrollment D now2 i (run_agent_ops D st' ops) h nm th of
      (st2, Inr (g, e)) \<Rightarrow> (en_AccountID e, en_DataSourceID e) \<noteq> (a, s) | (st2, Inl err) \<Rightarrow> True"
  proof (cases "RegisterAgentFromEnrollment D now2 i (run_agent_ops D st' ops) h nm th")
    case (Pair st2 r)
    show ?thesis
    proof (cases r)
      case (Inr ge)
      obtain g e where ge: "ge = (g, e)" by fastforce
      from agent_store.register_step [OF assms(1) ok' Pair, of 0] obtain k e0 where
        "coll_docs (gd_Enrollments D) (gs_enrollments (run_agent_ops D st' ops)) k = Some e0" "usable_enrollment now2 h e0" "e = use_doc now2 i e0"
        by (auto simp: Inr ge)
      with cut show ?thesis unfolding Pair Inr ge
        by (fastforce simp: agent_store.cut_off_def [OF assms(1)] open_enrollment_def usable_enrollment_def)
    qed (simp add: Pair)
  qed
qed

lemma mem_deletes:
  "snd (DeleteDataSourceForAccount mem_agent_db 10 mem_agent_state 1 2 0) = None"
  by code_simp

theorem deleted_source_is_cut_off_witness:
  "\<exists>st'. DeleteDataSourceForAccount mem_agent_db 10 mem_agent_state 1 2 0 = (st', None) \<and>
     (case RegisterAgentFromEnrollment mem_agent_db 12 8 (run_agent_ops mem_agent_db st' [OpAgentSeen 11 7]) ''h'' [] ''t'' of
        (st2, Inr (g, e)) \<Rightarrow> (en_AccountID e, en_DataSourceID e) \<noteq> (1, 2) | (st2, Inl err) \<Rightarrow> True)"
proof -
  obtain st' where d: "DeleteDataSourceForAccount mem_agent_db 10 mem_agent_state 1 2 0 = (st', None)"
    using mem_deletes by (cases "DeleteDataSourceForAccount mem_agent_db 10 mem_agent_state 1 2 0") auto
  from deleted_source_is_cut_off [OF mem_agents.agent_store_axioms mem_agents_ok d, of "[OpAgentSeen 11 7]" 12 "''h''" 8 "[]" "''t''"] d
  show ?thesis by auto
qed

end
