(* ===== verification/Agents_Api.thy ===== *)
theory Agents_Api
  imports Ingest Agent_Logic Accounts Scan_Secrets
begin

text \<open>
  The routes of data sources, enrollments and agents: \<open>internal/api/quickstart_handlers.go\<close> and
  \<open>internal/api/agent_handlers.go\<close>, over the store of \<open>Agent_Store\<close>. A decoded body is
  \<open>None\<close> when the JSON does not decode. The state is the three collections and the
  entries handed to \<open>SaveAuditLog\<close>, whose error the handlers drop.
\<close>

subsection \<open>The environment\<close>

record ('d, 'e, 'g) agents_env =
  qe_db :: "('d, 'e, 'g) agent_db"
  qe_now :: "nat \<Rightarrow> int"
  qe_new_id :: object_id
  qe_random :: "string option"
  qe_Hash :: "string \<Rightarrow> string"
  qe_Hex :: "object_id \<Rightarrow> string"
  qe_FromHex :: "string \<Rightarrow> string + object_id"
  qe_inventory :: "db_error + api_inventory list"

type_synonym ('d, 'e, 'g) agents_world = "('d, 'e, 'g) agent_state \<times> audit_log list"

subsection \<open>Requests and replies\<close>

record connector_response =
  cn_Key :: string
  cn_Label :: string
  cn_Description :: string
  cn_Category :: string
  cn_Recommended :: bool

record data_source_request =
  dq_Type :: string
  dq_Name :: string
  dq_TargetURL :: string
  dq_Config :: "string gomap"

record data_source_response =
  dr_ID :: string
  dr_Type :: string
  dr_Name :: string
  dr_Status :: string
  dr_TargetURL :: string
  dr_Config :: "string gomap"
  dr_CreatedAt :: gotime
  dr_UpdatedAt :: gotime

record quick_start_response =
  qs_ConfiguredItems :: "string list"
  qs_InventoryCount :: int
  qs_DataSources :: "data_source_response list"
  qs_Connectors :: "connector_response list"

record enrollment_request =
  eq_DataSourceID :: string
  eq_Name :: string
  eq_TTLHours :: int

record enrollment_response =
  er_EnrollmentID :: string
  er_DataSourceID :: string
  er_EnrollmentToken :: string
  er_ExpiresAt :: gotime
  er_RegistrationCommand :: string
  er_AgentRunHint :: string

record register_request =
  gq_EnrollmentToken :: string
  gq_AgentName :: string

record register_response =
  gr_AgentID :: string
  gr_AccountID :: string
  gr_DataSourceID :: string
  gr_AgentToken :: string
  gr_TokenType :: string

record heartbeat_response =
  hb_Status :: string
  hb_AgentID :: string
  hb_ServerTime :: gotime
  hb_ConfigPollIntervalSeconds :: int

record agent_config_response =
  ac_SchemaVersion :: string
  ac_ConfigVersion :: string
  ac_AgentID :: string
  ac_DataSourceID :: string
  ac_ServerTime :: gotime
  ac_PollIntervalSeconds :: int
  ac_HeartbeatIntervalSeconds :: int
  ac_TargetPorts :: "int list"
  ac_IgnorePorts :: "int list"
  ac_CaptureInbound :: bool
  ac_CaptureOutbound :: bool
  ac_CaptureReadSyscalls :: bool
  ac_CaptureWriteSyscalls :: bool
  ac_AllowNonSocketFDs :: bool
  ac_MaxPayloadSize :: int

datatype agents_reply =
    AgentsError nat string
  | QuickStartReply quick_start_response
  | SourcesReply "data_source_response list"
  | SourceReply nat data_source_response
  | NoContent
  | EnrollmentReply nat enrollment_response
  | RegisterReply nat register_response
  | HeartbeatReply heartbeat_response
  | ConfigReply agent_config_response

subsection \<open>Data sources\<close>

definition dataSourceResponse :: "(object_id \<Rightarrow> string) \<Rightarrow> data_source \<Rightarrow> data_source_response" where
  "dataSourceResponse Hex s =
     \<lparr>dr_ID = Hex (ds_ID s), dr_Type = ds_Type s, dr_Name = ds_Name s, dr_Status = ds_Status s, dr_TargetURL = ds_TargetURL s,
      dr_Config = ds_Config s, dr_CreatedAt = ds_CreatedAt s, dr_UpdatedAt = ds_UpdatedAt s\<rparr>"

definition quickStartConnectors :: "connector_response list" where
  "quickStartConnectors =
     [\<lparr>cn_Key = DataSourceTypeActiveURL, cn_Label = ''Active URL Scan'',
       cn_Description = ''Crawl and actively test a reachable API or web application URL.'', cn_Category = ''DAST'', cn_Recommended = True\<rparr>,
      \<lparr>cn_Key = DataSourceTypeEBPFLinux, cn_Label = ''eBPF Linux Agent'',
       cn_Description = ''Passively capture live API traffic from a Linux host.'', cn_Category = ''Runtime'', cn_Recommended = True\<rparr>,
      \<lparr>cn_Key = DataSourceTypeEBPFKubernetes, cn_Label = ''eBPF Kubernetes Agent'',
       cn_Description = ''Deploy the eBPF agent as a Kubernetes node-level collector.'', cn_Category = ''Runtime'', cn_Recommended = False\<rparr>,
      \<lparr>cn_Key = DataSourceTypeOpenAPI, cn_Label = ''OpenAPI Import'',
       cn_Description = ''Import endpoints from an OpenAPI or Swagger specification.'', cn_Category = ''Import'', cn_Recommended = False\<rparr>,
      \<lparr>cn_Key = DataSourceTypePostman, cn_Label = ''Postman Import'',
       cn_Description = ''Import endpoints from a Postman collection.'', cn_Category = ''Import'', cn_Recommended = False\<rparr>,
      \<lparr>cn_Key = DataSourceTypeHAR, cn_Label = ''HAR Upload'',
       cn_Description = ''Import browser-captured HTTP traffic from a HAR file.'', cn_Category = ''Manual'', cn_Recommended = False\<rparr>]"

definition defaultDataSourceName :: "string \<Rightarrow> string" where
  "defaultDataSourceName sourceType =
     (case find (\<lambda>c. cn_Key c = sourceType) quickStartConnectors of Some c \<Rightarrow> cn_Label c | None \<Rightarrow> ''Karaxys data source'')"

definition validateDataSourceType :: "string \<Rightarrow> string option" where
  "validateDataSourceType value0 =
     (let v = to_upper (trim_space value0) in
      if v \<in> {DataSourceTypeActiveURL, DataSourceTypeEBPFLinux, DataSourceTypeEBPFKubernetes, DataSourceTypeOpenAPI,
        DataSourceTypePostman, DataSourceTypeHAR} then Some v else None)"

definition validateHTTPURL :: "string \<Rightarrow> string option" where
  "validateHTTPURL value0 =
     (case ParseRequestURI value0 of
        None \<Rightarrow> Some ''target_url must be an absolute http(s) URL''
      | Some parsed \<Rightarrow>
          if u_Scheme parsed = [] \<or> u_Host parsed = [] then Some ''target_url must be an absolute http(s) URL''
          else if u_Scheme parsed \<noteq> ''http'' \<and> u_Scheme parsed \<noteq> ''https'' then Some ''target_url must use http or https''
          else None)"

definition is_secret_key :: "string \<Rightarrow> bool" where
  "is_secret_key key \<longleftrightarrow>
     (let lower = to_lower key in
      contains_str lower ''token'' \<or> contains_str lower ''secret'' \<or> contains_str lower ''password'' \<or> contains_str lower ''key'')"

text \<open>The map is visited in the order of the list; two keys that trim to the same one are the only case where it shows.\<close>

fun sanitize_from :: "string gomap \<Rightarrow> string gomap \<Rightarrow> string gomap" where
  "sanitize_from out [] = out"
| "sanitize_from out ((key0, value) # rest) =
     (let key = trim_space key0 in
      if key = [] then sanitize_from out rest
      else if is_secret_key key then sanitize_from out rest
      else sanitize_from (AList.update key (trim_space value) out) rest)"

definition sanitizedSourceConfig :: "string gomap \<Rightarrow> string gomap" where
  "sanitizedSourceConfig input = sanitize_from [] input"

definition zero_principal :: principal where
  "zero_principal = \<lparr>pr_Subject = [], pr_ActorType = [], pr_UserID = [], pr_AccountID = [], pr_Role = []\<rparr>"

definition auditDataSource :: "Http_Auth.http_req \<Rightarrow> string \<Rightarrow> string \<Rightarrow> string \<Rightarrow> string \<Rightarrow> audit_log" where
  "auditDataSource q action status resourceID message =
     (let p = (case rx_Principal q of Some p \<Rightarrow> p | None \<Rightarrow> zero_principal)
      in \<lparr>adt_ID = 0, adt_CreatedAt = None, adt_ActorType = (if pr_ActorType p = [] then ''user'' else pr_ActorType p),
          adt_ActorID = (if pr_UserID p = [] then (case rx_Subject q of None \<Rightarrow> [] | Some s \<Rightarrow> s) else pr_UserID p),
          adt_Action = action, adt_ResourceType = ''data_source'', adt_ResourceID = resourceID, adt_Status = status,
          adt_RemoteAddr = clientID q, adt_Message = message, adt_Metadata = [(''account_id'', pr_AccountID p)]\<rparr>)"

text \<open>The caller with one of the roles and the account it must have, and its user.\<close>

definition with_account ::
  "('d, 'e, 'g) agents_env \<Rightarrow> string list \<Rightarrow> Http_Auth.http_req \<Rightarrow> (nat \<times> string) + principal" where
  "with_account E roles q =
     (case requireRoles q roles of
        Inl e \<Rightarrow> Inl e
      | Inr p \<Rightarrow> if pr_AccountID p = [] then Inl (401, ''Unauthorized'') else Inr p)"

definition account_of :: "('d, 'e, 'g) agents_env \<Rightarrow> principal \<Rightarrow> (nat \<times> string) + object_id" where
  "account_of E p = (case qe_FromHex E (pr_AccountID p) of Inl err \<Rightarrow> Inl (401, ''Invalid account'') | Inr a \<Rightarrow> Inr a)"

definition user_of :: "('d, 'e, 'g) agents_env \<Rightarrow> principal \<Rightarrow> (nat \<times> string) + object_id" where
  "user_of E p =
     (if pr_UserID p = [] then Inr 0
      else (case qe_FromHex E (pr_UserID p) of Inl err \<Rightarrow> Inl (401, ''Invalid user'') | Inr u \<Rightarrow> Inr u))"

definition list_sources ::
  "('d, 'e, 'g) agents_env \<Rightarrow> Http_Auth.http_req \<Rightarrow> ('d, 'e, 'g) agents_world \<Rightarrow> (nat \<times> string) + object_id \<times> data_source list" where
  "list_sources E q w =
     (case with_account E readRoles q of
        Inl e \<Rightarrow> Inl e
      | Inr p \<Rightarrow>
          (case account_of E p of
             Inl e \<Rightarrow> Inl e
           | Inr accountID \<Rightarrow>
               (case ListDataSources (qe_db E) (fst w) accountID of
                  Inl err \<Rightarrow> Inl (500, ''Failed to load data sources'')
                | Inr sources \<Rightarrow> Inr (accountID, sources))))"

text \<open>The endpoints of an account, of all accounts for the zero identifier.\<close>

definition CountInventoryForAccount :: "('d, 'e, 'g) agents_env \<Rightarrow> object_id \<Rightarrow> db_error + int" where
  "CountInventoryForAccount E accountID =
     map_sum id (\<lambda>docs. int (length (filter (\<lambda>i. accountID = 0 \<or> inv_TenantID i = qe_Hex E accountID) docs))) (qe_inventory E)"

definition handleQuickStartState :: "('d, 'e, 'g) agents_env \<Rightarrow> Http_Auth.http_req \<Rightarrow> ('d, 'e, 'g) agents_world \<Rightarrow> agents_reply" where
  "handleQuickStartState E q w =
     (case list_sources E q w of
        Inl (code, msg) \<Rightarrow> AgentsError code msg
      | Inr (accountID, sources) \<Rightarrow>
          (case CountInventoryForAccount E accountID of
             Inl err \<Rightarrow> AgentsError 500 ''Failed to load inventory state''
           | Inr inventoryCount \<Rightarrow>
               QuickStartReply \<lparr>qs_ConfiguredItems = map ds_Type sources @ (if inventoryCount > 0 then [''INVENTORY''] else []),
                 qs_InventoryCount = inventoryCount, qs_DataSources = map (dataSourceResponse (qe_Hex E)) sources,
                 qs_Connectors = quickStartConnectors\<rparr>))"

definition handleListDataSources :: "('d, 'e, 'g) agents_env \<Rightarrow> Http_Auth.http_req \<Rightarrow> ('d, 'e, 'g) agents_world \<Rightarrow> agents_reply" where
  "handleListDataSources E q w =
     (case list_sources E q w of
        Inl (code, msg) \<Rightarrow> AgentsError code msg
      | Inr (accountID, sources) \<Rightarrow> SourcesReply (map (dataSourceResponse (qe_Hex E)) sources))"

text \<open>The type and the target of a request, checked.\<close>

definition checked_source :: "data_source_request \<Rightarrow> (nat \<times> string) + string \<times> string" where
  "checked_source req =
     (case validateDataSourceType (dq_Type req) of
        None \<Rightarrow> Inl (400, ''unsupported data source type'')
      | Some sourceType \<Rightarrow>
          (let targetURL = trim_space (dq_TargetURL req) in
           if sourceType = DataSourceTypeActiveURL \<and> validateHTTPURL targetURL \<noteq> None
           then Inl (400, the (validateHTTPURL targetURL)) else Inr (sourceType, targetURL)))"

definition handleCreateDataSource ::
  "('d, 'e, 'g) agents_env \<Rightarrow> Http_Auth.http_req \<Rightarrow> data_source_request option \<Rightarrow> ('d, 'e, 'g) agents_world \<Rightarrow>
     ('d, 'e, 'g) agents_world \<times> agents_reply" where
  "handleCreateDataSource E q body w =
     (case with_account E adminOnlyRoles q of
        Inl (code, msg) \<Rightarrow> (w, AgentsError code msg)
      | Inr p \<Rightarrow>
     (case body of
        None \<Rightarrow> (w, AgentsError 400 ''Invalid JSON'')
      | Some req \<Rightarrow>
     (case checked_source req of
        Inl (code, msg) \<Rightarrow> (w, AgentsError code msg)
      | Inr (sourceType, targetURL) \<Rightarrow>
     (case account_of E p of
        Inl (code, msg) \<Rightarrow> (w, AgentsError code msg)
      | Inr accountID \<Rightarrow>
     (case user_of E p of
        Inl (code, msg) \<Rightarrow> (w, AgentsError code msg)
      | Inr userID \<Rightarrow>
     (let name = (if trim_space (dq_Name req) = [] then defaultDataSourceName sourceType else trim_space (dq_Name req)) in
      case CreateDataSource (qe_db E) (qe_now E 0) (qe_new_id E) (fst w)
          \<lparr>ds_ID = 0, ds_AccountID = accountID, ds_Type = sourceType, ds_ConnectorType = [], ds_Environment = [], ds_Name = name,
           ds_Status = DataSourceStatusPending, ds_TargetURL = targetURL, ds_Config = sanitizedSourceConfig (dq_Config req),
           ds_LastTrafficSeenAt = None, ds_CreatedBy = userID, ds_DeletedBy = 0, ds_DeletedAt = None, ds_CreatedAt = None,
           ds_UpdatedAt = None\<rparr> of
        (st, Inl err) \<Rightarrow> ((st, snd w), AgentsError 500 ''Failed to create data source'')
      | (st, Inr source) \<Rightarrow>
          ((st, snd w @ [auditDataSource q ''data_source.create'' ''success'' (qe_Hex E (ds_ID source)) []]),
           SourceReply 201 (dataSourceResponse (qe_Hex E) source))))))))"

text \<open>\<open>idStr\<close> is the path value of the route.\<close>

definition handleDeleteDataSource ::
  "('d, 'e, 'g) agents_env \<Rightarrow> Http_Auth.http_req \<Rightarrow> string \<Rightarrow> ('d, 'e, 'g) agents_world \<Rightarrow> ('d, 'e, 'g) agents_world \<times> agents_reply" where
  "handleDeleteDataSource E q idStr w =
     (let entry = auditDataSource q ''data_source.delete'' in
     (case with_account E adminOnlyRoles q of
        Inl (code, msg) \<Rightarrow> (w, AgentsError code msg)
      | Inr p \<Rightarrow>
     (case account_of E p of
        Inl (code, msg) \<Rightarrow> (w, AgentsError code msg)
      | Inr accountID \<Rightarrow>
     (case qe_FromHex E (trim_space idStr) of
        Inl err \<Rightarrow> ((fst w, snd w @ [entry ''failure'' [] ''invalid data source id'']), AgentsError 400 ''Invalid data source ID'')
      | Inr sourceID \<Rightarrow>
     (case user_of E p of
        Inl (code, msg) \<Rightarrow> (w, AgentsError code msg)
      | Inr deletedBy \<Rightarrow>
     (case DeleteDataSourceForAccount (qe_db E) (qe_now E 0) (fst w) accountID sourceID deletedBy of
        (st, Some ErrDataSourceNotFound) \<Rightarrow>
          ((st, snd w @ [entry ''failure'' (qe_Hex E sourceID) ''data source not found'']), AgentsError 404 ''Data source not found'')
      | (st, Some err) \<Rightarrow> ((st, snd w @ [entry ''failure'' (qe_Hex E sourceID) ''delete failed'']), AgentsError 500 ''Delete failed'')
      | (st, None) \<Rightarrow> ((st, snd w @ [entry ''success'' (qe_Hex E sourceID) []]), NoContent)))))))"

subsection \<open>Enrollments\<close>

definition is_ebpf :: "data_source \<Rightarrow> bool" where
  "is_ebpf s \<longleftrightarrow> ds_Type s = DataSourceTypeEBPFLinux \<or> ds_Type s = DataSourceTypeEBPFKubernetes"

text \<open>The lifetime of an enrollment; the product of \<open>time.Duration\<close> wraps around.\<close>

definition enrollment_ttl :: "int \<Rightarrow> int" where
  "enrollment_ttl hours =
     (let ttl0 = wrap64 (hours * hour); ttl1 = (if ttl0 \<le> 0 then 24 * hour else ttl0)
      in if ttl1 > 7 * 24 * hour then 7 * 24 * hour else ttl1)"

definition shellSafeName :: "string \<Rightarrow> string" where
  "shellSafeName value0 =
     (let v = trim_space value0 in if v = [] then ''karaxys-ebpf-agent'' else filter (\<lambda>c. c \<noteq> CHR 0x27) v)"

text \<open>The JSON body of the command, the argument that the command quotes.\<close>

definition registration_body :: "string \<Rightarrow> string \<Rightarrow> string" where
  "registration_body tok name =
     ''{'' @ [CHR 0x22] @ ''enrollment_token'' @ [CHR 0x22] @ '':'' @ [CHR 0x22] @ tok @ [CHR 0x22] @ '','' @
     [CHR 0x22] @ ''agent_name'' @ [CHR 0x22] @ '':'' @ [CHR 0x22] @ shellSafeName name @ [CHR 0x22] @ ''}''"

definition registration_command :: "string \<Rightarrow> string \<Rightarrow> string" where
  "registration_command tok name =
     ''curl -s -X POST '' @ [CHR 0x22] @ ''$KARAXYS_BACKEND_URL/agents/register'' @ [CHR 0x22] @ '' -H '' @ [CHR 0x22] @
     ''Content-Type: application/json'' @ [CHR 0x22] @ '' -d '' @ quoted (registration_body tok name)"

definition handleCreateAgentEnrollment ::
  "('d, 'e, 'g) agents_env \<Rightarrow> Http_Auth.http_req \<Rightarrow> enrollment_request option \<Rightarrow> ('d, 'e, 'g) agents_world \<Rightarrow>
     ('d, 'e, 'g) agents_world \<times> agents_reply" where
  "handleCreateAgentEnrollment E q body w =
     (case with_account E adminOnlyRoles q of
        Inl (code, msg) \<Rightarrow> (w, AgentsError code msg)
      | Inr p \<Rightarrow>
     (case body of
        None \<Rightarrow> (w, AgentsError 400 ''Invalid JSON'')
      | Some req \<Rightarrow>
     (case qe_FromHex E (trim_space (eq_DataSourceID req)) of
        Inl err \<Rightarrow> (w, AgentsError 400 ''Invalid data_source_id'')
      | Inr sourceID \<Rightarrow>
     (case account_of E p of
        Inl (code, msg) \<Rightarrow> (w, AgentsError code msg)
      | Inr accountID \<Rightarrow>
     (case user_of E p of
        Inl (code, msg) \<Rightarrow> (w, AgentsError code msg)
      | Inr userID \<Rightarrow>
     (case GetDataSourceForAccount (qe_db E) (fst w) accountID sourceID of
        Inl err \<Rightarrow> (w, if err = ErrDataSourceNotFound then AgentsError 404 ''Data source not found''
                        else AgentsError 500 ''Failed to load data source'')
      | Inr source \<Rightarrow>
     (if \<not> is_ebpf source then (w, AgentsError 400 ''Agent enrollment is only valid for eBPF data sources'')
      else (case token_Generate (qe_random E) ''kx_enroll'' of
          None \<Rightarrow> (w, AgentsError 500 ''Token generation failed'')
        | Some token0 \<Rightarrow>
     (case CreateAgentEnrollment (qe_db E) (qe_now E 1) (qe_new_id E) (fst w)
          \<lparr>en_ID = 0, en_AccountID = accountID, en_DataSourceID = ds_ID source, en_TokenHash = qe_Hash E token0,
           en_Name = trim_space (eq_Name req), en_CreatedBy = userID, en_CreatedAt = None,
           en_ExpiresAt = Some (qe_now E 0 + enrollment_ttl (eq_TTLHours req)), en_UsedAt = None, en_RegisteredAgentID = 0\<rparr> of
        (st, Inl err) \<Rightarrow> ((st, snd w), AgentsError 500 ''Failed to create enrollment'')
      | (st, Inr enrollment) \<Rightarrow>
          ((st, snd w @ [auditDataSource q ''agent_enrollment.create'' ''success'' (qe_Hex E (en_ID enrollment)) []]),
           EnrollmentReply 201 \<lparr>er_EnrollmentID = qe_Hex E (en_ID enrollment), er_DataSourceID = qe_Hex E (ds_ID source),
             er_EnrollmentToken = token0, er_ExpiresAt = en_ExpiresAt enrollment,
             er_RegistrationCommand = registration_command token0 (en_Name enrollment),
             er_AgentRunHint = ''KARAXYS_BACKEND_URL=http://127.0.0.1:8081 KARAXYS_ENROLLMENT_TOKEN=<token> make local-vampi''\<rparr>))))))))))"

definition error_text :: "agent_error \<Rightarrow> string" where
  "error_text err = (case err of
      ErrDataSourceNotFound \<Rightarrow> ''data source not found''
    | ErrEnrollmentNotFound \<Rightarrow> ''agent enrollment token is invalid or expired''
    | ErrEnrollmentAlreadyUsed \<Rightarrow> ''agent enrollment token has already been used''
    | ErrAgentNotFound \<Rightarrow> ''agent not found''
    | AgentErr e \<Rightarrow> e)"

definition handleRegisterAgent ::
  "('d, 'e, 'g) agents_env \<Rightarrow> Http_Auth.http_req \<Rightarrow> register_request option \<Rightarrow> ('d, 'e, 'g) agents_world \<Rightarrow>
     ('d, 'e, 'g) agents_world \<times> agents_reply" where
  "handleRegisterAgent E q body w =
     (case body of
        None \<Rightarrow> (w, AgentsError 400 ''Invalid JSON'')
      | Some req \<Rightarrow>
     (if trim_space (gq_EnrollmentToken req) = [] then (w, AgentsError 400 ''enrollment_token is required'')
      else (case token_Generate (qe_random E) ''kx_agent'' of
          None \<Rightarrow> (w, AgentsError 500 ''Token generation failed'')
        | Some agentToken \<Rightarrow>
     (case RegisterAgentFromEnrollment (qe_db E) (qe_now E 0) (qe_new_id E) (fst w) (qe_Hash E (trim_space (gq_EnrollmentToken req)))
          (trim_space (gq_AgentName req)) (qe_Hash E agentToken) of
        (st, Inl err) \<Rightarrow> ((st, snd w), AgentsError (if err = ErrEnrollmentAlreadyUsed then 409 else 401) (error_text err))
      | (st, Inr (g, enrollment)) \<Rightarrow>
          ((st, snd w @ [\<lparr>adt_ID = 0, adt_CreatedAt = None, adt_ActorType = ''agent'', adt_ActorID = qe_Hex E (agn_ID g),
              adt_Action = ''agent.register'', adt_ResourceType = ''agent'', adt_ResourceID = qe_Hex E (agn_ID g), adt_Status = ''success'',
              adt_RemoteAddr = clientID q, adt_Message = [],
              adt_Metadata = [(''data_source_id'', qe_Hex E (en_DataSourceID enrollment)), (''account_id'', qe_Hex E (en_AccountID enrollment))]\<rparr>]),
           RegisterReply 201 \<lparr>gr_AgentID = qe_Hex E (agn_ID g), gr_AccountID = qe_Hex E (agn_AccountID g),
             gr_DataSourceID = qe_Hex E (agn_DataSourceID g), gr_AgentToken = agentToken, gr_TokenType = ''Bearer''\<rparr>)))))"

subsection \<open>The control channel of an agent\<close>

text \<open>The authenticator over the store; the agent found is marked as seen, an error of which is ignored.\<close>

definition authenticateAgentToken ::
  "('d, 'e, 'g) agents_env \<Rightarrow> ('d, 'e, 'g) agents_world \<Rightarrow> string \<Rightarrow> ('d, 'e, 'g) agents_world \<times> agent_auth option" where
  "authenticateAgentToken E w tok =
     MongoAgentAuthenticator
       (\<lambda>w h. (w, case FindAgentByTokenHash (qe_db E) (fst w) h of
           Inl err \<Rightarrow> Inl (error_text err)
         | Inr g \<Rightarrow> Inr \<lparr>ag_ID = agn_ID g, ag_AccountID = agn_AccountID g, ag_DataSourceID = agn_DataSourceID g\<rparr>))
       (\<lambda>w i. (fst (MarkAgentSeen (qe_db E) (qe_now E 0) (fst w) i), snd w))
       (qe_Hash E) (qe_Hex E) w tok"

definition authorizeAgentControl ::
  "('d, 'e, 'g) agents_env \<Rightarrow> Http_Auth.http_req \<Rightarrow> ('d, 'e, 'g) agents_world \<Rightarrow>
     ('d, 'e, 'g) agents_world \<times> ((nat \<times> string) + agent_auth)" where
  "authorizeAgentControl E q w =
     (let tok0 = api_bearerToken (rx_Header q ''Authorization'');
          tok = (if tok0 = [] then trim_space (rx_Header q ''X-API-Key'') else tok0)
      in if tok = [] then (w, Inl (401, ''Missing agent token''))
         else (case authenticateAgentToken E w tok of
             (w', None) \<Rightarrow> (w', Inl (401, ''Invalid agent token''))
           | (w', Some auth) \<Rightarrow> (w', if aa_AgentID auth = [] then Inl (401, ''Invalid agent token'') else Inr auth)))"

definition defaultAgentConfigPollSeconds :: int where "defaultAgentConfigPollSeconds = 30"
definition defaultAgentHeartbeatSeconds :: int where "defaultAgentHeartbeatSeconds = 30"
definition defaultAgentMaxPayloadSize :: int where "defaultAgentMaxPayloadSize = 4096 * 4"
definition defaultAgentIgnoredPorts :: string where "defaultAgentIgnoredPorts = ''9092,27017,6379''"
definition minAgentIntervalSeconds :: int where "minAgentIntervalSeconds = 5"
definition maxAgentIntervalSeconds :: int where "maxAgentIntervalSeconds = 3600"

text \<open>\<open>body\<close> is the request of a heartbeat, of which nothing is used: no body, or whether it decodes (an empty one does).\<close>

definition handleAgentHeartbeat ::
  "('d, 'e, 'g) agents_env \<Rightarrow> Http_Auth.http_req \<Rightarrow> bool option \<Rightarrow> ('d, 'e, 'g) agents_world \<Rightarrow> ('d, 'e, 'g) agents_world \<times> agents_reply" where
  "handleAgentHeartbeat E q body w =
     (case authorizeAgentControl E q w of
        (w', Inl (code, msg)) \<Rightarrow> (w', AgentsError code msg)
      | (w', Inr auth) \<Rightarrow>
          (w', if body = Some False then AgentsError 400 ''Invalid JSON''
               else HeartbeatReply \<lparr>hb_Status = ''ok'', hb_AgentID = aa_AgentID auth, hb_ServerTime = Some (qe_now E 1),
                 hb_ConfigPollIntervalSeconds = defaultAgentConfigPollSeconds\<rparr>))"

fun firstConfigValue :: "string gomap \<Rightarrow> string list \<Rightarrow> string" where
  "firstConfigValue cfg [] = []"
| "firstConfigValue cfg (k # ks) =
     (let v = trim_space (str_at cfg k) in if v \<noteq> [] then v else firstConfigValue cfg ks)"

definition config_port :: "string \<Rightarrow> int option" where
  "config_port part =
     (let p = trim_space part in
      if p = [] then None
      else (case atoi p of None \<Rightarrow> None | Some port \<Rightarrow> if port \<le> 0 \<or> port > 65535 then None else Some port))"

definition parseAgentConfigPorts :: "string \<Rightarrow> int list" where
  "parseAgentConfigPorts raw = sort (remdups (List.map_filter config_port (split_on (CHR '','') raw)))"

definition targetPortsFromURL :: "string \<Rightarrow> int list" where
  "targetPortsFromURL raw =
     (if trim_space raw = [] then []
      else (case url_Parse raw of
          None \<Rightarrow> []
        | Some parsed \<Rightarrow>
            if Port parsed \<noteq> [] then parseAgentConfigPorts (Port parsed)
            else if to_lower (u_Scheme parsed) = ''http'' then [80]
            else if to_lower (u_Scheme parsed) = ''https'' then [443]
            else []))"

definition boundedConfigInt :: "string gomap \<Rightarrow> string \<Rightarrow> int \<Rightarrow> int \<Rightarrow> int \<Rightarrow> int" where
  "boundedConfigInt cfg k fallback lo hi =
     (let v = (case atoi (trim_space (str_at cfg k)) of None \<Rightarrow> fallback | Some n \<Rightarrow> n)
      in if v < lo then lo else if v > hi then hi else v)"

definition configBool :: "string gomap \<Rightarrow> string \<Rightarrow> bool \<Rightarrow> bool" where
  "configBool cfg k fallback =
     (let raw = trim_space (str_at cfg k) in
      if raw = [] then fallback else (case parse_bool raw of None \<Rightarrow> fallback | Some b \<Rightarrow> b))"

definition int_text :: "int \<Rightarrow> string" where
  "int_text n = (if n < 0 then CHR ''-'' # itoa (nat (- n)) else itoa (nat n))"

definition agentConfigResponse :: "(object_id \<Rightarrow> string) \<Rightarrow> int \<Rightarrow> agent_auth \<Rightarrow> data_source \<Rightarrow> agent_config_response" where
  "agentConfigResponse Hex now auth source =
     (let cfg = ds_Config source;
          targets0 = parseAgentConfigPorts (firstConfigValue cfg [''target_ports'', ''target_port'']);
          ignored0 = parseAgentConfigPorts (firstConfigValue cfg [''ignore_ports'', ''ignored_ports''])
      in \<lparr>ac_SchemaVersion = ''agent.config.v1'',
          ac_ConfigVersion = Hex (ds_ID source) @ '':'' @ int_text (time_key (ds_UpdatedAt source) div second),
          ac_AgentID = aa_AgentID auth, ac_DataSourceID = Hex (ds_ID source), ac_ServerTime = Some now,
          ac_PollIntervalSeconds = boundedConfigInt cfg ''config_poll_seconds'' defaultAgentConfigPollSeconds minAgentIntervalSeconds maxAgentIntervalSeconds,
          ac_HeartbeatIntervalSeconds = boundedConfigInt cfg ''heartbeat_seconds'' defaultAgentHeartbeatSeconds minAgentIntervalSeconds maxAgentIntervalSeconds,
          ac_TargetPorts = (if targets0 = [] then targetPortsFromURL (ds_TargetURL source) else targets0),
          ac_IgnorePorts = (if ignored0 = [] then parseAgentConfigPorts defaultAgentIgnoredPorts else ignored0),
          ac_CaptureInbound = configBool cfg ''capture_inbound'' True,
          ac_CaptureOutbound = configBool cfg ''capture_outbound'' True,
          ac_CaptureReadSyscalls = configBool cfg ''capture_read_syscalls'' True,
          ac_CaptureWriteSyscalls = configBool cfg ''capture_write_syscalls'' True,
          ac_AllowNonSocketFDs = configBool cfg ''allow_non_socket_fds'' False,
          ac_MaxPayloadSize = boundedConfigInt cfg ''max_payload_size'' defaultAgentMaxPayloadSize 1 defaultAgentMaxPayloadSize\<rparr>)"

definition handleAgentConfig ::
  "('d, 'e, 'g) agents_env \<Rightarrow> Http_Auth.http_req \<Rightarrow> ('d, 'e, 'g) agents_world \<Rightarrow> ('d, 'e, 'g) agents_world \<times> agents_reply" where
  "handleAgentConfig E q w =
     (case authorizeAgentControl E q w of
        (w', Inl (code, msg)) \<Rightarrow> (w', AgentsError code msg)
      | (w', Inr auth) \<Rightarrow>
          (w', (case qe_FromHex E (aa_TenantID auth) of
             Inl err \<Rightarrow> AgentsError 401 ''Invalid agent account''
           | Inr accountID \<Rightarrow>
          (case qe_FromHex E (aa_DataSourceID auth) of
             Inl err \<Rightarrow> AgentsError 401 ''Invalid agent data source''
           | Inr dataSourceID \<Rightarrow>
          (case GetDataSourceForAccount (qe_db E) (fst w') accountID dataSourceID of
             Inl err \<Rightarrow> AgentsError 404 ''Agent data source not found''
           | Inr source \<Rightarrow>
               if \<not> is_ebpf source then AgentsError 400 ''Agent data source is not eBPF''
               else ConfigReply (agentConfigResponse (qe_Hex E) (qe_now E 1) auth source))))))"

subsection \<open>Lemmas\<close>

text \<open>A list of ports: increasing, without repetition, each a valid port.\<close>

definition valid_ports :: "int list \<Rightarrow> bool" where
  "valid_ports ps \<longleftrightarrow> sorted ps \<and> distinct ps \<and> list_all (\<lambda>n. 1 \<le> n \<and> n \<le> 65535) ps"

lemma config_port_range: "config_port part = Some n \<Longrightarrow> 1 \<le> n \<and> n \<le> 65535"
  by (auto simp: config_port_def Let_def split: if_splits option.splits)

lemma parsed_ports_valid: "valid_ports (parseAgentConfigPorts raw)"
proof -
  have "1 \<le> n \<and> n \<le> 65535" if "n \<in> set (List.map_filter config_port xs)" for n xs
    using that config_port_range by (induction xs) (auto simp: List.map_filter_simps split: option.splits)
  then show ?thesis by (auto simp: valid_ports_def parseAgentConfigPorts_def list_all_iff)
qed

lemma url_ports_valid: "valid_ports (targetPortsFromURL raw)"
proof -
  have "valid_ports []" "valid_ports [80]" "valid_ports [443]" by (simp_all add: valid_ports_def)
  then show ?thesis using parsed_ports_valid by (auto simp: targetPortsFromURL_def split: option.splits)
qed

lemma bounded_int: "lo \<le> hi \<Longrightarrow> lo \<le> boundedConfigInt cfg k fallback lo hi \<and> boundedConfigInt cfg k fallback lo hi \<le> hi"
  by (auto simp: boundedConfigInt_def Let_def)

lemma enrollment_ttl_range: "0 < enrollment_ttl hours \<and> enrollment_ttl hours \<le> 7 * 24 * hour"
  by (auto simp: enrollment_ttl_def Let_def hour_def second_def)

text \<open>A generated token has no quote, so the body of the command has none either.\<close>

lemma generated_token_chars:
  assumes "token_Generate raw pre0 = Some tok" "CHR 0x27 \<notin> set pre0"
  shows "CHR 0x27 \<notin> set tok"
proof -
  have "CHR 0x27 \<notin> set (EncodeToString bytes)" for bytes
  proof
    assume "CHR 0x27 \<in> set (EncodeToString bytes)"
    from EncodeToString_chars [OF this] obtain n where "n < 64" "CHR 0x27 = b64_char n" by blast
    with b64_char_printable [of n] have "byte (CHR 0x27) > 44" by metis
    then show False by simp
  qed
  moreover have "CHR 0x27 \<notin> set (trim_space pre0)"
    using assms(2) by (auto simp: trim_space_def trim_left_def trim_right_def dest!: set_dropWhileD)
  ultimately show ?thesis using assms(1) by (auto simp: token_Generate_def Let_def split: option.splits if_splits)
qed

lemma registration_body_unquoted:
  "CHR 0x27 \<notin> set tok \<Longrightarrow> CHR 0x27 \<notin> set (registration_body tok name)"
  by (simp add: registration_body_def shellSafeName_def Let_def)

lemma found_source:
  assumes "GetDataSourceForAccount D st a i = Inr s"
  shows "coll_find (gd_Sources D) (gs_sources st) (source_filter a i) = Inr (Some s)"
  using assms by (auto simp: GetDataSourceForAccount_def find_or_def split: sum.splits option.splits)

lemma created_enrollment:
  "CreateAgentEnrollment D now fresh st e0 = (st', Inr e) \<Longrightarrow>
   en_AccountID e = en_AccountID e0 \<and> en_DataSourceID e = en_DataSourceID e0 \<and> en_TokenHash e = en_TokenHash e0 \<and>
   en_ExpiresAt e = en_ExpiresAt e0 \<and> en_UsedAt e = en_UsedAt e0 \<and> gs_agents st' = gs_agents st \<and> gs_sources st' = gs_sources st \<and>
   coll_insert (gd_Enrollments D) (gs_enrollments st) e = (gs_enrollments st', None)"
  by (auto simp: CreateAgentEnrollment_def prepare_enrollment_def Let_def split: prod.splits option.splits)

subsection \<open>Properties\<close>

text \<open>
  What an agent is told stays within its limits: an answer of the configuration route has
  polling and heartbeat intervals of 5 to 3600 seconds, a payload size of 1 to 16384 bytes, and ports
  that are increasing, without repetition and between 1 and 65535, whatever the stored configuration
  of the data source says.
\<close>

theorem agent_config_within_limits:
  "case handleAgentConfig E q w of
     (w', ConfigReply r) \<Rightarrow>
       5 \<le> ac_PollIntervalSeconds r \<and> ac_PollIntervalSeconds r \<le> 3600 \<and>
       5 \<le> ac_HeartbeatIntervalSeconds r \<and> ac_HeartbeatIntervalSeconds r \<le> 3600 \<and>
       1 \<le> ac_MaxPayloadSize r \<and> ac_MaxPayloadSize r \<le> 16384 \<and> valid_ports (ac_TargetPorts r) \<and> valid_ports (ac_IgnorePorts r)
   | _ \<Rightarrow> True"
proof -
  let ?ok = "\<lambda>r. 5 \<le> ac_PollIntervalSeconds r \<and> ac_PollIntervalSeconds r \<le> 3600 \<and>
       5 \<le> ac_HeartbeatIntervalSeconds r \<and> ac_HeartbeatIntervalSeconds r \<le> 3600 \<and>
       1 \<le> ac_MaxPayloadSize r \<and> ac_MaxPayloadSize r \<le> 16384 \<and> valid_ports (ac_TargetPorts r) \<and> valid_ports (ac_IgnorePorts r)"
  have "?ok (agentConfigResponse Hex now auth source)" for Hex now auth source
    using parsed_ports_valid url_ports_valid
      bounded_int [of 5 3600 "ds_Config source" "''config_poll_seconds''" 30] bounded_int [of 5 3600 "ds_Config source" "''heartbeat_seconds''" 30]
      bounded_int [of 1 16384 "ds_Config source" "''max_payload_size''" 16384]
    by (simp add: agentConfigResponse_def Let_def minAgentIntervalSeconds_def maxAgentIntervalSeconds_def
        defaultAgentConfigPollSeconds_def defaultAgentHeartbeatSeconds_def defaultAgentMaxPayloadSize_def)
  then show ?thesis by (auto simp: handleAgentConfig_def split: prod.splits sum.splits)
qed

text \<open>
  An enrollment is for the caller's own agent source: an answer with an enrollment was
  asked for by an administrator, names a source that the lookup found undeleted in the administrator's
  account and that is an eBPF source, stored one unused enrollment for it with the hash of the token
  that is shown, valid for at most seven days; and in the command that is shown, the body is one
  shell argument that no name can break out of. Any other answer leaves the store of agents and
  sources and the audit log alone.
\<close>

theorem enrollment_is_scoped:
  "case handleCreateAgentEnrollment E q body (st, audit) of
     ((st', audit'), EnrollmentReply code r) \<Rightarrow>
       \<exists>p a i s e d pre. requireRoles q adminOnlyRoles = Inr p \<and> qe_FromHex E (pr_AccountID p) = Inr a \<and>
         coll_find (gd_Sources (qe_db E)) (gs_sources st) (source_filter a i) = Inr (Some s) \<and> is_ebpf s \<and>
         coll_insert (gd_Enrollments (qe_db E)) (gs_enrollments st) e = (gs_enrollments st', None) \<and>
         en_AccountID e = a \<and> en_DataSourceID e = ds_ID s \<and> en_TokenHash e = qe_Hash E (er_EnrollmentToken r) \<and> en_UsedAt e = None \<and>
         en_ExpiresAt e = Some (qe_now E 0 + d) \<and> er_ExpiresAt r = en_ExpiresAt e \<and> 0 < d \<and> d \<le> 7 * 24 * hour \<and>
         er_RegistrationCommand r = pre @ quoted (registration_body (er_EnrollmentToken r) (en_Name e)) \<and>
         CHR 0x27 \<notin> set pre \<and> CHR 0x27 \<notin> set (registration_body (er_EnrollmentToken r) (en_Name e))
   | ((st', audit'), _) \<Rightarrow> gs_sources st' = gs_sources st \<and> gs_agents st' = gs_agents st \<and> audit' = audit"
proof (cases "with_account E adminOnlyRoles q")
  case (Inl e)
  then show ?thesis by (cases e) (simp add: handleCreateAgentEnrollment_def)
next
  case (Inr p)
  note p = this
  show ?thesis
  proof (cases "\<exists>req i a u s tok. body = Some req \<and> qe_FromHex E (trim_space (eq_DataSourceID req)) = Inr i \<and> account_of E p = Inr a \<and>
      user_of E p = Inr u \<and> GetDataSourceForAccount (qe_db E) st a i = Inr s \<and> is_ebpf s \<and> token_Generate (qe_random E) ''kx_enroll'' = Some tok")
    case False
    with p show ?thesis
      by (auto simp: handleCreateAgentEnrollment_def split: option.split sum.split prod.split)
  next
    case True
    then obtain req i a u s tok where g: "body = Some req" "qe_FromHex E (trim_space (eq_DataSourceID req)) = Inr i" "account_of E p = Inr a"
      "user_of E p = Inr u" "GetDataSourceForAccount (qe_db E) st a i = Inr s" "is_ebpf s" "token_Generate (qe_random E) ''kx_enroll'' = Some tok" by blast
    let ?e = "\<lparr>en_ID = 0, en_AccountID = a, en_DataSourceID = ds_ID s, en_TokenHash = qe_Hash E tok,
           en_Name = trim_space (eq_Name req), en_CreatedBy = u, en_CreatedAt = None,
           en_ExpiresAt = Some (qe_now E 0 + enrollment_ttl (eq_TTLHours req)), en_UsedAt = None, en_RegisteredAgentID = 0\<rparr>"
    obtain st' res where c: "CreateAgentEnrollment (qe_db E) (qe_now E 1) (qe_new_id E) st ?e = (st', res)" by fastforce
    show ?thesis
    proof (cases res)
      case (Inl err)
      with c have "gs_sources st' = gs_sources st" "gs_agents st' = gs_agents st"
        by (auto simp: CreateAgentEnrollment_def Let_def split: prod.splits option.splits)
      with p g c Inl show ?thesis by (simp add: handleCreateAgentEnrollment_def)
    next
      case (Inr e)
      note e = created_enrollment [OF c [unfolded Inr]]
      have role: "requireRoles q adminOnlyRoles = Inr p" using p by (auto simp: with_account_def split: sum.splits if_splits)
      have acc: "qe_FromHex E (pr_AccountID p) = Inr a" using g(3) by (auto simp: account_of_def split: sum.splits)
      have tok: "CHR 0x27 \<notin> set tok" by (rule generated_token_chars [OF g(7)]) simp
      let ?pre = "''curl -s -X POST '' @ [CHR 0x22] @ ''$KARAXYS_BACKEND_URL/agents/register'' @ [CHR 0x22] @ '' -H '' @ [CHR 0x22] @
        ''Content-Type: application/json'' @ [CHR 0x22] @ '' -d ''"
      have cmd: "registration_command tok (en_Name e) = ?pre @ quoted (registration_body tok (en_Name e))" by (simp add: registration_command_def)
      have h: "handleCreateAgentEnrollment E q body (st, audit) =
        ((st', audit @ [auditDataSource q ''agent_enrollment.create'' ''success'' (qe_Hex E (en_ID e)) []]),
         EnrollmentReply 201 \<lparr>er_EnrollmentID = qe_Hex E (en_ID e), er_DataSourceID = qe_Hex E (ds_ID s),
             er_EnrollmentToken = tok, er_ExpiresAt = en_ExpiresAt e, er_RegistrationCommand = registration_command tok (en_Name e),
             er_AgentRunHint = ''KARAXYS_BACKEND_URL=http://127.0.0.1:8081 KARAXYS_ENROLLMENT_TOKEN=<token> make local-vampi''\<rparr>)"
        using p g c Inr by (simp add: handleCreateAgentEnrollment_def)
      have fin: "coll_insert (gd_Enrollments (qe_db E)) (gs_enrollments st) e = (gs_enrollments st', None)" "en_AccountID e = a"
        "en_DataSourceID e = ds_ID s" "en_TokenHash e = qe_Hash E tok" "en_UsedAt e = None"
        "en_ExpiresAt e = Some (qe_now E 0 + enrollment_ttl (eq_TTLHours req))" using e by simp_all
      have pre: "CHR 0x27 \<notin> set ?pre" by simp
      show ?thesis
        unfolding h prod.case agents_reply.case enrollment_response.simps
        by (intro exI conjI) (rule role, rule acc, rule found_source [OF g(5)], rule g(6), rule fin(1), rule fin(2), rule fin(3), rule fin(4), rule fin(5),
            rule fin(6), rule refl, rule conjunct1 [OF enrollment_ttl_range], rule conjunct2 [OF enrollment_ttl_range], rule cmd, rule pre,
            rule registration_body_unquoted [OF tok])
    qed
  qed
qed

end
