(* ===== verification/Account_Tokens.thy ===== *)
theory Account_Tokens
  imports Accounts Doc_Upsert Scan_Secrets
begin

text \<open>
  The ingest token of an account, \<open>internal/db/ingest_token_repository.go\<close>, and its two routes,
  \<open>internal/api/ingest_token_handlers.go\<close>. The raw token is stored encrypted, or in the clear when
  the server has no key; requests are matched by its hash. SHA-256, AES-GCM and the random source are
  arguments. The locale \<open>token_store\<close> adds the two unique indexes of the collection.
  The audit list holds the entries handed to \<open>SaveAuditLog\<close>, whose error the handlers drop.
\<close>

subsection \<open>Documents\<close>

record ingest_token =
  tok_ID :: object_id
  tok_AccountID :: object_id
  tok_TokenHash :: string
  tok_TokenNonce :: string
  tok_TokenCipher :: string
  tok_TokenPrefix :: string
  tok_CreatedAt :: gotime
  tok_UpdatedAt :: gotime
  tok_RotatedAt :: gotime
  tok_LastUsedAt :: gotime

text \<open>
  The environment of a call: the collection and its upsert, the hash, the cipher, the 32 random bytes
  of a token and the 12 of a nonce, the clock, the identifier of a new document.
\<close>

record 't token_env =
  te_Tokens :: "('t, object_id, ingest_token) coll"
  te_upsert :: "('t, ingest_token) upsert"
  te_Hash :: "string \<Rightarrow> string"
  te_aead :: aead
  te_token_bytes :: "string option"
  te_nonce_bytes :: "string option"
  te_now :: int
  te_new_id :: object_id
  te_Hex :: "object_id \<Rightarrow> string"
  te_FromHex :: "string \<Rightarrow> string + object_id"
  te_Getenv :: "string \<Rightarrow> string"

text \<open>\<open>TokenPanic\<close> is the panic of a decryption, which the server recovers from.\<close>

datatype token_error = ErrIngestTokenNotFound | TokenErr string | TokenCipherErr secret_error | TokenPanic

definition ingestTokenPrefix :: string where
  "ingestTokenPrefix = ''kar''"

definition tokenPrefix :: "string \<Rightarrow> string" where
  "tokenPrefix rawToken = (if length rawToken \<le> 8 then rawToken else take 8 rawToken)"

definition encryptIngestToken :: "'t token_env \<Rightarrow> string \<Rightarrow> protector option \<Rightarrow> secret_error + string \<times> string" where
  "encryptIngestToken E rawToken p =
     (case p of None \<Rightarrow> Inr (''dev'', rawToken) | Some q \<Rightarrow> Encrypt (te_aead E) (te_nonce_bytes E) (Some q) rawToken)"

definition decryptIngestToken :: "'t token_env \<Rightarrow> string \<Rightarrow> string \<Rightarrow> protector option \<Rightarrow> decrypted" where
  "decryptIngestToken E nonce cipher p =
     (if nonce = ''dev'' then Decrypted cipher
      else if p = None then DecryptFailed (SecretError ''encryption key required to decrypt token'')
      else Decrypt (te_aead E) p nonce cipher)"

subsection \<open>The repository\<close>

definition GetAccountIngestToken :: "'t token_env \<Rightarrow> 't \<Rightarrow> object_id \<Rightarrow> protector option \<Rightarrow> token_error + ingest_token \<times> string" where
  "GetAccountIngestToken E c accountID p =
     (case coll_find (te_Tokens E) c (\<lambda>t. tok_AccountID t = accountID) of
        Inl e \<Rightarrow> Inl (TokenErr e)
      | Inr None \<Rightarrow> Inl ErrIngestTokenNotFound
      | Inr (Some t) \<Rightarrow>
          (case decryptIngestToken E (tok_TokenNonce t) (tok_TokenCipher t) p of
             Decrypted rawToken \<Rightarrow> Inr (t, rawToken)
           | DecryptFailed err \<Rightarrow> Inl (TokenCipherErr err)
           | DecryptPanic \<Rightarrow> Inl TokenPanic))"

text \<open>A fresh token: its raw text and the document without an identifier.\<close>

definition fresh_token :: "'t token_env \<Rightarrow> object_id \<Rightarrow> protector option \<Rightarrow> token_error + ingest_token \<times> string" where
  "fresh_token E accountID p =
     (case token_Generate (te_token_bytes E) ingestTokenPrefix of
        None \<Rightarrow> Inl (TokenErr ''random source failed'')
      | Some rawToken \<Rightarrow>
          (case encryptIngestToken E rawToken p of
             Inl err \<Rightarrow> Inl (TokenCipherErr err)
           | Inr (nonce, cipher) \<Rightarrow>
               Inr (\<lparr>tok_ID = 0, tok_AccountID = accountID, tok_TokenHash = te_Hash E rawToken, tok_TokenNonce = nonce,
                   tok_TokenCipher = cipher, tok_TokenPrefix = tokenPrefix rawToken, tok_CreatedAt = Some (te_now E),
                   tok_UpdatedAt = Some (te_now E), tok_RotatedAt = None, tok_LastUsedAt = None\<rparr>, rawToken)))"

definition createAccountIngestToken ::
  "'t token_env \<Rightarrow> 't \<Rightarrow> object_id \<Rightarrow> protector option \<Rightarrow> 't \<times> (token_error + ingest_token \<times> string)" where
  "createAccountIngestToken E c accountID p =
     (case fresh_token E accountID p of
        Inl err \<Rightarrow> (c, Inl err)
      | Inr (t, rawToken) \<Rightarrow>
          (let t' = t\<lparr>tok_ID := te_new_id E\<rparr> in
           case coll_insert (te_Tokens E) c t' of
             (c', Some e) \<Rightarrow> (c', Inl (TokenErr e))
           | (c', None) \<Rightarrow> (c', Inr (t', rawToken))))"

definition GetOrCreateAccountIngestToken ::
  "'t token_env \<Rightarrow> 't \<Rightarrow> object_id \<Rightarrow> protector option \<Rightarrow> 't \<times> (token_error + ingest_token \<times> string)" where
  "GetOrCreateAccountIngestToken E c accountID p =
     (case GetAccountIngestToken E c accountID p of
        Inr existing \<Rightarrow> (c, Inr existing)
      | Inl err \<Rightarrow> if err \<noteq> ErrIngestTokenNotFound then (c, Inl err) else createAccountIngestToken E c accountID p)"

text \<open>
  \<open>$set\<close> with the fresh document: the identifier and the time of the last use, both zero and
  \<open>omitempty\<close>, are not among the fields it sets.
\<close>

definition set_token :: "ingest_token \<Rightarrow> ingest_token \<Rightarrow> ingest_token" where
  "set_token t old = t\<lparr>tok_ID := tok_ID old, tok_LastUsedAt := tok_LastUsedAt old\<rparr>"

definition RotateAccountIngestToken ::
  "'t token_env \<Rightarrow> 't \<Rightarrow> object_id \<Rightarrow> protector option \<Rightarrow> 't \<times> (token_error + ingest_token \<times> string)" where
  "RotateAccountIngestToken E c accountID p =
     (case fresh_token E accountID p of
        Inl err \<Rightarrow> (c, Inl err)
      | Inr (t0, rawToken) \<Rightarrow>
          (let t = t0\<lparr>tok_RotatedAt := Some (te_now E)\<rparr> in
           case te_upsert E c (\<lambda>x. tok_AccountID x = accountID) (set_token t) (t\<lparr>tok_ID := te_new_id E\<rparr>) of
             (c', Inl e) \<Rightarrow> (c', Inl (TokenErr e))
           | (c', Inr result) \<Rightarrow> (c', Inr (result, rawToken))))"

definition FindAccountByIngestToken :: "'t token_env \<Rightarrow> 't \<Rightarrow> string \<Rightarrow> token_error + ingest_token" where
  "FindAccountByIngestToken E c tokenHash =
     (case coll_find (te_Tokens E) c (\<lambda>t. tok_TokenHash t = tokenHash) of
        Inl e \<Rightarrow> Inl (TokenErr e) | Inr None \<Rightarrow> Inl ErrIngestTokenNotFound | Inr (Some t) \<Rightarrow> Inr t)"

definition TouchIngestToken :: "'t token_env \<Rightarrow> 't \<Rightarrow> object_id \<Rightarrow> 't" where
  "TouchIngestToken E c accountID =
     fst (coll_update (te_Tokens E) c (\<lambda>t. tok_AccountID t = accountID) (\<lambda>t. t\<lparr>tok_LastUsedAt := Some (te_now E)\<rparr>))"

subsection \<open>The routes\<close>

record ingest_token_response =
  itr_ID :: string
  itr_TokenPrefix :: string
  itr_Token :: string
  itr_IngestURL :: string
  itr_CreatedAt :: gotime
  itr_UpdatedAt :: gotime
  itr_RotatedAt :: gotime
  itr_LastUsedAt :: gotime

datatype token_reply = TokenError nat string | TokenReply ingest_token_response | TokenPanics

definition ingestTokenProtector :: "'t token_env \<Rightarrow> protector option" where
  "ingestTokenProtector E = (case secrets_FromEnv (te_Getenv E) of Inl err \<Rightarrow> None | Inr p \<Rightarrow> Some p)"

fun drop_slashes :: "string \<Rightarrow> string" where
  "drop_slashes [] = []"
| "drop_slashes (c # cs) = (if c = CHR ''/'' then drop_slashes cs else c # cs)"

definition ingestPublicURL :: "'t token_env \<Rightarrow> string" where
  "ingestPublicURL E =
     (let base0 = te_Getenv E ''KARAXYS_PUBLIC_API_BASE_URL'';
          base = (if base0 = [] then ''http://localhost:8081'' else base0)
      in rev (drop_slashes (rev base)) @ ''/ingest'')"

definition buildIngestTokenResponse :: "'t token_env \<Rightarrow> ingest_token \<Rightarrow> string \<Rightarrow> ingest_token_response" where
  "buildIngestTokenResponse E t rawToken =
     \<lparr>itr_ID = te_Hex E (tok_ID t), itr_TokenPrefix = tok_TokenPrefix t, itr_Token = rawToken, itr_IngestURL = ingestPublicURL E,
      itr_CreatedAt = tok_CreatedAt t, itr_UpdatedAt = tok_UpdatedAt t, itr_RotatedAt = tok_RotatedAt t,
      itr_LastUsedAt = tok_LastUsedAt t\<rparr>"

definition auditIngestToken :: "http_req \<Rightarrow> string \<Rightarrow> string \<Rightarrow> string \<Rightarrow> string \<Rightarrow> string \<Rightarrow> audit_log" where
  "auditIngestToken q action status userID accountID message =
     \<lparr>adt_ID = 0, adt_CreatedAt = None, adt_ActorType = ''user'', adt_ActorID = userID, adt_Action = action,
      adt_ResourceType = ''ingest_token'', adt_ResourceID = accountID, adt_Status = status, adt_RemoteAddr = rx_RemoteAddr q,
      adt_Message = message, adt_Metadata = []\<rparr>"

text \<open>The two handlers differ in the call they make and in the action they record.\<close>

definition token_route ::
  "('t token_env \<Rightarrow> 't \<Rightarrow> object_id \<Rightarrow> protector option \<Rightarrow> 't \<times> (token_error + ingest_token \<times> string)) \<Rightarrow> string \<Rightarrow> string \<Rightarrow>
   't token_env \<Rightarrow> http_req \<Rightarrow> 't \<times> audit_log list \<Rightarrow> ('t \<times> audit_log list) \<times> token_reply" where
  "token_route call action failed E q w =
     (case requireRoles q adminOnlyRoles of
        Inl (code, msg) \<Rightarrow> (w, TokenError code msg)
      | Inr p \<Rightarrow>
          (case scopedAccountID (te_FromHex E) p of
             NotScoped \<Rightarrow> (w, TokenError 400 ''Account ID required'')
           | BadAccount err \<Rightarrow> (w, TokenError 400 ''Account ID required'')
           | ScopedTo accountID \<Rightarrow>
               (case call E (fst w) accountID (ingestTokenProtector E) of
                  (c', Inl err) \<Rightarrow> ((c', snd w), if err = TokenPanic then TokenPanics else TokenError 500 failed)
                | (c', Inr (t, rawToken)) \<Rightarrow>
                    ((c', snd w @ [auditIngestToken q action ''success'' (pr_UserID p) (te_Hex E accountID) []]),
                     TokenReply (buildIngestTokenResponse E t rawToken)))))"

definition handleGetIngestToken :: "'t token_env \<Rightarrow> http_req \<Rightarrow> 't \<times> audit_log list \<Rightarrow> ('t \<times> audit_log list) \<times> token_reply" where
  "handleGetIngestToken = token_route GetOrCreateAccountIngestToken ''ingest_token.access'' ''Failed to retrieve ingest token''"

definition handleRotateIngestToken :: "'t token_env \<Rightarrow> http_req \<Rightarrow> 't \<times> audit_log list \<Rightarrow> ('t \<times> audit_log list) \<times> token_reply" where
  "handleRotateIngestToken = token_route RotateAccountIngestToken ''ingest_token.rotate'' ''Failed to rotate ingest token''"

definition ensureAccountIngestToken :: "'t token_env \<Rightarrow> 't \<Rightarrow> object_id \<Rightarrow> 't" where
  "ensureAccountIngestToken E c accountID = fst (GetOrCreateAccountIngestToken E c accountID (ingestTokenProtector E))"

subsection \<open>The two indexes\<close>

locale token_store =
  by_account: unique_store M up tok_AccountID + by_hash: unique_store M up tok_TokenHash
  for M :: "('t, object_id, ingest_token) coll" and up :: "('t, ingest_token) upsert" +
  assumes token_key: "coll_key M = tok_ID"
begin

lemma find_by_account:
  assumes "coll_ok M c" "coll_docs M c k = Some t" "coll_find M c (\<lambda>x. tok_AccountID x = tok_AccountID t) = Inr r"
  shows "r = Some t"
proof (cases r)
  case None
  with by_account.find_none [OF assms(1)] assms(2,3) show ?thesis by auto
next
  case (Some t')
  with by_account.find_some [OF assms(1)] assms(3) obtain k' where "coll_docs M c k' = Some t'" "tok_AccountID t' = tok_AccountID t" by auto
  with by_account.same_doc [OF assms(1) this(1) assms(2)] Some show ?thesis by simp
qed

lemma find_by_hash:
  assumes "coll_ok M c" "coll_docs M c k = Some t" "coll_find M c (\<lambda>x. tok_TokenHash x = tok_TokenHash t) = Inr r"
  shows "r = Some t"
proof (cases r)
  case None
  with by_account.find_none [OF assms(1)] assms(2,3) show ?thesis by auto
next
  case (Some t')
  with by_account.find_some [OF assms(1)] assms(3) obtain k' where "coll_docs M c k' = Some t'" "tok_TokenHash t' = tok_TokenHash t" by auto
  with by_hash.same_doc [OF assms(1) this(1) assms(2)] Some show ?thesis by simp
qed

end

definition token_indexes :: "ingest_token list \<Rightarrow> bool" where
  "token_indexes ts \<longleftrightarrow> distinct (map tok_AccountID ts) \<and> distinct (map tok_TokenHash ts)"

interpretation mem_tokens: token_store "mem_unique tok_ID token_indexes" "mem_upsert tok_ID token_indexes"
  by (intro token_store.intro mem_unique_store token_store_axioms.intro) (simp_all add: token_indexes_def mem_coll_def)

subsection \<open>Lemmas\<close>

lemma dev_is_no_nonce: "std_Encode nonce \<noteq> ''dev''"
proof
  assume "std_Encode nonce = ''dev''"
  then have "std_Decode ''dev'' = Some nonce" using std_Decode_Encode [of nonce] by simp
  moreover have "std_Decode ''dev'' = None" by code_simp
  ultimately show False by simp
qed

text \<open>What is stored for a token decrypts to it with the same protector.\<close>

lemma decrypt_encrypted_token:
  assumes "encryptIngestToken E rawToken p = Inr (nonce, cipher)" "aead_opens (te_aead E)" "\<And>r. te_nonce_bytes E = Some r \<Longrightarrow> length r = 12"
  shows "decryptIngestToken E nonce cipher p = Decrypted rawToken"
proof (cases p)
  case None
  with assms(1) show ?thesis by (simp add: encryptIngestToken_def decryptIngestToken_def)
next
  case (Some q)
  with assms(1) have enc: "Encrypt (te_aead E) (te_nonce_bytes E) (Some q) rawToken = Inr (nonce, cipher)"
    by (simp add: encryptIngestToken_def)
  then obtain r where r: "te_nonce_bytes E = Some r" "nonce = std_Encode r"
    by (auto simp: Encrypt_def split: if_splits option.splits)
  with dev_is_no_nonce have "nonce \<noteq> ''dev''" by simp
  with Decrypt_Encrypt [OF assms(2) enc [unfolded r(1)] assms(3) [OF r(1)]] Some show ?thesis
    by (simp add: decryptIngestToken_def)
qed

lemma fresh_token_fields:
  assumes "fresh_token E a p = Inr (t, rawToken)"
  shows "tok_AccountID t = a" "tok_TokenHash t = te_Hash E rawToken" "encryptIngestToken E rawToken p = Inr (tok_TokenNonce t, tok_TokenCipher t)"
  using assms by (auto simp: fresh_token_def split: option.splits sum.splits prod.splits)

subsection \<open>Properties\<close>

text \<open>
  Property C35. Rotating the ingest token of an account replaces it: the new raw token is the only one
  that is matched to the account, it is shown again when the token is read, and the tokens of the
  other accounts are as before. A failing read of the database is the only other answer.
\<close>

theorem rotation_revokes_old_tokens:
  assumes "token_store (te_Tokens E) (te_upsert E)" "coll_ok (te_Tokens E) c" "aead_opens (te_aead E)"
    and "\<And>r. te_nonce_bytes E = Some r \<Longrightarrow> length r = 12"
    and "RotateAccountIngestToken E c a p = (c', Inr (t, rawToken))"
  shows "tok_AccountID t = a \<and>
    (case FindAccountByIngestToken E c' (te_Hash E rawToken) of Inr t' \<Rightarrow> t' = t | Inl (TokenErr e) \<Rightarrow> True | Inl _ \<Rightarrow> False) \<and>
    (\<forall>h. case FindAccountByIngestToken E c' h of Inr t' \<Rightarrow> h = te_Hash E rawToken \<or> tok_AccountID t' \<noteq> a | Inl _ \<Rightarrow> True) \<and>
    (case GetAccountIngestToken E c' a p of Inr x \<Rightarrow> x = (t, rawToken) | Inl (TokenErr e) \<Rightarrow> True | Inl _ \<Rightarrow> False) \<and>
    (\<forall>k t'. tok_AccountID t' = a \<or> (coll_docs (te_Tokens E) c' k = Some t' \<longleftrightarrow> coll_docs (te_Tokens E) c k = Some t'))"
proof -
  let ?M = "te_Tokens E"
  note S = token_store.axioms [OF assms(1)]
  from assms(5) obtain t0 where f: "fresh_token E a p = Inr (t0, rawToken)"
    by (auto simp: RotateAccountIngestToken_def Let_def split: sum.splits prod.splits)
  define t1 where "t1 = t0\<lparr>tok_RotatedAt := Some (te_now E)\<rparr>"
  have up: "te_upsert E c (\<lambda>x. tok_AccountID x = a) (set_token t1) (t1\<lparr>tok_ID := te_new_id E\<rparr>) = (c', Inr t)"
    using assms(5) f by (auto simp: RotateAccountIngestToken_def Let_def t1_def split: sum.splits prod.splits)
  have key: "coll_key ?M (set_token t1 d) = coll_key ?M d" for d
    using token_store.token_key [OF assms(1)] by (simp add: set_token_def)
  note t1 = fresh_token_fields [OF f]
  have idx: "tok_AccountID (set_token t1 d) = a" if "tok_AccountID d = a" for d by (simp add: set_token_def t1_def t1)
  have new: "tok_AccountID (t1\<lparr>tok_ID := te_new_id E\<rparr>) = a" by (simp add: t1_def t1)
  note ok = unique_store.upsert_ok [OF S(1), OF assms(2) key up]
  from unique_store.upsert_done [OF S(1), OF assms(2) key up]
  have t: "tok_AccountID t = a \<and> tok_TokenHash t = te_Hash E rawToken \<and> tok_TokenNonce t = tok_TokenNonce t0 \<and> tok_TokenCipher t = tok_TokenCipher t0"
    by (auto simp: upserted_def set_token_def t1_def t1)
  have docs: "coll_docs ?M c' (coll_key ?M t) = Some t"
    "\<And>k d. coll_docs ?M c' k = Some d \<Longrightarrow> tok_AccountID d = a \<Longrightarrow> d = t"
    "\<And>k d. tok_AccountID d \<noteq> a \<Longrightarrow> coll_docs ?M c' k = Some d \<longleftrightarrow> coll_docs ?M c k = Some d"
    using unique_store.upsert_by_index [OF S(1), OF assms(2) key idx new up] by blast+
  have h: "tok_TokenHash t = te_Hash E rawToken" and a: "tok_AccountID t = a" using t by blast+
  note store = unique_store.axioms(1) [OF S(1)]
  show ?thesis
  proof (intro conjI allI)
    show "tok_AccountID t = a" by (rule a)
    show "case FindAccountByIngestToken E c' (te_Hash E rawToken) of Inr t' \<Rightarrow> t' = t | Inl (TokenErr e) \<Rightarrow> True | Inl _ \<Rightarrow> False"
      using token_store.find_by_hash [OF assms(1) ok docs(1), unfolded h]
      by (cases "coll_find ?M c' (\<lambda>t. tok_TokenHash t = te_Hash E rawToken)") (simp_all add: FindAccountByIngestToken_def)
    show "case GetAccountIngestToken E c' a p of Inr x \<Rightarrow> x = (t, rawToken) | Inl (TokenErr e) \<Rightarrow> True | Inl _ \<Rightarrow> False"
      using token_store.find_by_account [OF assms(1) ok docs(1), unfolded a] decrypt_encrypted_token [OF t1(3) assms(3,4)] t
      by (cases "coll_find ?M c' (\<lambda>t. tok_AccountID t = a)") (simp_all add: GetAccountIngestToken_def t1_def)
  next
    fix h'
    show "case FindAccountByIngestToken E c' h' of Inr t' \<Rightarrow> h' = te_Hash E rawToken \<or> tok_AccountID t' \<noteq> a | Inl _ \<Rightarrow> True"
    proof (cases "coll_find ?M c' (\<lambda>t. tok_TokenHash t = h')")
      case (Inr r)
      show ?thesis
      proof (cases r)
        case (Some t')
        from doc_store.find_some [OF store ok Inr [unfolded Some]] docs(2) h have "h' = te_Hash E rawToken \<or> tok_AccountID t' \<noteq> a" by auto
        with Inr Some show ?thesis by (simp add: FindAccountByIngestToken_def)
      qed (simp add: FindAccountByIngestToken_def Inr)
    qed (simp add: FindAccountByIngestToken_def)
  next
    fix k t'
    show "tok_AccountID t' = a \<or> (coll_docs ?M c' k = Some t' \<longleftrightarrow> coll_docs ?M c k = Some t')" using docs(3) by blast
  qed
qed

definition mem_token_env :: "ingest_token list token_env" where
  "mem_token_env =
     \<lparr>te_Tokens = mem_unique tok_ID token_indexes, te_upsert = mem_upsert tok_ID token_indexes, te_Hash = (\<lambda>s. ''#'' @ s),
      te_aead = \<lparr>ae_Seal = (\<lambda>k n t. t), ae_Open = (\<lambda>k n c. Some c)\<rparr>, te_token_bytes = Some ''abc'', te_nonce_bytes = Some (replicate 12 (CHR ''n'')),
      te_now = 7, te_new_id = 3, te_Hex = itoa, te_FromHex = (\<lambda>s. Inr 1), te_Getenv = (\<lambda>k. [])\<rparr>"

definition old_token :: ingest_token where
  "old_token = \<lparr>tok_ID = 2, tok_AccountID = 1, tok_TokenHash = ''#old'', tok_TokenNonce = ''dev'', tok_TokenCipher = ''old'',
     tok_TokenPrefix = ''old'', tok_CreatedAt = Some 1, tok_UpdatedAt = Some 1, tok_RotatedAt = None, tok_LastUsedAt = None\<rparr>"

lemma mem_rotates: "case RotateAccountIngestToken mem_token_env [old_token] 1 None of (c, Inr (t, rawToken)) \<Rightarrow> rawToken = ''kar_YWJj'' | _ \<Rightarrow> False"
  by code_simp

theorem rotation_revokes_old_tokens_witness:
  "\<exists>c t. RotateAccountIngestToken mem_token_env [old_token] 1 None = (c, Inr (t, ''kar_YWJj'')) \<and>
     (case FindAccountByIngestToken mem_token_env c ''#old'' of Inr t' \<Rightarrow> tok_AccountID t' \<noteq> 1 | Inl err \<Rightarrow> True)"
proof -
  obtain c t where r: "RotateAccountIngestToken mem_token_env [old_token] 1 None = (c, Inr (t, ''kar_YWJj''))"
    using mem_rotates by (auto split: prod.splits sum.splits)
  have "token_store (te_Tokens mem_token_env) (te_upsert mem_token_env)" "coll_ok (te_Tokens mem_token_env) [old_token]"
    "aead_opens (te_aead mem_token_env)" "\<And>r. te_nonce_bytes mem_token_env = Some r \<Longrightarrow> length r = 12"
    by (auto simp: mem_token_env_def mem_tokens.token_store_axioms token_indexes_def mem_coll_def aead_opens_def)
  from rotation_revokes_old_tokens [OF this r] have
    "\<And>h. case FindAccountByIngestToken mem_token_env c h of Inr t' \<Rightarrow> h = te_Hash mem_token_env ''kar_YWJj'' \<or> tok_AccountID t' \<noteq> 1 | Inl _ \<Rightarrow> True"
    by blast
  from this [of "''#old''"] have "case FindAccountByIngestToken mem_token_env c ''#old'' of Inr t' \<Rightarrow> tok_AccountID t' \<noteq> 1 | Inl err \<Rightarrow> True"
    by (auto simp: mem_token_env_def split: sum.splits)
  with r show ?thesis by blast
qed

text \<open>
  The token that is created for an account is the one that is shown ever after: when
  \<open>GetOrCreateAccountIngestToken\<close> has answered with a token, a second call with the same protector
  changes nothing and answers with the same one, unless the database fails.
\<close>

theorem shown_token_is_stable:
  assumes "token_store (te_Tokens E) (te_upsert E)" "coll_ok (te_Tokens E) c" "aead_opens (te_aead E)"
    and "\<And>r. te_nonce_bytes E = Some r \<Longrightarrow> length r = 12"
    and "GetOrCreateAccountIngestToken E c a p = (c', Inr (t, rawToken))"
  shows "case GetOrCreateAccountIngestToken E c' a p of
      (c2, Inr x) \<Rightarrow> c2 = c' \<and> x = (t, rawToken) | (c2, Inl (TokenErr e)) \<Rightarrow> c2 = c' | (c2, Inl _) \<Rightarrow> False"
proof (cases "GetAccountIngestToken E c a p")
  case (Inr x)
  with assms(5) show ?thesis by (simp add: GetOrCreateAccountIngestToken_def)
next
  case (Inl err)
  let ?M = "te_Tokens E"
  note S = token_store.axioms [OF assms(1)]
  note store = unique_store.axioms(1) [OF S(1)]
  from assms(5) Inl have cr: "createAccountIngestToken E c a p = (c', Inr (t, rawToken))"
    by (auto simp: GetOrCreateAccountIngestToken_def split: if_splits)
  then obtain t0 where f: "fresh_token E a p = Inr (t0, rawToken)" and t: "t = t0\<lparr>tok_ID := te_new_id E\<rparr>"
    and i: "coll_insert ?M c t = (c', None)"
    by (auto simp: createAccountIngestToken_def Let_def split: sum.splits prod.splits option.splits)
  note t0 = fresh_token_fields [OF f]
  have a: "tok_AccountID t = a" by (simp add: t t0)
  note ok = doc_store.insert_ok [OF store assms(2) i]
  from doc_store.insert_done [OF store assms(2) i] have d: "coll_docs ?M c' (coll_key ?M t) = Some t" by simp
  have dec: "decryptIngestToken E (tok_TokenNonce t) (tok_TokenCipher t) p = Decrypted rawToken"
    using decrypt_encrypted_token [OF t0(3) assms(3,4)] by (simp add: t)
  show ?thesis
    using token_store.find_by_account [OF assms(1) ok d, unfolded a] dec
    by (cases "coll_find ?M c' (\<lambda>t. tok_AccountID t = a)") (simp_all add: GetOrCreateAccountIngestToken_def GetAccountIngestToken_def)
qed

lemma mem_creates: "case GetOrCreateAccountIngestToken mem_token_env [] 1 None of (c, Inr x) \<Rightarrow> True | _ \<Rightarrow> False"
  by code_simp

theorem shown_token_is_stable_witness:
  "\<exists>c t rawToken. GetOrCreateAccountIngestToken mem_token_env [] 1 None = (c, Inr (t, rawToken)) \<and>
     (case GetOrCreateAccountIngestToken mem_token_env c 1 None of
        (c2, Inr x) \<Rightarrow> c2 = c \<and> x = (t, rawToken) | (c2, Inl (TokenErr e)) \<Rightarrow> c2 = c | (c2, Inl _) \<Rightarrow> False)"
proof -
  obtain c t rawToken where r: "GetOrCreateAccountIngestToken mem_token_env [] 1 None = (c, Inr (t, rawToken))"
    using mem_creates by (auto split: prod.splits sum.splits)
  have "token_store (te_Tokens mem_token_env) (te_upsert mem_token_env)" "coll_ok (te_Tokens mem_token_env) []"
    "aead_opens (te_aead mem_token_env)" "\<And>r. te_nonce_bytes mem_token_env = Some r \<Longrightarrow> length r = 12"
    by (auto simp: mem_token_env_def mem_tokens.token_store_axioms token_indexes_def mem_coll_def aead_opens_def)
  note laws = this
  have stable: "case GetOrCreateAccountIngestToken mem_token_env c 1 None of
      (c2, Inr x) \<Rightarrow> c2 = c \<and> x = (t, rawToken) | (c2, Inl (TokenErr e)) \<Rightarrow> c2 = c | (c2, Inl _) \<Rightarrow> False"
    by (rule shown_token_is_stable [OF laws(1-3) _ r]) (rule laws(4))
  show ?thesis by (intro exI conjI) (rule r, rule stable)
qed

text \<open>
  A key that is set but malformed counts as no key: the token is then stored in the clear, where the
  comment of \<open>ingestTokenProtector\<close> speaks of an unset key only.
\<close>

lemma malformed_key_stores_plaintext:
  "ingestTokenProtector (E\<lparr>te_Getenv := (\<lambda>k. if k = ''KARAXYS_SECRET_KEY'' then ''too short'' else [])\<rparr>) = None"
  "encryptIngestToken E rawToken None = Inr (''dev'', rawToken)"
  by (simp_all add: ingestTokenProtector_def secrets_FromEnv_def NewProtector_def keySizeBytes_def encryptIngestToken_def)

end
