(* ===== verification/Account_Settings.thy ===== *)
theory Account_Settings
  imports Doc_Upsert Http_Auth
begin

text \<open>
  The security settings of an account: \<open>internal/db/settings_repository.go\<close> and the two routes of
  \<open>internal/api/settings_handlers.go\<close>. There is one document per account, created on the first
  read. Numbers of the JSON body are machine integers that the decoder has already checked, so
  \<open>int\<close> is exact. The audit list holds the entries handed to \<open>SaveAuditLog\<close>, whose error
  the handler drops.
\<close>

subsection \<open>The repository\<close>

record account_settings =
  set_ID :: object_id
  set_AccountID :: object_id
  set_RetentionHours :: int
  set_MaxTrafficEvents :: int
  set_RedactionEnabled :: bool
  set_UpdatedBy :: object_id
  set_CreatedAt :: gotime
  set_UpdatedAt :: gotime

record 't settings_env =
  se_Settings :: "('t, object_id, account_settings) coll"
  se_upsert :: "('t, account_settings) upsert"
  se_isDuplicateKey :: "db_error \<Rightarrow> bool"
  se_now :: "nat \<Rightarrow> int"
  se_new_id :: "nat \<Rightarrow> object_id"
  se_Hex :: "object_id \<Rightarrow> string"
  se_FromHex :: "string \<Rightarrow> string + object_id"
  se_format :: "gotime \<Rightarrow> string"

definition defaultAccountRetentionHours :: int where "defaultAccountRetentionHours = 24"
definition defaultAccountMaxTrafficEvents :: int where "defaultAccountMaxTrafficEvents = 1000"

definition default_settings :: "int \<Rightarrow> object_id \<Rightarrow> object_id \<Rightarrow> account_settings" where
  "default_settings now fresh accountID =
     \<lparr>set_ID = fresh, set_AccountID = accountID, set_RetentionHours = defaultAccountRetentionHours,
      set_MaxTrafficEvents = defaultAccountMaxTrafficEvents, set_RedactionEnabled = True, set_UpdatedBy = 0,
      set_CreatedAt = Some now, set_UpdatedAt = Some now\<rparr>"

text \<open>\<open>None\<close> as an error is \<open>ErrNoDocuments\<close>.\<close>

definition find_settings :: "'t settings_env \<Rightarrow> 't \<Rightarrow> object_id \<Rightarrow> db_error option + account_settings" where
  "find_settings E c accountID =
     (case coll_find (se_Settings E) c (\<lambda>s. set_AccountID s = accountID) of
        Inl e \<Rightarrow> Inl (Some e) | Inr None \<Rightarrow> Inl None | Inr (Some s) \<Rightarrow> Inr s)"

definition GetOrCreateAccountSettings :: "'t settings_env \<Rightarrow> 't \<Rightarrow> object_id \<Rightarrow> 't \<times> (db_error option + account_settings)" where
  "GetOrCreateAccountSettings E c accountID =
     (case find_settings E c accountID of
        Inr s \<Rightarrow> (c, Inr s)
      | Inl (Some e) \<Rightarrow> (c, Inl (Some e))
      | Inl None \<Rightarrow>
          (let settings = default_settings (se_now E 0) (se_new_id E 0) accountID in
           case coll_insert (se_Settings E) c settings of
             (c', None) \<Rightarrow> (c', Inr settings)
           | (c', Some e) \<Rightarrow> if se_isDuplicateKey E e then (c', find_settings E c' accountID) else (c', Inl (Some e))))"

definition update_settings_doc :: "int \<Rightarrow> object_id \<Rightarrow> int \<Rightarrow> int \<Rightarrow> account_settings \<Rightarrow> account_settings" where
  "update_settings_doc now updatedBy retentionHours maxTrafficEvents s =
     s\<lparr>set_RetentionHours := retentionHours, set_MaxTrafficEvents := maxTrafficEvents, set_RedactionEnabled := True,
       set_UpdatedAt := Some now, set_UpdatedBy := (if updatedBy \<noteq> 0 then updatedBy else set_UpdatedBy s)\<rparr>"

definition UpdateAccountSettings ::
  "'t settings_env \<Rightarrow> 't \<Rightarrow> object_id \<Rightarrow> object_id \<Rightarrow> int \<Rightarrow> int \<Rightarrow> 't \<times> (db_error + account_settings)" where
  "UpdateAccountSettings E c accountID updatedBy retentionHours maxTrafficEvents =
     se_upsert E c (\<lambda>s. set_AccountID s = accountID) (update_settings_doc (se_now E 1) updatedBy retentionHours maxTrafficEvents)
       \<lparr>set_ID = se_new_id E 1, set_AccountID = accountID, set_RetentionHours = retentionHours,
        set_MaxTrafficEvents = maxTrafficEvents, set_RedactionEnabled = True, set_UpdatedBy = updatedBy,
        set_CreatedAt = Some (se_now E 1), set_UpdatedAt = Some (se_now E 1)\<rparr>"

subsection \<open>The routes\<close>

definition minRetentionHours :: int where "minRetentionHours = 1"
definition maxRetentionHours :: int where "maxRetentionHours = 168"
definition minTrafficEventCap :: int where "minTrafficEventCap = 100"
definition maxTrafficEventCap :: int where "maxTrafficEventCap = 100000"

lemmas settings_bounds = minRetentionHours_def maxRetentionHours_def minTrafficEventCap_def maxTrafficEventCap_def

record settings_request =
  sr_RetentionHours :: "int option"
  sr_MaxTrafficEvents :: "int option"
  sr_RedactionEnabled :: "bool option"

record settings_response =
  sp_ID :: string
  sp_AccountID :: string
  sp_RetentionHours :: int
  sp_MaxTrafficEvents :: int
  sp_RedactionEnabled :: bool
  sp_UpdatedAt :: string

datatype settings_reply = SettingsError nat string | SettingsReply settings_response

definition requireAccountObjectID :: "(string \<Rightarrow> string + object_id) \<Rightarrow> principal \<Rightarrow> (nat \<times> string) + object_id" where
  "requireAccountObjectID fromHex p =
     (if pr_AccountID p = [] then Inl (401, ''Unauthorized'')
      else (case fromHex (pr_AccountID p) of Inl err \<Rightarrow> Inl (401, ''Invalid account'') | Inr accountID \<Rightarrow> Inr accountID))"

definition securitySettingsResponse :: "'t settings_env \<Rightarrow> account_settings \<Rightarrow> settings_response" where
  "securitySettingsResponse E s =
     \<lparr>sp_ID = se_Hex E (set_ID s), sp_AccountID = se_Hex E (set_AccountID s), sp_RetentionHours = set_RetentionHours s,
      sp_MaxTrafficEvents = set_MaxTrafficEvents s, sp_RedactionEnabled = set_RedactionEnabled s, sp_UpdatedAt = se_format E (set_UpdatedAt s)\<rparr>"

definition auditSettings :: "http_req \<Rightarrow> string \<Rightarrow> string \<Rightarrow> audit_log" where
  "auditSettings q status message =
     (let p = (case rx_Principal q of Some p \<Rightarrow> p | None \<Rightarrow> \<lparr>pr_Subject = [], pr_ActorType = [], pr_UserID = [], pr_AccountID = [], pr_Role = []\<rparr>);
          actorID = (if pr_UserID p \<noteq> [] then pr_UserID p else (case rx_Subject q of None \<Rightarrow> [] | Some s \<Rightarrow> s));
          actorType = (if pr_ActorType p \<noteq> [] then pr_ActorType p else ''user'')
      in \<lparr>adt_ID = 0, adt_CreatedAt = None, adt_ActorType = actorType, adt_ActorID = actorID, adt_Action = ''settings.update'',
          adt_ResourceType = ''account_settings'', adt_ResourceID = pr_AccountID p, adt_Status = status, adt_RemoteAddr = clientID q,
          adt_Message = message, adt_Metadata = [(''account_id'', pr_AccountID p)]\<rparr>)"

definition handleGetSecuritySettings :: "'t settings_env \<Rightarrow> http_req \<Rightarrow> 't \<Rightarrow> 't \<times> settings_reply" where
  "handleGetSecuritySettings E q c =
     (case requireRoles q settingsReadRoles of
        Inl (code, msg) \<Rightarrow> (c, SettingsError code msg)
      | Inr p \<Rightarrow>
          (case requireAccountObjectID (se_FromHex E) p of
             Inl (code, msg) \<Rightarrow> (c, SettingsError code msg)
           | Inr accountID \<Rightarrow>
               (case GetOrCreateAccountSettings E c accountID of
                  (c', Inl err) \<Rightarrow> (c', SettingsError 500 ''Failed to load settings'')
                | (c', Inr s) \<Rightarrow> (c', SettingsReply (securitySettingsResponse E s)))))"

text \<open>The two numbers of a request over the current ones, checked; an error is the reply and the audit message.\<close>

definition checked_settings :: "account_settings \<Rightarrow> settings_request \<Rightarrow> (string \<times> string) + int \<times> int" where
  "checked_settings current req =
     (let retentionHours = (case sr_RetentionHours req of None \<Rightarrow> set_RetentionHours current | Some n \<Rightarrow> n);
          maxTrafficEvents = (case sr_MaxTrafficEvents req of None \<Rightarrow> set_MaxTrafficEvents current | Some n \<Rightarrow> n)
      in if retentionHours < minRetentionHours \<or> retentionHours > maxRetentionHours
         then Inl (''retention_hours must be between 1 and 168'', ''invalid retention_hours'')
         else if maxTrafficEvents < minTrafficEventCap \<or> maxTrafficEvents > maxTrafficEventCap
         then Inl (''max_traffic_events must be between 100 and 100000'', ''invalid max_traffic_events'')
         else if sr_RedactionEnabled req = Some False
         then Inl (''redaction_enabled cannot be disabled'', ''redaction cannot be disabled'')
         else Inr (retentionHours, maxTrafficEvents))"

definition updating_user :: "(string \<Rightarrow> string + object_id) \<Rightarrow> principal \<Rightarrow> string + object_id" where
  "updating_user fromHex p = (if pr_UserID p = [] then Inr 0 else fromHex (pr_UserID p))"

definition handleUpdateSecuritySettings ::
  "'t settings_env \<Rightarrow> http_req \<Rightarrow> settings_request option \<Rightarrow> 't \<times> audit_log list \<Rightarrow> ('t \<times> audit_log list) \<times> settings_reply" where
  "handleUpdateSecuritySettings E q body w =
     (let (c, audit) = w; failed = (\<lambda>why. audit @ [auditSettings q ''failure'' why]) in
     case requireRoles q adminOnlyRoles of
        Inl (code, msg) \<Rightarrow> (w, SettingsError code msg)
      | Inr p \<Rightarrow>
     (case requireAccountObjectID (se_FromHex E) p of
        Inl (code, msg) \<Rightarrow> (w, SettingsError code msg)
      | Inr accountID \<Rightarrow>
     (case body of
        None \<Rightarrow> ((c, failed ''invalid json''), SettingsError 400 ''Invalid JSON'')
      | Some req \<Rightarrow>
     (case GetOrCreateAccountSettings E c accountID of
        (c1, Inl err) \<Rightarrow> ((c1, failed ''settings load failed''), SettingsError 500 ''Failed to load settings'')
      | (c1, Inr current) \<Rightarrow>
     (case checked_settings current req of
        Inl (msg, why) \<Rightarrow> ((c1, failed why), SettingsError 400 msg)
      | Inr (retentionHours, maxTrafficEvents) \<Rightarrow>
     (case updating_user (se_FromHex E) p of
        Inl err \<Rightarrow> ((c1, failed ''invalid user''), SettingsError 401 ''Invalid user'')
      | Inr updatedBy \<Rightarrow>
     (case UpdateAccountSettings E c1 accountID updatedBy retentionHours maxTrafficEvents of
        (c2, Inl err) \<Rightarrow> ((c2, failed ''settings update failed''), SettingsError 500 ''Failed to update settings'')
      | (c2, Inr s) \<Rightarrow> ((c2, audit @ [auditSettings q ''success'' []]), SettingsReply (securitySettingsResponse E s)))))))))"

subsection \<open>What is stored stays within the limits\<close>

definition settings_valid :: "account_settings \<Rightarrow> bool" where
  "settings_valid s \<longleftrightarrow>
     1 \<le> set_RetentionHours s \<and> set_RetentionHours s \<le> 168 \<and> 100 \<le> set_MaxTrafficEvents s \<and> set_MaxTrafficEvents s \<le> 100000 \<and>
     set_RedactionEnabled s"

text \<open>The requests of the two routes, in any order, each with its own clock and identifiers.\<close>

datatype settings_op = OpGetSettings http_req | OpPutSettings http_req "settings_request option"

fun run_settings_op :: "'t settings_env \<Rightarrow> 't \<times> audit_log list \<Rightarrow> settings_op \<Rightarrow> 't \<times> audit_log list" where
  "run_settings_op E w (OpGetSettings q) = (fst (handleGetSecuritySettings E q (fst w)), snd w)"
| "run_settings_op E w (OpPutSettings q body) = fst (handleUpdateSecuritySettings E q body w)"

fun run_settings_ops :: "'t settings_env \<Rightarrow> (nat \<Rightarrow> int) \<Rightarrow> (nat \<Rightarrow> object_id) \<Rightarrow> 't \<times> audit_log list \<Rightarrow> settings_op list \<Rightarrow> 't \<times> audit_log list" where
  "run_settings_ops E now new_id w [] = w"
| "run_settings_ops E now new_id w (x # xs) =
     run_settings_ops E (\<lambda>i. now (i + 2)) (\<lambda>i. new_id (i + 2)) (run_settings_op (E\<lparr>se_now := now, se_new_id := new_id\<rparr>) w x) xs"

locale settings_store = unique_store M up set_AccountID
  for M :: "('t, object_id, account_settings) coll" and up :: "('t, account_settings) upsert" +
  assumes settings_key: "coll_key M = set_ID"
begin

definition all_valid :: "'t \<Rightarrow> bool" where
  "all_valid c \<longleftrightarrow> coll_ok M c \<and> (\<forall>k s. coll_docs M c k = Some s \<longrightarrow> settings_valid s)"

lemma get_settings_valid:
  assumes "se_Settings E = M" "all_valid c" "GetOrCreateAccountSettings E c a = (c', r)"
  shows "all_valid c' \<and> (case r of Inl e \<Rightarrow> True | Inr s \<Rightarrow> settings_valid s \<and> set_AccountID s = a)"
proof -
  have found: "settings_valid s \<and> set_AccountID s = a" if "all_valid c2" "find_settings E c2 a = Inr s" for c2 s
    using that find_some [of c2 "\<lambda>s. set_AccountID s = a" s] assms(1)
    by (auto simp: find_settings_def all_valid_def split: sum.splits option.splits)
  show ?thesis
  proof (cases "find_settings E c a")
    case (Inr s)
    with assms(3) have "c' = c" "r = Inr s" by (simp_all add: GetOrCreateAccountSettings_def)
    with found [OF assms(2) Inr] assms(2) show ?thesis by simp
  next
    case (Inl e)
    show ?thesis
    proof (cases e)
      case None
      let ?s = "default_settings (se_now E 0) (se_new_id E 0) a"
      obtain c1 q where i: "coll_insert M c ?s = (c1, q)" by fastforce
      have v: "settings_valid ?s \<and> set_AccountID ?s = a"
        by (simp add: default_settings_def settings_valid_def defaultAccountRetentionHours_def defaultAccountMaxTrafficEvents_def)
      have "coll_ok M c" using assms(2) by (simp add: all_valid_def)
      from insert_cases [OF this i] insert_ok [OF this i] assms(2) v have c1: "all_valid c1"
        by (auto simp: all_valid_def split: if_splits)
      from assms(1,3) Inl None i have "c' = c1" and r: "r = Inr ?s \<or> r = find_settings E c1 a \<or> (\<exists>e. r = Inl e)"
        by (auto simp: GetOrCreateAccountSettings_def Let_def split: option.splits if_splits)
      with c1 v found [OF c1] show ?thesis by (auto split: sum.splits)
    next
      case (Some err)
      with Inl assms(3) have "c' = c" "r = Inl (Some err)" by (simp_all add: GetOrCreateAccountSettings_def)
      with assms(2) show ?thesis by simp
    qed
  qed
qed

lemma update_settings_valid:
  assumes "se_Settings E = M" "se_upsert E = up" "all_valid c" "UpdateAccountSettings E c a u h n = (c', r)"
    and h: "1 \<le> h" "h \<le> 168" "100 \<le> n" "n \<le> 100000"
  shows "all_valid c' \<and> (case r of Inl e \<Rightarrow> True | Inr s \<Rightarrow> settings_valid s \<and> set_AccountID s = a \<and> set_RetentionHours s = h \<and> set_MaxTrafficEvents s = n)"
proof -
  let ?new = "\<lparr>set_ID = se_new_id E 1, set_AccountID = a, set_RetentionHours = h, set_MaxTrafficEvents = n, set_RedactionEnabled = True,
    set_UpdatedBy = u, set_CreatedAt = Some (se_now E 1), set_UpdatedAt = Some (se_now E 1)\<rparr>"
  let ?u = "update_settings_doc (se_now E 1) u h n"
  have up: "up c (\<lambda>s. set_AccountID s = a) ?u ?new = (c', r)" using assms(2,4) by (simp add: UpdateAccountSettings_def)
  have key: "coll_key M (?u d) = coll_key M d" for d by (simp add: settings_key update_settings_doc_def)
  have ok: "coll_ok M c" using assms(3) by (simp add: all_valid_def)
  have valid: "settings_valid (?u d) \<and> set_RetentionHours (?u d) = h \<and> set_MaxTrafficEvents (?u d) = n" "settings_valid ?new" for d
    using h by (simp_all add: settings_valid_def update_settings_doc_def)
  have up_valid: "\<forall>k s. coll_docs M c' k = Some s \<longrightarrow> settings_valid s" if "upserted (coll_docs M c) (coll_key M) (\<lambda>s. set_AccountID s = a) ?u ?new d' (coll_docs M c')" for d'
    using that assms(3) valid by (auto simp: upserted_def updated_at_def all_valid_def split: if_splits)
  have acc: "set_AccountID (?u d) = set_AccountID d" for d by (simp add: update_settings_doc_def)
  show ?thesis
  proof (cases r)
    case (Inl e)
    from upsert_err [OF ok key up [unfolded Inl]] up_valid assms(3) upsert_ok [OF ok key up] Inl
    show ?thesis by (auto simp: all_valid_def)
  next
    case (Inr s)
    note d = upsert_done [OF ok key up [unfolded Inr]]
    have "settings_valid s \<and> set_AccountID s = a \<and> set_RetentionHours s = h \<and> set_MaxTrafficEvents s = n"
      using d valid acc by (auto simp: upserted_def updated_at_def)
    with up_valid [OF d] upsert_ok [OF ok key up] Inr show ?thesis by (auto simp: all_valid_def)
  qed
qed

text \<open>The two handlers keep the stored settings valid, and a successful update stores what was asked for.\<close>

lemma put_settings_valid:
  assumes "se_Settings E = M" "se_upsert E = up" "all_valid c" "handleUpdateSecuritySettings E q body (c, audit) = ((c', audit'), reply)"
  shows "all_valid c'"
proof (cases "\<exists>p a req c1 current u h n. requireRoles q adminOnlyRoles = Inr p \<and> requireAccountObjectID (se_FromHex E) p = Inr a \<and>
    body = Some req \<and> GetOrCreateAccountSettings E c a = (c1, Inr current) \<and> checked_settings current req = Inr (h, n) \<and>
    updating_user (se_FromHex E) p = Inr u \<and> c' = fst (UpdateAccountSettings E c1 a u h n)")
  case True
  then obtain p a req c1 current u h n where g: "GetOrCreateAccountSettings E c a = (c1, Inr current)"
    and ch: "checked_settings current req = Inr (h, n)" and c': "c' = fst (UpdateAccountSettings E c1 a u h n)" by blast
  obtain r where u: "UpdateAccountSettings E c1 a u h n = (c', r)" using c' by (cases "UpdateAccountSettings E c1 a u h n") auto
  have b: "1 \<le> h" "h \<le> 168" "100 \<le> n" "n \<le> 100000"
    using ch by (auto simp: checked_settings_def Let_def settings_bounds split: if_splits)
  from get_settings_valid [OF assms(1,3) g] have "all_valid c1" by simp
  from update_settings_valid [OF assms(1,2) this u b] show ?thesis by simp
next
  case False
  with assms(4) have "c' = c \<or> (\<exists>a. c' = fst (GetOrCreateAccountSettings E c a))"
    by (auto simp: handleUpdateSecuritySettings_def split: sum.splits option.splits prod.splits) (metis fst_conv)+
  then show ?thesis
  proof
    assume "\<exists>a. c' = fst (GetOrCreateAccountSettings E c a)"
    then obtain a r where "GetOrCreateAccountSettings E c a = (c', r)" by (metis prod.collapse)
    from get_settings_valid [OF assms(1,3) this] show ?thesis by simp
  qed (use assms(3) in simp)
qed

lemma run_settings_op_valid:
  assumes "se_Settings E = M" "se_upsert E = up" "all_valid (fst w)"
  shows "all_valid (fst (run_settings_op E w x))"
proof (cases x)
  case (OpGetSettings q)
  have "fst (run_settings_op E w x) = fst w \<or> (\<exists>a. fst (run_settings_op E w x) = fst (GetOrCreateAccountSettings E (fst w) a))"
    unfolding OpGetSettings by (auto simp: handleGetSecuritySettings_def split: sum.split prod.split) (metis fst_conv)+
  then show ?thesis
  proof
    assume "\<exists>a. fst (run_settings_op E w x) = fst (GetOrCreateAccountSettings E (fst w) a)"
    then obtain a r where "GetOrCreateAccountSettings E (fst w) a = (fst (run_settings_op E w x), r)" by (metis prod.collapse)
    from get_settings_valid [OF assms(1,3) this] show ?thesis by simp
  qed (use assms(3) in simp)
next
  case (OpPutSettings q body)
  obtain c audit where w: "w = (c, audit)" by fastforce
  obtain c' audit' reply where h: "handleUpdateSecuritySettings E q body (c, audit) = ((c', audit'), reply)" by (metis prod.collapse)
  from put_settings_valid [OF assms(1,2) _ h] assms(3) h show ?thesis by (simp add: OpPutSettings w)
qed

lemma run_settings_ops_valid:
  assumes "se_Settings E = M" "se_upsert E = up" "all_valid (fst w)"
  shows "all_valid (fst (run_settings_ops E now new_id w xs))"
  using assms(3)
proof (induction xs arbitrary: w now new_id)
  case (Cons x xs)
  from run_settings_op_valid [of "E\<lparr>se_now := now, se_new_id := new_id\<rparr>" w x] Cons.prems assms
  have "all_valid (fst (run_settings_op (E\<lparr>se_now := now, se_new_id := new_id\<rparr>) w x))" by simp
  from Cons.IH [OF this] show ?case by simp
qed simp

end

definition settings_index :: "account_settings list \<Rightarrow> bool" where
  "settings_index ss \<longleftrightarrow> distinct (map set_AccountID ss)"

interpretation mem_settings: settings_store "mem_unique set_ID settings_index" "mem_upsert set_ID settings_index"
  by (intro settings_store.intro mem_unique_store settings_store_axioms.intro) (simp_all add: settings_index_def mem_coll_def)

subsection \<open>Properties\<close>

text \<open>
  Property C36. The settings of an account cannot leave their limits: whatever requests are made to the two
  routes, by whomever and in whatever order, and whatever the database answers, every stored document
  keeps a retention of 1 to 168 hours, a cap of 100 to 100000 events and the redaction switched on.
\<close>

theorem settings_stay_valid:
  assumes "settings_store (se_Settings E) (se_upsert E)" "coll_ok (se_Settings E) c"
    and "\<And>k s. coll_docs (se_Settings E) c k = Some s \<Longrightarrow> settings_valid s"
    and "coll_docs (se_Settings E) (fst (run_settings_ops E now new_id (c, audit) xs)) k = Some s"
  shows "settings_valid s"
proof -
  have "settings_store.all_valid (se_Settings E) c"
    using assms(2,3) by (simp add: settings_store.all_valid_def [OF assms(1)])
  with settings_store.run_settings_ops_valid [OF assms(1), of E "(c, audit)" now new_id xs]
  have "settings_store.all_valid (se_Settings E) (fst (run_settings_ops E now new_id (c, audit) xs))" by simp
  with assms(4) show ?thesis by (simp add: settings_store.all_valid_def [OF assms(1)])
qed

definition mem_settings_env :: "account_settings list settings_env" where
  "mem_settings_env =
     \<lparr>se_Settings = mem_unique set_ID settings_index, se_upsert = mem_upsert set_ID settings_index, se_isDuplicateKey = (\<lambda>e. True),
      se_now = int, se_new_id = id, se_Hex = itoa, se_FromHex = (\<lambda>s. Inr 1), se_format = (\<lambda>t. [])\<rparr>"

definition admin_request :: http_req where
  "admin_request =
     \<lparr>rx_Method = ''PUT'', rx_Path = ''/settings/security'', rx_Header = (\<lambda>k. []), rx_RemoteAddr = [], rx_HasBody = True,
      rx_BodyLimit = None, rx_Subject = None,
      rx_Principal = Some \<lparr>pr_Subject = [], pr_ActorType = ''user'', pr_UserID = [], pr_AccountID = ''1'', pr_Role = UserRoleAdmin\<rparr>\<rparr>"

theorem settings_stay_valid_witness:
  "\<exists>s. coll_docs (se_Settings mem_settings_env) (fst (run_settings_ops mem_settings_env int (\<lambda>i. i + 5) ([], [])
      [OpPutSettings admin_request (Some \<lparr>sr_RetentionHours = Some 48, sr_MaxTrafficEvents = None, sr_RedactionEnabled = None\<rparr>)])) 5 = Some s \<and>
    settings_valid s"
proof -
  let ?xs = "[OpPutSettings admin_request (Some \<lparr>sr_RetentionHours = Some 48, sr_MaxTrafficEvents = None, sr_RedactionEnabled = None\<rparr>)]"
  have "coll_docs (se_Settings mem_settings_env) (fst (run_settings_ops mem_settings_env int (\<lambda>i. i + 5) ([], []) ?xs)) 5 \<noteq> None" by code_simp
  then obtain s where s: "coll_docs (se_Settings mem_settings_env) (fst (run_settings_ops mem_settings_env int (\<lambda>i. i + 5) ([], []) ?xs)) 5 = Some s"
    by auto
  have "settings_store (se_Settings mem_settings_env) (se_upsert mem_settings_env)" "coll_ok (se_Settings mem_settings_env) []"
    by (auto simp: mem_settings_env_def mem_settings.settings_store_axioms settings_index_def mem_coll_def)
  then have "settings_valid s"
    by (rule settings_stay_valid [OF _ _ _ s]) (simp add: mem_settings_env_def mem_coll_def mem_docs_def)
  with s show ?thesis by blast
qed

end
