(* ===== verification/Inventory_Store.thy ===== *)
theory Inventory_Store
  imports Analyzer Traffic_Metrics Doc_Upsert
begin

text \<open>
  What \<open>ProcessLog\<close> of \<open>internal/analyzer/processor.go\<close> writes: the endpoint in the inventory, its
  parameters, the samples and the metrics, over the assessment of \<open>Analyzer\<close>. The collections are
  parameters; \<open>up\<close> is an update with \<open>SetUpsert(true)\<close>. The operators of an update document are
  functions on records: \<open>add_to_set\<close> is \<open>$addToSet\<close> and \<open>capped_push\<close> is \<open>$push\<close> with a
  negative \<open>$slice\<close>. Request counts stay far below \<open>2 ^ 63\<close>, so \<open>$inc\<close> is exact.
\<close>

subsection \<open>Update operators\<close>

fun add_to_set :: "'a list \<Rightarrow> 'a list \<Rightarrow> 'a list" where
  "add_to_set old [] = old"
| "add_to_set old (x # xs) = add_to_set (if x \<in> set old then old else old @ [x]) xs"

definition capped_push :: "nat \<Rightarrow> 'a list \<Rightarrow> 'a \<Rightarrow> 'a list" where
  "capped_push n old x = drop (length (old @ [x]) - n) (old @ [x])"

text \<open>The entries that a loop puts under \<open>push\<close>, one for each key, and their effect on a map of lists.\<close>

definition apply_pushes :: "string gomap \<Rightarrow> string list gomap \<Rightarrow> string list gomap" where
  "apply_pushes pushes m = foldl (\<lambda>m (k, v). AList.update k (capped_push 10 (strs_at m k) v) m) m pushes"

definition header_pushes :: "string list gomap \<Rightarrow> string gomap" where
  "header_pushes headers = foldl (\<lambda>push (k, v). if v = [] then push else AList.update (mongoFieldKey k) (hd v) push) [] headers"

definition param_pushes :: "re_replace \<Rightarrow> parameter_observation list \<Rightarrow> string gomap" where
  "param_pushes re_replace observations =
     foldl (\<lambda>push ob. if po_Location ob = LocationPath
        then AList.update (mongoFieldKey (po_Name ob)) (redact_Text re_replace (po_Value ob)) push else push) [] observations"

subsection \<open>Observations\<close>

definition parameterObservations ::
  "(string \<Rightarrow> bool) \<Rightarrow> parameter_observation list \<Rightarrow> traffic_log \<Rightarrow> traffic_log \<Rightarrow> string gomap \<Rightarrow> string gomap \<Rightarrow> parameter_observation list" where
  "parameterObservations is_float pathParams logEntry redacted reqSchema respSchema =
     pathParams @ QueryParameters is_float (log_URL logEntry) @ CookieParameters is_float (log_ReqHeaders logEntry) @
     map (\<lambda>(k, vs). \<lparr>po_Name = k, po_Location = LocationHeader, po_Value = (if vs = [] then [] else hd vs), po_DataType = ''string''\<rparr>)
       (log_ReqHeaders redacted) @
     map (\<lambda>(k, t). \<lparr>po_Name = k, po_Location = LocationRequestBody, po_Value = [], po_DataType = t\<rparr>) reqSchema @
     map (\<lambda>(k, t). \<lparr>po_Name = k, po_Location = LocationResponseBody, po_Value = [], po_DataType = t\<rparr>) respSchema"

subsection \<open>The processor\<close>

text \<open>\<open>Confidence\<close> is the float that the program writes, always 1.\<close>

record api_parameter =
  prm_ID :: object_id
  prm_TenantID :: string
  prm_ProjectID :: string
  prm_EndpointFingerprint :: string
  prm_Method :: string
  prm_BaseURL :: string
  prm_PathPattern :: string
  prm_Name :: string
  prm_Location :: string
  prm_DataTypes :: "string list"
  prm_SensitiveData :: "string list"
  prm_SampleValues :: "string list"
  prm_ObservedCount :: int
  prm_Confidence :: int
  prm_FirstSeenAt :: gotime
  prm_LastSeenAt :: gotime
  prm_CreatedAt :: gotime
  prm_UpdatedAt :: gotime

record ('i, 'p, 't, 's, 'm) processor =
  pc_Inventory :: "('i, object_id, api_inventory) coll"
  pc_inventory_up :: "('i, api_inventory) upsert"
  pc_Parameters :: "('p, object_id, api_parameter) coll"
  pc_parameters_up :: "('p, api_parameter) upsert"
  pc_TrafficSamples :: "('t, object_id, traffic_sample) coll"
  pc_TrafficSamplesB :: "('t, traffic_sample) bulk"
  pc_SensitiveSamples :: "('s, object_id, sensitive_sample) coll"
  pc_SensitiveSamplesB :: "('s, sensitive_sample) bulk"
  pc_Metrics :: "'m metric_store"
  pc_EndpointRules :: "compiled_rule list option"
  pc_EndpointSampleLimit :: int
  pc_env :: analyzer_env
  pc_redact :: re_replace
  pc_fmt_time :: "int \<Rightarrow> string"

record ('i, 'p, 't, 's, 'm) processor_state =
  ps_inventory :: 'i
  ps_parameters :: 'p
  ps_traffic_samples :: 't
  ps_sensitive_samples :: 's
  ps_metrics :: 'm

definition defaultEndpointSampleLimit :: int where
  "defaultEndpointSampleLimit = 20"

definition sample_limit :: "int option \<Rightarrow> int" where
  "sample_limit opts =
     (let limit = (case opts of None \<Rightarrow> defaultEndpointSampleLimit | Some n \<Rightarrow> n)
      in if limit \<le> 0 then defaultEndpointSampleLimit else limit)"

subsection \<open>The inventory\<close>

definition InventorySchemaV2 :: string where
  "InventorySchemaV2 = ''api.inventory.v2''"

definition inventory_set ::
  "analyzer_env \<Rightarrow> re_replace \<Rightarrow> assessment \<Rightarrow> traffic_log \<Rightarrow> int \<Rightarrow> parameter_observation list \<Rightarrow> api_inventory \<Rightarrow> api_inventory" where
  "inventory_set ev re_replace A logEntry now observations doc =
     (let redacted = redact_TrafficLog re_replace logEntry in
      doc\<lparr>inv_UpdatedAt := Some now, inv_LastSeenAt := Some (observedAt logEntry now),
        inv_SampleReqBody := log_ReqBody redacted, inv_SampleRespBody := log_RespBody redacted,
        inv_SchemaReq := schema_Learn (ae_json_decode ev) (log_ReqBody logEntry),
        inv_SchemaResp := schema_Learn (ae_json_decode ev) (log_RespBody logEntry),
        inv_HeaderSchema := headerSchema (log_ReqHeaders logEntry),
        inv_RiskLevel := as_RiskLevel A, inv_RiskReasons := as_RiskReasons A, inv_AuthObserved := as_AuthObserved A,
        inv_RequestCount := inv_RequestCount doc + 1,
        inv_AgentID := (if log_AgentID logEntry \<noteq> [] then log_AgentID logEntry else inv_AgentID doc),
        inv_CaptureSource := (if log_CaptureSource logEntry \<noteq> [] then log_CaptureSource logEntry else inv_CaptureSource doc),
        inv_CaptureMode := (if log_CaptureMode logEntry \<noteq> [] then log_CaptureMode logEntry else inv_CaptureMode doc),
        inv_PathExamples := (if trim_space (log_Path logEntry) \<noteq> [] then capped_push 10 (inv_PathExamples doc) (log_Path logEntry)
          else inv_PathExamples doc),
        inv_SensitiveData := add_to_set (inv_SensitiveData doc) (as_FinalPII A),
        inv_Tags := add_to_set (inv_Tags doc) (as_Tags A),
        inv_StatusCodes := (if as_StatusCode A > 0 then add_to_set (inv_StatusCodes doc) [as_StatusCode A] else inv_StatusCodes doc),
        inv_ContentTypes := add_to_set (inv_ContentTypes doc) (observedContentTypes logEntry),
        inv_SampleHeaders := apply_pushes (header_pushes (log_ReqHeaders redacted)) (inv_SampleHeaders doc),
        inv_ParamValues := apply_pushes (param_pushes re_replace observations) (inv_ParamValues doc)\<rparr>)"

text \<open>The document that an insertion starts from.\<close>

definition inventory_on_insert :: "assessment \<Rightarrow> traffic_log \<Rightarrow> int \<Rightarrow> object_id \<Rightarrow> api_inventory" where
  "inventory_on_insert A logEntry now fresh =
     zero_api_inventory\<lparr>inv_ID := fresh, inv_SchemaVersion := InventorySchemaV2, inv_EndpointFingerprint := as_Fingerprint A,
       inv_CreatedAt := Some now, inv_FirstSeenAt := Some (observedAt logEntry now), inv_OriginalPath := log_Path logEntry,
       inv_Method := to_upper (trim_space (log_Method logEntry)), inv_PathPattern := as_PathPattern A, inv_BaseURL := as_BaseURL A,
       inv_Host := as_Host A, inv_TenantID := log_TenantID logEntry, inv_ProjectID := log_ProjectID logEntry\<rparr>"

subsection \<open>Parameters\<close>

definition parameter_set ::
  "analyzer_env \<Rightarrow> re_replace \<Rightarrow> assessment \<Rightarrow> traffic_log \<Rightarrow> int \<Rightarrow> parameter_observation \<Rightarrow> api_parameter \<Rightarrow> api_parameter" where
  "parameter_set ev re_replace A logEntry now ob p =
     (let sensitiveTags = sensitiveTagsFor (ae_re_find ev) (po_Location ob) (po_Name ob) (po_Value ob);
          sample = redactedParameterSample re_replace (po_Value ob) sensitiveTags
      in p\<lparr>prm_UpdatedAt := Some now, prm_LastSeenAt := Some (observedAt logEntry now),
          prm_Method := to_upper (trim_space (log_Method logEntry)), prm_BaseURL := as_BaseURL A, prm_PathPattern := as_PathPattern A,
          prm_Confidence := 1, prm_ObservedCount := prm_ObservedCount p + 1,
          prm_DataTypes := (if po_DataType ob \<noteq> [] then add_to_set (prm_DataTypes p) [po_DataType ob] else prm_DataTypes p),
          prm_SensitiveData := add_to_set (prm_SensitiveData p) sensitiveTags,
          prm_SampleValues := (if sample \<noteq> [] then capped_push 10 (prm_SampleValues p) sample else prm_SampleValues p)\<rparr>)"

definition parameter_on_insert :: "assessment \<Rightarrow> traffic_log \<Rightarrow> int \<Rightarrow> object_id \<Rightarrow> parameter_observation \<Rightarrow> api_parameter" where
  "parameter_on_insert A logEntry now fresh ob =
     \<lparr>prm_ID = fresh, prm_TenantID = log_TenantID logEntry, prm_ProjectID = log_ProjectID logEntry,
      prm_EndpointFingerprint = as_Fingerprint A, prm_Method = [], prm_BaseURL = [], prm_PathPattern = [], prm_Name = po_Name ob,
      prm_Location = po_Location ob, prm_DataTypes = [], prm_SensitiveData = [], prm_SampleValues = [], prm_ObservedCount = 0,
      prm_Confidence = 0, prm_FirstSeenAt = Some (observedAt logEntry now), prm_LastSeenAt = None, prm_CreatedAt = Some now,
      prm_UpdatedAt = None\<rparr>"

text \<open>The loop over the observations; it stops at the first error. The identifiers are those the database gives.\<close>

fun upsertParameters ::
  "('i, 'p, 't, 's, 'm) processor \<Rightarrow> assessment \<Rightarrow> traffic_log \<Rightarrow> int \<Rightarrow> (nat \<Rightarrow> object_id) \<Rightarrow> 'p \<Rightarrow> parameter_observation list \<Rightarrow>
     'p \<times> db_error option" where
  "upsertParameters pc A logEntry now fresh c [] = (c, None)"
| "upsertParameters pc A logEntry now fresh c (ob # obs) =
     (if trim_space (po_Name ob) = [] \<or> trim_space (po_Location ob) = [] then upsertParameters pc A logEntry now fresh c obs
      else (let f = (\<lambda>p. prm_EndpointFingerprint p = as_Fingerprint A \<and> prm_Location p = po_Location ob \<and> prm_Name p = po_Name ob);
                u = parameter_set (pc_env pc) (pc_redact pc) A logEntry now ob
            in case pc_parameters_up pc c f u (u (parameter_on_insert A logEntry now (fresh (length obs)) ob)) of
                 (c', Inl e) \<Rightarrow> (c', Some e)
               | (c', Inr p) \<Rightarrow> upsertParameters pc A logEntry now fresh c' obs))"

subsection \<open>Samples\<close>

text \<open>The newest capture first, the greater identifier first among equal ones; an identifier has 12 bytes.\<close>

definition sample_order :: "('d \<Rightarrow> gotime) \<Rightarrow> ('d \<Rightarrow> object_id) \<Rightarrow> 'd \<Rightarrow> int" where
  "sample_order captured key d = - (time_key (captured d) * 2 ^ 96 + int (key d))"

definition pruneEndpointSamples ::
  "('c, 'd) bulk \<Rightarrow> ('d \<Rightarrow> string) \<Rightarrow> ('d \<Rightarrow> gotime) \<Rightarrow> ('d \<Rightarrow> object_id) \<Rightarrow> 'c \<Rightarrow> string \<Rightarrow> int \<Rightarrow> 'c \<times> db_error option" where
  "pruneEndpointSamples B fp captured key c fingerprint limit =
     (if trim_space fingerprint = [] \<or> limit \<le> 0 then (c, None)
      else (case bulk_find B c (\<lambda>d. fp d = fingerprint) (sample_order captured key) (nat limit) of
          Inl e \<Rightarrow> (c, Some e)
        | Inr items \<Rightarrow>
            (let ids = filter (\<lambda>i. i \<noteq> 0) (map key items) in
             if ids = [] then (c, None) else bulk_delete B c (\<lambda>d. key d \<in> set ids))))"

definition saveTrafficSample ::
  "('i, 'p, 't, 's, 'm) processor \<Rightarrow> assessment \<Rightarrow> traffic_log \<Rightarrow> int \<Rightarrow> object_id \<Rightarrow> 't \<Rightarrow> 't \<times> db_error option" where
  "saveTrafficSample pc A logEntry now fresh c =
     (let sample = (trafficSampleFromLog (ae_sha256_hex (pc_env pc)) logEntry (redact_TrafficLog (pc_redact pc) logEntry) (as_BaseURL A)
            (as_Host A) (as_PathPattern A) (as_Fingerprint A) (as_FinalPII A) (as_Tags A) now)\<lparr>ts_ID := fresh\<rparr>
      in case coll_insert (pc_TrafficSamples pc) c sample of
           (c', Some e) \<Rightarrow> (c', Some e)
         | (c', None) \<Rightarrow> pruneEndpointSamples (pc_TrafficSamplesB pc) ts_EndpointFingerprint ts_CapturedAt ts_ID c' (as_Fingerprint A)
             (pc_EndpointSampleLimit pc))"

definition saveSensitiveSample ::
  "('i, 'p, 't, 's, 'm) processor \<Rightarrow> assessment \<Rightarrow> traffic_log \<Rightarrow> int \<Rightarrow> object_id \<Rightarrow> 's \<Rightarrow> 's \<times> db_error option" where
  "saveSensitiveSample pc A logEntry now fresh c =
     (if as_FinalPII A = [] \<or> as_Observations A = [] then (c, None)
      else (let sample = (sensitiveSampleFromObservations (pc_redact pc) logEntry (as_BaseURL A) (as_PathPattern A) (as_Fingerprint A)
                 (as_FinalPII A) (as_Observations A) now)\<lparr>ss_ID := fresh\<rparr>
            in if ss_Occurrences sample = [] then (c, None)
               else (case coll_insert (pc_SensitiveSamples pc) c sample of
                   (c', Some e) \<Rightarrow> (c', Some e)
                 | (c', None) \<Rightarrow> pruneEndpointSamples (pc_SensitiveSamplesB pc) ss_EndpointFingerprint ss_CapturedAt ss_ID c'
                     (as_Fingerprint A) (pc_EndpointSampleLimit pc))))"

subsection \<open>ProcessLog\<close>

text \<open>
  \<open>fresh\<close> gives the identifiers of new documents, \<open>now2\<close> is the clock of \<open>upsertParameters\<close>. When the
  inventory cannot be written, nothing else is; the errors of the other steps are only logged.
\<close>

definition observations_of :: "('i, 'p, 't, 's, 'm) processor \<Rightarrow> traffic_log \<Rightarrow> parameter_observation list" where
  "observations_of pc logEntry =
     (let ev = pc_env pc in
      parameterObservations (ae_is_float ev) (np_Parameters (NormalizePath (ae_is_float ev) (log_Path logEntry) (log_URL logEntry)))
        logEntry (redact_TrafficLog (pc_redact pc) logEntry)
        (schema_Learn (ae_json_decode ev) (log_ReqBody logEntry)) (schema_Learn (ae_json_decode ev) (log_RespBody logEntry)))"

definition ProcessLog ::
  "('i, 'p, 't, 's, 'm) processor \<Rightarrow> int \<Rightarrow> int \<Rightarrow> (nat \<Rightarrow> object_id) \<Rightarrow> ('i, 'p, 't, 's, 'm) processor_state \<Rightarrow> traffic_log \<Rightarrow>
     ('i, 'p, 't, 's, 'm) processor_state" where
  "ProcessLog pc now now2 fresh st logEntry =
     (let A = assess_log (pc_env pc) (pc_EndpointRules pc) logEntry;
          observations = observations_of pc logEntry;
          u = inventory_set (pc_env pc) (pc_redact pc) A logEntry now observations
      in case pc_inventory_up pc (ps_inventory st) (\<lambda>i. inv_EndpointFingerprint i = as_Fingerprint A) u
             (u (inventory_on_insert A logEntry now (fresh 0))) of
           (c, Inl err) \<Rightarrow> st\<lparr>ps_inventory := c\<rparr>
         | (c, Inr i) \<Rightarrow>
             st\<lparr>ps_inventory := c,
               ps_parameters := fst (upsertParameters pc A logEntry now2 (\<lambda>k. fresh (k + 3)) (ps_parameters st) observations),
               ps_traffic_samples := fst (saveTrafficSample pc A logEntry now (fresh 1) (ps_traffic_samples st)),
               ps_sensitive_samples := fst (saveSensitiveSample pc A logEntry now (fresh 2) (ps_sensitive_samples st)),
               ps_metrics := fst (recordTrafficMetrics (pc_Metrics pc) (ae_sha256_hex (pc_env pc)) (pc_fmt_time pc) logEntry (as_Fingerprint A)
                 (as_RiskLevel A) (as_AuthObserved A) (as_FinalPII A \<noteq> []) (as_StatusCode A) now (ps_metrics st))\<rparr>)"

text \<open>A stream of logs, each with its clocks and identifiers.\<close>

record log_input =
  li_log :: traffic_log
  li_now :: int
  li_now2 :: int
  li_fresh :: "nat \<Rightarrow> object_id"

definition process_all ::
  "('i, 'p, 't, 's, 'm) processor \<Rightarrow> ('i, 'p, 't, 's, 'm) processor_state \<Rightarrow> log_input list \<Rightarrow> ('i, 'p, 't, 's, 'm) processor_state" where
  "process_all pc st inputs = foldl (\<lambda>st x. ProcessLog pc (li_now x) (li_now2 x) (li_fresh x) st (li_log x)) st inputs"

end
