(* ===== verification/Inventory_Logic.thy ===== *)
theory Inventory_Logic
  imports Inventory_Store
begin

text \<open>
  What the inventory keeps while logs are processed, whatever the database answers: the shape of its
  documents, and, when the database answers, the exact number of requests of every endpoint. The
  locale \<open>inventory_store\<close> is the collection with its unique index on the fingerprint.
\<close>

subsection \<open>The operators\<close>

lemma set_add_to_set: "set (add_to_set old xs) = set old \<union> set xs"
  by (induction xs arbitrary: old) auto

lemma distinct_add_to_set: "distinct old \<Longrightarrow> distinct (add_to_set old xs)"
  by (induction xs arbitrary: old) auto

lemma capped_push_length: "length (capped_push n old x) \<le> n"
  by (simp add: capped_push_def)

lemma update_member: "x \<in> set (AList.update k v m) \<Longrightarrow> x = (k, v) \<or> x \<in> set m"
  by (induction m) (auto split: if_splits)

definition capped_lists :: "nat \<Rightarrow> string list gomap \<Rightarrow> bool" where
  "capped_lists n m \<longleftrightarrow> list_all (\<lambda>(k, vs). length vs \<le> n) m"

lemma capped_update: "capped_lists n m \<Longrightarrow> length vs \<le> n \<Longrightarrow> capped_lists n (AList.update k vs m)"
  using update_member [of _ k vs m] by (fastforce simp: capped_lists_def list_all_iff)

lemma apply_pushes_capped: "capped_lists 10 m \<Longrightarrow> capped_lists 10 (apply_pushes pushes m)"
  unfolding apply_pushes_def
  by (induction pushes arbitrary: m) (auto simp: capped_update capped_push_length)

subsection \<open>Documents\<close>

definition endpoint_shape :: "api_inventory \<Rightarrow> bool" where
  "endpoint_shape i \<longleftrightarrow>
     distinct (inv_SensitiveData i) \<and> distinct (inv_Tags i) \<and> distinct (inv_StatusCodes i) \<and> distinct (inv_ContentTypes i) \<and>
     length (inv_PathExamples i) \<le> 10 \<and> capped_lists 10 (inv_SampleHeaders i) \<and> capped_lists 10 (inv_ParamValues i) \<and>
     0 \<le> inv_RequestCount i"

definition well_formed_endpoint :: "api_inventory \<Rightarrow> bool" where
  "well_formed_endpoint i \<longleftrightarrow>
     endpoint_shape i \<and> 1 \<le> inv_RequestCount i \<and> inv_RiskLevel i \<in> {''LOW'', ''MEDIUM'', ''HIGH'', ''CRITICAL''}"

lemma inventory_on_insert_shape: "endpoint_shape (inventory_on_insert A l now fresh)"
  by (simp add: inventory_on_insert_def zero_api_inventory_def endpoint_shape_def capped_lists_def)

lemma maxRiskLevel_level: "maxRiskLevel a b \<in> {''LOW'', ''MEDIUM'', ''HIGH'', ''CRITICAL''}"
  unfolding maxRiskLevel_def Let_def riskRank_def by (auto simp: go_str)

lemma assessed_level: "as_RiskLevel (assess_log ev rules l) \<in> {''LOW'', ''MEDIUM'', ''HIGH'', ''CRITICAL''}"
  using maxRiskLevel_level by (simp add: assess_log_def Let_def del: insert_iff)

lemma inventory_set_well_formed:
  assumes "endpoint_shape i"
  shows "well_formed_endpoint (inventory_set ev rr (assess_log ev rules l) l now obs i)"
proof -
  have "as_RiskLevel (assess_log ev rules l) \<in> {''LOW'', ''MEDIUM'', ''HIGH'', ''CRITICAL''}" by (rule assessed_level)
  with assms show ?thesis
    by (simp add: well_formed_endpoint_def endpoint_shape_def inventory_set_def Let_def distinct_add_to_set capped_push_length
        apply_pushes_capped)
qed

lemma inventory_set_keeps [simp]:
  "inv_ID (inventory_set ev rr A l now obs i) = inv_ID i"
  "inv_EndpointFingerprint (inventory_set ev rr A l now obs i) = inv_EndpointFingerprint i"
  "inv_RequestCount (inventory_set ev rr A l now obs i) = inv_RequestCount i + 1"
  by (simp_all add: inventory_set_def Let_def)

lemma inventory_on_insert_fields [simp]:
  "inv_EndpointFingerprint (inventory_on_insert A l now fresh) = as_Fingerprint A"
  "inv_RequestCount (inventory_on_insert A l now fresh) = 0"
  by (simp_all add: inventory_on_insert_def zero_api_inventory_def)

text \<open>
  The risk level of an endpoint is that of its latest log, whereas its sensitive data accumulate: a
  log without sensitive data lowers the level of an endpoint that is still listed with them.
\<close>

lemma risk_follows_latest_log:
  "inv_RiskLevel (inventory_set ev rr A l now obs i) = as_RiskLevel A"
  "set (inv_SensitiveData i) \<subseteq> set (inv_SensitiveData (inventory_set ev rr A l now obs i))"
  by (auto simp: inventory_set_def Let_def set_add_to_set)

subsection \<open>The collection\<close>

definition log_fingerprint :: "('i, 'p, 't, 's, 'm) processor \<Rightarrow> traffic_log \<Rightarrow> string" where
  "log_fingerprint pc l = as_Fingerprint (assess_log (pc_env pc) (pc_EndpointRules pc) l)"

text \<open>What processing a log does to the inventory: one upsert by the fingerprint.\<close>

definition log_set :: "('i, 'p, 't, 's, 'm) processor \<Rightarrow> int \<Rightarrow> traffic_log \<Rightarrow> api_inventory \<Rightarrow> api_inventory" where
  "log_set pc now l =
     inventory_set (pc_env pc) (pc_redact pc) (assess_log (pc_env pc) (pc_EndpointRules pc) l) l now (observations_of pc l)"

definition log_new :: "('i, 'p, 't, 's, 'm) processor \<Rightarrow> int \<Rightarrow> object_id \<Rightarrow> traffic_log \<Rightarrow> api_inventory" where
  "log_new pc now fresh l =
     log_set pc now l (inventory_on_insert (assess_log (pc_env pc) (pc_EndpointRules pc) l) l now fresh)"

lemma ProcessLog_inventory:
  "ps_inventory (ProcessLog pc now now2 fresh st l) =
     fst (pc_inventory_up pc (ps_inventory st) (\<lambda>i. inv_EndpointFingerprint i = log_fingerprint pc l) (log_set pc now l)
       (log_new pc now (fresh 0) l))"
  by (auto simp: ProcessLog_def Let_def log_fingerprint_def log_set_def log_new_def split: prod.split sum.split)

lemma log_docs [simp]:
  "inv_ID (log_set pc now l i) = inv_ID i" "inv_EndpointFingerprint (log_set pc now l i) = inv_EndpointFingerprint i"
  "inv_RequestCount (log_set pc now l i) = inv_RequestCount i + 1"
  "inv_EndpointFingerprint (log_new pc now fresh l) = log_fingerprint pc l" "inv_RequestCount (log_new pc now fresh l) = 1"
  by (simp_all add: log_set_def log_new_def log_fingerprint_def)

lemma log_set_well_formed: "well_formed_endpoint i \<Longrightarrow> well_formed_endpoint (log_set pc now l i)"
  by (simp add: log_set_def inventory_set_well_formed well_formed_endpoint_def [of i])

lemma log_new_well_formed: "well_formed_endpoint (log_new pc now fresh l)"
  by (simp add: log_new_def log_set_def inventory_set_well_formed inventory_on_insert_shape)

locale inventory_store = unique_store M up inv_EndpointFingerprint
  for M :: "('i, object_id, api_inventory) coll" and up :: "('i, api_inventory) upsert" +
  assumes inventory_key: "coll_key M = inv_ID"
begin

definition inventory_ok :: "'i \<Rightarrow> bool" where
  "inventory_ok c \<longleftrightarrow> coll_ok M c \<and> (\<forall>k i. coll_docs M c k = Some i \<longrightarrow> well_formed_endpoint i)"

lemma log_key: "coll_key M (log_set pc now l i) = coll_key M i"
  by (simp add: inventory_key)

lemma ProcessLog_inventory_ok:
  assumes "pc_inventory_up pc = up" "inventory_ok (ps_inventory st)"
  shows "inventory_ok (ps_inventory (ProcessLog pc now now2 fresh st l))"
proof -
  let ?f = "\<lambda>i. inv_EndpointFingerprint i = log_fingerprint pc l"
  obtain c r where u: "up (ps_inventory st) ?f (log_set pc now l) (log_new pc now (fresh 0) l) = (c, r)" by fastforce
  have ok: "coll_ok M (ps_inventory st)" and wf: "\<And>k i. coll_docs M (ps_inventory st) k = Some i \<Longrightarrow> well_formed_endpoint i"
    using assms(2) by (auto simp: inventory_ok_def)
  have "well_formed_endpoint i" if "coll_docs M c k = Some i" for k i
    by (rule upsert_keeps [where J = well_formed_endpoint, OF ok log_key u log_new_well_formed _ wf that])
      (rule log_set_well_formed)
  moreover have "coll_ok M c" by (rule upsert_ok [OF ok log_key u])
  ultimately show ?thesis using u assms(1) by (simp add: inventory_ok_def ProcessLog_inventory)
qed

lemma process_all_ok:
  assumes "pc_inventory_up pc = up" "inventory_ok (ps_inventory st)"
  shows "inventory_ok (ps_inventory (process_all pc st inputs))"
  using assms(2)
proof (induction inputs arbitrary: st)
  case (Cons x inputs)
  from ProcessLog_inventory_ok [OF assms(1) Cons.prems] Cons.IH show ?case by (simp add: process_all_def)
qed (simp add: process_all_def)

end

subsection \<open>No credential in a stored sample\<close>

text \<open>
  A header is masked under its name and stored under \<open>mongoFieldKey\<close> of it, which turns some
  characters into underscores; since no credential name has one, a stored name that speaks of a
  credential did so before.
\<close>

lemma sublist_map_back:
  assumes f: "\<And>c. f c = c \<or> f c = u" and w: "u \<notin> set w"
  shows "sublist w (map f s) \<Longrightarrow> sublist w s"
proof -
  assume "sublist w (map f s)"
  then obtain x y where e: "map f s = x @ w @ y" by (auto simp: sublist_def)
  then obtain a d where "s = a @ d" "map f d = w @ y" by (metis map_eq_append_conv)
  moreover from this(2) obtain b c where "d = b @ c" "map f b = w" by (metis map_eq_append_conv)
  ultimately have s: "s = a @ b @ c" "map f b = w" by simp_all
  have "map f b = b"
  proof (rule map_idI)
    fix c assume "c \<in> set b"
    then have "f c \<in> set w" using s(2) by auto
    with f [of c] w show "f c = c" by auto
  qed
  with s show "sublist w s" by (auto simp: sublist_def)
qed

lemma mongo_char_back:
  assumes "u \<notin> set w" "map f s = w" "\<And>c. f c = c \<or> f c = u"
  shows "s = w"
proof -
  have "map f s = s"
  proof (rule map_idI)
    fix c assume "c \<in> set s"
    then have "f c \<in> set w" using assms(2) by auto
    with assms(1,3) show "f c = c" by metis
  qed
  with assms(2) show ?thesis by simp
qed

definition field_char :: "char \<Rightarrow> char" where
  "field_char c = (if c = CHR ''.'' \<or> c = CHR ''$'' then CHR ''_'' else c)"

lemma field_char_cases: "field_char c = c \<or> field_char c = CHR ''_''"
  by (simp add: field_char_def)

lemma mongoFieldKey_map: "mongoFieldKey k = (if trim_space k = [] then ''_'' else map field_char (trim_space k))"
  by (auto simp: mongoFieldKey_def Let_def replace_char_def field_char_def)

lemma field_char_space: "is_space (field_char c) = is_space c"
  by (auto simp: field_char_def is_space_def)

lemma trim_field_chars: "trim_space (map field_char s) = map field_char (trim_space s)"
  by (simp add: trim_space_def trim_left_def trim_right_def dropWhile_map comp_def rev_map field_char_space)

lemma lower_field_char: "lower_char (field_char c) = field_char (lower_char c)"
  by (auto simp: field_char_def lower_char_def is_upper_def dest!: arg_cong [where f = byte])

lemma lower_field_chars: "to_lower (map field_char s) = map field_char (to_lower s)"
  by (simp add: to_lower_def lower_field_char)

lemma credential_field_key: "credential_header (mongoFieldKey k) \<Longrightarrow> credential_header k"
proof -
  assume c: "credential_header (mongoFieldKey k)"
  have "\<not> credential_header ''_''" by code_simp
  with c have k: "mongoFieldKey k = map field_char (trim_space k)" by (auto simp: mongoFieldKey_map split: if_splits)
  let ?n = "to_lower (trim_space k)"
  have n: "to_lower (trim_space (mongoFieldKey k)) = map field_char ?n"
    by (simp add: k trim_field_chars lower_field_chars)
  have names: "CHR ''_'' \<notin> set (to_lower x)" if "x \<in> {''Authorization'', ''Proxy-Authorization'', ''Cookie'', ''Set-Cookie''}" for x
    using that by (elim insertE emptyE) (simp; code_simp)+
  have same: "?n = to_lower x" if "map field_char ?n = to_lower x" "x \<in> {''Authorization'', ''Proxy-Authorization'', ''Cookie'', ''Set-Cookie''}" for x
    by (rule mongo_char_back [OF names [OF that(2)] that(1) field_char_cases])
  have part: "sublist w ?n" if "sublist w (map field_char ?n)" "CHR ''_'' \<notin> set w" for w
    by (rule sublist_map_back [OF field_char_cases that(2,1)])
  from c have "(\<exists>x \<in> {''Authorization'', ''Proxy-Authorization'', ''Cookie'', ''Set-Cookie''}. map field_char ?n = to_lower x) \<or>
      (\<exists>w \<in> {''token'', ''secret'', ''api-key''}. sublist w (map field_char ?n))"
    unfolding credential_header_def equal_fold_def n by simp
  then have "(\<exists>x \<in> {''Authorization'', ''Proxy-Authorization'', ''Cookie'', ''Set-Cookie''}. ?n = to_lower x) \<or>
      (\<exists>w \<in> {''token'', ''secret'', ''api-key''}. sublist w ?n)"
  proof
    assume "\<exists>x \<in> {''Authorization'', ''Proxy-Authorization'', ''Cookie'', ''Set-Cookie''}. map field_char ?n = to_lower x"
    then show ?thesis using same by blast
  next
    assume "\<exists>w \<in> {''token'', ''secret'', ''api-key''}. sublist w (map field_char ?n)"
    then obtain w where w: "w \<in> {''token'', ''secret'', ''api-key''}" "sublist w (map field_char ?n)" by blast
    then have "CHR ''_'' \<notin> set w" by auto
    with part w show ?thesis by blast
  qed
  then show ?thesis unfolding credential_header_def equal_fold_def by simp
qed

definition pushes_masked :: "string gomap \<Rightarrow> bool" where
  "pushes_masked m \<longleftrightarrow> (\<forall>(k, v) \<in> set m. credential_header k \<longrightarrow> v = Marker)"

lemma header_pushes_masked: "headers_masked hs \<Longrightarrow> pushes_masked (header_pushes hs)"
proof -
  have "pushes_masked (foldl (\<lambda>push (k, v). if v = [] then push else AList.update (mongoFieldKey k) (hd v) push) m hs)"
    if "headers_masked hs" "pushes_masked m" for m
    using that
  proof (induction hs arbitrary: m)
    case (Cons x hs)
    obtain k v where x: "x = (k, v)" by fastforce
    have "pushes_masked (AList.update (mongoFieldKey k) (hd v) m)" if "v \<noteq> []"
    proof -
      have "hd v = Marker" if "credential_header (mongoFieldKey k)"
        using Cons.prems(1) credential_field_key [OF that] \<open>v \<noteq> []\<close> by (auto simp: headers_masked_def x list_all_iff)
      with Cons.prems(2) show ?thesis unfolding pushes_masked_def by (auto dest!: update_member)
    qed
    with Cons show ?case by (simp add: x headers_masked_def)
  qed simp
  from this [of "[]"] show "headers_masked hs \<Longrightarrow> ?thesis" by (simp add: header_pushes_def pushes_masked_def)
qed

lemma apply_pushes_masked:
  "pushes_masked pushes \<Longrightarrow> headers_masked m \<Longrightarrow> headers_masked (apply_pushes pushes m)"
  unfolding apply_pushes_def
proof (induction pushes arbitrary: m)
  case (Cons x pushes)
  obtain k v where x: "x = (k, v)" by fastforce
  have old: "w = Marker" if "w \<in> set (strs_at m k)" "credential_header k" for w
    using that Cons.prems(2) unfolding headers_masked_def strs_at_def list_all_iff
    by (cases "map_of m k") (auto dest!: map_of_SomeD)
  have v: "credential_header k \<Longrightarrow> v = Marker" using Cons.prems(1) by (auto simp: pushes_masked_def x)
  have "w = Marker" if "w \<in> set (capped_push 10 (strs_at m k) v)" "credential_header k" for w
    using that(1) old [OF _ that(2)] v [OF that(2)] unfolding capped_push_def by (auto dest: in_set_takeD in_set_dropD)
  then have "headers_masked (AList.update k (capped_push 10 (strs_at m k) v) m)"
    using Cons.prems(2) unfolding headers_masked_def list_all_iff by (fastforce dest!: update_member)
  with Cons x show ?case by (simp add: pushes_masked_def)
qed simp

lemma log_set_samples: "headers_masked (inv_SampleHeaders i) \<Longrightarrow> headers_masked (inv_SampleHeaders (log_set pc now l i))"
  by (simp add: log_set_def inventory_set_def Let_def redact_TrafficLog_def apply_pushes_masked header_pushes_masked)

lemma log_new_samples: "headers_masked (inv_SampleHeaders (log_new pc now fresh l))"
  unfolding log_new_def
  by (rule log_set_samples) (simp add: inventory_on_insert_def zero_api_inventory_def headers_masked_def)

context inventory_store
begin

definition samples_masked :: "'i \<Rightarrow> bool" where
  "samples_masked c \<longleftrightarrow> coll_ok M c \<and> (\<forall>k i. coll_docs M c k = Some i \<longrightarrow> headers_masked (inv_SampleHeaders i))"

lemma ProcessLog_samples:
  assumes "pc_inventory_up pc = up" "samples_masked (ps_inventory st)"
  shows "samples_masked (ps_inventory (ProcessLog pc now now2 fresh st l))"
proof -
  let ?f = "\<lambda>i. inv_EndpointFingerprint i = log_fingerprint pc l"
  obtain c r where u: "up (ps_inventory st) ?f (log_set pc now l) (log_new pc now (fresh 0) l) = (c, r)" by fastforce
  have ok: "coll_ok M (ps_inventory st)"
    and wf: "\<And>k i. coll_docs M (ps_inventory st) k = Some i \<Longrightarrow> headers_masked (inv_SampleHeaders i)"
    using assms(2) by (auto simp: samples_masked_def)
  have "headers_masked (inv_SampleHeaders i)" if "coll_docs M c k = Some i" for k i
    by (rule upsert_keeps [where J = "\<lambda>i. headers_masked (inv_SampleHeaders i)", OF ok log_key u log_new_samples _ wf that])
      (rule log_set_samples)
  moreover have "coll_ok M c" by (rule upsert_ok [OF ok log_key u])
  ultimately show ?thesis using u assms(1) by (simp add: samples_masked_def ProcessLog_inventory)
qed

lemma process_all_samples:
  assumes "pc_inventory_up pc = up" "samples_masked (ps_inventory st)"
  shows "samples_masked (ps_inventory (process_all pc st inputs))"
  using assms(2)
proof (induction inputs arbitrary: st)
  case (Cons x inputs)
  from ProcessLog_samples [OF assms(1) Cons.prems] Cons.IH show ?case by (simp add: process_all_def)
qed (simp add: process_all_def)

end

text \<open>
  So no sequence of analysed logs stores a credential header of a log in the sample of an endpoint,
  from which the scans take their headers.
\<close>

theorem inventory_samples_masked:
  assumes "inventory_store M (pc_inventory_up pc)" "coll_ok M (ps_inventory st)"
    and "\<And>k i. coll_docs M (ps_inventory st) k = Some i \<Longrightarrow> headers_masked (inv_SampleHeaders i)"
    and "coll_docs M (ps_inventory (process_all pc st inputs)) k = Some i"
  shows "headers_masked (inv_SampleHeaders i)"
  using inventory_store.process_all_samples [OF assms(1) refl, of st inputs] assms(2-4)
  by (auto simp: inventory_store.samples_masked_def [OF assms(1)])

subsection \<open>Counting\<close>

text \<open>
  The number of requests of every endpoint lies between two functions of the fingerprint, and an
  endpoint of a positive lower bound is stored.
\<close>

definition counts_between :: "('i, object_id, api_inventory) coll \<Rightarrow> 'i \<Rightarrow> (string \<Rightarrow> nat) \<Rightarrow> (string \<Rightarrow> nat) \<Rightarrow> bool" where
  "counts_between M c lo hi \<longleftrightarrow>
     (\<forall>k i. coll_docs M c k = Some i \<longrightarrow>
        int (lo (inv_EndpointFingerprint i)) \<le> inv_RequestCount i \<and> inv_RequestCount i \<le> int (hi (inv_EndpointFingerprint i))) \<and>
     (\<forall>x. 0 < lo x \<longrightarrow> (\<exists>k i. coll_docs M c k = Some i \<and> inv_EndpointFingerprint i = x))"

text \<open>The fingerprints of the logs whose upsert was acknowledged.\<close>

primrec acknowledged ::
  "('i, 'p, 't, 's, 'm) processor \<Rightarrow> ('i, 'p, 't, 's, 'm) processor_state \<Rightarrow> log_input list \<Rightarrow> string list" where
  "acknowledged pc st [] = []"
| "acknowledged pc st (y # ys) =
     (let x = log_fingerprint pc (li_log y);
          r = snd (pc_inventory_up pc (ps_inventory st) (\<lambda>i. inv_EndpointFingerprint i = x) (log_set pc (li_now y) (li_log y))
            (log_new pc (li_now y) (li_fresh y 0) (li_log y)))
      in (if isl r then [] else [x]) @ acknowledged pc (ProcessLog pc (li_now y) (li_now2 y) (li_fresh y) st (li_log y)) ys)"

text \<open>One write that hits keeps the bounds, counted once.\<close>

lemma counts_after_upsert:
  assumes n: "counts_between M c lo hi"
    and ups: "upserted (coll_docs M c) (coll_key M) (\<lambda>i. inv_EndpointFingerprint i = x) u new i' (coll_docs M c')"
    and u: "\<And>i. inv_EndpointFingerprint (u i) = inv_EndpointFingerprint i" "\<And>i. inv_RequestCount (u i) = inv_RequestCount i + 1"
    and new: "inv_EndpointFingerprint new = x" "inv_RequestCount new = 1"
    and uniq: "\<And>k i k2 i2. coll_docs M c k = Some i \<Longrightarrow> coll_docs M c k2 = Some i2 \<Longrightarrow>
      inv_EndpointFingerprint i = inv_EndpointFingerprint i2 \<Longrightarrow> k = k2"
  shows "counts_between M c' (lo(x := lo x + 1)) (hi(x := hi x + 1))"
proof -
  have old: "int (lo (inv_EndpointFingerprint i)) \<le> inv_RequestCount i \<and> inv_RequestCount i \<le> int (hi (inv_EndpointFingerprint i))"
    if "coll_docs M c k = Some i" for k i using n that by (simp add: counts_between_def)
  have ex: "\<exists>k i. coll_docs M c k = Some i \<and> inv_EndpointFingerprint i = y" if "0 < lo y" for y
    using n that by (simp add: counts_between_def)
  from ups show ?thesis unfolding upserted_def
  proof (elim disjE exE conjE)
    fix k d assume "updated_at (coll_docs M c) (\<lambda>i. inv_EndpointFingerprint i = x) u k d (coll_docs M c')"
    then have k: "coll_docs M c k = Some d" "inv_EndpointFingerprint d = x" "coll_docs M c' = (coll_docs M c)(k \<mapsto> u d)"
      by (auto simp: updated_at_def)
    have "inv_EndpointFingerprint i \<noteq> x" if "coll_docs M c k2 = Some i" "k2 \<noteq> k" for k2 i using uniq [OF that(1) k(1)] k(2) that(2) by auto
    moreover have "\<exists>k2 i. coll_docs M c' k2 = Some i \<and> inv_EndpointFingerprint i = y" if "0 < (lo(x := lo x + 1)) y" for y
    proof (cases "y = x")
      case True
      then show ?thesis using k u(1) by (intro exI [of _ k] exI [of _ "u d"]) simp
    next
      case False
      with that ex [of y] obtain k2 i where "coll_docs M c k2 = Some i" "inv_EndpointFingerprint i = y" by auto
      with False k show ?thesis by (intro exI [of _ k2] exI [of _ i]) auto
    qed
    ultimately show ?thesis using old u k by (fastforce simp: counts_between_def)
  next
    assume none: "\<forall>k d. coll_docs M c k = Some d \<longrightarrow> \<not> inv_EndpointFingerprint d = x" and key: "coll_docs M c (coll_key M new) = None"
      and c': "coll_docs M c' = (coll_docs M c)(coll_key M new \<mapsto> new)"
    have "lo x = 0" using ex [of x] none by blast
    moreover have "\<exists>k2 i. coll_docs M c' k2 = Some i \<and> inv_EndpointFingerprint i = y" if "0 < (lo(x := lo x + 1)) y" for y
    proof (cases "y = x")
      case True
      then show ?thesis using c' new by (intro exI [of _ "coll_key M new"] exI [of _ new]) simp
    next
      case False
      with that ex [of y] obtain k2 i where "coll_docs M c k2 = Some i" "inv_EndpointFingerprint i = y" by auto
      with key c' show ?thesis by (intro exI [of _ k2] exI [of _ i]) auto
    qed
    ultimately show ?thesis using old new c' none by (fastforce simp: counts_between_def)
  qed
qed

lemma counts_weaken:
  assumes n: "counts_between M c lo hi" and lo: "\<And>x. lo' x \<le> lo x" and hi: "\<And>x. hi x \<le> hi' x"
    and same: "coll_docs M c' = coll_docs M c"
  shows "counts_between M c' lo' hi'"
proof -
  have "int (lo' (inv_EndpointFingerprint i)) \<le> inv_RequestCount i \<and> inv_RequestCount i \<le> int (hi' (inv_EndpointFingerprint i))"
    if "coll_docs M c' k = Some i" for k i
  proof -
    have "int (lo (inv_EndpointFingerprint i)) \<le> inv_RequestCount i \<and> inv_RequestCount i \<le> int (hi (inv_EndpointFingerprint i))"
      using n that unfolding counts_between_def same by blast
    then show ?thesis using lo [of "inv_EndpointFingerprint i"] hi [of "inv_EndpointFingerprint i"] by linarith
  qed
  moreover have "\<exists>k i. coll_docs M c' k = Some i \<and> inv_EndpointFingerprint i = x" if "0 < lo' x" for x
  proof -
    from that lo [of x] have "0 < lo x" by linarith
    then show ?thesis using n unfolding counts_between_def same by blast
  qed
  ultimately show ?thesis unfolding counts_between_def by blast
qed

context inventory_store
begin

lemma counted_step:
  assumes ok: "coll_ok M (ps_inventory st)" and n: "counts_between M (ps_inventory st) lo hi" and pc: "pc_inventory_up pc = up"
    and r: "r = snd (up (ps_inventory st) (\<lambda>i. inv_EndpointFingerprint i = log_fingerprint pc l) (log_set pc now l) (log_new pc now (fresh 0) l))"
  shows "coll_ok M (ps_inventory (ProcessLog pc now now2 fresh st l)) \<and>
    counts_between M (ps_inventory (ProcessLog pc now now2 fresh st l))
      (\<lambda>x. lo x + (if x = log_fingerprint pc l \<and> \<not> isl r then 1 else 0)) (\<lambda>x. hi x + (if x = log_fingerprint pc l then 1 else 0))"
proof -
  let ?x = "log_fingerprint pc l"
  obtain c where up: "up (ps_inventory st) (\<lambda>i. inv_EndpointFingerprint i = ?x) (log_set pc now l) (log_new pc now (fresh 0) l) = (c, r)"
    using r by (metis prod.collapse)
  then have st': "ps_inventory (ProcessLog pc now now2 fresh st l) = c" by (simp add: ProcessLog_inventory pc)
  have hit: "counts_between M c (lo(?x := lo ?x + 1)) (hi(?x := hi ?x + 1))"
    if "upserted (coll_docs M (ps_inventory st)) (coll_key M) (\<lambda>i. inv_EndpointFingerprint i = ?x) (log_set pc now l)
      (log_new pc now (fresh 0) l) i' (coll_docs M c)" for i'
    by (rule counts_after_upsert [OF n that]) (simp_all add: unique [OF ok])
  have "counts_between M c (\<lambda>x. lo x + (if x = ?x \<and> \<not> isl r then 1 else 0)) (\<lambda>x. hi x + (if x = ?x then 1 else 0))"
  proof (cases r)
    case (Inr i')
    from hit [OF upsert_done [OF ok log_key up [unfolded Inr]]] show ?thesis
      by (rule counts_weaken) (simp_all add: Inr)
  next
    case (Inl e)
    from upsert_err [OF ok log_key up [unfolded Inl]] show ?thesis
    proof (elim disjE exE)
      assume "coll_docs M c = coll_docs M (ps_inventory st)"
      then show ?thesis by (intro counts_weaken [OF n]) (simp_all add: Inl)
    next
      fix d' assume "upserted (coll_docs M (ps_inventory st)) (coll_key M) (\<lambda>i. inv_EndpointFingerprint i = ?x) (log_set pc now l)
        (log_new pc now (fresh 0) l) d' (coll_docs M c)"
      from hit [OF this] show ?thesis by (rule counts_weaken) (simp_all add: Inl)
    qed
  qed
  with upsert_ok [OF ok log_key up] show ?thesis by (simp add: st')
qed

lemma process_all_counts:
  assumes "pc_inventory_up pc = up" "coll_ok M (ps_inventory st)" "counts_between M (ps_inventory st) lo hi"
  shows "counts_between M (ps_inventory (process_all pc st inputs)) (\<lambda>x. lo x + count_list (acknowledged pc st inputs) x)
    (\<lambda>x. hi x + count_list (map (\<lambda>y. log_fingerprint pc (li_log y)) inputs) x)"
  using assms(2,3)
proof (induction inputs arbitrary: st lo hi)
  case Nil
  then show ?case by (simp add: process_all_def)
next
  case (Cons y inputs)
  let ?x = "log_fingerprint pc (li_log y)"
  let ?st = "ProcessLog pc (li_now y) (li_now2 y) (li_fresh y) st (li_log y)"
  let ?r = "snd (up (ps_inventory st) (\<lambda>i. inv_EndpointFingerprint i = ?x) (log_set pc (li_now y) (li_log y))
    (log_new pc (li_now y) (li_fresh y 0) (li_log y)))"
  from counted_step [OF Cons.prems assms(1) refl, where now = "li_now y" and fresh = "li_fresh y" and l = "li_log y" and ?now2.0 = "li_now2 y"]
  have step: "coll_ok M (ps_inventory ?st)" "counts_between M (ps_inventory ?st)
    (\<lambda>x. lo x + (if x = ?x \<and> \<not> isl ?r then 1 else 0)) (\<lambda>x. hi x + (if x = ?x then 1 else 0))" by blast+
  from Cons.IH [OF step] have "counts_between M (ps_inventory (process_all pc ?st inputs))
    (\<lambda>x. lo x + (if x = ?x \<and> \<not> isl ?r then 1 else 0) + count_list (acknowledged pc ?st inputs) x)
    (\<lambda>x. hi x + (if x = ?x then 1 else 0) + count_list (map (\<lambda>y. log_fingerprint pc (li_log y)) inputs) x)" .
  then show ?case by (rule counts_weaken) (auto simp: process_all_def assms(1) Let_def)
qed

end

definition inventory_index :: "api_inventory list \<Rightarrow> bool" where
  "inventory_index is \<longleftrightarrow> distinct (map inv_EndpointFingerprint is)"

interpretation mem_inventory: inventory_store "mem_unique inv_ID inventory_index" "mem_upsert inv_ID inventory_index"
  by (intro inventory_store.intro mem_unique_store inventory_store_axioms.intro) (simp_all add: inventory_index_def mem_coll_def)


lemmas mem_inventory_store = mem_inventory.inventory_store_axioms

definition mem_processor :: "(api_inventory list, api_parameter list, traffic_sample list, sensitive_sample list,
    string list \<times> (metric_key \<Rightarrow> metric_counts)) processor" where
  "mem_processor =
     \<lparr>pc_Inventory = mem_unique inv_ID inventory_index, pc_inventory_up = mem_upsert inv_ID inventory_index,
      pc_Parameters = mem_coll prm_ID, pc_parameters_up = mem_upsert prm_ID (\<lambda>ps. True),
      pc_TrafficSamples = mem_coll ts_ID, pc_TrafficSamplesB = mem_bulk,
      pc_SensitiveSamples = mem_coll ss_ID, pc_SensitiveSamplesB = mem_bulk,
      pc_Metrics = mem_metrics, pc_EndpointRules = None, pc_EndpointSampleLimit = 20,
      pc_env = \<lparr>ae_re_find = (\<lambda>re s. None), ae_is_float = (\<lambda>s. False), ae_json_decode = (\<lambda>s. None), ae_sha256_hex = id\<rparr>,
      pc_redact = (\<lambda>re repl s. s), pc_fmt_time = (\<lambda>t. [])\<rparr>"

definition empty_processor_state :: "(api_inventory list, api_parameter list, traffic_sample list, sensitive_sample list,
    string list \<times> (metric_key \<Rightarrow> metric_counts)) processor_state" where
  "empty_processor_state = \<lparr>ps_inventory = [], ps_parameters = [], ps_traffic_samples = [], ps_sensitive_samples = [],
     ps_metrics = ([], \<lambda>_. zero_counts)\<rparr>"

definition two_logs :: "log_input list" where
  "two_logs =
     [\<lparr>li_log = zero_traffic_log\<lparr>log_Method := ''get'', log_Path := ''/a'', log_URL := ''http://h/a''\<rparr>, li_now = 1, li_now2 = 2, li_fresh = (\<lambda>k. k + 1)\<rparr>,
      \<lparr>li_log = zero_traffic_log\<lparr>log_Method := ''GET'', log_Path := ''/a'', log_URL := ''http://h/a''\<rparr>, li_now = 3, li_now2 = 4, li_fresh = (\<lambda>k. k + 9)\<rparr>]"

lemma empty_inventory_ok: "coll_ok (mem_unique inv_ID inventory_index) (ps_inventory empty_processor_state)"
  by (simp add: empty_processor_state_def inventory_index_def mem_coll_def)

lemma empty_inventory_docs: "coll_docs (mem_coll inv_ID) (ps_inventory empty_processor_state) k = None"
  by (simp add: empty_processor_state_def mem_coll_def mem_docs_def)

lemma mem_processor_store: "inventory_store (mem_unique inv_ID inventory_index) (pc_inventory_up mem_processor)"
  using mem_inventory_store by (simp add: mem_processor_def)

text \<open>One document for each endpoint, and each of the right shape.\<close>

definition inventory_well_formed :: "('i, object_id, api_inventory) coll \<Rightarrow> 'i \<Rightarrow> bool" where
  "inventory_well_formed M c \<longleftrightarrow>
     (\<forall>k i. coll_docs M c k = Some i \<longrightarrow> well_formed_endpoint i) \<and>
     (\<forall>k i k2 i2. coll_docs M c k = Some i \<longrightarrow> coll_docs M c k2 = Some i2 \<longrightarrow>
        inv_EndpointFingerprint i = inv_EndpointFingerprint i2 \<longrightarrow> k = k2)"

subsection \<open>Properties\<close>

text \<open>
  Property C37. The inventory stays well formed: no sequence of analysed logs, whatever the database
  answers, leaves two documents of the same endpoint, an endpoint without a request or with an unknown
  risk level, a repeated tag, status code or content type, or more than ten examples of a value.
\<close>

theorem inventory_stays_well_formed:
  assumes "inventory_store M (pc_inventory_up pc)" "coll_ok M (ps_inventory st)" "inventory_well_formed M (ps_inventory st)"
  shows "inventory_well_formed M (ps_inventory (process_all pc st inputs))"
proof -
  have "inventory_store.inventory_ok M (ps_inventory st)"
    using assms(2,3) by (simp add: inventory_store.inventory_ok_def [OF assms(1)] inventory_well_formed_def)
  from inventory_store.process_all_ok [OF assms(1) refl this, of inputs]
  have ok: "coll_ok M (ps_inventory (process_all pc st inputs))"
    and wf: "\<forall>k i. coll_docs M (ps_inventory (process_all pc st inputs)) k = Some i \<longrightarrow> well_formed_endpoint i"
    by (simp_all add: inventory_store.inventory_ok_def [OF assms(1)])
  from assms(1) have "unique_store M (pc_inventory_up pc) inv_EndpointFingerprint" by (simp add: inventory_store_def)
  from unique_store.unique [OF this ok] wf show ?thesis unfolding inventory_well_formed_def by blast
qed

theorem inventory_stays_well_formed_witness:
  "inventory_well_formed (mem_unique inv_ID inventory_index) (ps_inventory (process_all mem_processor empty_processor_state two_logs))"
  by (rule inventory_stays_well_formed [OF mem_processor_store empty_inventory_ok])
    (simp add: inventory_well_formed_def empty_inventory_docs)

text \<open>
  Property C38. The request counter of an endpoint counts its logs: from an exact state, after any
  sequence of analysed logs every counter is at least the number of its logs the database acknowledged
  and at most the number of its logs, and every endpoint with an acknowledged log is stored.
\<close>

theorem request_count_counts:
  assumes "inventory_store M (pc_inventory_up pc)" "coll_ok M (ps_inventory st)" "counts_between M (ps_inventory st) n n"
  shows "counts_between M (ps_inventory (process_all pc st inputs)) (\<lambda>x. n x + count_list (acknowledged pc st inputs) x)
    (\<lambda>x. n x + count_list (map (\<lambda>y. log_fingerprint pc (li_log y)) inputs) x)"
  by (rule inventory_store.process_all_counts [OF assms(1) refl assms(2,3)])

theorem request_count_counts_witness:
  "counts_between (mem_unique inv_ID inventory_index) (ps_inventory (process_all mem_processor empty_processor_state two_logs))
     (\<lambda>x. 0 + count_list (acknowledged mem_processor empty_processor_state two_logs) x)
     (\<lambda>x. 0 + count_list (map (\<lambda>y. log_fingerprint mem_processor (li_log y)) two_logs) x)"
  by (rule request_count_counts [OF mem_processor_store empty_inventory_ok]) (simp add: counts_between_def empty_inventory_docs)

end
