(* ===== verification/Listing.thy ===== *)
theory Listing
  imports Core_Models Doc_Store "HOL-Library.List_Lexorder"
begin

text \<open>
  The paged queries of \<open>internal/db/repository.go\<close>: \<open>getInventory\<close>, \<open>getScanResults\<close>,
  \<open>getScanJobs\<close> and \<open>GetIssues\<close>. A query counts the selected documents and reads a window of
  them in the order of one field. The locale \<open>paged_store\<close> states what MongoDB promises of the two
  calls: each sees some enumeration of the selected documents that is sorted by the field, and two
  calls need not see the same one when values are equal. \<open>field\<close> is the value of a document in the
  order of the database: a time, a number, or the bytes of a text.
\<close>

subsection \<open>Pages\<close>

record pagination =
  pg_Page :: int
  pg_Limit :: int
  pg_Offset :: int
  pg_SortBy :: string
  pg_SortOrder :: string

record 'd paginated_response =
  pr_Data :: "'d list"
  pr_Total :: int
  pr_Page :: int
  pr_Offset :: int
  pr_Limit :: int
  pr_TotalPages :: int

text \<open>
  The numbers a query works with. \<open>int\<close> has 64 bits: the product of a page and a limit wraps around.
\<close>

definition page_limit :: "int \<Rightarrow> pagination \<Rightarrow> int" where
  "page_limit dflt p = (let l = (if pg_Limit p < 1 then dflt else pg_Limit p) in if l > 100 then 100 else l)"

definition page_offset :: "int \<Rightarrow> pagination \<Rightarrow> int" where
  "page_offset limit p =
     (let offset = (if pg_Offset p < 0 then 0 else pg_Offset p)
      in if offset = 0 \<and> pg_Page p > 0 then wrap64 ((pg_Page p - 1) * limit) else offset)"

definition clamp_page :: "int \<Rightarrow> pagination \<Rightarrow> pagination" where
  "clamp_page dflt p =
     (let limit = page_limit dflt p; offset = page_offset limit p
      in p\<lparr>pg_Limit := limit, pg_Offset := offset, pg_Page := (if pg_Page p < 1 then wrap64 (offset div limit + 1) else pg_Page p)\<rparr>)"

definition total_pages :: "int \<Rightarrow> int \<Rightarrow> int" where
  "total_pages n limit = (if n mod limit \<noteq> 0 then n div limit + 1 else n div limit)"

subsection \<open>Sort fields\<close>

definition sanitizeSortField :: "string \<Rightarrow> string" where
  "sanitizeSortField f =
     (let l = to_lower f in if l \<in> {''created_at'', ''method'', ''base_url'', ''path_pattern''} then l else ''updated_at'')"

definition sanitizeIssueSortField :: "string \<Rightarrow> string" where
  "sanitizeIssueSortField f =
     (let l = to_lower f in if l \<in> {''first_seen_at'', ''last_seen_at'', ''severity'', ''status''} then l else ''updated_at'')"

definition sanitizeScanResultSortField :: "string \<Rightarrow> string" where
  "sanitizeScanResultSortField f =
     (let l = to_lower f in if l \<in> {''created_at'', ''test_type'', ''severity'', ''response_status''} then l else ''created_at'')"

definition scanJobSortField :: "string \<Rightarrow> string" where
  "scanJobSortField f =
     (let l = to_lower f in if l \<in> {''updated_at'', ''status'', ''test_type''} then l else ''created_at'')"

definition sanitizeSortOrder :: "string \<Rightarrow> int" where
  "sanitizeSortOrder s = (if to_lower s = ''asc'' then 1 else -1)"

subsection \<open>The queries\<close>

record ('c, 'd) pager =
  pg_count :: "'c \<Rightarrow> ('d \<Rightarrow> bool) \<Rightarrow> db_error + int"
  pg_find :: "'c \<Rightarrow> ('d \<Rightarrow> bool) \<Rightarrow> string \<times> int \<Rightarrow> int \<Rightarrow> int \<Rightarrow> db_error + 'd list"

text \<open>What the four queries share; \<open>p\<close> is clamped already.\<close>

definition read_page :: "('c, 'd) pager \<Rightarrow> 'c \<Rightarrow> ('d \<Rightarrow> bool) \<Rightarrow> string \<times> int \<Rightarrow> pagination \<Rightarrow> db_error + 'd paginated_response" where
  "read_page P c f srt p =
     (case pg_count P c f of
        Inl err \<Rightarrow> Inl err
      | Inr n \<Rightarrow>
          (case pg_find P c f srt (pg_Offset p) (pg_Limit p) of
             Inl err \<Rightarrow> Inl err
           | Inr results \<Rightarrow> Inr \<lparr>pr_Data = results, pr_Total = n, pr_Page = pg_Page p, pr_Offset = pg_Offset p,
               pr_Limit = pg_Limit p, pr_TotalPages = total_pages n (pg_Limit p)\<rparr>))"

definition getInventory ::
  "('c, api_inventory) pager \<Rightarrow> 'c \<Rightarrow> pagination \<Rightarrow> (api_inventory \<Rightarrow> bool) \<Rightarrow> db_error + api_inventory paginated_response" where
  "getInventory P c p f = read_page P c f (sanitizeSortField (pg_SortBy p), sanitizeSortOrder (pg_SortOrder p)) (clamp_page 10 p)"

text \<open>A zero account selects everything.\<close>

definition GetInventoryForAccount ::
  "(object_id \<Rightarrow> string) \<Rightarrow> ('c, api_inventory) pager \<Rightarrow> 'c \<Rightarrow> pagination \<Rightarrow> object_id \<Rightarrow> db_error + api_inventory paginated_response" where
  "GetInventoryForAccount Hex P c p accountID =
     (if accountID = 0 then getInventory P c p (\<lambda>i. True) else getInventory P c p (\<lambda>i. inv_TenantID i = Hex accountID))"

definition opt_eq :: "'a option \<Rightarrow> 'a \<Rightarrow> bool" where
  "opt_eq x y \<longleftrightarrow> (case x of None \<Rightarrow> True | Some z \<Rightarrow> y = z)"

text \<open>A text of a filter that is given only when it is not blank.\<close>

definition text_eq :: "string \<Rightarrow> string \<Rightarrow> bool" where
  "text_eq x y \<longleftrightarrow> trim_space x = [] \<or> y = trim_space x"

definition getScanResults ::
  "('c, scan_result) pager \<Rightarrow> 'c \<Rightarrow> pagination \<Rightarrow> object_id option \<Rightarrow> object_id option \<Rightarrow> object_id option \<Rightarrow> string \<Rightarrow>
     db_error + scan_result paginated_response" where
  "getScanResults P c p inventoryID jobID suiteID tenantID =
     read_page P c
       (\<lambda>s. (tenantID = [] \<or> sr_TenantID s = tenantID) \<and> opt_eq inventoryID (sr_InventoryID s) \<and> opt_eq jobID (sr_JobID s) \<and>
          opt_eq suiteID (sr_SuiteID s))
       (sanitizeScanResultSortField (pg_SortBy p), sanitizeSortOrder (pg_SortOrder p)) (clamp_page 10 p)"

definition GetScanResultsForAccount ::
  "(object_id \<Rightarrow> string) \<Rightarrow> ('c, scan_result) pager \<Rightarrow> 'c \<Rightarrow> pagination \<Rightarrow> object_id option \<Rightarrow> object_id option \<Rightarrow>
     object_id option \<Rightarrow> object_id \<Rightarrow> db_error + scan_result paginated_response" where
  "GetScanResultsForAccount Hex P c p inventoryID jobID suiteID accountID =
     getScanResults P c p inventoryID jobID suiteID (if accountID = 0 then [] else Hex accountID)"

definition getScanJobs ::
  "('c, scan_job) pager \<Rightarrow> 'c \<Rightarrow> pagination \<Rightarrow> string \<Rightarrow> string \<Rightarrow> object_id option \<Rightarrow> db_error + scan_job paginated_response" where
  "getScanJobs P c p tenantID status inventoryID =
     read_page P c
       (\<lambda>j. text_eq tenantID (job_TenantID j) \<and> text_eq status (job_Status j) \<and> opt_eq inventoryID (job_InventoryID j))
       (scanJobSortField (pg_SortBy p), sanitizeSortOrder (pg_SortOrder p)) (clamp_page 20 p)"

definition GetScanJobsForAccount ::
  "(object_id \<Rightarrow> string) \<Rightarrow> ('c, scan_job) pager \<Rightarrow> 'c \<Rightarrow> pagination \<Rightarrow> object_id \<Rightarrow> string \<Rightarrow> object_id option \<Rightarrow>
     db_error + scan_job paginated_response" where
  "GetScanJobsForAccount Hex P c p accountID status inventoryID =
     getScanJobs P c p (if accountID = 0 then [] else Hex accountID) status inventoryID"

definition GetIssues ::
  "('c, issue) pager \<Rightarrow> 'c \<Rightarrow> pagination \<Rightarrow> string \<Rightarrow> string \<Rightarrow> string \<Rightarrow> object_id option \<Rightarrow> db_error + issue paginated_response" where
  "GetIssues P c p tenantID status severity inventoryID =
     read_page P c
       (\<lambda>i. text_eq tenantID (iss_TenantID i) \<and> text_eq status (iss_Status i) \<and>
          (trim_space severity = [] \<or> iss_Severity i = to_lower (trim_space severity)) \<and> opt_eq inventoryID (iss_InventoryID i))
       (sanitizeIssueSortField (pg_SortBy p), sanitizeSortOrder (pg_SortOrder p)) (clamp_page 10 p)"

subsection \<open>What the database promises\<close>

text \<open>The value of a text and of a time in the order of the database.\<close>

definition text_value :: "string \<Rightarrow> int list" where
  "text_value s = map of_char s"

definition time_value :: "gotime \<Rightarrow> int list" where
  "time_value t = [time_key t]"

definition in_order :: "int \<Rightarrow> int list list \<Rightarrow> bool" where
  "in_order ord vs \<longleftrightarrow> (if ord = 1 then sorted vs else sorted (rev vs))"

text \<open>An enumeration of the documents that a filter selects, in the order of a field.\<close>

definition listing_of ::
  "('k \<Rightarrow> 'd option) \<Rightarrow> ('d \<Rightarrow> 'k) \<Rightarrow> (string \<Rightarrow> 'd \<Rightarrow> int list) \<Rightarrow> ('d \<Rightarrow> bool) \<Rightarrow> string \<times> int \<Rightarrow> 'd list \<Rightarrow> bool" where
  "listing_of m key field f srt ds \<longleftrightarrow>
     distinct (map key ds) \<and> (\<forall>d. d \<in> set ds \<longleftrightarrow> f d \<and> m (key d) = Some d) \<and>
     in_order (snd srt) (map (field (fst srt)) ds)"

locale paged_store = doc_store M for M :: "('c, 'k, 'd) coll" +
  fixes P :: "('c, 'd) pager" and field :: "string \<Rightarrow> 'd \<Rightarrow> int list"
  assumes count_all: "coll_ok M c \<Longrightarrow> pg_count P c f = Inr n \<Longrightarrow>
      \<exists>full. listing_of (coll_docs M c) (coll_key M) field f srt full \<and> n = int (length full) \<and> n < 2 ^ 63"
    and find_window: "coll_ok M c \<Longrightarrow> pg_find P c f srt skip limit = Inr ds \<Longrightarrow> 0 < limit \<Longrightarrow>
      0 \<le> skip \<and> (\<exists>full. listing_of (coll_docs M c) (coll_key M) field f srt full \<and> ds = take (nat limit) (drop (nat skip) full))"

begin

text \<open>Without ties in the field there is only one listing.\<close>

lemma listing_unique:
  assumes "listing_of m key field f srt xs" "listing_of m key field f srt ys" "inj_on (field (fst srt)) {d. f d \<and> m (key d) = Some d}"
  shows "xs = ys"
proof -
  let ?v = "field (fst srt)"
  have set: "set xs = {d. f d \<and> m (key d) = Some d}" "set ys = {d. f d \<and> m (key d) = Some d}" and d: "distinct xs" "distinct ys"
    using assms(1,2) distinct_map by (auto simp: listing_of_def)
  from set assms(3) have inj: "inj_on ?v (set xs)" "inj_on ?v (set ys)" by simp_all
  with d have dv: "distinct (map ?v xs)" "distinct (map ?v ys)" by (simp_all add: distinct_map)
  have sv: "set (map ?v xs) = set (map ?v ys)" using set by simp
  have "map ?v xs = map ?v ys"
  proof (cases "snd srt = 1")
    case True
    with assms(1,2) have "sorted (map ?v xs)" "sorted (map ?v ys)" by (simp_all add: listing_of_def in_order_def)
    with dv sv show ?thesis using sorted_distinct_set_unique by blast
  next
    case False
    with assms(1,2) have "sorted (rev (map ?v xs))" "sorted (rev (map ?v ys))" by (simp_all add: listing_of_def in_order_def)
    with dv sv have "rev (map ?v xs) = rev (map ?v ys)" by (intro sorted_distinct_set_unique) simp_all
    then show ?thesis by simp
  qed
  moreover have "inj_on ?v (set xs \<union> set ys)" using inj set by simp
  ultimately show ?thesis using inj_on_map_eq_map by blast
qed

lemma read_page_window:
  assumes "coll_ok M c" "read_page P c f srt p = Inr R" "0 < pg_Limit p"
  shows "0 \<le> pr_Offset R \<and> pr_Limit R = pg_Limit p \<and> pr_Offset R = pg_Offset p \<and>
    (\<exists>full. listing_of (coll_docs M c) (coll_key M) field f srt full \<and> pr_Data R = take (nat (pg_Limit p)) (drop (nat (pg_Offset p)) full))"
proof -
  obtain n ds where f: "pg_find P c f srt (pg_Offset p) (pg_Limit p) = Inr ds" and
    R: "R = \<lparr>pr_Data = ds, pr_Total = n, pr_Page = pg_Page p, pr_Offset = pg_Offset p, pr_Limit = pg_Limit p,
      pr_TotalPages = total_pages n (pg_Limit p)\<rparr>"
    using assms(2) by (auto simp: read_page_def split: sum.splits)
  from find_window [OF assms(1) f assms(3)] show ?thesis by (simp add: R)
qed

lemma read_page_total:
  assumes "coll_ok M c" "read_page P c f srt p = Inr R"
  shows "\<exists>full. listing_of (coll_docs M c) (coll_key M) field f srt full \<and> pr_Total R = int (length full) \<and> pr_Total R < 2 ^ 63 \<and>
    pr_TotalPages R = total_pages (int (length full)) (pg_Limit p)"
  using assms(2) count_all [OF assms(1), of f _ srt] by (fastforce simp: read_page_def split: sum.splits)

end

subsection \<open>Numbers\<close>

lemma wrap64_id: "- (2 ^ 63) \<le> v \<Longrightarrow> v < 2 ^ 63 \<Longrightarrow> wrap64 v = v"
  by (simp add: wrap64_def)

lemma page_limit_range: "1 \<le> dflt \<Longrightarrow> 1 \<le> page_limit dflt p \<and> page_limit dflt p \<le> 100"
  by (simp add: page_limit_def Let_def)

lemma clamp_limit [simp]: "pg_Limit (clamp_page dflt p) = page_limit dflt p"
  by (simp add: clamp_page_def Let_def)

lemma clamp_offset [simp]: "pg_Offset (clamp_page dflt p) = page_offset (page_limit dflt p) p"
  by (simp add: clamp_page_def Let_def)

text \<open>
  A page number that does not overflow asks for the window after the pages before it. A greater one
  wraps around, to a negative offset for example, which the database refuses.
\<close>

lemma page_offset_page:
  assumes "pg_Offset p \<le> 0" "1 \<le> pg_Page p" "(pg_Page p - 1) * limit < 2 ^ 63" "1 \<le> limit"
  shows "page_offset limit p = (pg_Page p - 1) * limit"
proof -
  have "0 \<le> (pg_Page p - 1) * limit" using assms(2,4) by simp
  then have "wrap64 ((pg_Page p - 1) * limit) = (pg_Page p - 1) * limit" using assms(3) by (intro wrap64_id) linarith+
  then show ?thesis using assms(1,2) by (simp add: page_offset_def Let_def)
qed

lemma huge_page_wraps:
  "page_offset 10 \<lparr>pg_Page = 2 ^ 63 - 1, pg_Limit = 10, pg_Offset = 0, pg_SortBy = [], pg_SortOrder = []\<rparr> = -20"
  by (simp add: page_offset_def wrap64_def)

subsection \<open>All pages\<close>

lemma windows_cover:
  assumes "1 \<le> n" "length xs \<le> k * n"
  shows "concat (map (\<lambda>i. take n (drop (i * n) xs)) [0..<k]) = xs"
  using assms(2)
proof (induction k arbitrary: xs)
  case (Suc k)
  have "map (\<lambda>i. take n (drop (i * n) xs)) [0..<Suc k] = take n xs # map (\<lambda>i. take n (drop (i * n) (drop n xs))) [0..<k]"
    by (simp add: upt_conv_Cons map_Suc_upt [symmetric] add.commute del: upt_Suc)
  moreover have "concat (map (\<lambda>i. take n (drop (i * n) (drop n xs))) [0..<k]) = drop n xs"
    using Suc.prems by (intro Suc.IH) simp
  ultimately show ?case by simp
qed simp

lemma total_pages_nat:
  assumes "1 \<le> limit"
  shows "0 \<le> total_pages (int n) limit" "n \<le> nat (total_pages (int n) limit) * nat limit"
    and "1 \<le> k \<Longrightarrow> k \<le> total_pages (int n) limit \<Longrightarrow> (k - 1) * limit < int n"
proof -
  have split: "int n = (int n div limit) * limit + int n mod limit" and m: "0 \<le> int n mod limit" "int n mod limit < limit"
    and d: "0 \<le> int n div limit"
    using assms by (simp_all add: pos_imp_zdiv_nonneg_iff)
  show t: "0 \<le> total_pages (int n) limit" using d by (simp add: total_pages_def)
  have "int n \<le> total_pages (int n) limit * limit"
  proof (cases "int n mod limit = 0")
    case True
    then show ?thesis using split by (simp add: total_pages_def)
  next
    case False
    have "(int n div limit + 1) * limit = (int n div limit) * limit + limit" by (simp add: distrib_right)
    with split m have "int n \<le> (int n div limit + 1) * limit" by linarith
    with False show ?thesis by (simp add: total_pages_def)
  qed
  then have "int n \<le> int (nat (total_pages (int n) limit) * nat limit)" using t assms by simp
  then show "n \<le> nat (total_pages (int n) limit) * nat limit" by linarith
  assume k: "1 \<le> k" "k \<le> total_pages (int n) limit"
  show "(k - 1) * limit < int n"
  proof (cases "int n mod limit = 0")
    case True
    with k have "k - 1 \<le> int n div limit - 1" by (simp add: total_pages_def)
    then have "(k - 1) * limit \<le> (int n div limit - 1) * limit" using assms by (intro mult_right_mono) simp_all
    with split m assms True show ?thesis by (simp add: algebra_simps)
  next
    case False
    with k have "k - 1 \<le> int n div limit" by (simp add: total_pages_def)
    then have "(k - 1) * limit \<le> (int n div limit) * limit" using assms by (intro mult_right_mono) simp_all
    with split m False show ?thesis by linarith
  qed
qed

context paged_store
begin

text \<open>
  Asking for the pages from the first to the last gives every selected document exactly once, in order, when
  no two of them have the same value of the sort field.
\<close>

lemma pages_cover:
  assumes ok: "coll_ok M c" and inj: "inj_on (field (fst srt)) {d. f d \<and> coll_docs M c (coll_key M d) = Some d}"
    and p: "pg_Offset p \<le> 0" and dflt: "1 \<le> dflt" and first: "read_page P c f srt (clamp_page dflt (p\<lparr>pg_Page := 1\<rparr>)) = Inr R1"
    and pages: "\<And>k. 1 \<le> k \<Longrightarrow> k \<le> pr_TotalPages R1 \<Longrightarrow> read_page P c f srt (clamp_page dflt (p\<lparr>pg_Page := k\<rparr>)) = Inr (R k)"
  shows "listing_of (coll_docs M c) (coll_key M) field f srt (concat (map (\<lambda>i. pr_Data (R (1 + int i))) [0..<nat (pr_TotalPages R1)]))"
proof -
  let ?L = "page_limit dflt p"
  have L: "1 \<le> ?L" "page_limit dflt (p\<lparr>pg_Page := k\<rparr>) = ?L" for k using page_limit_range [OF dflt, of p] by (simp_all add: page_limit_def)
  from read_page_total [OF ok first] obtain full where full: "listing_of (coll_docs M c) (coll_key M) field f srt full"
    "int (length full) < 2 ^ 63" "pr_TotalPages R1 = total_pages (int (length full)) ?L" by (auto simp: L)
  have data: "pr_Data (R (1 + int i)) = take (nat ?L) (drop (i * nat ?L) full)" if i: "i < nat (pr_TotalPages R1)" for i
  proof -
    let ?k = "1 + int i"
    have k: "1 \<le> ?k" "?k \<le> pr_TotalPages R1" using i by linarith+
    have less: "(?k - 1) * ?L < 2 ^ 63" using total_pages_nat(3) [OF L(1) k(1), of "length full"] k(2) full(2,3) by simp
    have off: "page_offset ?L (p\<lparr>pg_Page := ?k\<rparr>) = int i * ?L"
      using page_offset_page [of "p\<lparr>pg_Page := ?k\<rparr>" ?L] p k(1) less L(1) by simp
    from read_page_window [OF ok pages [OF k]] obtain full2 where
      "listing_of (coll_docs M c) (coll_key M) field f srt full2" "pr_Data (R ?k) = take (nat ?L) (drop (nat (int i * ?L)) full2)"
      using L by (auto simp: off)
    with listing_unique [OF _ full(1) inj, of full2] show ?thesis using L(1) by (simp add: nat_mult_distrib)
  qed
  have "concat (map (\<lambda>i. pr_Data (R (1 + int i))) [0..<nat (pr_TotalPages R1)]) =
    concat (map (\<lambda>i. take (nat ?L) (drop (i * nat ?L) full)) [0..<nat (pr_TotalPages R1)])"
    by (intro arg_cong [of _ _ concat] map_cong refl data) simp
  also have "\<dots> = full"
    using total_pages_nat(2) [OF L(1), of "length full"] full(3) L(1) by (intro windows_cover) simp_all
  finally show ?thesis using full(1) by simp
qed

end

subsection \<open>The in-memory pager\<close>

definition mem_listing :: "(string \<Rightarrow> 'd \<Rightarrow> int list) \<Rightarrow> 'd list \<Rightarrow> ('d \<Rightarrow> bool) \<Rightarrow> string \<times> int \<Rightarrow> 'd list" where
  "mem_listing field ds f srt =
     (let up = sort_key (field (fst srt)) (filter f ds) in if snd srt = 1 then up else rev up)"

definition mem_pager :: "(string \<Rightarrow> 'd \<Rightarrow> int list) \<Rightarrow> ('d list, 'd) pager" where
  "mem_pager field =
     \<lparr>pg_count = (\<lambda>ds f. if int (length ds) < 2 ^ 63 then Inr (int (length (filter f ds))) else Inl ''too many documents''),
      pg_find = (\<lambda>ds f srt skip limit. if skip < 0 then Inl ''skip value must be non-negative''
        else Inr (take (nat limit) (drop (nat skip) (mem_listing field ds f srt))))\<rparr>"

lemma mem_listing_of:
  assumes "distinct (map key ds)"
  shows "listing_of (mem_docs key ds) key field f srt (mem_listing field ds f srt)"
proof -
  let ?s = "sort_key (field (fst srt)) (filter f ds)"
  have "distinct (map key ?s)" using assms by (auto simp: distinct_map distinct_filter intro: inj_on_subset)
  moreover have "d \<in> set ?s \<longleftrightarrow> f d \<and> mem_docs key ds (key d) = Some d" for d using assms by (auto simp: mem_docs_Some)
  ultimately show ?thesis by (auto simp: listing_of_def mem_listing_def in_order_def Let_def rev_map [symmetric])
qed

lemma length_mem_listing [simp]: "length (mem_listing field ds f srt) = length (filter f ds)"
  by (simp add: mem_listing_def Let_def)

lemma mem_paged_store: "paged_store (mem_coll key) (mem_pager field) field"
proof (rule paged_store.intro [OF mem_coll_store], rule paged_store_axioms.intro, goal_cases)
  case (1 c f n srt)
  then have "listing_of (coll_docs (mem_coll key) c) (coll_key (mem_coll key)) field f srt (mem_listing field c f srt)"
    using mem_listing_of [of key c field f srt] by (simp add: mem_coll_def)
  moreover have "n = int (length (mem_listing field c f srt))" "n < 2 ^ 63"
    using 1(2) le_less_trans [OF length_filter_le [of f c]] by (auto simp: mem_pager_def split: if_splits)
  ultimately show ?case by blast
next
  case (2 c f srt skip limit ds)
  then have "listing_of (coll_docs (mem_coll key) c) (coll_key (mem_coll key)) field f srt (mem_listing field c f srt)"
    using mem_listing_of [of key c field f srt] by (simp add: mem_coll_def)
  with 2 show ?case by (auto simp: mem_pager_def split: if_splits)
qed

end
