(* ===== verification/Metrics_Summary.thy ===== *)
theory Metrics_Summary
  imports Listing Agent_Store Scan_Job_Store Inventory_Logic
begin

text \<open>
  \<open>GetMetricsSummary\<close> of \<open>internal/db/repository.go\<close>: counts over the inventory, the issues, the
  scan jobs and the agents of an account, the trend of new issues over seven days and the endpoints with
  the most issues. \<open>mx_daily\<close> and \<open>mx_top\<close> are the two aggregations: the number of selected issues
  for each day and severity, and for each endpoint, in descending order and cut to a length. \<open>mx_day\<close>
  formats a time as a date. A count that fails is reported as zero.
\<close>

record inventory_counts =
  ic_Total :: int
  ic_Critical :: int
  ic_High :: int
  ic_Medium :: int
  ic_Low :: int
  ic_Authenticated :: int
  ic_Unauthenticated :: int

record issue_counts =
  isc_Total :: int
  isc_Critical :: int
  isc_High :: int
  isc_Medium :: int
  isc_Low :: int
  isc_Open :: int
  isc_AcceptedRisk :: int
  isc_FalsePositive :: int
  isc_Fixed :: int

record scan_counts =
  sc_Total :: int
  sc_Queued :: int
  sc_Running :: int
  sc_Completed :: int
  sc_Failed :: int
  sc_Cancelled :: int

record sensitive_counts =
  sd_PII :: int
  sd_Financial :: int
  sd_Secrets :: int
  sd_Other :: int

record daily_issue_count =
  dic_Day :: string
  dic_Critical :: int
  dic_High :: int
  dic_Medium :: int
  dic_Low :: int

record top_endpoint_summary =
  te_InventoryID :: string
  te_Path :: string
  te_Method :: string
  te_IssueCount :: int

record metrics_summary =
  sum_Inventory :: inventory_counts
  sum_Issues :: issue_counts
  sum_Scans :: scan_counts
  sum_AgentsTotal :: int
  sum_AgentsOnline :: int
  sum_SensitiveData :: sensitive_counts
  sum_DailyIssues :: "daily_issue_count list"
  sum_TopEndpoints :: "top_endpoint_summary list"

record ('i, 's, 'j, 'g) metrics_env =
  mx_inventory :: "('i, api_inventory) pager"
  mx_find_inventory :: "'i \<Rightarrow> (api_inventory \<Rightarrow> bool) \<Rightarrow> db_error + api_inventory option"
  mx_issues :: "('s, issue) pager"
  mx_jobs :: "('j, scan_job) pager"
  mx_agents :: "('g, agent) pager"
  mx_daily :: "'s \<Rightarrow> (issue \<Rightarrow> bool) \<Rightarrow> db_error + ((string \<times> string) \<times> int) list"
  mx_top :: "'s \<Rightarrow> (issue \<Rightarrow> bool) \<Rightarrow> nat \<Rightarrow> db_error + (object_id \<times> int) list"
  mx_day :: "int \<Rightarrow> string"
  mx_Hex :: "object_id \<Rightarrow> string"

record ('i, 's, 'j, 'g) metrics_state =
  mst_inventory :: 'i
  mst_issues :: 's
  mst_jobs :: 'j
  mst_agents :: 'g

definition summaryPiiTags :: "string list" where
  "summaryPiiTags =
     [''EMAIL'', ''PHONE_NUMBER'', ''DATE_OF_BIRTH'', ''FULL_NAME'', ''US_SSN'', ''USER_ID'', ''USERNAME'', ''PERSON_NAME'',
      ''STREET_ADDRESS'', ''ADDRESS'', ''PASSPORT_NO'', ''DRIVERS_LICENSE'', ''CANADIAN_SIN'', ''FINNISH_PIN'',
      ''GERMAN_INSURANCE_ID'', ''INDIAN_AADHAR'', ''INDIAN_HEALTH_ID'', ''US_MEDICARE'']"

definition summaryFinancialTags :: "string list" where
  "summaryFinancialTags = [''CREDIT_CARD'', ''VISA_CARD'', ''MASTER_CARD'', ''IBAN_CODE'', ''SWIFT_CODE'', ''INDIAN_PAN'']"

definition summarySecretTags :: "string list" where
  "summarySecretTags = [''PASSWORD'', ''AUTH_TOKEN_BEARER'', ''JWT_TOKEN'', ''AWS_KEY'']"

definition countColl :: "('c, 'd) pager \<Rightarrow> 'c \<Rightarrow> ('d \<Rightarrow> bool) \<Rightarrow> int" where
  "countColl Pg c f = (case pg_count Pg c f of Inl e \<Rightarrow> 0 | Inr n \<Rightarrow> n)"

definition count_inventory :: "('c, api_inventory) pager \<Rightarrow> 'c \<Rightarrow> string \<Rightarrow> inventory_counts" where
  "count_inventory Pg c tenantID =
     (let level = (\<lambda>l. countColl Pg c (\<lambda>i. inv_TenantID i = tenantID \<and> inv_RiskLevel i = l))
      in \<lparr>ic_Total = countColl Pg c (\<lambda>i. inv_TenantID i = tenantID),
          ic_Critical = level ''critical'', ic_High = level ''high'', ic_Medium = level ''medium'', ic_Low = level ''low'',
          ic_Authenticated = countColl Pg c (\<lambda>i. inv_TenantID i = tenantID \<and> inv_AuthObserved i),
          ic_Unauthenticated = countColl Pg c (\<lambda>i. inv_TenantID i = tenantID \<and> \<not> inv_AuthObserved i)\<rparr>)"

definition count_issues :: "('c, issue) pager \<Rightarrow> 'c \<Rightarrow> string \<Rightarrow> issue_counts" where
  "count_issues Pg c tenantID =
     (let severity = (\<lambda>l. countColl Pg c (\<lambda>i. iss_TenantID i = tenantID \<and> iss_Severity i = l));
          status = (\<lambda>l. countColl Pg c (\<lambda>i. iss_TenantID i = tenantID \<and> iss_Status i = l))
      in \<lparr>isc_Total = countColl Pg c (\<lambda>i. iss_TenantID i = tenantID),
          isc_Critical = severity ''critical'', isc_High = severity ''high'', isc_Medium = severity ''medium'', isc_Low = severity ''low'',
          isc_Open = status ''open'', isc_AcceptedRisk = status ''accepted_risk'', isc_FalsePositive = status ''false_positive'',
          isc_Fixed = status ''fixed''\<rparr>)"

definition count_scans :: "('c, scan_job) pager \<Rightarrow> 'c \<Rightarrow> string \<Rightarrow> scan_counts" where
  "count_scans Pg c tenantID =
     (let status = (\<lambda>ls. countColl Pg c (\<lambda>j. job_TenantID j = tenantID \<and> job_Status j \<in> set ls))
      in \<lparr>sc_Total = countColl Pg c (\<lambda>j. job_TenantID j = tenantID),
          sc_Queued = status [''queued''], sc_Running = status [''running''], sc_Completed = status [''completed''],
          sc_Failed = status [''failed'', ''timed_out''], sc_Cancelled = status [''cancelled'']\<rparr>)"

definition agent_online :: "int \<Rightarrow> agent \<Rightarrow> bool" where
  "agent_online now g \<longleftrightarrow>
     agn_Status g = ''active'' \<and> (case agn_LastSeenAt g of None \<Rightarrow> False | Some t \<Rightarrow> t \<ge> now - 5 * 60 * second)"

text \<open>An endpoint with tags of several kinds is subtracted once for each of them.\<close>

definition count_sensitive :: "('c, api_inventory) pager \<Rightarrow> 'c \<Rightarrow> string \<Rightarrow> sensitive_counts" where
  "count_sensitive Pg c tenantID =
     (let tagged = (\<lambda>tags. countColl Pg c (\<lambda>i. inv_TenantID i = tenantID \<and> list_ex (\<lambda>t. t \<in> set tags) (inv_SensitiveData i)));
          pii = tagged summaryPiiTags; financial = tagged summaryFinancialTags; secrets = tagged summarySecretTags;
          other = countColl Pg c (\<lambda>i. inv_TenantID i = tenantID \<and> inv_SensitiveData i \<noteq> []) - pii - financial - secrets
      in \<lparr>sd_PII = pii, sd_Financial = financial, sd_Secrets = secrets, sd_Other = (if other < 0 then 0 else other)\<rparr>)"

subsection \<open>The trend\<close>

definition day_length :: int where "day_length = 24 * 3600 * second"

definition week_ago :: "int \<Rightarrow> int" where
  "week_ago now = (let t = now - 6 * day_length in t - t mod day_length)"

definition seen_since :: "string \<Rightarrow> int \<Rightarrow> issue \<Rightarrow> bool" where
  "seen_since tenantID t i \<longleftrightarrow> iss_TenantID i = tenantID \<and> (case iss_FirstSeenAt i of None \<Rightarrow> False | Some s \<Rightarrow> s \<ge> t)"

text \<open>What the loop over the rows has added up for a day and a severity.\<close>

definition rows_sum :: "((string \<times> string) \<times> int) list \<Rightarrow> string \<Rightarrow> string \<Rightarrow> int" where
  "rows_sum rows day severity = sum_list (map snd (filter (\<lambda>r. fst r = (day, severity)) rows))"

definition daily_issues :: "('i, 's, 'j, 'g) metrics_env \<Rightarrow> int \<Rightarrow> 's \<Rightarrow> string \<Rightarrow> daily_issue_count list" where
  "daily_issues E now c tenantID =
     (case mx_daily E c (seen_since tenantID (week_ago now)) of
        Inl err \<Rightarrow> []
      | Inr rows \<Rightarrow>
          map (\<lambda>k. let day = mx_day E (week_ago now + int k * day_length)
             in \<lparr>dic_Day = day, dic_Critical = rows_sum rows day ''critical'', dic_High = rows_sum rows day ''high'',
                 dic_Medium = rows_sum rows day ''medium'', dic_Low = rows_sum rows day ''low''\<rparr>) [0..<7])"

subsection \<open>The endpoints with the most issues\<close>

definition top_endpoint :: "('i, 's, 'j, 'g) metrics_env \<Rightarrow> 'i \<Rightarrow> object_id \<times> int \<Rightarrow> top_endpoint_summary" where
  "top_endpoint E c row =
     (let (id0, n) = row; ep = \<lparr>te_InventoryID = mx_Hex E id0, te_Path = [], te_Method = [], te_IssueCount = n\<rparr>
      in case mx_find_inventory E c (\<lambda>i. inv_ID i = id0) of
           Inr (Some i) \<Rightarrow> ep\<lparr>te_Method := inv_Method i, te_Path := inv_PathPattern i\<rparr>
         | _ \<Rightarrow> ep)"

definition top_endpoints :: "('i, 's, 'j, 'g) metrics_env \<Rightarrow> 'i \<Rightarrow> 's \<Rightarrow> string \<Rightarrow> top_endpoint_summary list" where
  "top_endpoints E ci cs tenantID =
     (case mx_top E cs (\<lambda>i. iss_TenantID i = tenantID) 5 of Inl err \<Rightarrow> [] | Inr rows \<Rightarrow> map (top_endpoint E ci) rows)"

definition GetMetricsSummary :: "('i, 's, 'j, 'g) metrics_env \<Rightarrow> int \<Rightarrow> ('i, 's, 'j, 'g) metrics_state \<Rightarrow> object_id \<Rightarrow> metrics_summary" where
  "GetMetricsSummary E now st accountID =
     (let tenantID = mx_Hex E accountID
      in \<lparr>sum_Inventory = count_inventory (mx_inventory E) (mst_inventory st) tenantID,
          sum_Issues = count_issues (mx_issues E) (mst_issues st) tenantID,
          sum_Scans = count_scans (mx_jobs E) (mst_jobs st) tenantID,
          sum_AgentsTotal = countColl (mx_agents E) (mst_agents st) (\<lambda>g. agn_AccountID g = accountID),
          sum_AgentsOnline = countColl (mx_agents E) (mst_agents st) (\<lambda>g. agn_AccountID g = accountID \<and> agent_online now g),
          sum_SensitiveData = count_sensitive (mx_inventory E) (mst_inventory st) tenantID,
          sum_DailyIssues = daily_issues E now (mst_issues st) tenantID,
          sum_TopEndpoints = top_endpoints E (mst_inventory st) (mst_issues st) tenantID\<rparr>)"

subsection \<open>Counting\<close>

context paged_store
begin

text \<open>A count that is answered is the number of the selected documents.\<close>

lemma count_card:
  assumes "coll_ok M c" "pg_count P c f = Inr n"
  shows "n = int (card {d. f d \<and> coll_docs M c (coll_key M d) = Some d})" "finite {d. f d \<and> coll_docs M c (coll_key M d) = Some d}"
proof -
  from count_all [OF assms, of "([], 1)"] obtain full where
    l: "listing_of (coll_docs M c) (coll_key M) field f ([], 1) full" "n = int (length full)" by blast
  then have "set full = {d. f d \<and> coll_docs M c (coll_key M d) = Some d}" "distinct full"
    using distinct_map by (auto simp: listing_of_def)
  with l(2) show "n = int (card {d. f d \<and> coll_docs M c (coll_key M d) = Some d})" "finite {d. f d \<and> coll_docs M c (coll_key M d) = Some d}"
    using distinct_card by (metis, metis List.finite_set)
qed

lemma count_none:
  assumes "coll_ok M c" "\<And>k d. coll_docs M c k = Some d \<Longrightarrow> \<not> f d"
  shows "countColl P c f = 0"
proof (cases "pg_count P c f")
  case (Inr n)
  have "{d. f d \<and> coll_docs M c (coll_key M d) = Some d} = {}" using assms(2) by blast
  with count_card(1) [OF assms(1) Inr] Inr show ?thesis by (simp add: countColl_def)
qed (simp add: countColl_def)

lemma counted: "coll_ok M c \<Longrightarrow> pg_count P c f = Inr n \<Longrightarrow> countColl P c f = int (card {d. f d \<and> coll_docs M c (coll_key M d) = Some d})"
  using count_card(1) by (simp add: countColl_def)

end

text \<open>The classes of statuses the scans are counted in.\<close>

definition scan_classes :: "string list list" where
  "scan_classes = [[''queued''], [''running''], [''completed''], [''failed'', ''timed_out''], [''cancelled'']]"

lemma wf_status_class: "job_wf j \<Longrightarrow> \<exists>cl \<in> set scan_classes. job_Status j \<in> set cl"
  by (auto simp: job_wf_def status_defs scan_classes_def)

lemma scan_classes_disjoint: "cl \<in> set scan_classes \<Longrightarrow> cl2 \<in> set scan_classes \<Longrightarrow> cl \<noteq> cl2 \<Longrightarrow> set cl \<inter> set cl2 = {}"
  by (auto simp: scan_classes_def)

lemma count_scans_sum:
  assumes S: "paged_store M Pg field" and ok: "coll_ok M c" and known: "table_wf (coll_docs M c)"
    and total: "pg_count Pg c (\<lambda>j. job_TenantID j = t) = Inr n"
    and cls: "\<And>cl. cl \<in> set scan_classes \<Longrightarrow> \<not> isl (pg_count Pg c (\<lambda>j. job_TenantID j = t \<and> job_Status j \<in> set cl))"
  shows "n = (\<Sum>cl \<leftarrow> scan_classes. countColl Pg c (\<lambda>j. job_TenantID j = t \<and> job_Status j \<in> set cl))"
proof -
  let ?S = "\<lambda>cl. {j. (job_TenantID j = t \<and> job_Status j \<in> set cl) \<and> coll_docs M c (coll_key M j) = Some j}"
  have answered: "\<exists>n. pg_count Pg c (\<lambda>j. job_TenantID j = t \<and> job_Status j \<in> set cl) = Inr n" if "cl \<in> set scan_classes" for cl
    using cls [OF that] by (cases "pg_count Pg c (\<lambda>j. job_TenantID j = t \<and> job_Status j \<in> set cl)") auto
  have fin: "finite (?S cl)" if "cl \<in> set scan_classes" for cl
    using paged_store.count_card(2) [OF S ok] answered [OF that] by blast
  have split: "{j. job_TenantID j = t \<and> coll_docs M c (coll_key M j) = Some j} = (\<Union>cl \<in> set scan_classes. ?S cl)"
    using known wf_status_class unfolding table_wf_def by blast
  have "n = int (card {j. job_TenantID j = t \<and> coll_docs M c (coll_key M j) = Some j})"
    by (rule paged_store.count_card(1) [OF S ok total])
  also have "\<dots> = int (\<Sum>cl \<in> set scan_classes. card (?S cl))"
    unfolding split
  proof (subst card_UN_disjoint)
    show "\<forall>cl \<in> set scan_classes. finite (?S cl)" using fin by blast
    show "\<forall>cl \<in> set scan_classes. \<forall>cl2 \<in> set scan_classes. cl \<noteq> cl2 \<longrightarrow> ?S cl \<inter> ?S cl2 = {}"
      using scan_classes_disjoint by blast
  qed simp_all
  also have "\<dots> = (\<Sum>cl \<in> set scan_classes. countColl Pg c (\<lambda>j. job_TenantID j = t \<and> job_Status j \<in> set cl))"
    unfolding of_nat_sum
  proof (rule sum.cong [OF refl])
    fix cl assume "cl \<in> set scan_classes"
    from answered [OF this] obtain m where "pg_count Pg c (\<lambda>j. job_TenantID j = t \<and> job_Status j \<in> set cl) = Inr m" ..
    from paged_store.counted [OF S ok this] show "int (card (?S cl)) = countColl Pg c (\<lambda>j. job_TenantID j = t \<and> job_Status j \<in> set cl)"
      by simp
  qed
  also have "\<dots> = (\<Sum>cl \<leftarrow> scan_classes. countColl Pg c (\<lambda>j. job_TenantID j = t \<and> job_Status j \<in> set cl))"
    by (rule sum.distinct_set_conv_list) (simp add: scan_classes_def)
  finally show ?thesis .
qed

subsection \<open>The aggregation\<close>

definition day_severity :: "(int \<Rightarrow> string) \<Rightarrow> issue \<Rightarrow> string \<times> string" where
  "day_severity day i = (day (time_key (iss_FirstSeenAt i)), iss_Severity i)"

text \<open>One row for each day and severity that occurs, with the number of its issues.\<close>

locale issue_trend = doc_store M for M :: "('c, object_id, issue) coll" +
  fixes daily :: "'c \<Rightarrow> (issue \<Rightarrow> bool) \<Rightarrow> db_error + ((string \<times> string) \<times> int) list" and day :: "int \<Rightarrow> string"
  assumes rows_distinct: "coll_ok M c \<Longrightarrow> daily c f = Inr rows \<Longrightarrow> distinct (map fst rows)"
    and rows_count: "coll_ok M c \<Longrightarrow> daily c f = Inr rows \<Longrightarrow> (ds, n) \<in> set rows \<Longrightarrow>
      n = int (card {i. f i \<and> coll_docs M c (coll_key M i) = Some i \<and> day_severity day i = ds})"
    and rows_all: "coll_ok M c \<Longrightarrow> daily c f = Inr rows \<Longrightarrow> coll_docs M c k = Some i \<Longrightarrow> f i \<Longrightarrow> day_severity day i \<in> fst ` set rows"
begin

lemma rows_sum_card:
  assumes "coll_ok M c" "daily c f = Inr rows"
  shows "rows_sum rows d s = int (card {i. f i \<and> coll_docs M c (coll_key M i) = Some i \<and> day_severity day i = (d, s)})"
proof (cases "(d, s) \<in> fst ` set rows")
  case True
  then obtain n where n: "((d, s), n) \<in> set rows" by force
  have "filter (\<lambda>r. fst r = (d, s)) rows = [((d, s), n)]"
    using rows_distinct [OF assms] n
  proof (induction rows)
    case (Cons r rows)
    show ?case
    proof (cases "fst r = (d, s)")
      case True
      then have "filter (\<lambda>r. fst r = (d, s)) rows = []" using Cons.prems(1) by (force simp: filter_empty_conv)
      moreover have "r = ((d, s), n)"
        using Cons.prems True by (cases r) (force simp: image_iff)
      ultimately show ?thesis by simp
    next
      case False
      with Cons show ?thesis by auto
    qed
  qed simp
  with rows_count [OF assms n] show ?thesis by (simp add: rows_sum_def)
next
  case False
  then have "filter (\<lambda>r. fst r = (d, s)) rows = []" by (force simp: filter_empty_conv)
  moreover have "{i. f i \<and> coll_docs M c (coll_key M i) = Some i \<and> day_severity day i = (d, s)} = {}"
    using rows_all [OF assms] False by force
  ultimately show ?thesis unfolding rows_sum_def by (simp only: list.map sum_list.Nil card.empty of_nat_0)
qed

end

definition mem_daily :: "(int \<Rightarrow> string) \<Rightarrow> issue list \<Rightarrow> (issue \<Rightarrow> bool) \<Rightarrow> db_error + ((string \<times> string) \<times> int) list" where
  "mem_daily day is f =
     Inr (map (\<lambda>ds. (ds, int (length (filter (\<lambda>i. f i \<and> day_severity day i = ds) is)))) (remdups (map (day_severity day) (filter f is))))"

interpretation mem_trend: issue_trend "mem_coll iss_ID" "mem_daily day" day
proof (intro issue_trend.intro [OF mem_coll_store] issue_trend_axioms.intro, goal_cases)
  case (1 c f rows)
  then show ?case by (auto simp: mem_daily_def comp_def)
next
  case (2 c f rows ds n)
  then have d: "distinct (map iss_ID c)" and n: "n = int (length (filter (\<lambda>i. f i \<and> day_severity day i = ds) c))"
    by (auto simp: mem_daily_def mem_coll_def)
  have "distinct (filter (\<lambda>i. f i \<and> day_severity day i = ds) c)" using d by (simp add: distinct_map)
  moreover have "set (filter (\<lambda>i. f i \<and> day_severity day i = ds) c) =
    {i. f i \<and> coll_docs (mem_coll iss_ID) c (coll_key (mem_coll iss_ID) i) = Some i \<and> day_severity day i = ds}"
    using d by (auto simp: mem_coll_def mem_docs_Some)
  ultimately show ?case using n distinct_card by metis
next
  case (3 c f rows k i)
  then show ?case by (auto simp: mem_daily_def mem_coll_def mem_docs_Some image_image)
qed

text \<open>The last of the seven days is today.\<close>

lemma week_ends_today: "week_ago now + 6 * day_length \<le> now" "now < week_ago now + 7 * day_length"
proof -
  have d: "0 < day_length" by (simp add: day_length_def second_def)
  have "week_ago now = now - 6 * day_length - (now - 6 * day_length) mod day_length" by (simp add: week_ago_def Let_def)
  moreover have "0 \<le> (now - 6 * day_length) mod day_length" "(now - 6 * day_length) mod day_length < day_length" using d by simp_all
  ultimately show "week_ago now + 6 * day_length \<le> now" "now < week_ago now + 7 * day_length" by linarith+
qed

subsection \<open>A database in memory\<close>

definition inventory_field :: "string \<Rightarrow> api_inventory \<Rightarrow> int list" where
  "inventory_field f i =
     (if f = ''method'' then text_value (inv_Method i) else if f = ''base_url'' then text_value (inv_BaseURL i)
      else if f = ''path_pattern'' then text_value (inv_PathPattern i)
      else if f = ''created_at'' then time_value (inv_CreatedAt i) else time_value (inv_UpdatedAt i))"

interpretation mem_pages: paged_store "mem_coll inv_ID" "mem_pager inventory_field" inventory_field
  by (rule mem_paged_store)

definition issue_field :: "string \<Rightarrow> issue \<Rightarrow> int list" where
  "issue_field f i =
     (if f = ''severity'' then text_value (iss_Severity i) else if f = ''status'' then text_value (iss_Status i)
      else if f = ''first_seen_at'' then time_value (iss_FirstSeenAt i) else if f = ''last_seen_at'' then time_value (iss_LastSeenAt i)
      else time_value (iss_UpdatedAt i))"

definition job_field :: "string \<Rightarrow> scan_job \<Rightarrow> int list" where
  "job_field f j =
     (if f = ''status'' then text_value (job_Status j) else if f = ''test_type'' then text_value (job_TestType j)
      else if f = ''updated_at'' then time_value (job_UpdatedAt j) else time_value (job_CreatedAt j))"

definition mem_metrics_env :: "(api_inventory list, issue list, scan_job list, agent list) metrics_env" where
  "mem_metrics_env =
     \<lparr>mx_inventory = mem_pager inventory_field, mx_find_inventory = (\<lambda>is f. Inr (find f is)), mx_issues = mem_pager issue_field,
      mx_jobs = mem_pager job_field, mx_agents = mem_pager (\<lambda>f g. time_value (agn_LastSeenAt g)),
      mx_daily = mem_daily (\<lambda>t. if t < day_length then ''d0'' else ''d1''),
      mx_top = (\<lambda>is f n. Inr (take n (map (\<lambda>i. (iss_InventoryID i, 1)) (filter f is)))), mx_day = (\<lambda>t. if t < day_length then ''d0'' else ''d1''),
      mx_Hex = (\<lambda>i. if i = 7 then ''a7'' else ''00'')\<rparr>"

definition critical_endpoint :: api_inventory where
  "critical_endpoint = zero_api_inventory\<lparr>inv_ID := 1, inv_TenantID := ''a7'', inv_EndpointFingerprint := ''fp'', inv_RiskLevel := ''CRITICAL'',
     inv_RequestCount := 3, inv_SensitiveData := [''EMAIL'', ''CREDIT_CARD'']\<rparr>"

definition other_endpoint :: api_inventory where
  "other_endpoint = zero_api_inventory\<lparr>inv_ID := 2, inv_TenantID := ''a7'', inv_EndpointFingerprint := ''fp2'', inv_RiskLevel := ''LOW'',
     inv_RequestCount := 1, inv_SensitiveData := [''IP_ADDRESS'']\<rparr>"

definition mem_metrics_state :: "(api_inventory list, issue list, scan_job list, agent list) metrics_state" where
  "mem_metrics_state =
     \<lparr>mst_inventory = [critical_endpoint, other_endpoint],
      mst_issues = [zero_issue\<lparr>iss_ID := 3, iss_TenantID := ''a7'', iss_Severity := ''high'', iss_FirstSeenAt := Some (day_length + 5)\<rparr>],
      mst_jobs = [zero_scan_job\<lparr>job_ID := 4, job_TenantID := ''a7'', job_Status := ScanJobStatusQueued, job_UpdatedAt := Some 1\<rparr>],
      mst_agents = []\<rparr>"

text \<open>
  The endpoint with a tag of no category is not counted as such when another endpoint has tags of two
  categories.
\<close>

lemma other_is_undercounted:
  "sd_Other (count_sensitive (mem_pager inventory_field) (mst_inventory mem_metrics_state) ''a7'') = 0"
  "\<exists>i \<in> set (mst_inventory mem_metrics_state). inv_SensitiveData i \<noteq> [] \<and>
     set (inv_SensitiveData i) \<inter> set (summaryPiiTags @ summaryFinancialTags @ summarySecretTags) = {}"
  by (simp_all add: mem_metrics_state_def critical_endpoint_def other_endpoint_def count_sensitive_def countColl_def mem_pager_def
      summaryPiiTags_def summaryFinancialTags_def summarySecretTags_def zero_api_inventory_def Let_def)

lemma mem_metrics_ok:
  "coll_ok (mem_coll inv_ID) (mst_inventory mem_metrics_state)" "coll_ok (mem_coll job_ID) (mst_jobs mem_metrics_state)"
  "coll_ok (mem_coll iss_ID) (mst_issues mem_metrics_state)"
  by (simp_all add: mem_coll_def mem_metrics_state_def critical_endpoint_def other_endpoint_def)

lemma mem_metrics_inventory: "inventory_well_formed (mem_coll inv_ID) (mst_inventory mem_metrics_state)"
  by (auto simp: inventory_well_formed_def mem_coll_def mem_docs_def mem_metrics_state_def critical_endpoint_def other_endpoint_def
      well_formed_endpoint_def endpoint_shape_def zero_api_inventory_def capped_lists_def split: if_splits)

lemma mem_metrics_jobs: "table_wf (coll_docs (mem_coll job_ID) (mst_jobs mem_metrics_state))"
  by (auto simp: table_wf_def mem_coll_def mem_docs_def mem_metrics_state_def job_wf_def zero_scan_job_def isTerminalScanStatus_def
      status_neq split: if_splits)

subsection \<open>Properties\<close>

text \<open>
  Property C14. The summary never counts a risk level: every endpoint the analyzer has stored carries one of the levels
  \<open>LOW\<close>, \<open>MEDIUM\<close>, \<open>HIGH\<close> and \<open>CRITICAL\<close>, while the summary asks for them in lower case, so
  the four counts are zero whatever the inventory holds.
\<close>

theorem risk_level_counts_are_zero:
  assumes "paged_store M (mx_inventory E) field" "coll_ok M (mst_inventory st)" "inventory_well_formed M (mst_inventory st)"
  shows "let n = sum_Inventory (GetMetricsSummary E now st accountID)
    in ic_Critical n = 0 \<and> ic_High n = 0 \<and> ic_Medium n = 0 \<and> ic_Low n = 0"
proof -
  have level: "inv_RiskLevel i \<in> {''LOW'', ''MEDIUM'', ''HIGH'', ''CRITICAL''}" if "coll_docs M (mst_inventory st) k = Some i" for k i
    using assms(3) that by (simp add: inventory_well_formed_def well_formed_endpoint_def del: insert_iff)
  have "countColl (mx_inventory E) (mst_inventory st) (\<lambda>i. inv_TenantID i = t \<and> inv_RiskLevel i = l) = 0"
    if "l \<notin> {''LOW'', ''MEDIUM'', ''HIGH'', ''CRITICAL''}" for t l
    using level that by (intro paged_store.count_none [OF assms(1,2)]) blast
  then show ?thesis by (simp add: GetMetricsSummary_def count_inventory_def Let_def)
qed

theorem risk_level_counts_are_zero_witness:
  "let n = sum_Inventory (GetMetricsSummary mem_metrics_env (2 * day_length) mem_metrics_state 7)
   in ic_Critical n = 0 \<and> ic_High n = 0 \<and> ic_Medium n = 0 \<and> ic_Low n = 0"
  by (rule risk_level_counts_are_zero [where field = inventory_field, OF _ mem_metrics_ok(1) mem_metrics_inventory])
    (simp add: mem_metrics_env_def mem_paged_store)

text \<open>
  The scan counts of the summary are consistent: over a well-formed table of jobs and when no count
  fails, the queued, running, completed, failed (or timed out) and cancelled jobs add up to the total,
  which is the number of stored jobs of the account.
\<close>

theorem scan_counts_add_up:
  assumes "paged_store M (mx_jobs E) field" "coll_ok M (mst_jobs st)" "table_wf (coll_docs M (mst_jobs st))"
    and "pg_count (mx_jobs E) (mst_jobs st) (\<lambda>j. job_TenantID j = mx_Hex E accountID) = Inr n"
    and "list_all (\<lambda>cl. \<not> isl (pg_count (mx_jobs E) (mst_jobs st) (\<lambda>j. job_TenantID j = mx_Hex E accountID \<and> job_Status j \<in> set cl))) scan_classes"
  shows "let s = sum_Scans (GetMetricsSummary E now st accountID)
    in sc_Total s = sc_Queued s + sc_Running s + sc_Completed s + sc_Failed s + sc_Cancelled s \<and>
      sc_Total s = int (card {j. job_TenantID j = mx_Hex E accountID \<and> coll_docs M (mst_jobs st) (coll_key M j) = Some j})"
proof -
  have "n = (\<Sum>cl \<leftarrow> scan_classes. countColl (mx_jobs E) (mst_jobs st) (\<lambda>j. job_TenantID j = mx_Hex E accountID \<and> job_Status j \<in> set cl))"
    using assms(5) by (intro count_scans_sum [OF assms(1-4)]) (simp add: list_all_iff)
  moreover note paged_store.count_card(1) [OF assms(1,2,4)]
  ultimately show ?thesis
    by (simp add: GetMetricsSummary_def count_scans_def Let_def scan_classes_def countColl_def assms(4) del: list.set)
qed

theorem scan_counts_add_up_witness:
  "let s = sum_Scans (GetMetricsSummary mem_metrics_env 9 mem_metrics_state 7)
    in sc_Total s = sc_Queued s + sc_Running s + sc_Completed s + sc_Failed s + sc_Cancelled s \<and>
      sc_Total s = int (card {j. job_TenantID j = mx_Hex mem_metrics_env 7 \<and>
        coll_docs (mem_coll job_ID) (mst_jobs mem_metrics_state) (coll_key (mem_coll job_ID) j) = Some j})"
proof (rule scan_counts_add_up [where field = job_field, OF _ mem_metrics_ok(2) mem_metrics_jobs])
  show "paged_store (mem_coll job_ID) (mx_jobs mem_metrics_env) job_field" by (simp add: mem_metrics_env_def mem_paged_store)
qed (simp_all add: mem_metrics_env_def mem_pager_def mem_metrics_state_def scan_classes_def)

text \<open>
  The trend covers the last seven days, today included, and every number in it is the number of stored
  issues of the account that were first seen on that day with that severity.
\<close>

theorem daily_trend_counts:
  assumes "issue_trend M (mx_daily E) (mx_day E)" "coll_ok M (mst_issues st)"
    and "mx_daily E (mst_issues st) (seen_since (mx_Hex E accountID) (week_ago now)) = Inr rows" "k < 7"
  shows "let ds = sum_DailyIssues (GetMetricsSummary E now st accountID); d = ds ! k;
      n = (\<lambda>sev. int (card {i. seen_since (mx_Hex E accountID) (week_ago now) i \<and> coll_docs M (mst_issues st) (coll_key M i) = Some i \<and>
        day_severity (mx_day E) i = (mx_day E (week_ago now + int k * day_length), sev)}))
    in length ds = 7 \<and> dic_Day d = mx_day E (week_ago now + int k * day_length) \<and>
      dic_Critical d = n ''critical'' \<and> dic_High d = n ''high'' \<and> dic_Medium d = n ''medium'' \<and> dic_Low d = n ''low''"
  using assms(4) by (simp add: GetMetricsSummary_def daily_issues_def assms(3) Let_def issue_trend.rows_sum_card [OF assms(1-3)])

theorem daily_trend_counts_witness:
  "let ds = sum_DailyIssues (GetMetricsSummary mem_metrics_env (7 * day_length) mem_metrics_state 7); d = ds ! 0;
      n = (\<lambda>sev. int (card {i. seen_since (mx_Hex mem_metrics_env 7) (week_ago (7 * day_length)) i \<and>
        coll_docs (mem_coll iss_ID) (mst_issues mem_metrics_state) (coll_key (mem_coll iss_ID) i) = Some i \<and>
        day_severity (mx_day mem_metrics_env) i = (mx_day mem_metrics_env (week_ago (7 * day_length) + int 0 * day_length), sev)}))
    in length ds = 7 \<and> dic_Day d = mx_day mem_metrics_env (week_ago (7 * day_length) + int 0 * day_length) \<and>
      dic_Critical d = n ''critical'' \<and> dic_High d = n ''high'' \<and> dic_Medium d = n ''medium'' \<and> dic_Low d = n ''low''"
proof -
  have "mx_daily mem_metrics_env = mem_daily (mx_day mem_metrics_env)" by (simp add: mem_metrics_env_def)
  then have trend: "issue_trend (mem_coll iss_ID) (mx_daily mem_metrics_env) (mx_day mem_metrics_env)"
    using mem_trend.issue_trend_axioms by simp
  obtain rows where rows: "mx_daily mem_metrics_env (mst_issues mem_metrics_state) (seen_since (mx_Hex mem_metrics_env 7) (week_ago (7 * day_length))) = Inr rows"
    by (simp add: mem_metrics_env_def mem_daily_def)
  show ?thesis by (rule daily_trend_counts [OF trend mem_metrics_ok(3) rows]) simp
qed

end
