(* ===== verification/Issue_Store.thy ===== *)
theory Issue_Store
  imports Doc_Upsert Listing Http_Auth Redact
begin

text \<open>
  Scan results and issues, \<open>internal/db/repository.go\<close>: a result is stored, a vulnerable one opens
  an issue or is added to the issue of its fingerprint, and \<open>handleUpdateIssue\<close> of
  \<open>internal/api/server.go\<close> changes the status of an issue. The locale \<open>issue_store\<close> is the
  collection with its unique index on the fingerprint.
\<close>

subsection \<open>Statuses\<close>

definition IssueStatusAcceptedRisk :: string where "IssueStatusAcceptedRisk = ''accepted_risk''"
definition IssueStatusFalsePositive :: string where "IssueStatusFalsePositive = ''false_positive''"
definition IssueStatusFixed :: string where "IssueStatusFixed = ''fixed''"

definition validStatuses :: "string list" where
  "validStatuses = [IssueStatusOpen, IssueStatusAcceptedRisk, IssueStatusFalsePositive, IssueStatusFixed]"

subsection \<open>Results\<close>

definition prepare_result :: "re_replace \<Rightarrow> int \<Rightarrow> object_id \<Rightarrow> scan_result \<Rightarrow> scan_result" where
  "prepare_result re_replace now fresh scanRes =
     (let r = redact_ScanResult re_replace scanRes
      in r\<lparr>sr_ID := (if sr_ID r = 0 then fresh else sr_ID r),
           sr_CreatedAt := (if is_zero (sr_CreatedAt r) then Some now else sr_CreatedAt r)\<rparr>)"

definition SaveScanResult ::
  "('r, object_id, scan_result) coll \<Rightarrow> re_replace \<Rightarrow> int \<Rightarrow> object_id \<Rightarrow> 'r \<Rightarrow> scan_result \<Rightarrow> 'r \<times> (db_error + scan_result)" where
  "SaveScanResult M re_replace now fresh c scanRes =
     (let r = prepare_result re_replace now fresh scanRes in
      case coll_insert M c r of
        (c', Some e) \<Rightarrow> (c', Inl e)
      | (c', None) \<Rightarrow> (c', Inr r))"

subsection \<open>Issues\<close>

text \<open>\<open>ie_sha\<close> is the hexadecimal SHA-256 digest.\<close>

record 'c issue_env =
  ie_Issues :: "('c, object_id, issue) coll"
  ie_upsert :: "('c, issue) upsert"
  ie_sha :: "string \<Rightarrow> string"
  ie_Hex :: "object_id \<Rightarrow> string"
  ie_FromHex :: "string \<Rightarrow> string + object_id"

definition issueFingerprint :: "'c issue_env \<Rightarrow> string \<Rightarrow> string \<Rightarrow> object_id \<Rightarrow> string \<Rightarrow> string \<Rightarrow> string" where
  "issueFingerprint E tenantID projectID inventoryID endpointFingerprint testType =
     ie_sha E (join_with ''|'' [trim_space tenantID, trim_space projectID, ie_Hex E inventoryID, trim_space endpointFingerprint,
       trim_space testType])"

definition issueTitle :: "string \<Rightarrow> api_inventory \<Rightarrow> string" where
  "issueTitle testType inventory =
     (let path = trim_space (inv_PathPattern inventory);
          path = (if path = [] then trim_space (inv_OriginalPath inventory) else path);
          path = (if path = [] then ''captured endpoint'' else path);
          meth = trim_space (inv_Method inventory);
          target = (if meth \<noteq> [] then meth @ '' '' @ path else path)
      in trim_space testType @ '' on '' @ target)"

definition evidence_summary :: "scan_result \<Rightarrow> string" where
  "evidence_summary scanRes =
     (let e = (if sr_Proof scanRes = [] then sr_Description scanRes else sr_Proof scanRes)
      in if length e > 2048 then take 2048 e else e)"

definition issue_set :: "int \<Rightarrow> string \<Rightarrow> string \<Rightarrow> scan_result \<Rightarrow> issue \<Rightarrow> issue" where
  "issue_set now endpointFingerprint title scanRes i =
     i\<lparr>iss_EndpointFingerprint := endpointFingerprint, iss_ScanJobID := sr_JobID scanRes, iss_ScanResultID := sr_ID scanRes,
       iss_Severity := to_lower (trim_space (sr_Severity scanRes)), iss_Title := title, iss_Description := sr_Description scanRes,
       iss_EvidenceSummary := evidence_summary scanRes, iss_LastSeenAt := sr_CreatedAt scanRes, iss_UpdatedAt := Some now\<rparr>"

definition issue_on_insert :: "int \<Rightarrow> object_id \<Rightarrow> string \<Rightarrow> scan_result \<Rightarrow> issue" where
  "issue_on_insert now fresh fingerprint scanRes =
     zero_issue\<lparr>iss_ID := fresh, iss_TenantID := sr_TenantID scanRes, iss_ProjectID := sr_ProjectID scanRes,
       iss_InventoryID := sr_InventoryID scanRes, iss_IssueFingerprint := fingerprint, iss_TestType := sr_TestType scanRes,
       iss_Status := IssueStatusOpen, iss_FirstSeenAt := sr_CreatedAt scanRes, iss_CreatedAt := Some now\<rparr>"

text \<open>
  \<open>found\<close> is what the database answers to the lookup of the endpoint; an endpoint that is gone counts
  as an empty one.
\<close>

definition result_inventory :: "db_error + api_inventory option \<Rightarrow> scan_result \<Rightarrow> db_error + api_inventory" where
  "result_inventory found scanRes =
     (if sr_InventoryID scanRes = 0 then Inr zero_api_inventory
      else (case found of Inl e \<Rightarrow> Inl e | Inr None \<Rightarrow> Inr zero_api_inventory | Inr (Some i) \<Rightarrow> Inr i))"

definition UpsertIssueFromScanResult ::
  "'c issue_env \<Rightarrow> int \<Rightarrow> object_id \<Rightarrow> db_error + api_inventory option \<Rightarrow> 'c \<Rightarrow> scan_result \<Rightarrow> 'c \<times> (db_error + issue option)" where
  "UpsertIssueFromScanResult E now fresh found c scanRes =
     (if \<not> sr_Vulnerable scanRes then (c, Inr None)
      else (case result_inventory found scanRes of
          Inl e \<Rightarrow> (c, Inl e)
        | Inr inventory \<Rightarrow>
            (let res = (if is_zero (sr_CreatedAt scanRes) then scanRes\<lparr>sr_CreatedAt := Some now\<rparr> else scanRes);
                 efp = inv_EndpointFingerprint inventory;
                 fingerprint = issueFingerprint E (sr_TenantID res) (sr_ProjectID res) (sr_InventoryID res) efp (sr_TestType res);
                 u = issue_set now efp (issueTitle (sr_TestType res) inventory) res
             in case ie_upsert E c (\<lambda>i. iss_IssueFingerprint i = fingerprint) u (u (issue_on_insert now fresh fingerprint res)) of
                  (c', Inl e) \<Rightarrow> (c', Inl e)
                | (c', Inr i) \<Rightarrow> (c', Inr (Some i)))))"

definition status_filter :: "object_id \<Rightarrow> string \<Rightarrow> issue \<Rightarrow> bool" where
  "status_filter id0 tenantID i \<longleftrightarrow> iss_ID i = id0 \<and> text_eq tenantID (iss_TenantID i)"

definition set_status :: "int \<Rightarrow> string \<Rightarrow> issue \<Rightarrow> issue" where
  "set_status now status i = i\<lparr>iss_Status := status, iss_UpdatedAt := Some now\<rparr>"

definition UpdateIssueStatus ::
  "'c issue_env \<Rightarrow> int \<Rightarrow> 'c \<Rightarrow> object_id \<Rightarrow> string \<Rightarrow> string \<Rightarrow> 'c \<times> (db_error + issue option)" where
  "UpdateIssueStatus E now c id0 tenantID status =
     coll_find_modify (ie_Issues E) c (status_filter id0 tenantID) (\<lambda>i. 0) (set_status now status)"

datatype issue_reply = IssueError nat string | IssueReply issue

text \<open>\<open>idStr\<close> is the path value, \<open>body\<close> the decoded status or nothing.\<close>

definition handleUpdateIssue ::
  "'c issue_env \<Rightarrow> int \<Rightarrow> http_req \<Rightarrow> string \<Rightarrow> string option \<Rightarrow> 'c \<Rightarrow> 'c \<times> issue_reply" where
  "handleUpdateIssue E now q idStr body c =
     (case requireRoles q scanRoles of
        Inl (code, msg) \<Rightarrow> (c, IssueError code msg)
      | Inr p \<Rightarrow>
     (case ie_FromHex E idStr of
        Inl err \<Rightarrow> (c, IssueError 400 ''Invalid ID'')
      | Inr objID \<Rightarrow>
     (case body of
        None \<Rightarrow> (c, IssueError 400 ''Invalid request body'')
      | Some status \<Rightarrow>
     (if status \<notin> set validStatuses
      then (c, IssueError 400 ''Invalid status. Must be one of: open, accepted_risk, false_positive, fixed'')
      else if is_BadAccount (scopedAccountID (ie_FromHex E) p) then (c, IssueError 401 ''Invalid account'')
      else (let tenantID = (if scopedAccountID (ie_FromHex E) p = NotScoped then [] else pr_AccountID p) in
            case UpdateIssueStatus E now c objID tenantID status of
              (c', Inl err) \<Rightarrow> (c', IssueError 500 ''Database Error'')
            | (c', Inr None) \<Rightarrow> (c', IssueError 404 ''Issue not found'')
            | (c', Inr (Some updated)) \<Rightarrow> (c', IssueReply updated))))))"

subsection \<open>Sequences of calls\<close>

datatype issue_op =
    OpResult int object_id "db_error + api_inventory option" scan_result
  | OpIssueStatus int http_req string "string option"

fun run_issue_op :: "'c issue_env \<Rightarrow> 'c \<Rightarrow> issue_op \<Rightarrow> 'c" where
  "run_issue_op E c (OpResult now fresh found scanRes) = fst (UpsertIssueFromScanResult E now fresh found c scanRes)"
| "run_issue_op E c (OpIssueStatus now q idStr body) = fst (handleUpdateIssue E now q idStr body c)"

definition run_issue_ops :: "'c issue_env \<Rightarrow> 'c \<Rightarrow> issue_op list \<Rightarrow> 'c" where
  "run_issue_ops E c ops = foldl (run_issue_op E) c ops"

text \<open>The identity of an issue, which no call changes.\<close>

definition same_issue :: "issue \<Rightarrow> issue \<Rightarrow> bool" where
  "same_issue i i' \<longleftrightarrow>
     iss_ID i' = iss_ID i \<and> iss_TenantID i' = iss_TenantID i \<and> iss_ProjectID i' = iss_ProjectID i \<and>
     iss_InventoryID i' = iss_InventoryID i \<and> iss_IssueFingerprint i' = iss_IssueFingerprint i \<and> iss_TestType i' = iss_TestType i \<and>
     iss_FirstSeenAt i' = iss_FirstSeenAt i \<and> iss_CreatedAt i' = iss_CreatedAt i"

text \<open>A request for the status of an issue by somebody who may make it.\<close>

definition asks_status :: "'c issue_env \<Rightarrow> issue \<Rightarrow> string \<Rightarrow> issue_op \<Rightarrow> bool" where
  "asks_status E i status oper \<longleftrightarrow>
     (case oper of
        OpResult now fresh found scanRes \<Rightarrow> False
      | OpIssueStatus now q idStr body \<Rightarrow>
          body = Some status \<and> status \<in> set validStatuses \<and> ie_FromHex E idStr = Inr (iss_ID i) \<and>
          (case requireRoles q scanRoles of
             Inl err \<Rightarrow> False
           | Inr p \<Rightarrow> trim_space (pr_AccountID p) = [] \<or> trim_space (pr_AccountID p) = iss_TenantID i))"

definition issue_valid :: "issue \<Rightarrow> bool" where
  "issue_valid i \<longleftrightarrow> iss_Status i \<in> set validStatuses \<and> length (iss_EvidenceSummary i) \<le> 2048 \<and>
     iss_Severity i = to_lower (iss_Severity i)"

lemma same_issue_refl [simp]: "same_issue i i"
  by (simp add: same_issue_def)

lemma same_issue_trans: "same_issue i j \<Longrightarrow> same_issue j k \<Longrightarrow> same_issue i k"
  by (simp add: same_issue_def)

lemma issue_set_same [simp]: "same_issue i (issue_set now efp title res i)" "iss_Status (issue_set now efp title res i) = iss_Status i"
  by (simp_all add: same_issue_def issue_set_def)

lemma set_status_same [simp]: "same_issue i (set_status now status i)" "iss_Status (set_status now status i) = status"
  by (simp_all add: same_issue_def set_status_def)

lemma asks_status_same: "same_issue i i' \<Longrightarrow> asks_status E i' s oper = asks_status E i s oper"
  by (simp add: asks_status_def same_issue_def split: issue_op.split sum.split)

lemma evidence_bounded: "length (evidence_summary r) \<le> 2048"
  by (simp add: evidence_summary_def Let_def)

lemma issue_set_valid: "iss_Status i \<in> set validStatuses \<Longrightarrow> issue_valid (issue_set now efp title res i)"
  by (simp add: issue_valid_def issue_set_def evidence_bounded)

subsection \<open>The collection\<close>

locale issue_store = unique_store M up iss_IssueFingerprint for M :: "('c, object_id, issue) coll" and up :: "('c, issue) upsert" +
  assumes issue_key: "coll_key M = iss_ID"
begin

lemma issue_keys: "coll_key M (issue_set now efp title res i) = coll_key M i" "coll_key M (set_status now status i) = coll_key M i"
  by (simp_all add: issue_key issue_set_def set_status_def)

lemma upsert_result:
  assumes "ie_upsert E = up"
  shows "UpsertIssueFromScanResult E now fresh found c scanRes = (c, snd (UpsertIssueFromScanResult E now fresh found c scanRes)) \<or>
    (\<exists>f efp title res fp r. up c f (issue_set now efp title res) (issue_set now efp title res (issue_on_insert now fresh fp res)) =
       (fst (UpsertIssueFromScanResult E now fresh found c scanRes), r))"
proof (cases "sr_Vulnerable scanRes")
  case False
  then show ?thesis by (simp add: UpsertIssueFromScanResult_def)
next
  case v: True
  show ?thesis
  proof (cases "result_inventory found scanRes")
    case (Inl e)
    then show ?thesis by (simp add: UpsertIssueFromScanResult_def v)
  next
    case (Inr inventory)
    define res where "res = (if is_zero (sr_CreatedAt scanRes) then scanRes\<lparr>sr_CreatedAt := Some now\<rparr> else scanRes)"
    define efp where "efp = inv_EndpointFingerprint inventory"
    define fp where "fp = issueFingerprint E (sr_TenantID res) (sr_ProjectID res) (sr_InventoryID res) efp (sr_TestType res)"
    define u where "u = issue_set now efp (issueTitle (sr_TestType res) inventory) res"
    obtain c' r where up: "up c (\<lambda>i. iss_IssueFingerprint i = fp) u (u (issue_on_insert now fresh fp res)) = (c', r)" by fastforce
    have "fst (UpsertIssueFromScanResult E now fresh found c scanRes) = c'"
      using up by (auto simp: UpsertIssueFromScanResult_def v Inr Let_def assms res_def [symmetric] efp_def [symmetric] fp_def [symmetric]
          u_def [symmetric] split: sum.split)
    with up show ?thesis unfolding u_def by (metis (no_types))
  qed
qed

text \<open>The update of a status is one atomic step on the issue, or nothing.\<close>

lemma status_step:
  assumes M: "ie_Issues E = M"
  shows "fst (handleUpdateIssue E now q idStr body c) = c \<or>
    (\<exists>p id0 status tenantID r. requireRoles q scanRoles = Inr p \<and> ie_FromHex E idStr = Inr id0 \<and> body = Some status \<and> status \<in> set validStatuses \<and>
       (trim_space (pr_AccountID p) = [] \<or> tenantID = pr_AccountID p) \<and>
       coll_find_modify M c (status_filter id0 tenantID) (\<lambda>i. 0) (set_status now status) = (fst (handleUpdateIssue E now q idStr body c), r))"
proof (cases "requireRoles q scanRoles")
  case (Inl e)
  then show ?thesis by (cases e) (simp add: handleUpdateIssue_def)
next
  case p: (Inr p)
  show ?thesis
  proof (cases "\<exists>id0 status. ie_FromHex E idStr = Inr id0 \<and> body = Some status \<and> status \<in> set validStatuses \<and>
      \<not> is_BadAccount (scopedAccountID (ie_FromHex E) p)")
    case False
    then have "fst (handleUpdateIssue E now q idStr body c) = c"
      by (auto simp: handleUpdateIssue_def p Let_def split: sum.split option.split)
    then show ?thesis ..
  next
    case True
    then obtain id0 status where i: "ie_FromHex E idStr = Inr id0" "body = Some status" "status \<in> set validStatuses"
      "\<not> is_BadAccount (scopedAccountID (ie_FromHex E) p)" by blast
    define tenantID where "tenantID = (if scopedAccountID (ie_FromHex E) p = NotScoped then [] else pr_AccountID p)"
    have scope: "trim_space (pr_AccountID p) = [] \<or> tenantID = pr_AccountID p"
      by (auto simp: tenantID_def scopedAccountID_def split: sum.splits)
    obtain c' r where m: "coll_find_modify M c (status_filter id0 tenantID) (\<lambda>i. 0) (set_status now status) = (c', r)" by fastforce
    then have "fst (handleUpdateIssue E now q idStr body c) = c'"
      using i by (simp add: handleUpdateIssue_def p UpdateIssueStatus_def M Let_def tenantID_def [symmetric] split: sum.split option.split)
    with p i scope m show ?thesis by blast
  qed
qed

lemma run_issue_op_ok:
  assumes E: "ie_Issues E = M" "ie_upsert E = up" and ok: "coll_ok M c"
  shows "coll_ok M (run_issue_op E c oper)"
proof (cases oper)
  case (OpResult now fresh found scanRes)
  from upsert_result [OF E(2), of now fresh found c scanRes] show ?thesis
  proof (elim disjE exE)
    assume "UpsertIssueFromScanResult E now fresh found c scanRes = (c, snd (UpsertIssueFromScanResult E now fresh found c scanRes))"
    then have "fst (UpsertIssueFromScanResult E now fresh found c scanRes) = c" by (metis fst_conv)
    with ok show ?thesis by (simp add: OpResult)
  next
    fix f efp title res fp r
    assume "up c f (issue_set now efp title res) (issue_set now efp title res (issue_on_insert now fresh fp res)) =
      (fst (UpsertIssueFromScanResult E now fresh found c scanRes), r)"
    from upsert_ok [OF ok issue_keys(1) this] show ?thesis by (simp add: OpResult)
  qed
next
  case (OpIssueStatus now q idStr body)
  from status_step [OF E(1), of now q idStr body c] consider "fst (handleUpdateIssue E now q idStr body c) = c"
    | p id0 status tenantID r where "requireRoles q scanRoles = Inr p" "ie_FromHex E idStr = Inr id0" "body = Some status"
      "status \<in> set validStatuses" "trim_space (pr_AccountID p) = [] \<or> tenantID = pr_AccountID p"
      "coll_find_modify M c (status_filter id0 tenantID) (\<lambda>i. 0) (set_status now status) = (fst (handleUpdateIssue E now q idStr body c), r)"
    by blast
  then show ?thesis
  proof cases
    case 1
    with ok show ?thesis by (simp add: OpIssueStatus)
  next
    case (2 p id0 status tenantID r)
    from find_update_ok [OF ok issue_keys(2) 2(6)] show ?thesis by (simp add: OpIssueStatus)
  qed
qed

text \<open>What one call may do to a stored issue.\<close>

lemma run_issue_op_one:
  assumes E: "ie_Issues E = M" "ie_upsert E = up" and ok: "coll_ok M c" and i: "coll_docs M c k = Some i"
  shows "\<exists>i'. coll_docs M (run_issue_op E c oper) k = Some i' \<and> same_issue i i' \<and>
    (iss_Status i' = iss_Status i \<or> asks_status E i (iss_Status i') oper)"
proof (cases oper)
  case (OpResult now fresh found scanRes)
  from upsert_result [OF E(2), of now fresh found c scanRes] show ?thesis
  proof (elim disjE exE)
    assume "UpsertIssueFromScanResult E now fresh found c scanRes = (c, snd (UpsertIssueFromScanResult E now fresh found c scanRes))"
    then have "fst (UpsertIssueFromScanResult E now fresh found c scanRes) = c" by (metis fst_conv)
    with i show ?thesis by (simp add: OpResult)
  next
    fix f efp title res fp r
    assume "up c f (issue_set now efp title res) (issue_set now efp title res (issue_on_insert now fresh fp res)) =
      (fst (UpsertIssueFromScanResult E now fresh found c scanRes), r)"
    from upsert_one [OF ok issue_keys(1) this i] show ?thesis by (auto simp: OpResult)
  qed
next
  case (OpIssueStatus now q idStr body)
  from status_step [OF E(1), of now q idStr body c] consider "fst (handleUpdateIssue E now q idStr body c) = c"
    | p id0 status tenantID r where "requireRoles q scanRoles = Inr p" "ie_FromHex E idStr = Inr id0" "body = Some status"
      "status \<in> set validStatuses" "trim_space (pr_AccountID p) = [] \<or> tenantID = pr_AccountID p"
      "coll_find_modify M c (status_filter id0 tenantID) (\<lambda>i. 0) (set_status now status) = (fst (handleUpdateIssue E now q idStr body c), r)"
    by blast
  then show ?thesis
  proof cases
    case 1
    with i show ?thesis by (simp add: OpIssueStatus)
  next
    case a: (2 p id0 status tenantID r)
    from find_update_cases [OF ok issue_keys(2) a(6)] show ?thesis
    proof (elim disjE exE)
      assume "coll_docs M (fst (handleUpdateIssue E now q idStr body c)) = coll_docs M c"
      with i show ?thesis by (simp add: OpIssueStatus)
    next
      fix k2 d
      assume "updated_at (coll_docs M c) (status_filter id0 tenantID) (set_status now status) k2 d (coll_docs M (fst (handleUpdateIssue E now q idStr body c)))"
      then have d: "coll_docs M c k2 = Some d" "status_filter id0 tenantID d"
        "coll_docs M (fst (handleUpdateIssue E now q idStr body c)) = (coll_docs M c)(k2 \<mapsto> set_status now status d)" by (auto simp: updated_at_def)
      show ?thesis
      proof (cases "k = k2")
        case True
        with i d have "d = i" by simp
        with a d(2) have "asks_status E i status oper" by (auto simp: asks_status_def OpIssueStatus status_filter_def text_eq_def)
        with True d \<open>d = i\<close> show ?thesis by (simp add: OpIssueStatus)
      next
        case False
        with i d show ?thesis by (simp add: OpIssueStatus)
      qed
    qed
  qed
qed

lemma run_issue_ops_ok:
  assumes "ie_Issues E = M" "ie_upsert E = up" "coll_ok M c"
  shows "coll_ok M (run_issue_ops E c ops)"
  using assms(3) by (induction ops arbitrary: c) (simp_all add: run_issue_ops_def run_issue_op_ok [OF assms(1,2)])

lemma run_issue_ops_one:
  assumes E: "ie_Issues E = M" "ie_upsert E = up"
  shows "coll_ok M c \<Longrightarrow> coll_docs M c k = Some i \<Longrightarrow> \<exists>i'. coll_docs M (run_issue_ops E c ops) k = Some i' \<and> same_issue i i' \<and>
    (iss_Status i' = iss_Status i \<or> list_ex (asks_status E i (iss_Status i')) ops)"
proof (induction ops rule: rev_induct)
  case Nil
  then show ?case by (simp add: run_issue_ops_def)
next
  case (snoc oper ops)
  let ?c = "run_issue_ops E c ops"
  from snoc obtain i1 where i1: "coll_docs M ?c k = Some i1" "same_issue i i1"
    "iss_Status i1 = iss_Status i \<or> list_ex (asks_status E i (iss_Status i1)) ops" by blast
  from run_issue_op_one [OF E run_issue_ops_ok [OF E snoc.prems(1)] i1(1), of oper] obtain i2 where
    i2: "coll_docs M (run_issue_op E ?c oper) k = Some i2" "same_issue i1 i2"
      "iss_Status i2 = iss_Status i1 \<or> asks_status E i1 (iss_Status i2) oper" by blast
  have "iss_Status i2 = iss_Status i \<or> list_ex (asks_status E i (iss_Status i2)) (ops @ [oper])"
    using i1(3) i2(3) by (auto simp: asks_status_same [OF i1(2)])
  with i2(1) same_issue_trans [OF i1(2) i2(2)] show ?case by (simp add: run_issue_ops_def)
qed

text \<open>Every stored issue has one of the four statuses and a bounded evidence.\<close>

lemma run_issue_op_valid:
  assumes E: "ie_Issues E = M" "ie_upsert E = up" and ok: "coll_ok M c" and all: "\<And>k i. coll_docs M c k = Some i \<Longrightarrow> issue_valid i"
    and i: "coll_docs M (run_issue_op E c oper) k = Some i"
  shows "issue_valid i"
proof (cases oper)
  case (OpResult now fresh found scanRes)
  from upsert_result [OF E(2), of now fresh found c scanRes] show ?thesis
  proof (elim disjE exE)
    assume "UpsertIssueFromScanResult E now fresh found c scanRes = (c, snd (UpsertIssueFromScanResult E now fresh found c scanRes))"
    then have "fst (UpsertIssueFromScanResult E now fresh found c scanRes) = c" by (metis fst_conv)
    with i all show ?thesis by (simp add: OpResult)
  next
    fix f efp title res fp r
    assume up: "up c f (issue_set now efp title res) (issue_set now efp title res (issue_on_insert now fresh fp res)) =
      (fst (UpsertIssueFromScanResult E now fresh found c scanRes), r)"
    have new: "issue_valid (issue_set now efp title res (issue_on_insert now fresh fp res))"
      by (rule issue_set_valid) (simp add: issue_on_insert_def validStatuses_def)
    show ?thesis
      by (rule upsert_keeps [where J = issue_valid, OF ok issue_keys(1) up new _ all i [unfolded OpResult run_issue_op.simps]])
        (rule issue_set_valid, simp add: issue_valid_def)
  qed
next
  case (OpIssueStatus now q idStr body)
  from status_step [OF E(1), of now q idStr body c] consider "fst (handleUpdateIssue E now q idStr body c) = c"
    | id0 status tenantID r where "status \<in> set validStatuses"
      "coll_find_modify M c (status_filter id0 tenantID) (\<lambda>i. 0) (set_status now status) = (fst (handleUpdateIssue E now q idStr body c), r)"
    by blast
  then show ?thesis
  proof cases
    case 1
    with i all show ?thesis by (simp add: OpIssueStatus)
  next
    case (2 id0 status tenantID r)
    from find_update_cases [OF ok issue_keys(2) 2(2)] show ?thesis
    proof (elim disjE exE)
      assume "coll_docs M (fst (handleUpdateIssue E now q idStr body c)) = coll_docs M c"
      with i all show ?thesis by (simp add: OpIssueStatus)
    next
      fix k2 d
      assume "updated_at (coll_docs M c) (status_filter id0 tenantID) (set_status now status) k2 d (coll_docs M (fst (handleUpdateIssue E now q idStr body c)))"
      then have d: "coll_docs M c k2 = Some d"
        "coll_docs M (fst (handleUpdateIssue E now q idStr body c)) = (coll_docs M c)(k2 \<mapsto> set_status now status d)" by (auto simp: updated_at_def)
      have "issue_valid (set_status now status d)" using all [OF d(1)] 2(1) by (simp add: issue_valid_def set_status_def)
      with d(2) i all [of k i] show ?thesis by (cases "k = k2") (simp_all add: OpIssueStatus)
    qed
  qed
qed

lemma run_issue_ops_valid:
  assumes E: "ie_Issues E = M" "ie_upsert E = up"
  shows "coll_ok M c \<Longrightarrow> (\<And>k i. coll_docs M c k = Some i \<Longrightarrow> issue_valid i) \<Longrightarrow>
    coll_docs M (run_issue_ops E c ops) k = Some i \<Longrightarrow> issue_valid i"
proof (induction ops arbitrary: k i rule: rev_induct)
  case Nil
  from Nil(2) [of k i] Nil(3) show ?case by (simp add: run_issue_ops_def)
next
  case (snoc oper ops)
  have "coll_docs M (run_issue_op E (run_issue_ops E c ops) oper) k = Some i" using snoc.prems(3) by (simp add: run_issue_ops_def)
  from run_issue_op_valid [OF E run_issue_ops_ok [OF E snoc.prems(1)] snoc.IH [OF snoc.prems(1,2)] this] show ?case .
qed

end

definition issue_index :: "issue list \<Rightarrow> bool" where
  "issue_index is \<longleftrightarrow> distinct (map iss_IssueFingerprint is)"

interpretation mem_issues: issue_store "mem_unique iss_ID issue_index" "mem_upsert iss_ID issue_index"
  by (intro issue_store.intro mem_unique_store issue_store_axioms.intro) (simp_all add: issue_index_def mem_coll_def)

lemmas mem_issue_store = mem_issues.issue_store_axioms

definition mem_issue_env :: "issue list issue_env" where
  "mem_issue_env = \<lparr>ie_Issues = mem_unique iss_ID issue_index, ie_upsert = mem_upsert iss_ID issue_index, ie_sha = id,
     ie_Hex = (\<lambda>i. ''0''), ie_FromHex = (\<lambda>s. if s = ''a7'' then Inr 7 else Inl ''bad'')\<rparr>"

definition fixed_issue :: issue where
  "fixed_issue = zero_issue\<lparr>iss_ID := 7, iss_TenantID := ''t'', iss_IssueFingerprint := ''fp'', iss_Status := IssueStatusFixed\<rparr>"

definition sample_issue_ops :: "issue_op list" where
  "sample_issue_ops =
     [OpResult 5 9 (Inr None) (zero_scan_result\<lparr>sr_Vulnerable := True, sr_Severity := ''High'', sr_TestType := ''BOLA''\<rparr>),
      OpResult 6 8 (Inl ''down'') (zero_scan_result\<lparr>sr_Vulnerable := True, sr_InventoryID := 3\<rparr>)]"

lemma mem_issues_ok: "coll_ok (mem_unique iss_ID issue_index) [fixed_issue]"
  by (simp add: issue_index_def mem_coll_def)

lemma mem_issue_docs: "coll_docs (mem_unique iss_ID issue_index) [fixed_issue] k = (if k = 7 then Some fixed_issue else None)"
  by (simp add: mem_coll_def mem_docs_def fixed_issue_def)

lemma mem_issue_env_store:
  "issue_store (ie_Issues mem_issue_env) (ie_upsert mem_issue_env)" "ie_Issues mem_issue_env = mem_unique iss_ID issue_index"
  using mem_issue_store by (simp_all add: mem_issue_env_def)

subsection \<open>Properties\<close>

text \<open>
  Property C13. Triage is kept: whatever results are stored and whatever requests are made, whatever the
  database answers, a stored issue stays stored with its identity and the time it was first seen, and
  its status changes only to a valid one that a scanning role of its own account, or an unscoped one,
  asked for. In particular no new finding reopens a fixed issue.
\<close>

theorem issue_triage_is_kept:
  assumes "issue_store (ie_Issues E) (ie_upsert E)" "coll_ok (ie_Issues E) c" "coll_docs (ie_Issues E) c k = Some i"
  shows "\<exists>i'. coll_docs (ie_Issues E) (run_issue_ops E c ops) k = Some i' \<and> same_issue i i' \<and>
    (iss_Status i' = iss_Status i \<or> list_ex (asks_status E i (iss_Status i')) ops)"
  by (rule issue_store.run_issue_ops_one [OF assms(1) refl refl assms(2,3)])

theorem issue_triage_is_kept_witness:
  "\<exists>i'. coll_docs (ie_Issues mem_issue_env) (run_issue_ops mem_issue_env [fixed_issue] sample_issue_ops) 7 = Some i' \<and>
    same_issue fixed_issue i' \<and>
    (iss_Status i' = iss_Status fixed_issue \<or> list_ex (asks_status mem_issue_env fixed_issue (iss_Status i')) sample_issue_ops)"
  by (rule issue_triage_is_kept [OF mem_issue_env_store(1)]) (simp_all only: mem_issue_env_store(2) mem_issues_ok mem_issue_docs if_True simp_thms)

text \<open>
  Every stored issue has one of the four statuses, a lower-case severity and at most 2048 bytes
  of evidence, whatever results and requests come and whatever the database answers.
\<close>

theorem issues_stay_valid:
  assumes "issue_store (ie_Issues E) (ie_upsert E)" "coll_ok (ie_Issues E) c"
    and "\<And>k i. coll_docs (ie_Issues E) c k = Some i \<Longrightarrow> issue_valid i"
    and "coll_docs (ie_Issues E) (run_issue_ops E c ops) k = Some i"
  shows "issue_valid i"
  using issue_store.run_issue_ops_valid [OF assms(1) refl refl assms(2)] assms(3,4) by blast

end
