(* ===== verification/Read_Api.thy ===== *)
theory Read_Api
  imports Metrics_Summary Issue_Store Templates Account_Settings
begin

text \<open>
  The reading handlers of \<open>internal/api/server.go\<close>: the inventory, an endpoint, the scan results, jobs
  and issues, the agents and their enrollments, the metrics and the registered tests. Each checks the role,
  limits the query to the account of a scoped caller and answers with what the repository returned.
  \<open>query\<close> is \<open>URL.Query().Get\<close>.
\<close>

datatype 'x read_reply = ReadError nat string | ReadOK 'x

record test_type_response =
  ttr_TestType :: string
  ttr_Category :: string
  ttr_Severity :: string
  ttr_Description :: string
  ttr_RequiresAttackerAuth :: bool

record ('i, 'r, 'j, 's, 'd, 'e, 'g) read_env =
  rv_inventory :: "('i, object_id, api_inventory) coll"
  rv_inventoryP :: "('i, api_inventory) pager"
  rv_resultsP :: "('r, scan_result) pager"
  rv_jobsP :: "('j, scan_job) pager"
  rv_issuesP :: "('s, issue) pager"
  rv_agents :: "('d, 'e, 'g) agent_db"
  rv_metrics :: "('i, 's, 'j, 'g) metrics_env"
  rv_entries :: "dir_entry list"
  rv_Hex :: "object_id \<Rightarrow> string"
  rv_FromHex :: "string \<Rightarrow> string + object_id"

record ('i, 'r, 'j, 's, 'd, 'e, 'g) read_state =
  rs_inventory :: 'i
  rs_results :: 'r
  rs_jobs :: 'j
  rs_issues :: 's
  rs_agents :: "('d, 'e, 'g) agent_state"

subsection \<open>Parameters of a query\<close>

text \<open>
  \<open>strconv.Atoi\<close> with its error dropped: zero for what is not a number, the nearest \<open>int\<close> for a number
  out of range.
\<close>

definition atoi_value :: "string \<Rightarrow> int" where
  "atoi_value s =
     (case atoi s of
        Some v \<Rightarrow> v
      | None \<Rightarrow>
          (let neg = (s \<noteq> [] \<and> hd s = CHR ''-''); ds = (if s \<noteq> [] \<and> (hd s = CHR ''-'' \<or> hd s = CHR ''+'') then tl s else s)
           in if ds = [] \<or> \<not> list_all is_digit ds then 0 else if neg then - (2 ^ 63) else 2 ^ 63 - 1))"

definition page_query :: "(string \<Rightarrow> string) \<Rightarrow> pagination" where
  "page_query query =
     \<lparr>pg_Page = atoi_value (query ''page''), pg_Limit = atoi_value (query ''limit''), pg_Offset = atoi_value (query ''offset''),
      pg_SortBy = query ''sort_by'', pg_SortOrder = query ''sort_order''\<rparr>"

definition optional_id :: "(string \<Rightarrow> string + object_id) \<Rightarrow> string \<Rightarrow> string + object_id option" where
  "optional_id fromHex s = (if s = [] then Inr None else map_sum id Some (fromHex s))"

definition answer :: "db_error + 'x \<Rightarrow> string \<Rightarrow> 'x read_reply" where
  "answer r msg = (case r of Inl err \<Rightarrow> ReadError 500 msg | Inr x \<Rightarrow> ReadOK x)"

definition read_as :: "http_req \<Rightarrow> (principal \<Rightarrow> 'x read_reply) \<Rightarrow> 'x read_reply" where
  "read_as q k = (case requireRoles q readRoles of Inl (code, msg) \<Rightarrow> ReadError code msg | Inr p \<Rightarrow> k p)"

subsection \<open>Lists\<close>

definition handleGetInventory ::
  "('i, 'r, 'j, 's, 'd, 'e, 'g) read_env \<Rightarrow> ('i, 'r, 'j, 's, 'd, 'e, 'g) read_state \<Rightarrow> http_req \<Rightarrow> (string \<Rightarrow> string) \<Rightarrow>
     api_inventory paginated_response read_reply" where
  "handleGetInventory E st q query = read_as q (\<lambda>p.
     case scopedAccountID (rv_FromHex E) p of
       BadAccount err \<Rightarrow> ReadError 401 ''Invalid account''
     | ScopedTo accountID \<Rightarrow>
         answer (GetInventoryForAccount (rv_Hex E) (rv_inventoryP E) (rs_inventory st) (page_query query) accountID) ''Database Error''
     | NotScoped \<Rightarrow> answer (getInventory (rv_inventoryP E) (rs_inventory st) (page_query query) (\<lambda>i. True)) ''Database Error'')"

definition handleGetScanResults ::
  "('i, 'r, 'j, 's, 'd, 'e, 'g) read_env \<Rightarrow> ('i, 'r, 'j, 's, 'd, 'e, 'g) read_state \<Rightarrow> http_req \<Rightarrow> (string \<Rightarrow> string) \<Rightarrow>
     scan_result paginated_response read_reply" where
  "handleGetScanResults E st q query = read_as q (\<lambda>p.
     case optional_id (rv_FromHex E) (query ''inventory_id'') of Inl err \<Rightarrow> ReadError 400 ''Invalid inventory_id'' | Inr inventoryID \<Rightarrow>
     case optional_id (rv_FromHex E) (query ''job_id'') of Inl err \<Rightarrow> ReadError 400 ''Invalid job_id'' | Inr jobID \<Rightarrow>
     case optional_id (rv_FromHex E) (query ''suite_id'') of Inl err \<Rightarrow> ReadError 400 ''Invalid suite_id'' | Inr suiteID \<Rightarrow>
     case scopedAccountID (rv_FromHex E) p of
       BadAccount err \<Rightarrow> ReadError 401 ''Invalid account''
     | ScopedTo accountID \<Rightarrow>
         answer (GetScanResultsForAccount (rv_Hex E) (rv_resultsP E) (rs_results st) (page_query query) inventoryID jobID suiteID accountID)
           ''Database Error''
     | NotScoped \<Rightarrow>
         answer (getScanResults (rv_resultsP E) (rs_results st) (page_query query) inventoryID jobID suiteID []) ''Database Error'')"

definition handleListIssues ::
  "('i, 'r, 'j, 's, 'd, 'e, 'g) read_env \<Rightarrow> ('i, 'r, 'j, 's, 'd, 'e, 'g) read_state \<Rightarrow> http_req \<Rightarrow> (string \<Rightarrow> string) \<Rightarrow>
     issue paginated_response read_reply" where
  "handleListIssues E st q query = read_as q (\<lambda>p.
     case optional_id (rv_FromHex E) (query ''inventory_id'') of Inl err \<Rightarrow> ReadError 400 ''Invalid inventory_id'' | Inr inventoryID \<Rightarrow>
     if is_BadAccount (scopedAccountID (rv_FromHex E) p) then ReadError 401 ''Invalid account''
     else answer (GetIssues (rv_issuesP E) (rs_issues st) (page_query query)
       (if scopedAccountID (rv_FromHex E) p = NotScoped then [] else pr_AccountID p) (query ''status'') (query ''severity'') inventoryID)
       ''Database Error'')"

definition handleListScanJobs ::
  "('i, 'r, 'j, 's, 'd, 'e, 'g) read_env \<Rightarrow> ('i, 'r, 'j, 's, 'd, 'e, 'g) read_state \<Rightarrow> http_req \<Rightarrow> (string \<Rightarrow> string) \<Rightarrow>
     scan_job paginated_response read_reply" where
  "handleListScanJobs E st q query = read_as q (\<lambda>p.
     case optional_id (rv_FromHex E) (query ''inventory_id'') of Inl err \<Rightarrow> ReadError 400 ''Invalid inventory_id'' | Inr inventoryID \<Rightarrow>
     case scopedAccountID (rv_FromHex E) p of
       BadAccount err \<Rightarrow> ReadError 401 ''Invalid account''
     | ScopedTo accountID \<Rightarrow>
         answer (GetScanJobsForAccount (rv_Hex E) (rv_jobsP E) (rs_jobs st) (page_query query) accountID (query ''status'') inventoryID)
           ''Database Error''
     | NotScoped \<Rightarrow> answer (getScanJobs (rv_jobsP E) (rs_jobs st) (page_query query) [] (query ''status'') inventoryID) ''Database Error'')"

subsection \<open>Single documents, agents and metrics\<close>

definition handleGetInventoryByID ::
  "('i, 'r, 'j, 's, 'd, 'e, 'g) read_env \<Rightarrow> ('i, 'r, 'j, 's, 'd, 'e, 'g) read_state \<Rightarrow> http_req \<Rightarrow> string \<Rightarrow> api_inventory read_reply" where
  "handleGetInventoryByID E st q idStr = read_as q (\<lambda>p.
     case rv_FromHex E idStr of Inl err \<Rightarrow> ReadError 400 ''Invalid ID'' | Inr objID \<Rightarrow>
     if is_BadAccount (scopedAccountID (rv_FromHex E) p) then ReadError 401 ''Invalid account''
     else (case coll_find (rv_inventory E) (rs_inventory st)
             (\<lambda>i. inv_ID i = objID \<and> (scopedAccountID (rv_FromHex E) p \<noteq> NotScoped \<longrightarrow> inv_TenantID i = pr_AccountID p)) of
         Inr (Some target) \<Rightarrow> ReadOK target
       | _ \<Rightarrow> ReadError 404 ''Endpoint Not Found''))"

definition read_account ::
  "('i, 'r, 'j, 's, 'd, 'e, 'g) read_env \<Rightarrow> http_req \<Rightarrow> (object_id \<Rightarrow> 'x read_reply) \<Rightarrow> 'x read_reply" where
  "read_account E q k = read_as q (\<lambda>p.
     case requireAccountObjectID (rv_FromHex E) p of Inl (code, msg) \<Rightarrow> ReadError code msg | Inr accountID \<Rightarrow> k accountID)"

definition handleListAgents ::
  "('i, 'r, 'j, 's, 'd, 'e, 'g) read_env \<Rightarrow> ('i, 'r, 'j, 's, 'd, 'e, 'g) read_state \<Rightarrow> http_req \<Rightarrow> agent list read_reply" where
  "handleListAgents E st q =
     read_account E q (\<lambda>accountID. answer (ListAgentsForAccount (rv_agents E) (rs_agents st) accountID) ''Failed to load agents'')"

definition handleListAgentEnrollments ::
  "('i, 'r, 'j, 's, 'd, 'e, 'g) read_env \<Rightarrow> int \<Rightarrow> ('i, 'r, 'j, 's, 'd, 'e, 'g) read_state \<Rightarrow> http_req \<Rightarrow>
     agent_enrollment list read_reply" where
  "handleListAgentEnrollments E now st q =
     read_account E q (\<lambda>accountID. answer (ListEnrollmentsForAccount (rv_agents E) now (rs_agents st) accountID) ''Failed to load enrollments'')"

definition handleMetricsSummary ::
  "('i, 'r, 'j, 's, 'd, 'e, 'g) read_env \<Rightarrow> int \<Rightarrow> ('i, 'r, 'j, 's, 'd, 'e, 'g) read_state \<Rightarrow> http_req \<Rightarrow> metrics_summary read_reply" where
  "handleMetricsSummary E now st q =
     read_account E q (\<lambda>accountID. ReadOK (GetMetricsSummary (rv_metrics E) now
       \<lparr>mst_inventory = rs_inventory st, mst_issues = rs_issues st, mst_jobs = rs_jobs st, mst_agents = gs_agents (rs_agents st)\<rparr> accountID))"

definition handleListTestTypes :: "('i, 'r, 'j, 's, 'd, 'e, 'g) read_env \<Rightarrow> http_req \<Rightarrow> test_type_response list read_reply" where
  "handleListTestTypes E q = read_as q (\<lambda>p.
     ReadOK (map (\<lambda>meta. \<lparr>ttr_TestType = tm_TestType meta, ttr_Category = tm_Category meta, ttr_Severity = tm_Severity meta,
       ttr_Description = tm_Description meta, ttr_RequiresAttackerAuth = tm_RequiresAttackerAuth meta\<rparr>)
       (ListMetadata (Some (DefaultTemplateRegistry (rv_entries E))))))"

subsection \<open>What a caller sees\<close>

text \<open>
  The tenants a caller may see: all for an unscoped principal, else the account of the principal. The lists
  of the inventory, the results and the jobs take the zero account for no account.
\<close>

definition sees_tenant :: "('i, 'r, 'j, 's, 'd, 'e, 'g) read_env \<Rightarrow> principal \<Rightarrow> string \<Rightarrow> bool" where
  "sees_tenant E p t \<longleftrightarrow>
     trim_space (pr_AccountID p) = [] \<or> t = trim_space (pr_AccountID p) \<or> t = pr_AccountID p \<or>
     (\<exists>a. rv_FromHex E (pr_AccountID p) = Inr a \<and> (a = 0 \<or> t = trim_space (rv_Hex E a) \<or> t = rv_Hex E a))"

text \<open>A page of stored documents, each once, all of which may be seen.\<close>

definition page_of :: "('c, 'k, 'd) coll \<Rightarrow> 'c \<Rightarrow> ('d \<Rightarrow> bool) \<Rightarrow> 'd paginated_response \<Rightarrow> bool" where
  "page_of M c f R \<longleftrightarrow>
     length (pr_Data R) \<le> 100 \<and> distinct (map (coll_key M) (pr_Data R)) \<and>
     list_all (\<lambda>d. f d \<and> coll_docs M c (coll_key M d) = Some d) (pr_Data R)"

text \<open>What a reply shows to a caller with a reading role.\<close>

definition reveals :: "http_req \<Rightarrow> (principal \<Rightarrow> 'x \<Rightarrow> bool) \<Rightarrow> 'x read_reply \<Rightarrow> bool" where
  "reveals q ok r \<longleftrightarrow>
     (case r of ReadError code msg \<Rightarrow> True
      | ReadOK x \<Rightarrow> (case requireRoles q readRoles of Inl err \<Rightarrow> False | Inr p \<Rightarrow> ok p x))"

lemma reveals_read_as: "(\<And>p. requireRoles q readRoles = Inr p \<Longrightarrow> reveals q ok (k p)) \<Longrightarrow> reveals q ok (read_as q k)"
  by (simp add: read_as_def reveals_def split: sum.split prod.split)

lemma reveals_error [simp]: "reveals q ok (ReadError code msg)"
  by (simp add: reveals_def)

lemma reveals_answer:
  assumes "requireRoles q readRoles = Inr p" "\<And>x. r = Inr x \<Longrightarrow> ok p x"
  shows "reveals q ok (answer r msg)"
  using assms by (simp add: reveals_def answer_def split: sum.split)

lemma page_of_weaken: "page_of M c f R \<Longrightarrow> (\<And>d. f d \<Longrightarrow> g d) \<Longrightarrow> page_of M c g R"
  by (auto simp: page_of_def list_all_iff)

context paged_store
begin

lemma read_page_of:
  assumes "coll_ok M c" "read_page P c f srt (clamp_page dflt p) = Inr R" "1 \<le> dflt"
  shows "page_of M c f R"
proof -
  have l: "1 \<le> page_limit dflt p" "page_limit dflt p \<le> 100" using page_limit_range [OF assms(3)] by blast+
  from read_page_window [OF assms(1,2)] l obtain full where full: "listing_of (coll_docs M c) (coll_key M) field f srt full"
    "pr_Data R = take (nat (page_limit dflt p)) (drop (nat (page_offset (page_limit dflt p) p)) full)" by auto
  have "set (pr_Data R) \<subseteq> set full" unfolding full(2) by (meson order_trans set_drop_subset set_take_subset)
  moreover have "distinct (map (coll_key M) (pr_Data R))"
    unfolding full(2) take_map [symmetric] drop_map [symmetric] using full(1) by (simp add: listing_of_def)
  moreover have "length (pr_Data R) \<le> 100" using l by (simp add: full(2))
  ultimately show ?thesis using full(1) by (auto simp: page_of_def listing_of_def list_all_iff)
qed

end

lemma scoped_seen:
  "scopedAccountID (rv_FromHex E) p = ScopedTo a \<Longrightarrow> a = 0 \<or> t = rv_Hex E a \<or> t = trim_space (rv_Hex E a) \<Longrightarrow> sees_tenant E p t"
  by (auto simp: scopedAccountID_def sees_tenant_def split: if_splits sum.splits)

lemma unscoped_seen: "scopedAccountID (rv_FromHex E) p = NotScoped \<Longrightarrow> sees_tenant E p t"
  by (auto simp: scopedAccountID_def sees_tenant_def split: if_splits sum.splits)

lemma inventory_shown:
  assumes S: "paged_store M (rv_inventoryP E) field" and ok: "coll_ok M (rs_inventory st)"
  shows "reveals q (\<lambda>p. page_of M (rs_inventory st) (\<lambda>i. sees_tenant E p (inv_TenantID i))) (handleGetInventory E st q query)"
  unfolding handleGetInventory_def
proof (rule reveals_read_as)
  fix p assume p: "requireRoles q readRoles = Inr p"
  show "reveals q (\<lambda>p. page_of M (rs_inventory st) (\<lambda>i. sees_tenant E p (inv_TenantID i)))
    (case scopedAccountID (rv_FromHex E) p of
       BadAccount err \<Rightarrow> ReadError 401 ''Invalid account''
     | ScopedTo accountID \<Rightarrow>
         answer (GetInventoryForAccount (rv_Hex E) (rv_inventoryP E) (rs_inventory st) (page_query query) accountID) ''Database Error''
     | NotScoped \<Rightarrow> answer (getInventory (rv_inventoryP E) (rs_inventory st) (page_query query) (\<lambda>i. True)) ''Database Error'')"
  proof (cases "scopedAccountID (rv_FromHex E) p")
    case NotScoped
    show ?thesis unfolding NotScoped account_scope.case
      by (rule reveals_answer [OF p]) (auto simp: getInventory_def intro!: page_of_weaken [OF paged_store.read_page_of [OF S ok]] unscoped_seen [OF NotScoped])
  next
    case (ScopedTo a)
    show ?thesis unfolding ScopedTo account_scope.case
      by (rule reveals_answer [OF p]) (auto simp: getInventory_def GetInventoryForAccount_def split: if_splits
        intro!: page_of_weaken [OF paged_store.read_page_of [OF S ok]] scoped_seen [OF ScopedTo])
  qed simp
qed

lemma trim_nonblank: "trim_space s \<noteq> [] \<Longrightarrow> s \<noteq> []"
  by auto

lemma results_shown:
  assumes S: "paged_store M (rv_resultsP E) field" and ok: "coll_ok M (rs_results st)" and hex: "\<And>a. trim_space (rv_Hex E a) \<noteq> []"
  shows "reveals q (\<lambda>p. page_of M (rs_results st) (\<lambda>r. sees_tenant E p (sr_TenantID r))) (handleGetScanResults E st q query)"
  unfolding handleGetScanResults_def
proof (rule reveals_read_as)
  fix p assume p: "requireRoles q readRoles = Inr p"
  let ?ok = "\<lambda>p. page_of M (rs_results st) (\<lambda>r. sees_tenant E p (sr_TenantID r))"
  note page = page_of_weaken [OF paged_store.read_page_of [OF S ok]]
  have all: "reveals q ?ok (answer (getScanResults (rv_resultsP E) (rs_results st) (page_query query) i j s []) msg)"
    if "scopedAccountID (rv_FromHex E) p = NotScoped" for i j s msg
    by (rule reveals_answer [OF p]) (auto simp: getScanResults_def intro!: page unscoped_seen [OF that])
  have own: "reveals q ?ok (answer (GetScanResultsForAccount (rv_Hex E) (rv_resultsP E) (rs_results st) (page_query query) i j s a) msg)"
    if "scopedAccountID (rv_FromHex E) p = ScopedTo a" for i j s a msg
    by (rule reveals_answer [OF p]) (auto simp: getScanResults_def GetScanResultsForAccount_def trim_nonblank [OF hex] split: if_splits
      intro!: page scoped_seen [OF that])
  show "reveals q ?ok (case optional_id (rv_FromHex E) (query ''inventory_id'') of Inl err \<Rightarrow> ReadError 400 ''Invalid inventory_id'' | Inr inventoryID \<Rightarrow>
     case optional_id (rv_FromHex E) (query ''job_id'') of Inl err \<Rightarrow> ReadError 400 ''Invalid job_id'' | Inr jobID \<Rightarrow>
     case optional_id (rv_FromHex E) (query ''suite_id'') of Inl err \<Rightarrow> ReadError 400 ''Invalid suite_id'' | Inr suiteID \<Rightarrow>
     case scopedAccountID (rv_FromHex E) p of
       BadAccount err \<Rightarrow> ReadError 401 ''Invalid account''
     | ScopedTo accountID \<Rightarrow>
         answer (GetScanResultsForAccount (rv_Hex E) (rv_resultsP E) (rs_results st) (page_query query) inventoryID jobID suiteID accountID)
           ''Database Error''
     | NotScoped \<Rightarrow>
         answer (getScanResults (rv_resultsP E) (rs_results st) (page_query query) inventoryID jobID suiteID []) ''Database Error'')"
    by (simp add: all own split: sum.split account_scope.split)
qed

lemma jobs_shown:
  assumes S: "paged_store M (rv_jobsP E) field" and ok: "coll_ok M (rs_jobs st)" and hex: "\<And>a. trim_space (rv_Hex E a) \<noteq> []"
  shows "reveals q (\<lambda>p. page_of M (rs_jobs st) (\<lambda>j. sees_tenant E p (job_TenantID j))) (handleListScanJobs E st q query)"
  unfolding handleListScanJobs_def
proof (rule reveals_read_as)
  fix p assume p: "requireRoles q readRoles = Inr p"
  let ?ok = "\<lambda>p. page_of M (rs_jobs st) (\<lambda>j. sees_tenant E p (job_TenantID j))"
  note page = page_of_weaken [OF paged_store.read_page_of [OF S ok]]
  have all: "reveals q ?ok (answer (getScanJobs (rv_jobsP E) (rs_jobs st) (page_query query) [] s i) msg)"
    if "scopedAccountID (rv_FromHex E) p = NotScoped" for i s msg
    by (rule reveals_answer [OF p]) (auto simp: getScanJobs_def intro!: page unscoped_seen [OF that])
  have own: "reveals q ?ok (answer (GetScanJobsForAccount (rv_Hex E) (rv_jobsP E) (rs_jobs st) (page_query query) a s i) msg)"
    if "scopedAccountID (rv_FromHex E) p = ScopedTo a" for i s a msg
    by (rule reveals_answer [OF p]) (auto simp: getScanJobs_def GetScanJobsForAccount_def text_eq_def hex split: if_splits
      intro!: page scoped_seen [OF that])
  show "reveals q ?ok (case optional_id (rv_FromHex E) (query ''inventory_id'') of Inl err \<Rightarrow> ReadError 400 ''Invalid inventory_id'' | Inr inventoryID \<Rightarrow>
     case scopedAccountID (rv_FromHex E) p of
       BadAccount err \<Rightarrow> ReadError 401 ''Invalid account''
     | ScopedTo accountID \<Rightarrow>
         answer (GetScanJobsForAccount (rv_Hex E) (rv_jobsP E) (rs_jobs st) (page_query query) accountID (query ''status'') inventoryID)
           ''Database Error''
     | NotScoped \<Rightarrow> answer (getScanJobs (rv_jobsP E) (rs_jobs st) (page_query query) [] (query ''status'') inventoryID) ''Database Error'')"
    by (simp add: all own split: sum.split account_scope.split)
qed

lemma issues_shown:
  assumes S: "paged_store M (rv_issuesP E) field" and ok: "coll_ok M (rs_issues st)"
  shows "reveals q (\<lambda>p. page_of M (rs_issues st) (\<lambda>i. sees_tenant E p (iss_TenantID i))) (handleListIssues E st q query)"
  unfolding handleListIssues_def
proof (rule reveals_read_as)
  fix p assume p: "requireRoles q readRoles = Inr p"
  let ?ok = "\<lambda>p. page_of M (rs_issues st) (\<lambda>i. sees_tenant E p (iss_TenantID i))"
  let ?t = "if scopedAccountID (rv_FromHex E) p = NotScoped then [] else pr_AccountID p"
  have seen: "sees_tenant E p t" if "text_eq ?t t" for t
    using that unscoped_seen by (auto simp: text_eq_def sees_tenant_def split: if_splits)
  have "reveals q ?ok (answer (GetIssues (rv_issuesP E) (rs_issues st) (page_query query) ?t s v i) msg)" for s v i msg
    by (rule reveals_answer [OF p])
      (auto simp: GetIssues_def simp del: if_split intro!: page_of_weaken [OF paged_store.read_page_of [OF S ok]] seen)
  then show "reveals q ?ok (case optional_id (rv_FromHex E) (query ''inventory_id'') of Inl err \<Rightarrow> ReadError 400 ''Invalid inventory_id'' | Inr inventoryID \<Rightarrow>
     if is_BadAccount (scopedAccountID (rv_FromHex E) p) then ReadError 401 ''Invalid account''
     else answer (GetIssues (rv_issuesP E) (rs_issues st) (page_query query) ?t (query ''status'') (query ''severity'') inventoryID)
       ''Database Error'')"
    by (cases "optional_id (rv_FromHex E) (query ''inventory_id'')"; cases "is_BadAccount (scopedAccountID (rv_FromHex E) p)")
      (simp_all split del: if_split)
qed

lemma endpoint_shown:
  assumes S: "doc_store (rv_inventory E)" and ok: "coll_ok (rv_inventory E) (rs_inventory st)"
  shows "reveals q (\<lambda>p i. sees_tenant E p (inv_TenantID i) \<and> rv_FromHex E idStr = Inr (inv_ID i)) (handleGetInventoryByID E st q idStr)"
  unfolding handleGetInventoryByID_def
proof (rule reveals_read_as)
  fix p assume p: "requireRoles q readRoles = Inr p"
  have seen: "sees_tenant E p (inv_TenantID i) \<and> inv_ID i = id0"
    if "coll_find (rv_inventory E) (rs_inventory st)
      (\<lambda>i. inv_ID i = id0 \<and> (scopedAccountID (rv_FromHex E) p \<noteq> NotScoped \<longrightarrow> inv_TenantID i = pr_AccountID p)) = Inr (Some i)" for i id0
    using doc_store.find_some [OF S ok that] unscoped_seen [of E p]
    by (cases "scopedAccountID (rv_FromHex E) p = NotScoped") (auto simp: sees_tenant_def [of E p "pr_AccountID p"])
  show "reveals q (\<lambda>p i. sees_tenant E p (inv_TenantID i) \<and> rv_FromHex E idStr = Inr (inv_ID i))
    (case rv_FromHex E idStr of Inl err \<Rightarrow> ReadError 400 ''Invalid ID'' | Inr objID \<Rightarrow>
     if is_BadAccount (scopedAccountID (rv_FromHex E) p) then ReadError 401 ''Invalid account''
     else (case coll_find (rv_inventory E) (rs_inventory st)
             (\<lambda>i. inv_ID i = objID \<and> (scopedAccountID (rv_FromHex E) p \<noteq> NotScoped \<longrightarrow> inv_TenantID i = pr_AccountID p)) of
         Inr (Some target) \<Rightarrow> ReadOK target
       | _ \<Rightarrow> ReadError 404 ''Endpoint Not Found''))"
  proof (cases "rv_FromHex E idStr")
    case (Inr objID)
    let ?r = "coll_find (rv_inventory E) (rs_inventory st)
      (\<lambda>i. inv_ID i = objID \<and> (scopedAccountID (rv_FromHex E) p \<noteq> NotScoped \<longrightarrow> inv_TenantID i = pr_AccountID p))"
    consider i where "?r = Inr (Some i)" | "\<And>i. ?r \<noteq> Inr (Some i)" by blast
    then show ?thesis
    proof cases
      case (1 i)
      from seen [OF 1] p show ?thesis unfolding Inr sum.case 1 option.case by (simp add: reveals_def Inr)
    next
      case 2
      then have "(case ?r of Inr (Some target) \<Rightarrow> ReadOK target | _ \<Rightarrow> ReadError 404 ''Endpoint Not Found'') = ReadError 404 ''Endpoint Not Found''"
        by (cases ?r rule: sum.exhaust) (auto split: option.split)
      then show ?thesis unfolding Inr sum.case by simp
    qed
  qed simp
qed

subsection \<open>A database in memory\<close>

definition result_field :: "string \<Rightarrow> scan_result \<Rightarrow> int list" where
  "result_field f r =
     (if f = ''test_type'' then text_value (sr_TestType r) else if f = ''severity'' then text_value (sr_Severity r)
      else if f = ''response_status'' then [sr_ResponseStatus r] else time_value (sr_CreatedAt r))"

definition mem_read_env ::
  "(api_inventory list, scan_result list, scan_job list, issue list, data_source list, agent_enrollment list, agent list) read_env" where
  "mem_read_env =
     \<lparr>rv_inventory = mem_coll inv_ID, rv_inventoryP = mem_pager inventory_field, rv_resultsP = mem_pager result_field,
      rv_jobsP = mem_pager job_field, rv_issuesP = mem_pager issue_field,
      rv_agents = \<lparr>gd_Sources = mem_coll ds_ID, gd_SourcesB = mem_bulk, gd_Enrollments = mem_coll en_ID, gd_EnrollmentsB = mem_bulk,
        gd_Agents = mem_coll agn_ID, gd_AgentsB = mem_bulk\<rparr>,
      rv_metrics = mem_metrics_env, rv_entries = [], rv_Hex = (\<lambda>i. if i = 7 then ''a7'' else ''00''),
      rv_FromHex = (\<lambda>s. if s = ''a7'' then Inr 7 else Inl ''bad'')\<rparr>"

definition mem_read_state ::
  "(api_inventory list, scan_result list, scan_job list, issue list, data_source list, agent_enrollment list, agent list) read_state" where
  "mem_read_state =
     \<lparr>rs_inventory = mst_inventory mem_metrics_state, rs_results = [], rs_jobs = mst_jobs mem_metrics_state,
      rs_issues = mst_issues mem_metrics_state, rs_agents = \<lparr>gs_sources = [], gs_enrollments = [], gs_agents = []\<rparr>\<rparr>"

definition reader_request :: http_req where
  "reader_request = \<lparr>rx_Method = ''GET'', rx_Path = ''/api/issues'', rx_Header = (\<lambda>_. []), rx_RemoteAddr = [], rx_HasBody = False,
     rx_BodyLimit = None, rx_Subject = None,
     rx_Principal = Some \<lparr>pr_Subject = ''user:1'', pr_ActorType = ''user'', pr_UserID = ''1'', pr_AccountID = ''a7'', pr_Role = UserRoleReadOnly\<rparr>\<rparr>"

lemma mem_read_hex: "trim_space (rv_Hex mem_read_env a) \<noteq> []"
  by (simp add: mem_read_env_def trim_space_def trim_left_def trim_right_def is_space_def)

text \<open>
  Without ties the pages are complete: asking for all pages of the inventory, one after the other,
  gives every selected endpoint exactly once and in the order asked for, when no two of them have the
  same value of the sort field and no page fails.
\<close>

theorem inventory_pages_cover:
  assumes "paged_store M Pg field" "coll_ok M c" "pg_Offset p \<le> 0"
    and "inj_on (field (sanitizeSortField (pg_SortBy p))) {i. f i \<and> coll_docs M c (coll_key M i) = Some i}"
    and "getInventory Pg c (p\<lparr>pg_Page := 1\<rparr>) f = Inr R1"
    and "\<And>k. 1 \<le> k \<Longrightarrow> k \<le> pr_TotalPages R1 \<Longrightarrow> getInventory Pg c (p\<lparr>pg_Page := k\<rparr>) f = Inr (R k)"
  shows "listing_of (coll_docs M c) (coll_key M) field f (sanitizeSortField (pg_SortBy p), sanitizeSortOrder (pg_SortOrder p))
    (concat (map (\<lambda>i. pr_Data (R (1 + int i))) [0..<nat (pr_TotalPages R1)]))"
  by (rule paged_store.pages_cover [OF assms(1,2), where dflt = 10])
    (use assms(3-6) in \<open>simp_all add: getInventory_def\<close>)

text \<open>
  Property C11. Lists are scoped: an answer to a query of the inventory, the results, the jobs or the issues goes to a
  reading role only, holds at most a hundred stored documents, none twice, and every one belongs to a
  tenant the caller may see, whatever the parameters are; and so does a single endpoint. A caller may see
  the account of the principal, or everything when it has none (or the zero account).
\<close>

theorem listed_documents_are_scoped:
  assumes "paged_store MI (rv_inventoryP E) fi" "coll_ok MI (rs_inventory st)" "paged_store MR (rv_resultsP E) fr" "coll_ok MR (rs_results st)"
    and "paged_store MJ (rv_jobsP E) fj" "coll_ok MJ (rs_jobs st)" "paged_store MS (rv_issuesP E) fs" "coll_ok MS (rs_issues st)"
    and "doc_store (rv_inventory E)" "coll_ok (rv_inventory E) (rs_inventory st)" "\<And>a. trim_space (rv_Hex E a) \<noteq> []"
  shows "reveals q (\<lambda>p. page_of MI (rs_inventory st) (\<lambda>i. sees_tenant E p (inv_TenantID i))) (handleGetInventory E st q query) \<and>
    reveals q (\<lambda>p. page_of MR (rs_results st) (\<lambda>r. sees_tenant E p (sr_TenantID r))) (handleGetScanResults E st q query) \<and>
    reveals q (\<lambda>p. page_of MJ (rs_jobs st) (\<lambda>j. sees_tenant E p (job_TenantID j))) (handleListScanJobs E st q query) \<and>
    reveals q (\<lambda>p. page_of MS (rs_issues st) (\<lambda>i. sees_tenant E p (iss_TenantID i))) (handleListIssues E st q query) \<and>
    reveals q (\<lambda>p i. sees_tenant E p (inv_TenantID i) \<and> rv_FromHex E idStr = Inr (inv_ID i)) (handleGetInventoryByID E st q idStr)"
  using inventory_shown [OF assms(1,2)] results_shown [OF assms(3,4,11)] jobs_shown [OF assms(5,6,11)] issues_shown [OF assms(7,8)]
    endpoint_shown [OF assms(9,10)] by blast

theorem listed_documents_are_scoped_witness:
  "let E = mem_read_env; st = mem_read_state; q = reader_request; query = (\<lambda>k. if k = ''page'' then ''1'' else [])
   in reveals q (\<lambda>p. page_of (mem_coll inv_ID) (rs_inventory st) (\<lambda>i. sees_tenant E p (inv_TenantID i))) (handleGetInventory E st q query) \<and>
    reveals q (\<lambda>p. page_of (mem_coll sr_ID) (rs_results st) (\<lambda>r. sees_tenant E p (sr_TenantID r))) (handleGetScanResults E st q query) \<and>
    reveals q (\<lambda>p. page_of (mem_coll job_ID) (rs_jobs st) (\<lambda>j. sees_tenant E p (job_TenantID j))) (handleListScanJobs E st q query) \<and>
    reveals q (\<lambda>p. page_of (mem_coll iss_ID) (rs_issues st) (\<lambda>i. sees_tenant E p (iss_TenantID i))) (handleListIssues E st q query) \<and>
    reveals q (\<lambda>p i. sees_tenant E p (inv_TenantID i) \<and> rv_FromHex E ''a7'' = Inr (inv_ID i)) (handleGetInventoryByID E st q ''a7'')"
  unfolding Let_def
proof (rule listed_documents_are_scoped)
  show "paged_store (mem_coll inv_ID) (rv_inventoryP mem_read_env) inventory_field"
    "paged_store (mem_coll sr_ID) (rv_resultsP mem_read_env) result_field"
    "paged_store (mem_coll job_ID) (rv_jobsP mem_read_env) job_field"
    "paged_store (mem_coll iss_ID) (rv_issuesP mem_read_env) issue_field" by (simp_all add: mem_read_env_def mem_paged_store)
  show "doc_store (rv_inventory mem_read_env)" using mem_coll_store by (simp add: mem_read_env_def)
  show "coll_ok (mem_coll sr_ID) (rs_results mem_read_state)" by (simp add: mem_coll_def mem_read_state_def)
  show "trim_space (rv_Hex mem_read_env a) \<noteq> []" for a by (rule mem_read_hex)
qed (use mem_metrics_ok in \<open>simp_all add: mem_read_state_def mem_read_env_def\<close>)

end
