(* ===== verification/Env_Config.thy ===== *)
theory Env_Config
  imports Scan_Secrets Http_Auth
begin

text \<open>
  The configuration of the programs, \<open>internal/config/config.go\<close>, and the part of
  \<open>internal/api/server.go\<close> that reads the environment into the options of the middleware. \<open>env\<close> is
  \<open>os.Getenv\<close>, after \<open>godotenv.Load\<close> where the code calls it. An error is its message.
\<close>

definition is_production :: "(string \<Rightarrow> string) \<Rightarrow> bool" where
  "is_production env \<longleftrightarrow> equal_fold (trim_space (env ''KARAXYS_ENV'')) ''production''"

definition required_vars :: "string \<Rightarrow> string list" where
  "required_vars service =
     (if service = ''api-server'' then [''MONGO_URI'', ''MONGO_DB_NAME'', ''KARAXYS_ALLOWED_ORIGINS'', ''KARAXYS_SECRET_KEY_B64'',
        ''KARAXYS_REDIS_ADDR'', ''KARAXYS_OBJECTSTORE_BUCKET'', ''KARAXYS_QUEUE_BROKERS'']
      else if service = ''ingestor'' then [''MONGO_URI'', ''MONGO_DB_NAME'', ''KARAXYS_QUEUE_BROKERS'']
      else if service = ''scanner-worker'' then [''MONGO_URI'', ''MONGO_DB_NAME'', ''KARAXYS_SECRET_KEY_B64'', ''KARAXYS_REDIS_ADDR'',
        ''KARAXYS_QUEUE_BROKERS'']
      else if service = ''runtime-analyzer'' then [''MONGO_URI'', ''MONGO_DB_NAME'', ''KARAXYS_QUEUE_BROKERS'']
      else if service = ''dead-letter-consumer'' then [''MONGO_URI'', ''MONGO_DB_NAME'', ''KARAXYS_QUEUE_BROKERS'']
      else if service = ''legacy-proxy'' then [''MONGO_URI'', ''MONGO_DB_NAME'', ''KARAXYS_API_KEY'', ''KARAXYS_AGENT_TOKEN'',
        ''KARAXYS_ALLOWED_ORIGINS'', ''KARAXYS_SECRET_KEY_B64'', ''KARAXYS_REDIS_ADDR'', ''KARAXYS_OBJECTSTORE_BUCKET'',
        ''KARAXYS_QUEUE_BROKERS'', ''PROXY_ADDR'', ''PROXY_CERT_FILE'', ''PROXY_KEY_FILE'']
      else [''MONGO_URI'', ''MONGO_DB_NAME''])"

definition scanner_limit_vars :: "string list" where
  "scanner_limit_vars =
     [''KARAXYS_SCANNER_GLOBAL_CONCURRENCY'', ''KARAXYS_SCANNER_TARGET_JOBS_PER_WINDOW'',
      ''KARAXYS_SCANNER_TARGET_RATE_WINDOW_SECONDS'', ''KARAXYS_SCANNER_CAPACITY_RETRY_SECONDS'',
      ''KARAXYS_SCANNER_ADMISSION_LEASE_SECONDS'', ''KARAXYS_NUCLEI_RATE_LIMIT_PER_SECOND'', ''KARAXYS_NUCLEI_TEMPLATE_CONCURRENCY'',
      ''KARAXYS_NUCLEI_HOST_CONCURRENCY'', ''KARAXYS_NUCLEI_PAYLOAD_CONCURRENCY'', ''KARAXYS_NUCLEI_PROBE_CONCURRENCY'']"

definition invalidProductionValue :: "string \<Rightarrow> bool" where
  "invalidProductionValue value0 \<longleftrightarrow>
     (let v = trim_space value0 in v = [] \<or> contains_str (to_lower v) ''replace-with'')"

definition isObjectIDHex :: "string \<Rightarrow> bool" where
  "isObjectIDHex value0 \<longleftrightarrow> (let v = trim_space value0 in length v = 24 \<and> list_all is_hex v)"

definition isValidAPIKeyRole :: "string \<Rightarrow> bool" where
  "isValidAPIKeyRole value0 \<longleftrightarrow> trim_space value0 \<in> {''admin'', ''analyst'', ''scanner'', ''read_only''}"

definition positiveOptionalIntEnv :: "(string \<Rightarrow> string) \<Rightarrow> string \<Rightarrow> bool" where
  "positiveOptionalIntEnv env key =
     (let raw = trim_space (env key) in raw = [] \<or> (case atoi raw of None \<Rightarrow> False | Some v \<Rightarrow> v > 0))"

text \<open>The problems the validation collects, in order.\<close>

definition production_problems :: "(string \<Rightarrow> string) \<Rightarrow> string \<Rightarrow> string list" where
  "production_problems env service =
     filter (\<lambda>key. invalidProductionValue (env key)) (required_vars service) @
     (let key = env ''KARAXYS_API_KEY'' in
      if key \<noteq> [] \<and> length key < 24 then [''KARAXYS_API_KEY must be at least 24 characters''] else []) @
     (if env ''KARAXYS_API_KEY'' \<noteq> [] then
        (if \<not> isObjectIDHex (env ''KARAXYS_API_KEY_ACCOUNT_ID'')
         then [''KARAXYS_API_KEY_ACCOUNT_ID must be a 24-character hex account id when KARAXYS_API_KEY is set in production''] else []) @
        (let role = env ''KARAXYS_API_KEY_ROLE'' in
         if role \<noteq> [] \<and> \<not> isValidAPIKeyRole role then [''KARAXYS_API_KEY_ROLE must be admin, analyst, scanner, or read_only''] else [])
      else []) @
     (let token = env ''KARAXYS_AGENT_TOKEN'' in
      if token \<noteq> [] \<and> length token < 24 then [''KARAXYS_AGENT_TOKEN must be at least 24 characters''] else []) @
     (let origins = env ''KARAXYS_ALLOWED_ORIGINS'' in
      if origins \<noteq> [] \<and> (contains_str origins ''*'' \<or> contains_str origins ''localhost'' \<or> contains_str origins ''127.0.0.1'')
      then [''KARAXYS_ALLOWED_ORIGINS must not use wildcard or localhost values in production''] else []) @
     (let secretKey = env ''KARAXYS_SECRET_KEY_B64'' in
      if secretKey \<noteq> [] \<and> (case std_Decode secretKey of None \<Rightarrow> True | Some decoded \<Rightarrow> length decoded \<noteq> 32)
      then [''KARAXYS_SECRET_KEY_B64 must decode to exactly 32 bytes''] else []) @
     (if service = ''scanner-worker''
      then map (\<lambda>key. key @ '' must be a positive integer when set'') (filter (\<lambda>key. \<not> positiveOptionalIntEnv env key) scanner_limit_vars)
      else [])"

definition ValidateProductionEnvironment :: "(string \<Rightarrow> string) \<Rightarrow> string \<Rightarrow> string option" where
  "ValidateProductionEnvironment env service =
     (if \<not> is_production env then None
      else (let problems = production_problems env service in
        if problems \<noteq> [] then Some (''invalid production environment for '' @ service @ '': '' @ join_with '', '' problems) else None))"

subsection \<open>The database and the proxy\<close>

record database_config =
  dbc_MongoURI :: string
  dbc_MongoDBName :: string
  dbc_TrafficLogMaxEvents :: int
  dbc_TrafficLogTTL :: int

record proxy_config = database_config +
  prc_ProxyAddr :: string
  prc_CertFile :: string
  prc_KeyFile :: string

definition getEnvDefault :: "(string \<Rightarrow> string) \<Rightarrow> string \<Rightarrow> string \<Rightarrow> string" where
  "getEnvDefault env key fallback = (if env key \<noteq> [] then env key else fallback)"

definition getInt64EnvDefault :: "(string \<Rightarrow> string) \<Rightarrow> string \<Rightarrow> int \<Rightarrow> int" where
  "getInt64EnvDefault env key fallback =
     (case parse_int 64 (env key) of None \<Rightarrow> fallback | Some v \<Rightarrow> if v \<le> 0 then fallback else v)"

text \<open>A duration is an \<open>int64\<close> of nanoseconds: a great number of hours wraps around.\<close>

definition LoadDatabaseConfig :: "(string \<Rightarrow> string) \<Rightarrow> database_config" where
  "LoadDatabaseConfig env =
     \<lparr>dbc_MongoURI = getEnvDefault env ''MONGO_URI'' ''mongodb://127.0.0.1:27017/?directConnection=true'',
      dbc_MongoDBName = getEnvDefault env ''MONGO_DB_NAME'' ''karaxys'',
      dbc_TrafficLogMaxEvents = getInt64EnvDefault env ''TRAFFIC_LOG_MAX_EVENTS'' 1000,
      dbc_TrafficLogTTL = wrap64 (getInt64EnvDefault env ''TRAFFIC_LOG_TTL_HOURS'' 24 * (3600 * second))\<rparr>"

text \<open>The error lists the missing variables.\<close>

definition LoadConfig :: "(string \<Rightarrow> string) \<Rightarrow> string list + proxy_config" where
  "LoadConfig env =
     (let missing = filter (\<lambda>key. env key = []) [''PROXY_ADDR'', ''PROXY_CERT_FILE'', ''PROXY_KEY_FILE''] in
      if missing \<noteq> [] then Inl missing
      else Inr (database_config.extend (LoadDatabaseConfig env)
        \<lparr>prc_ProxyAddr = env ''PROXY_ADDR'', prc_CertFile = env ''PROXY_CERT_FILE'', prc_KeyFile = env ''PROXY_KEY_FILE''\<rparr>))"

subsection \<open>The options of the middleware\<close>

definition api_splitCSVEnv :: "(string \<Rightarrow> string) \<Rightarrow> string \<Rightarrow> string list \<Rightarrow> string list" where
  "api_splitCSVEnv env key fallback =
     (let values = filter (\<lambda>s. s \<noteq> []) (map trim_space (split_on (CHR '','') (env key)))
      in if env key = [] \<or> values = [] then fallback else values)"

definition middlewareOptionsFromEnv :: "(string \<Rightarrow> string) \<Rightarrow> ('w \<Rightarrow> string \<Rightarrow> principal option) \<Rightarrow> 'w middleware_options" where
  "middlewareOptionsFromEnv env sessionAuth =
     \<lparr>mo_APIKey = env ''KARAXYS_API_KEY'', mo_APIKeyAccountID = env ''KARAXYS_API_KEY_ACCOUNT_ID'', mo_APIKeyRole = env ''KARAXYS_API_KEY_ROLE'',
      mo_SessionAuth = Some sessionAuth, mo_RateLimiter = None, mo_RateLimitWindow = 0,
      mo_AllowedOrigins = api_splitCSVEnv env ''KARAXYS_ALLOWED_ORIGINS'' [''http://localhost:7000''],
      mo_MaxWriteBodyBytes = getInt64EnvDefault env ''KARAXYS_MAX_WRITE_BYTES'' DefaultMaxWriteBodyBytes\<rparr>"

definition queuePublishingEnabled :: "(string \<Rightarrow> string) \<Rightarrow> bool" where
  "queuePublishingEnabled env =
     (if is_production env then True
      else (let raw = trim_space (env ''KARAXYS_QUEUE_ENABLED'') in
        if raw = [] then False else (case parse_bool raw of None \<Rightarrow> False | Some b \<Rightarrow> b)))"

subsection \<open>Lemmas\<close>

lemma accepted_problems: "ValidateProductionEnvironment env service = None \<Longrightarrow> is_production env \<Longrightarrow> production_problems env service = []"
  by (simp add: ValidateProductionEnvironment_def Let_def split: if_splits)

lemma accepted_required:
  assumes "production_problems env service = []" "key \<in> set (required_vars service)"
  shows "trim_space (env key) \<noteq> []" "env key \<noteq> []" "\<not> contains_str (to_lower (trim_space (env key))) ''replace-with''"
proof -
  have "\<not> invalidProductionValue (env key)"
    using assms by (simp add: production_problems_def filter_empty_conv)
  then show "trim_space (env key) \<noteq> []" "\<not> contains_str (to_lower (trim_space (env key))) ''replace-with''"
    by (simp_all add: invalidProductionValue_def Let_def)
  then show "env key \<noteq> []" by auto
qed

lemma accepted_checks:
  assumes "production_problems env service = []"
  shows "env ''KARAXYS_API_KEY'' = [] \<or> 24 \<le> length (env ''KARAXYS_API_KEY'') \<and> isObjectIDHex (env ''KARAXYS_API_KEY_ACCOUNT_ID'') \<and>
      (env ''KARAXYS_API_KEY_ROLE'' = [] \<or> isValidAPIKeyRole (env ''KARAXYS_API_KEY_ROLE''))"
    and "env ''KARAXYS_ALLOWED_ORIGINS'' = [] \<or> \<not> (contains_str (env ''KARAXYS_ALLOWED_ORIGINS'') ''*'' \<or>
      contains_str (env ''KARAXYS_ALLOWED_ORIGINS'') ''localhost'' \<or> contains_str (env ''KARAXYS_ALLOWED_ORIGINS'') ''127.0.0.1'')"
    and "env ''KARAXYS_SECRET_KEY_B64'' = [] \<or> (\<exists>k. std_Decode (env ''KARAXYS_SECRET_KEY_B64'') = Some k \<and> length k = 32)"
  using assms by (auto simp: production_problems_def Let_def split: option.splits if_splits)

lemma middleware_fields:
  "mw_apiKey (NewMiddleware sha hex8 nl la now burst (middlewareOptionsFromEnv env sa)) = trim_space (env ''KARAXYS_API_KEY'')"
  "mw_apiKeyAccountID (NewMiddleware sha hex8 nl la now burst (middlewareOptionsFromEnv env sa)) = trim_space (env ''KARAXYS_API_KEY_ACCOUNT_ID'')"
  "mw_apiKeyRole (NewMiddleware sha hex8 nl la now burst (middlewareOptionsFromEnv env sa)) = normalizeAPIKeyRole (env ''KARAXYS_API_KEY_ROLE'')"
  "mw_allowedOrigins (NewMiddleware sha hex8 nl la now burst (middlewareOptionsFromEnv env sa)) =
     originSet (api_splitCSVEnv env ''KARAXYS_ALLOWED_ORIGINS'' [''http://localhost:7000''])"
  by (simp_all add: NewMiddleware_def with_defaults_def middlewareOptionsFromEnv_def Let_def api_splitCSVEnv_def)

lemma valid_role_kept:
  "r = [] \<or> isValidAPIKeyRole r \<Longrightarrow> normalizeAPIKeyRole r = (if r = [] then UserRoleAdmin else trim_space r)"
  by (auto simp: normalizeAPIKeyRole_def isValidAPIKeyRole_def role_defs Let_def)

lemma sublist_joined: "x \<in> set xs \<Longrightarrow> sublist x (join_with sep xs)"
proof (induction xs)
  case (Cons y ys)
  show ?case
  proof (cases "x = y")
    case True
    then show ?thesis by (cases ys) (auto simp: sublist_append)
  next
    case False
    with Cons obtain z zs where ys: "ys = z # zs" "sublist x (join_with sep ys)" by (cases ys) auto
    then show ?thesis by (auto simp: sublist_append)
  qed
qed simp

lemma sublist_dropWhile: "sublist (dropWhile f s) s"
  unfolding sublist_def by (metis append.right_neutral append_assoc takeWhile_dropWhile_id)

lemma sublist_trim: "sublist (trim_space s) s"
proof -
  have "sublist (rev (dropWhile is_space (rev t))) t" for t :: string
  proof -
    have "t = rev (dropWhile is_space (rev t)) @ rev (takeWhile is_space (rev t))"
      by (metis rev_append rev_rev_ident takeWhile_dropWhile_id)
    then show ?thesis unfolding sublist_def by (metis append_Nil)
  qed
  from sublist_order.order_trans [OF this sublist_dropWhile] show ?thesis
    by (simp add: trim_space_def trim_left_def trim_right_def)
qed

lemma origins_from_env:
  "v \<in> set (filter (\<lambda>s. s \<noteq> []) (map trim_space (split_on (CHR '','') s))) \<Longrightarrow> sublist v s"
  using sublist_joined [of _ "split_on (CHR '','') s" "'',''"] sublist_trim sublist_order.order_trans by (fastforce simp: join_split_on)

text \<open>The origins that a production server must not allow.\<close>

definition open_origin :: "string \<Rightarrow> bool" where
  "open_origin s \<longleftrightarrow> contains_str s ''*'' \<or> contains_str s ''localhost'' \<or> contains_str s ''127.0.0.1''"

lemma open_origin_mono: "sublist x y \<Longrightarrow> open_origin x \<Longrightarrow> open_origin y"
  unfolding open_origin_def using sublist_order.order_trans by blast

text \<open>
  A list of origins without an origin in it passes the validation, and the server then falls back to
  the development origin the validation means to exclude.
\<close>

definition comma_env :: "string \<Rightarrow> string" where
  "comma_env k =
     (if k = ''KARAXYS_ENV'' then ''production'' else if k = ''KARAXYS_ALLOWED_ORIGINS'' then '',''
      else if k = ''KARAXYS_SECRET_KEY_B64'' then ''AAAAAAAAAAAAAAAAAAAAAAAAAAAAAAAAAAAAAAAAAAA='' else if k \<in> set (required_vars ''api-server'') then ''x'' else [])"

lemma comma_origins_fall_back:
  "ValidateProductionEnvironment comma_env ''api-server'' = None \<and> is_production comma_env \<and>
   mo_AllowedOrigins (middlewareOptionsFromEnv comma_env sa) = [''http://localhost:7000'']"
  by code_simp

subsection \<open>Properties\<close>

lemma accepted_api_key:
  fixes env sha hex8 new_lim lim_allow now burst sessionAuth
  defines "M \<equiv> NewMiddleware sha hex8 new_lim lim_allow now burst (middlewareOptionsFromEnv env sessionAuth)"
  assumes ok: "production_problems env service = []"
  shows "env ''KARAXYS_API_KEY'' = [] \<or>
    24 \<le> length (env ''KARAXYS_API_KEY'') \<and> length (mw_apiKeyAccountID M) = 24 \<and> list_all is_hex (mw_apiKeyAccountID M) \<and>
    mw_apiKeyRole M \<in> {UserRoleAdmin, UserRoleAnalyst, UserRoleScanner, UserRoleReadOnly} \<and>
    mw_apiKeyRole M = (if env ''KARAXYS_API_KEY_ROLE'' = [] then UserRoleAdmin else trim_space (env ''KARAXYS_API_KEY_ROLE''))"
proof (cases "env ''KARAXYS_API_KEY'' = []")
  case False
  with accepted_checks(1) [OF ok] have k: "24 \<le> length (env ''KARAXYS_API_KEY'')" "isObjectIDHex (env ''KARAXYS_API_KEY_ACCOUNT_ID'')"
    "env ''KARAXYS_API_KEY_ROLE'' = [] \<or> isValidAPIKeyRole (env ''KARAXYS_API_KEY_ROLE'')" by blast+
  from k(3) have "(if env ''KARAXYS_API_KEY_ROLE'' = [] then UserRoleAdmin else trim_space (env ''KARAXYS_API_KEY_ROLE''))
      \<in> {UserRoleAdmin, UserRoleAnalyst, UserRoleScanner, UserRoleReadOnly}"
    by (auto simp: isValidAPIKeyRole_def role_defs)
  with k(1,2) valid_role_kept [OF k(3)] show ?thesis by (simp add: M_def middleware_fields isObjectIDHex_def Let_def)
qed simp

lemma accepted_origins:
  fixes env sha hex8 new_lim lim_allow now burst sessionAuth
  defines "M \<equiv> NewMiddleware sha hex8 new_lim lim_allow now burst (middlewareOptionsFromEnv env sessionAuth)"
  assumes ok: "production_problems env service = []" and org: "env ''KARAXYS_ALLOWED_ORIGINS'' \<noteq> []"
  shows "list_all (\<lambda>s. trim_space s = []) (split_on (CHR '','') (env ''KARAXYS_ALLOWED_ORIGINS'')) \<or>
    mw_allowedOrigins M \<inter> Collect open_origin = {}"
proof (cases "list_all (\<lambda>s. trim_space s = []) (split_on (CHR '','') (env ''KARAXYS_ALLOWED_ORIGINS''))")
  case False
  let ?vs = "filter (\<lambda>s. s \<noteq> []) (map trim_space (split_on (CHR '','') (env ''KARAXYS_ALLOWED_ORIGINS'')))"
  from False have "?vs \<noteq> []" by (auto simp: filter_empty_conv list_all_iff)
  with org have "mw_allowedOrigins M = set (filter (\<lambda>s. s \<noteq> []) (map trim_space ?vs))"
    by (simp add: M_def middleware_fields api_splitCSVEnv_def originSet_def Let_def)
  then have "mw_allowedOrigins M \<subseteq> set ?vs" by auto
  moreover have "\<not> open_origin v" if "v \<in> set ?vs" for v
  proof -
    have "\<not> open_origin (env ''KARAXYS_ALLOWED_ORIGINS'')"
      using accepted_checks(2) [OF ok] org by (simp add: open_origin_def)
    with open_origin_mono [OF origins_from_env [OF that]] show ?thesis by blast
  qed
  ultimately show ?thesis by blast
qed simp

text \<open>
  Property C12. A production API server that passed its validation is guarded: the variables of its database,
  queue, object store and Redis are set and no placeholders; the key for stored secrets is there and has 32
  bytes; the API key of the middleware is the configured one without its surrounding blanks, and when
  one is configured (the key is optional) the value, counted with those blanks, has at
  least 24 bytes, is bound to one account with an identifier of 24 hexadecimal digits, and has a known
  role (the one configured, or admin when none is); and no origin with a wildcard or a local host is
  allowed, unless the list of origins is empty in all but commas.
\<close>

theorem production_api_server_is_guarded:
  assumes "ValidateProductionEnvironment env ''api-server'' = None" "is_production env"
  shows "let M = NewMiddleware sha hex8 new_lim lim_allow now burst (middlewareOptionsFromEnv env sessionAuth) in
    list_all (\<lambda>k. trim_space (env k) \<noteq> [] \<and> \<not> contains_str (to_lower (trim_space (env k))) ''replace-with'')
      [''MONGO_URI'', ''MONGO_DB_NAME'', ''KARAXYS_ALLOWED_ORIGINS'', ''KARAXYS_SECRET_KEY_B64'', ''KARAXYS_REDIS_ADDR'',
       ''KARAXYS_OBJECTSTORE_BUCKET'', ''KARAXYS_QUEUE_BROKERS''] \<and>
    (case secrets_FromEnv env of Inl err \<Rightarrow> False | Inr q \<Rightarrow> length (pt_key q) = 32) \<and>
    mw_apiKey M = trim_space (env ''KARAXYS_API_KEY'') \<and>
    (env ''KARAXYS_API_KEY'' = [] \<or>
      24 \<le> length (env ''KARAXYS_API_KEY'') \<and> length (mw_apiKeyAccountID M) = 24 \<and> list_all is_hex (mw_apiKeyAccountID M) \<and>
      mw_apiKeyRole M \<in> {UserRoleAdmin, UserRoleAnalyst, UserRoleScanner, UserRoleReadOnly} \<and>
      mw_apiKeyRole M = (if env ''KARAXYS_API_KEY_ROLE'' = [] then UserRoleAdmin else trim_space (env ''KARAXYS_API_KEY_ROLE''))) \<and>
    (list_all (\<lambda>s. trim_space s = []) (split_on (CHR '','') (env ''KARAXYS_ALLOWED_ORIGINS'')) \<or>
      mw_allowedOrigins M \<inter> Collect open_origin = {})"
proof -
  note ok = accepted_problems [OF assms]
  have key: "env ''KARAXYS_SECRET_KEY_B64'' \<noteq> []" and org: "env ''KARAXYS_ALLOWED_ORIGINS'' \<noteq> []"
    using accepted_required(2) [OF ok] by (simp_all add: required_vars_def)
  from accepted_checks(3) [OF ok] key obtain k where "std_Decode (env ''KARAXYS_SECRET_KEY_B64'') = Some k" "length k = 32" by blast
  with key have 1: "case secrets_FromEnv env of Inl err \<Rightarrow> False | Inr q \<Rightarrow> length (pt_key q) = 32"
    by (simp add: secrets_FromEnv_def NewProtector_def keySizeBytes_def)
  have 0: "list_all (\<lambda>k. trim_space (env k) \<noteq> [] \<and> \<not> contains_str (to_lower (trim_space (env k))) ''replace-with'')
      [''MONGO_URI'', ''MONGO_DB_NAME'', ''KARAXYS_ALLOWED_ORIGINS'', ''KARAXYS_SECRET_KEY_B64'', ''KARAXYS_REDIS_ADDR'',
       ''KARAXYS_OBJECTSTORE_BUCKET'', ''KARAXYS_QUEUE_BROKERS'']"
    using accepted_required(1,3) [OF ok] unfolding required_vars_def by simp
  have 4: "mw_apiKey (NewMiddleware sha hex8 new_lim lim_allow now burst (middlewareOptionsFromEnv env sessionAuth))
      = trim_space (env ''KARAXYS_API_KEY'')"
    by (simp add: middleware_fields)
  show ?thesis
    unfolding Let_def by (intro conjI 0 1 4 accepted_api_key [OF ok] accepted_origins [OF ok org])
qed

definition production_env :: "string \<Rightarrow> string" where
  "production_env k =
     (if k = ''KARAXYS_ALLOWED_ORIGINS'' then ''https://app.example.com''
      else if k = ''KARAXYS_API_KEY'' then ''k3y-0123456789abcdefghij''
      else if k = ''KARAXYS_API_KEY_ACCOUNT_ID'' then ''0123456789abcdef01234567''
      else if k = ''KARAXYS_API_KEY_ROLE'' then ''analyst''
      else comma_env k)"

theorem production_api_server_is_guarded_witness:
  "let M = NewMiddleware id id (0 :: nat) (\<lambda>t l. (l, True)) 0 100 (middlewareOptionsFromEnv production_env (\<lambda>(w :: nat) tok. None)) in
    (case secrets_FromEnv production_env of Inl err \<Rightarrow> False | Inr q \<Rightarrow> length (pt_key q) = 32) \<and>
    mw_apiKey M = trim_space (production_env ''KARAXYS_API_KEY'') \<and> 24 \<le> length (production_env ''KARAXYS_API_KEY'') \<and>
    length (mw_apiKeyAccountID M) = 24 \<and> list_all is_hex (mw_apiKeyAccountID M) \<and>
    mw_apiKeyRole M = trim_space (production_env ''KARAXYS_API_KEY_ROLE'') \<and>
    mw_allowedOrigins M \<inter> Collect open_origin = {}"
proof -
  have ok: "ValidateProductionEnvironment production_env ''api-server'' = None" "is_production production_env"
    by code_simp+
  have set: "production_env ''KARAXYS_API_KEY'' \<noteq> []" "production_env ''KARAXYS_API_KEY_ROLE'' \<noteq> []"
    by (simp_all add: production_env_def)
  have o: "\<not> list_all (\<lambda>s. trim_space s = []) (split_on (CHR '','') (production_env ''KARAXYS_ALLOWED_ORIGINS''))"
    by code_simp
  from production_api_server_is_guarded [OF ok, of id id "0 :: nat" "\<lambda>t l. (l, True)" 0 100 "\<lambda>(w :: nat) tok. None"] set o
  show ?thesis unfolding Let_def by simp
qed

end
