(* ===== verification/Scan_Findings.thy ===== *)
theory Scan_Findings
  imports Complex_Main Templates Go_Utf8 Contracts
begin

text \<open>
  The scanner of the worker, \<open>cmd/scanner-worker/internal/nucleiscanner\<close>: the options of the
  engine, the run of one template, and what becomes of the events the engine reports. The nuclei engine,
  the temporary directory and the environment are arguments: \<open>nx_execute\<close> gives the events in the order
  of the callbacks and the error of the run. Similarities are rational numbers where the code has the
  nearest \<open>float64\<close>.
\<close>

subsection \<open>Severity\<close>

definition envTruthy :: "string \<Rightarrow> bool" where
  "envTruthy raw \<longleftrightarrow> to_lower (trim_space raw) \<in> {''1'', ''true'', ''yes'', ''y'', ''on''}"

record dynamic_rule =
  dr_sensitiveMarkers :: "string list"
  dr_downgradeTo :: string

definition severityRuleFor :: "registry option \<Rightarrow> string \<Rightarrow> dynamic_rule option" where
  "severityRuleFor registry testType =
     (case registry of None \<Rightarrow> None
      | Some r \<Rightarrow>
          (case GetMetadata (Some r) testType of Inl err \<Rightarrow> None
           | Inr meta \<Rightarrow> map_option (\<lambda>d. \<lparr>dr_sensitiveMarkers = svr_SensitiveMarkers d, dr_downgradeTo = trim_space (svr_DowngradeTo d)\<rparr>)
               (tm_DynamicSeverity meta)))"

text \<open>The similarity is not looked at.\<close>

definition apply_severity :: "dynamic_rule option \<Rightarrow> string \<Rightarrow> string \<Rightarrow> rat \<Rightarrow> bool \<Rightarrow> string" where
  "apply_severity rule base responseBody similarity oob =
     (if oob then base
      else (case rule of
          None \<Rightarrow> base
        | Some r \<Rightarrow>
            if dr_downgradeTo r = [] \<or> dr_sensitiveMarkers r = [] then base
            else if list_ex (\<lambda>m. let marker = to_lower (trim_space m) in marker \<noteq> [] \<and> contains_str (to_lower responseBody) marker)
              (dr_sensitiveMarkers r) then base
            else dr_downgradeTo r))"

subsection \<open>Similarity\<close>

definition similarityInputCap :: nat where
  "similarityInputCap = 64 * 1024"

definition normalizeForSimilarity :: "string \<Rightarrow> string" where
  "normalizeForSimilarity s =
     (let t = trim_space s; c = (if length t > similarityInputCap then take similarityInputCap t else t) in to_lower c)"

text \<open>
  The conversion to runes, each as the bytes it is encoded with; an invalid byte becomes the
  replacement character.
\<close>

function runes :: "string \<Rightarrow> string list" where
  "runes s =
     (if s = [] then []
      else if rune_len s = 0 then [map char_of [239, 191, 189 :: nat]] @ runes (tl s)
      else take (rune_len s) s # runes (drop (rune_len s) s))"
  by auto
termination by (relation "measure length") auto

declare runes.simps [simp del]

fun windows3 :: "string list \<Rightarrow> string list" where
  "windows3 (a # b # c # rs) = (a @ b @ c) # windows3 (b # c # rs)"
| "windows3 _ = []"

text \<open>The set of trigrams, as a list without repetitions.\<close>

definition trigrams :: "string \<Rightarrow> string list" where
  "trigrams s = (if length (runes s) < 3 then [s] else remdups (windows3 (runes s)))"

definition jaccard :: "string list \<Rightarrow> string list \<Rightarrow> rat" where
  "jaccard a b =
     (if a = [] \<or> b = [] then 0
      else let intersection = length (filter (\<lambda>g. g \<in> set b) a); un = length a + length b - intersection
        in if un = 0 then 0 else of_nat intersection / of_nat un)"

definition bodySimilarity :: "string \<Rightarrow> string \<Rightarrow> rat" where
  "bodySimilarity baseline0 candidate0 =
     (let baseline = normalizeForSimilarity baseline0; candidate = normalizeForSimilarity candidate0
      in if baseline = [] \<or> candidate = [] then 0
         else if baseline = candidate then 1
         else jaccard (trigrams baseline) (trigrams candidate))"

subsection \<open>Events\<close>

text \<open>A status code in the metadata: an \<open>int\<close>, a \<open>float64\<close> (its integral part), or something else.\<close>

datatype meta_value = MetaInt int | MetaFloat int | MetaOther

record result_event =
  ev_MatcherName :: string
  ev_MatcherStatus :: bool
  ev_Interaction :: bool
  ev_Severity :: string
  ev_Matched :: string
  ev_Response :: string
  ev_status_code :: "meta_value option"

definition negativeMatcherNames :: "string list" where
  "negativeMatcherNames = [''secure'', ''error'']"

definition re_space :: "char \<Rightarrow> bool" where
  "re_space c \<longleftrightarrow> byte c \<in> {9, 10, 12, 13, 32}"

text \<open>The leftmost match of \<open>HTTP/\d\.\d\s+(\d{3})\<close>, and its group.\<close>

definition http_status_at :: "string \<Rightarrow> string option" where
  "http_status_at s =
     (if has_prefix s ''HTTP/'' \<and> 8 \<le> length s \<and> is_digit (s ! 5) \<and> s ! 6 = CHR ''.'' \<and> is_digit (s ! 7)
      then (let rest = drop 8 s; ds = take 3 (dropWhile re_space rest)
        in if rest \<noteq> [] \<and> re_space (hd rest) \<and> length ds = 3 \<and> list_all is_digit ds then Some ds else None)
      else None)"

fun http_status :: "string \<Rightarrow> string option" where
  "http_status [] = None"
| "http_status (c # s) = (case http_status_at (c # s) of Some ds \<Rightarrow> Some ds | None \<Rightarrow> http_status s)"

definition statusCode :: "result_event \<Rightarrow> int" where
  "statusCode event =
     (case ev_status_code event of
        Some (MetaInt v) \<Rightarrow> v
      | Some (MetaFloat v) \<Rightarrow> v
      | _ \<Rightarrow> (case http_status (take 100 (ev_Response event)) of
          None \<Rightarrow> 0
        | Some ds \<Rightarrow> (case atoi ds of None \<Rightarrow> 0 | Some v \<Rightarrow> v)))"

definition event_matched :: "result_event \<Rightarrow> bool" where
  "event_matched event \<longleftrightarrow>
     (ev_MatcherStatus event \<or> ev_Interaction event) \<and> to_lower (trim_space (ev_MatcherName event)) \<notin> set negativeMatcherNames"

definition buildResult :: "scan_config \<Rightarrow> result_event \<Rightarrow> dynamic_rule option \<Rightarrow> int \<Rightarrow> scan_execution_result option" where
  "buildResult config event rule now =
     (if \<not> event_matched event then None
      else (let oob = ev_Interaction event;
                similarity = bodySimilarity (cfg_OriginalResponseBody config) (ev_Response event);
                severity = apply_severity rule (ev_Severity event) (ev_Response event) similarity oob;
                actualMethod = (if cfg_AttackMethod config \<noteq> [] then cfg_AttackMethod config else cfg_Method config);
                description = (if oob then ''Out-of-band interaction confirmed: '' @ ev_Matched event
                  else ''Scan Result: '' @ ev_Matched event @ '' (Matcher: '' @ ev_MatcherName event @ '')'')
            in Some \<lparr>ser_SchemaVersion = SchemaScanResultV1, ser_TestType = cfg_TestType config, ser_Vulnerable = True,
                 ser_Severity = severity, ser_Description = description, ser_ResponseStatus = statusCode event,
                 ser_ResponseBody = ev_Response event, ser_ResponseHeader = [],
                 ser_Proof = ''curl -v -X '' @ actualMethod @ '' '' @ cfg_TargetURL config @ cfg_Path config @ '' -H '' @ [CHR 0x27] @
                   ''Authorization: '' @ cfg_ManualAuth config @ [CHR 0x27],
                 ser_Timestamp = Some now, ser_SimilarityScore = similarity, ser_OutOfBand = oob\<rparr>))"

subsection \<open>A run\<close>

record concurrency =
  cc_Template :: int
  cc_Host :: int
  cc_HeadlessHost :: int
  cc_HeadlessTemplate :: int
  cc_JavascriptTemplate :: int
  cc_TemplatePayload :: int
  cc_Probe :: int

datatype engine_option =
    DisableUpdateCheck
  | EnableMatcherStatus
  | WithInteractshOptions string string
  | WithGlobalRateLimit int
  | WithConcurrency concurrency

definition interactshOptions :: "(string \<Rightarrow> string) \<Rightarrow> engine_option option" where
  "interactshOptions env =
     (let server = trim_space (env ''KARAXYS_SCAN_INTERACTSH_SERVER'') in
      if server \<noteq> [] then Some (WithInteractshOptions server (trim_space (env ''KARAXYS_SCAN_INTERACTSH_TOKEN'')))
      else if envTruthy (env ''KARAXYS_SCAN_OOB_ENABLED'') then Some (WithInteractshOptions [] [])
      else None)"

definition hasConcurrencyLimits :: "scan_config \<Rightarrow> bool" where
  "hasConcurrencyLimits c \<longleftrightarrow>
     cfg_TemplateConcurrency c > 0 \<or> cfg_HostConcurrency c > 0 \<or> cfg_PayloadConcurrency c > 0 \<or> cfg_ProbeConcurrency c > 0"

definition positiveOrDefault :: "int \<Rightarrow> int \<Rightarrow> int" where
  "positiveOrDefault value0 fallback = (if value0 > 0 then value0 else fallback)"

definition engine_options :: "(string \<Rightarrow> string) \<Rightarrow> scan_config \<Rightarrow> engine_option list" where
  "engine_options env c =
     [DisableUpdateCheck, EnableMatcherStatus] @
     (case interactshOptions env of None \<Rightarrow> [] | Some oo \<Rightarrow> [oo]) @
     (if cfg_RateLimitPerSecond c > 0 then [WithGlobalRateLimit (cfg_RateLimitPerSecond c)] else []) @
     (if hasConcurrencyLimits c then
        (let t = positiveOrDefault (cfg_TemplateConcurrency c) 1; h = positiveOrDefault (cfg_HostConcurrency c) 1
         in [WithConcurrency \<lparr>cc_Template = t, cc_Host = h, cc_HeadlessHost = h, cc_HeadlessTemplate = t, cc_JavascriptTemplate = t,
            cc_TemplatePayload = positiveOrDefault (cfg_PayloadConcurrency c) 1, cc_Probe = positiveOrDefault (cfg_ProbeConcurrency c) 1\<rparr>])
      else [])"

text \<open>\<open>nx_write\<close> gives the path of a new temporary file, or an error after which no file is left.\<close>

record scan_engine =
  nx_readFile :: "string \<Rightarrow> string + string"
  nx_registry :: registry
  nx_env :: "string \<Rightarrow> string"
  nx_write :: "string list \<Rightarrow> string \<Rightarrow> string + string"
  nx_new :: "engine_option list \<Rightarrow> string option"
  nx_execute :: "string \<Rightarrow> string \<Rightarrow> template_vars \<Rightarrow> result_event list \<times> string option"
  nx_now :: int

definition scan_results :: "scan_engine \<Rightarrow> scan_config \<Rightarrow> result_event list \<Rightarrow> scan_execution_result list" where
  "scan_results E config events =
     List.map_filter (\<lambda>event. buildResult config event (severityRuleFor (Some (nx_registry E)) (cfg_TestType config)) (nx_now E)) events"

text \<open>The first component is the set of temporary files; the deferred removal runs on every return after the write.\<close>

definition ExecuteScanContext ::
  "scan_engine \<Rightarrow> scan_config \<Rightarrow> string list \<Rightarrow> string list \<times> (string + scan_execution_result list)" where
  "ExecuteScanContext E config files =
     (case registry_GetTemplate (nx_readFile E) (Some (nx_registry E)) (cfg_TestType config) of
        Inl err \<Rightarrow> (files, Inl ''failed to get template'')
      | Inr yamlContent \<Rightarrow>
     (case nx_write E files yamlContent of
        Inl err \<Rightarrow> (files, Inl err)
      | Inr tmpPath \<Rightarrow>
          (removeAll tmpPath (tmpPath # files),
           (case nx_new E (engine_options (nx_env E) config) of
              Some err \<Rightarrow> Inl (''failed to init nuclei engine: '' @ err)
            | None \<Rightarrow>
                (case nx_execute E (ExecutionTarget (cfg_TargetURL config)) tmpPath (BuildTemplateVars config) of
                   (events, Some err) \<Rightarrow> Inl (''nuclei execution failed: '' @ err)
                 | (events, None) \<Rightarrow> Inr (scan_results E config events))))))"

subsection \<open>What is proved\<close>

text \<open>The Jaccard index of two sets.\<close>

definition jaccard_sets :: "'a set \<Rightarrow> 'a set \<Rightarrow> rat" where
  "jaccard_sets A B = (if A = {} \<or> B = {} then 0 else of_nat (card (A \<inter> B)) / of_nat (card (A \<union> B)))"

lemma distinct_trigrams [simp]: "distinct (trigrams s)"
  by (simp add: trigrams_def)

lemma jaccard_is_index:
  assumes da: "distinct a" and db: "distinct b"
  shows "jaccard a b = jaccard_sets (set a) (set b)"
proof (cases "a = [] \<or> b = []")
  case False
  have i: "length (filter (\<lambda>g. g \<in> set b) a) = card (set a \<inter> set b)"
    using distinct_card [of "filter (\<lambda>g. g \<in> set b) a"] da by (simp add: Int_def conj_commute)
  have u: "card (set a \<union> set b) = length a + length b - card (set a \<inter> set b)"
    using card_Un_Int [of "set a" "set b"] distinct_card [OF da] distinct_card [OF db] by simp
  from False have "card (set a \<union> set b) \<noteq> 0" by simp
  with False i u show ?thesis by (simp add: jaccard_def jaccard_sets_def Let_def)
qed (auto simp: jaccard_def jaccard_sets_def)

lemma jaccard_sets_commute: "jaccard_sets A B = jaccard_sets B A"
  by (simp add: jaccard_sets_def Int_commute Un_commute disj_commute)

lemma jaccard_sets_bounds:
  assumes "finite A" and "finite B"
  shows "0 \<le> jaccard_sets A B" and "jaccard_sets A B \<le> 1"
proof -
  have "card (A \<inter> B) \<le> card (A \<union> B)" using assms by (intro card_mono) auto
  then have "(of_nat (card (A \<inter> B)) :: rat) \<le> of_nat (card (A \<union> B))" by (rule of_nat_mono)
  then show "jaccard_sets A B \<le> 1" by (auto simp: jaccard_sets_def intro: divide_le_eq_1 [THEN iffD2])
qed (simp add: jaccard_sets_def)

lemma jaccard_sets_one:
  assumes "finite A" and "finite B" and "A \<noteq> {}" and "B \<noteq> {}"
  shows "jaccard_sets A B = 1 \<longleftrightarrow> A = B"
proof
  assume one: "jaccard_sets A B = 1"
  have "card (A \<inter> B) = card (A \<union> B)"
    using one assms by (auto simp: jaccard_sets_def split: if_splits)
  then have "A \<inter> B = A \<union> B"
    using assms by (intro card_subset_eq) auto
  then show "A = B" by blast
qed (use assms in \<open>simp add: jaccard_sets_def\<close>)

lemma bodySimilarity_index:
  "bodySimilarity a b =
     (if normalizeForSimilarity a = [] \<or> normalizeForSimilarity b = [] then 0
      else if normalizeForSimilarity a = normalizeForSimilarity b then 1
      else jaccard_sets (set (trigrams (normalizeForSimilarity a))) (set (trigrams (normalizeForSimilarity b))))"
  by (simp add: bodySimilarity_def Let_def jaccard_is_index)

text \<open>
  The similarity of two bodies lies between 0 and 1, does not depend on their order, is 1 for bodies
  that agree after normalisation and 0 without a baseline.
\<close>

lemma bodySimilarity_laws:
  "0 \<le> bodySimilarity a b \<and> bodySimilarity a b \<le> 1 \<and> bodySimilarity a b = bodySimilarity b a \<and>
   bodySimilarity a a = (if normalizeForSimilarity a = [] then 0 else 1) \<and> bodySimilarity [] b = 0"
  using jaccard_sets_bounds [of "set (trigrams (normalizeForSimilarity a))" "set (trigrams (normalizeForSimilarity b))"]
    jaccard_sets_commute [of "set (trigrams (normalizeForSimilarity a))" "set (trigrams (normalizeForSimilarity b))"]
  by (simp add: bodySimilarity_index normalizeForSimilarity_def)

text \<open>
  Property C24. The similarity the code computes is the Jaccard index of the trigram sets of the two normalised bodies,
  except for equal bodies, which have similarity 1, and empty ones, which have 0. It is symmetric, lies
  between 0 and 1, and two bodies of different text reach 1 only with the same trigrams.
\<close>

theorem bodySimilarity_is_jaccard:
  "let x = normalizeForSimilarity a; y = normalizeForSimilarity b; X = set (trigrams x); Y = set (trigrams y) in
     bodySimilarity a b =
       (if x = [] \<or> y = [] then 0 else if x = y then 1 else of_nat (card (X \<inter> Y)) / of_nat (card (X \<union> Y))) \<and>
     bodySimilarity a b = bodySimilarity b a \<and> 0 \<le> bodySimilarity a b \<and> bodySimilarity a b \<le> 1 \<and>
     (bodySimilarity a b = 1) = (x \<noteq> [] \<and> y \<noteq> [] \<and> X = Y)"
proof -
  have nonempty: "set (trigrams s) \<noteq> {}" for s :: string
  proof (cases "length (runes s) < 3")
    case False
    then obtain u v w rs where "runes s = u # v # w # rs"
      by (cases "runes s" rule: windows3.cases) auto
    then show ?thesis by (auto simp: trigrams_def)
  qed (simp add: trigrams_def)
  show ?thesis
    using bodySimilarity_laws [of a b] nonempty [of "normalizeForSimilarity a"] nonempty [of "normalizeForSimilarity b"]
      jaccard_sets_one [of "set (trigrams (normalizeForSimilarity a))" "set (trigrams (normalizeForSimilarity b))"]
    by (simp add: Let_def bodySimilarity_index jaccard_sets_def Int_commute Un_commute)
qed

lemma apply_severity_choice:
  "apply_severity rule base body s oob = base \<or>
   (\<not> oob \<and> (\<exists>r. rule = Some r \<and> apply_severity rule base body s oob = dr_downgradeTo r))"
  by (simp add: apply_severity_def split: option.split)

lemma apply_ignores_similarity: "apply_severity rule base body s oob = apply_severity rule base body s' oob"
  by (simp add: apply_severity_def)

lemma buildResult_matched: "(buildResult c ev rule now \<noteq> None) = event_matched ev"
  by (simp add: buildResult_def Let_def)

lemma buildResult_facts:
  assumes "buildResult c ev rule now = Some res"
  shows "ser_Vulnerable res" and "ser_TestType res = cfg_TestType c" and "ser_ResponseBody res = ev_Response ev"
    and "ser_OutOfBand res = ev_Interaction ev" and "0 \<le> ser_SimilarityScore res" and "ser_SimilarityScore res \<le> 1"
    and "ser_Severity res = apply_severity rule (ev_Severity ev) (ev_Response ev) 0 (ev_Interaction ev)"
  using assms bodySimilarity_laws [of "cfg_OriginalResponseBody c" "ev_Response ev"]
    apply_ignores_similarity [of rule "ev_Severity ev" "ev_Response ev" _ "ev_Interaction ev" 0]
  by (auto simp: buildResult_def Let_def split: if_splits)

text \<open>What a kept result says about its event.\<close>

definition result_of_event :: "scan_config \<Rightarrow> dynamic_rule option \<Rightarrow> result_event \<Rightarrow> scan_execution_result \<Rightarrow> bool" where
  "result_of_event c rule ev res \<longleftrightarrow>
     ser_Vulnerable res \<and> ser_TestType res = cfg_TestType c \<and> ser_ResponseBody res = ev_Response ev \<and>
     ser_OutOfBand res = ev_Interaction ev \<and> 0 \<le> ser_SimilarityScore res \<and> ser_SimilarityScore res \<le> 1 \<and>
     (if ev_Interaction ev then ser_Severity res = ev_Severity ev
      else ser_Severity res = ev_Severity ev \<or> (\<exists>r. rule = Some r \<and> ser_Severity res = dr_downgradeTo r))"

lemma buildResult_result:
  "buildResult c ev rule now = Some res \<Longrightarrow> result_of_event c rule ev res"
  using buildResult_facts [of c ev rule now res]
    apply_severity_choice [of rule "ev_Severity ev" "ev_Response ev" 0 "ev_Interaction ev"]
  by (auto simp: result_of_event_def)

lemma scan_results_Nil [simp]: "scan_results E c [] = []"
  by (simp add: scan_results_def map_filter_simps)

lemma scan_results_Cons:
  "scan_results E c (ev # evs) =
     (case buildResult c ev (severityRuleFor (Some (nx_registry E)) (cfg_TestType c)) (nx_now E) of
        None \<Rightarrow> scan_results E c evs | Some r \<Rightarrow> r # scan_results E c evs)"
  by (simp add: scan_results_def map_filter_simps split: option.split)

lemma scan_results_events:
  "list_all2 (result_of_event c (severityRuleFor (Some (nx_registry E)) (cfg_TestType c)))
     (filter event_matched evs) (scan_results E c evs)"
proof (induction evs)
  case (Cons ev evs)
  then show ?case
    using buildResult_matched [of c ev "severityRuleFor (Some (nx_registry E)) (cfg_TestType c)" "nx_now E"]
      buildResult_result [of c ev "severityRuleFor (Some (nx_registry E)) (cfg_TestType c)" "nx_now E"]
    by (cases "buildResult c ev (severityRuleFor (Some (nx_registry E)) (cfg_TestType c)) (nx_now E)")
      (simp_all add: scan_results_Cons)
qed (simp add: scan_results_def map_filter_simps)

text \<open>
  Property C31. A scan that returns leaves the temporary files as they were, whatever the engine answers; when the
  engine ran without an error, the results stand for exactly the matched events that no sentinel matcher
  reported, in the order of the callbacks, and an out-of-band event keeps its severity.
\<close>

theorem scan_run_reports_matches:
  assumes fresh: "\<And>fs y p. nx_write E fs y = Inr p \<Longrightarrow> p \<notin> set fs"
  shows "case ExecuteScanContext E c files of (files', r) \<Rightarrow>
    files' = files \<and>
    (case r of Inl err \<Rightarrow> True
     | Inr results \<Rightarrow> \<exists>tmp events. nx_execute E (ExecutionTarget (cfg_TargetURL c)) tmp (BuildTemplateVars c) = (events, None) \<and>
         list_all2 (result_of_event c (severityRuleFor (Some (nx_registry E)) (cfg_TestType c)))
           (filter event_matched events) results)"
proof (cases "ExecuteScanContext E c files")
  case (Pair files' r)
  then have "files' = files"
    using fresh by (auto simp: ExecuteScanContext_def split: sum.splits)
  moreover have "\<exists>tmp events. nx_execute E (ExecutionTarget (cfg_TargetURL c)) tmp (BuildTemplateVars c) = (events, None) \<and>
      results = scan_results E c events" if "r = Inr results" for results
    using Pair that by (auto simp: ExecuteScanContext_def split: sum.splits option.splits prod.splits)
  ultimately show ?thesis
    using Pair scan_results_events by (auto split: sum.splits) blast
qed

lemma length_le_concat: "x \<in> set fs \<Longrightarrow> length x \<le> length (concat fs)"
  by (induction fs) auto

lemma longer_than_elements: "concat fs @ ''t'' \<notin> set fs"
  using length_le_concat [of "concat fs @ ''t''" fs] by auto

definition wit_events :: "string \<Rightarrow> result_event list" where
  "wit_events t =
     [\<lparr>ev_MatcherName = ''secure'', ev_MatcherStatus = True, ev_Interaction = False, ev_Severity = ''info'',
        ev_Matched = t, ev_Response = [], ev_status_code = None\<rparr>,
      \<lparr>ev_MatcherName = [], ev_MatcherStatus = False, ev_Interaction = True, ev_Severity = ''high'',
        ev_Matched = t, ev_Response = ''HTTP/1.1 200 OK'', ev_status_code = None\<rparr>]"

definition wit_engine :: scan_engine where
  "wit_engine =
     \<lparr>nx_readFile = (\<lambda>f. Inr ''id: bola''),
      nx_registry = [(tm_TestType (hd defaultTemplates), hd defaultTemplates)], nx_env = (\<lambda>k. []), nx_write = (\<lambda>fs y. Inr (concat fs @ ''t'')), nx_new = (\<lambda>os. None),
      nx_execute = (\<lambda>t p v. (wit_events t, None)),
      nx_now = 7\<rparr>"

definition wit_scan :: scan_config where
  "wit_scan = zero_scan_config\<lparr>cfg_TestType := ''BOLA'', cfg_TargetURL := ''http://t''\<rparr>"

theorem scan_run_reports_matches_witness:
  "(case ExecuteScanContext wit_engine wit_scan [''a''] of (files', r) \<Rightarrow> files' = [''a''] \<and>
     (case r of Inl err \<Rightarrow> False
      | Inr results \<Rightarrow> map (\<lambda>res. (ser_Severity res, ser_ResponseStatus res, ser_OutOfBand res)) results = [(''high'', 200, True)]))"
proof -
  have tr: "trim_space ''BOLA'' = ''BOLA''" by code_simp
  have template: "registry_GetTemplate (nx_readFile wit_engine) (Some (nx_registry wit_engine)) (cfg_TestType wit_scan) = Inr ''id: bola''"
    by (simp add: registry_GetTemplate_def GetMetadata_def wit_engine_def wit_scan_def defaultTemplates_def tr)
  have run: "snd (ExecuteScanContext wit_engine wit_scan [''a'']) =
      Inr (scan_results wit_engine wit_scan (wit_events (ExecutionTarget (cfg_TargetURL wit_scan))))"
    by (simp add: ExecuteScanContext_def template) (simp add: wit_engine_def)
  have first: "\<not> event_matched \<lparr>ev_MatcherName = ''secure'', ev_MatcherStatus = True, ev_Interaction = False, ev_Severity = ''info'',
      ev_Matched = t, ev_Response = [], ev_status_code = None\<rparr>" for t
    by code_simp
  have second: "event_matched \<lparr>ev_MatcherName = [], ev_MatcherStatus = False, ev_Interaction = True, ev_Severity = ''high'',
      ev_Matched = t, ev_Response = ''HTTP/1.1 200 OK'', ev_status_code = None\<rparr>" for t
    by code_simp
  have status: "statusCode \<lparr>ev_MatcherName = [], ev_MatcherStatus = False, ev_Interaction = True, ev_Severity = ''high'',
      ev_Matched = t, ev_Response = ''HTTP/1.1 200 OK'', ev_status_code = None\<rparr> = 200" for t
    by code_simp
  have res: "map (\<lambda>res. (ser_Severity res, ser_ResponseStatus res, ser_OutOfBand res))
      (scan_results wit_engine wit_scan (wit_events (ExecutionTarget (cfg_TargetURL wit_scan)))) = [(''high'', 200, True)]"
    using first second by (simp add: wit_events_def scan_results_Cons buildResult_def Let_def apply_severity_def status)
  have fresh: "p \<notin> set fs" if "nx_write wit_engine fs y = Inr p" for fs y p
    using that longer_than_elements by (auto simp: wit_engine_def)
  show ?thesis
    using scan_run_reports_matches [where E = wit_engine and c = wit_scan and files = "[''a'']", OF fresh] run res
    by (auto split: prod.splits sum.splits)
qed

end
