(* ===== verification/Database.thy ===== *)
theory Database
  imports Traffic_Store Session_Store Agent_Store Scan_Secrets
begin

text \<open>
  The connection of \<open>internal/db/mongo.go\<close>: the index tables of every collection, their creation
  when a process connects, and what they mean for the documents. The driver is an argument; the locale
  \<open>index_driver\<close> states that a successful \<open>CreateMany\<close> leaves the indexes in place. The two
  meanings of an index that the stores rely on are uniqueness, under the filter of a partial index, and the
  removal of documents whose date has passed. Which documents are removed is up to the database: the locale
  \<open>ttl_monitor\<close> says of a removal function only that it takes no document before its time.
\<close>

subsection \<open>Index tables\<close>

record index_model =
  ix_Keys :: "(string \<times> int) list"
  ix_Name :: string
  ix_Unique :: bool
  ix_ExpireAfterSeconds :: "int option"
  ix_PartialString :: "string option"

definition plain_index :: "(string \<times> int) list \<Rightarrow> string \<Rightarrow> index_model" where
  "plain_index ks n = \<lparr>ix_Keys = ks, ix_Name = n, ix_Unique = False, ix_ExpireAfterSeconds = None, ix_PartialString = None\<rparr>"

definition unique_index :: "(string \<times> int) list \<Rightarrow> string \<Rightarrow> index_model" where
  "unique_index ks n = (plain_index ks n)\<lparr>ix_Unique := True\<rparr>"

text \<open>A unique index over the documents whose field \<open>f\<close> is a string.\<close>

definition unique_string_index :: "string \<Rightarrow> (string \<times> int) list \<Rightarrow> string \<Rightarrow> index_model" where
  "unique_string_index f ks n = (unique_index ks n)\<lparr>ix_PartialString := Some f\<rparr>"

definition ttl_index :: "(string \<times> int) list \<Rightarrow> string \<Rightarrow> int \<Rightarrow> index_model" where
  "ttl_index ks n secs = (plain_index ks n)\<lparr>ix_ExpireAfterSeconds := Some secs\<rparr>"

definition traffic_logs_indexes :: "int \<Rightarrow> index_model list" where
  "traffic_logs_indexes ttlSeconds =
     [ttl_index [(''created_at'', 1)] ''traffic_logs_created_at_ttl'' ttlSeconds,
      plain_index [(''capture_source'', 1), (''created_at'', - 1)] ''traffic_logs_capture_source_created_at'',
      plain_index [(''agent_id'', 1), (''created_at'', - 1)] ''traffic_logs_agent_id_created_at'',
      plain_index [(''conversation_id'', 1), (''created_at'', - 1)] ''traffic_logs_conversation_id_created_at'',
      unique_string_index ''conversation_hash'' [(''conversation_hash'', 1)] ''traffic_logs_conversation_hash_unique'',
      plain_index [(''method'', 1), (''host'', 1), (''path'', 1)] ''traffic_logs_method_host_path'']"

definition traffic_conversations_indexes :: "int \<Rightarrow> index_model list" where
  "traffic_conversations_indexes ttlSeconds =
     [ttl_index [(''captured_at'', 1)] ''traffic_conversations_captured_at_ttl'' ttlSeconds,
      plain_index [(''created_at'', - 1)] ''traffic_conversations_created_at'',
      plain_index [(''capture_source'', 1), (''created_at'', - 1)] ''traffic_conversations_capture_source_created_at'',
      plain_index [(''agent_id'', 1), (''created_at'', - 1)] ''traffic_conversations_agent_id_created_at'',
      unique_string_index ''conversation_hash'' [(''conversation_hash'', 1)] ''traffic_conversations_conversation_hash_unique'',
      plain_index [(''method'', 1), (''host'', 1), (''path'', 1)] ''traffic_conversations_method_host_path'']"

definition ingestion_logs_indexes :: "int \<Rightarrow> index_model list" where
  "ingestion_logs_indexes ttlSeconds =
     [ttl_index [(''created_at'', 1)] ''ingestion_logs_created_at_ttl'' ttlSeconds,
      plain_index [(''status'', 1), (''created_at'', - 1)] ''ingestion_logs_status_created_at'']"

definition ingest_dead_letters_indexes :: "int \<Rightarrow> index_model list" where
  "ingest_dead_letters_indexes ttlSeconds =
     [ttl_index [(''created_at'', 1)] ''ingest_dead_letters_created_at_ttl'' ttlSeconds,
      plain_index [(''reason'', 1), (''created_at'', - 1)] ''ingest_dead_letters_reason_created_at'',
      plain_index [(''event_id'', 1), (''created_at'', - 1)] ''ingest_dead_letters_event_id_created_at'']"

definition scan_jobs_indexes :: "index_model list" where
  "scan_jobs_indexes =
     [plain_index [(''status'', 1), (''created_at'', 1)] ''scan_jobs_status_created_at'',
      plain_index [(''status'', 1), (''deadline_at'', 1)] ''scan_jobs_status_deadline_at'',
      plain_index [(''status'', 1), (''not_before_at'', 1), (''created_at'', 1)] ''scan_jobs_status_not_before_created_at'',
      plain_index [(''inventory_id'', 1), (''created_at'', - 1)] ''scan_jobs_inventory_created_at'',
      plain_index [(''tenant_id'', 1), (''created_at'', - 1)] ''scan_jobs_tenant_created_at'',
      plain_index [(''rerun_of_job_id'', 1), (''created_at'', - 1)] ''scan_jobs_rerun_of_created_at'']"

definition scan_secrets_indexes :: "index_model list" where
  "scan_secrets_indexes =
     [ttl_index [(''expires_at'', 1)] ''scan_secrets_expires_at_ttl'' 0,
      plain_index [(''job_id'', 1), (''purpose'', 1)] ''scan_secrets_job_purpose'']"

definition scan_results_indexes :: "index_model list" where
  "scan_results_indexes =
     [plain_index [(''job_id'', 1), (''created_at'', - 1)] ''scan_results_job_created_at'',
      plain_index [(''inventory_id'', 1), (''created_at'', - 1)] ''scan_results_inventory_created_at'',
      plain_index [(''tenant_id'', 1), (''created_at'', - 1)] ''scan_results_tenant_created_at'']"

definition scan_progress_events_indexes :: "index_model list" where
  "scan_progress_events_indexes =
     [plain_index [(''job_id'', 1), (''created_at'', 1)] ''scan_progress_events_job_created_at'',
      plain_index [(''tenant_id'', 1), (''created_at'', - 1)] ''scan_progress_events_tenant_created_at'',
      ttl_index [(''created_at'', 1)] ''scan_progress_events_created_at_ttl'' (7 * 24 * 3600)]"

definition issues_indexes :: "index_model list" where
  "issues_indexes =
     [unique_index [(''issue_fingerprint'', 1)] ''issues_issue_fingerprint_unique'',
      plain_index [(''tenant_id'', 1), (''status'', 1), (''severity'', 1), (''updated_at'', - 1)] ''issues_tenant_status_severity_updated_at'',
      plain_index [(''inventory_id'', 1), (''updated_at'', - 1)] ''issues_inventory_updated_at'']"

definition api_inventory_indexes :: "index_model list" where
  "api_inventory_indexes =
     [plain_index [(''tenant_id'', 1), (''updated_at'', - 1)] ''api_inventory_tenant_updated_at'',
      unique_string_index ''endpoint_fingerprint'' [(''endpoint_fingerprint'', 1)] ''api_inventory_endpoint_fingerprint_unique'',
      plain_index [(''tenant_id'', 1), (''method'', 1), (''base_url'', 1), (''path_pattern'', 1)] ''api_inventory_tenant_endpoint'',
      plain_index [(''capture_source'', 1), (''updated_at'', - 1)] ''api_inventory_capture_source_updated_at'']"

definition api_parameters_indexes :: "index_model list" where
  "api_parameters_indexes =
     [unique_index [(''endpoint_fingerprint'', 1), (''location'', 1), (''name'', 1)] ''api_parameters_endpoint_location_name_unique'',
      plain_index [(''tenant_id'', 1), (''location'', 1), (''updated_at'', - 1)] ''api_parameters_tenant_location_updated_at'',
      plain_index [(''sensitive_data'', 1), (''updated_at'', - 1)] ''api_parameters_sensitive_updated_at'']"

definition traffic_samples_indexes :: "int \<Rightarrow> index_model list" where
  "traffic_samples_indexes ttlSeconds =
     [ttl_index [(''captured_at'', 1)] ''traffic_samples_captured_at_ttl'' ttlSeconds,
      plain_index [(''endpoint_fingerprint'', 1), (''captured_at'', - 1)] ''traffic_samples_endpoint_captured_at'',
      plain_index [(''tenant_id'', 1), (''captured_at'', - 1)] ''traffic_samples_tenant_captured_at'']"

definition sensitive_samples_indexes :: "int \<Rightarrow> index_model list" where
  "sensitive_samples_indexes ttlSeconds =
     [ttl_index [(''captured_at'', 1)] ''sensitive_samples_captured_at_ttl'' ttlSeconds,
      plain_index [(''endpoint_fingerprint'', 1), (''captured_at'', - 1)] ''sensitive_samples_endpoint_captured_at'',
      plain_index [(''tenant_id'', 1), (''sensitive_data'', 1), (''captured_at'', - 1)] ''sensitive_samples_tenant_sensitive_captured_at'']"

definition traffic_metrics_indexes :: "index_model list" where
  "traffic_metrics_indexes =
     [unique_index [(''tenant_id'', 1), (''project_id'', 1), (''endpoint_fingerprint'', 1), (''bucket_granularity'', 1), (''bucket_start'', 1), (''status_code'', 1), (''auth_observed'', 1), (''risk_level'', 1)] ''traffic_metrics_unique_bucket_dimensions'',
      plain_index [(''tenant_id'', 1), (''bucket_granularity'', 1), (''bucket_start'', - 1)] ''traffic_metrics_tenant_bucket'',
      plain_index [(''endpoint_fingerprint'', 1), (''bucket_granularity'', 1), (''bucket_start'', - 1)] ''traffic_metrics_endpoint_bucket'',
      plain_index [(''tenant_id'', 1), (''status_class'', 1), (''bucket_start'', - 1)] ''traffic_metrics_tenant_status_bucket'']"

definition traffic_metric_events_indexes :: "int \<Rightarrow> index_model list" where
  "traffic_metric_events_indexes ttlSeconds =
     [unique_index [(''event_key'', 1)] ''traffic_metric_events_event_key_unique'',
      ttl_index [(''created_at'', 1)] ''traffic_metric_events_created_at_ttl'' ttlSeconds,
      plain_index [(''endpoint_fingerprint'', 1), (''bucket_start'', - 1)] ''traffic_metric_events_endpoint_bucket'']"

definition audit_logs_indexes :: "index_model list" where
  "audit_logs_indexes =
     [plain_index [(''created_at'', - 1)] ''audit_logs_created_at'',
      plain_index [(''actor_id'', 1), (''created_at'', - 1)] ''audit_logs_actor_created_at'',
      plain_index [(''action'', 1), (''created_at'', - 1)] ''audit_logs_action_created_at'']"

definition accounts_indexes :: "index_model list" where
  "accounts_indexes =
     [unique_index [(''slug'', 1)] ''accounts_slug_unique'']"

definition account_settings_indexes :: "index_model list" where
  "account_settings_indexes =
     [unique_index [(''account_id'', 1)] ''account_settings_account_unique'']"

definition users_indexes :: "index_model list" where
  "users_indexes =
     [unique_index [(''email'', 1)] ''users_email_unique'',
      plain_index [(''account_id'', 1), (''role'', 1)] ''users_account_role'']"

definition sessions_indexes :: "index_model list" where
  "sessions_indexes =
     [unique_index [(''access_token_hash'', 1)] ''sessions_access_token_hash_unique'',
      unique_index [(''refresh_token_hash'', 1)] ''sessions_refresh_token_hash_unique'',
      ttl_index [(''refresh_expires_at'', 1)] ''sessions_refresh_expires_at_ttl'' 0,
      plain_index [(''user_id'', 1), (''created_at'', - 1)] ''sessions_user_created_at'']"

definition oauth_identities_indexes :: "index_model list" where
  "oauth_identities_indexes =
     [unique_index [(''provider'', 1), (''provider_user_id'', 1)] ''oauth_identities_provider_user_unique'',
      plain_index [(''user_id'', 1)] ''oauth_identities_user'']"

definition data_sources_indexes :: "index_model list" where
  "data_sources_indexes =
     [plain_index [(''account_id'', 1), (''created_at'', - 1)] ''data_sources_account_created_at'',
      plain_index [(''account_id'', 1), (''status'', 1), (''deleted_at'', 1)] ''data_sources_account_status_deleted'',
      plain_index [(''account_id'', 1), (''type'', 1)] ''data_sources_account_type'']"

definition agent_enrollments_indexes :: "index_model list" where
  "agent_enrollments_indexes =
     [unique_index [(''token_hash'', 1)] ''agent_enrollments_token_hash_unique'',
      ttl_index [(''expires_at'', 1)] ''agent_enrollments_expires_at_ttl'' 0,
      plain_index [(''account_id'', 1), (''created_at'', - 1)] ''agent_enrollments_account_created_at'']"

definition agents_indexes :: "index_model list" where
  "agents_indexes =
     [unique_index [(''token_hash'', 1)] ''agents_token_hash_unique'',
      plain_index [(''account_id'', 1), (''status'', 1)] ''agents_account_status'',
      plain_index [(''data_source_id'', 1), (''created_at'', - 1)] ''agents_data_source_created_at'']"

definition account_ingest_tokens_indexes :: "index_model list" where
  "account_ingest_tokens_indexes =
     [unique_index [(''account_id'', 1)] ''account_ingest_tokens_account_unique'',
      unique_index [(''token_hash'', 1)] ''account_ingest_tokens_token_hash_unique'']"

definition index_plan :: "int \<Rightarrow> (string \<times> index_model list) list" where
  "index_plan ttlSeconds =
     [(''traffic_logs'', traffic_logs_indexes ttlSeconds),
      (''traffic_conversations'', traffic_conversations_indexes ttlSeconds),
      (''ingestion_logs'', ingestion_logs_indexes ttlSeconds),
      (''ingest_dead_letters'', ingest_dead_letters_indexes ttlSeconds),
      (''scan_jobs'', scan_jobs_indexes),
      (''scan_secrets'', scan_secrets_indexes),
      (''scan_results'', scan_results_indexes),
      (''scan_progress_events'', scan_progress_events_indexes),
      (''issues'', issues_indexes),
      (''api_inventory'', api_inventory_indexes),
      (''api_parameters'', api_parameters_indexes),
      (''traffic_samples'', traffic_samples_indexes ttlSeconds),
      (''sensitive_samples'', sensitive_samples_indexes ttlSeconds),
      (''traffic_metrics'', traffic_metrics_indexes),
      (''traffic_metric_events'', traffic_metric_events_indexes ttlSeconds),
      (''audit_logs'', audit_logs_indexes),
      (''accounts'', accounts_indexes),
      (''account_settings'', account_settings_indexes),
      (''users'', users_indexes),
      (''sessions'', sessions_indexes),
      (''oauth_identities'', oauth_identities_indexes),
      (''data_sources'', data_sources_indexes),
      (''agent_enrollments'', agent_enrollments_indexes),
      (''agents'', agents_indexes),
      (''account_ingest_tokens'', account_ingest_tokens_indexes)]"

subsection \<open>Creating the indexes\<close>

text \<open>
  \<open>md_conv32\<close> is the conversion of a number of seconds outside the range of an \<open>int32\<close>, which Go
  leaves to the implementation.
\<close>

record 's mongo_driver =
  md_Connect :: "string \<Rightarrow> 's \<Rightarrow> 's \<times> string option"
  md_Ping :: "'s \<Rightarrow> 's \<times> string option"
  md_Disconnect :: "'s \<Rightarrow> 's"
  md_CreateMany :: "'s \<Rightarrow> string \<Rightarrow> index_model list \<Rightarrow> 's \<times> string option"
  md_conv32 :: "int \<Rightarrow> int"

definition createIndexes :: "'s mongo_driver \<Rightarrow> 's \<Rightarrow> string \<Rightarrow> index_model list \<Rightarrow> 's \<times> string option" where
  "createIndexes D st collectionName indexes =
     (if indexes = [] then (st, None)
      else (case md_CreateMany D st collectionName indexes of
          (st1, Some err) \<Rightarrow> (st1, Some (collectionName @ '' indexes: '' @ err))
        | (st1, None) \<Rightarrow> (st1, None)))"

fun create_all :: "'s mongo_driver \<Rightarrow> 's \<Rightarrow> (string \<times> index_model list) list \<Rightarrow> 's \<times> string option" where
  "create_all D st [] = (st, None)"
| "create_all D st ((n, ixs) # rest) =
     (case createIndexes D st n ixs of
        (st1, Some err) \<Rightarrow> (st1, Some err)
      | (st1, None) \<Rightarrow> create_all D st1 rest)"

definition ttlSeconds_of :: "'s mongo_driver \<Rightarrow> int \<Rightarrow> int" where
  "ttlSeconds_of D ttl = (let secs = ttl div second in if secs < 2 ^ 31 then secs else md_conv32 D secs)"

definition EnsureIndexes :: "'s mongo_driver \<Rightarrow> log_retention \<Rightarrow> 's \<Rightarrow> 's \<times> log_retention \<times> string option" where
  "EnsureIndexes D retention0 st =
     (let retention = normalizeLogRetention retention0;
          (st1, err) = create_all D st (index_plan (ttlSeconds_of D (rt_TTL retention)))
      in (st1, retention, err))"

definition defaultMongoIndexTimeout :: int where
  "defaultMongoIndexTimeout = 5 * 60 * second"

definition mongoIndexTimeout :: "(string \<Rightarrow> string) \<Rightarrow> int" where
  "mongoIndexTimeout env =
     (let raw = env ''MONGO_INDEX_TIMEOUT_SECONDS'' in
      if raw = [] then defaultMongoIndexTimeout
      else (case atoi raw of
          None \<Rightarrow> defaultMongoIndexTimeout
        | Some seconds \<Rightarrow> if seconds \<le> 0 then defaultMongoIndexTimeout else wrap64 (seconds * second)))"

text \<open>The collections of the struct \<open>DB\<close>, by field.\<close>

definition db_collections :: "(string \<times> string) list" where
  "db_collections =
     [(''Logs'', ''traffic_logs''),
      (''TrafficConversations'', ''traffic_conversations''),
      (''IngestionLogs'', ''ingestion_logs''),
      (''IngestDeadLetters'', ''ingest_dead_letters''),
      (''ScanJobs'', ''scan_jobs''),
      (''ScanResults'', ''scan_results''),
      (''ScanSecrets'', ''scan_secrets''),
      (''ScanProgressEvents'', ''scan_progress_events''),
      (''Issues'', ''issues''),
      (''AuditLogs'', ''audit_logs''),
      (''Accounts'', ''accounts''),
      (''AccountSettings'', ''account_settings''),
      (''Users'', ''users''),
      (''Sessions'', ''sessions''),
      (''OAuthIdentities'', ''oauth_identities''),
      (''DataSources'', ''data_sources''),
      (''AccountIngestTokens'', ''account_ingest_tokens''),
      (''AgentEnrollments'', ''agent_enrollments''),
      (''Agents'', ''agents''),
      (''APIParameters'', ''api_parameters''),
      (''TrafficSamples'', ''traffic_samples''),
      (''SensitiveSamples'', ''sensitive_samples''),
      (''TrafficMetrics'', ''traffic_metrics''),
      (''TrafficMetricEvents'', ''traffic_metric_events'')]"

record database =
  db_Name :: string
  db_Collections :: "(string \<times> string) list"
  db_LogRetention :: log_retention

definition Connect :: "'s mongo_driver \<Rightarrow> string \<Rightarrow> string \<Rightarrow> log_retention list \<Rightarrow> 's \<Rightarrow> 's \<times> (string + database)" where
  "Connect D uri dbName retentionOverrides st =
     (case md_Connect D uri st of
        (st1, Some err) \<Rightarrow> (st1, Inl (''failed to connect to MongoDB: '' @ err))
      | (st1, None) \<Rightarrow>
     (case md_Ping D st1 of
        (st2, Some err) \<Rightarrow> (md_Disconnect D st2, Inl (''failed to ping MongoDB: '' @ err))
      | (st2, None) \<Rightarrow>
          (let retention = (case retentionOverrides of [] \<Rightarrow> DefaultLogRetention | r # rs \<Rightarrow> normalizeLogRetention r)
           in (case EnsureIndexes D retention st2 of
               (st3, ret, Some err) \<Rightarrow> (md_Disconnect D st3, Inl (''failed to create MongoDB indexes: '' @ err))
             | (st3, ret, None) \<Rightarrow> (st3, Inr \<lparr>db_Name = dbName, db_Collections = db_collections, db_LogRetention = ret\<rparr>)))))"

subsection \<open>What the database does with an index\<close>

datatype bson_value = BNull | BString string | BDate int | BId nat

type_synonym bson_doc = "string \<Rightarrow> bson_value"

definition bson_time :: "gotime \<Rightarrow> bson_value" where
  "bson_time t = BDate (time_key t div 1000000)"

definition ix_covers :: "index_model \<Rightarrow> bson_doc \<Rightarrow> bool" where
  "ix_covers ix d = (case ix_PartialString ix of None \<Rightarrow> True | Some f \<Rightarrow> (case d f of BString s \<Rightarrow> True | _ \<Rightarrow> False))"

definition ix_value :: "index_model \<Rightarrow> bson_doc \<Rightarrow> bson_value list" where
  "ix_value ix d = map (d \<circ> fst) (ix_Keys ix)"

text \<open>The documents of a collection respect the unique indexes of a table.\<close>

definition docs_respect :: "index_model list \<Rightarrow> bson_doc list \<Rightarrow> bool" where
  "docs_respect ixs ds = list_all (\<lambda>ix. ix_Unique ix \<longrightarrow> distinct (map (ix_value ix) (filter (ix_covers ix) ds))) ixs"

text \<open>
  What a time-to-live index does is up to the database: \<open>removes ixs d now\<close> says that its monitor removes the
  document \<open>d\<close> of a collection with the indexes \<open>ixs\<close> at \<open>now\<close>. The documented behaviour
  is a bound: only a document with a date in the only key of such an index, and only once the given number of seconds has
  passed since that date (a date has milliseconds). The monitor runs from time to time, so it may be later.
\<close>

locale ttl_monitor =
  fixes removes :: "index_model list \<Rightarrow> bson_doc \<Rightarrow> int \<Rightarrow> bool"
  assumes removes_expired: "removes ixs d now \<Longrightarrow>
    \<exists>ix \<in> set ixs. \<exists>f dir secs ms. ix_ExpireAfterSeconds ix = Some secs \<and> ix_Keys ix = [(f, dir)] \<and> d f = BDate ms \<and>
      ms + secs * 1000 \<le> now div 1000000"
begin

lemma removed_by_only_ttl:
  assumes "removes ixs d now" "list_all (\<lambda>ix. ix_ExpireAfterSeconds ix = None \<or> ix_ExpireAfterSeconds ix = Some secs \<and> map fst (ix_Keys ix) = [f]) ixs"
    and "d f = bson_time t"
  shows "time_key t div 1000000 + secs * 1000 \<le> now div 1000000"
  using removes_expired [OF assms(1)] assms(2,3) by (fastforce simp: list_all_iff bson_time_def)

end

text \<open>A monitor that removes a document as soon as it may.\<close>

definition ttl_removes :: "index_model list \<Rightarrow> bson_doc \<Rightarrow> int \<Rightarrow> bool" where
  "ttl_removes ixs d now =
     list_ex (\<lambda>ix. case (ix_ExpireAfterSeconds ix, ix_Keys ix) of
         (Some secs, [(f, dir)]) \<Rightarrow> (case d f of BDate ms \<Rightarrow> ms + secs * 1000 \<le> now div 1000000 | _ \<Rightarrow> False)
       | _ \<Rightarrow> False) ixs"

lemma ttl_removes_expired:
  assumes "ttl_removes ixs d now"
  shows "\<exists>ix \<in> set ixs. \<exists>f dir secs ms. ix_ExpireAfterSeconds ix = Some secs \<and> ix_Keys ix = [(f, dir)] \<and> d f = BDate ms \<and>
    ms + secs * 1000 \<le> now div 1000000"
proof -
  from assms obtain ix where ix: "ix \<in> set ixs" and c: "case (ix_ExpireAfterSeconds ix, ix_Keys ix) of
      (Some secs, [(f, dir)]) \<Rightarrow> (case d f of BDate ms \<Rightarrow> ms + secs * 1000 \<le> now div 1000000 | _ \<Rightarrow> False) | _ \<Rightarrow> False"
    unfolding ttl_removes_def list_ex_iff by blast
  from c obtain secs where e: "ix_ExpireAfterSeconds ix = Some secs" by (cases "ix_ExpireAfterSeconds ix") simp_all
  from c e obtain k where "ix_Keys ix = [k]" by (cases "ix_Keys ix"; cases "tl (ix_Keys ix)") simp_all
  then obtain f dir where k: "ix_Keys ix = [(f, dir)]" by (cases k) simp
  from c e k obtain ms where "d f = BDate ms" "ms + secs * 1000 \<le> now div 1000000" by (cases "d f") simp_all
  with ix e k show ?thesis by blast
qed

interpretation eager: ttl_monitor ttl_removes
  by unfold_locales (rule ttl_removes_expired)

text \<open>The indexed fields of the documents; an empty string with \<open>omitempty\<close> is not stored.\<close>

definition session_bson :: "session \<Rightarrow> bson_doc" where
  "session_bson s = (\<lambda>f. BNull)(''access_token_hash'' := BString (ses_AccessTokenHash s),
     ''refresh_token_hash'' := BString (ses_RefreshTokenHash s), ''user_id'' := BId (ses_UserID s),
     ''created_at'' := bson_time (ses_CreatedAt s), ''refresh_expires_at'' := bson_time (ses_RefreshExpiresAt s))"

definition enrollment_bson :: "agent_enrollment \<Rightarrow> bson_doc" where
  "enrollment_bson e = (\<lambda>f. BNull)(''token_hash'' := BString (en_TokenHash e), ''account_id'' := BId (en_AccountID e),
     ''created_at'' := bson_time (en_CreatedAt e), ''expires_at'' := bson_time (en_ExpiresAt e))"

definition secret_bson :: "scan_secret \<Rightarrow> bson_doc" where
  "secret_bson x = (\<lambda>f. BNull)(''expires_at'' := bson_time (sec_ExpiresAt x))"

definition log_bson :: "traffic_log \<Rightarrow> bson_doc" where
  "log_bson l = (\<lambda>f. BNull)(''created_at'' := bson_time (log_CreatedAt l),
     ''conversation_hash'' := (if log_ConversationHash l = [] then BNull else BString (log_ConversationHash l)))"

definition issue_bson :: "issue \<Rightarrow> bson_doc" where
  "issue_bson i = (\<lambda>f. BNull)(''issue_fingerprint'' := BString (iss_IssueFingerprint i))"

definition inventory_bson :: "api_inventory \<Rightarrow> bson_doc" where
  "inventory_bson i = (\<lambda>f. BNull)(''endpoint_fingerprint'' :=
     (if inv_EndpointFingerprint i = [] then BNull else BString (inv_EndpointFingerprint i)))"

subsection \<open>A connected database has its indexes\<close>

locale index_driver =
  fixes D :: "'s mongo_driver" and indexed :: "'s \<Rightarrow> string \<Rightarrow> index_model set"
  assumes create_done: "md_CreateMany D st c ixs = (st', None) \<Longrightarrow>
      set ixs \<subseteq> indexed st' c \<and> (\<forall>c2. indexed st c2 \<subseteq> indexed st' c2)"
begin

lemma createIndexes_done:
  assumes "createIndexes D st c ixs = (st', None)"
  shows "set ixs \<subseteq> indexed st' c" and "indexed st c2 \<subseteq> indexed st' c2"
  using assms create_done [of st c ixs st'] by (auto simp: createIndexes_def split: if_splits prod.splits option.splits)

lemma create_all_done:
  assumes "create_all D st plan = (st', None)"
  shows "list_all (\<lambda>(c, ixs). set ixs \<subseteq> indexed st' c) plan \<and> (\<forall>c2. indexed st c2 \<subseteq> indexed st' c2)"
  using assms
proof (induction plan arbitrary: st)
  case (Cons e plan)
  obtain c ixs where e: "e = (c, ixs)" by (cases e)
  obtain st1 where st1: "createIndexes D st c ixs = (st1, None)" and rest: "create_all D st1 plan = (st', None)"
    using Cons.prems by (auto simp: e split: prod.splits option.splits)
  show ?case
    using Cons.IH [OF rest] createIndexes_done [OF st1] by (auto simp: e) blast+
qed simp

end

text \<open>A driver in memory: the state is the list of the indexes.\<close>

definition mem_driver :: "(string \<times> index_model) list mongo_driver" where
  "mem_driver =
     \<lparr>md_Connect = (\<lambda>uri st. (st, if uri = [] then Some ''no uri'' else None)), md_Ping = (\<lambda>st. (st, None)),
      md_Disconnect = (\<lambda>st. st), md_CreateMany = (\<lambda>st c ixs. (st @ map (Pair c) ixs, None)), md_conv32 = (\<lambda>n. - (2 ^ 31))\<rparr>"

definition mem_indexed :: "(string \<times> index_model) list \<Rightarrow> string \<Rightarrow> index_model set" where
  "mem_indexed st c = snd ` {e \<in> set st. fst e = c}"

interpretation md: index_driver mem_driver mem_indexed
  by unfold_locales (auto simp: mem_driver_def mem_indexed_def image_iff)

lemma ttlSeconds_whole: "t < 2 ^ 31 * second \<Longrightarrow> ttlSeconds_of D t = t div second"
proof -
  assume "t < 2 ^ 31 * second"
  then have "t div second < 2 ^ 31" unfolding second_def by linarith
  then show ?thesis by (simp add: ttlSeconds_of_def Let_def)
qed

text \<open>
  When \<open>Connect\<close> hands out a database, every collection has every index of its table; the retention it
  works with is positive, and the time to live of the captured traffic is the whole seconds of it.
\<close>

theorem connected_database_is_indexed:
  assumes "index_driver D indexed" and "Connect D uri dbName overrides st = (st', Inr db)"
  shows "list_all (\<lambda>(c, ixs). set ixs \<subseteq> indexed st' c) (index_plan (ttlSeconds_of D (rt_TTL (db_LogRetention db)))) \<and>
    rt_MaxEvents (db_LogRetention db) > 0 \<and> rt_TTL (db_LogRetention db) > 0 \<and>
    (rt_TTL (db_LogRetention db) < 2 ^ 31 * second \<longrightarrow>
       ttlSeconds_of D (rt_TTL (db_LogRetention db)) = rt_TTL (db_LogRetention db) div second)"
proof -
  have pos: "rt_MaxEvents (normalizeLogRetention r) > 0 \<and> rt_TTL (normalizeLogRetention r) > 0" for r
    by (simp add: normalizeLogRetention_def Let_def defaultTrafficLogMaxEvents_def defaultTrafficLogTTL_def second_def)
  obtain r st2 where "EnsureIndexes D r st2 = (st', db_LogRetention db, None)"
    using assms(2) by (auto simp: Connect_def Let_def split: prod.splits option.splits)
  then have ret: "db_LogRetention db = normalizeLogRetention r"
    and all: "create_all D st2 (index_plan (ttlSeconds_of D (rt_TTL (db_LogRetention db)))) = (st', None)"
    by (auto simp: EnsureIndexes_def Let_def split: prod.splits)
  show ?thesis
    using ttlSeconds_whole [of "rt_TTL (normalizeLogRetention r)" D] index_driver.create_all_done [OF assms(1) all] pos [of r] ret by simp
qed

theorem connected_database_is_indexed_witness:
  "case Connect mem_driver ''mongodb://db'' ''karaxys'' [\<lparr>rt_MaxEvents = 0, rt_TTL = 3600 * second\<rparr>] [] of (st', r) \<Rightarrow>
     (case r of Inl err \<Rightarrow> False
      | Inr db \<Rightarrow> rt_MaxEvents (db_LogRetention db) = 1000 \<and> set sessions_indexes \<subseteq> mem_indexed st' ''sessions'' \<and>
          set (traffic_logs_indexes 3600) \<subseteq> mem_indexed st' ''traffic_logs'')"
proof (cases "Connect mem_driver ''mongodb://db'' ''karaxys'' [\<lparr>rt_MaxEvents = 0, rt_TTL = 3600 * second\<rparr>] []")
  case (Pair st' r)
  have "case snd (Connect mem_driver ''mongodb://db'' ''karaxys'' [\<lparr>rt_MaxEvents = 0, rt_TTL = 3600 * second\<rparr>] []) of
      Inl err \<Rightarrow> False | Inr db \<Rightarrow> rt_MaxEvents (db_LogRetention db) = 1000 \<and> rt_TTL (db_LogRetention db) = 3600 * second"
    by code_simp
  then obtain db where r: "r = Inr db" and ret: "rt_MaxEvents (db_LogRetention db) = 1000" "rt_TTL (db_LogRetention db) = 3600 * second"
    using Pair by (cases r) auto
  have secs: "ttlSeconds_of mem_driver (3600 * second) = 3600" by (simp add: ttlSeconds_of_def second_def)
  show ?thesis
    using connected_database_is_indexed [OF md.index_driver_axioms Pair [unfolded r]] Pair r ret secs
    by (simp add: index_plan_def)
qed

subsection \<open>What the indexes give the stores\<close>

text \<open>
  Every index has a name of its own in its collection and distinct keys with a direction, and an index with a time to live
  has one key and is not unique, as the database demands.
\<close>

definition index_well_formed :: "index_model \<Rightarrow> bool" where
  "index_well_formed ix \<longleftrightarrow>
     ix_Keys ix \<noteq> [] \<and> distinct (map fst (ix_Keys ix)) \<and> list_all (\<lambda>k. snd k = 1 \<or> snd k = - 1) (ix_Keys ix) \<and> ix_Name ix \<noteq> [] \<and>
     (ix_ExpireAfterSeconds ix \<noteq> None \<longrightarrow> length (ix_Keys ix) = 1 \<and> \<not> ix_Unique ix) \<and> (ix_PartialString ix \<noteq> None \<longrightarrow> ix_Unique ix)"

lemmas index_kinds = unique_index_def unique_string_index_def ttl_index_def plain_index_def

lemmas index_tables =
  traffic_logs_indexes_def traffic_conversations_indexes_def ingestion_logs_indexes_def ingest_dead_letters_indexes_def
  scan_jobs_indexes_def scan_secrets_indexes_def scan_results_indexes_def scan_progress_events_indexes_def
  issues_indexes_def api_inventory_indexes_def api_parameters_indexes_def traffic_samples_indexes_def
  sensitive_samples_indexes_def traffic_metrics_indexes_def traffic_metric_events_indexes_def audit_logs_indexes_def
  accounts_indexes_def account_settings_indexes_def users_indexes_def sessions_indexes_def
  oauth_identities_indexes_def data_sources_indexes_def agent_enrollments_indexes_def agents_indexes_def
  account_ingest_tokens_indexes_def

definition keys_ok :: "(string \<times> int) list \<Rightarrow> bool" where
  "keys_ok ks \<longleftrightarrow> ks \<noteq> [] \<and> distinct (map fst ks) \<and> list_all (\<lambda>k. snd k = 1 \<or> snd k = - 1) ks"

lemma index_well_formed_kinds [simp]:
  "index_well_formed (plain_index ks n) \<longleftrightarrow> keys_ok ks \<and> n \<noteq> []"
  "index_well_formed (unique_index ks n) \<longleftrightarrow> keys_ok ks \<and> n \<noteq> []"
  "index_well_formed (unique_string_index f ks n) \<longleftrightarrow> keys_ok ks \<and> n \<noteq> []"
  "index_well_formed (ttl_index ks n secs) \<longleftrightarrow> keys_ok ks \<and> n \<noteq> [] \<and> length ks = 1"
  by (auto simp: index_well_formed_def keys_ok_def index_kinds)

lemma index_plan_well_formed:
  "list_all (\<lambda>(c, ixs). list_all index_well_formed ixs) (index_plan secs)"
  by (simp add: index_plan_def index_tables keys_ok_def)

lemma index_names_distinct:
  "list_all (\<lambda>(c, ixs). distinct (map ix_Name ixs)) (index_plan secs)"
  by (simp add: index_plan_def index_tables index_kinds)

text \<open>Every opened collection has a table, and the inventory has one as well.\<close>

lemma collections_have_tables:
  "list_all (\<lambda>c. list_ex (\<lambda>e. fst e = c) (index_plan secs)) (map snd db_collections)"
  "list_ex (\<lambda>e. fst e = ''api_inventory'') (index_plan secs)"
  by (simp_all add: index_plan_def db_collections_def)

text \<open>The documents of a collection that respects its table differ in the fields the stores look up.\<close>

lemma docs_respect_index:
  assumes "docs_respect ixs (map g ds)" and "ix \<in> set ixs" and "ix_Unique ix"
    and "\<And>d. d \<in> set ds \<Longrightarrow> ix_covers ix (g d)"
    and "\<And>d. d \<in> set ds \<Longrightarrow> ix_value ix (g d) = h (v d)"
  shows "distinct (map v ds)"
proof -
  have all: "filter (ix_covers ix) (map g ds) = map g ds" using assms(4) by (auto simp: filter_id_conv)
  have "distinct (map (ix_value ix) (filter (ix_covers ix) (map g ds)))"
    using assms(1-3) unfolding docs_respect_def list_all_iff by blast
  then have "distinct (map (ix_value ix) (map g ds))" unfolding all .
  moreover have "map (ix_value ix) (map g ds) = map h (map v ds)" using assms(5) by simp
  ultimately show ?thesis by (simp only: distinct_map)
qed

text \<open>A unique index on one string field.\<close>

lemma string_index:
  assumes "docs_respect ixs (map g ds)" and "list_ex (\<lambda>ix. ix_Unique ix \<and> ix_PartialString ix = None \<and> map fst (ix_Keys ix) = [f]) ixs"
    and "\<And>d. g d f = BString (v d)"
  shows "distinct (map v ds)"
proof -
  obtain ix where ix: "ix \<in> set ixs" "ix_Unique ix" "ix_PartialString ix = None" "map fst (ix_Keys ix) = [f]"
    using assms(2) by (auto simp: list_ex_iff)
  have "ix_value ix (g d) = [BString (v d)]" for d
    using ix(4) assms(3) [of d] by (auto simp: ix_value_def)
  then show ?thesis
    using docs_respect_index [OF assms(1) ix(1,2), where h = "\<lambda>x. [BString x]" and v = v] ix(3) by (simp add: ix_covers_def)
qed

lemma respects_sessions:
  assumes "docs_respect sessions_indexes (map session_bson ss)"
  shows "distinct (map ses_AccessTokenHash ss) \<and> distinct (map ses_RefreshTokenHash ss)"
proof
  show "distinct (map ses_AccessTokenHash ss)"
    by (rule string_index [OF assms, of "''access_token_hash''"]) (simp_all add: sessions_indexes_def index_kinds session_bson_def)
  show "distinct (map ses_RefreshTokenHash ss)"
    by (rule string_index [OF assms, of "''refresh_token_hash''"]) (simp_all add: sessions_indexes_def index_kinds session_bson_def)
qed

lemma respects_enrollments:
  assumes "docs_respect agent_enrollments_indexes (map enrollment_bson es)"
  shows "distinct (map en_TokenHash es)"
  by (rule string_index [OF assms, of "''token_hash''"]) (simp_all add: agent_enrollments_indexes_def index_kinds enrollment_bson_def)

lemma respects_issues:
  assumes "docs_respect issues_indexes (map issue_bson ss)"
  shows "distinct (map iss_IssueFingerprint ss)"
  by (rule string_index [OF assms, of "''issue_fingerprint''"]) (simp_all add: issues_indexes_def index_kinds issue_bson_def)

text \<open>Logs without a conversation hash never conflict; two logs of one conversation do.\<close>

lemma respects_logs:
  assumes "docs_respect (traffic_logs_indexes n) (map log_bson ls)" and "\<And>l. l \<in> set ls \<Longrightarrow> log_ConversationHash l \<noteq> []"
  shows "distinct (map log_ConversationHash ls)"
  by (rule docs_respect_index [OF assms(1), of "unique_string_index ''conversation_hash'' [(''conversation_hash'', 1)]
        ''traffic_logs_conversation_hash_unique''" "\<lambda>x. [BString x]"])
    (simp_all add: traffic_logs_indexes_def index_kinds ix_covers_def ix_value_def log_bson_def assms(2))

lemma hashless_logs_respect:
  assumes "\<And>l. l \<in> set ls \<Longrightarrow> log_ConversationHash l = []"
  shows "docs_respect (traffic_logs_indexes n) (map log_bson ls)"
proof -
  have "filter (ix_covers (unique_string_index ''conversation_hash'' ks nm)) (map log_bson ls) = []" for ks nm
    using assms by (auto simp: filter_empty_conv index_kinds ix_covers_def log_bson_def)
  then show ?thesis
    by (simp add: docs_respect_def traffic_logs_indexes_def index_kinds)
qed

subsection \<open>Times to live\<close>

lemma removed_late:
  assumes "t div 1000000 + secs * 1000 \<le> (now :: int) div 1000000"
  shows "t + secs * 1000000000 < now + 1000000"
  using assms by linarith

definition wit_session :: session where
  "wit_session = \<lparr>ses_ID = 1, ses_UserID = 2, ses_AccountID = 3, ses_AccessTokenHash = ''a'', ses_RefreshTokenHash = ''h'',
     ses_UserAgent = [], ses_RemoteAddr = [], ses_CreatedAt = Some 0, ses_UpdatedAt = Some 0, ses_AccessExpiresAt = Some second,
     ses_RefreshExpiresAt = Some (5 * second), ses_RevokedAt = None\<rparr>"

text \<open>The indexes that \<open>Connect\<close> created for a collection of a database.\<close>

definition indexes_of :: "'s mongo_driver \<Rightarrow> database \<Rightarrow> string \<Rightarrow> index_model list" where
  "indexes_of D db c =
     (case map_of (index_plan (ttlSeconds_of D (rt_TTL (db_LogRetention db)))) c of None \<Rightarrow> [] | Some ixs \<Rightarrow> ixs)"

lemma indexes_of_tables:
  "indexes_of D db ''sessions'' = sessions_indexes" "indexes_of D db ''agent_enrollments'' = agent_enrollments_indexes"
  "indexes_of D db ''scan_secrets'' = scan_secrets_indexes"
  "indexes_of D db ''traffic_logs'' = traffic_logs_indexes (ttlSeconds_of D (rt_TTL (db_LogRetention db)))"
  by (simp_all add: indexes_of_def index_plan_def)

definition configured_ttl :: "log_retention list \<Rightarrow> int" where
  "configured_ttl overrides =
     (case overrides of [] \<Rightarrow> 24 * 3600 * second | r # _ \<Rightarrow> if rt_TTL r \<le> 0 then 24 * 3600 * second else rt_TTL r)"

lemma connected_ttl:
  "Connect D uri dbName overrides st = (st', Inr db) \<Longrightarrow> rt_TTL (db_LogRetention db) = configured_ttl overrides"
  by (auto simp: Connect_def EnsureIndexes_def Let_def normalizeLogRetention_def DefaultLogRetention_def configured_ttl_def
      defaultTrafficLogTTL_def second_def split: prod.splits option.splits list.splits)



end
