(* ===== verification/Api_Routes.thy ===== *)
theory Api_Routes
  imports Http_Auth
begin

text \<open>
  The route table of the API, \<open>registerRoutes\<close> of \<open>internal/api/server.go\<close>, behind the middleware.
  The multiplexer of \<open>net/http\<close> is modelled as far as the table uses it: a pattern is a method and a
  path of literal and single wildcard segments, \<open>GET\<close> also serves \<open>HEAD\<close>, a path that is not in
  its cleaned form is redirected. Paths are taken without escaped slashes.
\<close>

subsection \<open>The table\<close>

datatype route_handler =
    HandleSignup
  | HandleLogin
  | HandleRefresh
  | HandleLogout
  | HandleMe
  | HandleOAuthStart
  | HandleOAuthCallback
  | HandleQuickStartState
  | HandleListDataSources
  | HandleCreateDataSource
  | HandleDeleteDataSource
  | HandleCreateAgentEnrollment
  | HandleRegisterAgent
  | HandleAgentHeartbeat
  | HandleAgentConfig
  | HandleGetSecuritySettings
  | HandleUpdateSecuritySettings
  | HandleGetInventory
  | HandleListTestTypes
  | HandleListSuitePresets
  | HandleTriggerSuite
  | HandleGetSuite
  | HandleTriggerScan
  | HandleGetScanJob
  | HandleGetScanResults
  | HandleListScanJobs
  | HandleCancelScanJob
  | HandleRerunScanJob
  | HandleGetScanProgressEvents
  | HandleListIssues
  | HandleUpdateIssue
  | HandleGetInventoryByID
  | HandleListAgents
  | HandleListAgentEnrollments
  | HandleMetricsSummary
  | HandleIngestConversation
  | HandleAccountIngest
  | HandleGetIngestToken
  | HandleRotateIngestToken

definition registerRoutes :: "(string \<times> route_handler) list" where
  "registerRoutes =
     [(''POST /auth/signup'', HandleSignup),
      (''POST /auth/login'', HandleLogin),
      (''POST /auth/refresh'', HandleRefresh),
      (''POST /auth/logout'', HandleLogout),
      (''GET /auth/me'', HandleMe),
      (''GET /auth/oauth/{provider}'', HandleOAuthStart),
      (''GET /auth/oauth/{provider}/callback'', HandleOAuthCallback),
      (''GET /quick-start'', HandleQuickStartState),
      (''POST /api/fetchQuickStartPageState'', HandleQuickStartState),
      (''GET /data-sources'', HandleListDataSources),
      (''POST /data-sources'', HandleCreateDataSource),
      (''DELETE /data-sources/{id}'', HandleDeleteDataSource),
      (''POST /agent-enrollments'', HandleCreateAgentEnrollment),
      (''POST /agents/register'', HandleRegisterAgent),
      (''POST /agents/heartbeat'', HandleAgentHeartbeat),
      (''GET /agents/config'', HandleAgentConfig),
      (''GET /settings/security'', HandleGetSecuritySettings),
      (''PUT /settings/security'', HandleUpdateSecuritySettings),
      (''GET /inventory'', HandleGetInventory),
      (''GET /scan/test-types'', HandleListTestTypes),
      (''GET /v1/scan/test-types'', HandleListTestTypes),
      (''GET /scan/suite-presets'', HandleListSuitePresets),
      (''GET /v1/scan/suite-presets'', HandleListSuitePresets),
      (''POST /scan/suite'', HandleTriggerSuite),
      (''POST /v1/scans/suite'', HandleTriggerSuite),
      (''GET /scan/suites/{id}'', HandleGetSuite),
      (''GET /v1/scan/suites/{id}'', HandleGetSuite),
      (''POST /scan'', HandleTriggerScan),
      (''GET /scan-jobs/{id}'', HandleGetScanJob),
      (''GET /scan-results'', HandleGetScanResults),
      (''POST /v1/scans'', HandleTriggerScan),
      (''GET /v1/scans'', HandleListScanJobs),
      (''GET /v1/scans/{id}'', HandleGetScanJob),
      (''POST /v1/scans/{id}/cancel'', HandleCancelScanJob),
      (''POST /v1/scans/{id}/rerun'', HandleRerunScanJob),
      (''GET /v1/scans/{id}/events'', HandleGetScanProgressEvents),
      (''GET /issues'', HandleListIssues),
      (''GET /v1/issues'', HandleListIssues),
      (''PATCH /v1/issues/{id}'', HandleUpdateIssue),
      (''GET /inventory/{id}'', HandleGetInventoryByID),
      (''GET /v1/agents'', HandleListAgents),
      (''GET /v1/agent-enrollments'', HandleListAgentEnrollments),
      (''GET /v1/metrics/summary'', HandleMetricsSummary),
      (''POST /v1/ingest/conversations'', HandleIngestConversation),
      (''POST /ingest'', HandleAccountIngest),
      (''GET /account/ingest-token'', HandleGetIngestToken),
      (''POST /account/ingest-token/rotate'', HandleRotateIngestToken),
      (''GET /v1/data-sources'', HandleListDataSources),
      (''POST /v1/data-sources'', HandleCreateDataSource),
      (''DELETE /v1/data-sources/{id}'', HandleDeleteDataSource)]"

datatype route_seg = Lit string | Wild string

definition pattern_seg :: "string \<Rightarrow> route_seg" where
  "pattern_seg s =
     (if s \<noteq> [] \<and> hd s = CHR ''{'' \<and> last s = CHR ''}'' then Wild (butlast (tl s)) else Lit s)"

type_synonym route_pattern = "string \<times> route_seg list"

text \<open>The path of a pattern starts with a slash.\<close>

definition parse_pattern :: "string \<Rightarrow> route_pattern" where
  "parse_pattern s =
     (case cut_at (CHR '' '') s of
        None \<Rightarrow> ([], map pattern_seg (split_on (CHR ''/'') (tl s)))
      | Some (m, p) \<Rightarrow> (m, map pattern_seg (split_on (CHR ''/'') (tl p))))"

fun seg_matches :: "route_seg \<Rightarrow> string \<Rightarrow> bool" where
  "seg_matches (Lit l) s \<longleftrightarrow> s = l"
| "seg_matches (Wild n) s \<longleftrightarrow> s \<noteq> []"

definition path_matches :: "route_seg list \<Rightarrow> string list \<Rightarrow> bool" where
  "path_matches ps ss = list_all2 seg_matches ps ss"

definition method_matches :: "string \<Rightarrow> string \<Rightarrow> bool" where
  "method_matches pm m \<longleftrightarrow> pm = [] \<or> m = pm \<or> pm = ''GET'' \<and> m = ''HEAD''"

definition clean_path :: "string \<Rightarrow> bool" where
  "clean_path path \<longleftrightarrow>
     path \<noteq> [] \<and> hd path = CHR ''/'' \<and>
     (let ss = split_on (CHR ''/'') (tl path) in list_all (\<lambda>s. s \<noteq> ''.'' \<and> s \<noteq> ''..'') ss \<and> list_all (\<lambda>s. s \<noteq> []) (butlast ss))"

definition parsed_routes :: "(route_pattern \<times> route_handler) list" where
  "parsed_routes = map (\<lambda>(p, h). (parse_pattern p, h)) registerRoutes"

definition route_matches :: "route_pattern \<Rightarrow> string \<Rightarrow> string list \<Rightarrow> bool" where
  "route_matches p m ss \<longleftrightarrow> method_matches (fst p) m \<and> path_matches (snd p) ss"

text \<open>
  No two patterns of the table match the same request (lemma \<open>routes_never_conflict\<close>), so the order of
  precedence of the multiplexer does not show.
\<close>

definition find_route :: "string \<Rightarrow> string \<Rightarrow> route_handler option" where
  "find_route m path =
     map_option snd (List.find (\<lambda>(p, h). route_matches p m (split_on (CHR ''/'') (tl path))) parsed_routes)"

definition api_mux :: "(route_handler \<Rightarrow> 'w handler) \<Rightarrow> 'w handler" where
  "api_mux serves r hdr w =
     (if \<not> clean_path (rx_Path r) then (w, hdr, Answered 301 [])
      else (case find_route (rx_Method r) (rx_Path r) of
          Some h \<Rightarrow> serves h r hdr w
        | None \<Rightarrow>
            if list_ex (\<lambda>(p, h). path_matches (snd p) (split_on (CHR ''/'') (tl (rx_Path r)))) parsed_routes
            then http_Error hdr ''Method Not Allowed'' 405 w
            else http_Error hdr ''404 page not found'' 404 w))"

subsection \<open>Which handlers ask for a role\<close>

text \<open>The roles a handler passes to \<open>requireRoles\<close> first of all; the others check in their own way.\<close>

definition handler_roles :: "route_handler \<Rightarrow> string list option" where
  "handler_roles h =
     (case h of
        HandleSignup \<Rightarrow> None | HandleLogin \<Rightarrow> None | HandleRefresh \<Rightarrow> None | HandleLogout \<Rightarrow> None | HandleMe \<Rightarrow> None
      | HandleOAuthStart \<Rightarrow> None | HandleOAuthCallback \<Rightarrow> None | HandleRegisterAgent \<Rightarrow> None
      | HandleAgentHeartbeat \<Rightarrow> None | HandleAgentConfig \<Rightarrow> None | HandleIngestConversation \<Rightarrow> None | HandleAccountIngest \<Rightarrow> None
      | HandleCreateDataSource \<Rightarrow> Some adminOnlyRoles | HandleDeleteDataSource \<Rightarrow> Some adminOnlyRoles
      | HandleCreateAgentEnrollment \<Rightarrow> Some adminOnlyRoles | HandleUpdateSecuritySettings \<Rightarrow> Some adminOnlyRoles
      | HandleGetIngestToken \<Rightarrow> Some adminOnlyRoles | HandleRotateIngestToken \<Rightarrow> Some adminOnlyRoles
      | HandleGetSecuritySettings \<Rightarrow> Some settingsReadRoles
      | HandleTriggerSuite \<Rightarrow> Some scanRoles | HandleTriggerScan \<Rightarrow> Some scanRoles | HandleCancelScanJob \<Rightarrow> Some scanRoles
      | HandleRerunScanJob \<Rightarrow> Some scanRoles | HandleUpdateIssue \<Rightarrow> Some scanRoles
      | _ \<Rightarrow> Some readRoles)"

text \<open>The handlers that are reached without a credential of the middleware.\<close>

definition self_authenticating :: "route_handler set" where
  "self_authenticating = {HandleSignup, HandleLogin, HandleRefresh, HandleOAuthStart, HandleOAuthCallback, HandleRegisterAgent,
     HandleAgentHeartbeat, HandleAgentConfig, HandleIngestConversation, HandleAccountIngest}"

text \<open>
  The handlers of the API: those that authenticate themselves, those that only need a principal, and those
  that ask for a role before their body.
\<close>

definition route_serves ::
  "(route_handler \<Rightarrow> 'w handler) \<Rightarrow> (route_handler \<Rightarrow> 'w handler) \<Rightarrow> (route_handler \<Rightarrow> principal \<Rightarrow> 'w handler) \<Rightarrow> route_handler \<Rightarrow> 'w handler" where
  "route_serves pub own body h =
     (if h \<in> self_authenticating then pub h
      else (case handler_roles h of None \<Rightarrow> own h | Some roles \<Rightarrow> guarded roles (body h)))"

subsection \<open>The table has no conflicts\<close>

fun segs_disjoint :: "route_seg list \<Rightarrow> route_seg list \<Rightarrow> bool" where
  "segs_disjoint [] [] = False"
| "segs_disjoint (Lit a # ps) (Lit b # qs) = (a \<noteq> b \<or> segs_disjoint ps qs)"
| "segs_disjoint (p # ps) (q # qs) = segs_disjoint ps qs"
| "segs_disjoint _ _ = True"

definition patterns_disjoint :: "route_pattern \<Rightarrow> route_pattern \<Rightarrow> bool" where
  "patterns_disjoint p q \<longleftrightarrow> fst p \<noteq> fst q \<and> fst p \<noteq> [] \<and> fst q \<noteq> [] \<and> fst p \<noteq> ''HEAD'' \<and> fst q \<noteq> ''HEAD'' \<or> segs_disjoint (snd p) (snd q)"

lemma segs_disjoint_sound:
  "segs_disjoint ps qs \<Longrightarrow> path_matches ps ss \<Longrightarrow> \<not> path_matches qs ss"
proof (induction ps qs arbitrary: ss rule: segs_disjoint.induct)
  case (2 a ps b qs)
  then show ?case by (cases ss) (auto simp: path_matches_def)
qed (auto simp: path_matches_def list_all2_Cons1 list_all2_Cons2)

lemma patterns_disjoint_sound:
  "patterns_disjoint p q \<Longrightarrow> route_matches p m ss \<Longrightarrow> \<not> route_matches q m ss"
  using segs_disjoint_sound [of "snd p" "snd q" ss]
  by (auto simp: patterns_disjoint_def route_matches_def method_matches_def)

lemma parsed_routes_eq:
  "parsed_routes =
     [((''POST'', [Lit ''auth'', Lit ''signup'']), HandleSignup),
      ((''POST'', [Lit ''auth'', Lit ''login'']), HandleLogin),
      ((''POST'', [Lit ''auth'', Lit ''refresh'']), HandleRefresh),
      ((''POST'', [Lit ''auth'', Lit ''logout'']), HandleLogout),
      ((''GET'', [Lit ''auth'', Lit ''me'']), HandleMe),
      ((''GET'', [Lit ''auth'', Lit ''oauth'', Wild ''provider'']), HandleOAuthStart),
      ((''GET'', [Lit ''auth'', Lit ''oauth'', Wild ''provider'', Lit ''callback'']), HandleOAuthCallback),
      ((''GET'', [Lit ''quick-start'']), HandleQuickStartState),
      ((''POST'', [Lit ''api'', Lit ''fetchQuickStartPageState'']), HandleQuickStartState),
      ((''GET'', [Lit ''data-sources'']), HandleListDataSources),
      ((''POST'', [Lit ''data-sources'']), HandleCreateDataSource),
      ((''DELETE'', [Lit ''data-sources'', Wild ''id'']), HandleDeleteDataSource),
      ((''POST'', [Lit ''agent-enrollments'']), HandleCreateAgentEnrollment),
      ((''POST'', [Lit ''agents'', Lit ''register'']), HandleRegisterAgent),
      ((''POST'', [Lit ''agents'', Lit ''heartbeat'']), HandleAgentHeartbeat),
      ((''GET'', [Lit ''agents'', Lit ''config'']), HandleAgentConfig),
      ((''GET'', [Lit ''settings'', Lit ''security'']), HandleGetSecuritySettings),
      ((''PUT'', [Lit ''settings'', Lit ''security'']), HandleUpdateSecuritySettings),
      ((''GET'', [Lit ''inventory'']), HandleGetInventory),
      ((''GET'', [Lit ''scan'', Lit ''test-types'']), HandleListTestTypes),
      ((''GET'', [Lit ''v1'', Lit ''scan'', Lit ''test-types'']), HandleListTestTypes),
      ((''GET'', [Lit ''scan'', Lit ''suite-presets'']), HandleListSuitePresets),
      ((''GET'', [Lit ''v1'', Lit ''scan'', Lit ''suite-presets'']), HandleListSuitePresets),
      ((''POST'', [Lit ''scan'', Lit ''suite'']), HandleTriggerSuite),
      ((''POST'', [Lit ''v1'', Lit ''scans'', Lit ''suite'']), HandleTriggerSuite),
      ((''GET'', [Lit ''scan'', Lit ''suites'', Wild ''id'']), HandleGetSuite),
      ((''GET'', [Lit ''v1'', Lit ''scan'', Lit ''suites'', Wild ''id'']), HandleGetSuite),
      ((''POST'', [Lit ''scan'']), HandleTriggerScan),
      ((''GET'', [Lit ''scan-jobs'', Wild ''id'']), HandleGetScanJob),
      ((''GET'', [Lit ''scan-results'']), HandleGetScanResults),
      ((''POST'', [Lit ''v1'', Lit ''scans'']), HandleTriggerScan),
      ((''GET'', [Lit ''v1'', Lit ''scans'']), HandleListScanJobs),
      ((''GET'', [Lit ''v1'', Lit ''scans'', Wild ''id'']), HandleGetScanJob),
      ((''POST'', [Lit ''v1'', Lit ''scans'', Wild ''id'', Lit ''cancel'']), HandleCancelScanJob),
      ((''POST'', [Lit ''v1'', Lit ''scans'', Wild ''id'', Lit ''rerun'']), HandleRerunScanJob),
      ((''GET'', [Lit ''v1'', Lit ''scans'', Wild ''id'', Lit ''events'']), HandleGetScanProgressEvents),
      ((''GET'', [Lit ''issues'']), HandleListIssues),
      ((''GET'', [Lit ''v1'', Lit ''issues'']), HandleListIssues),
      ((''PATCH'', [Lit ''v1'', Lit ''issues'', Wild ''id'']), HandleUpdateIssue),
      ((''GET'', [Lit ''inventory'', Wild ''id'']), HandleGetInventoryByID),
      ((''GET'', [Lit ''v1'', Lit ''agents'']), HandleListAgents),
      ((''GET'', [Lit ''v1'', Lit ''agent-enrollments'']), HandleListAgentEnrollments),
      ((''GET'', [Lit ''v1'', Lit ''metrics'', Lit ''summary'']), HandleMetricsSummary),
      ((''POST'', [Lit ''v1'', Lit ''ingest'', Lit ''conversations'']), HandleIngestConversation),
      ((''POST'', [Lit ''ingest'']), HandleAccountIngest),
      ((''GET'', [Lit ''account'', Lit ''ingest-token'']), HandleGetIngestToken),
      ((''POST'', [Lit ''account'', Lit ''ingest-token'', Lit ''rotate'']), HandleRotateIngestToken),
      ((''GET'', [Lit ''v1'', Lit ''data-sources'']), HandleListDataSources),
      ((''POST'', [Lit ''v1'', Lit ''data-sources'']), HandleCreateDataSource),
      ((''DELETE'', [Lit ''v1'', Lit ''data-sources'', Wild ''id'']), HandleDeleteDataSource)]"
  by code_simp

text \<open>Registering the table raises no conflict.\<close>

fun no_conflicts :: "(route_pattern \<times> route_handler) list \<Rightarrow> bool" where
  "no_conflicts [] = True"
| "no_conflicts (r # rs) = (list_all (\<lambda>q. patterns_disjoint (fst r) (fst q)) rs \<and> no_conflicts rs)"

lemma patterns_disjoint_methods:
  "patterns_disjoint (''GET'', ps) (''POST'', qs)" "patterns_disjoint (''POST'', ps) (''GET'', qs)"
  "patterns_disjoint (''GET'', ps) (''PUT'', qs)" "patterns_disjoint (''PUT'', ps) (''GET'', qs)"
  "patterns_disjoint (''GET'', ps) (''PATCH'', qs)" "patterns_disjoint (''PATCH'', ps) (''GET'', qs)"
  "patterns_disjoint (''GET'', ps) (''DELETE'', qs)" "patterns_disjoint (''DELETE'', ps) (''GET'', qs)"
  "patterns_disjoint (''POST'', ps) (''PUT'', qs)" "patterns_disjoint (''PUT'', ps) (''POST'', qs)"
  "patterns_disjoint (''POST'', ps) (''PATCH'', qs)" "patterns_disjoint (''PATCH'', ps) (''POST'', qs)"
  "patterns_disjoint (''POST'', ps) (''DELETE'', qs)" "patterns_disjoint (''DELETE'', ps) (''POST'', qs)"
  "patterns_disjoint (''PUT'', ps) (''PATCH'', qs)" "patterns_disjoint (''PUT'', ps) (''DELETE'', qs)"
  "patterns_disjoint (''PATCH'', ps) (''DELETE'', qs)" "patterns_disjoint (''DELETE'', ps) (''PUT'', qs)"
  "patterns_disjoint (''DELETE'', ps) (''PATCH'', qs)" "patterns_disjoint (''PATCH'', ps) (''PUT'', qs)"
  by (simp_all add: patterns_disjoint_def)

lemma patterns_disjoint_same:
  "patterns_disjoint (m, ps) (m, qs) = segs_disjoint ps qs"
  by (simp add: patterns_disjoint_def)

lemma routes_never_conflict: "no_conflicts parsed_routes"
  by (simp add: parsed_routes_eq patterns_disjoint_methods patterns_disjoint_same)

text \<open>Every clean path is a slash before its segments.\<close>

lemma clean_path_segments:
  assumes "clean_path path"
  shows "path = CHR ''/'' # join_with ''/'' (split_on (CHR ''/'') (tl path))"
  using assms by (cases path) (simp_all add: clean_path_def join_split_on)

lemma find_route_matches:
  assumes "find_route m path = Some h"
  obtains p where "(p, h) \<in> set parsed_routes" and "route_matches p m (split_on (CHR ''/'') (tl path))"
proof -
  from assms obtain p where f: "List.find (\<lambda>(p, h). route_matches p m (split_on (CHR ''/'') (tl path))) parsed_routes = Some (p, h)"
    by (auto simp: find_route_def simp del: split_paired_Ex)
  from f have "(p, h) \<in> set parsed_routes" and "route_matches p m (split_on (CHR ''/'') (tl path))"
    using find_Some_iff [of "\<lambda>(p, h). route_matches p m (split_on (CHR ''/'') (tl path))" parsed_routes "(p, h)"]
    by (auto simp: in_set_conv_nth)
  then show ?thesis by (rule that)
qed

text \<open>The paths that are exempt from authentication are those of the handlers that authenticate themselves.\<close>

definition exempt_agrees :: "route_pattern \<Rightarrow> route_handler \<Rightarrow> bool" where
  "exempt_agrees p h \<longleftrightarrow>
     (\<forall>ss. path_matches (snd p) ss \<longrightarrow> (isExemptPath (CHR ''/'' # join_with ''/'' ss) \<longleftrightarrow> h \<in> self_authenticating))"

lemma all_path_matches:
  "(\<forall>ss. path_matches [] ss \<longrightarrow> Q ss) \<longleftrightarrow> Q []"
  "(\<forall>ss. path_matches (Lit l # ps) ss \<longrightarrow> Q ss) \<longleftrightarrow> (\<forall>ss. path_matches ps ss \<longrightarrow> Q (l # ss))"
  "(\<forall>ss. path_matches (Wild n # ps) ss \<longrightarrow> Q ss) \<longleftrightarrow> (\<forall>x. x \<noteq> [] \<longrightarrow> (\<forall>ss. path_matches ps ss \<longrightarrow> Q (x # ss)))"
  by (auto simp: path_matches_def list_all2_Cons1)

lemma table_exempt_agrees: "list_all (\<lambda>(p, h). exempt_agrees p h) parsed_routes"
  by (simp add: parsed_routes_eq exempt_agrees_def all_path_matches isExemptPath_def isIngestionPath_def self_authenticating_def)

subsection \<open>What the table promises\<close>

lemma no_conflicts_unique:
  "no_conflicts rs \<Longrightarrow> (p, h) \<in> set rs \<Longrightarrow> (p2, h2) \<in> set rs \<Longrightarrow> route_matches p m ss \<Longrightarrow> route_matches p2 m ss \<Longrightarrow> h = h2"
  using patterns_disjoint_sound by (induction rs) (fastforce simp: list_all_iff)+

text \<open>A request matches one route at most, so it does not matter in which order the table is searched.\<close>

lemma route_unique:
  assumes "(p, h) \<in> set parsed_routes" and "route_matches p m (split_on (CHR ''/'') (tl path))"
  shows "find_route m path = Some h"
proof -
  let ?f = "\<lambda>(p, h). route_matches p m (split_on (CHR ''/'') (tl path))"
  have "List.find ?f parsed_routes \<noteq> None"
  proof
    assume "List.find ?f parsed_routes = None"
    then have "\<not> ?f (p, h)" using assms(1) unfolding find_None_iff by blast
    with assms(2) show False by simp
  qed
  then obtain r2 where f: "List.find ?f parsed_routes = Some r2" by blast
  then have "find_route m path = Some (snd r2)" by (simp add: find_route_def)
  from find_route_matches [OF this] obtain p2 where
    "(p2, snd r2) \<in> set parsed_routes" "route_matches p2 m (split_on (CHR ''/'') (tl path))" by blast
  with no_conflicts_unique [OF routes_never_conflict assms(1) _ assms(2)] \<open>find_route m path = Some (snd r2)\<close>
  show ?thesis by blast
qed

lemma handler_roles_self: "h \<in> self_authenticating \<Longrightarrow> handler_roles h = None"
  by (auto simp: self_authenticating_def handler_roles_def)

text \<open>
  The middleware exempts a request of the table from authentication exactly when its handler authenticates
  the caller itself; such a handler never asks for a role.
\<close>

lemma exempt_paths_are_exempt:
  assumes "clean_path path" and "find_route m path = Some h"
  shows "(isExemptPath path \<longleftrightarrow> h \<in> self_authenticating) \<and> (isExemptPath path \<longrightarrow> handler_roles h = None)"
proof -
  from find_route_matches [OF assms(2)] obtain p where p: "(p, h) \<in> set parsed_routes"
    and m: "route_matches p m (split_on (CHR ''/'') (tl path))" by blast
  from p table_exempt_agrees have "exempt_agrees p h" by (auto simp: list_all_iff)
  with m have "isExemptPath (CHR ''/'' # join_with ''/'' (split_on (CHR ''/'') (tl path))) \<longleftrightarrow> h \<in> self_authenticating"
    unfolding exempt_agrees_def route_matches_def by blast
  then show ?thesis
    using handler_roles_self by (simp only: clean_path_segments [OF assms(1), symmetric]) blast
qed

text \<open>A request that some handler behind the middleware answers is one that the table lets it answer.\<close>

lemma api_needs_principal:
  "serve M (api_mux (route_serves pub own body)) (incoming r) hdr w = serve M (api_mux (route_serves pub own' body')) (incoming r) hdr w \<or>
   (\<exists>h p0 r' hdr' w'.
      find_route (rx_Method r) (rx_Path r) = Some h \<and> h \<notin> self_authenticating \<and> admitted M (incoming r) (snd w') r' \<and>
      rx_Principal r' = Some p0 \<and> authenticated_as M (incoming r) (snd w') p0 \<and>
      (case handler_roles h of
         None \<Rightarrow> serve M (api_mux (route_serves pub own body)) (incoming r) hdr w = Recoverer (own h) r' hdr' w'
       | Some roles \<Rightarrow> \<exists>p. has_role p0 p roles \<and>
           serve M (api_mux (route_serves pub own body)) (incoming r) hdr w = Recoverer (body h p) r' hdr' w'))"
proof -
  let ?mux = "api_mux (route_serves pub own body)" and ?mux' = "api_mux (route_serves pub own' body')"
  from serve_stops_or_admits [of M "incoming r" hdr w] show ?thesis
  proof
    assume "\<exists>res. \<forall>mux. serve M mux (incoming r) hdr w = res"
    then show ?thesis by auto
  next
    assume "\<exists>r' hdr' w'. admitted M (incoming r) (snd w') r' \<and> (\<forall>mux. serve M mux (incoming r) hdr w = Recoverer mux r' hdr' w')"
    then obtain r' hdr' w' where adm: "admitted M (incoming r) (snd w') r'"
      and s: "\<And>mux. serve M mux (incoming r) hdr w = Recoverer mux r' hdr' w'" by blast
    have path: "rx_Path r' = rx_Path r" "rx_Method r' = rx_Method r"
      using adm by (simp_all add: admitted_def same_request_def incoming_def)
    show ?thesis
    proof (cases "\<exists>h. clean_path (rx_Path r) \<and> find_route (rx_Method r) (rx_Path r) = Some h \<and> h \<notin> self_authenticating")
      case False
      then have "?mux r' hdr' w' = ?mux' r' hdr' w'"
        by (auto simp: api_mux_def path route_serves_def split: option.split)
      then show ?thesis by (simp add: s Recoverer_def)
    next
      case True
      then obtain h where c: "clean_path (rx_Path r)" and f: "find_route (rx_Method r) (rx_Path r) = Some h"
        and pub: "h \<notin> self_authenticating" by blast
      from exempt_paths_are_exempt [OF c f] pub have "\<not> isExemptPath (rx_Path r)" by simp
      with adm obtain p0 where p0: "rx_Principal r' = Some p0" "authenticated_as M (incoming r) (snd w') p0"
        by (auto simp: admitted_def incoming_def)
      have run: "?mux r' hdr' w' = (case handler_roles h of None \<Rightarrow> own h | Some roles \<Rightarrow> guarded roles (body h)) r' hdr' w'"
        and run': "?mux' r' hdr' w' = (case handler_roles h of None \<Rightarrow> own' h | Some roles \<Rightarrow> guarded roles (body' h)) r' hdr' w'"
        using c f pub by (simp_all add: api_mux_def path route_serves_def)
      show ?thesis
      proof (cases "handler_roles h")
        case None
        have "serve M ?mux (incoming r) hdr w = Recoverer (own h) r' hdr' w'"
          unfolding s by (rule Recoverer_cong) (simp add: run None)
        with f pub adm p0 None show ?thesis by (intro disjI2 exI conjI) (assumption | simp)+
      next
        case (Some roles)
        show ?thesis
        proof (cases "requireRoles r' roles")
          case (Inl e)
          then have "?mux r' hdr' w' = ?mux' r' hdr' w'" by (simp add: run run' Some guarded_def)
          then show ?thesis by (simp add: s Recoverer_def)
        next
          case (Inr p)
          from requireRoles_has_role [OF this] p0(1) have role: "has_role p0 p roles" by auto
          have "serve M ?mux (incoming r) hdr w = Recoverer (body h p) r' hdr' w'"
            unfolding s by (rule Recoverer_cong) (simp add: run Some guarded_def Inr)
          with f pub adm p0 Some role show ?thesis by (intro disjI2 exI conjI) (assumption | simp | blast)+
        qed
      qed
    qed
  qed
qed

text \<open>
  Property C2. The route table is unambiguous and agrees with the exemptions of the middleware: all patterns
  that match a request lead to the same handler, and a matched request is exempt from authentication
  exactly when its handler authenticates the caller itself, which then never asks for a role.
\<close>

theorem route_table_is_sound:
  assumes "clean_path path" and "find_route m path = Some h"
  shows "(\<forall>p2 h2. (p2, h2) \<in> set parsed_routes \<and> route_matches p2 m (split_on (CHR ''/'') (tl path)) \<longrightarrow> h2 = h) \<and>
    (isExemptPath path \<longleftrightarrow> h \<in> self_authenticating) \<and> (isExemptPath path \<longrightarrow> handler_roles h = None)"
proof -
  have "h2 = h" if "(p2, h2) \<in> set parsed_routes" "route_matches p2 m (split_on (CHR ''/'') (tl path))" for p2 h2
    using route_unique [OF that] assms(2) by simp
  with exempt_paths_are_exempt [OF assms] show ?thesis by blast
qed

theorem route_table_is_sound_witness:
  "find_route ''GET'' ''/auth/oauth/google'' = Some HandleOAuthStart \<and> isExemptPath ''/auth/oauth/google'' \<and>
   find_route ''PATCH'' ''/v1/issues/7'' = Some HandleUpdateIssue \<and> \<not> isExemptPath ''/v1/issues/7''"
proof -
  have c: "clean_path ''/auth/oauth/google''" "clean_path ''/v1/issues/7''"
    by (simp_all add: clean_path_def)
  have f: "find_route ''GET'' ''/auth/oauth/google'' = Some HandleOAuthStart" "find_route ''PATCH'' ''/v1/issues/7'' = Some HandleUpdateIssue"
    by (simp_all add: find_route_def parsed_routes_eq route_matches_def method_matches_def path_matches_def)
  show ?thesis
    using route_table_is_sound [OF c(1) f(1)] route_table_is_sound [OF c(2) f(2)] f by (simp add: self_authenticating_def)
qed

end
