(* ===== verification/Kafka_Client.thy ===== *)
theory Kafka_Client
  imports Queue
begin

text \<open>
  The Kafka client of \<open>internal/queue/kafka.go\<close> and its settings in \<open>config.go\<close>. The franz-go client
  is an argument with the three calls the code makes of it: a synchronous produce, a poll that gives the
  errors and the records of a fetch, and the commit of a record. A record is identified by a number, which
  is also the ack token of the message made from it.
\<close>

subsection \<open>Settings\<close>

record kafka_config =
  kcf_Brokers :: "string list"
  kcf_ClientID :: string
  kcf_ConsumerGroup :: string
  kcf_Topics :: "string list"
  kcf_TopicPartitions :: int
  kcf_ReplicationFactor :: int
  kcf_ProduceTimeout :: int

definition defaultBrokerAddr :: string where "defaultBrokerAddr = ''127.0.0.1:19092''"
definition defaultConsumerGroup :: string where "defaultConsumerGroup = ''karaxys-runtime-analyzer''"
definition defaultProduceTimeout :: int where "defaultProduceTimeout = 10 * second"

definition DefaultTopics :: "string list" where
  "DefaultTopics = [TopicHTTPConversations, TopicAnalyzerJobs, TopicIngestDeadLetter, TopicScanJobs]"

definition durationSecondsEnvDefault :: "(string \<Rightarrow> string) \<Rightarrow> string \<Rightarrow> int \<Rightarrow> int" where
  "durationSecondsEnvDefault env key fallback =
     (let raw = trim_space (env key) in
      if raw = [] then fallback
      else (case parse_int 64 raw of None \<Rightarrow> fallback | Some v \<Rightarrow> if v \<le> 0 then fallback else wrap64 (v * second)))"

definition LoadKafkaConfigFromEnv :: "(string \<Rightarrow> string) \<Rightarrow> string list \<Rightarrow> kafka_config" where
  "LoadKafkaConfigFromEnv env defaultTopics =
     \<lparr>kcf_Brokers = queue_splitCSVEnv env ''KARAXYS_QUEUE_BROKERS'' [defaultBrokerAddr],
      kcf_ClientID = envDefault env ''KARAXYS_QUEUE_CLIENT_ID'' ''karaxys-backend'',
      kcf_ConsumerGroup = envDefault env ''KARAXYS_QUEUE_CONSUMER_GROUP'' defaultConsumerGroup,
      kcf_Topics = queue_splitCSVEnv env ''KARAXYS_QUEUE_TOPICS'' defaultTopics,
      kcf_TopicPartitions = int32EnvDefault env ''KARAXYS_QUEUE_TOPIC_PARTITIONS'' 3,
      kcf_ReplicationFactor = int16EnvDefault env ''KARAXYS_QUEUE_REPLICATION_FACTOR'' 1,
      kcf_ProduceTimeout = durationSecondsEnvDefault env ''KARAXYS_QUEUE_PRODUCE_TIMEOUT_SECONDS'' defaultProduceTimeout\<rparr>"

definition normalizedTopics :: "string list \<Rightarrow> string list" where
  "normalizedTopics values = uniq_from [] values"

subsection \<open>Records\<close>

record kafka_record =
  kr_id :: nat
  kr_Topic :: string
  kr_Key :: string
  kr_Value :: string
  kr_Headers :: "(string \<times> string) list"
  kr_Timestamp :: gotime

definition kafkaHeaders :: "string gomap \<Rightarrow> (string \<times> string) list" where
  "kafkaHeaders headers = filter (\<lambda>(k, v). k \<noteq> []) (map (\<lambda>(k, v). (trim_space k, v)) headers)"

definition messageHeaders :: "(string \<times> string) list \<Rightarrow> string gomap" where
  "messageHeaders headers =
     foldl (\<lambda>out (k, v). if trim_space k = [] then out else AList.update k v out) [] headers"

definition recordToMessage :: "kafka_record \<Rightarrow> message" where
  "recordToMessage r =
     \<lparr>msg_Topic = kr_Topic r, msg_Key = kr_Key r, msg_Value = kr_Value r, msg_Headers = messageHeaders (kr_Headers r),
      msg_Timestamp = kr_Timestamp r, msg_Attempts = 0, msg_AckToken = Some (kr_id r)\<rparr>"

subsection \<open>The client\<close>

datatype client_option = SeedBrokers "string list" | ClientID string | AllISRAcks | SnappyCompression
  | ConsumerGroup string | ConsumeTopics "string list" | DisableAutoCommit

record 'k kafka_api =
  ka_NewClient :: "client_option list \<Rightarrow> string + 'k"
  ka_ProduceSync :: "'k \<Rightarrow> int \<Rightarrow> kafka_record \<Rightarrow> 'k \<times> string option"
  ka_PollFetches :: "'k \<Rightarrow> 'k \<times> string list \<times> kafka_record list"
  ka_CommitRecords :: "'k \<Rightarrow> nat \<Rightarrow> 'k \<times> string option"

record 'k kafka_producer =
  kp_client :: "'k option"
  kp_produceTimeout :: int

record 'k kafka_consumer =
  kc_client :: "'k option"
  kc_pending :: "kafka_record list"

datatype kafka_error = KafkaNotConfigured | KafkaTopicRequired | KafkaAckToken | KafkaCtxDone | KafkaNoMessage | KafkaErr string

definition newKafkaClient :: "'k kafka_api \<Rightarrow> kafka_config \<Rightarrow> client_option list \<Rightarrow> string + 'k" where
  "newKafkaClient K cfg extraOptions =
     (let bs = normalizedTopics (kcf_Brokers cfg); brokers = (if bs = [] then [defaultBrokerAddr] else bs);
          cid = trim_space (kcf_ClientID cfg)
      in ka_NewClient K ([SeedBrokers brokers, ClientID (if cid = [] then ''karaxys-backend'' else cid)] @ extraOptions))"

definition NewKafkaProducer :: "'k kafka_api \<Rightarrow> kafka_config \<Rightarrow> string + 'k kafka_producer" where
  "NewKafkaProducer K cfg =
     (case newKafkaClient K cfg [AllISRAcks, SnappyCompression] of
        Inl err \<Rightarrow> Inl err
      | Inr client \<Rightarrow> Inr \<lparr>kp_client = Some client,
          kp_produceTimeout = (if kcf_ProduceTimeout cfg \<le> 0 then defaultProduceTimeout else kcf_ProduceTimeout cfg)\<rparr>)"

definition NewKafkaConsumer :: "'k kafka_api \<Rightarrow> kafka_config \<Rightarrow> string + 'k kafka_consumer" where
  "NewKafkaConsumer K cfg =
     (let g = trim_space (kcf_ConsumerGroup cfg); ts = normalizedTopics (kcf_Topics cfg)
      in case newKafkaClient K cfg [ConsumerGroup (if g = [] then defaultConsumerGroup else g),
            ConsumeTopics (if ts = [] then DefaultTopics else ts), DisableAutoCommit] of
           Inl err \<Rightarrow> Inl err
         | Inr client \<Rightarrow> Inr \<lparr>kc_client = Some client, kc_pending = []\<rparr>)"

text \<open>\<open>now\<close> is the clock, \<open>i\<close> the number of the new record.\<close>

definition record_of :: "int \<Rightarrow> nat \<Rightarrow> message \<Rightarrow> kafka_record" where
  "record_of now i m =
     \<lparr>kr_id = i, kr_Topic = msg_Topic m, kr_Key = msg_Key m, kr_Value = msg_Value m, kr_Headers = kafkaHeaders (msg_Headers m),
      kr_Timestamp = (if is_zero (msg_Timestamp m) then Some now else msg_Timestamp m)\<rparr>"

definition kafka_Produce ::
  "'k kafka_api \<Rightarrow> int \<Rightarrow> nat \<Rightarrow> 'k kafka_producer \<Rightarrow> message \<Rightarrow> 'k kafka_producer \<times> kafka_error option" where
  "kafka_Produce K now i p m =
     (case kp_client p of
        None \<Rightarrow> (p, Some KafkaNotConfigured)
      | Some k \<Rightarrow>
          if trim_space (msg_Topic m) = [] then (p, Some KafkaTopicRequired)
          else (case ka_ProduceSync K k (kp_produceTimeout p) (record_of now i m) of
              (k', err) \<Rightarrow> (p\<lparr>kp_client := Some k'\<rparr>, map_option KafkaErr err)))"

definition nextPending :: "'k kafka_consumer \<Rightarrow> 'k kafka_consumer \<times> message option" where
  "nextPending c =
     (case kc_pending c of
        [] \<Rightarrow> (c, None)
      | r # rs \<Rightarrow> (c\<lparr>kc_pending := rs\<rparr>, Some (recordToMessage r)))"

definition nextPendingOrNoMessage :: "'k kafka_consumer \<Rightarrow> 'k kafka_consumer \<times> (kafka_error + message)" where
  "nextPendingOrNoMessage c = (case nextPending c of (c', None) \<Rightarrow> (c', Inl KafkaNoMessage) | (c', Some m) \<Rightarrow> (c', Inr m))"

text \<open>\<open>ctxDone\<close> tells whether the context is done when the poll returns.\<close>

definition kafka_Consume :: "'k kafka_api \<Rightarrow> bool \<Rightarrow> 'k kafka_consumer \<Rightarrow> 'k kafka_consumer \<times> (kafka_error + message)" where
  "kafka_Consume K ctxDone c =
     (case nextPending c of
        (c1, Some m) \<Rightarrow> (c1, Inr m)
      | (c1, None) \<Rightarrow>
     (case kc_client c1 of
        None \<Rightarrow> (c1, Inl KafkaNotConfigured)
      | Some k \<Rightarrow>
     (case ka_PollFetches K k of
        (k', errs, rs) \<Rightarrow>
          (let c2 = c1\<lparr>kc_client := Some k'\<rparr> in
           if ctxDone then (c2, Inl KafkaCtxDone)
           else if errs \<noteq> [] then (c2, Inl (KafkaErr (hd errs)))
           else if rs = [] then (c2, Inl KafkaNoMessage)
           else nextPendingOrNoMessage (c2\<lparr>kc_pending := kc_pending c2 @ rs\<rparr>)))))"

definition kafka_Commit :: "'k kafka_api \<Rightarrow> 'k kafka_consumer \<Rightarrow> message \<Rightarrow> 'k kafka_consumer \<times> kafka_error option" where
  "kafka_Commit K c m =
     (case kc_client c of
        None \<Rightarrow> (c, None)
      | Some k \<Rightarrow>
          (case msg_AckToken m of
             None \<Rightarrow> (c, Some KafkaAckToken)
           | Some i \<Rightarrow> (case ka_CommitRecords K k i of (k', err) \<Rightarrow> (c\<lparr>kc_client := Some k'\<rparr>, map_option KafkaErr err))))"

subsection \<open>Headers\<close>

lemma messageHeaders_fold:
  assumes "distinct (map fst out @ map fst hs)" and "\<And>k v. (k, v) \<in> set hs \<Longrightarrow> trim_space k \<noteq> []"
  shows "foldl (\<lambda>out (k, v). if trim_space k = [] then out else AList.update k v out) out hs = out @ hs"
  using assms
proof (induction hs arbitrary: out)
  case (Cons h hs)
  obtain k v where h: "h = (k, v)" by (cases h)
  have new: "AList.update k v out = out @ [(k, v)]"
    using Cons.prems(1) by (induction out) (auto simp: h)
  have k: "trim_space k \<noteq> []" using Cons.prems(2) [of k v] by (simp add: h)
  have "foldl (\<lambda>out (k, v). if trim_space k = [] then out else AList.update k v out) (out @ [(k, v)]) hs = (out @ [(k, v)]) @ hs"
    by (rule Cons.IH) (use Cons.prems in \<open>auto simp: h\<close>)
  with new k show ?case by (simp add: h)
qed simp

definition headers_ok :: "string gomap \<Rightarrow> bool" where
  "headers_ok hs \<longleftrightarrow> distinct (map fst hs) \<and> list_all (\<lambda>(k, v). trim_space k = k \<and> k \<noteq> []) hs"

lemma headers_roundtrip:
  assumes "headers_ok hs"
  shows "messageHeaders (kafkaHeaders hs) = hs"
proof -
  have "kafkaHeaders hs = hs"
    using assms unfolding headers_ok_def kafkaHeaders_def by (induction hs) auto
  moreover have "trim_space k \<noteq> []" if "(k, v) \<in> set hs" for k v
    using that assms by (auto simp: headers_ok_def list_all_iff)
  ultimately show ?thesis
    using messageHeaders_fold [of "[]" hs] assms by (simp add: messageHeaders_def headers_ok_def)
qed

text \<open>A message is read as it was produced, with a new ack token and no attempts.\<close>

lemma message_roundtrip:
  assumes "headers_ok (msg_Headers m)"
  shows "recordToMessage (record_of now i m) =
    m\<lparr>msg_Timestamp := (if is_zero (msg_Timestamp m) then Some now else msg_Timestamp m), msg_Attempts := 0, msg_AckToken := Some i\<rparr>"
  by (simp add: recordToMessage_def record_of_def headers_roundtrip [OF assms])

subsection \<open>Consuming\<close>

text \<open>The records a call of \<open>Consume\<close> keeps of the fetch it makes, and those it drops.\<close>

definition fetch_of :: "'k kafka_api \<Rightarrow> 'k kafka_consumer \<Rightarrow> string list \<times> kafka_record list" where
  "fetch_of K c = (case (kc_pending c, kc_client c) of ([], Some k) \<Rightarrow> snd (ka_PollFetches K k) | _ \<Rightarrow> ([], []))"

definition kept :: "'k kafka_api \<Rightarrow> bool \<Rightarrow> 'k kafka_consumer \<Rightarrow> kafka_record list" where
  "kept K d c = (case fetch_of K c of (errs, rs) \<Rightarrow> if d \<or> errs \<noteq> [] then [] else rs)"

definition dropped :: "'k kafka_api \<Rightarrow> bool \<Rightarrow> 'k kafka_consumer \<Rightarrow> kafka_record list" where
  "dropped K d c = (case fetch_of K c of (errs, rs) \<Rightarrow> if d \<or> errs \<noteq> [] then rs else [])"

lemma Consume_conserves:
  "case kafka_Consume K d c of (c', r) \<Rightarrow>
     map recordToMessage (kc_pending c @ kept K d c) =
       (case r of Inl e \<Rightarrow> [] | Inr m \<Rightarrow> [m]) @ map recordToMessage (kc_pending c')"
proof (cases "kc_pending c")
  case Nil
  show ?thesis
  proof (cases "kc_client c")
    case (Some k)
    obtain k' errs rs where "ka_PollFetches K k = (k', errs, rs)" by (metis prod_cases3)
    with Nil Some show ?thesis
      by (cases rs) (auto simp: kafka_Consume_def nextPending_def nextPendingOrNoMessage_def kept_def fetch_of_def Let_def)
  qed (simp add: Nil kafka_Consume_def nextPending_def kept_def fetch_of_def)
qed (simp add: kafka_Consume_def nextPending_def kept_def fetch_of_def)

text \<open>A run of calls: the messages it answers, the records it keeps and those it drops.\<close>

fun consume_run :: "'k kafka_api \<Rightarrow> 'k kafka_consumer \<Rightarrow> bool list \<Rightarrow> 'k kafka_consumer \<times> message list \<times> kafka_record list \<times> kafka_record list" where
  "consume_run K c [] = (c, [], [], [])"
| "consume_run K c (d # ds) =
     (case kafka_Consume K d c of (c1, r) \<Rightarrow>
      case consume_run K c1 ds of (c', ms, ks, ls) \<Rightarrow>
        (c', (case r of Inl e \<Rightarrow> ms | Inr m \<Rightarrow> m # ms), kept K d c @ ks, dropped K d c @ ls))"

text \<open>
  The consumer hands out the records it kept once each and in the order they were fetched.
\<close>

theorem kafka_consumer_in_order:
  "case consume_run K c ds of (c', ms, ks, ls) \<Rightarrow>
     map recordToMessage (kc_pending c @ ks) = ms @ map recordToMessage (kc_pending c')"
proof (induction ds arbitrary: c)
  case (Cons d ds)
  obtain c1 r where c1: "kafka_Consume K d c = (c1, r)" by fastforce
  obtain c' ms ks ls where run: "consume_run K c1 ds = (c', ms, ks, ls)" by (metis prod_cases4)
  from Cons.IH [of c1] Consume_conserves [where K = K and d = d and c = c] show ?case
    by (cases r) (simp_all add: c1 run append_assoc [symmetric] del: append_assoc)
qed simp

text \<open>
  A fetch that brings an error of one partition and records of another loses the records: the next call
  polls again, behind them.
\<close>

definition mixed_api :: "nat kafka_api" where
  "mixed_api =
     \<lparr>ka_NewClient = (\<lambda>opts. Inr 0), ka_ProduceSync = (\<lambda>k t r. (k, None)),
      ka_PollFetches = (\<lambda>k. (k + 1, if k = 0 then [''partition 1''] else [],
        [\<lparr>kr_id = k, kr_Topic = TopicScanJobs, kr_Key = [], kr_Value = [], kr_Headers = [], kr_Timestamp = Some 0\<rparr>])),
      ka_CommitRecords = (\<lambda>k i. (k, None))\<rparr>"

lemma mixed_fetch_loses_records:
  "case consume_run mixed_api \<lparr>kc_client = Some 0, kc_pending = []\<rparr> [False, False] of (c', ms, ks, ls) \<Rightarrow>
     map msg_AckToken ms = [Some 1] \<and> map kr_id ls = [0] \<and> kc_pending c' = []"
  by (simp add: mixed_api_def kafka_Consume_def nextPending_def nextPendingOrNoMessage_def kept_def dropped_def fetch_of_def
      recordToMessage_def)

end
