(* ===== verification/Spec2Isabelle.thy ===== *)
theory Spec2Isabelle
  imports Worker_Logic Scan_Policy Traffic_Metrics Ingest Scan_Plan Auth_Api Scan_Api_Logic
    Agents_Api Account_Tokens Account_Settings Inventory_Logic Read_Api Env_Config Scan_Findings Database
    Api_Routes Kafka_Client
begin

text \<open>
  Verification development of the Karaxys backend, an API security platform written in Go. Agents and a
  capture proxy send HTTP conversations; the ingestion stores them and hands them over; the analyzer turns
  each one into an inventory of endpoints with their parameters, sensitive data and risk; users start
  scans of these endpoints through the API; the scanner worker runs them with the nuclei engine, and the
  results become issues. State is in MongoDB collections, locks and limits are in Redis, and messages
  between the processes go through Kafka. The theories follow these parts; a definition has the name of the
  Go function, type or constant it translates, and a prefix or suffix where HOL has that name already.

  \<^bold>\<open>Conventions.\<close> A struct is a record, a Go string the list of its bytes, \<open>int\<close> and \<open>int64\<close> are \<open>int\<close> with
  \<open>wrap64\<close> written where the code can overflow, a \<open>time.Time\<close> is \<open>gotime\<close> (nanoseconds, \<open>None\<close> for the zero
  time), a map is an association list or a function. A call that can fail answers \<open>Inl\<close> error or \<open>Inr\<close>
  value. A handler is a function of the request and the state to the new state and the answer, with every
  early return of the code as a branch. What is not in the repository is an argument: the database driver,
  Redis, Kafka, the nuclei engine, JSON, regular expressions, bcrypt, SHA-256, AES-GCM, name resolution,
  the clock and the random source. What the code relies on of these is a locale, interpreted on an
  instance in memory; theorems name it as a hypothesis and their witnesses use that instance.

  \<^bold>\<open>Prelude.\<close> \<open>Go_Base\<close> (strings, strconv), \<open>Go_Utf8\<close>, \<open>Go_Base64\<close>, \<open>Go_Url\<close> and \<open>Go_Net\<close> hold the part of Go's
  library the code calls, with the shared lemmas and the collection \<open>go_str\<close>. \<open>Core_Models\<close> holds the documents
  of \<open>internal/core/models.go\<close>.

  \<^bold>\<open>The database.\<close> \<open>Doc_Store\<close>, \<open>Doc_Bulk\<close> and \<open>Doc_Upsert\<close> state a collection as the repositories use it: the
  locales \<open>doc_store\<close>, \<open>bulk_store\<close> and \<open>unique_store\<close>, with the collection in memory. An operation on one document
  is atomic; after an error it has happened or not. \<open>Database\<close> is \<open>internal/db/mongo.go\<close>: the index tables of
  all collections, that \<open>Connect\<close> hands out a database only with all of them, that they give the
  uniqueness the stores rely on, and that no time to live removes a document still in use. When the database
  removes an expired document is its own affair, an argument of that theorem; the locale \<open>ttl_monitor\<close> only says that
  it never does so early. \<open>Listing\<close> is the paged queries.

  \<^bold>\<open>Ingestion.\<close> \<open>Contracts\<close> (\<open>internal/contracts\<close>) validates the messages, \<open>Redact\<close> (\<open>internal/security/redact\<close>) masks
  them so that nothing depends on the values of their credential headers, \<open>Ingest\<close> (\<open>internal/ingest\<close> and the account handler) binds the identity of the sender, saves, stores and
  publishes in this order, \<open>Traffic_Store\<close> drops noise, stores each conversation once and prunes. \<open>Queue\<close> and
  \<open>Kafka_Client\<close> are \<open>internal/queue\<close>: envelopes, the broker in memory (a queue per topic, locale \<open>topic_queue\<close>) and the
  Kafka producer and consumer.

  \<^bold>\<open>Analysis.\<close> \<open>Event_Workers\<close> holds the runtime analyzer, the dead-letter consumer and publisher: a message is
  committed only after it was handled. \<open>Analyzer\<close>, \<open>Endpoint\<close>, \<open>Endpoint_Rules\<close>, \<open>Risk\<close>, \<open>Pii_Catalog\<close>, \<open>Pii_Verifiers\<close>
  and \<open>Pii_Iban\<close> are the detection and classification of \<open>internal/analyzer\<close>; \<open>Inventory_Store\<close>,
  \<open>Inventory_Logic\<close> and \<open>Traffic_Metrics\<close> are what it writes: no endpoint twice, counters that
  count, no sample with a credential header in the clear.

  \<^bold>\<open>Scans.\<close> \<open>Scan_Jobs\<close> is the job queue of the repository and \<open>Scan_Job_Store\<close> its guarantees: terminal jobs are
  frozen, a claim is exclusive, statuses and times agree, and every sequence of calls refines a small state
  machine. \<open>Scan_Policy\<close> (\<open>internal/scanpolicy\<close>) decides which targets may be scanned, \<open>Scan_Plan\<close>
  (\<open>internal/scanplan\<close>) builds the attack request, \<open>Templates\<close> (\<open>internal/scanner\<close>) the registry and suites,
  \<open>Scan_Secrets\<close> the encrypted credentials. \<open>Coordination\<close> is Redis (rate limiter, lock, semaphore): a lock has
  one holder, a semaphore no more live grants than its limit. \<open>Scan_Control\<close> holds the limits. \<open>Scan_Worker\<close> translates the worker's \<open>main.go\<close>, \<open>Worker_Logic\<close> proves with
  triples over its state monad that a claimed job ends as long as the collection of jobs answers, and that the locks are
  given back. \<open>Scan_Findings\<close> is the
  nuclei scanner: which events become results, their severity and similarity. \<open>Issue_Store\<close> stores results
  and keeps the triage of issues.

  \<^bold>\<open>API.\<close> \<open>Http_Auth\<close> is the middleware chain and the roles, \<open>Api_Routes\<close> the route table behind it; this theory joins
  them with the session lookup and the start of the server. \<open>Accounts\<close> and \<open>Session_Store\<close> are users, sessions and
  linked identities, \<open>Auth_Api\<close> the authentication handlers; \<open>Agent_Store\<close>, \<open>Agent_Logic\<close> and \<open>Agents_Api\<close> the data
  sources, enrollments and agents; \<open>Account_Tokens\<close> and \<open>Account_Settings\<close> the ingest tokens and settings;
  \<open>Scan_Api\<close> and \<open>Scan_Api_Logic\<close> the scan endpoints; \<open>Read_Api\<close> the lists, \<open>Metrics_Summary\<close> the dashboard.
  \<open>Env_Config\<close> is the configuration and its production checks.

  \<^bold>\<open>Bounds and fuel.\<close> The loops are structural recursions but two. The loop of \<open>parseIPv6\<close> has the number of groups
  left as its fuel, the bound of the loop in the code. \<open>dead_Run\<close>, the endless loop of the dead-letter
  consumer, takes fuel; \<open>dead_letter_run_stops\<close> shows that one turn more than pass before its context is done
  is enough, and that more fuel changes nothing. Runs of other long-lived processes are lists of calls of any length.

  \<^bold>\<open>Approximations.\<close> Case conversion is that of ASCII. Similarities are rationals where the code has the nearest
  \<open>float64\<close>. Filters compare times in nanoseconds where the database keeps milliseconds. Interleaving is
  modelled where a property depends on it: the other processes of the worker and of the stores act between its calls.
  The audit log in the state of a handler is the list of the entries it hands to \<open>SaveAuditLog\<close>, whose error the code
  only logs or drops; \<open>auditAuth\<close>, about whose entries a theorem speaks, also lets the store refuse one. The scanner
  ignores a failing \<open>os.Remove\<close> of its temporary files, and so does the model, which takes them as removed.

  \<^bold>\<open>Not modelled.\<close> Logging, flag parsing, signals, listening and shutting down, and the wiring in the \<open>main\<close> functions
  other than the worker's job processing; \<open>Scanner\<close> construction and the ignore file of nuclei; the checks
  for missing (\<open>nil\<close>) parts of the dead-letter consumer, which its program always gives; the archive,
  object store, search and analytics clients, which pass documents to external services; the capture proxy
  and the browser launcher, which drive their libraries; the certificate writer; the Shannon entropy of
  \<open>verifiers.go\<close>, which is floating point and not called; the goroutines that update last-seen times beside
  a handler, whose repository calls are modelled.
\<close>

section \<open>The routes behind the middleware\<close>

text \<open>The routes of the API server run with the session lookup of the authentication handlers.\<close>

definition api_middleware ::
  "('l, ('a, 'u, 's, 'i) auth_state) middleware \<Rightarrow> ('a, 'u, 's, 'i, 't) auth_env \<Rightarrow> ('l, ('a, 'u, 's, 'i) auth_state) middleware" where
  "api_middleware M E = M\<lparr>mw_sessionAuth := Some (authenticateSessionToken E)\<rparr>"

definition is_api_key :: "('l, 'w) middleware \<Rightarrow> string \<Rightarrow> bool" where
  "is_api_key M tok \<longleftrightarrow> mw_apiKey M \<noteq> [] \<and> mw_sha M tok = mw_sha M (mw_apiKey M)"

definition is_session_user :: "('a, 'u, 's, 'i, 't) auth_env \<Rightarrow> ('a, 'u, 's, 'i) auth_state \<Rightarrow> string \<Rightarrow> principal \<Rightarrow> bool" where
  "is_session_user E st tok p \<longleftrightarrow>
     (\<exists>s u a. FindSessionByAccessTokenHash (av_db E) (av_now E 0) st (av_Hash E tok) = Inr (s, u, a) \<and>
        p = \<lparr>pr_Subject = ''user:'' @ ad_Hex (av_db E) (usr_ID u), pr_ActorType = ''user'', pr_UserID = ad_Hex (av_db E) (usr_ID u),
          pr_AccountID = ad_Hex (av_db E) (acc_ID a), pr_Role = usr_Role u\<rparr>)"

lemma api_principal:
  assumes "authenticated_as (api_middleware M E) r st p0"
  shows "request_token r \<noteq> []"
    and "is_session_user E st (request_token r) p0 \<or>
      is_api_key M (request_token r) \<and> pr_AccountID p0 = mw_apiKeyAccountID M \<and> pr_Role p0 = mw_apiKeyRole M \<and> pr_UserID p0 = []"
  using assms
  by (auto simp: authenticated_as_def api_middleware_def session_principal_def authenticateSessionToken_def is_session_user_def
      is_api_key_def split: option.splits sum.splits if_splits)

text \<open>
  Property C1. The API server answers a request independently of every handler that does not authenticate
  the caller itself, unless the request comes from an allowed origin, matches the route of the handler that
  runs, and carries either the access token of a live session, in which case the handler runs for that
  session's user, or the configured API key, in which case it runs for the account of the key; and a
  handler that asks for a role runs only with one of its roles.
\<close>

theorem api_needs_credential:
  "serve (api_middleware M E) (api_mux (route_serves pub own body)) (incoming r) hdr w =
     serve (api_middleware M E) (api_mux (route_serves pub own' body')) (incoming r) hdr w \<or>
   (\<exists>h p0 r' hdr' ls st.
      find_route (rx_Method r) (rx_Path r) = Some h \<and> h \<notin> self_authenticating \<and> admitted (api_middleware M E) (incoming r) st r' \<and>
      request_token (incoming r) \<noteq> [] \<and>
      (is_session_user E st (request_token (incoming r)) p0 \<or>
       is_api_key M (request_token (incoming r)) \<and> pr_AccountID p0 = mw_apiKeyAccountID M \<and> pr_Role p0 = mw_apiKeyRole M \<and>
       pr_UserID p0 = []) \<and>
      (case handler_roles h of
         None \<Rightarrow> rx_Principal r' = Some p0 \<and>
           serve (api_middleware M E) (api_mux (route_serves pub own body)) (incoming r) hdr w = Recoverer (own h) r' hdr' (ls, st)
       | Some roles \<Rightarrow> \<exists>p. has_role p0 p roles \<and>
           serve (api_middleware M E) (api_mux (route_serves pub own body)) (incoming r) hdr w = Recoverer (body h p) r' hdr' (ls, st)))"
  using api_needs_principal [of "api_middleware M E" pub own body r hdr w own' body']
proof (elim disjE exE conjE)
  fix h p0 r' hdr' and w' :: "'a limiters \<times> ('b, 'c, 'd, 'e) auth_state"
  assume f: "find_route (rx_Method r) (rx_Path r) = Some h" "h \<notin> self_authenticating"
    and a: "admitted (api_middleware M E) (incoming r) (snd w') r'"
    and p0: "rx_Principal r' = Some p0" and p: "authenticated_as (api_middleware M E) (incoming r) (snd w') p0"
    and run: "case handler_roles h of
        None \<Rightarrow> serve (api_middleware M E) (api_mux (route_serves pub own body)) (incoming r) hdr w = Recoverer (own h) r' hdr' w'
      | Some roles \<Rightarrow> \<exists>p. has_role p0 p roles \<and>
          serve (api_middleware M E) (api_mux (route_serves pub own body)) (incoming r) hdr w = Recoverer (body h p) r' hdr' w'"
  obtain ls st where w: "w' = (ls, st)" by fastforce
  have "case handler_roles h of
        None \<Rightarrow> rx_Principal r' = Some p0 \<and>
          serve (api_middleware M E) (api_mux (route_serves pub own body)) (incoming r) hdr w = Recoverer (own h) r' hdr' (ls, st)
      | Some roles \<Rightarrow> \<exists>p. has_role p0 p roles \<and>
          serve (api_middleware M E) (api_mux (route_serves pub own body)) (incoming r) hdr w = Recoverer (body h p) r' hdr' (ls, st)"
    using run p0 unfolding w by (cases "handler_roles h") simp_all
  with f a api_principal [OF p] show ?thesis unfolding w snd_conv by blast
qed blast

section \<open>The start of the API server\<close>

text \<open>
  \<open>StartWithContext\<close> up to the listening server: the middleware with the session lookup, and the rate limiter
  of Redis when one is configured. \<open>NewRedisRuntimeFromEnv\<close> never answers an error, so its model has none
  and the branch of the code that stops a production server without Redis cannot be taken.
\<close>

definition StartWithContext ::
  "('a, 'u, 's, 'i, 't) auth_env \<Rightarrow> (string \<Rightarrow> string) \<Rightarrow> (redis_config \<Rightarrow> 'r redis) \<Rightarrow>
   ('r redis \<Rightarrow> string \<Rightarrow> ('a, 'u, 's, 'i) auth_state \<Rightarrow> string \<Rightarrow> int \<Rightarrow> int \<Rightarrow> ('a, 'u, 's, 'i) auth_state \<times> (string + bool)) \<Rightarrow>
   (string \<Rightarrow> string) \<Rightarrow> (string \<Rightarrow> string) \<Rightarrow> 'l \<Rightarrow> (int \<Rightarrow> 'l \<Rightarrow> 'l \<times> bool) \<Rightarrow> int \<Rightarrow> string \<Rightarrow>
   string \<times> ('l, ('a, 'u, 's, 'i) auth_state) middleware" where
  "StartWithContext E env dial limiterOf sha hex8 new_lim lim_allow now addr =
     (let opts = middlewareOptionsFromEnv env (authenticateSessionToken E);
          opts1 = (case NewRedisRuntimeFromEnv dial env of
              None \<Rightarrow> opts
            | Some rt \<Rightarrow> opts\<lparr>mo_RateLimiter := map_option (\<lambda>c. limiterOf c (rr_KeyPrefix rt)) (rr_Client rt)\<rparr>)
      in (if trim_space addr = [] then '':8081'' else addr, NewMiddleware sha hex8 new_lim lim_allow now 100 opts1))"

lemma started_server_looks_up_sessions:
  "api_middleware (snd (StartWithContext E env dial limiterOf sha hex8 nl la now addr)) E =
     snd (StartWithContext E env dial limiterOf sha hex8 nl la now addr)"
  by (simp add: StartWithContext_def api_middleware_def middlewareOptionsFromEnv_def NewMiddleware_def with_defaults_def Let_def
      split: option.split)

text \<open>A server with a Redis address shares its rate limits through Redis, every other one limits on its own.\<close>

lemma started_server_limits:
  "(mw_rateLimiter (snd (StartWithContext E env dial limiterOf sha hex8 nl la now addr)) = None) =
     (trim_space (env ''KARAXYS_REDIS_ADDR'') = [])"
  by (simp add: StartWithContext_def middlewareOptionsFromEnv_def NewMiddleware_def with_defaults_def NewRedisRuntimeFromEnv_def
      NewRedisClient_def Let_def)

text \<open>The publisher of conversations: \<open>Inl\<close> stops the process.\<close>

definition configureIngestQueuePublisherFromEnv :: "(string \<Rightarrow> string) \<Rightarrow> 'k kafka_api \<Rightarrow> string + 'k kafka_producer option" where
  "configureIngestQueuePublisherFromEnv env K =
     (if \<not> queuePublishingEnabled env then Inr None
      else (case NewKafkaProducer K (LoadKafkaConfigFromEnv env [TopicHTTPConversations]) of
          Inl err \<Rightarrow> if is_production env then Inl err else Inr None
        | Inr p \<Rightarrow> Inr (Some p)))"

lemma production_server_publishes:
  "is_production env \<Longrightarrow> configureIngestQueuePublisherFromEnv env K \<noteq> Inr None"
  by (simp add: configureIngestQueuePublisherFromEnv_def queuePublishingEnabled_def split: sum.split)

end
